(* ===== verification/Go_Prelude.thy ===== *)
theory Go_Prelude
  imports Main "HOL-Library.AList" "HOL-Library.List_Lexorder" "HOL-Library.Char_ord"
    "HOL-Library.Multiset"
begin

text \<open>
  What the components of the development share: the parts of Go and of its standard
  library that the sources of VibeDeck use.

  \<^item> A Go \<open>string\<close> is a list of bytes (\<open>char\<close>), so \<open>length\<close> is Go's \<open>len\<close> and
    slicing cuts bytes. The literals of the sources that are not ASCII are written as
    their UTF-8 bytes.
  \<^item> A Go \<open>error\<close> is a value of \<open>goerror\<close>; a call that returns \<open>(T, error)\<close> is a sum.
  \<^item> A Go \<open>map\<close> is an association list with distinct keys (\<open>AList\<close>). The order in
    which \<open>range\<close> visits a map is not specified by the language, so the loops over maps
    take the visiting order as an argument and the lemmas hold for every order.
  \<^item> An instant is an integer number of nanoseconds since the Unix epoch; a
    \<open>time.Duration\<close> is an \<open>int64\<close> of nanoseconds, whose products and sums wrap.
    Every reading of the clock is an argument of the operation that takes it.
  \<^item> Counters that are only incremented are unbounded integers.
\<close>

named_theorems go_string \<open>rewriting of the string functions\<close>
named_theorems go_map \<open>lookup after an update of a Go map\<close>

section \<open>Errors\<close>

text \<open>
  \<open>errors.New\<close>, a package-level sentinel, and \<open>fmt.Errorf\<close> with one \<open>%w\<close>. Two calls of
  \<open>errors.New\<close> are different pointers, so only sentinels answer to \<open>errors.Is\<close>.
\<close>

datatype goerror =
    ErrNew string
  | ErrSentinel string
  | ErrWrap string goerror string

fun Error :: "goerror \<Rightarrow> string" where
  "Error (ErrNew m) = m"
| "Error (ErrSentinel m) = m"
| "Error (ErrWrap pre e post) = pre @ Error e @ post"

fun errors_Is :: "goerror \<Rightarrow> goerror \<Rightarrow> bool" where
  "errors_Is (ErrNew m) target = False"
| "errors_Is (ErrSentinel m) target = (target = ErrSentinel m)"
| "errors_Is (ErrWrap pre e post) target = errors_Is e target"

definition DeadlineExceeded :: goerror where
  "DeadlineExceeded = ErrSentinel ''context deadline exceeded''"

type_synonym 'a result = "goerror + 'a"

definition bind_result :: "'a result \<Rightarrow> ('a \<Rightarrow> 'b result) \<Rightarrow> 'b result" where
  "bind_result r f = (case r of Inl e \<Rightarrow> Inl e | Inr x \<Rightarrow> f x)"

definition map_result :: "('a \<Rightarrow> 'b) \<Rightarrow> 'a result \<Rightarrow> 'b result" where
  "map_result f r = (case r of Inl e \<Rightarrow> Inl e | Inr x \<Rightarrow> Inr (f x))"

lemma bind_result_simps [simp]:
  "bind_result (Inl e) f = Inl e" "bind_result (Inr x) f = f x"
  by (simp_all add: bind_result_def)

lemma map_result_simps [simp]:
  "map_result f (Inl e) = Inl e" "map_result f (Inr x) = Inr (f x)"
  by (simp_all add: map_result_def)

lemma map_result_eq_Inr: "map_result f r = Inr y \<longleftrightarrow> (\<exists>x. r = Inr x \<and> y = f x)"
  by (cases r) auto

lemma bind_result_eq_Inr: "bind_result r f = Inr y \<longleftrightarrow> (\<exists>x. r = Inr x \<and> f x = Inr y)"
  by (cases r) auto

section \<open>64-bit integers, instants and durations\<close>

definition wrap64 :: "int \<Rightarrow> int" where
  "wrap64 x = (x + 2 ^ 63) mod 2 ^ 64 - 2 ^ 63"

definition maxInt64 :: int where "maxInt64 = 2 ^ 63 - 1"
definition minInt64 :: int where "minInt64 = - (2 ^ 63)"

lemma wrap64_id: "minInt64 \<le> x \<Longrightarrow> x \<le> maxInt64 \<Longrightarrow> wrap64 x = x"
  by (simp add: wrap64_def minInt64_def maxInt64_def)

lemma wrap64_range: "minInt64 \<le> wrap64 x \<and> wrap64 x \<le> maxInt64"
proof -
  have "0 \<le> (x + 2 ^ 63) mod 2 ^ 64" "(x + 2 ^ 63) mod 2 ^ 64 < (2 ^ 64 :: int)"
    by simp_all
  then show ?thesis
    by (simp add: wrap64_def minInt64_def maxInt64_def)
qed

text \<open>Integer division of Go truncates towards zero.\<close>

definition quot :: "int \<Rightarrow> int \<Rightarrow> int" where
  "quot a b = sgn a * sgn b * (\<bar>a\<bar> div \<bar>b\<bar>)"

lemma quot_nonneg: "0 \<le> a \<Longrightarrow> 0 < b \<Longrightarrow> quot a b = a div b"
  by (cases "a = 0") (simp_all add: quot_def)

type_synonym instant = int
type_synonym duration = int

definition Millisecond :: duration where "Millisecond = 1000000"
definition Second :: duration where "Second = 1000 * Millisecond"
definition Minute :: duration where "Minute = 60 * Second"

text \<open>The zero \<open>time.Time\<close> is January 1 of year 1; \<open>Time.Sub\<close> saturates.\<close>

definition zero_time :: instant where "zero_time = - 62135596800000000000"

definition time_Sub :: "instant \<Rightarrow> instant \<Rightarrow> duration" where
  "time_Sub t u = (let d = t - u in
     if d > maxInt64 then maxInt64 else if d < minInt64 then minInt64 else d)"

definition UnixMilli :: "instant \<Rightarrow> int" where "UnixMilli t = t div Millisecond"
definition UnixNano :: "instant \<Rightarrow> int" where "UnixNano t = wrap64 t"
definition Milliseconds :: "duration \<Rightarrow> int" where "Milliseconds d = quot d Millisecond"

lemma UnixMilli_mono: "t \<le> u \<Longrightarrow> UnixMilli t \<le> UnixMilli u"
  by (simp add: UnixMilli_def Millisecond_def zdiv_mono1)

lemma UnixMilli_pos: "Millisecond \<le> t \<Longrightarrow> 0 < UnixMilli t"
  using UnixMilli_mono [of Millisecond t] by (simp add: UnixMilli_def Millisecond_def)

lemma Milliseconds_nonneg: "0 \<le> d \<Longrightarrow> Milliseconds d = d div Millisecond"
  by (simp add: Milliseconds_def quot_nonneg Millisecond_def)

lemma Milliseconds_mono: "0 \<le> d \<Longrightarrow> d \<le> e \<Longrightarrow> Milliseconds d \<le> Milliseconds e"
  by (simp add: Milliseconds_nonneg zdiv_mono1 Millisecond_def)

lemma time_Sub_nonneg_iff: "0 \<le> time_Sub t u \<longleftrightarrow> u \<le> t"
  by (auto simp: time_Sub_def Let_def maxInt64_def minInt64_def)

lemma time_Sub_range: "minInt64 \<le> time_Sub t u \<and> time_Sub t u \<le> maxInt64"
  by (auto simp: time_Sub_def Let_def maxInt64_def minInt64_def)

section \<open>Strings\<close>

definition strings_HasPrefix :: "string \<Rightarrow> string \<Rightarrow> bool" where
  "strings_HasPrefix s p \<longleftrightarrow> take (length p) s = p"

definition strings_HasSuffix :: "string \<Rightarrow> string \<Rightarrow> bool" where
  "strings_HasSuffix s p \<longleftrightarrow> strings_HasPrefix (rev s) (rev p)"

lemma HasPrefix_iff: "strings_HasPrefix s p \<longleftrightarrow> (\<exists>t. s = p @ t)"
  by (auto simp: strings_HasPrefix_def) (metis append_take_drop_id)

lemma HasPrefix_append [simp]: "strings_HasPrefix (p @ t) p"
  by (simp add: strings_HasPrefix_def)

lemma HasSuffix_iff: "strings_HasSuffix s p \<longleftrightarrow> (\<exists>t. s = t @ p)"
  by (auto simp: strings_HasSuffix_def HasPrefix_iff) (metis rev_append rev_rev_ident)

text \<open>
  \<open>strings.TrimSpace\<close> cuts the runes for which \<open>unicode.IsSpace\<close> holds. Their UTF-8 encodings are
  listed here; each starts with a byte that starts a rune and goes on with continuation
  bytes, so cutting a rune at either end is cutting one of these byte sequences.
\<close>

definition space_seqs :: "string list" where
  "space_seqs =
    [[CHR 0x20], [CHR 0x09], [CHR 0x0A], [CHR 0x0B], [CHR 0x0C], [CHR 0x0D],
     [CHR 0xC2, CHR 0x85], [CHR 0xC2, CHR 0xA0], [CHR 0xE1, CHR 0x9A, CHR 0x80],
     [CHR 0xE2, CHR 0x80, CHR 0x80], [CHR 0xE2, CHR 0x80, CHR 0x81],
     [CHR 0xE2, CHR 0x80, CHR 0x82], [CHR 0xE2, CHR 0x80, CHR 0x83],
     [CHR 0xE2, CHR 0x80, CHR 0x84], [CHR 0xE2, CHR 0x80, CHR 0x85],
     [CHR 0xE2, CHR 0x80, CHR 0x86], [CHR 0xE2, CHR 0x80, CHR 0x87],
     [CHR 0xE2, CHR 0x80, CHR 0x88], [CHR 0xE2, CHR 0x80, CHR 0x89],
     [CHR 0xE2, CHR 0x80, CHR 0x8A], [CHR 0xE2, CHR 0x80, CHR 0xA8],
     [CHR 0xE2, CHR 0x80, CHR 0xA9], [CHR 0xE2, CHR 0x80, CHR 0xAF],
     [CHR 0xE2, CHR 0x81, CHR 0x9F], [CHR 0xE3, CHR 0x80, CHR 0x80]]"

function trim_seqs :: "string list \<Rightarrow> string \<Rightarrow> string" where
  "trim_seqs seqs s =
     (case find (\<lambda>p. p \<noteq> [] \<and> strings_HasPrefix s p) seqs of
        None \<Rightarrow> s
      | Some p \<Rightarrow> trim_seqs seqs (drop (length p) s))"
  by pat_completeness auto
termination
proof (relation "measure (\<lambda>(seqs, s). length s)")
  fix seqs s p
  assume "find (\<lambda>p. p \<noteq> [] \<and> strings_HasPrefix s p) seqs = Some p"
  then have "p \<noteq> []" "strings_HasPrefix s p" by (auto simp: find_Some_iff)
  then show "((seqs, drop (length p) s), (seqs, s)) \<in> measure (\<lambda>(seqs, s). length s)"
    by (cases p) (auto simp: HasPrefix_iff)
qed simp

declare trim_seqs.simps [simp del]

definition strings_TrimSpace :: "string \<Rightarrow> string" where
  "strings_TrimSpace s = rev (trim_seqs (map rev space_seqs) (rev (trim_seqs space_seqs s)))"

text \<open>\<open>strings.Trim\<close> and \<open>strings.TrimRight\<close> with an ASCII cut set.\<close>

definition strings_TrimRight :: "string \<Rightarrow> string \<Rightarrow> string" where
  "strings_TrimRight s cutset = rev (dropWhile (\<lambda>c. c \<in> set cutset) (rev s))"

definition strings_Trim :: "string \<Rightarrow> string \<Rightarrow> string" where
  "strings_Trim s cutset = strings_TrimRight (dropWhile (\<lambda>c. c \<in> set cutset) s) cutset"

text \<open>\<open>strings.Split\<close> with a separator of one byte, \<open>strings.Join\<close>.\<close>

fun strings_Split :: "string \<Rightarrow> char \<Rightarrow> string list" where
  "strings_Split [] sep = [[]]"
| "strings_Split (c # cs) sep =
     (if c = sep then [] # strings_Split cs sep
      else (case strings_Split cs sep of
              [] \<Rightarrow> [[c]]
            | l # ls \<Rightarrow> (c # l) # ls))"

fun strings_Join :: "string list \<Rightarrow> string \<Rightarrow> string" where
  "strings_Join [] sep = []"
| "strings_Join [x] sep = x"
| "strings_Join (x # y # xs) sep = x @ sep @ strings_Join (y # xs) sep"

abbreviation LF :: char where "LF \<equiv> CHR 0x0A"
abbreviation CR :: char where "CR \<equiv> CHR 0x0D"

text \<open>\<open>strings.ReplaceAll(s, "\r\n", "\n")\<close>\<close>

fun crlf_to_lf :: "string \<Rightarrow> string" where
  "crlf_to_lf (c # d # cs) =
     (if c = CR \<and> d = LF then LF # crlf_to_lf cs else c # crlf_to_lf (d # cs))"
| "crlf_to_lf [c] = [c]"
| "crlf_to_lf [] = []"

text \<open>
  Case mapping. ASCII letters are mapped; of the other runes only those whose mapping is an
  ASCII letter are (U+0131 and U+017F to upper case, U+0130 and U+212A to lower case), so a
  comparison of the result with an ASCII string is exact; other bytes are kept.
\<close>

definition ascii_upper :: "char \<Rightarrow> char" where
  "ascii_upper c = (if (97::nat) \<le> of_char c \<and> (of_char c :: nat) \<le> 122
     then char_of (of_char c - (32::nat)) else c)"

definition ascii_lower :: "char \<Rightarrow> char" where
  "ascii_lower c = (if (65::nat) \<le> of_char c \<and> (of_char c :: nat) \<le> 90
     then char_of (of_char c + (32::nat)) else c)"

fun strings_ToUpper :: "string \<Rightarrow> string" where
  "strings_ToUpper (c # d # cs) =
     (if c = CHR 0xC4 \<and> d = CHR 0xB1 then CHR ''I'' # strings_ToUpper cs
      else if c = CHR 0xC5 \<and> d = CHR 0xBF then CHR ''S'' # strings_ToUpper cs
      else ascii_upper c # strings_ToUpper (d # cs))"
| "strings_ToUpper [c] = [ascii_upper c]"
| "strings_ToUpper [] = []"

fun strings_ToLower :: "string \<Rightarrow> string" where
  "strings_ToLower (c # d # e # cs) =
     (if c = CHR 0xC4 \<and> d = CHR 0xB0 then CHR ''i'' # strings_ToLower (e # cs)
      else if c = CHR 0xE2 \<and> d = CHR 0x84 \<and> e = CHR 0xAA then CHR ''k'' # strings_ToLower cs
      else ascii_lower c # strings_ToLower (d # e # cs))"
| "strings_ToLower [c, d] =
     (if c = CHR 0xC4 \<and> d = CHR 0xB0 then [CHR ''i''] else [ascii_lower c, ascii_lower d])"
| "strings_ToLower [c] = [ascii_lower c]"
| "strings_ToLower [] = []"

text \<open>Decimal numerals: \<open>%d\<close> and \<open>strconv.Itoa\<close>.\<close>

definition digit_char :: "nat \<Rightarrow> char" where
  "digit_char d = char_of (48 + d)"

fun nat_digits :: "nat \<Rightarrow> string" where
  "nat_digits n = (if n < 10 then [digit_char n] else nat_digits (n div 10) @ [digit_char (n mod 10)])"

declare nat_digits.simps [simp del]

definition Itoa :: "int \<Rightarrow> string" where
  "Itoa i = (if i < 0 then CHR ''-'' # nat_digits (nat (- i)) else nat_digits (nat i))"

section \<open>UTF-8\<close>

text \<open>
  The width of the rune that starts a string, by the table of \<open>unicode/utf8\<close>; 0 when the
  leading bytes are no valid encoding (\<open>DecodeRune\<close> then returns \<open>RuneError\<close> with width 1).
\<close>

definition byte :: "char \<Rightarrow> nat" where "byte c = of_char c"

definition is_cont :: "char \<Rightarrow> bool" where
  "is_cont c \<longleftrightarrow> 0x80 \<le> byte c \<and> byte c \<le> 0xBF"

fun utf8_width :: "string \<Rightarrow> nat" where
  "utf8_width [] = 0"
| "utf8_width (a # s) =
     (if byte a < 0x80 then 1
      else if 0xC2 \<le> byte a \<and> byte a \<le> 0xDF then
        (case s of b # _ \<Rightarrow> if is_cont b then 2 else 0 | [] \<Rightarrow> 0)
      else if 0xE0 \<le> byte a \<and> byte a \<le> 0xEF then
        (case s of b # c # _ \<Rightarrow>
           if (if byte a = 0xE0 then 0xA0 else 0x80) \<le> byte b
              \<and> byte b \<le> (if byte a = 0xED then 0x9F else 0xBF) \<and> is_cont c then 3 else 0
         | _ \<Rightarrow> 0)
      else if 0xF0 \<le> byte a \<and> byte a \<le> 0xF4 then
        (case s of b # c # d # _ \<Rightarrow>
           if (if byte a = 0xF0 then 0x90 else 0x80) \<le> byte b
              \<and> byte b \<le> (if byte a = 0xF4 then 0x8F else 0xBF) \<and> is_cont c \<and> is_cont d
           then 4 else 0
         | _ \<Rightarrow> 0)
      else 0)"

declare utf8_width.simps [simp del]

text \<open>\<open>encoding/json\<close> writes every invalid byte of a string as U+FFFD.\<close>

function toValidUTF8 :: "string \<Rightarrow> string" where
  "toValidUTF8 [] = []"
| "toValidUTF8 (a # s) =
     (let w = utf8_width (a # s) in
      if w = 0 then [CHR 0xEF, CHR 0xBF, CHR 0xBD] @ toValidUTF8 s
      else take w (a # s) @ toValidUTF8 (drop w (a # s)))"
  by pat_completeness auto
termination
  by (relation "measure length") auto

function valid_utf8 :: "string \<Rightarrow> bool" where
  "valid_utf8 [] = True"
| "valid_utf8 (a # s) =
     (let w = utf8_width (a # s) in if w = 0 then False else valid_utf8 (drop w (a # s)))"
  by pat_completeness auto
termination
  by (relation "measure length") auto

declare toValidUTF8.simps(2) [simp del] valid_utf8.simps(2) [simp del]

text \<open>Printable ASCII bytes other than the space, and ASCII strings.\<close>

definition plain_byte :: "char \<Rightarrow> bool" where
  "plain_byte c \<longleftrightarrow> 0x21 \<le> byte c \<and> byte c \<le> 0x7E"

definition ascii_string :: "string \<Rightarrow> bool" where
  "ascii_string s \<longleftrightarrow> (\<forall>c \<in> set s. byte c < 0x80)"

section \<open>Sorting\<close>

text \<open>
  \<open>sort.Slice\<close> and \<open>sort.Strings\<close>: the comparisons of the sources are strict total orders on
  the elements they are given, for which every sorting algorithm has the same result.
\<close>

fun insert_by :: "('a \<Rightarrow> 'a \<Rightarrow> bool) \<Rightarrow> 'a \<Rightarrow> 'a list \<Rightarrow> 'a list" where
  "insert_by lt x [] = [x]"
| "insert_by lt x (y # ys) = (if lt y x then y # insert_by lt x ys else x # y # ys)"

fun sort_by :: "('a \<Rightarrow> 'a \<Rightarrow> bool) \<Rightarrow> 'a list \<Rightarrow> 'a list" where
  "sort_by lt [] = []"
| "sort_by lt (x # xs) = insert_by lt x (sort_by lt xs)"

definition sort_Strings :: "string list \<Rightarrow> string list" where
  "sort_Strings = sort_by (<)"

text \<open>
  For a comparison that is transitive, asymmetric and total on the elements the result is
  sorted, and it is the only sorted arrangement of them.
\<close>

definition strict_order_on :: "'a set \<Rightarrow> ('a \<Rightarrow> 'a \<Rightarrow> bool) \<Rightarrow> bool" where
  "strict_order_on A lt \<longleftrightarrow>
     (\<forall>x\<in>A. \<not> lt x x) \<and> (\<forall>x\<in>A. \<forall>y\<in>A. \<forall>z\<in>A. lt x y \<longrightarrow> lt y z \<longrightarrow> lt x z) \<and>
     (\<forall>x\<in>A. \<forall>y\<in>A. x \<noteq> y \<longrightarrow> lt x y \<or> lt y x)"

section \<open>Maps\<close>

type_synonym ('k, 'v) gomap = "('k \<times> 'v) list"

definition map_keys :: "('k, 'v) gomap \<Rightarrow> 'k list" where
  "map_keys m = map fst m"

definition wf_map :: "('k, 'v) gomap \<Rightarrow> bool" where
  "wf_map m \<longleftrightarrow> distinct (map_keys m)"

text \<open>An order in which \<open>range\<close> may visit the keys of a map.\<close>

definition range_order :: "'k list \<Rightarrow> ('k, 'v) gomap \<Rightarrow> bool" where
  "range_order ks m \<longleftrightarrow> distinct ks \<and> set ks = set (map_keys m)"

section \<open>Reachable states\<close>

inductive reach :: "('s \<Rightarrow> bool) \<Rightarrow> ('s \<Rightarrow> 's \<Rightarrow> bool) \<Rightarrow> 's \<Rightarrow> bool" for init step where
  reach_init: "init s \<Longrightarrow> reach init step s"
| reach_step: "reach init step s \<Longrightarrow> step s t \<Longrightarrow> reach init step t"

section \<open>Lemmas\<close>

subsection \<open>Strings\<close>

lemma Split_nonempty [simp]: "strings_Split s c \<noteq> []"
  by (cases s) (auto split: list.split)

lemma Join_Split: "strings_Join (strings_Split s c) [c] = s"
proof (induction s)
  case (Cons a s)
  then show ?case
    by (cases "strings_Split s c"; cases "tl (strings_Split s c)") (auto split: list.splits)
qed simp

lemma Split_no_sep: "l \<in> set (strings_Split s c) \<Longrightarrow> c \<notin> set l"
  by (induction s arbitrary: l) (auto split: if_splits list.splits)

lemma Split_append_sep:
  "c \<notin> set l \<Longrightarrow> strings_Split (l @ c # s) c = l # strings_Split s c"
  by (induction l) auto

lemma Split_no: "c \<notin> set l \<Longrightarrow> strings_Split l c = [l]"
  by (induction l) auto

lemma Split_Join:
  "ls \<noteq> [] \<Longrightarrow> (\<forall>l \<in> set ls. c \<notin> set l) \<Longrightarrow> strings_Split (strings_Join ls [c]) c = ls"
  by (induction ls "[c]" rule: strings_Join.induct) (auto simp: Split_no Split_append_sep)

lemma trim_seqs_id: "\<forall>p \<in> set seqs. p = [] \<or> \<not> strings_HasPrefix s p \<Longrightarrow> trim_seqs seqs s = s"
  by (subst trim_seqs.simps) (fastforce simp: find_Some_iff split: option.splits dest: nth_mem)

lemma trim_seqs_no_prefix: "p \<in> set seqs \<Longrightarrow> p \<noteq> [] \<Longrightarrow> \<not> strings_HasPrefix (trim_seqs seqs s) p"
proof (induction seqs s rule: trim_seqs.induct)
  case (1 seqs s)
  show ?case
  proof (cases "find (\<lambda>p. p \<noteq> [] \<and> strings_HasPrefix s p) seqs")
    case None
    then have "trim_seqs seqs s = s" by (subst trim_seqs.simps) simp
    with None 1(2,3) show ?thesis by (auto simp: find_None_iff)
  next
    case (Some q)
    with 1 show ?thesis by (subst trim_seqs.simps) simp
  qed
qed

lemma trim_seqs_suffix: "\<exists>t. s = t @ trim_seqs seqs s"
proof (induction seqs s rule: trim_seqs.induct)
  case (1 seqs s)
  show ?case
  proof (cases "find (\<lambda>p. p \<noteq> [] \<and> strings_HasPrefix s p) seqs")
    case None
    then show ?thesis by (subst trim_seqs.simps) simp
  next
    case (Some q)
    with 1 obtain t where "drop (length q) s = t @ trim_seqs seqs (drop (length q) s)" by blast
    then have "s = (take (length q) s @ t) @ trim_seqs seqs (drop (length q) s)"
      by (metis append.assoc append_take_drop_id)
    moreover from Some have "trim_seqs seqs s = trim_seqs seqs (drop (length q) s)"
      by (subst trim_seqs.simps) simp
    ultimately show ?thesis by metis
  qed
qed

lemma TrimSpace_split: "\<exists>l r. s = l @ strings_TrimSpace s @ r"
proof -
  let ?m = "trim_seqs space_seqs s"
  obtain l where l: "s = l @ ?m" using trim_seqs_suffix by blast
  obtain r where "rev ?m = r @ trim_seqs (map rev space_seqs) (rev ?m)" using trim_seqs_suffix by blast
  then have "?m = strings_TrimSpace s @ rev r"
    unfolding strings_TrimSpace_def by (metis rev_append rev_rev_ident)
  with l show ?thesis by metis
qed

lemma space_seqs_nonempty: "[] \<notin> set space_seqs"
  by (simp add: space_seqs_def)

text \<open>A trimmed string neither starts nor ends with a space.\<close>

lemma TrimSpace_no_prefix:
  assumes "p \<in> set space_seqs"
  shows "\<not> strings_HasPrefix (strings_TrimSpace s) p"
proof
  let ?m = "trim_seqs space_seqs s"
  assume h: "strings_HasPrefix (strings_TrimSpace s) p"
  obtain r where "rev ?m = r @ trim_seqs (map rev space_seqs) (rev ?m)" using trim_seqs_suffix by blast
  then have "?m = strings_TrimSpace s @ rev r"
    unfolding strings_TrimSpace_def by (metis rev_append rev_rev_ident)
  with h have "strings_HasPrefix ?m p" by (metis HasPrefix_iff append.assoc)
  with trim_seqs_no_prefix assms space_seqs_nonempty show False by metis
qed

lemma TrimSpace_no_suffix:
  assumes "p \<in> set space_seqs"
  shows "\<not> strings_HasSuffix (strings_TrimSpace s) p"
  using trim_seqs_no_prefix [of "rev p" "map rev space_seqs"] assms space_seqs_nonempty
  by (auto simp: strings_HasSuffix_def strings_TrimSpace_def)

lemma TrimSpace_id:
  assumes "\<And>p. p \<in> set space_seqs \<Longrightarrow> \<not> strings_HasPrefix s p"
    and "\<And>p. p \<in> set space_seqs \<Longrightarrow> \<not> strings_HasSuffix s p"
  shows "strings_TrimSpace s = s"
proof -
  have "trim_seqs space_seqs s = s" by (rule trim_seqs_id) (use assms(1) in blast)
  moreover have "trim_seqs (map rev space_seqs) (rev s) = rev s"
    by (rule trim_seqs_id) (use assms(2) in \<open>auto simp: strings_HasSuffix_def\<close>)
  ultimately show ?thesis by (simp add: strings_TrimSpace_def)
qed

lemma TrimSpace_idem [simp]: "strings_TrimSpace (strings_TrimSpace s) = strings_TrimSpace s"
  by (rule TrimSpace_id) (simp_all add: TrimSpace_no_prefix TrimSpace_no_suffix)

lemma length_TrimSpace: "length (strings_TrimSpace s) \<le> length s"
  by (metis TrimSpace_split le_add1 le_add2 length_append order_trans)

text \<open>A string whose first and last bytes are printable ASCII is not changed by trimming.\<close>

lemma space_seqs_not_plain: "p \<in> set space_seqs \<Longrightarrow> p \<noteq> [] \<and> \<not> plain_byte (hd p) \<and> \<not> plain_byte (last p)"
  by (auto simp: space_seqs_def plain_byte_def byte_def)

lemma TrimSpace_plain:
  assumes "s \<noteq> [] \<longrightarrow> plain_byte (hd s) \<and> plain_byte (last s)"
  shows "strings_TrimSpace s = s"
proof (rule TrimSpace_id)
  fix p assume p: "p \<in> set space_seqs"
  from space_seqs_not_plain [OF p] assms show "\<not> strings_HasPrefix s p"
    by (cases p) (auto simp: HasPrefix_iff)
  from space_seqs_not_plain [OF p] assms show "\<not> strings_HasSuffix s p"
    by (auto simp: HasSuffix_iff)
qed

lemma TrimSpace_Nil [simp]: "strings_TrimSpace [] = []"
  by (rule TrimSpace_plain) simp

subsection \<open>UTF-8\<close>

lemma utf8_width_le: "utf8_width s \<le> length s"
  by (cases s) (auto simp: utf8_width.simps split: list.splits)

lemma utf8_width_cases:
  assumes "utf8_width s \<noteq> 0"
  obtains a u where "s = a # u" "\<And>v. utf8_width (a # v) = 1"
  | a b u where "s = a # b # u" "\<And>v. utf8_width (a # b # v) = 2"
  | a b c u where "s = a # b # c # u" "\<And>v. utf8_width (a # b # c # v) = 3"
  | a b c d u where "s = a # b # c # d # u" "\<And>v. utf8_width (a # b # c # d # v) = 4"
proof -
  from assms obtain a u where s: "s = a # u" by (cases s) (auto simp: utf8_width.simps)
  consider (A) "byte a < 0x80" | (B) "\<not> byte a < 0x80" "0xC2 \<le> byte a \<and> byte a \<le> 0xDF"
    | (C) "\<not> byte a < 0x80" "\<not> byte a \<le> 0xDF" "0xE0 \<le> byte a \<and> byte a \<le> 0xEF"
    | (D) "\<not> byte a < 0x80" "\<not> byte a \<le> 0xEF" "0xF0 \<le> byte a \<and> byte a \<le> 0xF4"
    using assms s by (force simp: utf8_width.simps split: if_splits)
  then show thesis
  proof cases
    case A
    then show ?thesis using that(1) [OF s] by (simp add: utf8_width.simps)
  next
    case B
    then obtain b w where "u = b # w" using assms s by (cases u) (auto simp: utf8_width.simps)
    with B assms s show ?thesis
      using that(2) [of a b w] by (simp add: utf8_width.simps split: if_splits)
  next
    case C
    then obtain b c w where "u = b # c # w"
      using assms s by (cases u; cases "tl u") (auto simp: utf8_width.simps)
    with C assms s show ?thesis
      using that(3) [of a b c w] by (simp add: utf8_width.simps split: if_splits)
  next
    case D
    then obtain b c d w where "u = b # c # d # w"
      using assms s by (cases u; cases "tl u"; cases "tl (tl u)") (auto simp: utf8_width.simps)
    with D assms s show ?thesis
      using that(4) [of a b c d w] by (simp add: utf8_width.simps split: if_splits)
  qed
qed

lemma utf8_width_take: "utf8_width s = w \<Longrightarrow> w \<noteq> 0 \<Longrightarrow> utf8_width (take w s @ t) = w"
  by (rule utf8_width_cases [of s]) auto

lemma toValidUTF8_id: "valid_utf8 s \<Longrightarrow> toValidUTF8 s = s"
  by (induction s rule: valid_utf8.induct)
     (auto simp: Let_def valid_utf8.simps(2) toValidUTF8.simps(2) split: if_splits)

lemma valid_utf8_prepend:
  assumes "utf8_width s = w" "w \<noteq> 0" "valid_utf8 t"
  shows "valid_utf8 (take w s @ t)"
proof -
  from assms(1,2) utf8_width_le [of s] have len: "length (take w s) = w" by simp
  then obtain a u where au: "take w s @ t = a # u"
    using assms(2) by (cases "take w s @ t") auto
  have "utf8_width (a # u) = w" using utf8_width_take [OF assms(1,2)] au by metis
  moreover have "drop w (a # u) = t" using len au by (metis append_eq_conv_conj)
  ultimately show ?thesis using assms(2,3) au by (simp add: valid_utf8.simps(2) Let_def)
qed

lemma valid_toValidUTF8 [simp]: "valid_utf8 (toValidUTF8 s)"
proof (induction s rule: toValidUTF8.induct)
  case (2 a s)
  show ?case
  proof (cases "utf8_width (a # s) = 0")
    case True
    have "valid_utf8 (take 3 [CHR 0xEF, CHR 0xBF, CHR 0xBD] @ toValidUTF8 s)"
      by (rule valid_utf8_prepend)
        (use 2 True in \<open>simp_all add: utf8_width.simps byte_def is_cont_def\<close>)
    with True show ?thesis by (simp add: toValidUTF8.simps(2))
  next
    case False
    with 2(2) [OF refl] show ?thesis
      by (simp only: toValidUTF8.simps(2) Let_def if_False) (rule valid_utf8_prepend, auto)
  qed
qed simp

lemma valid_utf8_ascii: "ascii_string s \<Longrightarrow> valid_utf8 s"
  by (induction s) (auto simp: ascii_string_def valid_utf8.simps(2) utf8_width.simps)

lemma valid_utf8_append: "valid_utf8 s \<Longrightarrow> valid_utf8 t \<Longrightarrow> valid_utf8 (s @ t)"
proof (induction s rule: valid_utf8.induct)
  case (2 a s)
  let ?w = "utf8_width (a # s)"
  from 2(2) have w: "?w \<noteq> 0" and v: "valid_utf8 (drop ?w (a # s))"
    by (simp_all add: valid_utf8.simps(2) Let_def split: if_splits)
  from 2(1) [OF refl w v 2(3)] have "valid_utf8 (take ?w (a # s) @ drop ?w (a # s) @ t)"
    by (rule valid_utf8_prepend [OF refl w])
  then show ?case by (metis append.assoc append_take_drop_id)
qed simp

subsection \<open>Sorting\<close>

lemma mset_insert_by [simp]: "mset (insert_by lt x xs) = add_mset x (mset xs)"
  by (induction xs) auto

lemma mset_sort_by [simp]: "mset (sort_by lt xs) = mset xs"
  by (induction xs) auto

lemma set_sort_by [simp]: "set (sort_by lt xs) = set xs"
  by (metis mset_sort_by set_mset_mset)

lemma length_sort_by [simp]: "length (sort_by lt xs) = length xs"
  by (metis mset_sort_by size_mset)

lemma distinct_sort_by [simp]: "distinct (sort_by lt xs) = distinct xs"
  by (metis mset_eq_imp_distinct_iff mset_sort_by)

lemma strict_order_on_subset: "strict_order_on A lt \<Longrightarrow> B \<subseteq> A \<Longrightarrow> strict_order_on B lt"
  unfolding strict_order_on_def by (meson subsetD)

lemma strict_order_onD:
  "strict_order_on A lt \<Longrightarrow> x \<in> A \<Longrightarrow> y \<in> A \<Longrightarrow> z \<in> A \<Longrightarrow> lt x y \<Longrightarrow> lt y z \<Longrightarrow> lt x z"
  unfolding strict_order_on_def by blast

lemma strict_order_on_total:
  "strict_order_on A lt \<Longrightarrow> x \<in> A \<Longrightarrow> y \<in> A \<Longrightarrow> x \<noteq> y \<Longrightarrow> lt x y \<or> lt y x"
  unfolding strict_order_on_def by blast

lemma sorted_insert_by:
  assumes "strict_order_on (insert x (set ys)) lt" "sorted_wrt lt ys" "x \<notin> set ys"
  shows "sorted_wrt lt (insert_by lt x ys)"
  using assms
proof (induction ys)
  case (Cons y ys)
  have tr: "lt x z" if "lt x y" "z \<in> set ys" for z
  proof -
    from Cons.prems(2) that have "lt y z" by simp
    then show ?thesis
      using strict_order_onD [OF Cons.prems(1), of x y z] that by simp
  qed
  have tot: "lt x y \<or> lt y x"
    using strict_order_on_total [OF Cons.prems(1), of x y] Cons.prems(3) by simp
  have IH: "sorted_wrt lt (insert_by lt x ys)"
    using Cons by (auto intro: strict_order_on_subset)
  have "set (insert_by lt x ys) = insert x (set ys)"
    by (metis mset_insert_by set_mset_add_mset_insert set_mset_mset)
  with IH tr tot Cons.prems show ?case by auto
qed simp

lemma sorted_sort_by:
  "strict_order_on (set xs) lt \<Longrightarrow> distinct xs \<Longrightarrow> sorted_wrt lt (sort_by lt xs)"
  by (induction xs) (auto intro!: sorted_insert_by intro: strict_order_on_subset)

lemma sorted_wrt_unique:
  assumes "strict_order_on (set xs) lt" "sorted_wrt lt xs" "sorted_wrt lt ys" "mset xs = mset ys"
  shows "xs = ys"
  using assms
proof (induction xs arbitrary: ys)
  case (Cons x xs)
  then obtain y ys' where ys: "ys = y # ys'" by (cases ys) auto
  have sets: "insert x (set xs) = insert y (set ys')"
    using Cons.prems(4) ys by (metis list.simps(15) set_mset_mset)
  have "x = y"
  proof (rule ccontr)
    assume "x \<noteq> y"
    with sets have "x \<in> set ys'" "y \<in> set xs" by auto
    with Cons.prems(2,3) ys have "lt x y" "lt y x" by auto
    with Cons.prems(1) sets show False unfolding strict_order_on_def by (metis insertCI list.simps(15))
  qed
  with Cons ys show ?case by (auto intro: strict_order_on_subset)
qed simp

lemma sort_by_unique:
  assumes "strict_order_on (set xs) lt" "distinct xs" "mset xs = mset ys"
  shows "sort_by lt xs = sort_by lt ys"
proof (rule sorted_wrt_unique)
  have set_eq: "set xs = set ys" using assms(3) by (metis set_mset_mset)
  show "strict_order_on (set (sort_by lt xs)) lt" using assms by simp
  show "sorted_wrt lt (sort_by lt xs)" using assms by (simp add: sorted_sort_by)
  show "sorted_wrt lt (sort_by lt ys)"
    using assms set_eq by (metis mset_eq_imp_distinct_iff sorted_sort_by)
  show "mset (sort_by lt xs) = mset (sort_by lt ys)" using assms by simp
qed

lemma strict_order_less: "strict_order_on A ((<) :: 'a::linorder \<Rightarrow> 'a \<Rightarrow> bool)"
  unfolding strict_order_on_def by auto

subsection \<open>Decimal numerals\<close>

lemma nat_digits_nonempty [simp]: "nat_digits n \<noteq> []"
  by (subst nat_digits.simps) simp

lemma digit_char_inj: "d < 10 \<Longrightarrow> e < 10 \<Longrightarrow> digit_char d = digit_char e \<longleftrightarrow> d = e"
  by (simp add: digit_char_def char_of_eq_iff take_bit_eq_mod)

lemma nat_digits_set: "c \<in> set (nat_digits n) \<Longrightarrow> \<exists>d<10. c = digit_char d"
proof (induction n rule: nat_digits.induct)
  case (1 n)
  show ?case
  proof (cases "n < 10")
    case True
    with 1(2) show ?thesis by (subst (asm) nat_digits.simps) auto
  next
    case False
    with 1(2) have "c \<in> set (nat_digits (n div 10)) \<or> c = digit_char (n mod 10)"
      by (subst (asm) nat_digits.simps) auto
    with 1(1) False show ?thesis by (metis mod_less_divisor zero_less_numeral)
  qed
qed

lemma nat_digits_inj: "nat_digits m = nat_digits n \<Longrightarrow> m = n"
proof (induction m arbitrary: n rule: nat_digits.induct)
  case (1 m)
  have len1: "nat_digits k = [c] \<Longrightarrow> k < 10" for k c
    by (subst (asm) nat_digits.simps) (auto split: if_splits)
  show ?case
  proof (cases "m < 10")
    case True
    then have "nat_digits m = [digit_char m]" by (subst nat_digits.simps) simp
    with 1(2) have e: "nat_digits n = [digit_char m]" by simp
    then have n: "n < 10" by (rule len1)
    then have "nat_digits n = [digit_char n]" by (subst nat_digits.simps) simp
    with e have "digit_char m = digit_char n" by simp
    with True n show ?thesis by (simp add: digit_char_inj)
  next
    case False
    have n: "\<not> n < 10"
    proof
      assume "n < 10"
      then have "nat_digits n = [digit_char n]" by (subst nat_digits.simps) simp
      with 1(2) have "nat_digits m = [digit_char n]" by simp
      then have "m < 10" by (rule len1)
      with False show False by simp
    qed
    from False 1(2) n have "nat_digits (m div 10) = nat_digits (n div 10)"
        "digit_char (m mod 10) = digit_char (n mod 10)"
      using nat_digits.simps [of m] nat_digits.simps [of n] by simp_all
    with 1(1) False have "m div 10 = n div 10" "m mod 10 = n mod 10"
      by (simp_all add: digit_char_inj)
    then show ?thesis by (metis div_mult_mod_eq)
  qed
qed

lemma Itoa_inj: "Itoa i = Itoa j \<longleftrightarrow> i = j"
proof
  assume eq: "Itoa i = Itoa j"
  have minus: "CHR ''-'' \<notin> set (nat_digits k)" for k
  proof
    assume "CHR ''-'' \<in> set (nat_digits k)"
    then obtain d where "d < 10" "CHR ''-'' = digit_char d" using nat_digits_set by blast
    then have "of_char (CHR ''-'') = (48 + d) mod (256::nat)" by (simp add: digit_char_def)
    with \<open>d < 10\<close> show False by simp
  qed
  show "i = j"
  proof (cases "i < 0"; cases "j < 0")
    assume "i < 0" "j < 0"
    with eq nat_digits_inj [of "nat (- i)" "nat (- j)"] show ?thesis by (simp add: Itoa_def)
  next
    assume "i < 0" "\<not> j < 0"
    with eq minus [of "nat j"] show ?thesis by (auto simp: Itoa_def) (metis list.set_intros(1))
  next
    assume "\<not> i < 0" "j < 0"
    with eq minus [of "nat i"] show ?thesis by (auto simp: Itoa_def)
  next
    assume "\<not> i < 0" "\<not> j < 0"
    with eq nat_digits_inj [of "nat i" "nat j"] show ?thesis by (simp add: Itoa_def)
  qed
qed simp

subsection \<open>Maps\<close>

lemma map_of_update [go_map]:
  "map_of (AList.update k v m) k' = (if k' = k then Some v else map_of m k')"
  by (simp add: update_conv')

lemma map_of_delete [go_map]:
  "map_of (AList.delete k m) k' = (if k' = k then None else map_of m k')"
  by (simp add: delete_conv')

lemma wf_map_Nil [simp]: "wf_map []"
  by (simp add: wf_map_def map_keys_def)

lemma wf_map_update [simp]: "wf_map m \<Longrightarrow> wf_map (AList.update k v m)"
  by (simp add: wf_map_def map_keys_def distinct_update)

lemma wf_map_delete [simp]: "wf_map m \<Longrightarrow> wf_map (AList.delete k m)"
  by (simp add: wf_map_def map_keys_def distinct_delete)

lemma map_keys_iff: "k \<in> set (map_keys m) \<longleftrightarrow> map_of m k \<noteq> None"
  by (auto simp: map_keys_def map_of_eq_None_iff)

lemma set_map_iff: "wf_map m \<Longrightarrow> (k, v) \<in> set m \<longleftrightarrow> map_of m k = Some v"
  by (simp add: wf_map_def map_keys_def)

lemma length_map_update: "length (AList.update k v m) = (if map_of m k = None then Suc (length m) else length m)"
  by (induction m) (auto split: if_splits)

lemma length_map_delete:
  "wf_map m \<Longrightarrow> length (AList.delete k m) = (if map_of m k = None then length m else length m - 1)"
proof (induction m)
  case (Cons kv m)
  obtain k' v where kv: "kv = (k', v)" by (cases kv)
  have "k' \<notin> set (map_keys m)" "wf_map m"
    using Cons.prems kv by (auto simp: wf_map_def map_keys_def)
  moreover from this have "k = k' \<Longrightarrow> map_of m k = None" by (auto simp: map_keys_iff)
  moreover have "map_of m k \<noteq> None \<Longrightarrow> m \<noteq> []" by auto
  ultimately show ?case using Cons.IH kv by (auto simp: neq_Nil_conv)
qed simp

lemma length_map_card:
  assumes "wf_map m"
  shows "length m = card (dom (map_of m))"
proof -
  have "card (dom (map_of m)) = card (set (map fst m))"
    by (simp add: dom_map_of_conv_image_fst)
  also have "\<dots> = length (map fst m)"
    using assms by (intro distinct_card) (simp add: wf_map_def map_keys_def)
  finally show ?thesis by simp
qed

lemma map_of_fst_in: "map_of m k = Some v \<Longrightarrow> k \<in> set (map_keys m)"
  by (simp add: map_keys_iff)

lemma range_order_keys: "wf_map m \<Longrightarrow> range_order (map_keys m) m"
  by (simp add: range_order_def wf_map_def)

lemma range_order_iff: "range_order ks m \<Longrightarrow> k \<in> set ks \<longleftrightarrow> map_of m k \<noteq> None"
  by (simp add: range_order_def map_keys_iff)

subsection \<open>Invariants of reachable states\<close>

text \<open>
  The proof obligation of a safety property: the initial states satisfy the invariant and
  every step keeps it. Each state machine of the development is an interpretation.
\<close>

locale inductive_invariant =
  fixes init :: "'s \<Rightarrow> bool" and step :: "'s \<Rightarrow> 's \<Rightarrow> bool" and inv :: "'s \<Rightarrow> bool"
  assumes inv_init: "init s \<Longrightarrow> inv s"
    and inv_step: "inv s \<Longrightarrow> step s t \<Longrightarrow> inv t"
begin

lemma reach_inv: "reach init step s \<Longrightarrow> inv s"
  by (induction rule: reach.induct) (auto intro: inv_init inv_step)

lemma steps_inv: "inv s \<Longrightarrow> step\<^sup>*\<^sup>* s t \<Longrightarrow> inv t"
  by (rotate_tac, induction rule: rtranclp_induct) (auto intro: inv_step)

end

lemma reach_rtranclp: "reach init step s \<Longrightarrow> step\<^sup>*\<^sup>* s t \<Longrightarrow> reach init step t"
  by (rotate_tac, induction rule: rtranclp_induct) (auto intro: reach_step)

end
