(* ===== verification/Go_Json.thy ===== *)
theory Go_Json
  imports Go_Prelude
begin

text \<open>
  What the sources use of \<open>encoding/json\<close>. Documents are trees: the concrete syntax (white
  space, escapes, the order of bytes) is left out, so a \<open>json.RawMessage\<close> is \<open>None\<close> when it
  has no bytes and \<open>Some j\<close> when it is the text of the value \<open>j\<close>; a byte string that is no
  JSON text is not a value of this type. The values of Go's \<open>any\<close> that the sources store
  (\<open>map[string]any\<close>) are kept as the tree that marshalling them gives. The text of the
  library's own error messages is not modelled, only that there is an error. A \<open>nil\<close> slice and
  an empty one are the same list.
\<close>

section \<open>Documents\<close>

datatype json =
    JNull
  | JBool bool
  | JInt int
  | JFrac string
  | JStr string
  | JArr "json list"
  | JObj "(string \<times> json) list"

type_synonym RawMessage = "json option"

definition json_error :: goerror where
  "json_error = ErrNew ''json: cannot unmarshal''"

section \<open>Marshalling\<close>

text \<open>Strings are written as valid UTF-8; \<open>omitempty\<close> leaves out a zero value.\<close>

definition enc_string :: "string \<Rightarrow> json" where
  "enc_string s = JStr (toValidUTF8 s)"

definition enc_strings :: "string list \<Rightarrow> json" where
  "enc_strings xs = JArr (map enc_string xs)"

definition omit_string :: "string \<Rightarrow> string \<Rightarrow> (string \<times> json) list" where
  "omit_string k s = (if s = [] then [] else [(k, enc_string s)])"

definition omit_int :: "string \<Rightarrow> int \<Rightarrow> (string \<times> json) list" where
  "omit_int k i = (if i = 0 then [] else [(k, JInt i)])"

definition omit_bool :: "string \<Rightarrow> bool \<Rightarrow> (string \<times> json) list" where
  "omit_bool k b = (if b then [(k, JBool True)] else [])"

definition omit_list :: "('a \<Rightarrow> json) \<Rightarrow> string \<Rightarrow> 'a list \<Rightarrow> (string \<times> json) list" where
  "omit_list enc k xs = (if xs = [] then [] else [(k, JArr (map enc xs))])"

section \<open>Unmarshalling\<close>

text \<open>
  An object key names the field of that name, or else the first field whose name is equal
  under case folding (the folding of \<open>encoding/json\<close>: ASCII letters, U+017F and U+212A).
  The keys are stored in the order of the document, \<open>null\<close> leaves a scalar as it is.
\<close>

fun json_fold :: "string \<Rightarrow> string" where
  "json_fold (c # d # e # cs) =
     (if c = CHR 0xC5 \<and> d = CHR 0xBF then CHR ''S'' # json_fold (e # cs)
      else if c = CHR 0xE2 \<and> d = CHR 0x84 \<and> e = CHR 0xAA then CHR ''K'' # json_fold cs
      else ascii_upper c # json_fold (d # e # cs))"
| "json_fold [c, d] =
     (if c = CHR 0xC5 \<and> d = CHR 0xBF then [CHR ''S''] else [ascii_upper c, ascii_upper d])"
| "json_fold [c] = [ascii_upper c]"
| "json_fold [] = []"

definition json_field :: "string list \<Rightarrow> string \<Rightarrow> string option" where
  "json_field names key =
     (if key \<in> set names then Some key else find (\<lambda>n. json_fold n = json_fold key) names)"

fun decode_fields ::
    "string list \<Rightarrow> (string \<Rightarrow> json \<Rightarrow> 'a \<Rightarrow> 'a result) \<Rightarrow> (string \<times> json) list \<Rightarrow> 'a \<Rightarrow> 'a result" where
  "decode_fields names put [] x = Inr x"
| "decode_fields names put ((k, v) # kvs) x =
     (case json_field names k of
        None \<Rightarrow> decode_fields names put kvs x
      | Some f \<Rightarrow> bind_result (put f v x) (decode_fields names put kvs))"

definition decode_struct ::
    "string list \<Rightarrow> (string \<Rightarrow> json \<Rightarrow> 'a \<Rightarrow> 'a result) \<Rightarrow> json \<Rightarrow> 'a \<Rightarrow> 'a result" where
  "decode_struct names put j x =
     (case j of
        JNull \<Rightarrow> Inr x
      | JObj kvs \<Rightarrow> decode_fields names put kvs x
      | _ \<Rightarrow> Inl json_error)"

definition decode_string :: "json \<Rightarrow> string \<Rightarrow> string result" where
  "decode_string j cur =
     (case j of JNull \<Rightarrow> Inr cur | JStr s \<Rightarrow> Inr s | _ \<Rightarrow> Inl json_error)"

definition decode_bool :: "json \<Rightarrow> bool \<Rightarrow> bool result" where
  "decode_bool j cur =
     (case j of JNull \<Rightarrow> Inr cur | JBool b \<Rightarrow> Inr b | _ \<Rightarrow> Inl json_error)"

definition decode_int :: "json \<Rightarrow> int \<Rightarrow> int result" where
  "decode_int j cur =
     (case j of
        JNull \<Rightarrow> Inr cur
      | JInt i \<Rightarrow> if minInt64 \<le> i \<and> i \<le> maxInt64 then Inr i else Inl json_error
      | _ \<Rightarrow> Inl json_error)"

fun decode_elems :: "(json \<Rightarrow> 'a result) \<Rightarrow> json list \<Rightarrow> 'a list result" where
  "decode_elems dec [] = Inr []"
| "decode_elems dec (j # js) =
     bind_result (dec j) (\<lambda>x. map_result (\<lambda>xs. x # xs) (decode_elems dec js))"

definition decode_list :: "(json \<Rightarrow> 'a result) \<Rightarrow> json \<Rightarrow> 'a list result" where
  "decode_list dec j =
     (case j of JNull \<Rightarrow> Inr [] | JArr js \<Rightarrow> decode_elems dec js | _ \<Rightarrow> Inl json_error)"

section \<open>Lemmas\<close>

named_theorems json_codec \<open>evaluation of encoders and decoders\<close>

lemmas [json_codec] =
  enc_strings_def omit_string_def omit_int_def omit_bool_def omit_list_def

lemma decode_struct_simps [json_codec]:
  "decode_struct names put (JObj kvs) x = decode_fields names put kvs x"
  "decode_struct names put JNull x = Inr x"
  by (simp_all add: decode_struct_def)

lemma json_field_exact [json_codec]: "k \<in> set names \<Longrightarrow> json_field names k = Some k"
  by (simp add: json_field_def)

lemma decode_enc_string [json_codec]: "valid_utf8 s \<Longrightarrow> decode_string (enc_string s) cur = Inr s"
  by (simp add: decode_string_def enc_string_def toValidUTF8_id)

lemma decode_enc_bool [json_codec]: "decode_bool (JBool b) cur = Inr b"
  by (simp add: decode_bool_def)

lemma decode_enc_int [json_codec]: "minInt64 \<le> i \<Longrightarrow> i \<le> maxInt64 \<Longrightarrow> decode_int (JInt i) cur = Inr i"
  by (simp add: decode_int_def)

lemma decode_elems_map:
  "(\<And>x. x \<in> set xs \<Longrightarrow> dec (enc x) = Inr x) \<Longrightarrow> decode_elems dec (map enc xs) = Inr xs"
  by (induction xs) auto

lemma decode_list_map [json_codec]:
  "(\<And>x. x \<in> set xs \<Longrightarrow> dec (enc x) = Inr x) \<Longrightarrow> decode_list dec (JArr (map enc xs)) = Inr xs"
  by (simp add: decode_list_def decode_elems_map)

lemma decode_list_strings [json_codec]:
  "\<forall>s \<in> set xs. valid_utf8 s \<Longrightarrow>
     decode_list (\<lambda>j. decode_string j []) (JArr (map enc_string xs)) = Inr xs"
  by (rule decode_list_map) (simp add: json_codec)

text \<open>
  The interface between a payload type and the envelopes that carry it: what the decoder
  returns on an encoded value that is within the domain of the encoding.
\<close>

locale payload_codec =
  fixes enc :: "'a \<Rightarrow> json" and dec :: "json \<Rightarrow> 'a result" and ok :: "'a \<Rightarrow> bool"
  assumes dec_enc: "ok p \<Longrightarrow> dec (enc p) = Inr p"
begin

lemma enc_inj: "ok p \<Longrightarrow> ok q \<Longrightarrow> enc p = enc q \<Longrightarrow> p = q"
  by (metis Inr_inject dec_enc)

end

end
