(* ===== verification/Protocol.thy ===== *)
theory Protocol
  imports Go_Json
begin

text \<open>
  \<open>internal/protocol\<close>: the envelope that every control and signalling message travels in,
  the message types and the payloads with their JSON encodings. The message type is a string
  in the source (any value may arrive on the wire), so it is one here. A payload is handed to
  \<open>NewEnvelope\<close> as the result of \<open>json.Marshal\<close>.
\<close>

section \<open>Message types (message\_types.go)\<close>

type_synonym MessageType = string

abbreviation TypePromptSubmit :: MessageType where "TypePromptSubmit \<equiv> ''PROMPT_SUBMIT''"
abbreviation TypePromptAck :: MessageType where "TypePromptAck \<equiv> ''PROMPT_ACK''"
abbreviation TypePatchReady :: MessageType where "TypePatchReady \<equiv> ''PATCH_READY''"
abbreviation TypePatchApply :: MessageType where "TypePatchApply \<equiv> ''PATCH_APPLY''"
abbreviation TypePatchResult :: MessageType where "TypePatchResult \<equiv> ''PATCH_RESULT''"
abbreviation TypeRunProfile :: MessageType where "TypeRunProfile \<equiv> ''RUN_PROFILE''"
abbreviation TypeRunResult :: MessageType where "TypeRunResult \<equiv> ''RUN_RESULT''"
abbreviation TypeOpenLocation :: MessageType where "TypeOpenLocation \<equiv> ''OPEN_LOCATION''"
abbreviation TypeTerm :: MessageType where "TypeTerm \<equiv> ''TERM''"
abbreviation TypeTermAck :: MessageType where "TypeTermAck \<equiv> ''TERM_ACK''"
abbreviation TypeTermSummary :: MessageType where "TypeTermSummary \<equiv> ''TERM_SUMMARY''"
abbreviation TypeSignalOffer :: MessageType where "TypeSignalOffer \<equiv> ''SIGNAL_OFFER''"
abbreviation TypeSignalAnswer :: MessageType where "TypeSignalAnswer \<equiv> ''SIGNAL_ANSWER''"
abbreviation TypeSignalICE :: MessageType where "TypeSignalICE \<equiv> ''SIGNAL_ICE''"
abbreviation TypeSignalReady :: MessageType where "TypeSignalReady \<equiv> ''SIGNAL_READY''"
abbreviation TypeCmdAck :: MessageType where "TypeCmdAck \<equiv> ''CMD_ACK''"

section \<open>The envelope (envelope.go)\<close>

record Envelope =
  SID :: string
  RID :: string
  Seq :: int
  TS :: int
  Type :: MessageType
  Payload :: RawMessage

definition zero_Envelope :: Envelope where
  "zero_Envelope = \<lparr>SID = [], RID = [], Seq = 0, TS = 0, Type = [], Payload = None\<rparr>"

definition Envelope_Validate :: "Envelope \<Rightarrow> goerror option" where
  "Envelope_Validate e =
     (if SID e = [] then Some (ErrNew ''sid is required'')
      else if RID e = [] then Some (ErrNew ''rid is required'')
      else if Seq e < 0 then Some (ErrNew ''seq must be >= 0'')
      else if TS e \<le> 0 then Some (ErrNew ''ts must be > 0'')
      else if Type e = [] then Some (ErrNew ''type is required'')
      else if Payload e = None then Some (ErrNew ''payload is required'')
      else None)"

text \<open>\<open>now\<close> is the instant that \<open>time.Now\<close> returns.\<close>

definition NewEnvelope ::
    "instant \<Rightarrow> string \<Rightarrow> string \<Rightarrow> int \<Rightarrow> MessageType \<Rightarrow> json result \<Rightarrow> Envelope result" where
  "NewEnvelope now sid rid seq typ payload =
     (case payload of
        Inl err \<Rightarrow> Inl (ErrWrap ''marshal payload: '' err [])
      | Inr bytes \<Rightarrow>
          let e = \<lparr>SID = sid, RID = rid, Seq = seq, TS = UnixMilli now, Type = typ,
                   Payload = Some bytes\<rparr>
          in case Envelope_Validate e of Some err \<Rightarrow> Inl err | None \<Rightarrow> Inr e)"

definition DecodePayload :: "Envelope \<Rightarrow> (json \<Rightarrow> 'a result) \<Rightarrow> 'a result" where
  "DecodePayload e dec =
     (case Payload e of
        None \<Rightarrow> Inl (ErrNew ''empty payload'')
      | Some bytes \<Rightarrow>
          (case dec bytes of
             Inl err \<Rightarrow> Inl (ErrWrap ''decode payload: '' err [])
           | Inr target \<Rightarrow> Inr target))"

text \<open>The struct tags of the envelope: how it is written to a socket and read back.\<close>

definition Envelope_json :: "Envelope \<Rightarrow> json" where
  "Envelope_json e = JObj
     [(''sid'', enc_string (SID e)), (''rid'', enc_string (RID e)), (''seq'', JInt (Seq e)),
      (''ts'', JInt (TS e)), (''type'', enc_string (Type e)),
      (''payload'', case Payload e of None \<Rightarrow> JNull | Some j \<Rightarrow> j)]"

definition Envelope_put :: "string \<Rightarrow> json \<Rightarrow> Envelope \<Rightarrow> Envelope result" where
  "Envelope_put f v e =
     (if f = ''sid'' then map_result (\<lambda>x. e\<lparr>SID := x\<rparr>) (decode_string v (SID e))
      else if f = ''rid'' then map_result (\<lambda>x. e\<lparr>RID := x\<rparr>) (decode_string v (RID e))
      else if f = ''seq'' then map_result (\<lambda>x. e\<lparr>Seq := x\<rparr>) (decode_int v (Seq e))
      else if f = ''ts'' then map_result (\<lambda>x. e\<lparr>TS := x\<rparr>) (decode_int v (TS e))
      else if f = ''type'' then map_result (\<lambda>x. e\<lparr>Type := x\<rparr>) (decode_string v (Type e))
      else Inr (e\<lparr>Payload := Some v\<rparr>))"

definition Envelope_unjson :: "json \<Rightarrow> Envelope result" where
  "Envelope_unjson j =
     decode_struct [''sid'', ''rid'', ''seq'', ''ts'', ''type'', ''payload''] Envelope_put j
       zero_Envelope"

section \<open>Patches and session constants (models.go)\<close>

record Hunk =
  hunkHunkID :: string
  hunkHeader :: string
  hunkDiff :: string
  hunkRisk :: string

record FilePatch =
  fpPath :: string
  fpStatus :: string
  fpHunks :: "Hunk list"

record PatchReadyPayload =
  prJobID :: string
  prSummary :: string
  prFiles :: "FilePatch list"

type_synonym TransportMode = string
abbreviation TransportP2P :: TransportMode where "TransportP2P \<equiv> ''p2p''"
abbreviation TransportRelay :: TransportMode where "TransportRelay \<equiv> ''relay''"
abbreviation TransportLAN :: TransportMode where "TransportLAN \<equiv> ''lan''"

type_synonym SessionState = string
abbreviation SessionIdle :: SessionState where "SessionIdle \<equiv> ''idle''"
abbreviation SessionConnected :: SessionState where "SessionConnected \<equiv> ''connected''"
abbreviation SessionReconnecting :: SessionState where "SessionReconnecting \<equiv> ''reconnecting''"
abbreviation SessionClosed :: SessionState where "SessionClosed \<equiv> ''closed''"

definition Hunk_json :: "Hunk \<Rightarrow> json" where
  "Hunk_json h = JObj
     ([(''hunkId'', enc_string (hunkHunkID h)), (''header'', enc_string (hunkHeader h)),
       (''diff'', enc_string (hunkDiff h))] @ omit_string ''risk'' (hunkRisk h))"

definition FilePatch_json :: "FilePatch \<Rightarrow> json" where
  "FilePatch_json f = JObj
     [(''path'', enc_string (fpPath f)), (''status'', enc_string (fpStatus f)),
      (''hunks'', JArr (map Hunk_json (fpHunks f)))]"

definition PatchReadyPayload_json :: "PatchReadyPayload \<Rightarrow> json" where
  "PatchReadyPayload_json p = JObj
     [(''jobId'', enc_string (prJobID p)), (''summary'', enc_string (prSummary p)),
      (''files'', JArr (map FilePatch_json (prFiles p)))]"

definition Hunk_put :: "string \<Rightarrow> json \<Rightarrow> Hunk \<Rightarrow> Hunk result" where
  "Hunk_put f v h =
     (if f = ''hunkId'' then map_result (\<lambda>x. h\<lparr>hunkHunkID := x\<rparr>) (decode_string v (hunkHunkID h))
      else if f = ''header'' then map_result (\<lambda>x. h\<lparr>hunkHeader := x\<rparr>) (decode_string v (hunkHeader h))
      else if f = ''diff'' then map_result (\<lambda>x. h\<lparr>hunkDiff := x\<rparr>) (decode_string v (hunkDiff h))
      else map_result (\<lambda>x. h\<lparr>hunkRisk := x\<rparr>) (decode_string v (hunkRisk h)))"

definition Hunk_unjson :: "json \<Rightarrow> Hunk result" where
  "Hunk_unjson j = decode_struct [''hunkId'', ''header'', ''diff'', ''risk''] Hunk_put j
     \<lparr>hunkHunkID = [], hunkHeader = [], hunkDiff = [], hunkRisk = []\<rparr>"

definition FilePatch_put :: "string \<Rightarrow> json \<Rightarrow> FilePatch \<Rightarrow> FilePatch result" where
  "FilePatch_put f v p =
     (if f = ''path'' then map_result (\<lambda>x. p\<lparr>fpPath := x\<rparr>) (decode_string v (fpPath p))
      else if f = ''status'' then map_result (\<lambda>x. p\<lparr>fpStatus := x\<rparr>) (decode_string v (fpStatus p))
      else map_result (\<lambda>x. p\<lparr>fpHunks := x\<rparr>) (decode_list Hunk_unjson v))"

definition FilePatch_unjson :: "json \<Rightarrow> FilePatch result" where
  "FilePatch_unjson j = decode_struct [''path'', ''status'', ''hunks''] FilePatch_put j
     \<lparr>fpPath = [], fpStatus = [], fpHunks = []\<rparr>"

definition PatchReadyPayload_put :: "string \<Rightarrow> json \<Rightarrow> PatchReadyPayload \<Rightarrow> PatchReadyPayload result" where
  "PatchReadyPayload_put f v p =
     (if f = ''jobId'' then map_result (\<lambda>x. p\<lparr>prJobID := x\<rparr>) (decode_string v (prJobID p))
      else if f = ''summary'' then map_result (\<lambda>x. p\<lparr>prSummary := x\<rparr>) (decode_string v (prSummary p))
      else map_result (\<lambda>x. p\<lparr>prFiles := x\<rparr>) (decode_list FilePatch_unjson v))"

definition PatchReadyPayload_unjson :: "json \<Rightarrow> PatchReadyPayload result" where
  "PatchReadyPayload_unjson j = decode_struct [''jobId'', ''summary'', ''files''] PatchReadyPayload_put j
     \<lparr>prJobID = [], prSummary = [], prFiles = []\<rparr>"

section \<open>Lemmas\<close>

lemma Validate_None_iff:
  "Envelope_Validate e = None \<longleftrightarrow>
     SID e \<noteq> [] \<and> RID e \<noteq> [] \<and> 0 \<le> Seq e \<and> 0 < TS e \<and> Type e \<noteq> [] \<and> Payload e \<noteq> None"
  by (simp add: Envelope_Validate_def not_le not_less)

lemma NewEnvelope_Inr_iff:
  "NewEnvelope now sid rid seq typ payload = Inr e \<longleftrightarrow>
     (\<exists>bytes. payload = Inr bytes \<and> sid \<noteq> [] \<and> rid \<noteq> [] \<and> 0 \<le> seq \<and> 0 < UnixMilli now \<and> typ \<noteq> [] \<and>
        e = \<lparr>SID = sid, RID = rid, Seq = seq, TS = UnixMilli now, Type = typ, Payload = Some bytes\<rparr>)"
proof (cases payload)
  case (Inr bytes)
  let ?e = "\<lparr>SID = sid, RID = rid, Seq = seq, TS = UnixMilli now, Type = typ, Payload = Some bytes\<rparr>"
  have "NewEnvelope now sid rid seq typ payload = Inr e \<longleftrightarrow> Envelope_Validate ?e = None \<and> e = ?e"
    using Inr by (auto simp: NewEnvelope_def Let_def split: option.splits)
  with Inr show ?thesis by (auto simp: Validate_None_iff)
qed (simp add: NewEnvelope_def)

lemma NewEnvelope_ok:
  assumes "sid \<noteq> []" "rid \<noteq> []" "0 \<le> seq" "0 < UnixMilli now" "typ \<noteq> []"
  shows "NewEnvelope now sid rid seq typ (Inr bytes) =
    Inr \<lparr>SID = sid, RID = rid, Seq = seq, TS = UnixMilli now, Type = typ, Payload = Some bytes\<rparr>"
  using assms by (simp add: NewEnvelope_Inr_iff)

lemma Hunk_dec_enc:
  "valid_utf8 (hunkHunkID h) \<Longrightarrow> valid_utf8 (hunkHeader h) \<Longrightarrow> valid_utf8 (hunkDiff h) \<Longrightarrow>
   valid_utf8 (hunkRisk h) \<Longrightarrow> Hunk_unjson (Hunk_json h) = Inr h"
  by (simp add: Hunk_unjson_def Hunk_json_def Hunk_put_def json_codec)

definition Hunk_ok :: "Hunk \<Rightarrow> bool" where
  "Hunk_ok h \<longleftrightarrow> valid_utf8 (hunkHunkID h) \<and> valid_utf8 (hunkHeader h) \<and>
     valid_utf8 (hunkDiff h) \<and> valid_utf8 (hunkRisk h)"

definition FilePatch_ok :: "FilePatch \<Rightarrow> bool" where
  "FilePatch_ok f \<longleftrightarrow> valid_utf8 (fpPath f) \<and> valid_utf8 (fpStatus f) \<and> (\<forall>h \<in> set (fpHunks f). Hunk_ok h)"

definition PatchReadyPayload_ok :: "PatchReadyPayload \<Rightarrow> bool" where
  "PatchReadyPayload_ok p \<longleftrightarrow> valid_utf8 (prJobID p) \<and> valid_utf8 (prSummary p) \<and>
     (\<forall>f \<in> set (prFiles p). FilePatch_ok f)"

lemma FilePatch_dec_enc: "FilePatch_ok f \<Longrightarrow> FilePatch_unjson (FilePatch_json f) = Inr f"
  by (simp add: FilePatch_unjson_def FilePatch_json_def FilePatch_put_def FilePatch_ok_def
      Hunk_ok_def Hunk_dec_enc json_codec)

lemma PatchReadyPayload_dec_enc:
  "PatchReadyPayload_ok p \<Longrightarrow> PatchReadyPayload_unjson (PatchReadyPayload_json p) = Inr p"
  by (simp add: PatchReadyPayload_unjson_def PatchReadyPayload_json_def PatchReadyPayload_put_def
      PatchReadyPayload_ok_def FilePatch_dec_enc json_codec)

interpretation cPatchReadyPayload:
  payload_codec PatchReadyPayload_json PatchReadyPayload_unjson PatchReadyPayload_ok
  by unfold_locales (rule PatchReadyPayload_dec_enc)

text \<open>The envelope is itself a codec: what one side writes to a socket the other reads.\<close>

definition Envelope_ok :: "Envelope \<Rightarrow> bool" where
  "Envelope_ok e \<longleftrightarrow> valid_utf8 (SID e) \<and> valid_utf8 (RID e) \<and> valid_utf8 (Type e) \<and>
     minInt64 \<le> Seq e \<and> Seq e \<le> maxInt64 \<and> minInt64 \<le> TS e \<and> TS e \<le> maxInt64 \<and> Payload e \<noteq> None"

lemma Envelope_dec_enc: "Envelope_ok e \<Longrightarrow> Envelope_unjson (Envelope_json e) = Inr e"
  by (auto simp: Envelope_unjson_def Envelope_json_def Envelope_put_def Envelope_ok_def
      zero_Envelope_def json_codec)

interpretation cEnvelope: payload_codec Envelope_json Envelope_unjson Envelope_ok
  by unfold_locales (rule Envelope_dec_enc)

context payload_codec begin

lemma envelope_carries:
  "ok p \<Longrightarrow> NewEnvelope now sid rid seq typ (Inr (enc p)) = Inr e \<Longrightarrow> DecodePayload e dec = Inr p"
  by (auto simp: NewEnvelope_Inr_iff DecodePayload_def dec_enc)

end

end
