(* ===== verification/Ack_Tracker.thy ===== *)
theory Ack_Tracker
  imports Protocol
begin

text \<open>
  \<open>internal/runtime/ack_tracker.go\<close>: the table of responses that wait for an acknowledgement,
  with retry and back-off for the ones sent over the data channel, and the metrics kept about
  them. Every method takes the instant that \<open>t.now()\<close> returns; a method that ranges over the
  table takes the visiting order. The mutex makes every method one step.
\<close>

section \<open>State\<close>

type_synonym AckTransport = string
abbreviation AckTransportUnknown :: AckTransport where "AckTransportUnknown \<equiv> ''unknown''"
abbreviation AckTransportHTTP :: AckTransport where "AckTransportHTTP \<equiv> ''http''"
abbreviation AckTransportP2P :: AckTransport where "AckTransportP2P \<equiv> ''p2p''"

record PendingAck =
  ackSID :: string
  ackRID :: string
  ackMessageType :: string
  ackTransport :: AckTransport
  RegisteredAt :: instant
  LastSentAt :: instant
  ExpiresAt :: instant
  RetryEnabled :: bool
  RetryCount :: int
  MaxRetries :: int

record AckMetrics =
  PendingCount :: int
  MaxPendingCount :: int
  PendingByTransport :: "(string, int) gomap"
  AckedCount :: int
  RetryDispatchCount :: int
  ExpiredCount :: int
  ExhaustedCount :: int
  LastAckRTTMs :: int
  AvgAckRTTMs :: int
  MaxAckRTTMs :: int

record AckTrackerConfig =
  cfgTimeout :: duration
  cfgMaxRetries :: int
  cfgBackoffMultiplier :: int

record AckRetry =
  retryPending :: PendingAck
  retryEnvelope :: Envelope

record AckRetryBatch =
  Retries :: "AckRetry list"
  Exhausted :: "PendingAck list"

record trackedAck =
  tracked_pending :: PendingAck
  tracked_envelope :: Envelope

record ackMetricState =
  ackedCount :: int
  retryDispatchCount :: int
  expiredCount :: int
  exhaustedCount :: int
  maxPendingCount :: int
  totalAckRTT :: duration
  lastAckRTT :: duration
  maxAckRTT :: duration

record AckTracker =
  timeout :: duration
  maxRetries :: int
  backoffMultiplier :: int
  pending :: "(string, trackedAck) gomap"
  metrics :: ackMetricState

definition zero_ackMetricState :: ackMetricState where
  "zero_ackMetricState = \<lparr>ackedCount = 0, retryDispatchCount = 0, expiredCount = 0,
     exhaustedCount = 0, maxPendingCount = 0, totalAckRTT = 0, lastAckRTT = 0, maxAckRTT = 0\<rparr>"

section \<open>Configuration\<close>

definition DefaultAckTrackerConfig :: AckTrackerConfig where
  "DefaultAckTrackerConfig =
     \<lparr>cfgTimeout = 2 * Second, cfgMaxRetries = 2, cfgBackoffMultiplier = 2\<rparr>"

definition NewAckTrackerWithConfig :: "AckTrackerConfig \<Rightarrow> AckTracker" where
  "NewAckTrackerWithConfig cfg =
     (let defaults = DefaultAckTrackerConfig;
          cfg = (if cfgTimeout cfg \<le> 0 then cfg\<lparr>cfgTimeout := cfgTimeout defaults\<rparr> else cfg);
          cfg = (if cfgMaxRetries cfg < 0 then cfg\<lparr>cfgMaxRetries := cfgMaxRetries defaults\<rparr> else cfg);
          cfg = (if cfgBackoffMultiplier cfg < 1
                 then cfg\<lparr>cfgBackoffMultiplier := cfgBackoffMultiplier defaults\<rparr> else cfg)
      in \<lparr>timeout = cfgTimeout cfg, maxRetries = cfgMaxRetries cfg,
          backoffMultiplier = cfgBackoffMultiplier cfg, pending = [],
          metrics = zero_ackMetricState\<rparr>)"

definition NewAckTracker :: "duration \<Rightarrow> AckTracker" where
  "NewAckTracker d =
     (let cfg = DefaultAckTrackerConfig;
          cfg = (if d > 0 then cfg\<lparr>cfgTimeout := d\<rparr> else cfg)
      in NewAckTrackerWithConfig cfg)"

section \<open>Helpers\<close>

definition maxRetriesForRetry :: "bool \<Rightarrow> int \<Rightarrow> int" where
  "maxRetriesForRetry retryEnabled n = (if \<not> retryEnabled \<or> n < 0 then 0 else n)"

definition normalizeTransport :: "AckTransport \<Rightarrow> AckTransport" where
  "normalizeTransport tr = (if tr = [] then AckTransportUnknown else tr)"

definition defaultPendingByTransport :: "(string, int) gomap" where
  "defaultPendingByTransport =
     [(AckTransportUnknown, 0), (AckTransportHTTP, 0), (AckTransportP2P, 0)]"

definition EmptyAckMetrics :: AckMetrics where
  "EmptyAckMetrics = \<lparr>PendingCount = 0, MaxPendingCount = 0,
     PendingByTransport = defaultPendingByTransport, AckedCount = 0, RetryDispatchCount = 0,
     ExpiredCount = 0, ExhaustedCount = 0, LastAckRTTMs = 0, AvgAckRTTMs = 0, MaxAckRTTMs = 0\<rparr>"

definition runtime_durationMillis :: "duration \<Rightarrow> int" where
  "runtime_durationMillis v = (if v \<le> 0 then 0 else Milliseconds v)"

text \<open>The loop of \<open>nextDelay\<close>; the product of two durations wraps at 64 bits.\<close>

fun nextDelay_loop :: "int \<Rightarrow> nat \<Rightarrow> duration \<Rightarrow> duration" where
  "nextDelay_loop factor 0 delay = delay"
| "nextDelay_loop factor (Suc n) delay =
     (if factor \<le> 1 then nextDelay_loop factor n delay
      else nextDelay_loop factor n (wrap64 (delay * factor)))"

definition nextDelay :: "AckTracker \<Rightarrow> int \<Rightarrow> duration" where
  "nextDelay t retryCount = nextDelay_loop (backoffMultiplier t) (nat retryCount) (timeout t)"

section \<open>Operations\<close>

definition registerLocked :: "instant \<Rightarrow> trackedAck \<Rightarrow> AckTracker \<Rightarrow> AckTracker" where
  "registerLocked now entry t =
     (let p = tracked_pending entry;
          p = p\<lparr>RegisteredAt := now, LastSentAt := now, ExpiresAt := now + timeout t,
                MaxRetries := maxRetriesForRetry (RetryEnabled p) (maxRetries t),
                ackTransport := normalizeTransport (ackTransport p)\<rparr>;
          entry = entry\<lparr>tracked_pending := p\<rparr>;
          t = t\<lparr>pending := AList.update (ackRID p) entry (pending t)\<rparr>
      in if int (length (pending t)) > maxPendingCount (metrics t)
         then t\<lparr>metrics := (metrics t)\<lparr>maxPendingCount := int (length (pending t))\<rparr>\<rparr>
         else t)"

definition AckTracker_Register :: "instant \<Rightarrow> string \<Rightarrow> string \<Rightarrow> string \<Rightarrow> AckTracker \<Rightarrow> AckTracker" where
  "AckTracker_Register now sid rid messageType t =
     registerLocked now
       \<lparr>tracked_pending = \<lparr>ackSID = sid, ackRID = rid, ackMessageType = messageType,
          ackTransport = AckTransportUnknown, RegisteredAt = zero_time, LastSentAt = zero_time,
          ExpiresAt = zero_time, RetryEnabled = False, RetryCount = 0, MaxRetries = 0\<rparr>,
        tracked_envelope = zero_Envelope\<rparr> t"

definition AckTracker_RegisterEnvelope ::
    "instant \<Rightarrow> Envelope \<Rightarrow> AckTransport \<Rightarrow> bool \<Rightarrow> AckTracker \<Rightarrow> AckTracker" where
  "AckTracker_RegisterEnvelope now env transport retryEnabled t =
     (let transport = (if transport = [] then AckTransportUnknown else transport)
      in registerLocked now
       \<lparr>tracked_pending = \<lparr>ackSID = SID env, ackRID = RID env, ackMessageType = Type env,
          ackTransport = transport, RegisteredAt = zero_time, LastSentAt = zero_time,
          ExpiresAt = zero_time, RetryEnabled = retryEnabled, RetryCount = 0,
          MaxRetries = maxRetriesForRetry retryEnabled (maxRetries t)\<rparr>,
        tracked_envelope = env\<rparr> t)"

definition observeAckLocked :: "PendingAck \<Rightarrow> instant \<Rightarrow> ackMetricState \<Rightarrow> ackMetricState" where
  "observeAckLocked p ackedAt m =
     (let base = (if LastSentAt p = zero_time then RegisteredAt p else LastSentAt p);
          rtt = time_Sub ackedAt base;
          rtt = (if rtt < 0 then 0 else rtt);
          m = m\<lparr>ackedCount := ackedCount m + 1, totalAckRTT := wrap64 (totalAckRTT m + rtt),
                lastAckRTT := rtt\<rparr>
      in if rtt > maxAckRTT m then m\<lparr>maxAckRTT := rtt\<rparr> else m)"

definition AckTracker_Ack :: "instant \<Rightarrow> string \<Rightarrow> AckTracker \<Rightarrow> AckTracker \<times> bool" where
  "AckTracker_Ack now rid t =
     (case map_of (pending t) rid of
        None \<Rightarrow> (t, False)
      | Some tracked \<Rightarrow>
          (t\<lparr>pending := AList.delete rid (pending t),
             metrics := observeAckLocked (tracked_pending tracked) now (metrics t)\<rparr>, True))"

definition AckTracker_PendingCount :: "AckTracker \<Rightarrow> int" where
  "AckTracker_PendingCount t = int (length (pending t))"

definition lookup_tracked :: "AckTracker \<Rightarrow> string list \<Rightarrow> trackedAck list" where
  "lookup_tracked t order = List.map_filter (map_of (pending t)) order"

definition AckTracker_Snapshot :: "string list \<Rightarrow> AckTracker \<Rightarrow> PendingAck list" where
  "AckTracker_Snapshot order t = map tracked_pending (lookup_tracked t order)"

fun count_transports :: "trackedAck list \<Rightarrow> (string, int) gomap \<Rightarrow> (string, int) gomap" where
  "count_transports [] m = m"
| "count_transports (tr # trs) m =
     (let k = normalizeTransport (ackTransport (tracked_pending tr));
          n = (case map_of m k of None \<Rightarrow> 0 | Some n \<Rightarrow> n)
      in count_transports trs (AList.update k (n + 1) m))"

definition AckTracker_Metrics :: "string list \<Rightarrow> AckTracker \<Rightarrow> AckMetrics" where
  "AckTracker_Metrics order t =
     (let m = metrics t;
          byTransport = count_transports (lookup_tracked t order) defaultPendingByTransport;
          avg = (if ackedCount m > 0 then Milliseconds (quot (totalAckRTT m) (ackedCount m)) else 0)
      in \<lparr>PendingCount = int (length (pending t)), MaxPendingCount = maxPendingCount m,
          PendingByTransport = byTransport, AckedCount = ackedCount m,
          RetryDispatchCount = retryDispatchCount m, ExpiredCount = expiredCount m,
          ExhaustedCount = exhaustedCount m,
          LastAckRTTMs = runtime_durationMillis (lastAckRTT m), AvgAckRTTMs = avg,
          MaxAckRTTMs = runtime_durationMillis (maxAckRTT m)\<rparr>)"

fun DueRetries_loop :: "instant \<Rightarrow> string list \<Rightarrow> AckTracker \<Rightarrow> AckRetryBatch \<Rightarrow> AckTracker \<times> AckRetryBatch" where
  "DueRetries_loop now [] t batch = (t, batch)"
| "DueRetries_loop now (rid # rids) t batch =
     (case map_of (pending t) rid of
        None \<Rightarrow> DueRetries_loop now rids t batch
      | Some tracked \<Rightarrow>
          let p = tracked_pending tracked in
          if \<not> RetryEnabled p \<or> now < ExpiresAt p then DueRetries_loop now rids t batch
          else if RetryCount p \<ge> MaxRetries p then
            DueRetries_loop now rids
              (t\<lparr>pending := AList.delete rid (pending t),
                 metrics := (metrics t)\<lparr>exhaustedCount := exhaustedCount (metrics t) + 1\<rparr>\<rparr>)
              (batch\<lparr>Exhausted := Exhausted batch @ [p]\<rparr>)
          else
            let p = p\<lparr>RetryCount := RetryCount p + 1, LastSentAt := now\<rparr>;
                p = p\<lparr>ExpiresAt := now + nextDelay t (RetryCount p)\<rparr>;
                tracked = tracked\<lparr>tracked_pending := p\<rparr>
            in DueRetries_loop now rids
                 (t\<lparr>pending := AList.update rid tracked (pending t),
                    metrics := (metrics t)\<lparr>retryDispatchCount := retryDispatchCount (metrics t) + 1\<rparr>\<rparr>)
                 (batch\<lparr>Retries := Retries batch @
                    [\<lparr>retryPending = p, retryEnvelope = tracked_envelope tracked\<rparr>]\<rparr>))"

definition AckTracker_DueRetries :: "instant \<Rightarrow> string list \<Rightarrow> AckTracker \<Rightarrow> AckTracker \<times> AckRetryBatch" where
  "AckTracker_DueRetries now order t = DueRetries_loop now order t \<lparr>Retries = [], Exhausted = []\<rparr>"

fun Expired_loop :: "instant \<Rightarrow> string list \<Rightarrow> AckTracker \<Rightarrow> PendingAck list \<Rightarrow> AckTracker \<times> PendingAck list" where
  "Expired_loop now [] t expired = (t, expired)"
| "Expired_loop now (rid # rids) t expired =
     (case map_of (pending t) rid of
        None \<Rightarrow> Expired_loop now rids t expired
      | Some tracked \<Rightarrow>
          let p = tracked_pending tracked in
          if now < ExpiresAt p then Expired_loop now rids t expired
          else if RetryEnabled p \<and> RetryCount p < MaxRetries p then Expired_loop now rids t expired
          else Expired_loop now rids
                 (t\<lparr>pending := AList.delete rid (pending t),
                    metrics := (metrics t)\<lparr>expiredCount := expiredCount (metrics t) + 1\<rparr>\<rparr>)
                 (expired @ [p]))"

definition AckTracker_Expired :: "instant \<Rightarrow> string list \<Rightarrow> AckTracker \<Rightarrow> AckTracker \<times> PendingAck list" where
  "AckTracker_Expired now order t = Expired_loop now order t []"

fun Forget_loop :: "string \<Rightarrow> AckTransport \<Rightarrow> string list \<Rightarrow> AckTracker \<Rightarrow> AckTracker" where
  "Forget_loop sid tr [] t = t"
| "Forget_loop sid tr (rid # rids) t =
     (case map_of (pending t) rid of
        None \<Rightarrow> Forget_loop sid tr rids t
      | Some tracked \<Rightarrow>
          if ackSID (tracked_pending tracked) = sid \<and> ackTransport (tracked_pending tracked) = tr
          then Forget_loop sid tr rids (t\<lparr>pending := AList.delete rid (pending t)\<rparr>)
          else Forget_loop sid tr rids t)"

definition AckTracker_ForgetBySessionTransport ::
    "string \<Rightarrow> AckTransport \<Rightarrow> string list \<Rightarrow> AckTracker \<Rightarrow> AckTracker" where
  "AckTracker_ForgetBySessionTransport sid tr order t =
     (if sid = [] then t else Forget_loop sid tr order t)"

section \<open>What the loops compute\<close>

text \<open>
  The effect of a scan on one entry of the table, independent of the order in which the
  entries are visited: \<open>due_entry\<close> for \<open>DueRetries\<close>, with the two classes of entries that it
  reports.
\<close>

definition is_due :: "instant \<Rightarrow> trackedAck \<Rightarrow> bool" where
  "is_due now tr \<longleftrightarrow> RetryEnabled (tracked_pending tr) \<and> ExpiresAt (tracked_pending tr) \<le> now"

definition is_exhausted :: "instant \<Rightarrow> trackedAck \<Rightarrow> bool" where
  "is_exhausted now tr \<longleftrightarrow>
     is_due now tr \<and> MaxRetries (tracked_pending tr) \<le> RetryCount (tracked_pending tr)"

definition is_retried :: "instant \<Rightarrow> trackedAck \<Rightarrow> bool" where
  "is_retried now tr \<longleftrightarrow>
     is_due now tr \<and> RetryCount (tracked_pending tr) < MaxRetries (tracked_pending tr)"

definition retried_pending :: "AckTracker \<Rightarrow> instant \<Rightarrow> trackedAck \<Rightarrow> PendingAck" where
  "retried_pending t now tr =
     (let p = tracked_pending tr in
      p\<lparr>RetryCount := RetryCount p + 1, LastSentAt := now,
        ExpiresAt := now + nextDelay t (RetryCount p + 1)\<rparr>)"

definition due_entry :: "AckTracker \<Rightarrow> instant \<Rightarrow> trackedAck \<Rightarrow> trackedAck option" where
  "due_entry t now tr =
     (if is_exhausted now tr then None
      else if is_retried now tr then Some (tr\<lparr>tracked_pending := retried_pending t now tr\<rparr>)
      else Some tr)"

definition retry_of :: "AckTracker \<Rightarrow> instant \<Rightarrow> trackedAck \<Rightarrow> AckRetry" where
  "retry_of t now tr =
     \<lparr>retryPending = retried_pending t now tr, retryEnvelope = tracked_envelope tr\<rparr>"

definition is_expired :: "instant \<Rightarrow> trackedAck \<Rightarrow> bool" where
  "is_expired now tr \<longleftrightarrow> ExpiresAt (tracked_pending tr) \<le> now \<and>
     \<not> (RetryEnabled (tracked_pending tr) \<and> RetryCount (tracked_pending tr) < MaxRetries (tracked_pending tr))"

lemma nextDelay_cong: "timeout t = timeout u \<Longrightarrow> backoffMultiplier t = backoffMultiplier u \<Longrightarrow>
  nextDelay t n = nextDelay u n"
  by (simp add: nextDelay_def)

lemma due_entry_cong: "timeout t = timeout u \<Longrightarrow> backoffMultiplier t = backoffMultiplier u \<Longrightarrow>
  due_entry t now = due_entry u now \<and> retry_of t now = retry_of u now"
  by (auto simp: due_entry_def retry_of_def retried_pending_def fun_eq_iff Let_def
      cong: nextDelay_cong)

lemma DueRetries_loop_step:
  assumes "map_of (pending t) rid = Some tr"
  shows "\<exists>t' b'. DueRetries_loop now (rid # rids) t b = DueRetries_loop now rids t' b' \<and>
     timeout t' = timeout t \<and> backoffMultiplier t' = backoffMultiplier t \<and> maxRetries t' = maxRetries t \<and>
     (wf_map (pending t) \<longrightarrow> wf_map (pending t')) \<and>
     (\<forall>k. map_of (pending t') k = (if k = rid then due_entry t now tr else map_of (pending t) k)) \<and>
     Exhausted b' = Exhausted b @ (if is_exhausted now tr then [tracked_pending tr] else []) \<and>
     Retries b' = Retries b @ (if is_retried now tr then [retry_of t now tr] else []) \<and>
     metrics t' = (metrics t)\<lparr>
        exhaustedCount := exhaustedCount (metrics t) + (if is_exhausted now tr then 1 else 0),
        retryDispatchCount := retryDispatchCount (metrics t) + (if is_retried now tr then 1 else 0)\<rparr>"
proof -
  let ?p = "tracked_pending tr"
  consider (skip) "\<not> RetryEnabled ?p \<or> now < ExpiresAt ?p"
    | (exh) "\<not> (\<not> RetryEnabled ?p \<or> now < ExpiresAt ?p)" "MaxRetries ?p \<le> RetryCount ?p"
    | (ret) "\<not> (\<not> RetryEnabled ?p \<or> now < ExpiresAt ?p)" "\<not> MaxRetries ?p \<le> RetryCount ?p"
    by blast
  then show ?thesis
  proof cases
    case skip
    then have c: "\<not> is_exhausted now tr" "\<not> is_retried now tr"
      by (auto simp: is_exhausted_def is_retried_def is_due_def)
    show ?thesis
      by (rule exI [of _ t], rule exI [of _ b])
        (use skip assms c in \<open>auto simp: due_entry_def Let_def\<close>)
  next
    case exh
    then have c: "is_exhausted now tr" "\<not> is_retried now tr"
      by (auto simp: is_exhausted_def is_retried_def is_due_def)
    show ?thesis
      by (rule exI [of _ "t\<lparr>pending := AList.delete rid (pending t),
                 metrics := (metrics t)\<lparr>exhaustedCount := exhaustedCount (metrics t) + 1\<rparr>\<rparr>"],
          rule exI [of _ "b\<lparr>Exhausted := Exhausted b @ [?p]\<rparr>"])
        (use exh assms c in \<open>auto simp: due_entry_def Let_def go_map\<close>)
  next
    case ret
    then have c: "\<not> is_exhausted now tr" "is_retried now tr"
      by (auto simp: is_exhausted_def is_retried_def is_due_def)
    show ?thesis
      by (rule exI [of _ "t\<lparr>pending := AList.update rid (tr\<lparr>tracked_pending := retried_pending t now tr\<rparr>) (pending t),
                 metrics := (metrics t)\<lparr>retryDispatchCount := retryDispatchCount (metrics t) + 1\<rparr>\<rparr>"],
          rule exI [of _ "b\<lparr>Retries := Retries b @ [retry_of t now tr]\<rparr>"])
        (use ret assms c in \<open>auto simp: due_entry_def Let_def go_map retry_of_def retried_pending_def\<close>)
  qed
qed

lemma lookup_tracked_Nil [simp]: "lookup_tracked t [] = []"
  by (simp add: lookup_tracked_def List.map_filter_def)

lemma lookup_tracked_Cons:
  "lookup_tracked t (k # ks) =
     (case map_of (pending t) k of None \<Rightarrow> lookup_tracked t ks | Some tr \<Rightarrow> tr # lookup_tracked t ks)"
  by (simp add: lookup_tracked_def List.map_filter_def split: option.split)

lemma lookup_tracked_cong:
  "(\<And>k. k \<in> set ks \<Longrightarrow> map_of (pending t) k = map_of (pending u) k) \<Longrightarrow>
   lookup_tracked t ks = lookup_tracked u ks"
  by (induction ks) (auto simp: lookup_tracked_Cons split: option.splits)

lemma DueRetries_loop_spec:
  assumes "distinct ks" "DueRetries_loop now ks t b = (t', b')"
  shows "timeout t' = timeout t \<and> backoffMultiplier t' = backoffMultiplier t \<and> maxRetries t' = maxRetries t \<and>
    (wf_map (pending t) \<longrightarrow> wf_map (pending t')) \<and>
    (\<forall>k. map_of (pending t') k =
       (if k \<in> set ks then Option.bind (map_of (pending t) k) (due_entry t now) else map_of (pending t) k)) \<and>
    Exhausted b' = Exhausted b @ map tracked_pending (filter (is_exhausted now) (lookup_tracked t ks)) \<and>
    Retries b' = Retries b @ map (retry_of t now) (filter (is_retried now) (lookup_tracked t ks)) \<and>
    metrics t' = (metrics t)\<lparr>
      exhaustedCount := exhaustedCount (metrics t) + int (length (filter (is_exhausted now) (lookup_tracked t ks))),
      retryDispatchCount := retryDispatchCount (metrics t) + int (length (filter (is_retried now) (lookup_tracked t ks)))\<rparr>"
  using assms
proof (induction ks arbitrary: t b)
  case (Cons rid ks)
  show ?case
  proof (cases "map_of (pending t) rid")
    case None
    with Cons.prems have "DueRetries_loop now ks t b = (t', b')" "distinct ks" by simp_all
    from Cons.IH [OF this(2,1)] None show ?thesis by (simp add: lookup_tracked_Cons)
  next
    case (Some tr)
    obtain t1 b1 where s: "DueRetries_loop now (rid # ks) t b = DueRetries_loop now ks t1 b1"
      and c: "timeout t1 = timeout t" "backoffMultiplier t1 = backoffMultiplier t" "maxRetries t1 = maxRetries t"
      and w: "wf_map (pending t) \<longrightarrow> wf_map (pending t1)"
      and m: "\<forall>k. map_of (pending t1) k = (if k = rid then due_entry t now tr else map_of (pending t) k)"
      and e: "Exhausted b1 = Exhausted b @ (if is_exhausted now tr then [tracked_pending tr] else [])"
      and r: "Retries b1 = Retries b @ (if is_retried now tr then [retry_of t now tr] else [])"
      and me: "metrics t1 = (metrics t)\<lparr>
        exhaustedCount := exhaustedCount (metrics t) + (if is_exhausted now tr then 1 else 0),
        retryDispatchCount := retryDispatchCount (metrics t) + (if is_retried now tr then 1 else 0)\<rparr>"
      using DueRetries_loop_step [OF Some, of now ks b] by blast
    from Cons.prems s have l: "DueRetries_loop now ks t1 b1 = (t', b')" and d: "distinct ks" "rid \<notin> set ks"
      by simp_all
    have lt: "lookup_tracked t1 ks = lookup_tracked t ks"
      by (rule lookup_tracked_cong) (use m d in auto)
    have dc: "due_entry t1 now = due_entry t now" "retry_of t1 now = retry_of t now"
      using due_entry_cong [of t1 t now] c by auto
    from Cons.IH [OF d(1) l] c w m e r me lt dc d Some show ?thesis
      by (auto simp: lookup_tracked_Cons)
  qed
qed simp

lemma Expired_loop_spec:
  assumes "distinct ks" "Expired_loop now ks t ex = (t', ex')"
  shows "timeout t' = timeout t \<and> backoffMultiplier t' = backoffMultiplier t \<and> maxRetries t' = maxRetries t \<and>
    (wf_map (pending t) \<longrightarrow> wf_map (pending t')) \<and>
    (\<forall>k. map_of (pending t') k =
       (if k \<in> set ks then Option.bind (map_of (pending t) k) (\<lambda>tr. if is_expired now tr then None else Some tr)
        else map_of (pending t) k)) \<and>
    ex' = ex @ map tracked_pending (filter (is_expired now) (lookup_tracked t ks)) \<and>
    metrics t' = (metrics t)\<lparr>expiredCount := expiredCount (metrics t)
      + int (length (filter (is_expired now) (lookup_tracked t ks)))\<rparr>"
  using assms
proof (induction ks arbitrary: t ex)
  case (Cons rid ks)
  show ?case
  proof (cases "map_of (pending t) rid")
    case None
    with Cons.prems have "Expired_loop now ks t ex = (t', ex')" "distinct ks" by simp_all
    from Cons.IH [OF this(2,1)] None show ?thesis by (simp add: lookup_tracked_Cons)
  next
    case (Some tr)
    show ?thesis
    proof (cases "is_expired now tr")
      case True
      let ?t1 = "t\<lparr>pending := AList.delete rid (pending t),
                    metrics := (metrics t)\<lparr>expiredCount := expiredCount (metrics t) + 1\<rparr>\<rparr>"
      from Cons.prems Some True have l: "Expired_loop now ks ?t1 (ex @ [tracked_pending tr]) = (t', ex')"
          and d: "distinct ks" "rid \<notin> set ks"
        by (auto simp: is_expired_def Let_def split: if_splits)
      have lt: "lookup_tracked ?t1 ks = lookup_tracked t ks"
        by (rule lookup_tracked_cong) (use d in \<open>auto simp: go_map\<close>)
      from Cons.IH [OF d(1) l] lt d Some True show ?thesis
        by (auto simp: lookup_tracked_Cons go_map)
    next
      case False
      with Cons.prems Some have l: "Expired_loop now ks t ex = (t', ex')" and d: "distinct ks" "rid \<notin> set ks"
        by (auto simp: is_expired_def Let_def split: if_splits)
      from Cons.IH [OF d(1) l] d Some False show ?thesis
        by (auto simp: lookup_tracked_Cons)
    qed
  qed
qed simp

lemma Forget_loop_spec:
  assumes "distinct ks"
  shows "timeout (Forget_loop sid tr ks t) = timeout t \<and>
    backoffMultiplier (Forget_loop sid tr ks t) = backoffMultiplier t \<and>
    maxRetries (Forget_loop sid tr ks t) = maxRetries t \<and>
    metrics (Forget_loop sid tr ks t) = metrics t \<and>
    (wf_map (pending t) \<longrightarrow> wf_map (pending (Forget_loop sid tr ks t))) \<and>
    (\<forall>k. map_of (pending (Forget_loop sid tr ks t)) k =
       (if k \<in> set ks then Option.bind (map_of (pending t) k)
          (\<lambda>e. if ackSID (tracked_pending e) = sid \<and> ackTransport (tracked_pending e) = tr then None else Some e)
        else map_of (pending t) k))"
  using assms
  by (induction ks arbitrary: t) (auto simp: go_map split: option.splits)

end
