(* ===== verification/Ack_Ledger.thy ===== *)
theory Ack_Ledger
  imports Ack_Tracker
begin

text \<open>
  What the acknowledgement tracker promises to its clients: the invariant of every reachable
  table, the ledger of registrations (nothing is lost and nothing is counted twice), the
  retry schedule, and that polling ends. The clients use the tracker through the locale
  \<open>ack_ledger\<close>.
\<close>

section \<open>The invariant\<close>

definition entry_ok :: "AckTracker \<Rightarrow> string \<Rightarrow> trackedAck \<Rightarrow> bool" where
  "entry_ok t rid tr \<longleftrightarrow>
     (let p = tracked_pending tr in
      ackRID p = rid \<and> 0 \<le> RetryCount p \<and> RetryCount p \<le> MaxRetries p \<and>
      MaxRetries p = maxRetriesForRetry (RetryEnabled p) (maxRetries t) \<and> ackTransport p \<noteq> [])"

definition metrics_ok :: "ackMetricState \<Rightarrow> bool" where
  "metrics_ok m \<longleftrightarrow>
     0 \<le> ackedCount m \<and> 0 \<le> retryDispatchCount m \<and> 0 \<le> expiredCount m \<and> 0 \<le> exhaustedCount m \<and>
     0 \<le> lastAckRTT m \<and> lastAckRTT m \<le> maxAckRTT m \<and>
     (ackedCount m * maxAckRTT m \<le> maxInt64 \<longrightarrow>
        0 \<le> totalAckRTT m \<and> totalAckRTT m \<le> ackedCount m * maxAckRTT m)"

definition ack_inv :: "AckTracker \<Rightarrow> bool" where
  "ack_inv t \<longleftrightarrow>
     wf_map (pending t) \<and> (\<forall>(rid, tr) \<in> set (pending t). entry_ok t rid tr) \<and>
     int (length (pending t)) \<le> maxPendingCount (metrics t) \<and>
     0 < timeout t \<and> 1 \<le> backoffMultiplier t \<and> 0 \<le> maxRetries t \<and> metrics_ok (metrics t)"

section \<open>The ledger\<close>

text \<open>
  A run of the tracker, with the number of entries that were ever added to the table and the
  number that \<open>ForgetBySessionTransport\<close> dropped. A registration under a request id that is
  still pending replaces the entry and adds none.
\<close>

type_synonym ack_run = "AckTracker \<times> int \<times> int"

definition fresh :: "AckTracker \<Rightarrow> string \<Rightarrow> int" where
  "fresh t rid = (if map_of (pending t) rid = None then 1 else 0)"

definition forgotten :: "string \<Rightarrow> AckTransport \<Rightarrow> AckTracker \<Rightarrow> int" where
  "forgotten sid tr t = (if sid = [] then 0 else
     int (length (filter (\<lambda>e. ackSID (tracked_pending e) = sid \<and> ackTransport (tracked_pending e) = tr)
       (map snd (pending t)))))"

definition ack_init :: "ack_run \<Rightarrow> bool" where
  "ack_init r \<longleftrightarrow> (\<exists>cfg. r = (NewAckTrackerWithConfig cfg, 0, 0))"

inductive ack_step :: "ack_run \<Rightarrow> ack_run \<Rightarrow> bool" where
  step_Register:
    "ack_step (t, n, f) (AckTracker_Register now sid rid mt t, n + fresh t rid, f)"
| step_RegisterEnvelope:
    "ack_step (t, n, f)
       (AckTracker_RegisterEnvelope now env transport retry t, n + fresh t (RID env), f)"
| step_Ack: "ack_step (t, n, f) (fst (AckTracker_Ack now rid t), n, f)"
| step_DueRetries: "range_order order (pending t) \<Longrightarrow>
     ack_step (t, n, f) (fst (AckTracker_DueRetries now order t), n, f)"
| step_Expired: "range_order order (pending t) \<Longrightarrow>
     ack_step (t, n, f) (fst (AckTracker_Expired now order t), n, f)"
| step_Forget: "range_order order (pending t) \<Longrightarrow>
     ack_step (t, n, f)
       (AckTracker_ForgetBySessionTransport sid tr order t, n, f + forgotten sid tr t)"

inductive_simps ack_step_simps: "ack_step (t, n, f) r"

definition balance :: "AckTracker \<Rightarrow> int" where
  "balance t = int (length (pending t)) + ackedCount (metrics t) + expiredCount (metrics t)
     + exhaustedCount (metrics t)"

definition ledger_inv :: "ack_run \<Rightarrow> bool" where
  "ledger_inv r = (case r of (t, n, f) \<Rightarrow> ack_inv t \<and> n = balance t + f)"

section \<open>Repeated polling\<close>

text \<open>
  A sequence of calls of \<open>DueRetries\<close>, each with its instant and visiting order, and what they
  return; \<open>polls_due\<close> says that at every call the entry \<open>rid\<close>, if it is still there, is due.
\<close>

type_synonym poll = "instant \<times> string list"

fun run_polls :: "poll list \<Rightarrow> AckTracker \<Rightarrow> AckTracker \<times> AckRetry list \<times> PendingAck list" where
  "run_polls [] t = (t, [], [])"
| "run_polls ((now, order) # ps) t =
     (let (t1, b) = AckTracker_DueRetries now order t;
          (t2, rs, xs) = run_polls ps t1
      in (t2, Retries b @ rs, Exhausted b @ xs))"

fun polls_due :: "string \<Rightarrow> poll list \<Rightarrow> AckTracker \<Rightarrow> bool" where
  "polls_due rid [] t = True"
| "polls_due rid ((now, order) # ps) t \<longleftrightarrow>
     range_order order (pending t) \<and>
     (case map_of (pending t) rid of
        None \<Rightarrow> True
      | Some tr \<Rightarrow> ExpiresAt (tracked_pending tr) \<le> now) \<and>
     polls_due rid ps (fst (AckTracker_DueRetries now order t))"

definition retries_for :: "string \<Rightarrow> AckRetry list \<Rightarrow> AckRetry list" where
  "retries_for rid rs = filter (\<lambda>r. ackRID (retryPending r) = rid) rs"

definition reports_for :: "string \<Rightarrow> PendingAck list \<Rightarrow> PendingAck list" where
  "reports_for rid xs = filter (\<lambda>p. ackRID p = rid) xs"

section \<open>The interface\<close>

text \<open>
  What a client relies on: a registered key waits until it is acknowledged, and an
  acknowledgement reports whether its key was waiting. \<open>ack_all\<close> is a series of acknowledgements
  and their answers.
\<close>

fun ack_all :: "('i \<Rightarrow> 's \<Rightarrow> 's \<times> bool) \<Rightarrow> 'i list \<Rightarrow> 's \<Rightarrow> 's \<times> bool list" where
  "ack_all ack [] s = (s, [])"
| "ack_all ack (i # is) s =
     (let (s1, b) = ack i s; (s2, bs) = ack_all ack is s1 in (s2, b # bs))"

definition ack_waits :: "AckTracker \<Rightarrow> string \<Rightarrow> bool" where
  "ack_waits t rid \<longleftrightarrow> map_of (pending t) rid \<noteq> None"

definition ack_register :: "instant \<times> Envelope \<times> AckTransport \<times> bool \<Rightarrow> AckTracker \<Rightarrow> AckTracker" where
  "ack_register r t = (case r of (now, env, transport, retry) \<Rightarrow>
     AckTracker_RegisterEnvelope now env transport retry t)"

definition ack_ack :: "instant \<times> string \<Rightarrow> AckTracker \<Rightarrow> AckTracker \<times> bool" where
  "ack_ack a t = AckTracker_Ack (fst a) (snd a) t"

locale ack_ledger =
  fixes register :: "'r \<Rightarrow> 's \<Rightarrow> 's" and ack :: "'i \<Rightarrow> 's \<Rightarrow> 's \<times> bool"
    and waits :: "'s \<Rightarrow> 'k \<Rightarrow> bool" and reg_key :: "'r \<Rightarrow> 'k" and ack_key :: "'i \<Rightarrow> 'k"
  assumes register_waits: "waits (register r s) k \<longleftrightarrow> k = reg_key r \<or> waits s k"
    and ack_answer: "snd (ack i s) \<longleftrightarrow> waits s (ack_key i)"
    and ack_waits: "waits (fst (ack i s)) k \<longleftrightarrow> waits s k \<and> k \<noteq> ack_key i"
begin

lemma register_all_waits:
  "waits (fold register rs s) k \<longleftrightarrow> k \<in> reg_key ` set rs \<or> waits s k"
  by (induction rs arbitrary: s) (auto simp: register_waits)

lemma ack_all_waits: "waits (fst (ack_all ack is s)) k \<longleftrightarrow> waits s k \<and> k \<notin> ack_key ` set is"
  by (induction "is" arbitrary: s) (auto simp: ack_waits case_prod_beta Let_def)

lemma ack_all_answers:
  "length (snd (ack_all ack is s)) = length is \<and>
   (\<forall>n < length is. snd (ack_all ack is s) ! n \<longleftrightarrow>
      waits s (ack_key (is ! n)) \<and> ack_key (is ! n) \<notin> ack_key ` set (take n is))"
proof (induction "is" arbitrary: s)
  case (Cons i "is")
  obtain s1 b where e: "ack i s = (s1, b)" by fastforce
  obtain s2 bs where r: "ack_all ack is s1 = (s2, bs)" by fastforce
  have b: "b \<longleftrightarrow> waits s (ack_key i)" using ack_answer [of i s] e by simp
  have w: "waits s1 k \<longleftrightarrow> waits s k \<and> k \<noteq> ack_key i" for k using ack_waits [of i s k] e by simp
  show ?case using Cons.IH [of s1] e r b w by (auto simp: nth_Cons split: nat.splits)
qed simp

lemma ack_all_first:
  assumes "i < length is" "waits (fold register rs s) (ack_key (is ! i))"
  shows "snd (ack_all ack is (fold register rs s)) ! i \<longleftrightarrow>
    ack_key (is ! i) \<notin> ack_key ` set (take i is)"
  using assms ack_all_answers by blast

end

section \<open>An example run\<close>

text \<open>A patch sent over the data channel at instant 0 of a tracker with the default configuration.\<close>

definition ex_env :: Envelope where
  "ex_env = \<lparr>SID = ''s1'', RID = ''r1'', Seq = 1, TS = 5, Type = TypePatchReady, Payload = Some JNull\<rparr>"

definition ex_tracker :: AckTracker where
  "ex_tracker = AckTracker_RegisterEnvelope 0 ex_env AckTransportP2P True
     (NewAckTrackerWithConfig DefaultAckTrackerConfig)"

definition ex_polls :: "poll list" where
  "ex_polls = [(2 * Second, [''r1'']), (6 * Second, [''r1'']), (14 * Second, [''r1''])]"

section \<open>Lemmas\<close>

lemma ack_inv_entry: "ack_inv t \<Longrightarrow> map_of (pending t) k = Some tr \<Longrightarrow> entry_ok t k tr"
  by (auto simp: ack_inv_def dest: map_of_SomeD)

lemma ack_inv_wf: "ack_inv t \<Longrightarrow> wf_map (pending t)"
  by (simp add: ack_inv_def)

text \<open>The invariant in terms of lookups.\<close>

lemma ack_inv_intro:
  assumes "wf_map (pending t)" "\<And>k tr. map_of (pending t) k = Some tr \<Longrightarrow> entry_ok t k tr"
    "int (length (pending t)) \<le> maxPendingCount (metrics t)"
    "0 < timeout t" "1 \<le> backoffMultiplier t" "0 \<le> maxRetries t" "metrics_ok (metrics t)"
  shows "ack_inv t"
  using assms by (auto simp: ack_inv_def set_map_iff)

lemma ack_inv_New: "ack_inv (NewAckTrackerWithConfig cfg)"
  by (auto simp: ack_inv_def NewAckTrackerWithConfig_def Let_def zero_ackMetricState_def
      metrics_ok_def DefaultAckTrackerConfig_def Second_def Millisecond_def maxInt64_def)

lemma registerLocked_pending:
  "pending (registerLocked now e t) = AList.update (ackRID (tracked_pending e))
     (e\<lparr>tracked_pending := (tracked_pending e)\<lparr>RegisteredAt := now, LastSentAt := now,
        ExpiresAt := now + timeout t,
        MaxRetries := maxRetriesForRetry (RetryEnabled (tracked_pending e)) (maxRetries t),
        ackTransport := normalizeTransport (ackTransport (tracked_pending e))\<rparr>\<rparr>) (pending t)"
  by (simp add: registerLocked_def Let_def)

lemma registerLocked_rest:
  "timeout (registerLocked now e t) = timeout t"
  "maxRetries (registerLocked now e t) = maxRetries t"
  "backoffMultiplier (registerLocked now e t) = backoffMultiplier t"
  "metrics (registerLocked now e t) = (metrics t)\<lparr>maxPendingCount :=
     max (maxPendingCount (metrics t)) (int (length (pending (registerLocked now e t))))\<rparr>"
  by (auto simp: registerLocked_def Let_def max_def)

lemma registerLocked_inv:
  assumes "ack_inv t" "RetryCount (tracked_pending e) = 0"
  shows "ack_inv (registerLocked now e t)"
proof (rule ack_inv_intro)
  fix k tr
  assume m: "map_of (pending (registerLocked now e t)) k = Some tr"
  show "entry_ok (registerLocked now e t) k tr"
  proof (cases "k = ackRID (tracked_pending e)")
    case True
    with m have tr: "tr = e\<lparr>tracked_pending := (tracked_pending e)\<lparr>RegisteredAt := now,
        LastSentAt := now, ExpiresAt := now + timeout t,
        MaxRetries := maxRetriesForRetry (RetryEnabled (tracked_pending e)) (maxRetries t),
        ackTransport := normalizeTransport (ackTransport (tracked_pending e))\<rparr>\<rparr>"
      by (simp add: registerLocked_pending go_map)
    show ?thesis
      using assms True by (simp add: tr entry_ok_def registerLocked_rest maxRetriesForRetry_def
          normalizeTransport_def ack_inv_def)
  next
    case False
    with m have "map_of (pending t) k = Some tr" by (simp add: registerLocked_pending go_map)
    with ack_inv_entry [OF assms(1) this] show ?thesis
      by (simp add: entry_ok_def registerLocked_rest)
  qed
qed (use assms(1) in \<open>auto simp: registerLocked_rest registerLocked_pending ack_inv_def metrics_ok_def\<close>)

lemma registerLocked_balance:
  "balance (registerLocked now e t) = balance t + fresh t (ackRID (tracked_pending e))"
  by (auto simp: balance_def registerLocked_rest registerLocked_pending length_map_update fresh_def)

lemma Register_inv: "ack_inv t \<Longrightarrow> ack_inv (AckTracker_Register now sid rid mt t)"
  unfolding AckTracker_Register_def by (rule registerLocked_inv) simp_all

lemma RegisterEnvelope_inv: "ack_inv t \<Longrightarrow> ack_inv (AckTracker_RegisterEnvelope now env tr b t)"
  unfolding AckTracker_RegisterEnvelope_def Let_def by (rule registerLocked_inv) simp_all

lemma observeAck_ok:
  assumes "metrics_ok m"
  shows "metrics_ok (observeAckLocked p now m)"
proof -
  define rtt where "rtt = max 0 (time_Sub now (if LastSentAt p = zero_time then RegisteredAt p else LastSentAt p))"
  have r0: "0 \<le> rtt" "rtt \<le> maxInt64"
    using time_Sub_range by (auto simp: rtt_def maxInt64_def)
  have m': "observeAckLocked p now m = m\<lparr>ackedCount := ackedCount m + 1,
      totalAckRTT := wrap64 (totalAckRTT m + rtt), lastAckRTT := rtt, maxAckRTT := max (maxAckRTT m) rtt\<rparr>"
    by (auto simp: observeAckLocked_def Let_def rtt_def max_def)
  have "0 \<le> wrap64 (totalAckRTT m + rtt) \<and>
      wrap64 (totalAckRTT m + rtt) \<le> (ackedCount m + 1) * max (maxAckRTT m) rtt"
    if b: "(ackedCount m + 1) * max (maxAckRTT m) rtt \<le> maxInt64"
  proof -
    have le: "ackedCount m * maxAckRTT m + rtt \<le> (ackedCount m + 1) * max (maxAckRTT m) rtt"
    proof -
      have "ackedCount m * maxAckRTT m \<le> ackedCount m * max (maxAckRTT m) rtt"
        using assms by (intro mult_left_mono) (auto simp: metrics_ok_def)
      then show ?thesis by (simp add: algebra_simps)
    qed
    with b r0 have "ackedCount m * maxAckRTT m \<le> maxInt64" by linarith
    with assms have t: "0 \<le> totalAckRTT m" "totalAckRTT m \<le> ackedCount m * maxAckRTT m"
      by (auto simp: metrics_ok_def)
    have "wrap64 (totalAckRTT m + rtt) = totalAckRTT m + rtt"
      by (rule wrap64_id) (use t r0 le b in \<open>auto simp: minInt64_def\<close>)
    with t r0 le show ?thesis by auto
  qed
  with assms r0 show ?thesis
    by (auto simp: m' metrics_ok_def)
qed

lemma Ack_inv: "ack_inv t \<Longrightarrow> ack_inv (fst (AckTracker_Ack now rid t))"
proof (cases "map_of (pending t) rid")
  case (Some tr)
  assume inv: "ack_inv t"
  let ?t = "fst (AckTracker_Ack now rid t)"
  have t: "?t = t\<lparr>pending := AList.delete rid (pending t),
      metrics := observeAckLocked (tracked_pending tr) now (metrics t)\<rparr>"
    using Some by (simp add: AckTracker_Ack_def)
  have mp: "maxPendingCount (observeAckLocked p now m) = maxPendingCount m" for p m
    by (simp add: observeAckLocked_def Let_def)
  show ?thesis
  proof (rule ack_inv_intro)
    fix k e assume "map_of (pending ?t) k = Some e"
    then have "map_of (pending t) k = Some e" by (simp add: t go_map split: if_splits)
    from ack_inv_entry [OF inv this] show "entry_ok ?t k e" by (simp add: t entry_ok_def)
  next
    show "int (length (pending ?t)) \<le> maxPendingCount (metrics ?t)"
      using inv by (auto simp: t mp length_map_delete ack_inv_def)
  next
    show "metrics_ok (metrics ?t)" using inv by (simp add: t observeAck_ok ack_inv_def)
  qed (use inv in \<open>simp_all add: t ack_inv_def\<close>)
qed (simp add: AckTracker_Ack_def)

lemma Ack_balance:
  assumes "wf_map (pending t)"
  shows "balance (fst (AckTracker_Ack now rid t)) = balance t"
proof (cases "map_of (pending t) rid")
  case (Some tr)
  then obtain n where "length (pending t) = Suc n" by (cases "pending t") auto
  with Some assms show ?thesis
    by (auto simp: AckTracker_Ack_def balance_def length_map_delete observeAckLocked_def Let_def)
qed (simp add: AckTracker_Ack_def)


text \<open>The scans visit every entry once, so the order does not matter.\<close>

lemma lookup_tracked_mset:
  assumes "wf_map (pending t)" "range_order ks (pending t)"
  shows "mset (lookup_tracked t ks) = mset (map snd (pending t))"
proof -
  have "mset ks = mset (map_keys (pending t))"
    using assms by (metis range_order_def wf_map_def set_eq_iff_mset_eq_distinct)
  then have "mset (lookup_tracked t ks) = mset (lookup_tracked t (map_keys (pending t)))"
    by (simp add: lookup_tracked_def List.map_filter_def mset_filter)
  also have "lookup_tracked t (map_keys (pending t)) = map snd (pending t)"
  proof -
    have "map (the \<circ> map_of (pending t)) (map_keys (pending t)) = map snd (pending t)"
      using assms(1) by (auto simp: map_keys_def wf_map_def)
    moreover have "filter (\<lambda>x. map_of (pending t) x \<noteq> None) (map_keys (pending t)) = map_keys (pending t)"
      by (auto simp: filter_id_conv map_keys_iff)
    ultimately show ?thesis by (simp add: lookup_tracked_def List.map_filter_def)
  qed
  finally show ?thesis .
qed

lemma lookup_tracked_map: "range_order ks (pending t) \<Longrightarrow> wf_map (pending t) \<Longrightarrow>
   tr \<in> set (lookup_tracked t ks) \<longleftrightarrow> (\<exists>k. map_of (pending t) k = Some tr)"
proof -
  assume "range_order ks (pending t)" "wf_map (pending t)"
  from lookup_tracked_mset [OF this(2,1)]
  have "set (lookup_tracked t ks) = snd ` set (pending t)"
    by (metis set_mset_mset list.set_map)
  with \<open>wf_map (pending t)\<close> show ?thesis by (force simp: set_map_iff [symmetric])
qed

lemma length_dom_diff:
  assumes "wf_map m" "wf_map m'" and "\<And>k. map_of m' k = None \<longleftrightarrow> map_of m k = None \<or> (\<exists>v. map_of m k = Some v \<and> P v)"
  shows "length m = length m' + length (filter P (map snd m))"
proof -
  let ?D = "{k. \<exists>v. map_of m k = Some v \<and> P v}"
  have f: "finite (dom (map_of m))" by (rule finite_dom_map_of)
  have dm: "k \<in> dom (map_of m') \<longleftrightarrow> k \<in> dom (map_of m) \<and> k \<notin> ?D" for k
    using assms(3) [of k] by (auto simp: dom_def)
  have "?D \<subseteq> dom (map_of m)" by auto
  with dm have "dom (map_of m) = dom (map_of m') \<union> ?D" "dom (map_of m') \<inter> ?D = {}"
    by blast+
  moreover from this(1) f have "finite (dom (map_of m'))" "finite ?D" by simp_all
  ultimately have "card (dom (map_of m)) = card (dom (map_of m')) + card ?D"
    by (simp only: card_Un_disjoint)
  moreover have "card ?D = length (filter P (map snd m))"
  proof -
    have "?D = set (map fst (filter (P \<circ> snd) m))"
      using assms(1) by (force simp: set_map_iff [symmetric])
    moreover have "distinct (map fst (filter (P \<circ> snd) m))"
      using assms(1) by (simp add: wf_map_def map_keys_def distinct_map_filter)
    ultimately have "card ?D = length (map fst (filter (P \<circ> snd) m))" by (metis distinct_card)
    then show ?thesis by (simp add: filter_map)
  qed
  ultimately show ?thesis using assms by (simp add: length_map_card)
qed


lemma DueRetries_spec:
  assumes "ack_inv t" "range_order order (pending t)" "AckTracker_DueRetries now order t = (t', b)"
  shows "timeout t' = timeout t" "backoffMultiplier t' = backoffMultiplier t" "maxRetries t' = maxRetries t"
    and "wf_map (pending t')"
    and "map_of (pending t') k = Option.bind (map_of (pending t) k) (due_entry t now)"
    and "Exhausted b = map tracked_pending (filter (is_exhausted now) (lookup_tracked t order))"
    and "Retries b = map (retry_of t now) (filter (is_retried now) (lookup_tracked t order))"
    and "metrics t' = (metrics t)\<lparr>
      exhaustedCount := exhaustedCount (metrics t) + int (length (filter (is_exhausted now) (map snd (pending t)))),
      retryDispatchCount := retryDispatchCount (metrics t) + int (length (filter (is_retried now) (map snd (pending t))))\<rparr>"
proof -
  have d: "distinct order" using assms(2) by (simp add: range_order_def)
  have len: "length (filter P (lookup_tracked t order)) = length (filter P (map snd (pending t)))" for P
    using lookup_tracked_mset [OF ack_inv_wf [OF assms(1)] assms(2)] by (metis mset_filter size_mset)
  note s = DueRetries_loop_spec [OF d assms(3) [unfolded AckTracker_DueRetries_def]]
  show "timeout t' = timeout t" "backoffMultiplier t' = backoffMultiplier t" "maxRetries t' = maxRetries t"
    "wf_map (pending t')"
    "Exhausted b = map tracked_pending (filter (is_exhausted now) (lookup_tracked t order))"
    "Retries b = map (retry_of t now) (filter (is_retried now) (lookup_tracked t order))"
    using s ack_inv_wf [OF assms(1)] by simp_all
  show "metrics t' = (metrics t)\<lparr>
      exhaustedCount := exhaustedCount (metrics t) + int (length (filter (is_exhausted now) (map snd (pending t)))),
      retryDispatchCount := retryDispatchCount (metrics t) + int (length (filter (is_retried now) (map snd (pending t))))\<rparr>"
    using s by (simp only: len)
  show "map_of (pending t') k = Option.bind (map_of (pending t) k) (due_entry t now)"
    using s range_order_iff [OF assms(2), of k] by auto
qed

lemma DueRetries_length:
  assumes "ack_inv t" "range_order order (pending t)" "AckTracker_DueRetries now order t = (t', b)"
  shows "length (pending t) = length (pending t') + length (filter (is_exhausted now) (map snd (pending t)))"
proof (rule length_dom_diff)
  show "wf_map (pending t)" using assms(1) by (rule ack_inv_wf)
  show "wf_map (pending t')" using assms by (rule DueRetries_spec)
  show "(map_of (pending t') k = None) =
     (map_of (pending t) k = None \<or> (\<exists>v. map_of (pending t) k = Some v \<and> is_exhausted now v))" for k
    using DueRetries_spec(5) [OF assms, of k]
    by (cases "map_of (pending t) k") (auto simp: due_entry_def)
qed

lemma due_entry_ok:
  assumes "entry_ok t k tr" "due_entry t now tr = Some tr'"
  shows "entry_ok t k tr'"
  using assms by (auto simp: entry_ok_def due_entry_def retried_pending_def is_retried_def Let_def
      split: if_splits)

lemma entry_ok_cong: "maxRetries t = maxRetries u \<Longrightarrow> entry_ok t = entry_ok u"
  by (auto simp: entry_ok_def fun_eq_iff)

lemma DueRetries_inv:
  assumes "ack_inv t" "range_order order (pending t)"
  shows "ack_inv (fst (AckTracker_DueRetries now order t))"
proof -
  obtain t' b where e: "AckTracker_DueRetries now order t = (t', b)" by fastforce
  note s = DueRetries_spec [OF assms e]
  have "ack_inv t'"
  proof (rule ack_inv_intro)
    fix k tr assume "map_of (pending t') k = Some tr"
    then have "Option.bind (map_of (pending t) k) (due_entry t now) = Some tr"
      by (simp only: s(5))
    then obtain tr0 where "map_of (pending t) k = Some tr0" "due_entry t now tr0 = Some tr"
      by (cases "map_of (pending t) k") simp_all
    then show "entry_ok t' k tr"
      using due_entry_ok ack_inv_entry [OF assms(1)] entry_ok_cong [OF s(3)] by metis
  next
    show "int (length (pending t')) \<le> maxPendingCount (metrics t')"
      using DueRetries_length [OF assms e] assms(1) by (simp add: s(8) ack_inv_def)
  qed (use s assms(1) in \<open>auto simp: ack_inv_def metrics_ok_def\<close>)
  with e show ?thesis by simp
qed

lemma DueRetries_balance:
  assumes "ack_inv t" "range_order order (pending t)"
  shows "balance (fst (AckTracker_DueRetries now order t)) = balance t"
proof -
  obtain t' b where e: "AckTracker_DueRetries now order t = (t', b)" by fastforce
  show ?thesis
    using DueRetries_spec(8) [OF assms e] DueRetries_length [OF assms e] e by (simp add: balance_def)
qed


lemma Expired_spec:
  assumes "ack_inv t" "range_order order (pending t)" "AckTracker_Expired now order t = (t', ex)"
  shows "timeout t' = timeout t" "backoffMultiplier t' = backoffMultiplier t" "maxRetries t' = maxRetries t"
    and "wf_map (pending t')"
    and "map_of (pending t') k =
      Option.bind (map_of (pending t) k) (\<lambda>tr. if is_expired now tr then None else Some tr)"
    and "ex = map tracked_pending (filter (is_expired now) (lookup_tracked t order))"
    and "metrics t' = (metrics t)\<lparr>
      expiredCount := expiredCount (metrics t) + int (length (filter (is_expired now) (map snd (pending t))))\<rparr>"
    and "length (pending t) = length (pending t') + length (filter (is_expired now) (map snd (pending t)))"
proof -
  have d: "distinct order" using assms(2) by (simp add: range_order_def)
  have len: "length (filter P (lookup_tracked t order)) = length (filter P (map snd (pending t)))" for P
    using lookup_tracked_mset [OF ack_inv_wf [OF assms(1)] assms(2)] by (metis mset_filter size_mset)
  note s = Expired_loop_spec [OF d assms(3) [unfolded AckTracker_Expired_def]]
  show "timeout t' = timeout t" "backoffMultiplier t' = backoffMultiplier t" "maxRetries t' = maxRetries t"
    and w: "wf_map (pending t')"
    and "ex = map tracked_pending (filter (is_expired now) (lookup_tracked t order))"
    using s ack_inv_wf [OF assms(1)] by simp_all
  show "metrics t' = (metrics t)\<lparr>
      expiredCount := expiredCount (metrics t) + int (length (filter (is_expired now) (map snd (pending t))))\<rparr>"
    using s by (simp only: len)
  show m: "map_of (pending t') k =
      Option.bind (map_of (pending t) k) (\<lambda>tr. if is_expired now tr then None else Some tr)" for k
    using s range_order_iff [OF assms(2), of k] by auto
  show "length (pending t) = length (pending t') + length (filter (is_expired now) (map snd (pending t)))"
    by (rule length_dom_diff [OF ack_inv_wf [OF assms(1)] w]) (simp add: m split: option.split bind_split)
qed

lemma Expired_inv:
  assumes "ack_inv t" "range_order order (pending t)"
  shows "ack_inv (fst (AckTracker_Expired now order t))"
proof -
  obtain t' b where e: "AckTracker_Expired now order t = (t', b)" by fastforce
  note s = Expired_spec [OF assms e]
  have "ack_inv t'"
  proof (rule ack_inv_intro)
    fix k tr assume "map_of (pending t') k = Some tr"
    then have "map_of (pending t) k = Some tr" by (simp add: s(5) split: bind_splits if_splits)
    then show "entry_ok t' k tr"
      using ack_inv_entry [OF assms(1)] entry_ok_cong [OF s(3)] by metis
  qed (use s assms(1) in \<open>auto simp: ack_inv_def metrics_ok_def\<close>)
  with e show ?thesis by simp
qed

lemma Expired_balance:
  assumes "ack_inv t" "range_order order (pending t)"
  shows "balance (fst (AckTracker_Expired now order t)) = balance t"
proof -
  obtain t' b where e: "AckTracker_Expired now order t = (t', b)" by fastforce
  show ?thesis using Expired_spec(7,8) [OF assms e] e by (simp add: balance_def)
qed

lemma Forget_spec:
  fixes sid tr order t
  defines "t' \<equiv> AckTracker_ForgetBySessionTransport sid tr order t"
  assumes "ack_inv t" "range_order order (pending t)"
  shows "timeout t' = timeout t" "backoffMultiplier t' = backoffMultiplier t" "maxRetries t' = maxRetries t"
    and "metrics t' = metrics t" and "wf_map (pending t')"
    and "map_of (pending t') k = Option.bind (map_of (pending t) k)
      (\<lambda>e. if sid \<noteq> [] \<and> ackSID (tracked_pending e) = sid \<and> ackTransport (tracked_pending e) = tr
           then None else Some e)"
    and "int (length (pending t)) = int (length (pending t')) + forgotten sid tr t"
proof -
  have d: "distinct order" using assms(3) by (simp add: range_order_def)
  note s = Forget_loop_spec [OF d, of sid tr t]
  show c: "timeout t' = timeout t" "backoffMultiplier t' = backoffMultiplier t" "maxRetries t' = maxRetries t"
    "metrics t' = metrics t" "wf_map (pending t')"
    using s ack_inv_wf [OF assms(2)] by (simp_all add: t'_def AckTracker_ForgetBySessionTransport_def)
  show m: "map_of (pending t') k = Option.bind (map_of (pending t) k)
      (\<lambda>e. if sid \<noteq> [] \<and> ackSID (tracked_pending e) = sid \<and> ackTransport (tracked_pending e) = tr
           then None else Some e)" for k
    using s range_order_iff [OF assms(3), of k]
    by (auto simp: t'_def AckTracker_ForgetBySessionTransport_def)
  let ?P = "\<lambda>e. sid \<noteq> [] \<and> ackSID (tracked_pending e) = sid \<and> ackTransport (tracked_pending e) = tr"
  have "length (pending t) = length (pending t') + length (filter ?P (map snd (pending t)))"
    by (rule length_dom_diff [OF ack_inv_wf [OF assms(2)] c(5)]) (simp add: m split: option.split bind_split)
  then show "int (length (pending t)) = int (length (pending t')) + forgotten sid tr t"
    by (cases "sid = []") (simp_all add: forgotten_def)
qed

lemma forgotten_nonneg: "0 \<le> forgotten sid tr t"
  by (simp add: forgotten_def)

lemma Forget_inv:
  assumes "ack_inv t" "range_order order (pending t)"
  shows "ack_inv (AckTracker_ForgetBySessionTransport sid tr order t)" (is "ack_inv ?t")
proof (rule ack_inv_intro)
  note s = Forget_spec [OF assms, of sid tr]
  fix k e assume "map_of (pending ?t) k = Some e"
  then have "map_of (pending t) k = Some e" by (simp add: s(6) split: bind_splits if_splits)
  then show "entry_ok ?t k e" using ack_inv_entry [OF assms(1)] entry_ok_cong [OF s(3)] by metis
next
  show "int (length (pending ?t)) \<le> maxPendingCount (metrics ?t)"
    using Forget_spec(4,7) [OF assms, of sid tr] assms(1) forgotten_nonneg [of sid tr t]
    by (simp add: ack_inv_def)
qed (use Forget_spec [OF assms, of sid tr] assms(1) in \<open>auto simp: ack_inv_def\<close>)

lemma Forget_balance:
  assumes "ack_inv t" "range_order order (pending t)"
  shows "balance (AckTracker_ForgetBySessionTransport sid tr order t) = balance t - forgotten sid tr t"
  using Forget_spec(4,7) [OF assms, of sid tr] by (simp add: balance_def)

lemma New_balance: "balance (NewAckTrackerWithConfig cfg) = 0"
  by (simp add: balance_def NewAckTrackerWithConfig_def Let_def zero_ackMetricState_def)

lemmas ack_inv_ops = Register_inv RegisterEnvelope_inv Ack_inv DueRetries_inv Expired_inv Forget_inv

lemmas ack_balance_ops = Ack_balance DueRetries_balance Expired_balance Forget_balance

interpretation ledger: inductive_invariant ack_init ack_step ledger_inv
proof
  show "ledger_inv r" if "ack_init r" for r
    using that by (auto simp: ack_init_def ledger_inv_def ack_inv_New New_balance)
next
  fix r r' assume "ledger_inv r" "ack_step r r'"
  from this(2,1) show "ledger_inv r'"
    by cases (auto simp: ledger_inv_def ack_inv_ops ack_balance_ops ack_inv_wf
        AckTracker_Register_def AckTracker_RegisterEnvelope_def Let_def registerLocked_balance
        registerLocked_inv)
qed


subsection \<open>Retries\<close>



text \<open>What one poll at which the entry is due does to it.\<close>

lemma DueRetries_entry:
  assumes "ack_inv t" "range_order order (pending t)" "AckTracker_DueRetries now order t = (t', b)"
    and "map_of (pending t) rid = Some tr"
  shows "retries_for rid (Retries b) = (if is_retried now tr then [retry_of t now tr] else [])"
    and "reports_for rid (Exhausted b) = (if is_exhausted now tr then [tracked_pending tr] else [])"
proof -
  have one: "filter (\<lambda>e. ackRID (tracked_pending e) = rid) (lookup_tracked t ks) = (if rid \<in> set ks then [tr] else [])"
    if "distinct ks" for ks
    using that
  proof (induction ks)
    case (Cons k ks)
    then show ?case
      using ack_inv_entry [OF assms(1), of k] assms(4)
      by (auto simp: lookup_tracked_Cons entry_ok_def Let_def split: option.splits)
  qed simp
  have "distinct order" "rid \<in> set order"
    using assms(2,4) range_order_iff [OF assms(2), of rid] by (simp_all add: range_order_def)
  with one have f: "filter (\<lambda>e. ackRID (tracked_pending e) = rid) (lookup_tracked t order) = [tr]" by simp
  have c: "filter (\<lambda>e. ackRID (tracked_pending e) = rid) (filter P (lookup_tracked t order)) = filter P [tr]" for P
    by (metis (no_types, lifting) f filter_filter conj_commute filter_cong)
  have rid: "ackRID (retryPending (retry_of t now e)) = ackRID (tracked_pending e)" for e
    by (simp add: retry_of_def retried_pending_def Let_def)
  show "retries_for rid (Retries b) = (if is_retried now tr then [retry_of t now tr] else [])"
    using c [of "is_retried now"] DueRetries_spec(7) [OF assms(1-3)]
    by (simp add: retries_for_def filter_map comp_def rid)
  show "reports_for rid (Exhausted b) = (if is_exhausted now tr then [tracked_pending tr] else [])"
    using c [of "is_exhausted now"] DueRetries_spec(6) [OF assms(1-3)]
    by (simp add: reports_for_def filter_map comp_def)
qed

lemma run_polls_live:
  assumes "ack_inv t" "map_of (pending t) rid = Some tr" "RetryEnabled (tracked_pending tr)"
    and "nat (MaxRetries (tracked_pending tr) - RetryCount (tracked_pending tr)) = n"
    and "length ps = Suc n" "polls_due rid ps t" "run_polls ps t = (t', rs, xs)"
  shows "map_of (pending t') rid = None \<and>
    map retryEnvelope (retries_for rid rs) = replicate n (tracked_envelope tr) \<and>
    length (reports_for rid xs) = 1"
  using assms
proof (induction n arbitrary: t tr ps t' rs xs)
  case 0
  then obtain now order where ps: "ps = [(now, order)]" by (cases ps) auto
  obtain t1 b where e: "AckTracker_DueRetries now order t = (t1, b)" by fastforce
  have ro: "range_order order (pending t)" and due: "ExpiresAt (tracked_pending tr) \<le> now"
    using 0 ps by simp_all
  have x: "is_exhausted now tr" "\<not> is_retried now tr"
    using 0 due by (simp_all add: is_exhausted_def is_due_def is_retried_def)
  from 0 ps e have "t' = t1" "rs = Retries b" "xs = Exhausted b" by simp_all
  with x 0(2) DueRetries_entry [OF 0(1) ro e 0(2)] DueRetries_spec(5) [OF 0(1) ro e, of rid]
  show ?case by (simp add: due_entry_def)
next
  case (Suc n)
  then obtain now order ps' where ps: "ps = (now, order) # ps'" by (cases ps) auto
  obtain t1 b where e: "AckTracker_DueRetries now order t = (t1, b)" by fastforce
  obtain t2 rs' xs' where r: "run_polls ps' t1 = (t2, rs', xs')" by (cases "run_polls ps' t1")
  have ro: "range_order order (pending t)" and due: "ExpiresAt (tracked_pending tr) \<le> now"
    and pd: "polls_due rid ps' t1"
    using Suc.prems ps e by simp_all
  have x: "\<not> is_exhausted now tr" "is_retried now tr"
    using Suc.prems due by (auto simp: is_exhausted_def is_due_def is_retried_def)
  let ?tr = "tr\<lparr>tracked_pending := retried_pending t now tr\<rparr>"
  have m: "map_of (pending t1) rid = Some ?tr"
    using x Suc.prems(2) DueRetries_spec(5) [OF Suc.prems(1) ro e, of rid] by (simp add: due_entry_def)
  have inv: "ack_inv t1" using DueRetries_inv [OF Suc.prems(1) ro, of now] e by simp
  have "map_of (pending t2) rid = None \<and>
    map retryEnvelope (retries_for rid rs') = replicate n (tracked_envelope ?tr) \<and>
    length (reports_for rid xs') = 1"
    by (rule Suc.IH [OF inv m _ _ _ pd r])
      (use Suc.prems ps in \<open>auto simp: retried_pending_def Let_def\<close>)
  moreover from Suc.prems ps e r have "t' = t2" "rs = Retries b @ rs'" "xs = Exhausted b @ xs'" by simp_all
  ultimately show ?case
    using DueRetries_entry [OF Suc.prems(1) ro e Suc.prems(2)] x
    by (simp add: retries_for_def reports_for_def retry_of_def)
qed

subsection \<open>Metrics\<close>

lemma count_transports_sum:
  "wf_map m \<Longrightarrow> wf_map (count_transports trs m) \<and>
   sum_list (map snd (count_transports trs m)) = sum_list (map snd m) + int (length trs)"
proof (induction trs arbitrary: m)
  case (Cons tr trs)
  have upd: "sum_list (map snd (AList.update k ((case map_of m k of None \<Rightarrow> 0 | Some n \<Rightarrow> n) + 1) m))
      = sum_list (map snd m) + (1::int)" if "wf_map m" for k and m :: "(string, int) gomap"
    using that
  proof (induction m)
    case (Cons kv m)
    then show ?case by (cases kv) (auto simp: wf_map_def map_keys_def)
  qed simp
  let ?k = "normalizeTransport (ackTransport (tracked_pending tr))"
  let ?m = "AList.update ?k ((case map_of m ?k of None \<Rightarrow> 0 | Some n \<Rightarrow> n) + 1) m"
  have "wf_map ?m" using Cons.prems by simp
  from Cons.IH [OF this] upd [OF Cons.prems, of ?k] show ?case by (simp add: Let_def)
qed simp

lemma count_transports_lookup:
  "map_of (count_transports trs m) k = (let n = length (filter (\<lambda>tr. normalizeTransport (ackTransport (tracked_pending tr)) = k) trs)
     in if n = 0 then map_of m k else Some ((case map_of m k of None \<Rightarrow> 0 | Some j \<Rightarrow> j) + int n))"
  by (induction trs arbitrary: m) (auto simp: Let_def go_map)

lemma count_transports_exact:
  assumes "ack_inv t" "range_order order (pending t)"
  shows "(case map_of (count_transports (lookup_tracked t order) defaultPendingByTransport) k of
      None \<Rightarrow> 0 | Some n \<Rightarrow> n)
    = int (length (filter (\<lambda>tr. ackTransport (tracked_pending tr) = k) (map snd (pending t))))"
proof -
  have same: "filter (\<lambda>tr. normalizeTransport (ackTransport (tracked_pending tr)) = k) (lookup_tracked t order)
      = filter (\<lambda>tr. ackTransport (tracked_pending tr) = k) (lookup_tracked t order)"
    using lookup_tracked_map [OF assms(2) ack_inv_wf [OF assms(1)]] ack_inv_entry [OF assms(1)]
    by (intro filter_cong) (force simp: entry_ok_def Let_def normalizeTransport_def)+
  have len: "length (filter P (lookup_tracked t order)) = length (filter P (map snd (pending t)))" for P
    using lookup_tracked_mset [OF ack_inv_wf [OF assms(1)] assms(2)] by (metis mset_filter size_mset)
  have "map_of defaultPendingByTransport k \<in> {None, Some 0}"
    by (auto simp: defaultPendingByTransport_def)
  then show ?thesis
    unfolding count_transports_lookup same len Let_def by (auto split: option.split)
qed

lemma avg_le_max:
  assumes "metrics_ok m" "ackedCount m * maxAckRTT m \<le> maxInt64" "0 < ackedCount m"
  shows "Milliseconds (quot (totalAckRTT m) (ackedCount m)) \<le> Milliseconds (maxAckRTT m)"
proof -
  from assms have t: "0 \<le> totalAckRTT m" "totalAckRTT m \<le> ackedCount m * maxAckRTT m"
    by (auto simp: metrics_ok_def)
  have "totalAckRTT m div ackedCount m \<le> maxAckRTT m"
    using zdiv_mono1 [OF t(2), of "ackedCount m"] assms(3) by simp
  then show ?thesis
    using t assms(3) by (simp add: quot_nonneg Milliseconds_mono pos_imp_zdiv_nonneg_iff)
qed


interpretation acks: ack_ledger ack_register ack_ack ack_waits "\<lambda>(now, env, transport, retry). RID env" snd
proof
  show "ack_waits (ack_register r t) k \<longleftrightarrow> k = (case r of (now, env, transport, retry) \<Rightarrow> RID env) \<or> ack_waits t k"
    for r t k
    by (cases r) (auto simp: ack_waits_def ack_register_def AckTracker_RegisterEnvelope_def Let_def
        registerLocked_pending go_map)
  show "snd (ack_ack i t) \<longleftrightarrow> ack_waits t (snd i)" for i t
    by (simp add: ack_ack_def ack_waits_def AckTracker_Ack_def split: option.split)
  show "ack_waits (fst (ack_ack i t)) k \<longleftrightarrow> ack_waits t k \<and> k \<noteq> snd i" for i t k
    by (auto simp: ack_ack_def ack_waits_def AckTracker_Ack_def go_map split: option.splits)
qed

section \<open>Properties\<close>

text \<open>
  C2: In every state the tracker can reach, the table is well formed (keyed by request id,
  retry counts within their limits, size within the recorded maximum, round-trip metrics
  within bounds), and the ledger balances: every entry ever added is still pending,
  acknowledged, expired, exhausted or forgotten with its session, and counted once.
\<close>
theorem ack_ledger_conserved:
  assumes "reach ack_init ack_step (t, registered, dropped)"
  shows "ack_inv t \<and>
    registered = AckTracker_PendingCount t + ackedCount (metrics t) + expiredCount (metrics t)
      + exhaustedCount (metrics t) + dropped"
  using ledger.reach_inv [OF assms] by (simp add: ledger_inv_def balance_def AckTracker_PendingCount_def)

text \<open>
  Of any series of acknowledgements, exactly the first for a request id that waits
  succeeds: each answer is true iff the id was registered (or already waited) and no earlier
  acknowledgement of the series named it.
\<close>
theorem acknowledged_once:
  assumes "n < length is"
  shows "snd (ack_all ack_ack is (fold ack_register rs t)) ! n \<longleftrightarrow>
    (snd (is ! n) \<in> (\<lambda>(now, env, transport, retry). RID env) ` set rs \<or> ack_waits t (snd (is ! n))) \<and>
    snd (is ! n) \<notin> snd ` set (take n is)"
  using acks.ack_all_answers [of "is" "fold ack_register rs t"] assms acks.register_all_waits by metis

text \<open>
  The order in which Go visits the table is unspecified and does not matter: two polls
  of the same table at the same instant leave equal tables and metrics, and report the same
  retries and the same exhausted entries, up to order.
\<close>
theorem due_retries_order_independent:
  assumes "ack_inv t" "range_order o1 (pending t)" "range_order o2 (pending t)"
    and "AckTracker_DueRetries now o1 t = (t1, b1)" "AckTracker_DueRetries now o2 t = (t2, b2)"
  shows "map_of (pending t1) = map_of (pending t2) \<and> metrics t1 = metrics t2 \<and>
    mset (Retries b1) = mset (Retries b2) \<and> mset (Exhausted b1) = mset (Exhausted b2)"
proof -
  have "mset (lookup_tracked t o1) = mset (lookup_tracked t o2)"
    using assms lookup_tracked_mset ack_inv_wf by metis
  then show ?thesis
    using DueRetries_spec [OF assms(1,2,4)] DueRetries_spec [OF assms(1,3,5)]
    by (auto simp: fun_eq_iff simp flip: mset_filter mset_map) (metis mset_filter mset_map)+
qed

text \<open>
  C5: Retransmission ends. An entry with retries enabled that is not acknowledged is sent
  again exactly as often as it has retries left, each time with the envelope it was
  registered with, and the next poll at which it is due removes it and reports it as
  exhausted once.
\<close>
theorem retries_end:
  assumes "ack_inv t" "map_of (pending t) rid = Some tr" "RetryEnabled (tracked_pending tr)"
    and "left = nat (MaxRetries (tracked_pending tr) - RetryCount (tracked_pending tr))"
    and "length polls = left + 1" "polls_due rid polls t"
    and "run_polls polls t = (t', retries, reports)"
  shows "map_of (pending t') rid = None \<and>
    map retryEnvelope (retries_for rid retries) = replicate left (tracked_envelope tr) \<and>
    length (reports_for rid reports) = 1"
  using run_polls_live [OF assms(1-3) assms(4) [symmetric] _ assms(6,7)] assms(5) by simp


text \<open>
  The metrics snapshot is consistent: the counts by transport add up to the number of
  pending entries, each transport is counted exactly, and the average round trip is between
  zero and the largest one unless the sum of the round trips may have overflowed.
\<close>
theorem ack_metrics_consistent:
  assumes "ack_inv t" "range_order order (pending t)"
  shows "sum_list (map snd (PendingByTransport (AckTracker_Metrics order t)))
      = PendingCount (AckTracker_Metrics order t) \<and>
    (\<forall>k. (case map_of (PendingByTransport (AckTracker_Metrics order t)) k of None \<Rightarrow> 0 | Some n \<Rightarrow> n)
      = int (length (filter (\<lambda>tr. ackTransport (tracked_pending tr) = k) (map snd (pending t))))) \<and>
    (ackedCount (metrics t) * maxAckRTT (metrics t) \<le> maxInt64 \<longrightarrow>
      0 \<le> AvgAckRTTMs (AckTracker_Metrics order t) \<and>
      AvgAckRTTMs (AckTracker_Metrics order t) \<le> MaxAckRTTMs (AckTracker_Metrics order t))"
proof (intro conjI allI impI)
  have wf: "wf_map defaultPendingByTransport"
    by (simp add: defaultPendingByTransport_def wf_map_def map_keys_def)
  have "length (lookup_tracked t order) = length (pending t)"
    using lookup_tracked_mset [OF ack_inv_wf [OF assms(1)] assms(2)] by (metis length_map size_mset)
  with count_transports_sum [OF wf, of "lookup_tracked t order"]
  show "sum_list (map snd (PendingByTransport (AckTracker_Metrics order t)))
      = PendingCount (AckTracker_Metrics order t)"
    by (simp add: AckTracker_Metrics_def Let_def defaultPendingByTransport_def)
next
  fix k
  show "(case map_of (PendingByTransport (AckTracker_Metrics order t)) k of None \<Rightarrow> 0 | Some n \<Rightarrow> n)
      = int (length (filter (\<lambda>tr. ackTransport (tracked_pending tr) = k) (map snd (pending t))))"
    using count_transports_exact [OF assms] by (simp add: AckTracker_Metrics_def Let_def)
next
  let ?m = "metrics t"
  assume b: "ackedCount ?m * maxAckRTT ?m \<le> maxInt64"
  have ok: "metrics_ok ?m" using assms(1) by (simp add: ack_inv_def)
  have max: "MaxAckRTTMs (AckTracker_Metrics order t) = Milliseconds (maxAckRTT ?m)"
  proof -
    have "maxAckRTT ?m = 0 \<or> 0 < maxAckRTT ?m" using ok by (auto simp: metrics_ok_def)
    then show ?thesis
      by (auto simp: AckTracker_Metrics_def Let_def runtime_durationMillis_def Milliseconds_def quot_def)
  qed
  show "0 \<le> AvgAckRTTMs (AckTracker_Metrics order t)"
    using ok b by (auto simp: AckTracker_Metrics_def Let_def metrics_ok_def Milliseconds_nonneg quot_nonneg
        pos_imp_zdiv_nonneg_iff Millisecond_def)
  show "AvgAckRTTMs (AckTracker_Metrics order t) \<le> MaxAckRTTMs (AckTracker_Metrics order t)"
    unfolding max using avg_le_max [OF ok b] ok
    by (auto simp: AckTracker_Metrics_def Let_def metrics_ok_def Milliseconds_nonneg
        pos_imp_zdiv_nonneg_iff Millisecond_def)
qed

section \<open>Witnesses\<close>

theorem ack_ledger_conserved_witness:
  "reach ack_init ack_step (ex_tracker, 1, 0) \<and> ack_inv ex_tracker \<and> AckTracker_PendingCount ex_tracker = 1"
proof -
  have i: "ack_init (NewAckTrackerWithConfig DefaultAckTrackerConfig, 0, 0)"
    unfolding ack_init_def by blast
  have "fresh (NewAckTrackerWithConfig DefaultAckTrackerConfig) (RID ex_env) = 1" by code_simp
  with step_RegisterEnvelope [of "NewAckTrackerWithConfig DefaultAckTrackerConfig" 0 0 0 ex_env
      AckTransportP2P True]
  have st: "ack_step (NewAckTrackerWithConfig DefaultAckTrackerConfig, 0, 0) (ex_tracker, 1, 0)"
    unfolding ex_tracker_def by simp
  have r: "reach ack_init ack_step (ex_tracker, 1, 0)"
    by (rule reach_step [where s = "(NewAckTrackerWithConfig DefaultAckTrackerConfig, 0, 0)"],
        rule reach_init, rule i, rule st)
  have "ackedCount (metrics ex_tracker) = 0" "expiredCount (metrics ex_tracker) = 0"
    "exhaustedCount (metrics ex_tracker) = 0" by code_simp+
  with r ack_ledger_conserved [OF r] show ?thesis by simp
qed

theorem acknowledged_once_witness:
  "snd (ack_all ack_ack [(7, ''r1''), (8, ''r1'')]
     (fold ack_register [(0, ex_env, AckTransportP2P, True)] (NewAckTracker 0))) ! 0 \<and>
   \<not> snd (ack_all ack_ack [(7, ''r1''), (8, ''r1'')]
     (fold ack_register [(0, ex_env, AckTransportP2P, True)] (NewAckTracker 0))) ! 1"
  using acknowledged_once [of 0 "[(7, ''r1''), (8, ''r1'')]" "[(0, ex_env, AckTransportP2P, True)]" "NewAckTracker 0"]
    acknowledged_once [of 1 "[(7, ''r1''), (8, ''r1'')]" "[(0, ex_env, AckTransportP2P, True)]" "NewAckTracker 0"]
  by (simp add: ex_env_def)

theorem due_retries_order_independent_witness:
  "let (t1, b1) = AckTracker_DueRetries (3 * Second) [''r1''] ex_tracker;
       (t2, b2) = AckTracker_DueRetries (3 * Second) [''r1''] ex_tracker
   in metrics t1 = metrics t2 \<and> length (Retries b1) = 1"
proof -
  have "ack_inv ex_tracker" "range_order [''r1''] (pending ex_tracker)" by code_simp+
  moreover have "length (Retries (snd (AckTracker_DueRetries (3 * Second) [''r1''] ex_tracker))) = 1"
    by code_simp
  ultimately show ?thesis
    using due_retries_order_independent [of ex_tracker "[''r1'']" "[''r1'']" "3 * Second"]
    by (auto split: prod.split)
qed

theorem retries_end_witness:
  "map_of (pending (fst (run_polls ex_polls ex_tracker))) ''r1'' = None \<and>
   map retryEnvelope (retries_for ''r1'' (fst (snd (run_polls ex_polls ex_tracker)))) = [ex_env, ex_env]"
proof -
  obtain tr where tr: "map_of (pending ex_tracker) ''r1'' = Some tr" "RetryEnabled (tracked_pending tr)"
      "MaxRetries (tracked_pending tr) = 2" "RetryCount (tracked_pending tr) = 0" "tracked_envelope tr = ex_env"
    by (simp add: ex_tracker_def ex_env_def AckTracker_RegisterEnvelope_def registerLocked_pending
        NewAckTrackerWithConfig_def DefaultAckTrackerConfig_def maxRetriesForRetry_def Let_def Second_def Millisecond_def)
  obtain t' rs xs where r: "run_polls ex_polls ex_tracker = (t', rs, xs)" by (metis prod_cases3)
  have "ack_inv ex_tracker" "polls_due ''r1'' ex_polls ex_tracker" by code_simp+
  from retries_end [OF this(1) tr(1,2) refl _ this(2) r] tr r show ?thesis
    by (simp add: ex_polls_def numeral_2_eq_2)
qed


theorem ack_metrics_consistent_witness:
  "sum_list (map snd (PendingByTransport (AckTracker_Metrics [''r1''] ex_tracker))) = 1"
proof -
  have "ack_inv ex_tracker" "range_order [''r1''] (pending ex_tracker)"
    "PendingCount (AckTracker_Metrics [''r1''] ex_tracker) = 1" by code_simp+
  with ack_metrics_consistent [of ex_tracker "[''r1'']"] show ?thesis by simp
qed

end
