(* ===== verification/State_Manager.thy ===== *)
theory State_Manager
  imports Go_Prelude
begin

text \<open>
  \<open>internal/runtime/types.go\<close> and \<open>internal/runtime/state_manager.go\<close>: the connection state
  machine of a session, with the timer that bounds a peer-to-peer attempt and the delayed
  fallback to the relay.

  A \<open>time.AfterFunc\<close> timer is armed with a deadline, fires at some instant not before it, and
  then runs its callback in a goroutine of its own, which has to take the mutex of the
  manager. \<open>Stop\<close> disarms a timer that has not fired; it has no effect on one whose goroutine
  is already waiting for the mutex. \<open>smTimers\<close> holds the timers that are armed or fired.
\<close>

section \<open>Types (types.go)\<close>

type_synonym ConnectionState = string
abbreviation StatePairing :: ConnectionState where "StatePairing \<equiv> ''PAIRING''"
abbreviation StateSignaling :: ConnectionState where "StateSignaling \<equiv> ''SIGNALING''"
abbreviation StateP2PConnecting :: ConnectionState where "StateP2PConnecting \<equiv> ''P2P_CONNECTING''"
abbreviation StateP2PConnected :: ConnectionState where "StateP2PConnected \<equiv> ''P2P_CONNECTED''"
abbreviation StateRelayConnected :: ConnectionState where "StateRelayConnected \<equiv> ''RELAY_CONNECTED''"
abbreviation StateReconnecting :: ConnectionState where "StateReconnecting \<equiv> ''RECONNECTING''"
abbreviation StateClosed :: ConnectionState where "StateClosed \<equiv> ''CLOSED''"

record Transition =
  trState :: ConnectionState
  trAt :: int
  trNote :: string

record ManagerConfig =
  P2PTimeout :: duration
  RelayFallbackDelay :: duration

definition DefaultManagerConfig :: ManagerConfig where
  "DefaultManagerConfig = \<lparr>P2PTimeout = 3 * Second, RelayFallbackDelay = 100 * Millisecond\<rparr>"

section \<open>State\<close>

datatype callback = CallOnP2PTimeout | CallMarkRelayConnected string
datatype timer_status = Armed instant | Fired
datatype timer = Timer (tmCall: callback) (tmStatus: timer_status)

record StateManager =
  smCfg :: ManagerConfig
  smState :: ConnectionState
  smHistory :: "Transition list"
  p2pTimer :: "nat option"
  smTimers :: "(nat, timer) gomap"
  smNextTimer :: nat

section \<open>Operations (state\_manager.go)\<close>

definition appendLocked :: "instant \<Rightarrow> ConnectionState \<Rightarrow> string \<Rightarrow> StateManager \<Rightarrow> StateManager" where
  "appendLocked now st note m =
     m\<lparr>smHistory := smHistory m @ [\<lparr>trState = st, trAt = UnixMilli now, trNote = note\<rparr>]\<rparr>"

definition NewStateManager :: "instant \<Rightarrow> ManagerConfig \<Rightarrow> StateManager" where
  "NewStateManager now cfg =
     (let cfg = (if P2PTimeout cfg \<le> 0 then cfg\<lparr>P2PTimeout := P2PTimeout DefaultManagerConfig\<rparr> else cfg);
          cfg = (if RelayFallbackDelay cfg < 0 then cfg\<lparr>RelayFallbackDelay := 0\<rparr> else cfg);
          m = \<lparr>smCfg = cfg, smState = StatePairing, smHistory = [], p2pTimer = None,
               smTimers = [], smNextTimer = 0\<rparr>
      in appendLocked now StatePairing ''session created'' m)"

definition StateManager_State :: "StateManager \<Rightarrow> ConnectionState" where
  "StateManager_State m = smState m"

definition StateManager_History :: "StateManager \<Rightarrow> Transition list" where
  "StateManager_History m = smHistory m"

definition setStateLocked :: "instant \<Rightarrow> ConnectionState \<Rightarrow> string \<Rightarrow> StateManager \<Rightarrow> StateManager" where
  "setStateLocked now next note m =
     (if smState m = next then m else appendLocked now next note (m\<lparr>smState := next\<rparr>))"

definition setState :: "instant \<Rightarrow> ConnectionState \<Rightarrow> string \<Rightarrow> StateManager \<Rightarrow> StateManager" where
  "setState now next note m = setStateLocked now next note m"

text \<open>\<open>time.AfterFunc\<close> and \<open>Timer.Stop\<close>.\<close>

definition AfterFunc :: "instant \<Rightarrow> duration \<Rightarrow> callback \<Rightarrow> StateManager \<Rightarrow> nat \<times> StateManager" where
  "AfterFunc now d f m =
     (smNextTimer m,
      m\<lparr>smTimers := AList.update (smNextTimer m) (Timer f (Armed (now + d))) (smTimers m),
        smNextTimer := Suc (smNextTimer m)\<rparr>)"

definition Timer_Stop :: "nat \<Rightarrow> StateManager \<Rightarrow> StateManager" where
  "Timer_Stop i m =
     (case map_of (smTimers m) i of
        Some (Timer f (Armed d)) \<Rightarrow> m\<lparr>smTimers := AList.delete i (smTimers m)\<rparr>
      | _ \<Rightarrow> m)"

definition stopP2PTimerLocked :: "StateManager \<Rightarrow> StateManager" where
  "stopP2PTimerLocked m =
     (case p2pTimer m of
        None \<Rightarrow> m
      | Some i \<Rightarrow> (Timer_Stop i m)\<lparr>p2pTimer := None\<rparr>)"

definition BeginSignaling :: "instant \<Rightarrow> StateManager \<Rightarrow> StateManager" where
  "BeginSignaling now m = setState now StateSignaling ''signaling started'' m"

definition BeginP2P :: "instant \<Rightarrow> StateManager \<Rightarrow> StateManager" where
  "BeginP2P now m =
     (let m = setStateLocked now StateP2PConnecting ''attempting p2p connection'' m;
          m = stopP2PTimerLocked m;
          (i, m) = AfterFunc now (P2PTimeout (smCfg m)) CallOnP2PTimeout m
      in m\<lparr>p2pTimer := Some i\<rparr>)"

definition MarkP2PConnected :: "instant \<Rightarrow> StateManager \<Rightarrow> StateManager" where
  "MarkP2PConnected now m =
     setStateLocked now StateP2PConnected ''p2p connected'' (stopP2PTimerLocked m)"

definition MarkRelayConnected :: "instant \<Rightarrow> string \<Rightarrow> StateManager \<Rightarrow> StateManager" where
  "MarkRelayConnected now reason m =
     (let reason = (if reason = [] then ''relay connected'' else reason)
      in setStateLocked now StateRelayConnected reason (stopP2PTimerLocked m))"

definition BeginReconnect :: "instant \<Rightarrow> StateManager \<Rightarrow> StateManager" where
  "BeginReconnect now m =
     setStateLocked now StateReconnecting ''reconnecting'' (stopP2PTimerLocked m)"

definition StateManager_Close :: "instant \<Rightarrow> StateManager \<Rightarrow> StateManager" where
  "StateManager_Close now m =
     setStateLocked now StateClosed ''closed'' (stopP2PTimerLocked m)"

definition onP2PTimeout :: "instant \<Rightarrow> StateManager \<Rightarrow> StateManager" where
  "onP2PTimeout now m =
     (if smState m \<noteq> StateP2PConnecting then m
      else if RelayFallbackDelay (smCfg m) > 0 then
        snd (AfterFunc now (RelayFallbackDelay (smCfg m))
          (CallMarkRelayConnected ''relay fallback after p2p timeout'')
          (setStateLocked now StateReconnecting ''p2p timeout, scheduling relay fallback'' m))
      else setStateLocked now StateRelayConnected ''relay fallback after p2p timeout'' m)"

definition run_callback :: "instant \<Rightarrow> callback \<Rightarrow> StateManager \<Rightarrow> StateManager" where
  "run_callback now f m =
     (case f of
        CallOnP2PTimeout \<Rightarrow> onP2PTimeout now m
      | CallMarkRelayConnected reason \<Rightarrow> MarkRelayConnected now reason m)"

text \<open>A timer fires (at or after its deadline); the goroutine of a fired timer gets the mutex.\<close>

definition timer_fire :: "instant \<Rightarrow> nat \<Rightarrow> StateManager \<Rightarrow> StateManager option" where
  "timer_fire now i m =
     (case map_of (smTimers m) i of
        Some (Timer f (Armed d)) \<Rightarrow>
          if d \<le> now then Some (m\<lparr>smTimers := AList.update i (Timer f Fired) (smTimers m)\<rparr>) else None
      | _ \<Rightarrow> None)"

definition timer_run :: "instant \<Rightarrow> nat \<Rightarrow> StateManager \<Rightarrow> StateManager option" where
  "timer_run now i m =
     (case map_of (smTimers m) i of
        Some (Timer f Fired) \<Rightarrow> Some (run_callback now f (m\<lparr>smTimers := AList.delete i (smTimers m)\<rparr>))
      | _ \<Rightarrow> None)"

section \<open>Runs\<close>

text \<open>
  The calls of the public methods and the timers interleave in any order, under a clock that
  does not go back. \<open>timer_step\<close> are the steps that happen without a call.
\<close>

type_synonym sm_run = "StateManager \<times> instant"

inductive timer_step :: "sm_run \<Rightarrow> sm_run \<Rightarrow> bool" where
  step_fire: "now \<le> now' \<Longrightarrow> timer_fire now' i m = Some m' \<Longrightarrow> timer_step (m, now) (m', now')"
| step_run: "now \<le> now' \<Longrightarrow> timer_run now' i m = Some m' \<Longrightarrow> timer_step (m, now) (m', now')"

inductive sm_step :: "sm_run \<Rightarrow> sm_run \<Rightarrow> bool" where
  step_timer: "timer_step r r' \<Longrightarrow> sm_step r r'"
| step_BeginSignaling: "now \<le> now' \<Longrightarrow> sm_step (m, now) (BeginSignaling now' m, now')"
| step_BeginP2P: "now \<le> now' \<Longrightarrow> sm_step (m, now) (BeginP2P now' m, now')"
| step_MarkP2PConnected: "now \<le> now' \<Longrightarrow> sm_step (m, now) (MarkP2PConnected now' m, now')"
| step_MarkRelayConnected: "now \<le> now' \<Longrightarrow> sm_step (m, now) (MarkRelayConnected now' reason m, now')"
| step_BeginReconnect: "now \<le> now' \<Longrightarrow> sm_step (m, now) (BeginReconnect now' m, now')"
| step_Close: "now \<le> now' \<Longrightarrow> sm_step (m, now) (StateManager_Close now' m, now')"

inductive_cases timer_stepE: "timer_step r r'"
inductive_cases sm_stepE: "sm_step r r'"

definition sm_init :: "sm_run \<Rightarrow> bool" where
  "sm_init r \<longleftrightarrow> (\<exists>cfg now. r = (NewStateManager now cfg, now))"

section \<open>The invariant\<close>

definition connection_states :: "ConnectionState list" where
  "connection_states = [StatePairing, StateSignaling, StateP2PConnecting, StateP2PConnected,
     StateRelayConnected, StateReconnecting, StateClosed]"

fun no_stutter :: "'a list \<Rightarrow> bool" where
  "no_stutter (x # y # zs) \<longleftrightarrow> x \<noteq> y \<and> no_stutter (y # zs)"
| "no_stutter _ = True"

definition history_ok :: "ConnectionState \<Rightarrow> Transition list \<Rightarrow> bool" where
  "history_ok st h \<longleftrightarrow>
     h \<noteq> [] \<and> trState (hd h) = StatePairing \<and> trState (last h) = st \<and>
     no_stutter (map trState h) \<and> sorted (map trAt h) \<and> set (map trState h) \<subseteq> set connection_states"

text \<open>
  Timers: ids are fresh; the only armed timer of a peer-to-peer attempt is \<open>m.p2pTimer\<close>; a
  fallback is only ever scheduled when the configuration has a positive delay.
\<close>

definition timer_ok :: "ManagerConfig \<Rightarrow> nat option \<Rightarrow> nat \<Rightarrow> nat \<Rightarrow> timer \<Rightarrow> bool" where
  "timer_ok cfg p n i e \<longleftrightarrow> i < n \<and>
     (case tmCall e of
        CallOnP2PTimeout \<Rightarrow> (case tmStatus e of Armed d \<Rightarrow> p = Some i | Fired \<Rightarrow> True)
      | CallMarkRelayConnected r \<Rightarrow> 0 < RelayFallbackDelay cfg
          \<and> r = ''relay fallback after p2p timeout'' \<and> p \<noteq> Some i)"

definition timers_ok :: "StateManager \<Rightarrow> bool" where
  "timers_ok m \<longleftrightarrow>
     wf_map (smTimers m) \<and>
     (\<forall>(i, e) \<in> set (smTimers m). timer_ok (smCfg m) (p2pTimer m) (smNextTimer m) i e) \<and>
     (case p2pTimer m of None \<Rightarrow> True | Some i \<Rightarrow> i < smNextTimer m) \<and>
     0 < P2PTimeout (smCfg m) \<and> 0 \<le> RelayFallbackDelay (smCfg m)"

definition sm_inv :: "sm_run \<Rightarrow> bool" where
  "sm_inv r \<longleftrightarrow> (case r of (m, now) \<Rightarrow>
     history_ok (smState m) (smHistory m) \<and> trAt (last (smHistory m)) \<le> UnixMilli now \<and> timers_ok m)"

definition fallback_pending :: "StateManager \<Rightarrow> bool" where
  "fallback_pending m \<longleftrightarrow> (\<exists>(i, e) \<in> set (smTimers m). tmCall e \<noteq> CallOnP2PTimeout)"

text \<open>A session whose first peer-to-peer attempt has just timed out.\<close>

definition ex_timed_out :: "StateManager option" where
  "ex_timed_out = Option.bind
     (timer_fire (3 * Second) 0 (BeginP2P 0 (NewStateManager 0 DefaultManagerConfig)))
     (timer_run (3 * Second) 0)"

section \<open>Lemmas\<close>

lemma no_stutter_snoc: "no_stutter (xs @ [x]) \<longleftrightarrow> no_stutter xs \<and> (xs \<noteq> [] \<longrightarrow> last xs \<noteq> x)"
  by (induction xs rule: no_stutter.induct) auto

lemma sorted_le_last: "sorted xs \<Longrightarrow> x \<in> set xs \<Longrightarrow> (x::'a::linorder) \<le> last xs"
  by (induction xs) auto

lemma setStateLocked_rest [simp]:
  "smCfg (setStateLocked now st note m) = smCfg m"
  "p2pTimer (setStateLocked now st note m) = p2pTimer m"
  "smTimers (setStateLocked now st note m) = smTimers m"
  "smNextTimer (setStateLocked now st note m) = smNextTimer m"
  "smState (setStateLocked now st note m) = st"
  by (auto simp: setStateLocked_def appendLocked_def)

lemma setStateLocked_history:
  "smHistory (setStateLocked now st note m) = (if smState m = st then smHistory m else
     smHistory m @ [\<lparr>trState = st, trAt = UnixMilli now, trNote = note\<rparr>])"
  by (auto simp: setStateLocked_def appendLocked_def)

lemma Timer_Stop_rest [simp]:
  "smCfg (Timer_Stop i m) = smCfg m" "p2pTimer (Timer_Stop i m) = p2pTimer m"
  "smState (Timer_Stop i m) = smState m" "smHistory (Timer_Stop i m) = smHistory m"
  "smNextTimer (Timer_Stop i m) = smNextTimer m"
  by (auto simp: Timer_Stop_def split: option.split timer_status.split timer.split)

lemma stop_rest [simp]:
  "smCfg (stopP2PTimerLocked m) = smCfg m" "p2pTimer (stopP2PTimerLocked m) = None"
  "smState (stopP2PTimerLocked m) = smState m" "smHistory (stopP2PTimerLocked m) = smHistory m"
  "smNextTimer (stopP2PTimerLocked m) = smNextTimer m"
  by (auto simp: stopP2PTimerLocked_def split: option.split)

text \<open>
  Every operation is one of a few shapes: it sets the state with a note (or keeps it) and
  changes the timers. The two halves of the invariant are kept separately.
\<close>

lemma history_ok_setState:
  assumes "history_ok (smState m) (smHistory m)" "trAt (last (smHistory m)) \<le> UnixMilli now"
    "st \<in> set connection_states" "now \<le> now'"
  shows "history_ok st (smHistory (setStateLocked now' st note m)) \<and>
    trAt (last (smHistory (setStateLocked now' st note m))) \<le> UnixMilli now'"
proof (cases "smState m = st")
  case True
  with assms UnixMilli_mono [OF assms(4)] show ?thesis by (simp add: setStateLocked_history)
next
  case False
  have le: "x \<in> set (smHistory m) \<Longrightarrow> trAt x \<le> UnixMilli now'" for x
  proof -
    assume x: "x \<in> set (smHistory m)"
    have "sorted (map trAt (smHistory m))" "smHistory m \<noteq> []" using assms(1) by (simp_all add: history_ok_def)
    then have "trAt x \<le> trAt (last (smHistory m))"
      using sorted_le_last [of "map trAt (smHistory m)" "trAt x"] x by (simp add: last_map)
    then show "trAt x \<le> UnixMilli now'" using assms(2) UnixMilli_mono [OF assms(4)] by linarith
  qed
  with False assms show ?thesis
    by (auto simp: setStateLocked_history history_ok_def no_stutter_snoc sorted_append last_map)
qed


text \<open>The timers in terms of lookups.\<close>

lemma timers_ok_iff:
  "timers_ok m \<longleftrightarrow> wf_map (smTimers m) \<and>
     (\<forall>i e. map_of (smTimers m) i = Some e \<longrightarrow> timer_ok (smCfg m) (p2pTimer m) (smNextTimer m) i e) \<and>
     (\<forall>i. p2pTimer m = Some i \<longrightarrow> i < smNextTimer m) \<and>
     0 < P2PTimeout (smCfg m) \<and> 0 \<le> RelayFallbackDelay (smCfg m)"
  by (auto simp: timers_ok_def set_map_iff split: option.splits)

lemma timer_ok_stop:
  "timer_ok cfg p n i e \<Longrightarrow> (\<And>d. e = Timer CallOnP2PTimeout (Armed d) \<Longrightarrow> p \<noteq> Some i) \<Longrightarrow>
   timer_ok cfg None n i e"
  by (cases e) (auto simp: timer_ok_def split: callback.splits timer_status.splits timer.splits)

lemma timer_ok_new:
  "timer_ok cfg None n i e \<Longrightarrow> timer_ok cfg (Some n) (Suc n) i e"
  "timer_ok cfg p n i e \<Longrightarrow> (\<And>j. p = Some j \<Longrightarrow> j < n) \<Longrightarrow> timer_ok cfg p (Suc n) i e"
  by (cases e; auto simp: timer_ok_def split: callback.splits timer_status.splits timer.splits)+

lemma timers_ok_setState [simp]: "timers_ok (setStateLocked now st note m) = timers_ok m"
  by (simp add: timers_ok_iff)

lemma timers_ok_stopP2P:
  assumes "timers_ok m"
  shows "timers_ok (stopP2PTimerLocked m)"
proof (cases "p2pTimer m")
  case None
  with assms show ?thesis by (simp add: stopP2PTimerLocked_def)
next
  case (Some j)
  have lk: "map_of (smTimers (stopP2PTimerLocked m)) i =
      (if i = j \<and> (\<exists>f d. map_of (smTimers m) j = Some (Timer f (Armed d))) then None else map_of (smTimers m) i)" for i
    using Some by (auto simp: stopP2PTimerLocked_def Timer_Stop_def go_map
        split: option.split timer_status.split timer.split)
  have w: "wf_map (smTimers (stopP2PTimerLocked m))"
    using assms Some by (auto simp: stopP2PTimerLocked_def Timer_Stop_def timers_ok_def
        split: option.split timer_status.split timer.split)
  have "timer_ok (smCfg m) None (smNextTimer m) i e"
    if "map_of (smTimers (stopP2PTimerLocked m)) i = Some e" for i e
  proof (rule timer_ok_stop)
    show "timer_ok (smCfg m) (p2pTimer m) (smNextTimer m) i e"
      using that assms by (auto simp: lk timers_ok_iff split: if_splits)
    show "p2pTimer m \<noteq> Some i" if "e = Timer CallOnP2PTimeout (Armed d)" for d
      using that \<open>map_of (smTimers (stopP2PTimerLocked m)) i = Some e\<close> Some by (auto simp: lk split: if_splits)
  qed
  with w assms show ?thesis by (simp add: timers_ok_iff)
qed

lemma timers_ok_BeginP2P: "timers_ok m \<Longrightarrow> timers_ok (BeginP2P now m)"
  using timers_ok_stopP2P [of "setStateLocked now StateP2PConnecting ''attempting p2p connection'' m"]
  by (auto simp: BeginP2P_def AfterFunc_def Let_def timers_ok_iff go_map timer_ok_new)
    (simp add: timer_ok_def)

lemma timers_ok_onP2PTimeout: "timers_ok m \<Longrightarrow> timers_ok (onP2PTimeout now m)"
proof -
  assume t: "timers_ok m"
  have "timers_ok (snd (AfterFunc now (RelayFallbackDelay (smCfg m))
      (CallMarkRelayConnected ''relay fallback after p2p timeout'')
      (setStateLocked now st nt m)))" if "0 < RelayFallbackDelay (smCfg m)" for st nt
    using t that by (auto simp: AfterFunc_def timers_ok_iff go_map timer_ok_new less_SucI)
      (auto simp: timer_ok_def)
  with t show ?thesis by (simp add: onP2PTimeout_def)
qed

lemma timer_fire_Some:
  "timer_fire now i m = Some m' \<longleftrightarrow> (\<exists>f d. map_of (smTimers m) i = Some (Timer f (Armed d)) \<and> d \<le> now \<and>
     m' = m\<lparr>smTimers := AList.update i (Timer f Fired) (smTimers m)\<rparr>)"
  by (auto simp: timer_fire_def split: option.splits timer.splits timer_status.splits)

lemma timer_run_Some:
  "timer_run now i m = Some m' \<longleftrightarrow> (\<exists>f. map_of (smTimers m) i = Some (Timer f Fired) \<and>
     m' = run_callback now f (m\<lparr>smTimers := AList.delete i (smTimers m)\<rparr>))"
  by (auto simp: timer_run_def split: option.splits timer.splits timer_status.splits)

lemma timer_ok_fired: "timer_ok cfg p n i (Timer f st) \<Longrightarrow> timer_ok cfg p n i (Timer f Fired)"
  by (auto simp: timer_ok_def split: callback.splits)

lemma timers_ok_fire: "timers_ok m \<Longrightarrow> timer_fire now i m = Some m' \<Longrightarrow> timers_ok m'"
  by (auto simp: timer_fire_Some timers_ok_iff go_map split: if_splits) (blast intro: timer_ok_fired)

lemma timers_ok_remove: "timers_ok m \<Longrightarrow> timers_ok (m\<lparr>smTimers := AList.delete i (smTimers m)\<rparr>)"
  by (auto simp: timers_ok_iff go_map)


lemmas sm_op_defs = BeginSignaling_def setState_def MarkP2PConnected_def
  MarkRelayConnected_def BeginReconnect_def StateManager_Close_def

lemma connection_states_mem [simp]:
  "StatePairing \<in> set connection_states" "StateSignaling \<in> set connection_states"
  "StateP2PConnecting \<in> set connection_states" "StateP2PConnected \<in> set connection_states"
  "StateRelayConnected \<in> set connection_states" "StateReconnecting \<in> set connection_states"
  "StateClosed \<in> set connection_states"
  by (simp_all add: connection_states_def)

lemma sm_inv_setState:
  assumes "sm_inv (m, now)" "now \<le> now'" "st \<in> set connection_states"
  shows "sm_inv (setStateLocked now' st nt m, now')"
  using history_ok_setState [of m now st now' nt] assms by (simp add: sm_inv_def)

lemma sm_inv_stop: "sm_inv (m, now) \<Longrightarrow> sm_inv (stopP2PTimerLocked m, now)"
  by (simp add: sm_inv_def timers_ok_stopP2P)

lemma sm_inv_time: "sm_inv (m, now) \<Longrightarrow> now \<le> now' \<Longrightarrow> sm_inv (m, now')"
  using UnixMilli_mono [of now now'] by (auto simp: sm_inv_def)

lemma sm_inv_timers: "sm_inv (m, now) \<Longrightarrow> timers_ok m"
  by (simp add: sm_inv_def)

lemma BeginP2P_state:
  "smState (BeginP2P now m) = smState (setStateLocked now StateP2PConnecting ''attempting p2p connection'' m)"
  "smHistory (BeginP2P now m) = smHistory (setStateLocked now StateP2PConnecting ''attempting p2p connection'' m)"
  by (simp_all add: BeginP2P_def AfterFunc_def Let_def)

lemma onP2PTimeout_state:
  assumes "smState m = StateP2PConnecting"
  obtains st nt where "st \<in> set connection_states"
    "smState (onP2PTimeout now m) = st"
    "smHistory (onP2PTimeout now m) = smHistory (setStateLocked now st nt m)"
  using assms that
  by (cases "0 < RelayFallbackDelay (smCfg m)")
     (fastforce simp: onP2PTimeout_def AfterFunc_def)+

lemma sm_inv_of_setState:
  assumes "sm_inv (m, now)" "now \<le> now'" "st \<in> set connection_states" "timers_ok m'"
    "smState m' = st" "smHistory m' = smHistory (setStateLocked now' st nt m)"
  shows "sm_inv (m', now')"
  using history_ok_setState [of m now st now' nt] assms by (simp add: sm_inv_def)

lemma onP2PTimeout_inv:
  assumes "sm_inv (m, now)" "now \<le> now'"
  shows "sm_inv (onP2PTimeout now' m, now')"
proof (cases "smState m = StateP2PConnecting")
  case True
  then obtain st nt where "st \<in> set connection_states" "smState (onP2PTimeout now' m) = st"
    "smHistory (onP2PTimeout now' m) = smHistory (setStateLocked now' st nt m)"
    by (rule onP2PTimeout_state)
  with sm_inv_of_setState [OF assms] timers_ok_onP2PTimeout [OF sm_inv_timers [OF assms(1)]] show ?thesis
    by blast
next
  case False
  with sm_inv_time [OF assms] show ?thesis by (simp add: onP2PTimeout_def)
qed

lemma run_callback_inv:
  assumes "sm_inv (m, now)" "now \<le> now'"
  shows "sm_inv (run_callback now' f m, now')"
  using onP2PTimeout_inv [OF assms] sm_inv_setState [OF sm_inv_stop [OF assms(1)] assms(2)]
  by (cases f) (simp_all add: run_callback_def MarkRelayConnected_def Let_def)

lemma timer_step_inv: "timer_step r r' \<Longrightarrow> sm_inv r \<Longrightarrow> sm_inv r'"
proof (induction rule: timer_step.induct)
  case (step_fire now now' i m m')
  then have "sm_inv (m, now')" by (blast intro: sm_inv_time)
  moreover from this step_fire have "timers_ok m'" by (blast intro: timers_ok_fire sm_inv_timers)
  moreover have "smState m' = smState m" "smHistory m' = smHistory m"
    using step_fire(2) by (auto simp: timer_fire_Some)
  ultimately show ?case by (simp add: sm_inv_def)
next
  case (step_run now now' i m m')
  then obtain f where m': "m' = run_callback now' f (m\<lparr>smTimers := AList.delete i (smTimers m)\<rparr>)"
    by (auto simp: timer_run_Some)
  have "sm_inv (m\<lparr>smTimers := AList.delete i (smTimers m)\<rparr>, now)"
    using step_run.prems timers_ok_remove [of m i] by (simp add: sm_inv_def)
  with step_run.hyps show ?case by (simp add: m' run_callback_inv)
qed

interpretation conn: inductive_invariant sm_init sm_step sm_inv
proof
  show "sm_inv r" if "sm_init r" for r
    using that by (auto simp: sm_init_def sm_inv_def NewStateManager_def appendLocked_def Let_def
        history_ok_def timers_ok_def DefaultManagerConfig_def Second_def Millisecond_def)
next
  fix r r' assume i: "sm_inv r" and "sm_step r r'"
  from this(2) i show "sm_inv r'"
  proof induction
    case (step_timer r r')
    then show ?case by (blast intro: timer_step_inv)
  next
    case (step_BeginP2P now now' m)
    then show ?case
      using sm_inv_of_setState [of m now now' StateP2PConnecting] timers_ok_BeginP2P [of m now']
      by (metis BeginP2P_state connection_states_mem(3) setStateLocked_rest(5) sm_inv_timers)
  qed (auto simp: sm_op_defs Let_def intro: sm_inv_setState sm_inv_stop)
qed


lemma fallback_pending_iff: "wf_map (smTimers m) \<Longrightarrow>
  fallback_pending m \<longleftrightarrow> (\<exists>i e. map_of (smTimers m) i = Some e \<and> tmCall e \<noteq> CallOnP2PTimeout)"
  by (auto simp: fallback_pending_def simp flip: set_map_iff)

lemma stop_keeps_no_fallback:
  assumes "\<not> fallback_pending m"
  shows "\<not> fallback_pending (stopP2PTimerLocked m)"
proof (cases "p2pTimer m")
  case (Some j)
  have "set (smTimers (stopP2PTimerLocked m)) \<subseteq> set (smTimers m)"
    using Some by (auto simp: stopP2PTimerLocked_def Timer_Stop_def AList.delete_eq
        split: option.splits timer.splits timer_status.splits)
  with assms show ?thesis by (auto simp: fallback_pending_def)
qed (use assms in \<open>simp add: stopP2PTimerLocked_def\<close>)

lemma timer_step_no_fallback:
  assumes "timer_step r r'" "smState (fst r) = StateClosed" "\<not> fallback_pending (fst r)" "timers_ok (fst r)"
  shows "smState (fst r') = StateClosed \<and> \<not> fallback_pending (fst r') \<and> smHistory (fst r') = smHistory (fst r)"
  using assms
proof (induction rule: timer_step.induct)
  case (step_fire now now' i m m')
  then have w: "wf_map (smTimers m)" by (simp add: timers_ok_def)
  from step_fire(2) obtain f d where f: "map_of (smTimers m) i = Some (Timer f (Armed d))"
      "m' = m\<lparr>smTimers := AList.update i (Timer f Fired) (smTimers m)\<rparr>"
    by (auto simp: timer_fire_Some)
  have "f = CallOnP2PTimeout" using step_fire.prems(2) map_of_SomeD [OF f(1)]
    by (force simp: fallback_pending_def)
  with step_fire.prems w f show ?case
    by (auto simp: fallback_pending_iff go_map split: if_splits)
next
  case (step_run now now' i m m')
  then have w: "wf_map (smTimers m)" by (simp add: timers_ok_def)
  from step_run(2) obtain f where f: "map_of (smTimers m) i = Some (Timer f Fired)"
      "m' = run_callback now' f (m\<lparr>smTimers := AList.delete i (smTimers m)\<rparr>)"
    by (auto simp: timer_run_Some)
  have "f = CallOnP2PTimeout" using step_run.prems(2) map_of_SomeD [OF f(1)]
    by (force simp: fallback_pending_def)
  with step_run.prems w f show ?case
    by (auto simp: run_callback_def onP2PTimeout_def fallback_pending_iff go_map split: if_splits)
qed

lemma timer_steps_closed:
  assumes "timer_step\<^sup>*\<^sup>* r r'" "smState (fst r) = StateClosed" "\<not> fallback_pending (fst r)" "sm_inv r"
  shows "smState (fst r') = StateClosed \<and> smHistory (fst r') = smHistory (fst r) \<and>
    \<not> fallback_pending (fst r') \<and> sm_inv r'"
  using assms
proof (induction rule: rtranclp_induct)
  case (step r1 r2)
  then have "timers_ok (fst r1)" by (cases r1) (simp add: sm_inv_def)
  with timer_step_no_fallback [OF step(2)] timer_step_inv [OF step(2)] step show ?case by auto
qed simp

section \<open>Properties\<close>

text \<open>
  C27: In every interleaving of calls and timers the history is a faithful log of the
  connection: it starts with PAIRING, its last entry is the current state, consecutive
  entries differ, the time stamps do not decrease and only the seven states occur.
\<close>
theorem connection_history_faithful:
  assumes "reach sm_init sm_step (m, now)"
  shows "history_ok (StateManager_State m) (StateManager_History m) \<and>
    trAt (last (StateManager_History m)) \<le> UnixMilli now"
  using conn.reach_inv [OF assms]
  by (simp add: sm_inv_def StateManager_State_def StateManager_History_def)

text \<open>
  The history is append-only: a step, whether a call or a timer, adds at most one entry
  and keeps the others, and the state changes exactly when an entry is added.
\<close>
theorem connection_history_append_only:
  assumes "sm_step (m, now) (m', now')"
  shows "smHistory m' = smHistory m \<and> smState m' = smState m \<or>
    (\<exists>tr. smHistory m' = smHistory m @ [tr] \<and> trState tr = smState m' \<and> smState m' \<noteq> smState m)"
  using assms
proof cases
  case step_timer
  then show ?thesis
  proof cases
    case (step_fire i)
    then show ?thesis by (auto simp: timer_fire_Some)
  next
    case (step_run i)
    then obtain f where "m' = run_callback now' f (m\<lparr>smTimers := AList.delete i (smTimers m)\<rparr>)"
      by (auto simp: timer_run_Some)
    then show ?thesis
      by (cases f) (auto simp: run_callback_def MarkRelayConnected_def onP2PTimeout_def AfterFunc_def
          Let_def setStateLocked_history)
  qed
qed (auto simp: sm_op_defs BeginP2P_state Let_def setStateLocked_history)

text \<open>
  C28: A peer-to-peer attempt that is not answered ends on the relay: once the timer of the
  attempt has fired and its callback runs, the session is reconnecting with the fallback
  scheduled, and when that timer has fired too the session is on the relay; with no
  fallback delay it is there at once.
\<close>
theorem p2p_timeout_falls_back:
  assumes "timers_ok m" "m1 = BeginP2P t0 m" "p2pTimer m1 = Some i"
    and "t0 + P2PTimeout (smCfg m) \<le> t1" "t1 \<le> t2"
    and "t2 + RelayFallbackDelay (smCfg m) \<le> t3"
  shows "\<exists>m2 m3. timer_fire t1 i m1 = Some m2 \<and> timer_run t2 i m2 = Some m3 \<and>
    (if RelayFallbackDelay (smCfg m) > 0
     then StateManager_State m3 = StateReconnecting \<and>
       (\<exists>j m4 m5. timer_fire t3 j m3 = Some m4 \<and> timer_run t3 j m4 = Some m5 \<and>
          StateManager_State m5 = StateRelayConnected)
     else StateManager_State m3 = StateRelayConnected)"
proof -
  let ?c = "smCfg m"
  have m1: "smState m1 = StateP2PConnecting" "smCfg m1 = ?c" "smNextTimer m1 = Suc i"
    "map_of (smTimers m1) i = Some (Timer CallOnP2PTimeout (Armed (t0 + P2PTimeout ?c)))"
    using assms(2,3) by (auto simp: BeginP2P_def AfterFunc_def Let_def go_map)
  define m2 where "m2 = m1\<lparr>smTimers := AList.update i (Timer CallOnP2PTimeout Fired) (smTimers m1)\<rparr>"
  define m3 where "m3 = onP2PTimeout t2 (m2\<lparr>smTimers := AList.delete i (smTimers m2)\<rparr>)"
  have f: "timer_fire t1 i m1 = Some m2" using m1 assms(4) by (simp add: timer_fire_Some m2_def)
  have r: "timer_run t2 i m2 = Some m3"
    by (simp add: timer_run_Some m2_def m3_def go_map run_callback_def)
  show ?thesis
  proof (cases "0 < RelayFallbackDelay ?c")
    case True
    let ?f = "CallMarkRelayConnected ''relay fallback after p2p timeout''"
    have m3: "smState m3 = StateReconnecting"
      "map_of (smTimers m3) (Suc i) = Some (Timer ?f (Armed (t2 + RelayFallbackDelay ?c)))"
      using True m1 by (simp_all add: m3_def m2_def onP2PTimeout_def AfterFunc_def go_map)
    define m4 where "m4 = m3\<lparr>smTimers := AList.update (Suc i) (Timer ?f Fired) (smTimers m3)\<rparr>"
    have "timer_fire t3 (Suc i) m3 = Some m4" using m3 assms(6) by (simp add: timer_fire_Some m4_def)
    moreover have "\<exists>m5. timer_run t3 (Suc i) m4 = Some m5 \<and> smState m5 = StateRelayConnected"
      by (simp add: timer_run_Some m4_def go_map run_callback_def MarkRelayConnected_def)
    ultimately show ?thesis using f r m3 True unfolding StateManager_State_def by auto
  next
    case False
    then have "smState m3 = StateRelayConnected" using m1 by (simp add: m3_def m2_def onP2PTimeout_def)
    with f r False show ?thesis by (simp add: StateManager_State_def)
  qed
qed

text \<open>
  Closing is final as long as no relay fallback was scheduled before: no timer of the
  session changes the state or the history of a closed session afterwards.
\<close>
theorem closed_stays_closed:
  assumes "reach sm_init sm_step (m, now)" "now \<le> now1" "\<not> fallback_pending m"
    and "timer_step\<^sup>*\<^sup>* (StateManager_Close now1 m, now1) (m', now')"
  shows "StateManager_State m' = StateClosed \<and>
    StateManager_History m' = StateManager_History (StateManager_Close now1 m)"
proof -
  have inv: "sm_inv (StateManager_Close now1 m, now1)"
    using conn.reach_inv [OF assms(1)] conn.inv_step [OF _ step_Close [OF assms(2)]] by blast
  have "\<not> fallback_pending (StateManager_Close now1 m)"
    using stop_keeps_no_fallback [OF assms(3)]
    by (simp add: StateManager_Close_def fallback_pending_def)
  then show ?thesis
    using timer_steps_closed [OF assms(4) _ _ inv]
    by (simp add: StateManager_State_def StateManager_History_def StateManager_Close_def)
qed

section \<open>Witnesses\<close>

theorem connection_history_faithful_witness:
  "history_ok StatePairing (StateManager_History (NewStateManager 0 DefaultManagerConfig))"
proof -
  have "reach sm_init sm_step (NewStateManager 0 DefaultManagerConfig, 0)"
    by (rule reach_init) (auto simp: sm_init_def)
  from connection_history_faithful [OF this] show ?thesis
    by (simp add: StateManager_State_def NewStateManager_def appendLocked_def Let_def)
qed

theorem connection_history_append_only_witness:
  "\<exists>tr. smHistory (BeginP2P 5 (NewStateManager 0 DefaultManagerConfig))
     = smHistory (NewStateManager 0 DefaultManagerConfig) @ [tr] \<and> trState tr = StateP2PConnecting"
proof -
  have "smState (NewStateManager 0 DefaultManagerConfig) = StatePairing"
    "smState (BeginP2P 5 (NewStateManager 0 DefaultManagerConfig)) = StateP2PConnecting" by code_simp+
  with connection_history_append_only [OF step_BeginP2P [of 0 5 "NewStateManager 0 DefaultManagerConfig"]]
  show ?thesis by auto
qed

theorem p2p_timeout_falls_back_witness:
  "\<exists>m2 m3. timer_fire (3 * Second) 0 (BeginP2P 0 (NewStateManager 0 DefaultManagerConfig)) = Some m2 \<and>
     timer_run (3 * Second) 0 m2 = Some m3 \<and> StateManager_State m3 = StateReconnecting"
proof -
  let ?m = "NewStateManager 0 DefaultManagerConfig"
  have "timers_ok ?m" "p2pTimer (BeginP2P 0 ?m) = Some 0" "P2PTimeout (smCfg ?m) = 3 * Second"
    "0 < RelayFallbackDelay (smCfg ?m)" by code_simp+
  with p2p_timeout_falls_back [of ?m "BeginP2P 0 ?m" 0 0 "3 * Second" "3 * Second" "3 * Second + RelayFallbackDelay (smCfg ?m)"]
  show ?thesis by auto
qed

theorem closed_stays_closed_witness:
  "StateManager_State (StateManager_Close 7 (NewStateManager 0 DefaultManagerConfig)) = StateClosed"
proof -
  have "reach sm_init sm_step (NewStateManager 0 DefaultManagerConfig, 0)"
    by (rule reach_init) (auto simp: sm_init_def)
  moreover have "\<not> fallback_pending (NewStateManager 0 DefaultManagerConfig)" by code_simp
  ultimately show ?thesis
    using closed_stays_closed [of "NewStateManager 0 DefaultManagerConfig" 0 7
        "StateManager_Close 7 (NewStateManager 0 DefaultManagerConfig)" 7] by simp
qed

section \<open>The fallback timer is not cancelled\<close>

text \<open>
  \<open>onP2PTimeout\<close> keeps no reference to the timer of the delayed fallback, so \<open>Close\<close> and
  \<open>MarkP2PConnected\<close> cannot stop it: with the default configuration a session that is closed
  within 100 ms of the timeout of its attempt ends in RELAY\_CONNECTED.
\<close>

lemma fallback_reopens_closed_session:
  "map_option (smState \<circ> StateManager_Close (Second * 3)) ex_timed_out = Some StateClosed \<and>
   map_option smState (Option.bind (Option.bind
     (map_option (StateManager_Close (Second * 3)) ex_timed_out)
     (timer_fire (4 * Second) 1)) (timer_run (4 * Second) 1)) = Some StateRelayConnected"
  by code_simp

text \<open>
  The callback of an attempt does not check which attempt it belongs to: one that has fired
  and waits for the mutex while a new attempt starts ends the new attempt at once.
\<close>

lemma stale_timeout_ends_new_attempt:
  "map_option smState (Option.bind
     (map_option (BeginP2P (3 * Second)) (timer_fire (3 * Second) 0 (BeginP2P 0 (NewStateManager 0 DefaultManagerConfig))))
     (timer_run (3 * Second) 0)) = Some StateReconnecting"
  by code_simp

end
