(* ===== verification/Session_Store.thy ===== *)
theory Session_Store
  imports Protocol
begin

text \<open>
  \<open>internal/session/store.go\<close>: the table of sessions with their transport and state.
\<close>

record SessionEntry =
  sessID :: string
  sessTransport :: TransportMode
  sessState :: SessionState

record SessionStore =
  ssSessions :: "(string, SessionEntry) gomap"

definition SessionStore_NewStore :: SessionStore where
  "SessionStore_NewStore = \<lparr>ssSessions = []\<rparr>"








end
