(* ===== verification/Payloads.thy ===== *)
theory Payloads
  imports Protocol
begin

text \<open>
  \<open>payloads.go\<close>: the payload structs, with their encoding and decoding by the struct tags.
  For a struct \<open>T\<close>, \<open>T_json\<close> is what \<open>json.Marshal\<close> writes, \<open>T_put\<close> stores one field of an
  object, \<open>T_unjson\<close> is \<open>json.Unmarshal\<close> into a zero \<open>T\<close>, and \<open>T_ok\<close> says which values the
  encoding can represent (valid UTF-8 strings, 64-bit integers).
\<close>

section \<open>Payload structs\<close>

record ContextOptions =
  coIncludeActiveFile :: bool
  coIncludeSelection :: bool
  coIncludeLatestError :: bool
  coIncludeWorkspaceSummary :: bool

definition zero_ContextOptions :: ContextOptions where
  "zero_ContextOptions = \<lparr>coIncludeActiveFile = False, coIncludeSelection = False, coIncludeLatestError = False, coIncludeWorkspaceSummary = False\<rparr>"

definition ContextOptions_json :: "ContextOptions \<Rightarrow> json" where
  "ContextOptions_json p = JObj
    ([(''includeActiveFile'', JBool (coIncludeActiveFile p)),
      (''includeSelection'', JBool (coIncludeSelection p)),
      (''includeLatestError'', JBool (coIncludeLatestError p)),
      (''includeWorkspaceSummary'', JBool (coIncludeWorkspaceSummary p))])"

definition ContextOptions_names :: "string list" where
  "ContextOptions_names = [''includeActiveFile'', ''includeSelection'', ''includeLatestError'', ''includeWorkspaceSummary'']"

definition ContextOptions_put :: "string \<Rightarrow> json \<Rightarrow> ContextOptions \<Rightarrow> ContextOptions result" where
  "ContextOptions_put f v p =
     (if f = ''includeActiveFile'' then map_result (\<lambda>x. p\<lparr>coIncludeActiveFile := x\<rparr>) (decode_bool v (coIncludeActiveFile p))
      else if f = ''includeSelection'' then map_result (\<lambda>x. p\<lparr>coIncludeSelection := x\<rparr>) (decode_bool v (coIncludeSelection p))
      else if f = ''includeLatestError'' then map_result (\<lambda>x. p\<lparr>coIncludeLatestError := x\<rparr>) (decode_bool v (coIncludeLatestError p))
      else map_result (\<lambda>x. p\<lparr>coIncludeWorkspaceSummary := x\<rparr>) (decode_bool v (coIncludeWorkspaceSummary p)))"

definition ContextOptions_unjson :: "json \<Rightarrow> ContextOptions result" where
  "ContextOptions_unjson j = decode_struct ContextOptions_names ContextOptions_put j zero_ContextOptions"

record PromptSubmitPayload =
  psThreadID :: string
  psPrompt :: string
  psTemplate :: string
  psContextOptions :: ContextOptions

definition zero_PromptSubmitPayload :: PromptSubmitPayload where
  "zero_PromptSubmitPayload = \<lparr>psThreadID = [], psPrompt = [], psTemplate = [], psContextOptions = zero_ContextOptions\<rparr>"

definition PromptSubmitPayload_json :: "PromptSubmitPayload \<Rightarrow> json" where
  "PromptSubmitPayload_json p = JObj
    (omit_string ''threadId'' (psThreadID p) @
     [(''prompt'', enc_string (psPrompt p))] @
     omit_string ''template'' (psTemplate p) @
     [(''contextOptions'', ContextOptions_json (psContextOptions p))])"

definition PromptSubmitPayload_names :: "string list" where
  "PromptSubmitPayload_names = [''threadId'', ''prompt'', ''template'', ''contextOptions'']"

definition PromptSubmitPayload_put :: "string \<Rightarrow> json \<Rightarrow> PromptSubmitPayload \<Rightarrow> PromptSubmitPayload result" where
  "PromptSubmitPayload_put f v p =
     (if f = ''threadId'' then map_result (\<lambda>x. p\<lparr>psThreadID := x\<rparr>) (decode_string v (psThreadID p))
      else if f = ''prompt'' then map_result (\<lambda>x. p\<lparr>psPrompt := x\<rparr>) (decode_string v (psPrompt p))
      else if f = ''template'' then map_result (\<lambda>x. p\<lparr>psTemplate := x\<rparr>) (decode_string v (psTemplate p))
      else map_result (\<lambda>x. p\<lparr>psContextOptions := x\<rparr>) (decode_struct ContextOptions_names ContextOptions_put v (psContextOptions p)))"

definition PromptSubmitPayload_unjson :: "json \<Rightarrow> PromptSubmitPayload result" where
  "PromptSubmitPayload_unjson j = decode_struct PromptSubmitPayload_names PromptSubmitPayload_put j zero_PromptSubmitPayload"

definition PromptSubmitPayload_ok :: "PromptSubmitPayload \<Rightarrow> bool" where
  "PromptSubmitPayload_ok p \<longleftrightarrow> valid_utf8 (psThreadID p) \<and>
     valid_utf8 (psPrompt p) \<and>
     valid_utf8 (psTemplate p)"

record PromptAckPayload =
  pkThreadID :: string
  pkJobID :: string
  pkAccepted :: bool
  pkMessage :: string

definition zero_PromptAckPayload :: PromptAckPayload where
  "zero_PromptAckPayload = \<lparr>pkThreadID = [], pkJobID = [], pkAccepted = False, pkMessage = []\<rparr>"

definition PromptAckPayload_json :: "PromptAckPayload \<Rightarrow> json" where
  "PromptAckPayload_json p = JObj
    (omit_string ''threadId'' (pkThreadID p) @
     [(''jobId'', enc_string (pkJobID p)),
      (''accepted'', JBool (pkAccepted p)),
      (''message'', enc_string (pkMessage p))])"

definition PromptAckPayload_names :: "string list" where
  "PromptAckPayload_names = [''threadId'', ''jobId'', ''accepted'', ''message'']"

definition PromptAckPayload_put :: "string \<Rightarrow> json \<Rightarrow> PromptAckPayload \<Rightarrow> PromptAckPayload result" where
  "PromptAckPayload_put f v p =
     (if f = ''threadId'' then map_result (\<lambda>x. p\<lparr>pkThreadID := x\<rparr>) (decode_string v (pkThreadID p))
      else if f = ''jobId'' then map_result (\<lambda>x. p\<lparr>pkJobID := x\<rparr>) (decode_string v (pkJobID p))
      else if f = ''accepted'' then map_result (\<lambda>x. p\<lparr>pkAccepted := x\<rparr>) (decode_bool v (pkAccepted p))
      else map_result (\<lambda>x. p\<lparr>pkMessage := x\<rparr>) (decode_string v (pkMessage p)))"

definition PromptAckPayload_unjson :: "json \<Rightarrow> PromptAckPayload result" where
  "PromptAckPayload_unjson j = decode_struct PromptAckPayload_names PromptAckPayload_put j zero_PromptAckPayload"

definition PromptAckPayload_ok :: "PromptAckPayload \<Rightarrow> bool" where
  "PromptAckPayload_ok p \<longleftrightarrow> valid_utf8 (pkThreadID p) \<and>
     valid_utf8 (pkJobID p) \<and>
     valid_utf8 (pkMessage p)"

record SelectedHunk =
  shPath :: string
  shHunkIDs :: "string list"

definition zero_SelectedHunk :: SelectedHunk where
  "zero_SelectedHunk = \<lparr>shPath = [], shHunkIDs = []\<rparr>"

definition SelectedHunk_json :: "SelectedHunk \<Rightarrow> json" where
  "SelectedHunk_json p = JObj
    ([(''path'', enc_string (shPath p)),
      (''hunkIds'', enc_strings (shHunkIDs p))])"

definition SelectedHunk_names :: "string list" where
  "SelectedHunk_names = [''path'', ''hunkIds'']"

definition SelectedHunk_put :: "string \<Rightarrow> json \<Rightarrow> SelectedHunk \<Rightarrow> SelectedHunk result" where
  "SelectedHunk_put f v p =
     (if f = ''path'' then map_result (\<lambda>x. p\<lparr>shPath := x\<rparr>) (decode_string v (shPath p))
      else map_result (\<lambda>x. p\<lparr>shHunkIDs := x\<rparr>) (decode_list (\<lambda>j. decode_string j []) v))"

definition SelectedHunk_unjson :: "json \<Rightarrow> SelectedHunk result" where
  "SelectedHunk_unjson j = decode_struct SelectedHunk_names SelectedHunk_put j zero_SelectedHunk"

definition SelectedHunk_ok :: "SelectedHunk \<Rightarrow> bool" where
  "SelectedHunk_ok p \<longleftrightarrow> valid_utf8 (shPath p) \<and>
     (\<forall>s \<in> set (shHunkIDs p). valid_utf8 s)"

record PatchApplyPayload =
  paJobID :: string
  paMode :: string
  paSelected :: "SelectedHunk list"

definition zero_PatchApplyPayload :: PatchApplyPayload where
  "zero_PatchApplyPayload = \<lparr>paJobID = [], paMode = [], paSelected = []\<rparr>"

definition PatchApplyPayload_json :: "PatchApplyPayload \<Rightarrow> json" where
  "PatchApplyPayload_json p = JObj
    ([(''jobId'', enc_string (paJobID p)), (''mode'', enc_string (paMode p))] @
     omit_list SelectedHunk_json ''selected'' (paSelected p))"

definition PatchApplyPayload_names :: "string list" where
  "PatchApplyPayload_names = [''jobId'', ''mode'', ''selected'']"

definition PatchApplyPayload_put :: "string \<Rightarrow> json \<Rightarrow> PatchApplyPayload \<Rightarrow> PatchApplyPayload result" where
  "PatchApplyPayload_put f v p =
     (if f = ''jobId'' then map_result (\<lambda>x. p\<lparr>paJobID := x\<rparr>) (decode_string v (paJobID p))
      else if f = ''mode'' then map_result (\<lambda>x. p\<lparr>paMode := x\<rparr>) (decode_string v (paMode p))
      else map_result (\<lambda>x. p\<lparr>paSelected := x\<rparr>) (decode_list SelectedHunk_unjson v))"

definition PatchApplyPayload_unjson :: "json \<Rightarrow> PatchApplyPayload result" where
  "PatchApplyPayload_unjson j = decode_struct PatchApplyPayload_names PatchApplyPayload_put j zero_PatchApplyPayload"

definition PatchApplyPayload_ok :: "PatchApplyPayload \<Rightarrow> bool" where
  "PatchApplyPayload_ok p \<longleftrightarrow> valid_utf8 (paJobID p) \<and>
     valid_utf8 (paMode p) \<and>
     (\<forall>x \<in> set (paSelected p). SelectedHunk_ok x)"

record PatchResultPayload =
  pxJobID :: string
  pxStatus :: string
  pxMessage :: string

definition zero_PatchResultPayload :: PatchResultPayload where
  "zero_PatchResultPayload = \<lparr>pxJobID = [], pxStatus = [], pxMessage = []\<rparr>"

definition PatchResultPayload_json :: "PatchResultPayload \<Rightarrow> json" where
  "PatchResultPayload_json p = JObj
    ([(''jobId'', enc_string (pxJobID p)),
      (''status'', enc_string (pxStatus p)),
      (''message'', enc_string (pxMessage p))])"

definition PatchResultPayload_names :: "string list" where
  "PatchResultPayload_names = [''jobId'', ''status'', ''message'']"

definition PatchResultPayload_put :: "string \<Rightarrow> json \<Rightarrow> PatchResultPayload \<Rightarrow> PatchResultPayload result" where
  "PatchResultPayload_put f v p =
     (if f = ''jobId'' then map_result (\<lambda>x. p\<lparr>pxJobID := x\<rparr>) (decode_string v (pxJobID p))
      else if f = ''status'' then map_result (\<lambda>x. p\<lparr>pxStatus := x\<rparr>) (decode_string v (pxStatus p))
      else map_result (\<lambda>x. p\<lparr>pxMessage := x\<rparr>) (decode_string v (pxMessage p)))"

definition PatchResultPayload_unjson :: "json \<Rightarrow> PatchResultPayload result" where
  "PatchResultPayload_unjson j = decode_struct PatchResultPayload_names PatchResultPayload_put j zero_PatchResultPayload"

definition PatchResultPayload_ok :: "PatchResultPayload \<Rightarrow> bool" where
  "PatchResultPayload_ok p \<longleftrightarrow> valid_utf8 (pxJobID p) \<and>
     valid_utf8 (pxStatus p) \<and>
     valid_utf8 (pxMessage p)"

record RunProfilePayload =
  rpJobID :: string
  rpProfileID :: string

definition zero_RunProfilePayload :: RunProfilePayload where
  "zero_RunProfilePayload = \<lparr>rpJobID = [], rpProfileID = []\<rparr>"

definition RunProfilePayload_json :: "RunProfilePayload \<Rightarrow> json" where
  "RunProfilePayload_json p = JObj
    ([(''jobId'', enc_string (rpJobID p)),
      (''profileId'', enc_string (rpProfileID p))])"

definition RunProfilePayload_names :: "string list" where
  "RunProfilePayload_names = [''jobId'', ''profileId'']"

definition RunProfilePayload_put :: "string \<Rightarrow> json \<Rightarrow> RunProfilePayload \<Rightarrow> RunProfilePayload result" where
  "RunProfilePayload_put f v p =
     (if f = ''jobId'' then map_result (\<lambda>x. p\<lparr>rpJobID := x\<rparr>) (decode_string v (rpJobID p))
      else map_result (\<lambda>x. p\<lparr>rpProfileID := x\<rparr>) (decode_string v (rpProfileID p)))"

definition RunProfilePayload_unjson :: "json \<Rightarrow> RunProfilePayload result" where
  "RunProfilePayload_unjson j = decode_struct RunProfilePayload_names RunProfilePayload_put j zero_RunProfilePayload"

definition RunProfilePayload_ok :: "RunProfilePayload \<Rightarrow> bool" where
  "RunProfilePayload_ok p \<longleftrightarrow> valid_utf8 (rpJobID p) \<and>
     valid_utf8 (rpProfileID p)"

record ParsedError =
  peMessage :: string
  pePath :: string
  peLine :: int
  peColumn :: int

definition zero_ParsedError :: ParsedError where
  "zero_ParsedError = \<lparr>peMessage = [], pePath = [], peLine = 0, peColumn = 0\<rparr>"

definition ParsedError_json :: "ParsedError \<Rightarrow> json" where
  "ParsedError_json p = JObj
    ([(''message'', enc_string (peMessage p))] @
     omit_string ''path'' (pePath p) @
     omit_int ''line'' (peLine p) @
     omit_int ''column'' (peColumn p))"

definition ParsedError_names :: "string list" where
  "ParsedError_names = [''message'', ''path'', ''line'', ''column'']"

definition ParsedError_put :: "string \<Rightarrow> json \<Rightarrow> ParsedError \<Rightarrow> ParsedError result" where
  "ParsedError_put f v p =
     (if f = ''message'' then map_result (\<lambda>x. p\<lparr>peMessage := x\<rparr>) (decode_string v (peMessage p))
      else if f = ''path'' then map_result (\<lambda>x. p\<lparr>pePath := x\<rparr>) (decode_string v (pePath p))
      else if f = ''line'' then map_result (\<lambda>x. p\<lparr>peLine := x\<rparr>) (decode_int v (peLine p))
      else map_result (\<lambda>x. p\<lparr>peColumn := x\<rparr>) (decode_int v (peColumn p)))"

definition ParsedError_unjson :: "json \<Rightarrow> ParsedError result" where
  "ParsedError_unjson j = decode_struct ParsedError_names ParsedError_put j zero_ParsedError"

definition ParsedError_ok :: "ParsedError \<Rightarrow> bool" where
  "ParsedError_ok p \<longleftrightarrow> valid_utf8 (peMessage p) \<and>
     valid_utf8 (pePath p) \<and>
     minInt64 \<le> peLine p \<and> peLine p \<le> maxInt64 \<and>
     minInt64 \<le> peColumn p \<and> peColumn p \<le> maxInt64"

record RunResultPayload =
  rrJobID :: string
  rrProfileID :: string
  rrStatus :: string
  rrSummary :: string
  rrTopErrors :: "ParsedError list"
  rrExcerpt :: string
  rrOutput :: string
  rrChangedFiles :: "string list"

definition zero_RunResultPayload :: RunResultPayload where
  "zero_RunResultPayload = \<lparr>rrJobID = [], rrProfileID = [], rrStatus = [], rrSummary = [], rrTopErrors = [], rrExcerpt = [], rrOutput = [], rrChangedFiles = []\<rparr>"

definition RunResultPayload_json :: "RunResultPayload \<Rightarrow> json" where
  "RunResultPayload_json p = JObj
    ([(''jobId'', enc_string (rrJobID p)), (''profileId'', enc_string (rrProfileID p)), (''status'', enc_string (rrStatus p)), (''summary'', enc_string (rrSummary p))] @
     omit_list ParsedError_json ''topErrors'' (rrTopErrors p) @
     omit_string ''excerpt'' (rrExcerpt p) @
     omit_string ''output'' (rrOutput p) @
     omit_list enc_string ''changedFiles'' (rrChangedFiles p))"

definition RunResultPayload_names :: "string list" where
  "RunResultPayload_names = [''jobId'', ''profileId'', ''status'', ''summary'', ''topErrors'', ''excerpt'', ''output'', ''changedFiles'']"

definition RunResultPayload_put :: "string \<Rightarrow> json \<Rightarrow> RunResultPayload \<Rightarrow> RunResultPayload result" where
  "RunResultPayload_put f v p =
     (if f = ''jobId'' then map_result (\<lambda>x. p\<lparr>rrJobID := x\<rparr>) (decode_string v (rrJobID p))
      else if f = ''profileId'' then map_result (\<lambda>x. p\<lparr>rrProfileID := x\<rparr>) (decode_string v (rrProfileID p))
      else if f = ''status'' then map_result (\<lambda>x. p\<lparr>rrStatus := x\<rparr>) (decode_string v (rrStatus p))
      else if f = ''summary'' then map_result (\<lambda>x. p\<lparr>rrSummary := x\<rparr>) (decode_string v (rrSummary p))
      else if f = ''topErrors'' then map_result (\<lambda>x. p\<lparr>rrTopErrors := x\<rparr>) (decode_list ParsedError_unjson v)
      else if f = ''excerpt'' then map_result (\<lambda>x. p\<lparr>rrExcerpt := x\<rparr>) (decode_string v (rrExcerpt p))
      else if f = ''output'' then map_result (\<lambda>x. p\<lparr>rrOutput := x\<rparr>) (decode_string v (rrOutput p))
      else map_result (\<lambda>x. p\<lparr>rrChangedFiles := x\<rparr>) (decode_list (\<lambda>j. decode_string j []) v))"

definition RunResultPayload_unjson :: "json \<Rightarrow> RunResultPayload result" where
  "RunResultPayload_unjson j = decode_struct RunResultPayload_names RunResultPayload_put j zero_RunResultPayload"

definition RunResultPayload_ok :: "RunResultPayload \<Rightarrow> bool" where
  "RunResultPayload_ok p \<longleftrightarrow> valid_utf8 (rrJobID p) \<and>
     valid_utf8 (rrProfileID p) \<and>
     valid_utf8 (rrStatus p) \<and>
     valid_utf8 (rrSummary p) \<and>
     (\<forall>x \<in> set (rrTopErrors p). ParsedError_ok x) \<and>
     valid_utf8 (rrExcerpt p) \<and>
     valid_utf8 (rrOutput p) \<and>
     (\<forall>s \<in> set (rrChangedFiles p). valid_utf8 s)"

record OpenLocationPayload =
  olPath :: string
  olLine :: int
  olColumn :: int

definition zero_OpenLocationPayload :: OpenLocationPayload where
  "zero_OpenLocationPayload = \<lparr>olPath = [], olLine = 0, olColumn = 0\<rparr>"

definition OpenLocationPayload_json :: "OpenLocationPayload \<Rightarrow> json" where
  "OpenLocationPayload_json p = JObj
    ([(''path'', enc_string (olPath p)), (''line'', JInt (olLine p))] @
     omit_int ''column'' (olColumn p))"

definition OpenLocationPayload_names :: "string list" where
  "OpenLocationPayload_names = [''path'', ''line'', ''column'']"

definition OpenLocationPayload_put :: "string \<Rightarrow> json \<Rightarrow> OpenLocationPayload \<Rightarrow> OpenLocationPayload result" where
  "OpenLocationPayload_put f v p =
     (if f = ''path'' then map_result (\<lambda>x. p\<lparr>olPath := x\<rparr>) (decode_string v (olPath p))
      else if f = ''line'' then map_result (\<lambda>x. p\<lparr>olLine := x\<rparr>) (decode_int v (olLine p))
      else map_result (\<lambda>x. p\<lparr>olColumn := x\<rparr>) (decode_int v (olColumn p)))"

definition OpenLocationPayload_unjson :: "json \<Rightarrow> OpenLocationPayload result" where
  "OpenLocationPayload_unjson j = decode_struct OpenLocationPayload_names OpenLocationPayload_put j zero_OpenLocationPayload"

definition OpenLocationPayload_ok :: "OpenLocationPayload \<Rightarrow> bool" where
  "OpenLocationPayload_ok p \<longleftrightarrow> valid_utf8 (olPath p) \<and>
     minInt64 \<le> olLine p \<and> olLine p \<le> maxInt64 \<and>
     minInt64 \<le> olColumn p \<and> olColumn p \<le> maxInt64"

record SignalOfferPayload =
  soSDP :: string

definition zero_SignalOfferPayload :: SignalOfferPayload where
  "zero_SignalOfferPayload = \<lparr>soSDP = []\<rparr>"

definition SignalOfferPayload_json :: "SignalOfferPayload \<Rightarrow> json" where
  "SignalOfferPayload_json p = JObj
    ([(''sdp'', enc_string (soSDP p))])"

definition SignalOfferPayload_names :: "string list" where
  "SignalOfferPayload_names = [''sdp'']"

definition SignalOfferPayload_put :: "string \<Rightarrow> json \<Rightarrow> SignalOfferPayload \<Rightarrow> SignalOfferPayload result" where
  "SignalOfferPayload_put f v p =
     (map_result (\<lambda>x. p\<lparr>soSDP := x\<rparr>) (decode_string v (soSDP p)))"

definition SignalOfferPayload_unjson :: "json \<Rightarrow> SignalOfferPayload result" where
  "SignalOfferPayload_unjson j = decode_struct SignalOfferPayload_names SignalOfferPayload_put j zero_SignalOfferPayload"

definition SignalOfferPayload_ok :: "SignalOfferPayload \<Rightarrow> bool" where
  "SignalOfferPayload_ok p \<longleftrightarrow> valid_utf8 (soSDP p)"

record SignalAnswerPayload =
  saSDP :: string

definition zero_SignalAnswerPayload :: SignalAnswerPayload where
  "zero_SignalAnswerPayload = \<lparr>saSDP = []\<rparr>"

definition SignalAnswerPayload_json :: "SignalAnswerPayload \<Rightarrow> json" where
  "SignalAnswerPayload_json p = JObj
    ([(''sdp'', enc_string (saSDP p))])"

definition SignalAnswerPayload_names :: "string list" where
  "SignalAnswerPayload_names = [''sdp'']"

definition SignalAnswerPayload_put :: "string \<Rightarrow> json \<Rightarrow> SignalAnswerPayload \<Rightarrow> SignalAnswerPayload result" where
  "SignalAnswerPayload_put f v p =
     (map_result (\<lambda>x. p\<lparr>saSDP := x\<rparr>) (decode_string v (saSDP p)))"

definition SignalAnswerPayload_unjson :: "json \<Rightarrow> SignalAnswerPayload result" where
  "SignalAnswerPayload_unjson j = decode_struct SignalAnswerPayload_names SignalAnswerPayload_put j zero_SignalAnswerPayload"

definition SignalAnswerPayload_ok :: "SignalAnswerPayload \<Rightarrow> bool" where
  "SignalAnswerPayload_ok p \<longleftrightarrow> valid_utf8 (saSDP p)"

record SignalICEPayload =
  siCandidate :: string
  siSDPMid :: string
  siSDPMLineIndex :: int

definition zero_SignalICEPayload :: SignalICEPayload where
  "zero_SignalICEPayload = \<lparr>siCandidate = [], siSDPMid = [], siSDPMLineIndex = 0\<rparr>"

definition SignalICEPayload_json :: "SignalICEPayload \<Rightarrow> json" where
  "SignalICEPayload_json p = JObj
    ([(''candidate'', enc_string (siCandidate p))] @
     omit_string ''sdpMid'' (siSDPMid p) @
     omit_int ''sdpMLineIndex'' (siSDPMLineIndex p))"

definition SignalICEPayload_names :: "string list" where
  "SignalICEPayload_names = [''candidate'', ''sdpMid'', ''sdpMLineIndex'']"

definition SignalICEPayload_put :: "string \<Rightarrow> json \<Rightarrow> SignalICEPayload \<Rightarrow> SignalICEPayload result" where
  "SignalICEPayload_put f v p =
     (if f = ''candidate'' then map_result (\<lambda>x. p\<lparr>siCandidate := x\<rparr>) (decode_string v (siCandidate p))
      else if f = ''sdpMid'' then map_result (\<lambda>x. p\<lparr>siSDPMid := x\<rparr>) (decode_string v (siSDPMid p))
      else map_result (\<lambda>x. p\<lparr>siSDPMLineIndex := x\<rparr>) (decode_int v (siSDPMLineIndex p)))"

definition SignalICEPayload_unjson :: "json \<Rightarrow> SignalICEPayload result" where
  "SignalICEPayload_unjson j = decode_struct SignalICEPayload_names SignalICEPayload_put j zero_SignalICEPayload"

definition SignalICEPayload_ok :: "SignalICEPayload \<Rightarrow> bool" where
  "SignalICEPayload_ok p \<longleftrightarrow> valid_utf8 (siCandidate p) \<and>
     valid_utf8 (siSDPMid p) \<and>
     minInt64 \<le> siSDPMLineIndex p \<and> siSDPMLineIndex p \<le> maxInt64"

record SignalReadyPayload =
  srRole :: string
  srPeerConnected :: bool
  srTimestamp :: int

definition zero_SignalReadyPayload :: SignalReadyPayload where
  "zero_SignalReadyPayload = \<lparr>srRole = [], srPeerConnected = False, srTimestamp = 0\<rparr>"

definition SignalReadyPayload_json :: "SignalReadyPayload \<Rightarrow> json" where
  "SignalReadyPayload_json p = JObj
    ([(''role'', enc_string (srRole p)),
      (''peerConnected'', JBool (srPeerConnected p)),
      (''timestamp'', JInt (srTimestamp p))])"

definition SignalReadyPayload_names :: "string list" where
  "SignalReadyPayload_names = [''role'', ''peerConnected'', ''timestamp'']"

definition SignalReadyPayload_put :: "string \<Rightarrow> json \<Rightarrow> SignalReadyPayload \<Rightarrow> SignalReadyPayload result" where
  "SignalReadyPayload_put f v p =
     (if f = ''role'' then map_result (\<lambda>x. p\<lparr>srRole := x\<rparr>) (decode_string v (srRole p))
      else if f = ''peerConnected'' then map_result (\<lambda>x. p\<lparr>srPeerConnected := x\<rparr>) (decode_bool v (srPeerConnected p))
      else map_result (\<lambda>x. p\<lparr>srTimestamp := x\<rparr>) (decode_int v (srTimestamp p)))"

definition SignalReadyPayload_unjson :: "json \<Rightarrow> SignalReadyPayload result" where
  "SignalReadyPayload_unjson j = decode_struct SignalReadyPayload_names SignalReadyPayload_put j zero_SignalReadyPayload"

definition SignalReadyPayload_ok :: "SignalReadyPayload \<Rightarrow> bool" where
  "SignalReadyPayload_ok p \<longleftrightarrow> valid_utf8 (srRole p) \<and>
     minInt64 \<le> srTimestamp p \<and> srTimestamp p \<le> maxInt64"

record TermSummaryPayload =
  tsSkippedLines :: int

definition zero_TermSummaryPayload :: TermSummaryPayload where
  "zero_TermSummaryPayload = \<lparr>tsSkippedLines = 0\<rparr>"

definition TermSummaryPayload_json :: "TermSummaryPayload \<Rightarrow> json" where
  "TermSummaryPayload_json p = JObj
    ([(''skippedLines'', JInt (tsSkippedLines p))])"

definition TermSummaryPayload_names :: "string list" where
  "TermSummaryPayload_names = [''skippedLines'']"

definition TermSummaryPayload_put :: "string \<Rightarrow> json \<Rightarrow> TermSummaryPayload \<Rightarrow> TermSummaryPayload result" where
  "TermSummaryPayload_put f v p =
     (map_result (\<lambda>x. p\<lparr>tsSkippedLines := x\<rparr>) (decode_int v (tsSkippedLines p)))"

definition TermSummaryPayload_unjson :: "json \<Rightarrow> TermSummaryPayload result" where
  "TermSummaryPayload_unjson j = decode_struct TermSummaryPayload_names TermSummaryPayload_put j zero_TermSummaryPayload"

definition TermSummaryPayload_ok :: "TermSummaryPayload \<Rightarrow> bool" where
  "TermSummaryPayload_ok p \<longleftrightarrow> minInt64 \<le> tsSkippedLines p \<and> tsSkippedLines p \<le> maxInt64"

record CmdAckPayload =
  caRequestRID :: string
  caAccepted :: bool
  caMessage :: string

definition zero_CmdAckPayload :: CmdAckPayload where
  "zero_CmdAckPayload = \<lparr>caRequestRID = [], caAccepted = False, caMessage = []\<rparr>"

definition CmdAckPayload_json :: "CmdAckPayload \<Rightarrow> json" where
  "CmdAckPayload_json p = JObj
    ([(''requestRid'', enc_string (caRequestRID p)), (''accepted'', JBool (caAccepted p))] @
     omit_string ''message'' (caMessage p))"

definition CmdAckPayload_names :: "string list" where
  "CmdAckPayload_names = [''requestRid'', ''accepted'', ''message'']"

definition CmdAckPayload_put :: "string \<Rightarrow> json \<Rightarrow> CmdAckPayload \<Rightarrow> CmdAckPayload result" where
  "CmdAckPayload_put f v p =
     (if f = ''requestRid'' then map_result (\<lambda>x. p\<lparr>caRequestRID := x\<rparr>) (decode_string v (caRequestRID p))
      else if f = ''accepted'' then map_result (\<lambda>x. p\<lparr>caAccepted := x\<rparr>) (decode_bool v (caAccepted p))
      else map_result (\<lambda>x. p\<lparr>caMessage := x\<rparr>) (decode_string v (caMessage p)))"

definition CmdAckPayload_unjson :: "json \<Rightarrow> CmdAckPayload result" where
  "CmdAckPayload_unjson j = decode_struct CmdAckPayload_names CmdAckPayload_put j zero_CmdAckPayload"

definition CmdAckPayload_ok :: "CmdAckPayload \<Rightarrow> bool" where
  "CmdAckPayload_ok p \<longleftrightarrow> valid_utf8 (caRequestRID p) \<and>
     valid_utf8 (caMessage p)"

section \<open>Building an acknowledgement\<close>

definition NewCmdAck :: "instant \<Rightarrow> string \<Rightarrow> int \<Rightarrow> string \<Rightarrow> bool \<Rightarrow> string \<Rightarrow> Envelope result" where
  "NewCmdAck now sid seq requestRID accepted message =
     NewEnvelope now sid (requestRID @ ''_ack'') seq TypeCmdAck
       (Inr (CmdAckPayload_json
          \<lparr>caRequestRID = requestRID, caAccepted = accepted, caMessage = message\<rparr>))"

section \<open>Round trips of the payloads\<close>

lemma ContextOptions_nested:
  "decode_struct ContextOptions_names ContextOptions_put (ContextOptions_json p) x = Inr p"
  by (simp add: ContextOptions_json_def ContextOptions_put_def ContextOptions_names_def json_codec)

lemma PromptSubmitPayload_dec_enc: "PromptSubmitPayload_ok p \<Longrightarrow> PromptSubmitPayload_unjson (PromptSubmitPayload_json p) = Inr p"
  by (simp add: PromptSubmitPayload_unjson_def PromptSubmitPayload_json_def PromptSubmitPayload_put_def PromptSubmitPayload_names_def zero_PromptSubmitPayload_def PromptSubmitPayload_ok_def
      json_codec ContextOptions_nested)

lemma PromptAckPayload_dec_enc: "PromptAckPayload_ok p \<Longrightarrow> PromptAckPayload_unjson (PromptAckPayload_json p) = Inr p"
  by (simp add: PromptAckPayload_unjson_def PromptAckPayload_json_def PromptAckPayload_put_def PromptAckPayload_names_def zero_PromptAckPayload_def PromptAckPayload_ok_def
      json_codec )

lemma SelectedHunk_dec_enc: "SelectedHunk_ok p \<Longrightarrow> SelectedHunk_unjson (SelectedHunk_json p) = Inr p"
  by (simp add: SelectedHunk_unjson_def SelectedHunk_json_def SelectedHunk_put_def SelectedHunk_names_def zero_SelectedHunk_def SelectedHunk_ok_def
      json_codec )

lemma PatchApplyPayload_dec_enc: "PatchApplyPayload_ok p \<Longrightarrow> PatchApplyPayload_unjson (PatchApplyPayload_json p) = Inr p"
  by (simp add: PatchApplyPayload_unjson_def PatchApplyPayload_json_def PatchApplyPayload_put_def PatchApplyPayload_names_def zero_PatchApplyPayload_def PatchApplyPayload_ok_def
      json_codec SelectedHunk_dec_enc)

lemma PatchResultPayload_dec_enc: "PatchResultPayload_ok p \<Longrightarrow> PatchResultPayload_unjson (PatchResultPayload_json p) = Inr p"
  by (simp add: PatchResultPayload_unjson_def PatchResultPayload_json_def PatchResultPayload_put_def PatchResultPayload_names_def zero_PatchResultPayload_def PatchResultPayload_ok_def
      json_codec )

lemma RunProfilePayload_dec_enc: "RunProfilePayload_ok p \<Longrightarrow> RunProfilePayload_unjson (RunProfilePayload_json p) = Inr p"
  by (simp add: RunProfilePayload_unjson_def RunProfilePayload_json_def RunProfilePayload_put_def RunProfilePayload_names_def zero_RunProfilePayload_def RunProfilePayload_ok_def
      json_codec )

lemma ParsedError_dec_enc: "ParsedError_ok p \<Longrightarrow> ParsedError_unjson (ParsedError_json p) = Inr p"
  by (simp add: ParsedError_unjson_def ParsedError_json_def ParsedError_put_def ParsedError_names_def zero_ParsedError_def ParsedError_ok_def
      json_codec )

lemma RunResultPayload_dec_enc: "RunResultPayload_ok p \<Longrightarrow> RunResultPayload_unjson (RunResultPayload_json p) = Inr p"
  by (simp add: RunResultPayload_unjson_def RunResultPayload_json_def RunResultPayload_put_def RunResultPayload_names_def zero_RunResultPayload_def RunResultPayload_ok_def
      json_codec ParsedError_dec_enc)

lemma OpenLocationPayload_dec_enc: "OpenLocationPayload_ok p \<Longrightarrow> OpenLocationPayload_unjson (OpenLocationPayload_json p) = Inr p"
  by (simp add: OpenLocationPayload_unjson_def OpenLocationPayload_json_def OpenLocationPayload_put_def OpenLocationPayload_names_def zero_OpenLocationPayload_def OpenLocationPayload_ok_def
      json_codec )

lemma SignalOfferPayload_dec_enc: "SignalOfferPayload_ok p \<Longrightarrow> SignalOfferPayload_unjson (SignalOfferPayload_json p) = Inr p"
  by (simp add: SignalOfferPayload_unjson_def SignalOfferPayload_json_def SignalOfferPayload_put_def SignalOfferPayload_names_def zero_SignalOfferPayload_def SignalOfferPayload_ok_def
      json_codec )

lemma SignalAnswerPayload_dec_enc: "SignalAnswerPayload_ok p \<Longrightarrow> SignalAnswerPayload_unjson (SignalAnswerPayload_json p) = Inr p"
  by (simp add: SignalAnswerPayload_unjson_def SignalAnswerPayload_json_def SignalAnswerPayload_put_def SignalAnswerPayload_names_def zero_SignalAnswerPayload_def SignalAnswerPayload_ok_def
      json_codec )

lemma SignalICEPayload_dec_enc: "SignalICEPayload_ok p \<Longrightarrow> SignalICEPayload_unjson (SignalICEPayload_json p) = Inr p"
  by (simp add: SignalICEPayload_unjson_def SignalICEPayload_json_def SignalICEPayload_put_def SignalICEPayload_names_def zero_SignalICEPayload_def SignalICEPayload_ok_def
      json_codec )

lemma SignalReadyPayload_dec_enc: "SignalReadyPayload_ok p \<Longrightarrow> SignalReadyPayload_unjson (SignalReadyPayload_json p) = Inr p"
  by (simp add: SignalReadyPayload_unjson_def SignalReadyPayload_json_def SignalReadyPayload_put_def SignalReadyPayload_names_def zero_SignalReadyPayload_def SignalReadyPayload_ok_def
      json_codec )

lemma TermSummaryPayload_dec_enc: "TermSummaryPayload_ok p \<Longrightarrow> TermSummaryPayload_unjson (TermSummaryPayload_json p) = Inr p"
  by (simp add: TermSummaryPayload_unjson_def TermSummaryPayload_json_def TermSummaryPayload_put_def TermSummaryPayload_names_def zero_TermSummaryPayload_def TermSummaryPayload_ok_def
      json_codec )

lemma CmdAckPayload_dec_enc: "CmdAckPayload_ok p \<Longrightarrow> CmdAckPayload_unjson (CmdAckPayload_json p) = Inr p"
  by (simp add: CmdAckPayload_unjson_def CmdAckPayload_json_def CmdAckPayload_put_def CmdAckPayload_names_def zero_CmdAckPayload_def CmdAckPayload_ok_def
      json_codec )

text \<open>Every payload type is an instance of the codec interface.\<close>

interpretation cPromptSubmitPayload: payload_codec PromptSubmitPayload_json PromptSubmitPayload_unjson PromptSubmitPayload_ok
  by unfold_locales (rule PromptSubmitPayload_dec_enc)

interpretation cPromptAckPayload: payload_codec PromptAckPayload_json PromptAckPayload_unjson PromptAckPayload_ok
  by unfold_locales (rule PromptAckPayload_dec_enc)

interpretation cSelectedHunk: payload_codec SelectedHunk_json SelectedHunk_unjson SelectedHunk_ok
  by unfold_locales (rule SelectedHunk_dec_enc)

interpretation cPatchApplyPayload: payload_codec PatchApplyPayload_json PatchApplyPayload_unjson PatchApplyPayload_ok
  by unfold_locales (rule PatchApplyPayload_dec_enc)

interpretation cPatchResultPayload: payload_codec PatchResultPayload_json PatchResultPayload_unjson PatchResultPayload_ok
  by unfold_locales (rule PatchResultPayload_dec_enc)

interpretation cRunProfilePayload: payload_codec RunProfilePayload_json RunProfilePayload_unjson RunProfilePayload_ok
  by unfold_locales (rule RunProfilePayload_dec_enc)

interpretation cParsedError: payload_codec ParsedError_json ParsedError_unjson ParsedError_ok
  by unfold_locales (rule ParsedError_dec_enc)

interpretation cRunResultPayload: payload_codec RunResultPayload_json RunResultPayload_unjson RunResultPayload_ok
  by unfold_locales (rule RunResultPayload_dec_enc)

interpretation cOpenLocationPayload: payload_codec OpenLocationPayload_json OpenLocationPayload_unjson OpenLocationPayload_ok
  by unfold_locales (rule OpenLocationPayload_dec_enc)

interpretation cSignalOfferPayload: payload_codec SignalOfferPayload_json SignalOfferPayload_unjson SignalOfferPayload_ok
  by unfold_locales (rule SignalOfferPayload_dec_enc)

interpretation cSignalAnswerPayload: payload_codec SignalAnswerPayload_json SignalAnswerPayload_unjson SignalAnswerPayload_ok
  by unfold_locales (rule SignalAnswerPayload_dec_enc)

interpretation cSignalICEPayload: payload_codec SignalICEPayload_json SignalICEPayload_unjson SignalICEPayload_ok
  by unfold_locales (rule SignalICEPayload_dec_enc)

interpretation cSignalReadyPayload: payload_codec SignalReadyPayload_json SignalReadyPayload_unjson SignalReadyPayload_ok
  by unfold_locales (rule SignalReadyPayload_dec_enc)

interpretation cTermSummaryPayload: payload_codec TermSummaryPayload_json TermSummaryPayload_unjson TermSummaryPayload_ok
  by unfold_locales (rule TermSummaryPayload_dec_enc)

interpretation cCmdAckPayload: payload_codec CmdAckPayload_json CmdAckPayload_unjson CmdAckPayload_ok
  by unfold_locales (rule CmdAckPayload_dec_enc)

section \<open>Acknowledgements\<close>

lemma NewCmdAck_Inr_iff:
  "NewCmdAck now sid seq rid acc msg = Inr e \<longleftrightarrow>
     sid \<noteq> [] \<and> 0 \<le> seq \<and> 0 < UnixMilli now \<and>
     e = \<lparr>SID = sid, RID = rid @ ''_ack'', Seq = seq, TS = UnixMilli now, Type = TypeCmdAck,
          Payload = Some (CmdAckPayload_json \<lparr>caRequestRID = rid, caAccepted = acc, caMessage = msg\<rparr>)\<rparr>"
  by (auto simp: NewCmdAck_def NewEnvelope_Inr_iff)

lemma NewCmdAck_decodes:
  assumes "NewCmdAck now sid seq rid acc msg = Inr e" "valid_utf8 rid" "valid_utf8 msg"
  shows "DecodePayload e CmdAckPayload_unjson =
    Inr \<lparr>caRequestRID = rid, caAccepted = acc, caMessage = msg\<rparr>"
  using assms(1) unfolding NewCmdAck_def
  by (rule cCmdAckPayload.envelope_carries [rotated]) (simp add: CmdAckPayload_ok_def assms(2,3))

text \<open>
  C31: every envelope that \<open>NewEnvelope\<close> builds passes the receiver's validation, and after it
  has been written as JSON, read back and decoded with the payload's own decoder the receiver
  has the sender's payload (here for an acknowledgement), for session ids, request ids and
  messages that are valid UTF-8 and a sequence number and clock within 64 bits.
\<close>

theorem cmd_ack_end_to_end:
  assumes "NewCmdAck now sid seq rid acc msg = Inr e"
    and "valid_utf8 sid" "valid_utf8 rid" "valid_utf8 msg"
    and "seq \<le> maxInt64" "UnixMilli now \<le> maxInt64"
  shows "\<exists>e'. Envelope_unjson (Envelope_json e) = Inr e' \<and> Envelope_Validate e' = None \<and>
    DecodePayload e' CmdAckPayload_unjson =
      Inr \<lparr>caRequestRID = rid, caAccepted = acc, caMessage = msg\<rparr>"
proof -
  from assms(1) have "Envelope_Validate e = None"
    by (auto simp: NewCmdAck_Inr_iff Validate_None_iff)
  moreover have "Envelope_ok e"
  proof -
    have "valid_utf8 ''_ack''" "valid_utf8 TypeCmdAck"
      by (rule valid_utf8_ascii, simp add: ascii_string_def byte_def)+
    with assms(3) have "valid_utf8 (rid @ ''_ack'')" "valid_utf8 TypeCmdAck"
      by (simp_all add: valid_utf8_append)
    with assms show ?thesis by (auto simp: NewCmdAck_Inr_iff Envelope_ok_def minInt64_def)
  qed
  ultimately show ?thesis
    using cEnvelope.dec_enc NewCmdAck_decodes [OF assms(1,3,4)] by blast
qed


theorem cmd_ack_end_to_end_witness:
  "\<exists>e e'. NewCmdAck Second ''s1'' 7 ''r1'' True ''ok'' = Inr e \<and> Envelope_unjson (Envelope_json e) = Inr e' \<and>
     DecodePayload e' CmdAckPayload_unjson = Inr \<lparr>caRequestRID = ''r1'', caAccepted = True, caMessage = ''ok''\<rparr>"
proof -
  obtain e where e: "NewCmdAck Second ''s1'' 7 ''r1'' True ''ok'' = Inr e"
    by (simp add: NewCmdAck_Inr_iff UnixMilli_def Second_def Millisecond_def)
  have v: "valid_utf8 ''s1''" "valid_utf8 ''r1''" "valid_utf8 ''ok''"
    by (rule valid_utf8_ascii, simp add: ascii_string_def byte_def)+
  from cmd_ack_end_to_end [OF e v] show ?thesis
    using e by (auto simp: maxInt64_def UnixMilli_def Second_def Millisecond_def)
qed

end
