(* ===== verification/Go_Http.thy ===== *)
theory Go_Http
  imports Go_Json
begin

text \<open>
  The parts of \<open>net/http\<close> and \<open>strconv\<close> that the handlers use. A handler is a function from the
  fields of the request that it reads to a response: a status and a JSON document, as
  \<open>writeJSON\<close> writes them.
\<close>

type_synonym response = "int \<times> json"

definition writeJSON :: "int \<Rightarrow> json \<Rightarrow> response" where
  "writeJSON status data = (status, data)"

definition error_json :: "string \<Rightarrow> json" where
  "error_json msg = JObj [(''error'', enc_string msg)]"

abbreviation StatusOK :: int where "StatusOK \<equiv> 200"
abbreviation StatusCreated :: int where "StatusCreated \<equiv> 201"
abbreviation StatusBadRequest :: int where "StatusBadRequest \<equiv> 400"
abbreviation StatusUnauthorized :: int where "StatusUnauthorized \<equiv> 401"
abbreviation StatusNotFound :: int where "StatusNotFound \<equiv> 404"
abbreviation StatusMethodNotAllowed :: int where "StatusMethodNotAllowed \<equiv> 405"
abbreviation StatusConflict :: int where "StatusConflict \<equiv> 409"
abbreviation StatusInternalServerError :: int where "StatusInternalServerError \<equiv> 500"

text \<open>\<open>strings.Split(strings.Trim(path, "/"), "/")\<close>\<close>

definition path_segments :: "string \<Rightarrow> string list" where
  "path_segments path = strings_Split (strings_Trim path ''/'') (CHR ''/'')"

text \<open>\<open>strconv.Atoi\<close>: an optional sign, decimal digits, a value that fits in 64 bits.\<close>

definition is_digit :: "char \<Rightarrow> bool" where
  "is_digit c \<longleftrightarrow> 48 \<le> byte c \<and> byte c \<le> 57"

fun digits_value :: "int \<Rightarrow> string \<Rightarrow> int" where
  "digits_value acc [] = acc"
| "digits_value acc (c # cs) = digits_value (acc * 10 + (int (byte c) - 48)) cs"

definition Atoi :: "string \<Rightarrow> int option" where
  "Atoi s =
     (let (neg, ds) = (case s of [] \<Rightarrow> (False, []) | c # cs \<Rightarrow>
            if c = CHR ''-'' then (True, cs) else if c = CHR ''+'' then (False, cs) else (False, s));
          n = (if neg then - digits_value 0 ds else digits_value 0 ds)
      in if ds = [] \<or> \<not> list_all is_digit ds \<or> n < minInt64 \<or> n > maxInt64 then None else Some n)"

section \<open>Lemmas\<close>

lemma path_segments_no_slash: "seg \<in> set (path_segments p) \<Longrightarrow> CHR ''/'' \<notin> set seg"
  by (auto simp: path_segments_def dest: Split_no_sep)

text \<open>A path made of segments that are not empty is split into them.\<close>

lemma strings_Trim_slash:
  assumes "s \<noteq> []" "hd s \<noteq> CHR ''/''" "last s \<noteq> CHR ''/''"
  shows "strings_Trim (CHR ''/'' # s) ''/'' = s"
proof -
  have d1: "dropWhile (\<lambda>c. c \<in> set ''/'') (CHR ''/'' # s) = s" using assms by (cases s) auto
  have "dropWhile (\<lambda>c. c \<in> set ''/'') (rev s) = rev s"
    using assms by (cases "rev s") (auto simp: hd_rev [symmetric])
  then show ?thesis unfolding strings_Trim_def strings_TrimRight_def d1 by simp
qed

lemma path_segments_build:
  assumes "a \<noteq> []" "hd a \<noteq> CHR ''/''" "b \<noteq> []" "last b \<noteq> CHR ''/''"
    and "CHR ''/'' \<notin> set a" "CHR ''/'' \<notin> set b" "\<forall>x \<in> set mid. CHR ''/'' \<notin> set x"
  shows "path_segments (CHR ''/'' # strings_Join (a # mid @ [b]) ''/'') = a # mid @ [b]"
proof -
  have last: "strings_Join (xs @ [b]) ''/'' \<noteq> [] \<and> last (strings_Join (xs @ [b]) ''/'') = last b" for xs
    using assms(3) by (induction xs "''/''" rule: strings_Join.induct) auto
  have hd: "hd (strings_Join (a # mid @ [b]) ''/'') = hd a"
    using assms(1) by (cases "mid @ [b]") auto
  have "strings_Trim (CHR ''/'' # strings_Join (a # mid @ [b]) ''/'') ''/'' = strings_Join (a # mid @ [b]) ''/''"
    by (rule strings_Trim_slash) (use last [of "a # mid"] hd assms in auto)
  moreover have "strings_Split (strings_Join (a # mid @ [b]) ''/'') (CHR ''/'') = a # mid @ [b]"
    by (rule Split_Join) (use assms in auto)
  ultimately show ?thesis by (simp add: path_segments_def)
qed

end
