(* ===== verification/Relay.thy ===== *)
theory Relay
  imports Payloads Go_Http
begin

text \<open>
  \<open>internal/relay\<close>: sessions of peers that are connected by buffered channels, the hub of
  sessions, and the WebSocket handler's loops. Terminal output may be dropped under back
  pressure and is then accounted for by a TERM\_SUMMARY packet; control packets are not
  dropped silently.

  The channels of a session live in a heap (\<open>rsChans\<close>, a channel is an index), because a
  reader keeps its channel after the table entry is gone. \<open>None\<close> is a run-time panic: a send
  on a closed channel or a second close. A channel is made with a positive capacity
  (\<open>cmd/relay\<close> reads the queue size with \<open>envIntOr\<close>).
\<close>

section \<open>Channels\<close>

record channel =
  chBuf :: "Envelope list"
  chCap :: nat
  chClosed :: bool

section \<open>Sessions (session.go)\<close>

record Session =
  rsId :: string
  rsQueueSize :: nat
  rsPeers :: "(string, nat) gomap"
  rsDroppedTerm :: "(string, int) gomap"
  rsChans :: "channel list"

definition NewSession :: "string \<Rightarrow> nat \<Rightarrow> Session" where
  "NewSession sid queueSize =
     \<lparr>rsId = sid, rsQueueSize = queueSize, rsPeers = [], rsDroppedTerm = [], rsChans = []\<rparr>"

definition make_chan :: "nat \<Rightarrow> Session \<Rightarrow> nat \<times> Session" where
  "make_chan n s = (length (rsChans s),
     s\<lparr>rsChans := rsChans s @ [\<lparr>chBuf = [], chCap = n, chClosed = False\<rparr>]\<rparr>)"

definition close_chan :: "nat \<Rightarrow> Session \<Rightarrow> Session option" where
  "close_chan c s =
     (if c < length (rsChans s) \<and> \<not> chClosed (rsChans s ! c)
      then Some (s\<lparr>rsChans := (rsChans s)[c := (rsChans s ! c)\<lparr>chClosed := True\<rparr>]\<rparr>)
      else None)"

text \<open>
  A send that does not wait (\<open>select\<close> with \<open>default\<close>) with whether the value was taken, and the
  reader of a channel taking up to \<open>n\<close> values.
\<close>

definition chan_put :: "Envelope \<Rightarrow> channel \<Rightarrow> bool \<times> channel" where
  "chan_put env ch =
     (if length (chBuf ch) < chCap ch then (True, ch\<lparr>chBuf := chBuf ch @ [env]\<rparr>) else (False, ch))"

definition chan_take :: "nat \<Rightarrow> channel \<Rightarrow> Envelope list \<times> channel" where
  "chan_take n ch = (take n (chBuf ch), ch\<lparr>chBuf := drop n (chBuf ch)\<rparr>)"

definition try_send :: "nat \<Rightarrow> Envelope \<Rightarrow> Session \<Rightarrow> (bool \<times> Session) option" where
  "try_send c env s =
     (if \<not> c < length (rsChans s) \<or> chClosed (rsChans s ! c) then None
      else let (sent, ch) = chan_put env (rsChans s ! c)
           in Some (sent, s\<lparr>rsChans := (rsChans s)[c := ch]\<rparr>))"

definition receive :: "nat \<Rightarrow> nat \<Rightarrow> Session \<Rightarrow> Envelope list \<times> Session" where
  "receive c n s =
     (if c < length (rsChans s)
      then let (xs, ch) = chan_take n (rsChans s ! c) in (xs, s\<lparr>rsChans := (rsChans s)[c := ch]\<rparr>)
      else ([], s))"

definition Session_Register :: "string \<Rightarrow> Session \<Rightarrow> (nat \<times> Session) option" where
  "Session_Register peer s =
     (let (ch, s) = make_chan (rsQueueSize s) s in
      Option.bind (case map_of (rsPeers s) peer of None \<Rightarrow> Some s | Some old \<Rightarrow> close_chan old s)
        (\<lambda>s. Some (ch, s\<lparr>rsPeers := AList.update peer ch (rsPeers s)\<rparr>)))"

definition Session_Unregister :: "string \<Rightarrow> Session \<Rightarrow> Session option" where
  "Session_Unregister peer s =
     (case map_of (rsPeers s) peer of
        None \<Rightarrow> Some s
      | Some ch \<Rightarrow> close_chan ch (s\<lparr>rsPeers := AList.delete peer (rsPeers s),
                                  rsDroppedTerm := AList.delete peer (rsDroppedTerm s)\<rparr>))"

definition Session_PeerCount :: "Session \<Rightarrow> nat" where
  "Session_PeerCount s = length (rsPeers s)"

definition currentDropCounter :: "string \<Rightarrow> Session \<Rightarrow> int" where
  "currentDropCounter target s = (case map_of (rsDroppedTerm s) target of None \<Rightarrow> 0 | Some n \<Rightarrow> n)"

definition incrementDropCounter :: "string \<Rightarrow> Session \<Rightarrow> Session" where
  "incrementDropCounter target s =
     s\<lparr>rsDroppedTerm := AList.update target (currentDropCounter target s + 1) (rsDroppedTerm s)\<rparr>"

definition resetDropCounter :: "string \<Rightarrow> Session \<Rightarrow> Session" where
  "resetDropCounter target s = s\<lparr>rsDroppedTerm := AList.update target 0 (rsDroppedTerm s)\<rparr>"

definition tryEmitTermSummary :: "instant \<Rightarrow> nat \<Rightarrow> Envelope \<Rightarrow> string \<Rightarrow> Session \<Rightarrow> Session option" where
  "tryEmitTermSummary now ch env target s =
     (let dropped = currentDropCounter target s in
      if dropped = 0 then Some s
      else case NewEnvelope now (SID env) (RID env @ ''_term_summary'') (Seq env) TypeTermSummary
                  (Inr (TermSummaryPayload_json \<lparr>tsSkippedLines = dropped\<rparr>)) of
        Inl err \<Rightarrow> Some s
      | Inr summary \<Rightarrow>
          (case try_send ch summary s of
             None \<Rightarrow> None
           | Some (sent, s) \<Rightarrow> Some (if sent then resetDropCounter target s else s)))"

text \<open>
  \<open>drained\<close> is the number of values that the reader of the target takes during the 800 ms that
  a control packet waits for room.
\<close>

definition routeToPeer ::
    "instant \<Rightarrow> nat \<Rightarrow> string \<Rightarrow> Envelope \<Rightarrow> Session \<Rightarrow> (goerror option \<times> Session) option" where
  "routeToPeer now drained target env s =
     (case map_of (rsPeers s) target of
        None \<Rightarrow> Some (None, s)
      | Some ch \<Rightarrow>
          if Type env = TypeTerm then
            Option.bind (tryEmitTermSummary now ch env target s) (\<lambda>s.
              Option.bind (try_send ch env s) (\<lambda>(sent, s).
                Some (None, if sent then s else incrementDropCounter target s)))
          else
            Option.bind (try_send ch env s) (\<lambda>(sent, s).
              if sent then Some (None, s)
              else Option.bind (try_send ch env (snd (receive ch drained s))) (\<lambda>(sent, s).
                Some (if sent then None
                      else Some (ErrNew (''control packet timeout for target='' @ target)), s))))"

text \<open>\<open>Route\<close> visits the peers in the order of the map, except the sender.\<close>

fun Route_loop ::
    "instant \<Rightarrow> (string \<Rightarrow> nat) \<Rightarrow> string list \<Rightarrow> Envelope \<Rightarrow> Session \<Rightarrow> (goerror option \<times> Session) option" where
  "Route_loop now drained [] env s = Some (None, s)"
| "Route_loop now drained (target # targets) env s =
     (case routeToPeer now (drained target) target env s of
        None \<Rightarrow> None
      | Some (Some err, s) \<Rightarrow> Some (Some err, s)
      | Some (None, s) \<Rightarrow> Route_loop now drained targets env s)"

definition Session_Route ::
    "instant \<Rightarrow> (string \<Rightarrow> nat) \<Rightarrow> string list \<Rightarrow> string \<Rightarrow> Envelope \<Rightarrow> Session \<Rightarrow> (goerror option \<times> Session) option" where
  "Session_Route now drained order from env s =
     Route_loop now drained (filter (\<lambda>peer. peer \<noteq> from) order) env s"

section \<open>The hub (hub.go)\<close>

text \<open>Sessions are shared by pointer: \<open>hubHeap\<close> holds them, a session is an index.\<close>

record Hub =
  hubSessions :: "(string, nat) gomap"
  hubQueueSize :: nat
  hubHeap :: "Session list"

definition NewHub :: "nat \<Rightarrow> Hub" where
  "NewHub queueSize = \<lparr>hubSessions = [], hubQueueSize = queueSize, hubHeap = []\<rparr>"

definition Hub_GetOrCreate :: "string \<Rightarrow> Hub \<Rightarrow> nat \<times> Hub" where
  "Hub_GetOrCreate sid h =
     (case map_of (hubSessions h) sid of
        Some r \<Rightarrow> (r, h)
      | None \<Rightarrow>
          (length (hubHeap h),
           h\<lparr>hubHeap := hubHeap h @ [NewSession sid (hubQueueSize h)],
             hubSessions := AList.update sid (length (hubHeap h)) (hubSessions h)\<rparr>))"

definition Hub_RemoveIfEmpty :: "string \<Rightarrow> Hub \<Rightarrow> Hub" where
  "Hub_RemoveIfEmpty sid h =
     (case map_of (hubSessions h) sid of
        None \<Rightarrow> h
      | Some r \<Rightarrow>
          if Session_PeerCount (hubHeap h ! r) = 0
          then h\<lparr>hubSessions := AList.delete sid (hubSessions h)\<rparr> else h)"

definition put_session :: "nat \<Rightarrow> Session \<Rightarrow> Hub \<Rightarrow> Hub" where
  "put_session r s h = h\<lparr>hubHeap := (hubHeap h)[r := s]\<rparr>"

section \<open>The server (server.go)\<close>

definition relay_handleHealth :: response where
  "relay_handleHealth = writeJSON StatusOK (JObj [(''status'', enc_string ''ok'')])"

text \<open>The checks of \<open>handleRelayWS\<close> before the upgrade: a response, or the session and the peer.\<close>

definition handleRelayWS_request :: "string \<Rightarrow> string \<Rightarrow> response + (string \<times> string)" where
  "handleRelayWS_request path peerQuery =
     (if \<not> strings_HasSuffix path ''/ws'' then Inl (writeJSON StatusNotFound (error_json ''not found''))
      else let segments = path_segments path in
        if length segments \<noteq> 4 \<or> segments ! 0 \<noteq> ''v1'' \<or> segments ! 1 \<noteq> ''relay'' \<or> segments ! 3 \<noteq> ''ws''
        then Inl (writeJSON StatusNotFound (error_json ''invalid path''))
        else let sessionID = segments ! 2; peer = strings_TrimSpace peerQuery in
          if peer = [] then Inl (writeJSON StatusBadRequest (error_json ''peer query is required''))
          else Inr (sessionID, peer))"

text \<open>After the upgrade: the session, with the peer registered, and the channel it reads.\<close>

definition handleRelayWS_connect :: "string \<Rightarrow> string \<Rightarrow> Hub \<Rightarrow> ((nat \<times> nat) \<times> Hub) option" where
  "handleRelayWS_connect sid peer h =
     (let (r, h) = Hub_GetOrCreate sid h in
      case Session_Register peer (hubHeap h ! r) of
        None \<Rightarrow> None
      | Some (ch, s) \<Rightarrow> Some ((r, ch), put_session r s h))"

text \<open>
  One turn of \<open>readLoop\<close> on an envelope that was read, with the acknowledgement that is written
  back, if any; and the deferred clean-up when reading fails.
\<close>

definition relay_readLoop_turn ::
    "instant \<Rightarrow> (string \<Rightarrow> nat) \<Rightarrow> string list \<Rightarrow> string \<Rightarrow> Envelope \<Rightarrow> Session \<Rightarrow> (Envelope option \<times> Session) option" where
  "relay_readLoop_turn now drained order peer env s =
     (case Envelope_Validate env of
        Some err \<Rightarrow> Some (None, s)
      | None \<Rightarrow>
          (case Session_Route now drained order peer env s of
             None \<Rightarrow> None
           | Some (None, s) \<Rightarrow> Some (None, s)
           | Some (Some err, s) \<Rightarrow>
               (case NewCmdAck now (SID env) (Seq env) (RID env) False (Error err) of
                  Inl ackErr \<Rightarrow> Some (None, s)
                | Inr ack \<Rightarrow> Some (Some ack, s))))"

definition relay_readLoop_exit :: "nat \<Rightarrow> string \<Rightarrow> string \<Rightarrow> Hub \<Rightarrow> Hub option" where
  "relay_readLoop_exit r sid peer h =
     (case Session_Unregister peer (hubHeap h ! r) of
        None \<Rightarrow> None
      | Some s \<Rightarrow> Some (Hub_RemoveIfEmpty sid (put_session r s h)))"

text \<open>
  \<open>writeLoop\<close> writes what it receives until a write fails or the channel is closed and empty;
  \<open>oks\<close> are the results of the writes.
\<close>

fun relay_writeLoop :: "bool list \<Rightarrow> Envelope list \<Rightarrow> Envelope list" where
  "relay_writeLoop oks [] = []"
| "relay_writeLoop [] (env # envs) = []"
| "relay_writeLoop (ok # oks) (env # envs) = (if ok then env # relay_writeLoop oks envs else [])"

definition queueSizeFromEnv :: "string \<Rightarrow> int \<Rightarrow> int" where
  "queueSizeFromEnv raw fallback =
     (if raw = [] then fallback
      else case Atoi raw of None \<Rightarrow> fallback | Some n \<Rightarrow> if n \<le> 0 then fallback else n)"

end
