(* ===== verification/Relay_Delivery.thy ===== *)
theory Relay_Delivery
  imports Relay
begin

text \<open>
  What the relay guarantees: a well-formed session never panics, a peer receives its packets
  in order, a control packet is either queued or reported to its sender, and every line of
  terminal output is either delivered or counted in a summary or in the drop counter.
\<close>

section \<open>Bounded queues\<close>

text \<open>A run of a bounded queue: what was accepted, what was taken, and the queue at the end.\<close>

datatype 'a fifo_op = FPut 'a | FTake nat

fun fifo_run ::
    "('a \<Rightarrow> 'q \<Rightarrow> bool \<times> 'q) \<Rightarrow> (nat \<Rightarrow> 'q \<Rightarrow> 'a list \<times> 'q) \<Rightarrow> 'a fifo_op list \<Rightarrow> 'q \<Rightarrow> 'a list \<times> 'a list \<times> 'q" where
  "fifo_run put tk [] q = ([], [], q)"
| "fifo_run put tk (FPut x # ops) q =
     (let (b, q1) = put x q; (acc, rec, q2) = fifo_run put tk ops q1
      in (if b then x # acc else acc, rec, q2))"
| "fifo_run put tk (FTake n # ops) q =
     (let (xs, q1) = tk n q; (acc, rec, q2) = fifo_run put tk ops q1 in (acc, xs @ rec, q2))"

locale bounded_fifo =
  fixes put :: "'a \<Rightarrow> 'q \<Rightarrow> bool \<times> 'q" and tk :: "nat \<Rightarrow> 'q \<Rightarrow> 'a list \<times> 'q"
    and content :: "'q \<Rightarrow> 'a list" and cap :: "'q \<Rightarrow> nat"
  assumes put_taken: "fst (put x q) \<longleftrightarrow> length (content q) < cap q"
    and put_content: "content (snd (put x q)) = content q @ (if fst (put x q) then [x] else [])"
    and put_cap: "cap (snd (put x q)) = cap q"
    and tk_content: "fst (tk n q) @ content (snd (tk n q)) = content q"
    and tk_cap: "cap (snd (tk n q)) = cap q"
begin

lemma put_bound: "length (content q) \<le> cap q \<Longrightarrow> length (content (snd (put x q))) \<le> cap (snd (put x q))"
  by (auto simp: put_content put_cap put_taken)

lemma tk_bound: "length (content q) \<le> cap q \<Longrightarrow> length (content (snd (tk n q))) \<le> cap (snd (tk n q))"
  using arg_cong [OF tk_content [of n q], of length] by (simp add: tk_cap)

lemma run_fifo:
  "fifo_run put tk ops q = (acc, rec, q') \<Longrightarrow> content q @ acc = rec @ content q' \<and> cap q' = cap q"
proof (induction ops arbitrary: q acc rec q')
  case (Cons opr ops)
  show ?case
  proof (cases opr)
    case (FPut x)
    obtain b q1 where p: "put x q = (b, q1)" by fastforce
    obtain acc' rec' q2 where r: "fifo_run put tk ops q1 = (acc', rec', q2)" by (metis prod_cases3)
    from Cons.IH [OF r] Cons.prems put_content [of x q] put_cap [of x q] FPut p r show ?thesis
      by (auto split: if_splits)
  next
    case (FTake n)
    obtain xs q1 where p: "tk n q = (xs, q1)" by fastforce
    obtain acc' rec' q2 where r: "fifo_run put tk ops q1 = (acc', rec', q2)" by (metis prod_cases3)
    from Cons.IH [OF r] Cons.prems tk_content [of n q] tk_cap [of n q] FTake p r show ?thesis
      by auto (metis append.assoc)
  qed
qed simp

lemma run_bound:
  "fifo_run put tk ops q = (acc, rec, q') \<Longrightarrow> length (content q) \<le> cap q \<Longrightarrow> length (content q') \<le> cap q'"
proof (induction ops arbitrary: q acc rec q')
  case (Cons opr ops)
  then show ?case
    using put_bound tk_bound by (cases opr) (fastforce simp: case_prod_beta Let_def prod_eq_iff)+
qed simp

end

section \<open>The invariant of a session\<close>

definition session_ok :: "Session \<Rightarrow> bool" where
  "session_ok s \<longleftrightarrow>
     wf_map (rsPeers s) \<and> distinct (map snd (rsPeers s)) \<and>
     (\<forall>(p, c) \<in> set (rsPeers s). c < length (rsChans s) \<and> \<not> chClosed (rsChans s ! c)) \<and>
     (\<forall>ch \<in> set (rsChans s). length (chBuf ch) \<le> chCap ch \<and> chCap ch = rsQueueSize s) \<and>
     (\<forall>(p, n) \<in> set (rsDroppedTerm s). 0 \<le> n) \<and> wf_map (rsDroppedTerm s) \<and> 0 < rsQueueSize s"

section \<open>The stream of one peer\<close>

definition buffer_of :: "string \<Rightarrow> Session \<Rightarrow> Envelope list" where
  "buffer_of peer s =
     (case map_of (rsPeers s) peer of None \<Rightarrow> [] | Some c \<Rightarrow> chBuf (rsChans s ! c))"

text \<open>What the reader takes while a control packet waits for room.\<close>

definition drained_by :: "nat \<Rightarrow> string \<Rightarrow> Envelope \<Rightarrow> Session \<Rightarrow> Envelope list" where
  "drained_by n target env s =
     (if Type env \<noteq> TypeTerm \<and> length (buffer_of target s) \<ge> rsQueueSize s
      then take n (buffer_of target s) else [])"




text \<open>The number of lines of terminal output that a packet accounts for.\<close>

definition term_lines :: "Envelope \<Rightarrow> int" where
  "term_lines env =
     (if Type env = TypeTerm then 1
      else if Type env = TypeTermSummary then
        (case DecodePayload env TermSummaryPayload_unjson of Inl e \<Rightarrow> 0 | Inr p \<Rightarrow> tsSkippedLines p)
      else 0)"

definition lines :: "Envelope list \<Rightarrow> int" where
  "lines envs = sum_list (map term_lines envs)"


section \<open>An example session\<close>

text \<open>Two peers with queues of one packet.\<close>

definition ex_session :: Session where
  "ex_session = \<lparr>rsId = ''s1'', rsQueueSize = 1, rsPeers = [(''pc'', 0), (''mobile'', 1)], rsDroppedTerm = [],
     rsChans = [\<lparr>chBuf = [], chCap = 1, chClosed = False\<rparr>, \<lparr>chBuf = [], chCap = 1, chClosed = False\<rparr>]\<rparr>"

definition ex_term :: Envelope where
  "ex_term = \<lparr>SID = ''s1'', RID = ''r1'', Seq = 1, TS = 5, Type = TypeTerm, Payload = Some JNull\<rparr>"

definition ex_control :: Envelope where
  "ex_control = ex_term\<lparr>Type := TypePromptSubmit\<rparr>"

section \<open>Lemmas\<close>

interpretation chan: bounded_fifo chan_put chan_take chBuf chCap
  by unfold_locales (auto simp: chan_put_def chan_take_def)

lemma session_ok_peer:
  "session_ok s \<Longrightarrow> map_of (rsPeers s) p = Some c \<Longrightarrow> c < length (rsChans s) \<and> \<not> chClosed (rsChans s ! c)"
  by (fastforce simp: session_ok_def dest: map_of_SomeD)

lemma session_ok_inj:
  assumes "session_ok s" "map_of (rsPeers s) p = Some c" "map_of (rsPeers s) q = Some c"
  shows "p = q"
proof -
  have "inj_on snd (set (rsPeers s))" using assms(1) by (simp add: session_ok_def distinct_map)
  from inj_onD [OF this _ map_of_SomeD [OF assms(2)] map_of_SomeD [OF assms(3)]] show ?thesis by simp
qed

lemma session_ok_intro:
  assumes "wf_map (rsPeers s)"
    "\<And>p c. map_of (rsPeers s) p = Some c \<Longrightarrow> c < length (rsChans s) \<and> \<not> chClosed (rsChans s ! c)"
    "\<And>p q c. map_of (rsPeers s) p = Some c \<Longrightarrow> map_of (rsPeers s) q = Some c \<Longrightarrow> p = q"
    "\<And>c. c < length (rsChans s) \<Longrightarrow>
       length (chBuf (rsChans s ! c)) \<le> chCap (rsChans s ! c) \<and> chCap (rsChans s ! c) = rsQueueSize s"
    "\<And>p n. map_of (rsDroppedTerm s) p = Some n \<Longrightarrow> 0 \<le> n" "wf_map (rsDroppedTerm s)" "0 < rsQueueSize s"
  shows "session_ok s"
proof -
  have "distinct (map snd (rsPeers s))"
  proof -
    have "inj_on snd (set (rsPeers s))"
      using assms(1,3) by (auto intro!: inj_onI simp: set_map_iff)
    moreover have "distinct (rsPeers s)"
      using assms(1) by (simp add: wf_map_def map_keys_def distinct_map)
    ultimately show ?thesis by (simp add: distinct_map)
  qed
  moreover have "\<forall>ch \<in> set (rsChans s). length (chBuf ch) \<le> chCap ch \<and> chCap ch = rsQueueSize s"
    using assms(4) by (metis in_set_conv_nth)
  moreover have "\<forall>(p, c) \<in> set (rsPeers s). c < length (rsChans s) \<and> \<not> chClosed (rsChans s ! c)"
    using assms(1,2) by (auto simp: set_map_iff)
  moreover have "\<forall>(p, n) \<in> set (rsDroppedTerm s). 0 \<le> n"
    using assms(5,6) by (auto simp: set_map_iff)
  ultimately show ?thesis unfolding session_ok_def using assms(1,6,7) by blast
qed

lemma session_ok_chan:
  "session_ok s \<Longrightarrow> c < length (rsChans s) \<Longrightarrow>
   length (chBuf (rsChans s ! c)) \<le> chCap (rsChans s ! c) \<and> chCap (rsChans s ! c) = rsQueueSize s"
  unfolding session_ok_def by (meson nth_mem)

lemma session_ok_counter: "session_ok s \<Longrightarrow> 0 \<le> currentDropCounter p s"
  by (auto simp: session_ok_def currentDropCounter_def split: option.split dest: map_of_SomeD)

text \<open>Replacing the content of an open channel keeps the invariant.\<close>

lemma session_ok_set_chan:
  assumes "session_ok s" "c < length (rsChans s)" "\<not> chClosed (rsChans s ! c)"
    "length (chBuf ch) \<le> chCap ch" "chCap ch = rsQueueSize s" "\<not> chClosed ch"
  shows "session_ok (s\<lparr>rsChans := (rsChans s)[c := ch]\<rparr>)"
proof (rule session_ok_intro)
  fix p c'
  assume "map_of (rsPeers (s\<lparr>rsChans := (rsChans s)[c := ch]\<rparr>)) p = Some c'"
  with session_ok_peer [OF assms(1), of p c'] assms show "c' < length (rsChans (s\<lparr>rsChans := (rsChans s)[c := ch]\<rparr>)) \<and>
      \<not> chClosed (rsChans (s\<lparr>rsChans := (rsChans s)[c := ch]\<rparr>) ! c')"
    by (auto simp: nth_list_update)
next
  fix p q c'
  assume "map_of (rsPeers (s\<lparr>rsChans := (rsChans s)[c := ch]\<rparr>)) p = Some c'"
    "map_of (rsPeers (s\<lparr>rsChans := (rsChans s)[c := ch]\<rparr>)) q = Some c'"
  with session_ok_inj [OF assms(1)] show "p = q" by simp
next
  fix c'
  assume "c' < length (rsChans (s\<lparr>rsChans := (rsChans s)[c := ch]\<rparr>))"
  with session_ok_chan [OF assms(1), of c'] assms(4,5)
  show "length (chBuf (rsChans (s\<lparr>rsChans := (rsChans s)[c := ch]\<rparr>) ! c')) \<le> chCap (rsChans (s\<lparr>rsChans := (rsChans s)[c := ch]\<rparr>) ! c') \<and>
    chCap (rsChans (s\<lparr>rsChans := (rsChans s)[c := ch]\<rparr>) ! c') = rsQueueSize (s\<lparr>rsChans := (rsChans s)[c := ch]\<rparr>)"
    by (cases "c' = c") simp_all
qed (use assms in \<open>auto simp: session_ok_def dest: map_of_SomeD\<close>)

text \<open>A send to a registered peer of a well-formed session.\<close>

lemma try_send_peer:
  assumes "session_ok s" "map_of (rsPeers s) p = Some c"
  obtains sent s' where "try_send c env s = Some (sent, s')" "session_ok s'"
    "rsPeers s' = rsPeers s" "rsDroppedTerm s' = rsDroppedTerm s" "rsQueueSize s' = rsQueueSize s"
    "sent \<longleftrightarrow> length (chBuf (rsChans s ! c)) < rsQueueSize s"
    "chBuf (rsChans s' ! c) = chBuf (rsChans s ! c) @ (if sent then [env] else [])"
proof -
  have c: "c < length (rsChans s)" "\<not> chClosed (rsChans s ! c)"
    using session_ok_peer [OF assms] by simp_all
  note b = session_ok_chan [OF assms(1) c(1)]
  let ?r = "chan_put env (rsChans s ! c)"
  have "\<not> chClosed (snd ?r)" using c by (simp add: chan_put_def)
  moreover have "length (chBuf (snd ?r)) \<le> chCap (snd ?r)" using chan.put_bound b by blast
  ultimately have ok: "session_ok (s\<lparr>rsChans := (rsChans s)[c := snd ?r]\<rparr>)"
    using b c assms(1) by (intro session_ok_set_chan) (auto simp: chan.put_cap)
  have e: "try_send c env s = Some (fst ?r, s\<lparr>rsChans := (rsChans s)[c := snd ?r]\<rparr>)"
    using c by (simp add: try_send_def case_prod_beta)
  show thesis
    by (rule that [OF e ok]) (use c b chan.put_taken chan.put_content in simp_all)
qed

lemma receive_peer:
  assumes "session_ok s" "map_of (rsPeers s) p = Some c"
  shows "session_ok (snd (receive c n s))" "rsPeers (snd (receive c n s)) = rsPeers s"
    "rsDroppedTerm (snd (receive c n s)) = rsDroppedTerm s" "rsQueueSize (snd (receive c n s)) = rsQueueSize s"
    "fst (receive c n s) = take n (chBuf (rsChans s ! c))"
    "chBuf (rsChans (snd (receive c n s)) ! c) = drop n (chBuf (rsChans s ! c))"
proof -
  have c: "c < length (rsChans s)" "\<not> chClosed (rsChans s ! c)"
    using session_ok_peer [OF assms] by simp_all
  note b = session_ok_chan [OF assms(1) c(1)]
  have "session_ok (s\<lparr>rsChans := (rsChans s)[c := snd (chan_take n (rsChans s ! c))]\<rparr>)"
    using b c assms(1) by (intro session_ok_set_chan) (auto simp: chan_take_def)
  then show "session_ok (snd (receive c n s))" using c by (simp add: receive_def case_prod_beta)
  show "rsPeers (snd (receive c n s)) = rsPeers s"
    "rsDroppedTerm (snd (receive c n s)) = rsDroppedTerm s" "rsQueueSize (snd (receive c n s)) = rsQueueSize s"
    "fst (receive c n s) = take n (chBuf (rsChans s ! c))"
    "chBuf (rsChans (snd (receive c n s)) ! c) = drop n (chBuf (rsChans s ! c))"
    using c by (simp_all add: receive_def case_prod_beta chan_take_def)
qed

lemma try_send_frame: "try_send c e s = Some (b, s1) \<Longrightarrow> d \<noteq> c \<Longrightarrow> rsChans s1 ! d = rsChans s ! d"
  by (auto simp: try_send_def case_prod_beta Let_def split: if_splits)

lemma receive_frame: "d \<noteq> c \<Longrightarrow> rsChans (snd (receive c n s)) ! d = rsChans s ! d"
  by (simp add: receive_def case_prod_beta)

lemma session_ok_counters:
  "session_ok s \<Longrightarrow> session_ok (resetDropCounter p s)"
  "session_ok s \<Longrightarrow> session_ok (incrementDropCounter p s)"
proof -
  assume s: "session_ok s"
  have upd: "session_ok (s\<lparr>rsDroppedTerm := AList.update p n (rsDroppedTerm s)\<rparr>)" if "0 \<le> n" for n
  proof (rule session_ok_intro)
    fix q m assume "map_of (rsDroppedTerm (s\<lparr>rsDroppedTerm := AList.update p n (rsDroppedTerm s)\<rparr>)) q = Some m"
    then show "0 \<le> m" using s that
      by (auto simp: go_map session_ok_def split: if_splits dest: map_of_SomeD)
  next
    fix q r c assume "map_of (rsPeers (s\<lparr>rsDroppedTerm := AList.update p n (rsDroppedTerm s)\<rparr>)) q = Some c"
      "map_of (rsPeers (s\<lparr>rsDroppedTerm := AList.update p n (rsDroppedTerm s)\<rparr>)) r = Some c"
    then show "q = r" using session_ok_inj [OF s] by simp
  qed (use s session_ok_peer [OF s] session_ok_chan [OF s] in \<open>auto simp: session_ok_def\<close>)
  show "session_ok (resetDropCounter p s)" unfolding resetDropCounter_def by (rule upd) simp
  show "session_ok (incrementDropCounter p s)" unfolding incrementDropCounter_def
    by (rule upd) (use session_ok_counter [OF s] in simp)
qed

lemma counter_simps [simp]:
  "currentDropCounter p (resetDropCounter p s) = 0"
  "currentDropCounter p (incrementDropCounter p s) = currentDropCounter p s + 1"
  "rsPeers (resetDropCounter p s) = rsPeers s" "rsPeers (incrementDropCounter p s) = rsPeers s"
  "rsChans (resetDropCounter p s) = rsChans s" "rsChans (incrementDropCounter p s) = rsChans s"
  "rsQueueSize (resetDropCounter p s) = rsQueueSize s" "rsQueueSize (incrementDropCounter p s) = rsQueueSize s"
  by (simp_all add: currentDropCounter_def resetDropCounter_def incrementDropCounter_def go_map)


lemma lines_simps [simp]: "lines [] = 0" "lines (e # es) = term_lines e + lines es"
  "lines (es @ fs) = lines es + lines fs"
  by (simp_all add: lines_def)




lemma route_control:
  assumes "session_ok s" "map_of (rsPeers s) p = Some c" "Type env \<noteq> TypeTerm"
  obtains err s' where "routeToPeer now n p env s = Some (err, s')" "session_ok s'"
    "rsPeers s' = rsPeers s" "rsQueueSize s' = rsQueueSize s"
    "drained_by n p env s @ buffer_of p s' = buffer_of p s @ (if err = None then [env] else [])"
    "currentDropCounter p s' = currentDropCounter p s"
    "\<And>d. d \<noteq> c \<Longrightarrow> rsChans s' ! d = rsChans s ! d"
proof -
  have cl: "length (chBuf (rsChans s ! c)) \<le> rsQueueSize s"
    using session_ok_peer [OF assms(1,2)] session_ok_chan [OF assms(1), of c] by simp
  obtain sent s1 where t: "try_send c env s = Some (sent, s1)" "session_ok s1"
    "rsPeers s1 = rsPeers s" "rsDroppedTerm s1 = rsDroppedTerm s" "rsQueueSize s1 = rsQueueSize s"
    "sent \<longleftrightarrow> length (chBuf (rsChans s ! c)) < rsQueueSize s"
    "chBuf (rsChans s1 ! c) = chBuf (rsChans s ! c) @ (if sent then [env] else [])"
    by (rule try_send_peer [OF assms(1,2), of env])
  show thesis
  proof (cases sent)
    case True
    show thesis
      by (rule that [of None s1])
        (use True t try_send_frame [OF t(1)] assms in \<open>simp_all add: routeToPeer_def drained_by_def buffer_of_def currentDropCounter_def\<close>)
  next
    case False
    have m1: "map_of (rsPeers s1) p = Some c" using t assms by simp
    note r = receive_peer [OF t(2) m1, of n]
    have m2: "map_of (rsPeers (snd (receive c n s1))) p = Some c" using r m1 by simp
    obtain sent2 s2 where u: "try_send c env (snd (receive c n s1)) = Some (sent2, s2)" "session_ok s2"
      "rsPeers s2 = rsPeers (snd (receive c n s1))" "rsDroppedTerm s2 = rsDroppedTerm (snd (receive c n s1))"
      "rsQueueSize s2 = rsQueueSize (snd (receive c n s1))"
      "chBuf (rsChans s2 ! c) = chBuf (rsChans (snd (receive c n s1)) ! c) @ (if sent2 then [env] else [])"
      by (rule try_send_peer [OF r(1) m2, of env]) blast
    show thesis
      by (rule that [of "if sent2 then None else Some (ErrNew (''control packet timeout for target='' @ p))" s2])
        (use False t u r assms cl try_send_frame [OF t(1)] try_send_frame [OF u(1)] receive_frame in \<open>auto simp: routeToPeer_def drained_by_def buffer_of_def currentDropCounter_def\<close>)
  qed
qed





subsection \<open>No panic\<close>

lemma tryEmit_ok:
  assumes "session_ok s" "map_of (rsPeers s) p = Some c"
  obtains s' where "tryEmitTermSummary now c env p s = Some s'" "session_ok s'" "rsPeers s' = rsPeers s"
    "rsQueueSize s' = rsQueueSize s" "\<And>d. d \<noteq> c \<Longrightarrow> rsChans s' ! d = rsChans s ! d"
proof -
  have ch: "rsChans s1 ! d = rsChans s ! d" if "try_send c e s = Some (b, s1)" "d \<noteq> c" for e b s1 d
    using that by (auto simp: try_send_def case_prod_beta Let_def split: if_splits)
  show thesis
  proof (cases "currentDropCounter p s = 0")
    case True
    then show thesis using that [of s] assms by (simp add: tryEmitTermSummary_def)
  next
    case False
    show thesis
    proof (cases "NewEnvelope now (SID env) (RID env @ ''_term_summary'') (Seq env) TypeTermSummary
              (Inr (TermSummaryPayload_json \<lparr>tsSkippedLines = currentDropCounter p s\<rparr>))")
      case (Inl err)
      then show thesis using that [of s] assms False by (simp add: tryEmitTermSummary_def)
    next
      case (Inr summary)
      obtain sent s1 where t: "try_send c summary s = Some (sent, s1)" "session_ok s1"
        "rsPeers s1 = rsPeers s" "rsDroppedTerm s1 = rsDroppedTerm s" "rsQueueSize s1 = rsQueueSize s"
        by (rule try_send_peer [OF assms, of summary]) blast
      show thesis
        by (rule that [of "if sent then resetDropCounter p s1 else s1"])
          (use t ch [OF t(1)] False Inr in \<open>auto simp: tryEmitTermSummary_def session_ok_counters\<close>)
    qed
  qed
qed

text \<open>Routing to one peer does not touch the others.\<close>

lemma routeToPeer_ok:
  assumes "session_ok s"
  obtains err s' where "routeToPeer now n p env s = Some (err, s')" "session_ok s'" "rsPeers s' = rsPeers s"
    "rsQueueSize s' = rsQueueSize s" "\<And>q. q \<noteq> p \<Longrightarrow> buffer_of q s' = buffer_of q s"
proof (cases "map_of (rsPeers s) p")
  case None
  then show thesis using that [of None s] assms by (simp add: routeToPeer_def)
next
  case (Some c)
  have other: "buffer_of q s' = buffer_of q s"
    if "rsPeers s' = rsPeers s" "\<And>d. d \<noteq> c \<Longrightarrow> rsChans s' ! d = rsChans s ! d" "q \<noteq> p" for q s'
  proof (cases "map_of (rsPeers s) q")
    case (Some d)
    then have "d \<noteq> c" using session_ok_inj [OF assms \<open>map_of (rsPeers s) p = Some c\<close>, of q] that(3) by auto
    with that Some show ?thesis by (simp add: buffer_of_def)
  qed (use that in \<open>simp add: buffer_of_def\<close>)
  show thesis
  proof (cases "Type env = TypeTerm")
    case True
    obtain s1 where e: "tryEmitTermSummary now c env p s = Some s1" "session_ok s1" "rsPeers s1 = rsPeers s"
      "rsQueueSize s1 = rsQueueSize s" "\<And>d. d \<noteq> c \<Longrightarrow> rsChans s1 ! d = rsChans s ! d"
      by (rule tryEmit_ok [OF assms Some, of now env]) blast
    have m1: "map_of (rsPeers s1) p = Some c" using e Some by simp
    obtain sent s2 where t: "try_send c env s1 = Some (sent, s2)" "session_ok s2"
      "rsPeers s2 = rsPeers s1" "rsQueueSize s2 = rsQueueSize s1"
      by (rule try_send_peer [OF e(2) m1, of env]) blast
    let ?s = "if sent then s2 else incrementDropCounter p s2"
    have q: "buffer_of q ?s = buffer_of q s" if "q \<noteq> p" for q
      by (rule other) (use e t try_send_frame [OF t(1)] that in auto)
    show thesis
      by (rule that [of None ?s, OF _ _ _ _ q])
        (use True Some e t in \<open>auto simp: routeToPeer_def session_ok_counters\<close>)
  next
    case False
    obtain err s' where r: "routeToPeer now n p env s = Some (err, s')" "session_ok s'"
      "rsPeers s' = rsPeers s" "rsQueueSize s' = rsQueueSize s"
      "\<And>d. d \<noteq> c \<Longrightarrow> rsChans s' ! d = rsChans s ! d"
      by (rule route_control [OF assms Some False, of now n]) blast
    show thesis by (rule that [OF r(1-4) other [OF r(3,5)]])
  qed
qed

lemma Route_loop_ok:
  assumes "session_ok s"
  obtains err s' where "Route_loop now drained ts env s = Some (err, s')" "session_ok s'"
    "rsPeers s' = rsPeers s" "rsQueueSize s' = rsQueueSize s" "\<And>q. q \<notin> set ts \<Longrightarrow> buffer_of q s' = buffer_of q s"
  using assms
proof (induction ts arbitrary: s thesis)
  case (Cons p ts)
  obtain err s1 where r: "routeToPeer now (drained p) p env s = Some (err, s1)" "session_ok s1"
    "rsPeers s1 = rsPeers s" "rsQueueSize s1 = rsQueueSize s" "\<And>q. q \<noteq> p \<Longrightarrow> buffer_of q s1 = buffer_of q s"
    by (rule routeToPeer_ok [OF Cons.prems(2)]) blast
  show ?case
  proof (cases err)
    case (Some e)
    then show ?thesis using r by (intro Cons.prems(1) [of err s1]) auto
  next
    case None
    obtain err' s2 where "Route_loop now drained ts env s1 = Some (err', s2)" "session_ok s2"
      "rsPeers s2 = rsPeers s1" "rsQueueSize s2 = rsQueueSize s1" "\<And>q. q \<notin> set ts \<Longrightarrow> buffer_of q s2 = buffer_of q s1"
      by (rule Cons.IH [OF _ r(2)]) blast
    then show ?thesis using None r by (intro Cons.prems(1) [of err' s2]) auto
  qed
qed auto


lemma close_peer_ok:
  assumes "session_ok s" "map_of (rsPeers s) p = Some c" "wf_map m"
    and "\<And>q d. map_of m q = Some d \<Longrightarrow> map_of (rsPeers s) q = Some d \<and> d \<noteq> c"
    and "\<And>q n. map_of dr q = Some n \<Longrightarrow> 0 \<le> n" "wf_map dr"
  shows "\<exists>s'. close_chan c (s\<lparr>rsPeers := m, rsDroppedTerm := dr\<rparr>) = Some s' \<and> session_ok s' \<and> rsPeers s' = m \<and>
    rsQueueSize s' = rsQueueSize s \<and> length (rsChans s') = length (rsChans s) \<and>
    (\<forall>d. d \<noteq> c \<longrightarrow> rsChans s' ! d = rsChans s ! d) \<and> rsDroppedTerm s' = dr"
proof -
  have c: "c < length (rsChans s)" "\<not> chClosed (rsChans s ! c)" using session_ok_peer [OF assms(1,2)] by simp_all
  let ?s = "s\<lparr>rsPeers := m, rsDroppedTerm := dr, rsChans := (rsChans s)[c := (rsChans s ! c)\<lparr>chClosed := True\<rparr>]\<rparr>"
  have "session_ok ?s"
  proof (rule session_ok_intro)
    fix q d assume "map_of (rsPeers ?s) q = Some d"
    with assms(4) [of q d] session_ok_peer [OF assms(1), of q d]
    show "d < length (rsChans ?s) \<and> \<not> chClosed (rsChans ?s ! d)" by simp
  next
    fix q r d assume "map_of (rsPeers ?s) q = Some d" "map_of (rsPeers ?s) r = Some d"
    with assms(4) [of q d] assms(4) [of r d] session_ok_inj [OF assms(1), of q d r] show "q = r" by simp
  next
    fix d assume "d < length (rsChans ?s)"
    then show "length (chBuf (rsChans ?s ! d)) \<le> chCap (rsChans ?s ! d) \<and> chCap (rsChans ?s ! d) = rsQueueSize ?s"
      using session_ok_chan [OF assms(1), of d] c by (cases "d = c") simp_all
  qed (use assms in \<open>auto simp: session_ok_def\<close>)
  with c show ?thesis by (simp add: close_chan_def)
qed

lemma Unregister_ok:
  assumes "session_ok s"
  shows "\<exists>s'. Session_Unregister p s = Some s' \<and> session_ok s' \<and> map_of (rsPeers s') p = None \<and>
    (\<forall>q. q \<noteq> p \<longrightarrow> map_of (rsPeers s') q = map_of (rsPeers s) q)"
proof (cases "map_of (rsPeers s) p")
  case None
  with assms show ?thesis by (auto simp: Session_Unregister_def)
next
  case (Some c)
  have "\<exists>s'. close_chan c (s\<lparr>rsPeers := AList.delete p (rsPeers s), rsDroppedTerm := AList.delete p (rsDroppedTerm s)\<rparr>) = Some s' \<and>
      session_ok s' \<and> rsPeers s' = AList.delete p (rsPeers s) \<and>
      rsQueueSize s' = rsQueueSize s \<and> length (rsChans s') = length (rsChans s) \<and>
      (\<forall>d. d \<noteq> c \<longrightarrow> rsChans s' ! d = rsChans s ! d) \<and> rsDroppedTerm s' = AList.delete p (rsDroppedTerm s)"
    by (rule close_peer_ok [OF assms Some])
      (use assms session_ok_inj [OF assms Some] in
        \<open>auto simp: session_ok_def go_map split: if_splits dest: map_of_SomeD\<close>)
  with Some show ?thesis by (auto simp: Session_Unregister_def go_map)
qed

lemma Register_ok:
  assumes "session_ok s"
  shows "\<exists>ch s'. Session_Register p s = Some (ch, s') \<and> session_ok s' \<and>
    map_of (rsPeers s') p = Some ch \<and> buffer_of p s' = [] \<and> rsQueueSize s' = rsQueueSize s \<and>
    (\<forall>q. q \<noteq> p \<longrightarrow> map_of (rsPeers s') q = map_of (rsPeers s) q \<and> buffer_of q s' = buffer_of q s)"
proof -
  let ?ch = "length (rsChans s)"
  let ?new = "\<lparr>chBuf = [], chCap = rsQueueSize s, chClosed = False\<rparr>"
  define cs where "cs = (case map_of (rsPeers s) p of None \<Rightarrow> rsChans s @ [?new]
     | Some c \<Rightarrow> (rsChans s @ [?new])[c := (rsChans s ! c)\<lparr>chClosed := True\<rparr>])"
  let ?s = "s\<lparr>rsChans := cs, rsPeers := AList.update p ?ch (rsPeers s)\<rparr>"
  have old: "c < ?ch \<and> \<not> chClosed (rsChans s ! c)" if "map_of (rsPeers s) q = Some c" for q c
    using session_ok_peer [OF assms that] .
  have r: "Session_Register p s = Some (?ch, ?s)"
    using old [of p] by (auto simp: Session_Register_def make_chan_def close_chan_def cs_def nth_append split: option.split)
  have new: "cs ! ?ch = ?new" "length cs = Suc ?ch"
    using old [of p] by (auto simp: cs_def nth_append split: option.split)
  have keep: "cs ! d = rsChans s ! d" if "map_of (rsPeers s) q = Some d" "q \<noteq> p" for q d
  proof (cases "map_of (rsPeers s) p")
    case (Some c)
    then have "d \<noteq> c" using session_ok_inj [OF assms, of q d p] that by auto
    with Some old [OF that(1)] show ?thesis by (simp add: cs_def nth_append)
  qed (use old [OF that(1)] in \<open>simp add: cs_def nth_append\<close>)
  have "session_ok ?s"
  proof (rule session_ok_intro)
    fix q d assume "map_of (rsPeers ?s) q = Some d"
    with keep [of q d] old [of q d] new show "d < length (rsChans ?s) \<and> \<not> chClosed (rsChans ?s ! d)"
      by (auto simp: go_map split: if_splits)
  next
    fix q r d assume "map_of (rsPeers ?s) q = Some d" "map_of (rsPeers ?s) r = Some d"
    with session_ok_inj [OF assms, of q d r] old [of q d] old [of r d] show "q = r"
      by (auto simp: go_map split: if_splits)
  next
    fix d assume d: "d < length (rsChans ?s)"
    have "cs ! d = ?new \<or> d < ?ch \<and> chBuf (cs ! d) = chBuf (rsChans s ! d) \<and> chCap (cs ! d) = chCap (rsChans s ! d)"
      using d new old [of p] by (cases "d = ?ch") (auto simp: cs_def nth_append nth_list_update split: option.splits)
    then show "length (chBuf (rsChans ?s ! d)) \<le> chCap (rsChans ?s ! d) \<and> chCap (rsChans ?s ! d) = rsQueueSize ?s"
      using session_ok_chan [OF assms, of d] by auto
  qed (use assms in \<open>auto simp: session_ok_def dest: map_of_SomeD\<close>)
  moreover have "buffer_of q ?s = buffer_of q s" if "q \<noteq> p" for q
    using keep [of q] that by (auto simp: buffer_of_def go_map split: option.split)
  ultimately show ?thesis using r new by (auto simp: go_map buffer_of_def)
qed


lemma Route_loop_control:
  assumes "session_ok s" "Type env \<noteq> TypeTerm" "distinct ts"
    "Route_loop now drained ts env s = Some (None, s')" "q \<in> set ts" "map_of (rsPeers s) q \<noteq> None"
  shows "drained_by (drained q) q env s @ buffer_of q s' = buffer_of q s @ [env]"
  using assms
proof (induction ts arbitrary: s)
  case (Cons p ts)
  obtain err s1 where r: "routeToPeer now (drained p) p env s = Some (err, s1)" "session_ok s1"
    "rsPeers s1 = rsPeers s" "rsQueueSize s1 = rsQueueSize s" "\<And>q. q \<noteq> p \<Longrightarrow> buffer_of q s1 = buffer_of q s"
    by (rule routeToPeer_ok [OF Cons.prems(1)]) blast
  with Cons.prems(4) have err: "err = None" and l: "Route_loop now drained ts env s1 = Some (None, s')"
    by (cases err; simp)+
  show ?case
  proof (cases "q = p")
    case True
    obtain c where c: "map_of (rsPeers s) p = Some c" using Cons.prems(6) True by auto
    obtain err' s2 where e: "routeToPeer now (drained p) p env s = Some (err', s2)"
      "drained_by (drained p) p env s @ buffer_of p s2 = buffer_of p s @ (if err' = None then [env] else [])"
      by (rule route_control [OF Cons.prems(1) c Cons.prems(2)]) blast
    obtain err3 s3 where "Route_loop now drained ts env s1 = Some (err3, s3)"
      "\<And>q. q \<notin> set ts \<Longrightarrow> buffer_of q s3 = buffer_of q s1"
      by (rule Route_loop_ok [OF r(2)]) blast
    with l Cons.prems(3) True have "buffer_of q s' = buffer_of q s1" by simp
    with e r err True show ?thesis by simp
  next
    case False
    have "drained_by (drained q) q env s1 @ buffer_of q s' = buffer_of q s1 @ [env]"
      by (rule Cons.IH [OF r(2) Cons.prems(2) _ l]) (use Cons.prems False r in auto)
    moreover have bq: "buffer_of q s1 = buffer_of q s" using r(5) False by blast
    moreover have "drained_by (drained q) q env s1 = drained_by (drained q) q env s"
      unfolding drained_by_def bq r(4) by (rule refl)
    ultimately show ?thesis by simp
  qed
qed simp

text \<open>A request for the socket of a session is accepted for that session and the trimmed peer name.\<close>

lemma relay_request_path:
  assumes "sid \<noteq> []" "CHR ''/'' \<notin> set sid" "strings_TrimSpace peer \<noteq> []"
  shows "handleRelayWS_request (''/v1/relay/'' @ sid @ ''/ws'') peer = Inr (sid, strings_TrimSpace peer)"
proof -
  have "path_segments (CHR ''/'' # strings_Join (''v1'' # [''relay'', sid] @ [''ws'']) ''/'')
      = ''v1'' # [''relay'', sid] @ [''ws'']"
    by (rule path_segments_build) (use assms in auto)
  moreover have "strings_HasSuffix (''/v1/relay/'' @ sid @ ''/ws'') ''/ws''"
    unfolding HasSuffix_iff by (metis append.assoc)
  ultimately show ?thesis using assms by (simp add: handleRelayWS_request_def)
qed

subsection \<open>Connections\<close>

text \<open>
  \<open>readLoop\<close> unregisters its peer by name when it ends, also when the connection was replaced by
  a newer one of the same peer: the newer connection then has no queue any more.
\<close>

lemma old_connection_unregisters_new:
  assumes "session_ok s" "Session_Register p s = Some (ch1, s1)" "Session_Register p s1 = Some (ch2, s2)"
  shows "\<exists>s3. Session_Unregister p s2 = Some s3 \<and> map_of (rsPeers s3) p = None"
  using Register_ok [OF assms(1), of p] Register_ok [of s1 p] Unregister_ok [of s2 p] assms by auto

text \<open>
  \<open>routeToPeer\<close> releases the lock between looking up the channel and sending. When the target
  disconnects in between, the send is on a closed channel: a panic.
\<close>

lemma send_after_unregister_panics:
  assumes "session_ok s" "map_of (rsPeers s) p = Some ch" "Session_Unregister p s = Some s'"
  shows "try_send ch env s' = None"
proof -
  have "ch < length (rsChans s) \<and> \<not> chClosed (rsChans s ! ch)" by (rule session_ok_peer [OF assms(1,2)])
  with assms(2,3) show ?thesis by (auto simp: Session_Unregister_def close_chan_def try_send_def)
qed

text \<open>
  \<open>handleRelayWS\<close> fetches the session and registers in two steps. When the last other peer leaves
  in between, the hub forgets the session and the next peer is put into another one: two
  peers of one session id that do not reach each other.
\<close>

lemma register_after_removal_splits_session:
  assumes "map_of (hubSessions h) sid = Some r" "r < length (hubHeap h)" "Session_PeerCount (hubHeap h ! r) = 0"
  shows "fst (Hub_GetOrCreate sid h) = r \<and> fst (Hub_GetOrCreate sid (Hub_RemoveIfEmpty sid h)) \<noteq> r"
  using assms by (simp add: Hub_GetOrCreate_def Hub_RemoveIfEmpty_def go_map)

section \<open>Properties\<close>

text \<open>
  A session in which every registered peer has an open channel of its own never panics:
  registering (also over an older connection of the same peer), unregistering and routing
  all succeed, keep the invariant and do not touch the queues of the other peers.
\<close>
theorem relay_session_never_panics:
  assumes "session_ok s"
  shows "(\<exists>ch s'. Session_Register p s = Some (ch, s') \<and> session_ok s' \<and>
      map_of (rsPeers s') p = Some ch \<and> buffer_of p s' = [] \<and>
      (\<forall>q. q \<noteq> p \<longrightarrow> buffer_of q s' = buffer_of q s)) \<and>
    (\<exists>s'. Session_Unregister p s = Some s' \<and> session_ok s' \<and> map_of (rsPeers s') p = None) \<and>
    (\<exists>err s'. Session_Route now drained order p env s = Some (err, s') \<and> session_ok s' \<and>
      buffer_of p s' = buffer_of p s)"
proof (intro conjI)
  show "\<exists>err s'. Session_Route now drained order p env s = Some (err, s') \<and> session_ok s' \<and>
      buffer_of p s' = buffer_of p s"
    unfolding Session_Route_def
    by (rule Route_loop_ok [OF assms, of now drained "filter (\<lambda>peer. peer \<noteq> p) order" env]) auto
qed (use Register_ok [OF assms, of p] Unregister_ok [OF assms, of p] in blast)+


text \<open>
  A control packet that is routed without an error is queued for every other peer of the
  session, after what was queued before, and never echoed to its sender.
\<close>
theorem control_reaches_all_peers:
  assumes "session_ok s" "range_order order (rsPeers s)" "Type env \<noteq> TypeTerm"
    and "Session_Route now drained order from env s = Some (None, s')" "map_of (rsPeers s) q \<noteq> None"
  shows "if q = from then buffer_of q s' = buffer_of q s
    else drained_by (drained q) q env s @ buffer_of q s' = buffer_of q s @ [env]"
proof (cases "q = from")
  case True
  obtain err s1 where "Route_loop now drained (filter (\<lambda>peer. peer \<noteq> from) order) env s = Some (err, s1)"
    "\<And>q. q \<notin> set (filter (\<lambda>peer. peer \<noteq> from) order) \<Longrightarrow> buffer_of q s1 = buffer_of q s"
    by (rule Route_loop_ok [OF assms(1)]) blast
  with assms(4) True show ?thesis by (simp add: Session_Route_def)
next
  case False
  have "q \<in> set (filter (\<lambda>peer. peer \<noteq> from) order)" "distinct (filter (\<lambda>peer. peer \<noteq> from) order)"
    using False assms(2,5) range_order_iff [OF assms(2), of q] by (auto simp: range_order_def)
  from Route_loop_control [OF assms(1,3) this(2) _ this(1) assms(5)] assms(4) False show ?thesis
    by (simp add: Session_Route_def)
qed

text \<open>
  What a peer's socket receives is what was accepted into its queue, in the same order
  and without gaps: in every run of a channel the values taken are a prefix of the values
  accepted, and the queue never exceeds its capacity.
\<close>
theorem relay_channel_fifo:
  assumes "fifo_run chan_put chan_take ops ch = (accepted, received, ch')" "length (chBuf ch) \<le> chCap ch"
  shows "chBuf ch @ accepted = received @ chBuf ch' \<and> length (chBuf ch') \<le> chCap ch"
  using chan.run_fifo [OF assms(1)] chan.run_bound [OF assms] by simp

section \<open>Witnesses\<close>

theorem relay_session_never_panics_witness:
  "\<exists>err s'. Session_Route 0 (\<lambda>q. 0) [''pc'', ''mobile''] ''mobile'' ex_control ex_session = Some (err, s') \<and> session_ok s'"
proof -
  have "session_ok ex_session" by code_simp
  from relay_session_never_panics [OF this] show ?thesis by blast
qed


theorem control_reaches_all_peers_witness:
  "case Session_Route 0 (\<lambda>q. 0) [''pc'', ''mobile''] ''mobile'' ex_control ex_session of
     Some (None, s') \<Rightarrow> buffer_of ''pc'' s' = buffer_of ''pc'' ex_session @ [ex_control] | _ \<Rightarrow> False"
proof -
  have 1: "session_ok ex_session" "range_order [''pc'', ''mobile''] (rsPeers ex_session)" "Type ex_control \<noteq> TypeTerm"
    "map_of (rsPeers ex_session) ''pc'' \<noteq> None" "drained_by 0 ''pc'' ex_control ex_session = []"
    by code_simp+
  have "case Session_Route 0 (\<lambda>q. 0) [''pc'', ''mobile''] ''mobile'' ex_control ex_session of
     Some (None, s') \<Rightarrow> True | _ \<Rightarrow> False" by code_simp
  then obtain s' where 2: "Session_Route 0 (\<lambda>q. 0) [''pc'', ''mobile''] ''mobile'' ex_control ex_session = Some (None, s')"
    by (auto split: option.splits)
  from control_reaches_all_peers [OF 1(1-3) 2 1(4)] 1(5) 2 show ?thesis by simp
qed

theorem relay_channel_fifo_witness:
  "let (acc, rec, ch) = fifo_run chan_put chan_take [FPut ex_term, FPut ex_control, FTake 1]
       \<lparr>chBuf = [], chCap = 1, chClosed = False\<rparr>
   in acc = rec @ chBuf ch \<and> acc = [ex_term]"
proof -
  obtain acc rec ch where r: "fifo_run chan_put chan_take [FPut ex_term, FPut ex_control, FTake 1]
       \<lparr>chBuf = [], chCap = 1, chClosed = False\<rparr> = (acc, rec, ch)" by (metis prod_cases3)
  moreover have "fst (fifo_run chan_put chan_take [FPut ex_term, FPut ex_control, FTake 1]
       \<lparr>chBuf = [], chCap = 1, chClosed = False\<rparr>) = [ex_term]" by code_simp
  ultimately show ?thesis using relay_channel_fifo [OF r] by simp
qed

end
