(* ===== verification/Pairing_Store.thy ===== *)
theory Pairing_Store
  imports Go_Prelude
begin

text \<open>
  \<open>internal/signaling/types.go\<close> and \<open>internal/signaling/store.go\<close>: pairings of a PC with a mobile
  device. A pairing is shared by pointer between the table by code and the table by session,
  so the pairings live in a heap (\<open>psHeap\<close>) and the tables hold indices. The random bytes that
  \<open>crypto/rand\<close> returns, or its error, are arguments.
\<close>

section \<open>Types (types.go)\<close>

record Pairing =
  pgCode :: string
  pgSessionID :: string
  pgPCDeviceKey :: string
  pgMobileDeviceKey :: string
  pgCreatedAt :: instant
  pgExpiresAt :: instant
  pgClaimed :: bool

type_synonym Role = string
abbreviation RolePC :: Role where "RolePC \<equiv> ''pc''"
abbreviation RoleMobile :: Role where "RoleMobile \<equiv> ''mobile''"

section \<open>The store (store.go)\<close>

definition ErrPairingNotFound :: goerror where "ErrPairingNotFound = ErrSentinel ''pairing not found''"
definition ErrPairingExpired :: goerror where "ErrPairingExpired = ErrSentinel ''pairing expired''"
definition ErrPairingClaimed :: goerror where "ErrPairingClaimed = ErrSentinel ''pairing already claimed''"

record Store =
  psTtl :: duration
  byCode :: "(string, nat) gomap"
  bySession :: "(string, nat) gomap"
  psHeap :: "Pairing list"

definition NewStore :: "duration \<Rightarrow> Store" where
  "NewStore ttl = \<lparr>psTtl = ttl, byCode = [], bySession = [], psHeap = []\<rparr>"

text \<open>
  \<open>base32.StdEncoding\<close> without padding: the bits of the bytes, most significant first, in
  groups of five, the last one filled with zeros.
\<close>

fun byte_bits :: "char \<Rightarrow> bool list" where
  "byte_bits (Char b0 b1 b2 b3 b4 b5 b6 b7) = [b7, b6, b5, b4, b3, b2, b1, b0]"

fun bits_nat :: "nat \<Rightarrow> bool list \<Rightarrow> nat" where
  "bits_nat acc [] = acc"
| "bits_nat acc (b # bs) = bits_nat (2 * acc + (if b then 1 else 0)) bs"

definition base32_alphabet :: string where
  "base32_alphabet = ''ABCDEFGHIJKLMNOPQRSTUVWXYZ234567''"

fun base32_groups :: "bool list \<Rightarrow> string" where
  "base32_groups (a # b # c # d # e # bs) = base32_alphabet ! bits_nat 0 [a, b, c, d, e] # base32_groups bs"
| "base32_groups [a, b, c, d] = [base32_alphabet ! bits_nat 0 [a, b, c, d, False]]"
| "base32_groups [a, b, c] = [base32_alphabet ! bits_nat 0 [a, b, c, False, False]]"
| "base32_groups [a, b] = [base32_alphabet ! bits_nat 0 [a, b, False, False, False]]"
| "base32_groups [a] = [base32_alphabet ! bits_nat 0 [a, False, False, False, False]]"
| "base32_groups [] = []"

definition base32_EncodeToString :: "string \<Rightarrow> string" where
  "base32_EncodeToString buf = base32_groups (concat (map byte_bits buf))"

text \<open>\<open>rnd\<close> is what \<open>rand.Read\<close> delivers: an error, or the bytes of the buffer.\<close>

definition randomToken :: "string result \<Rightarrow> string result" where
  "randomToken rnd = map_result (\<lambda>buf. strings_ToLower (base32_EncodeToString buf)) rnd"

fun evict_loop :: "instant \<Rightarrow> string list \<Rightarrow> Store \<Rightarrow> Store" where
  "evict_loop now [] s = s"
| "evict_loop now (code # codes) s =
     (case map_of (byCode s) code of
        None \<Rightarrow> evict_loop now codes s
      | Some r \<Rightarrow>
          if now > pgExpiresAt (psHeap s ! r)
          then evict_loop now codes (s\<lparr>byCode := AList.delete code (byCode s),
                 bySession := AList.delete (pgSessionID (psHeap s ! r)) (bySession s)\<rparr>)
          else evict_loop now codes s)"

definition evictExpiredLocked :: "instant \<Rightarrow> string list \<Rightarrow> Store \<Rightarrow> Store" where
  "evictExpiredLocked now order s = evict_loop now order s"

definition CreatePairing ::
    "instant \<Rightarrow> string list \<Rightarrow> string result \<Rightarrow> string result \<Rightarrow> string result \<Rightarrow> instant \<Rightarrow> Store \<Rightarrow> Pairing result \<times> Store" where
  "CreatePairing now0 order rndCode rndSession rndKey now s =
     (let s = evictExpiredLocked now0 order s in
      case randomToken rndCode of
        Inl err \<Rightarrow> (Inl (ErrWrap ''generate pairing code: '' err []), s)
      | Inr code \<Rightarrow>
      case randomToken rndSession of
        Inl err \<Rightarrow> (Inl (ErrWrap ''generate session id: '' err []), s)
      | Inr sessionID \<Rightarrow>
      case randomToken rndKey of
        Inl err \<Rightarrow> (Inl (ErrWrap ''generate device key: '' err []), s)
      | Inr pcKey \<Rightarrow>
          let p = \<lparr>pgCode = strings_ToUpper code, pgSessionID = sessionID, pgPCDeviceKey = pcKey,
                   pgMobileDeviceKey = [], pgCreatedAt = now, pgExpiresAt = now + psTtl s,
                   pgClaimed = False\<rparr>;
              r = length (psHeap s)
          in (Inr p, s\<lparr>psHeap := psHeap s @ [p],
                byCode := AList.update (pgCode p) r (byCode s),
                bySession := AList.update (pgSessionID p) r (bySession s)\<rparr>))"

definition ClaimPairing :: "instant \<Rightarrow> string result \<Rightarrow> string \<Rightarrow> Store \<Rightarrow> Pairing result \<times> Store" where
  "ClaimPairing now rnd code s =
     (let normalized = strings_ToUpper (strings_TrimSpace code) in
      case map_of (byCode s) normalized of
        None \<Rightarrow> (Inl ErrPairingNotFound, s)
      | Some r \<Rightarrow>
          let p = psHeap s ! r in
          if now > pgExpiresAt p then
            (Inl ErrPairingExpired,
             s\<lparr>byCode := AList.delete normalized (byCode s),
               bySession := AList.delete (pgSessionID p) (bySession s)\<rparr>)
          else if pgClaimed p then (Inl ErrPairingClaimed, s)
          else case randomToken rnd of
            Inl err \<Rightarrow> (Inl (ErrWrap ''generate mobile key: '' err []), s)
          | Inr mobileKey \<Rightarrow>
              let p = p\<lparr>pgMobileDeviceKey := mobileKey, pgClaimed := True\<rparr>
              in (Inr p, s\<lparr>psHeap := (psHeap s)[r := p]\<rparr>))"

definition ValidateSessionKey :: "instant \<Rightarrow> string \<Rightarrow> string \<Rightarrow> Store \<Rightarrow> Role option" where
  "ValidateSessionKey now sessionID deviceKey s =
     (case map_of (bySession s) sessionID of
        None \<Rightarrow> None
      | Some r \<Rightarrow>
          let p = psHeap s ! r in
          if now > pgExpiresAt p then None
          else if deviceKey = pgPCDeviceKey p then Some RolePC
          else if deviceKey = pgMobileDeviceKey p then Some RoleMobile
          else None)"

section \<open>The invariant\<close>

definition pairing_ok :: "Pairing \<Rightarrow> bool" where
  "pairing_ok p \<longleftrightarrow> pgPCDeviceKey p \<noteq> [] \<and> (pgClaimed p \<longleftrightarrow> pgMobileDeviceKey p \<noteq> [])"

definition store_ok :: "Store \<Rightarrow> bool" where
  "store_ok s \<longleftrightarrow>
     wf_map (byCode s) \<and> wf_map (bySession s) \<and>
     (\<forall>(c, r) \<in> set (byCode s). r < length (psHeap s) \<and> pgCode (psHeap s ! r) = c) \<and>
     (\<forall>(c, r) \<in> set (bySession s). r < length (psHeap s) \<and> pgSessionID (psHeap s ! r) = c) \<and>
     (\<forall>p \<in> set (psHeap s). pairing_ok p)"

text \<open>Random bytes as the callers ask for them: at least one byte.\<close>

definition rnd_ok :: "string result \<Rightarrow> bool" where
  "rnd_ok rnd \<longleftrightarrow> (case rnd of Inl e \<Rightarrow> True | Inr buf \<Rightarrow> buf \<noteq> [])"

inductive store_step :: "Store \<Rightarrow> Store \<Rightarrow> bool" where
  step_Create: "range_order order (byCode s) \<Longrightarrow> rnd_ok r1 \<Longrightarrow> rnd_ok r2 \<Longrightarrow> rnd_ok r3 \<Longrightarrow>
     store_step s (snd (CreatePairing now0 order r1 r2 r3 now s))"
| step_Claim: "rnd_ok rnd \<Longrightarrow> store_step s (snd (ClaimPairing now rnd code s))"

inductive_cases store_stepE: "store_step s s'"

definition store_init :: "Store \<Rightarrow> bool" where
  "store_init s \<longleftrightarrow> (\<exists>ttl. s = NewStore ttl)"

text \<open>The pairing that \<open>CreatePairing\<close> makes when the random source delivers.\<close>

definition new_pairing :: "string \<Rightarrow> string \<Rightarrow> string \<Rightarrow> instant \<Rightarrow> duration \<Rightarrow> Pairing" where
  "new_pairing b1 b2 b3 now ttl =
     \<lparr>pgCode = base32_EncodeToString b1, pgSessionID = strings_ToLower (base32_EncodeToString b2),
      pgPCDeviceKey = strings_ToLower (base32_EncodeToString b3), pgMobileDeviceKey = [],
      pgCreatedAt = now, pgExpiresAt = now + ttl, pgClaimed = False\<rparr>"

section \<open>Lemmas\<close>

subsection \<open>Tokens\<close>

lemma length_byte_bits [simp]: "length (byte_bits c) = 8"
  by (cases c) simp

lemma byte_bits_inj: "byte_bits a = byte_bits b \<Longrightarrow> a = b"
  by (cases a, cases b) (simp only: byte_bits.simps list.inject char.inject)

lemma bits_nat_inj: "length xs = length ys \<Longrightarrow> bits_nat a xs = bits_nat b ys \<Longrightarrow> a = b \<and> xs = ys"
proof (induction xs arbitrary: ys a b)
  case (Cons x xs)
  from Cons.prems(1) obtain y ys' where ys: "ys = y # ys'" by (cases ys) auto
  with Cons.prems have "length xs = length ys'"
    "bits_nat (2 * a + (if x then 1 else 0)) xs = bits_nat (2 * b + (if y then 1 else 0)) ys'" by simp_all
  from Cons.IH [OF this] have "2 * a + (if x then 1 else 0) = 2 * b + (if y then 1 else 0)" "xs = ys'" by simp_all
  moreover from this(1) have "x = y" by (cases x; cases y) (simp_all, presburger+)
  ultimately show ?case using ys by simp
qed simp

lemma bits_nat_bound: "bits_nat a xs < (a + 1) * 2 ^ length xs"
proof (induction xs arbitrary: a)
  case (Cons x xs)
  have "bits_nat a (x # xs) < (2 * a + (if x then 1 else 0) + 1) * 2 ^ length xs" using Cons by simp
  also have "\<dots> \<le> (2 * (a + 1)) * 2 ^ length xs" by (intro mult_right_mono) auto
  finally show ?case by simp
qed simp

lemma base32_alphabet_distinct: "distinct base32_alphabet" "length base32_alphabet = 32"
  by code_simp+

lemma base32_letter_inj:
  assumes "length xs = 5" "length ys = 5"
  shows "base32_alphabet ! bits_nat 0 xs = base32_alphabet ! bits_nat 0 ys \<longleftrightarrow> xs = ys"
  using bits_nat_bound [of 0 xs] bits_nat_bound [of 0 ys] bits_nat_inj [of xs ys 0 0] assms
    nth_eq_iff_index_eq [OF base32_alphabet_distinct(1), of "bits_nat 0 xs" "bits_nat 0 ys"]
  by (auto simp: base32_alphabet_distinct)

declare bits_nat.simps [simp del]

lemma base32_groups_inj: "length xs = length ys \<Longrightarrow> base32_groups xs = base32_groups ys \<Longrightarrow> xs = ys"
proof (induction xs arbitrary: ys rule: base32_groups.induct)
  case (1 a b c d e bs)
  then obtain a' b' c' d' e' bs' where ys: "ys = a' # b' # c' # d' # e' # bs'"
    by (auto simp: length_Suc_conv dest!: sym [of "Suc _"])
  with 1 show ?case by (simp add: base32_letter_inj)
next
  case (2 a b c d)
  then obtain a' b' c' d' where "ys = [a', b', c', d']" by (auto simp: length_Suc_conv dest!: sym [of "Suc _"])
  with 2 show ?case by (simp add: base32_letter_inj)
next
  case (3 a b c)
  then obtain a' b' c' where "ys = [a', b', c']" by (auto simp: length_Suc_conv dest!: sym [of "Suc _"])
  with 3 show ?case by (simp add: base32_letter_inj)
next
  case (4 a b)
  then obtain a' b' where "ys = [a', b']" by (auto simp: length_Suc_conv dest!: sym [of "Suc _"])
  with 4 show ?case by (simp add: base32_letter_inj)
next
  case (5 a)
  then obtain a' where "ys = [a']" by (auto simp: length_Suc_conv dest!: sym [of "Suc _"])
  with 5 show ?case by (simp add: base32_letter_inj)
qed simp

lemma base32_groups_set: "set (base32_groups bs) \<subseteq> set base32_alphabet"
proof -
  have "base32_alphabet ! bits_nat 0 xs \<in> set base32_alphabet" if "length xs = 5" for xs
    using bits_nat_bound [of 0 xs] that by (intro nth_mem) (simp add: base32_alphabet_distinct)
  then show ?thesis by (induction bs rule: base32_groups.induct) simp_all
qed

lemma length_base32_groups: "length (base32_groups bs) = (length bs + 4) div 5"
  by (induction bs rule: base32_groups.induct) simp_all

lemma concat_bits_inj:
  "length xs = length ys \<Longrightarrow> concat (map byte_bits xs) = concat (map byte_bits ys) \<Longrightarrow> xs = ys"
proof (induction xs arbitrary: ys)
  case (Cons x xs)
  then obtain y ys' where "ys = y # ys'" by (cases ys) auto
  with Cons show ?case using byte_bits_inj by auto
qed simp

lemma length_concat_bits: "length (concat (map byte_bits xs)) = 8 * length xs"
  by (induction xs) simp_all

lemma base32_inj: "length xs = length ys \<Longrightarrow> base32_EncodeToString xs = base32_EncodeToString ys \<Longrightarrow> xs = ys"
  unfolding base32_EncodeToString_def
  by (rule concat_bits_inj, assumption, rule base32_groups_inj) (simp_all only: length_concat_bits)

lemma ToLower_ascii: "ascii_string s \<Longrightarrow> strings_ToLower s = map ascii_lower s"
  by (induction s rule: strings_ToLower.induct) (auto simp: ascii_string_def byte_def)

lemma ToUpper_ascii: "ascii_string s \<Longrightarrow> strings_ToUpper s = map ascii_upper s"
  by (induction s rule: strings_ToUpper.induct) (auto simp: ascii_string_def byte_def)

lemma base32_alphabet_chars:
  "\<forall>c \<in> set base32_alphabet. ascii_upper (ascii_lower c) = c \<and> ascii_upper c = c \<and> byte c < 128 \<and>
     byte (ascii_lower c) < 128 \<and> plain_byte c \<and> plain_byte (ascii_lower c)"
  by (simp add: base32_alphabet_def ascii_upper_def ascii_lower_def byte_def plain_byte_def char_of_eq_iff)

text \<open>A code is found whether it is typed in upper or in lower case, with or without spaces around.\<close>

lemma ToUpper_ToLower_base32:
  assumes "set s \<subseteq> set base32_alphabet"
  shows "strings_ToUpper (strings_ToLower s) = s" "strings_ToUpper s = s"
proof -
  have a: "ascii_string s" "ascii_string (map ascii_lower s)"
    using assms base32_alphabet_chars by (auto simp: ascii_string_def)
  show "strings_ToUpper (strings_ToLower s) = s" "strings_ToUpper s = s"
    using assms base32_alphabet_chars by (auto simp: ToLower_ascii ToUpper_ascii a intro!: map_idI)
qed

lemma randomToken_inj:
  "randomToken (Inr a) = randomToken (Inr b) \<Longrightarrow> length a = length b \<Longrightarrow> a = b"
  unfolding randomToken_def map_result_simps
  by (metis Inr_inject base32_EncodeToString_def base32_groups_set base32_inj ToUpper_ToLower_base32(1))

lemma randomToken_nonempty: "buf \<noteq> [] \<Longrightarrow> randomToken (Inr buf) = Inr t \<Longrightarrow> t \<noteq> []"
proof -
  assume b: "buf \<noteq> []" and t: "randomToken (Inr buf) = Inr t"
  have "length (base32_EncodeToString buf) = (8 * length buf + 4) div 5"
    by (simp add: base32_EncodeToString_def length_base32_groups length_concat_bits)
  moreover obtain c cs where "buf = c # cs" using b by (cases buf) auto
  ultimately have "base32_EncodeToString buf \<noteq> []" by (auto simp: div_eq_0_iff)
  moreover have "strings_ToUpper t = base32_EncodeToString buf"
    using t ToUpper_ToLower_base32(1) base32_groups_set by (auto simp: randomToken_def base32_EncodeToString_def)
  ultimately show ?thesis by auto
qed


subsection \<open>The invariant\<close>

lemma store_ok_intro:
  assumes "wf_map (byCode s)" "wf_map (bySession s)"
    "\<And>c r. map_of (byCode s) c = Some r \<Longrightarrow> r < length (psHeap s) \<and> pgCode (psHeap s ! r) = c"
    "\<And>c r. map_of (bySession s) c = Some r \<Longrightarrow> r < length (psHeap s) \<and> pgSessionID (psHeap s ! r) = c"
    "\<And>r. r < length (psHeap s) \<Longrightarrow> pairing_ok (psHeap s ! r)"
  shows "store_ok s"
proof -
  have "\<forall>p \<in> set (psHeap s). pairing_ok p" using assms(5) by (metis in_set_conv_nth)
  moreover have "\<forall>(c, r) \<in> set (byCode s). r < length (psHeap s) \<and> pgCode (psHeap s ! r) = c"
    "\<forall>(c, r) \<in> set (bySession s). r < length (psHeap s) \<and> pgSessionID (psHeap s ! r) = c"
    using assms(1-4) by (auto simp: set_map_iff)
  ultimately show ?thesis unfolding store_ok_def using assms(1,2) by blast
qed

lemma store_okD:
  assumes "store_ok s"
  shows "wf_map (byCode s)" "wf_map (bySession s)"
    "map_of (byCode s) c = Some r \<Longrightarrow> r < length (psHeap s) \<and> pgCode (psHeap s ! r) = c"
    "map_of (bySession s) c = Some r \<Longrightarrow> r < length (psHeap s) \<and> pgSessionID (psHeap s ! r) = c"
    "r < length (psHeap s) \<Longrightarrow> pairing_ok (psHeap s ! r)"
  using assms by (auto simp: store_ok_def dest: map_of_SomeD)

lemma store_ok_remove:
  "store_ok s \<Longrightarrow> store_ok (s\<lparr>byCode := AList.delete c (byCode s), bySession := AList.delete d (bySession s)\<rparr>)"
  by (rule store_ok_intro) (auto simp: store_okD go_map dest: store_okD(3,4) split: if_splits)

lemma evict_loop_spec:
  "psHeap (evict_loop now ks s) = psHeap s \<and> psTtl (evict_loop now ks s) = psTtl s \<and>
   (store_ok s \<longrightarrow> store_ok (evict_loop now ks s))"
  by (induction ks arbitrary: s) (auto simp: store_ok_remove split: option.split)

lemma evict_spec:
  "psHeap (evictExpiredLocked now ks s) = psHeap s" "psTtl (evictExpiredLocked now ks s) = psTtl s"
  "store_ok s \<Longrightarrow> store_ok (evictExpiredLocked now ks s)"
  using evict_loop_spec by (simp_all add: evictExpiredLocked_def)

lemma base32_upper [simp]: "strings_ToUpper (strings_ToLower (base32_EncodeToString b)) = base32_EncodeToString b"
  unfolding base32_EncodeToString_def by (rule ToUpper_ToLower_base32(1)) (rule base32_groups_set)

lemma base32_trimmed: "strings_TrimSpace (base32_EncodeToString b) = base32_EncodeToString b"
proof (rule TrimSpace_plain, intro impI)
  assume "base32_EncodeToString b \<noteq> []"
  then have "hd (base32_EncodeToString b) \<in> set base32_alphabet" "last (base32_EncodeToString b) \<in> set base32_alphabet"
    using base32_groups_set by (auto simp: base32_EncodeToString_def dest: hd_in_set last_in_set)
  with base32_alphabet_chars show "plain_byte (hd (base32_EncodeToString b)) \<and> plain_byte (last (base32_EncodeToString b))"
    by blast
qed

lemma CreatePairing_Inr:
  "CreatePairing now0 order (Inr b1) (Inr b2) (Inr b3) now s =
     (let s1 = evictExpiredLocked now0 order s; p = new_pairing b1 b2 b3 now (psTtl s); r = length (psHeap s)
      in (Inr p, s1\<lparr>psHeap := psHeap s @ [p], byCode := AList.update (pgCode p) r (byCode s1),
            bySession := AList.update (pgSessionID p) r (bySession s1)\<rparr>))"
  by (simp add: CreatePairing_def randomToken_def new_pairing_def Let_def evict_spec)

lemma CreatePairing_cases:
  obtains (fail) e where "CreatePairing now0 order r1 r2 r3 now s = (Inl e, evictExpiredLocked now0 order s)"
  | (ok) b1 b2 b3 where "r1 = Inr b1" "r2 = Inr b2" "r3 = Inr b3"
  by (cases r1; cases r2; cases r3) (auto simp: CreatePairing_def randomToken_def Let_def)

lemma new_pairing_ok: "b3 \<noteq> [] \<Longrightarrow> pairing_ok (new_pairing b1 b2 b3 now ttl)"
  using randomToken_nonempty [of b3] by (simp add: pairing_ok_def new_pairing_def randomToken_def)

lemma store_ok_add:
  assumes "store_ok s" "pairing_ok p"
  shows "store_ok (s\<lparr>psHeap := psHeap s @ [p], byCode := AList.update (pgCode p) (length (psHeap s)) (byCode s),
            bySession := AList.update (pgSessionID p) (length (psHeap s)) (bySession s)\<rparr>)"
proof (rule store_ok_intro)
qed (use assms in \<open>auto simp: store_okD go_map nth_append less_Suc_eq split: if_splits dest: store_okD(3,4)\<close>)

lemma Create_ok:
  assumes "store_ok s" "rnd_ok r3"
  shows "store_ok (snd (CreatePairing now0 order r1 r2 r3 now s))"
proof (cases rule: CreatePairing_cases [of now0 order r1 r2 r3 now s])
  case fail
  with assms show ?thesis by (simp add: evict_spec)
next
  case (ok b1 b2 b3)
  let ?s = "evictExpiredLocked now0 order s" and ?p = "new_pairing b1 b2 b3 now (psTtl s)"
  have "store_ok (?s\<lparr>psHeap := psHeap ?s @ [?p], byCode := AList.update (pgCode ?p) (length (psHeap ?s)) (byCode ?s),
            bySession := AList.update (pgSessionID ?p) (length (psHeap ?s)) (bySession ?s)\<rparr>)"
    by (rule store_ok_add) (use assms ok in \<open>simp_all add: evict_spec new_pairing_ok rnd_ok_def\<close>)
  with ok show ?thesis by (simp add: CreatePairing_Inr Let_def evict_spec)
qed

lemma ClaimPairing_cases:
  obtains (notfound) "map_of (byCode s) (strings_ToUpper (strings_TrimSpace code)) = None"
    "ClaimPairing now rnd code s = (Inl ErrPairingNotFound, s)"
  | (expired) r where "map_of (byCode s) (strings_ToUpper (strings_TrimSpace code)) = Some r"
    "pgExpiresAt (psHeap s ! r) < now"
    "ClaimPairing now rnd code s = (Inl ErrPairingExpired,
       s\<lparr>byCode := AList.delete (strings_ToUpper (strings_TrimSpace code)) (byCode s),
         bySession := AList.delete (pgSessionID (psHeap s ! r)) (bySession s)\<rparr>)"
  | (claimed) r where "map_of (byCode s) (strings_ToUpper (strings_TrimSpace code)) = Some r"
    "now \<le> pgExpiresAt (psHeap s ! r)" "pgClaimed (psHeap s ! r)"
    "ClaimPairing now rnd code s = (Inl ErrPairingClaimed, s)"
  | (norand) r e where "map_of (byCode s) (strings_ToUpper (strings_TrimSpace code)) = Some r"
    "now \<le> pgExpiresAt (psHeap s ! r)" "\<not> pgClaimed (psHeap s ! r)" "rnd = Inl e"
    "ClaimPairing now rnd code s = (Inl (ErrWrap ''generate mobile key: '' e []), s)"
  | (ok) r b p where "map_of (byCode s) (strings_ToUpper (strings_TrimSpace code)) = Some r"
    "now \<le> pgExpiresAt (psHeap s ! r)" "\<not> pgClaimed (psHeap s ! r)" "rnd = Inr b"
    "p = (psHeap s ! r)\<lparr>pgMobileDeviceKey := strings_ToLower (base32_EncodeToString b), pgClaimed := True\<rparr>"
    "ClaimPairing now rnd code s = (Inr p, s\<lparr>psHeap := (psHeap s)[r := p]\<rparr>)"
  by (cases "map_of (byCode s) (strings_ToUpper (strings_TrimSpace code))"; cases rnd)
     (auto simp: ClaimPairing_def randomToken_def Let_def not_less, (meson not_less)+)

lemma Claim_ok:
  assumes "store_ok s" "rnd_ok rnd"
  shows "store_ok (snd (ClaimPairing now rnd code s))"
proof (cases rule: ClaimPairing_cases [of s code now rnd])
  case (ok r b p)
  have b: "strings_ToLower (base32_EncodeToString b) \<noteq> []"
    using randomToken_nonempty [of b] ok(4) assms(2) by (simp add: rnd_ok_def randomToken_def)
  have "store_ok (s\<lparr>psHeap := (psHeap s)[r := p]\<rparr>)"
  proof (rule store_ok_intro)
    fix i assume "i < length (psHeap (s\<lparr>psHeap := (psHeap s)[r := p]\<rparr>))"
    then show "pairing_ok (psHeap (s\<lparr>psHeap := (psHeap s)[r := p]\<rparr>) ! i)"
      using store_okD(5) [OF assms(1), of i] b ok(5) by (cases "i = r") (simp_all add: pairing_ok_def)
  next
    fix c i assume "map_of (byCode (s\<lparr>psHeap := (psHeap s)[r := p]\<rparr>)) c = Some i"
    then show "i < length (psHeap (s\<lparr>psHeap := (psHeap s)[r := p]\<rparr>)) \<and> pgCode (psHeap (s\<lparr>psHeap := (psHeap s)[r := p]\<rparr>) ! i) = c"
      using store_okD(3) [OF assms(1), of c i] ok(5) by (cases "i = r") simp_all
  next
    fix c i assume "map_of (bySession (s\<lparr>psHeap := (psHeap s)[r := p]\<rparr>)) c = Some i"
    then show "i < length (psHeap (s\<lparr>psHeap := (psHeap s)[r := p]\<rparr>)) \<and> pgSessionID (psHeap (s\<lparr>psHeap := (psHeap s)[r := p]\<rparr>) ! i) = c"
      using store_okD(4) [OF assms(1), of c i] ok(5) by (cases "i = r") simp_all
  qed (use assms(1) in \<open>simp_all add: store_okD\<close>)
  with ok show ?thesis by simp
qed (use assms in \<open>simp_all add: store_ok_remove\<close>)

interpretation pairing: inductive_invariant store_init store_step store_ok
proof
  show "store_ok s" if "store_init s" for s
    using that by (auto simp: store_init_def NewStore_def store_ok_def)
  show "store_ok s'" if "store_ok s" "store_step s s'" for s s'
    using that(2,1) by cases (auto intro: Create_ok Claim_ok)
qed


text \<open>What a granted role means.\<close>

lemma validate_sound:
  assumes ok: "store_ok s" and v: "ValidateSessionKey now sid key s = Some role"
  shows "\<exists>p \<in> set (psHeap s). pgSessionID p = sid \<and> now \<le> pgExpiresAt p \<and>
    (role = RolePC \<and> key = pgPCDeviceKey p \<and> key \<noteq> [] \<or>
     role = RoleMobile \<and> key = pgMobileDeviceKey p \<and> (key \<noteq> [] \<longrightarrow> pgClaimed p))"
proof -
  from v obtain r where r: "map_of (bySession s) sid = Some r"
    by (auto simp: ValidateSessionKey_def split: option.splits)
  note d = store_okD(4) [OF ok r]
  have "pairing_ok (psHeap s ! r)" using store_okD(5) [OF ok] d by blast
  with v r d show ?thesis
    by (intro bexI [of _ "psHeap s ! r"])
       (auto simp: ValidateSessionKey_def Let_def pairing_ok_def split: if_splits)
qed

section \<open>Properties\<close>

text \<open>
  C4: A pairing from creation to use. A pairing that was created at \<open>t0\<close> and is claimed within
  its time to live, with the code typed in upper or lower case and with any white space
  around it, gives the mobile device a key for the session of the PC. Until the pairing
  expires the two keys open the session, each with its own role (for different random bytes),
  no other key does, and a second claim is refused; afterwards no key opens the session.
\<close>
theorem pairing_end_to_end:
  assumes "store_ok s" "CreatePairing now0 order (Inr b1) (Inr b2) (Inr b3) t0 s = (Inr p, s1)"
    and "b3 \<noteq> []" "length b4 = length b3" "b4 \<noteq> b3" "t1 \<le> t0 + psTtl s"
    and "strings_TrimSpace typed = pgCode p \<or> strings_TrimSpace typed = strings_ToLower (pgCode p)"
  shows "\<exists>q s2. ClaimPairing t1 (Inr b4) typed s1 = (Inr q, s2) \<and> pgSessionID q = pgSessionID p \<and>
    (\<forall>t key. ValidateSessionKey t (pgSessionID p) key s2 =
       (if t > t0 + psTtl s then None
        else if key = pgPCDeviceKey p then Some RolePC
        else if key = pgMobileDeviceKey q then Some RoleMobile else None)) \<and>
    pgMobileDeviceKey q \<noteq> pgPCDeviceKey p \<and>
    (\<forall>t rnd. fst (ClaimPairing t rnd typed s2) =
       Inl (if t > t0 + psTtl s then ErrPairingExpired else ErrPairingClaimed))"
proof -
  let ?r = "length (psHeap s)"
  have p: "p = new_pairing b1 b2 b3 t0 (psTtl s)" and h1: "psHeap s1 = psHeap s @ [p]"
    and c1: "map_of (byCode s1) (pgCode p) = Some ?r" and k1: "map_of (bySession s1) (pgSessionID p) = Some ?r"
    using assms(2) by (auto simp: CreatePairing_Inr Let_def go_map)
  have typed: "strings_ToUpper (strings_TrimSpace typed) = pgCode p"
    using assms(7) ToUpper_ToLower_base32(2) [OF base32_groups_set]
    by (auto simp: p new_pairing_def base32_EncodeToString_def ToUpper_ToLower_base32(1) [OF base32_groups_set])
  let ?mk = "strings_ToLower (base32_EncodeToString b4)"
  define q where "q = p\<lparr>pgMobileDeviceKey := ?mk, pgClaimed := True\<rparr>"
  define s2 where "s2 = s1\<lparr>psHeap := (psHeap s1)[?r := q]\<rparr>"
  have at: "psHeap s1 ! ?r = p" "psHeap s2 ! ?r = q" by (simp_all add: h1 s2_def)
  have exp: "pgExpiresAt p = t0 + psTtl s" "\<not> pgClaimed p" by (simp_all add: p new_pairing_def)
  have claim: "ClaimPairing t1 (Inr b4) typed s1 = (Inr q, s2)"
    using assms(6) c1 at(1) exp by (simp add: ClaimPairing_def typed randomToken_def q_def s2_def Let_def)
  have val: "ValidateSessionKey t (pgSessionID p) key s2 =
       (if t > t0 + psTtl s then None
        else if key = pgPCDeviceKey p then Some RolePC
        else if key = pgMobileDeviceKey q then Some RoleMobile else None)" for t key
    using k1 at exp by (simp add: ValidateSessionKey_def s2_def [THEN arg_cong [of _ _ bySession]] q_def Let_def)
  have again: "fst (ClaimPairing t rnd typed s2) =
      Inl (if t > t0 + psTtl s then ErrPairingExpired else ErrPairingClaimed)" for t rnd
    using c1 at exp by (simp add: ClaimPairing_def typed s2_def [THEN arg_cong [of _ _ byCode]] q_def Let_def)
  have "pgMobileDeviceKey q \<noteq> pgPCDeviceKey p"
    using randomToken_inj [of b4 b3] assms(4,5) by (auto simp: q_def p new_pairing_def randomToken_def)
  with claim val again show ?thesis by (auto simp: q_def)
qed

text \<open>
  A key that opens a session was issued for it: in every reachable store a role is
  granted only for a pairing of that session that has not expired, the PC role only for its
  PC key, and the mobile role, for a key that is not empty, only after the pairing was claimed
  and for the key handed out then.
\<close>
theorem session_key_sound:
  assumes "reach store_init store_step s" "ValidateSessionKey now sid key s = Some role"
  shows "\<exists>p \<in> set (psHeap s). pgSessionID p = sid \<and> now \<le> pgExpiresAt p \<and>
    (role = RolePC \<and> key = pgPCDeviceKey p \<and> key \<noteq> [] \<or>
     role = RoleMobile \<and> key = pgMobileDeviceKey p \<and> (key \<noteq> [] \<longrightarrow> pgClaimed p))"
  by (rule validate_sound [OF pairing.reach_inv [OF assms(1)] assms(2)])

text \<open>
  Pairings are never rewritten: no step of the store forgets a pairing's identity, changes
  its keys once it is claimed, or takes a claim back; the one change is that an unclaimed
  pairing is claimed and gets its mobile key.
\<close>
theorem pairing_claimed_once:
  assumes "store_step s s'" "r < length (psHeap s)"
  shows "r < length (psHeap s') \<and>
    (psHeap s' ! r = psHeap s ! r \<or>
     \<not> pgClaimed (psHeap s ! r) \<and>
     (\<exists>key. psHeap s' ! r = (psHeap s ! r)\<lparr>pgMobileDeviceKey := key, pgClaimed := True\<rparr>))"
  using assms(1)
proof cases
  case (step_Create order r1 r2 r3 now0 now)
  then show ?thesis
    using assms(2) by (cases rule: CreatePairing_cases [of now0 order r1 r2 r3 now s])
      (auto simp: evict_spec CreatePairing_Inr Let_def nth_append)
next
  case (step_Claim rnd now code)
  then show ?thesis
  proof (cases rule: ClaimPairing_cases [of s code now rnd])
    case (ok i b p)
    with step_Claim assms(2) show ?thesis by (cases "i = r") auto
  qed (use step_Claim assms(2) in simp_all)
qed

text \<open>
  Codes and keys are as random as the bytes they are made of: two buffers of the same
  length give the same token only if they are equal, and a token has eight fifths of their
  length in characters of the alphabet (7, 13 and 16 for the buffers of 4, 8 and 10 bytes).
\<close>
theorem token_faithful:
  assumes "length a = length b"
  shows "(randomToken (Inr a) = randomToken (Inr b) \<longleftrightarrow> a = b) \<and>
    (\<forall>t. randomToken (Inr a) = Inr t \<longrightarrow> length (strings_ToUpper t) = (8 * length a + 4) div 5 \<and>
       set (strings_ToUpper t) \<subseteq> set base32_alphabet)"
proof (intro conjI allI impI)
  show "randomToken (Inr a) = randomToken (Inr b) \<longleftrightarrow> a = b" using randomToken_inj [OF _ assms] by auto
  fix t assume "randomToken (Inr a) = Inr t"
  then have "strings_ToUpper t = base32_EncodeToString a" by (auto simp: randomToken_def)
  then show "length (strings_ToUpper t) = (8 * length a + 4) div 5" "set (strings_ToUpper t) \<subseteq> set base32_alphabet"
    using base32_groups_set by (simp_all add: base32_EncodeToString_def length_base32_groups length_concat_bits)
qed

section \<open>Witnesses\<close>

theorem pairing_end_to_end_witness:
  "case CreatePairing 0 [] (Inr ''abcd'') (Inr ''abcdefgh'') (Inr ''abcdefghij'') 0 (NewStore Minute) of
     (Inr p, s1) \<Rightarrow> \<exists>q s2. ClaimPairing 5 (Inr ''ABCDEFGHIJ'') (pgCode p) s1 = (Inr q, s2) \<and>
        ValidateSessionKey 7 (pgSessionID p) (pgMobileDeviceKey q) s2 = Some RoleMobile
   | (Inl e, s1) \<Rightarrow> False"
proof -
  let ?c = "CreatePairing 0 [] (Inr ''abcd'') (Inr ''abcdefgh'') (Inr ''abcdefghij'') 0 (NewStore Minute)"
  obtain p s1 where c: "?c = (Inr p, s1)" by (simp add: CreatePairing_Inr Let_def)
  have trim: "strings_TrimSpace (pgCode p) = pgCode p"
    using c by (auto simp: CreatePairing_Inr Let_def new_pairing_def base32_trimmed)
  have "store_ok (NewStore Minute)" by (simp add: NewStore_def store_ok_def)
  from pairing_end_to_end [OF this c, of "''ABCDEFGHIJ''" 5 "pgCode p"] trim c show ?thesis
    by (auto simp: NewStore_def Minute_def Second_def Millisecond_def)
qed

theorem session_key_sound_witness:
  "case CreatePairing 0 [] (Inr ''abcd'') (Inr ''abcdefgh'') (Inr ''abcdefghij'') 0 (NewStore Minute) of
     (Inr p, s1) \<Rightarrow> \<exists>q \<in> set (psHeap s1). pgSessionID q = pgSessionID p | (Inl e, s1) \<Rightarrow> False"
proof -
  let ?c = "CreatePairing 0 [] (Inr ''abcd'') (Inr ''abcdefgh'') (Inr ''abcdefghij'') 0 (NewStore Minute)"
  obtain p s1 where c: "?c = (Inr p, s1)" by (simp add: CreatePairing_Inr Let_def)
  have st: "store_step (NewStore Minute) s1"
    using step_Create [of "[]" "NewStore Minute" "Inr ''abcd''" "Inr ''abcdefgh''" "Inr ''abcdefghij''" 0 0] c
    by (simp add: range_order_def NewStore_def map_keys_def rnd_ok_def)
  have r: "reach store_init store_step s1"
    by (rule reach_step [where s = "NewStore Minute"], rule reach_init) (auto simp: store_init_def st)
  have "ValidateSessionKey 5 (pgSessionID p) (pgPCDeviceKey p) s1 = Some RolePC"
    using c by (auto simp: CreatePairing_Inr Let_def ValidateSessionKey_def go_map evict_spec new_pairing_def
        NewStore_def Minute_def Second_def Millisecond_def)
  from session_key_sound [OF r this] c show ?thesis by auto
qed

theorem pairing_claimed_once_witness:
  "\<exists>s'. store_step (NewStore Minute\<lparr>psHeap := [new_pairing ''a'' ''b'' ''c'' 0 5]\<rparr>) s' \<and> 0 < length (psHeap s')"
proof -
  let ?s = "NewStore Minute\<lparr>psHeap := [new_pairing ''a'' ''b'' ''c'' 0 5]\<rparr>"
  have "store_step ?s (snd (ClaimPairing 0 (Inr ''a'') ''x'' ?s))" by (rule step_Claim) (simp add: rnd_ok_def)
  from this pairing_claimed_once [OF this, of 0] show ?thesis by (auto simp: NewStore_def)
qed

theorem token_faithful_witness:
  "randomToken (Inr ''abcd'') \<noteq> randomToken (Inr ''abce'')"
  using token_faithful [of "''abcd''" "''abce''"] by simp

section \<open>The empty key\<close>

text \<open>
  \<open>ValidateSessionKey\<close> itself accepts the empty key as the mobile key of a pairing that has not
  been claimed; the WebSocket handler refuses an empty key before it calls it.
\<close>

lemma empty_key_is_mobile_until_claimed:
  assumes "store_ok s" "map_of (bySession s) sid = Some r" "\<not> pgClaimed (psHeap s ! r)"
    "now \<le> pgExpiresAt (psHeap s ! r)"
  shows "ValidateSessionKey now sid [] s = Some RoleMobile"
  using assms store_okD(4,5) [OF assms(1)] by (fastforce simp: ValidateSessionKey_def Let_def pairing_ok_def)

end
