(* ===== verification/Signaling_Server.thy ===== *)
theory Signaling_Server
  imports Pairing_Store Payloads Go_Http
begin

text \<open>
  \<open>internal/signaling/validation.go\<close> and \<open>internal/signaling/server.go\<close>: the rooms in which a PC and
  a mobile device exchange the messages that set up their peer connection. A connection is a
  number; a write to it is an output of the operation (the result of the write, where the code
  uses it, is an argument). The mutex of the server makes \<open>attachConn\<close>, \<open>detachConn\<close> and the
  table part of \<open>forwardOrQueue\<close> single steps.
\<close>

section \<open>Validation (validation.go)\<close>

definition validateSignalType :: "Role \<Rightarrow> MessageType \<Rightarrow> goerror option" where
  "validateSignalType role typ =
     (if role = RolePC then
        (if typ = TypeSignalOffer \<or> typ = TypeSignalICE then None
         else if typ = TypeSignalAnswer then Some (ErrNew ''pc cannot send SIGNAL_ANSWER'')
         else Some (ErrNew (''pc cannot send message type: '' @ typ)))
      else if role = RoleMobile then
        (if typ = TypeSignalAnswer \<or> typ = TypeSignalICE then None
         else if typ = TypeSignalOffer then Some (ErrNew ''mobile cannot send SIGNAL_OFFER'')
         else Some (ErrNew (''mobile cannot send message type: '' @ typ)))
      else Some (ErrNew ''invalid role''))"

definition validateSignalEnvelope :: "string \<Rightarrow> Role \<Rightarrow> Envelope \<Rightarrow> goerror option" where
  "validateSignalEnvelope sessionID role env =
     (if SID env \<noteq> sessionID then Some (ErrNew (''sid mismatch: expected '' @ sessionID))
      else case validateSignalType role (Type env) of
        Some err \<Rightarrow> Some err
      | None \<Rightarrow>
          if Type env = TypeSignalOffer then
            (case DecodePayload env SignalOfferPayload_unjson of
               Inl err \<Rightarrow> Some (ErrWrap ''invalid SIGNAL_OFFER payload: '' err [])
             | Inr payload \<Rightarrow>
                 if soSDP payload = [] then Some (ErrNew ''offer sdp is required'') else None)
          else if Type env = TypeSignalAnswer then
            (case DecodePayload env SignalAnswerPayload_unjson of
               Inl err \<Rightarrow> Some (ErrWrap ''invalid SIGNAL_ANSWER payload: '' err [])
             | Inr payload \<Rightarrow>
                 if saSDP payload = [] then Some (ErrNew ''answer sdp is required'') else None)
          else if Type env = TypeSignalICE then
            (case DecodePayload env SignalICEPayload_unjson of
               Inl err \<Rightarrow> Some (ErrWrap ''invalid SIGNAL_ICE payload: '' err [])
             | Inr payload \<Rightarrow>
                 if siCandidate payload = [] then Some (ErrNew ''ice candidate is required'') else None)
          else Some (ErrNew (''unsupported signaling message type: '' @ Type env)))"

section \<open>Rooms (server.go)\<close>

definition maxPendingSignals :: nat where "maxPendingSignals = 128"

type_synonym conn = nat

record room =
  pcConn :: "conn option"
  mobileConn :: "conn option"
  pendingForPC :: "Envelope list"
  pendingForMobile :: "Envelope list"

definition zero_room :: room where
  "zero_room = \<lparr>pcConn = None, mobileConn = None, pendingForPC = [], pendingForMobile = []\<rparr>"

type_synonym rooms = "(string, room) gomap"

text \<open>The result of \<open>attachConn\<close>: the queued messages, the ready targets, the replaced connection.\<close>

definition attachConn ::
    "string \<Rightarrow> Role \<Rightarrow> conn \<Rightarrow> rooms \<Rightarrow> (Envelope list \<times> conn list \<times> conn option) \<times> rooms" where
  "attachConn sessionID role conn rooms =
     (let rm = (case map_of rooms sessionID of None \<Rightarrow> zero_room | Some rm \<Rightarrow> rm);
          (old, pending, rm) =
            (if role = RolePC then (pcConn rm, pendingForPC rm, rm\<lparr>pcConn := Some conn, pendingForPC := []\<rparr>)
             else if role = RoleMobile then
               (mobileConn rm, pendingForMobile rm, rm\<lparr>mobileConn := Some conn, pendingForMobile := []\<rparr>)
             else (None, [], rm));
          ready = (case (pcConn rm, mobileConn rm) of
                     (Some pc, Some mobile) \<Rightarrow> [pc, mobile] | _ \<Rightarrow> [])
      in ((pending, ready, old), AList.update sessionID rm rooms))"

definition detachConn :: "string \<Rightarrow> Role \<Rightarrow> conn \<Rightarrow> rooms \<Rightarrow> rooms" where
  "detachConn sessionID role conn rooms =
     (case map_of rooms sessionID of
        None \<Rightarrow> rooms
      | Some rm \<Rightarrow>
          let rm = (if role = RolePC \<and> pcConn rm = Some conn then rm\<lparr>pcConn := None\<rparr> else rm);
              rm = (if role = RoleMobile \<and> mobileConn rm = Some conn then rm\<lparr>mobileConn := None\<rparr> else rm)
          in if pcConn rm = None \<and> mobileConn rm = None then AList.delete sessionID rooms
             else AList.update sessionID rm rooms)"

definition appendPending :: "Envelope list \<Rightarrow> Envelope \<Rightarrow> Envelope list" where
  "appendPending queue env =
     (let queue = (if length queue \<ge> maxPendingSignals then tl queue else queue) in queue @ [env])"

text \<open>Where \<open>forwardOrQueue\<close> sends the message: an error, the queue, or a connection to write to.\<close>

datatype forward = NoRoom goerror | Queued | Forwarded conn

definition forwardOrQueue_route :: "string \<Rightarrow> Role \<Rightarrow> Envelope \<Rightarrow> rooms \<Rightarrow> forward \<times> rooms" where
  "forwardOrQueue_route sessionID role env rooms =
     (case map_of rooms sessionID of
        None \<Rightarrow> (NoRoom (ErrNew (''room '' @ sessionID @ '' not found'')), rooms)
      | Some rm \<Rightarrow>
          if role = RolePC then
            (case mobileConn rm of
               None \<Rightarrow> (Queued, AList.update sessionID
                          (rm\<lparr>pendingForMobile := appendPending (pendingForMobile rm) env\<rparr>) rooms)
             | Some target \<Rightarrow> (Forwarded target, rooms))
          else
            (case pcConn rm of
               None \<Rightarrow> (Queued, AList.update sessionID
                          (rm\<lparr>pendingForPC := appendPending (pendingForPC rm) env\<rparr>) rooms)
             | Some target \<Rightarrow> (Forwarded target, rooms)))"

text \<open>
  \<open>forwardOrQueue\<close> with the writes it makes; \<open>werr target\<close> is the result of a write to the target.
\<close>

definition forwardOrQueue ::
    "(conn \<Rightarrow> goerror option) \<Rightarrow> string \<Rightarrow> Role \<Rightarrow> Envelope \<Rightarrow> rooms \<Rightarrow> goerror option \<times> (conn \<times> Envelope) list \<times> rooms" where
  "forwardOrQueue werr sessionID role env rooms =
     (case forwardOrQueue_route sessionID role env rooms of
        (NoRoom err, rooms) \<Rightarrow> (Some err, [], rooms)
      | (Queued, rooms) \<Rightarrow> (None, [], rooms)
      | (Forwarded target, rooms) \<Rightarrow> (werr target, [(target, env)], rooms))"

text \<open>
  \<open>time.Now\<close> is read three times for a server acknowledgement (its id, its sequence number and
  its time stamp), and a fourth time for the payload of SIGNAL\_READY.
\<close>

definition sendServerAck ::
    "instant \<Rightarrow> instant \<Rightarrow> instant \<Rightarrow> string \<Rightarrow> conn \<Rightarrow> string \<Rightarrow> bool \<Rightarrow> string \<Rightarrow> (conn \<times> Envelope) list" where
  "sendServerAck now1 now2 now3 sessionID conn requestRID accepted message =
     (case NewEnvelope now3 sessionID (''srv_ack_'' @ Itoa (UnixNano now1)) (UnixMilli now2) TypeCmdAck
             (Inr (CmdAckPayload_json
                \<lparr>caRequestRID = requestRID, caAccepted = accepted, caMessage = message\<rparr>)) of
        Inl err \<Rightarrow> []
      | Inr ack \<Rightarrow> [(conn, ack)])"

definition buildSignalReadyEnvelope ::
    "instant \<Rightarrow> instant \<Rightarrow> instant \<Rightarrow> instant \<Rightarrow> string \<Rightarrow> Role \<Rightarrow> Envelope result" where
  "buildSignalReadyEnvelope now1 now2 now3 now4 sessionID role =
     NewEnvelope now4 sessionID (''signal_ready_'' @ Itoa (UnixNano now1)) (UnixMilli now2) TypeSignalReady
       (Inr (SignalReadyPayload_json
          \<lparr>srRole = role, srPeerConnected = True, srTimestamp = UnixMilli now3\<rparr>))"

text \<open>One turn of \<open>readLoop\<close> on an envelope that was read from the connection, at one instant.\<close>

definition signaling_readLoop_turn ::
    "instant \<Rightarrow> (conn \<Rightarrow> goerror option) \<Rightarrow> string \<Rightarrow> Role \<Rightarrow> conn \<Rightarrow> Envelope \<Rightarrow> rooms \<Rightarrow> (conn \<times> Envelope) list \<times> rooms" where
  "signaling_readLoop_turn now werr sessionID role conn env rooms =
     (case Envelope_Validate env of
        Some err \<Rightarrow> (sendServerAck now now now sessionID conn (RID env) False ''invalid envelope'', rooms)
      | None \<Rightarrow>
     case validateSignalEnvelope sessionID role env of
        Some err \<Rightarrow> (sendServerAck now now now sessionID conn (RID env) False (Error err), rooms)
      | None \<Rightarrow>
     case forwardOrQueue werr sessionID role env rooms of
        (Some err, outs, rooms) \<Rightarrow>
          (outs @ sendServerAck now now now sessionID conn (RID env) False (Error err), rooms)
      | (None, outs, rooms) \<Rightarrow>
          (outs @ sendServerAck now now now sessionID conn (RID env) True ''accepted'', rooms))"

section \<open>Handlers (server.go)\<close>

definition signaling_handleHealth :: response where
  "signaling_handleHealth = writeJSON StatusOK (JObj [(''status'', enc_string ''ok'')])"

definition handlePairings ::
    "string \<Rightarrow> instant \<Rightarrow> string list \<Rightarrow> string result \<Rightarrow> string result \<Rightarrow> string result \<Rightarrow> instant \<Rightarrow> Store \<Rightarrow> response \<times> Store" where
  "handlePairings httpMethod now0 order rndCode rndSession rndKey now s =
     (if httpMethod \<noteq> ''POST''
      then (writeJSON StatusMethodNotAllowed (error_json ''method not allowed''), s)
      else case CreatePairing now0 order rndCode rndSession rndKey now s of
        (Inl err, s) \<Rightarrow> (writeJSON StatusInternalServerError (error_json (Error err)), s)
      | (Inr pairing, s) \<Rightarrow> (writeJSON StatusCreated (JObj
          [(''code'', enc_string (pgCode pairing)), (''sessionId'', enc_string (pgSessionID pairing)),
           (''pcDeviceKey'', enc_string (pgPCDeviceKey pairing)),
           (''expiresAt'', JInt (UnixMilli (pgExpiresAt pairing)))]), s))"

definition handlePairingClaim :: "string \<Rightarrow> string \<Rightarrow> instant \<Rightarrow> string result \<Rightarrow> Store \<Rightarrow> response \<times> Store" where
  "handlePairingClaim httpMethod path now rnd s =
     (if httpMethod \<noteq> ''POST''
      then (writeJSON StatusMethodNotAllowed (error_json ''method not allowed''), s)
      else let segments = path_segments path in
        if length segments \<noteq> 4 \<or> segments ! 0 \<noteq> ''v1'' \<or> segments ! 1 \<noteq> ''pairings'' \<or> segments ! 3 \<noteq> ''claim''
        then (writeJSON StatusNotFound (error_json ''invalid claim path''), s)
        else case ClaimPairing now rnd (segments ! 2) s of
          (Inl err, s) \<Rightarrow>
            (if errors_Is err ErrPairingNotFound then writeJSON StatusNotFound (error_json (Error err))
             else if errors_Is err ErrPairingExpired \<or> errors_Is err ErrPairingClaimed
               then writeJSON StatusConflict (error_json (Error err))
             else writeJSON StatusInternalServerError (error_json (Error err)), s)
        | (Inr pairing, s) \<Rightarrow>
            (writeJSON StatusOK (JObj
               [(''sessionId'', enc_string (pgSessionID pairing)),
                (''mobileDeviceKey'', enc_string (pgMobileDeviceKey pairing)),
                (''expiresAt'', JInt (UnixMilli (pgExpiresAt pairing)))]), s))"

text \<open>The checks of \<open>handleSessionWS\<close> before the upgrade: a response, or the session and the role.\<close>

definition handleSessionWS_request ::
    "string \<Rightarrow> string \<Rightarrow> string \<Rightarrow> instant \<Rightarrow> Store \<Rightarrow> response + (string \<times> Role)" where
  "handleSessionWS_request path deviceKeyQuery roleQuery now s =
     (if \<not> strings_HasSuffix path ''/ws'' then Inl (writeJSON StatusNotFound (error_json ''not found''))
      else let segments = path_segments path in
        if length segments \<noteq> 4 \<or> segments ! 0 \<noteq> ''v1'' \<or> segments ! 1 \<noteq> ''sessions'' \<or> segments ! 3 \<noteq> ''ws''
        then Inl (writeJSON StatusNotFound (error_json ''invalid session path''))
        else let sessionID = segments ! 2; key = strings_TrimSpace deviceKeyQuery in
          if key = [] then Inl (writeJSON StatusUnauthorized (error_json ''deviceKey is required''))
          else case ValidateSessionKey now sessionID key s of
            None \<Rightarrow> Inl (writeJSON StatusUnauthorized (error_json ''invalid session or key''))
          | Some role \<Rightarrow>
              let requestedRole = strings_TrimSpace roleQuery in
              if requestedRole \<noteq> [] \<and> requestedRole \<noteq> role
              then Inl (writeJSON StatusUnauthorized (error_json ''role mismatch''))
              else Inr (sessionID, role))"

text \<open>After the upgrade: the new peer is attached, gets what was queued for it, then both peers
  are told that the room is complete.\<close>

definition handleSessionWS_connect ::
    "instant \<Rightarrow> string \<Rightarrow> Role \<Rightarrow> conn \<Rightarrow> rooms \<Rightarrow> (conn \<times> Envelope) list \<times> rooms" where
  "handleSessionWS_connect now sessionID role conn rooms =
     (let ((pending, readyTargets, old), rooms) = attachConn sessionID role conn rooms
      in (map (\<lambda>env. (conn, env)) pending @
          concat (map (\<lambda>target. case buildSignalReadyEnvelope now now now now sessionID role of
                         Inl err \<Rightarrow> [] | Inr ready \<Rightarrow> [(target, ready)]) readyTargets),
          rooms))"

section \<open>Runs and their invariant\<close>

text \<open>
  Every room has a peer in it; a queue is only filled while its peer is away, is within its
  bound, and holds only messages that the other role may send to this session.
\<close>

definition room_ok :: "string \<Rightarrow> room \<Rightarrow> bool" where
  "room_ok sid rm \<longleftrightarrow>
     (pcConn rm \<noteq> None \<or> mobileConn rm \<noteq> None) \<and>
     (pcConn rm \<noteq> None \<longrightarrow> pendingForPC rm = []) \<and>
     (mobileConn rm \<noteq> None \<longrightarrow> pendingForMobile rm = []) \<and>
     length (pendingForPC rm) \<le> maxPendingSignals \<and> length (pendingForMobile rm) \<le> maxPendingSignals \<and>
     (\<forall>e \<in> set (pendingForPC rm). validateSignalEnvelope sid RoleMobile e = None) \<and>
     (\<forall>e \<in> set (pendingForMobile rm). validateSignalEnvelope sid RolePC e = None)"

definition rooms_ok :: "rooms \<Rightarrow> bool" where
  "rooms_ok rooms \<longleftrightarrow> wf_map rooms \<and> (\<forall>(sid, rm) \<in> set rooms. room_ok sid rm)"

inductive room_step :: "rooms \<Rightarrow> rooms \<Rightarrow> bool" where
  step_connect: "role = RolePC \<or> role = RoleMobile \<Longrightarrow>
     room_step rooms (snd (handleSessionWS_connect now sid role conn rooms))"
| step_turn: "role = RolePC \<or> role = RoleMobile \<Longrightarrow>
     room_step rooms (snd (signaling_readLoop_turn now werr sid role conn env rooms))"
| step_disconnect: "room_step rooms (detachConn sid role conn rooms)"


definition last_signals :: "Envelope list \<Rightarrow> Envelope list" where
  "last_signals envs = drop (length envs - maxPendingSignals) envs"

text \<open>An offer, and a room in which only the PC is present.\<close>

definition ex_offer :: Envelope where
  "ex_offer = \<lparr>SID = ''s1'', RID = ''r1'', Seq = 1, TS = 5, Type = TypeSignalOffer,
     Payload = Some (SignalOfferPayload_json \<lparr>soSDP = ''v=0''\<rparr>)\<rparr>"

definition ex_room :: room where
  "ex_room = \<lparr>pcConn = Some 1, mobileConn = None, pendingForPC = [], pendingForMobile = []\<rparr>"

text \<open>A store with one pairing.\<close>

definition ex_store :: Store where
  "ex_store = snd (CreatePairing 0 [] (Inr ''abcd'') (Inr ''ab'') (Inr ''cd'') 0 (NewStore Minute))"

definition ex_sid :: string where "ex_sid = ''mfra''"
definition ex_key :: string where "ex_key = ''mnsa''"

section \<open>Lemmas\<close>

lemma appendPending_length: "length q \<le> maxPendingSignals \<Longrightarrow> length (appendPending q e) \<le> maxPendingSignals"
  by (cases q) (auto simp: appendPending_def maxPendingSignals_def)

lemma appendPending_all: "P e \<Longrightarrow> \<forall>x \<in> set q. P x \<Longrightarrow> \<forall>x \<in> set (appendPending q e). P x"
  by (cases q) (auto simp: appendPending_def Let_def maxPendingSignals_def)

lemma appendPending_last: "appendPending (last_signals es) e = last_signals (es @ [e])"
proof (cases "length es < maxPendingSignals")
  case True
  then show ?thesis by (simp add: appendPending_def last_signals_def)
next
  case False
  then have "tl (drop (length es - maxPendingSignals) es) = drop (Suc (length es) - maxPendingSignals) es"
    by (simp add: tl_drop drop_Suc Suc_diff_le flip: drop_Suc)
  with False show ?thesis
    by (simp add: appendPending_def last_signals_def) (simp add: maxPendingSignals_def)
qed

lemma foldl_appendPending: "foldl appendPending (last_signals q) es = last_signals (q @ es)"
  by (induction es arbitrary: q) (simp_all add: appendPending_last)

lemma rooms_okD: "rooms_ok rooms \<Longrightarrow> map_of rooms sid = Some rm \<Longrightarrow> room_ok sid rm"
  by (auto simp: rooms_ok_def dest: map_of_SomeD)

lemma rooms_ok_update: "rooms_ok rooms \<Longrightarrow> room_ok sid rm \<Longrightarrow> rooms_ok (AList.update sid rm rooms)"
  by (auto simp: rooms_ok_def set_map_iff go_map split: if_splits)

lemma rooms_ok_delete: "rooms_ok rooms \<Longrightarrow> rooms_ok (AList.delete sid rooms)"
  by (auto simp: rooms_ok_def set_map_iff go_map split: if_splits)

lemma attach_ok:
  assumes "rooms_ok rooms" "role = RolePC \<or> role = RoleMobile"
  shows "rooms_ok (snd (attachConn sid role conn rooms))"
proof -
  have "room_ok sid (rm\<lparr>pcConn := Some conn, pendingForPC := []\<rparr>) \<and>
      room_ok sid (rm\<lparr>mobileConn := Some conn, pendingForMobile := []\<rparr>)"
    if "rm = (case map_of rooms sid of None \<Rightarrow> zero_room | Some rm \<Rightarrow> rm)" for rm
    using that rooms_okD [OF assms(1), of sid]
    by (cases "map_of rooms sid") (auto simp: room_ok_def zero_room_def)
  then show ?thesis
    using assms by (auto simp: attachConn_def Let_def intro!: rooms_ok_update)
qed

lemma detach_ok: "rooms_ok rooms \<Longrightarrow> rooms_ok (detachConn sid role conn rooms)"
  using rooms_okD [of rooms sid]
  by (auto simp: detachConn_def Let_def room_ok_def intro!: rooms_ok_update rooms_ok_delete split: option.split)

lemma route_ok:
  assumes "rooms_ok rooms" "role = RolePC \<or> role = RoleMobile" "validateSignalEnvelope sid role env = None"
  shows "rooms_ok (snd (forwardOrQueue_route sid role env rooms))"
proof (cases "map_of rooms sid")
  case (Some rm)
  note ok = rooms_okD [OF assms(1) Some]
  have "room_ok sid (rm\<lparr>pendingForMobile := appendPending (pendingForMobile rm) env\<rparr>)"
    if "mobileConn rm = None" "role = RolePC"
    using ok that assms(3) appendPending_all [of "\<lambda>e. validateSignalEnvelope sid RolePC e = None" env "pendingForMobile rm"]
    by (simp add: room_ok_def appendPending_length)
  moreover have "room_ok sid (rm\<lparr>pendingForPC := appendPending (pendingForPC rm) env\<rparr>)"
    if "pcConn rm = None" "role = RoleMobile"
    using ok that assms(3) appendPending_all [of "\<lambda>e. validateSignalEnvelope sid RoleMobile e = None" env "pendingForPC rm"]
    by (simp add: room_ok_def appendPending_length)
  ultimately show ?thesis
    using Some assms(1,2) by (auto simp: forwardOrQueue_route_def intro!: rooms_ok_update split: option.split)
qed (use assms in \<open>simp add: forwardOrQueue_route_def\<close>)

lemma forwardOrQueue_rooms: "snd (snd (forwardOrQueue werr sid role env rooms)) = snd (forwardOrQueue_route sid role env rooms)"
  by (auto simp: forwardOrQueue_def split: prod.split forward.split)

lemma turn_rooms:
  "snd (signaling_readLoop_turn now werr sid role conn env rooms) =
     (if Envelope_Validate env = None \<and> validateSignalEnvelope sid role env = None
      then snd (forwardOrQueue_route sid role env rooms) else rooms)"
  using forwardOrQueue_rooms [of werr sid role env rooms]
  by (auto simp: signaling_readLoop_turn_def split: prod.split option.split)

interpretation rooms: inductive_invariant "\<lambda>r. r = []" room_step rooms_ok
proof
  show "rooms_ok r" if "r = []" for r using that by (simp add: rooms_ok_def)
  show "rooms_ok r'" if "rooms_ok r" "room_step r r'" for r r'
    using that(2,1)
  proof cases
    case (step_connect role now sid conn)
    with attach_ok [OF that(1), of role sid conn] show ?thesis
      by (simp add: handleSessionWS_connect_def case_prod_beta Let_def)
  next
    case (step_turn role now werr sid conn env)
    with route_ok [OF that(1)] that(1) show ?thesis by (simp add: turn_rooms)
  next
    case (step_disconnect sid role conn)
    with detach_ok [OF that(1)] show ?thesis by simp
  qed
qed



section \<open>Properties\<close>

text \<open>
  In every interleaving of connections, messages and disconnections, every room has a
  peer in it, messages wait only for a peer that is away, at most 128 of them, and only
  messages that the other role may send to this session.
\<close>
theorem rooms_invariant:
  assumes "reach (\<lambda>r. r = []) room_step rooms"
  shows "rooms_ok rooms"
  using assms by (rule rooms.reach_inv)


text \<open>
  C29: A peer cannot act as the other one or reach another session: whatever a message from a
  connection makes the server write to some other connection is that message itself, it
  carries the id of the session, it has a type that the role may send (offers and candidates
  from the PC, answers and candidates from the mobile device), and it goes to the connection
  of the other role in the same room.
\<close>
theorem signaling_isolation:
  assumes "(target, out) \<in> set (fst (signaling_readLoop_turn now werr sid role conn env rooms))" "target \<noteq> conn"
  shows "out = env \<and> SID out = sid \<and>
    (\<exists>rm. map_of rooms sid = Some rm \<and>
      (role = RolePC \<and> Type out \<in> {TypeSignalOffer, TypeSignalICE} \<and> mobileConn rm = Some target \<or>
       role = RoleMobile \<and> Type out \<in> {TypeSignalAnswer, TypeSignalICE} \<and> pcConn rm = Some target))"
proof -
  have ack: "(target, out) \<notin> set (sendServerAck a b c sid conn rid acc msg)" for a b c rid acc msg
    using assms(2) by (auto simp: sendServerAck_def split: sum.split)
  from assms(1) have v: "validateSignalEnvelope sid role env = None"
    and f: "(target, out) \<in> set (fst (snd (forwardOrQueue werr sid role env rooms)))"
    using ack by (auto simp: signaling_readLoop_turn_def split: option.splits prod.splits)
  from v have t: "SID env = sid" "validateSignalType role (Type env) = None"
    by (auto simp: validateSignalEnvelope_def split: if_splits option.splits)
  from f t show ?thesis
    by (auto simp: forwardOrQueue_def forwardOrQueue_route_def validateSignalType_def
        split: option.splits if_splits forward.splits prod.splits)
qed

text \<open>
  Replacing a connection is safe: when a role reconnects and the clean-up of its old
  connection runs later, the room keeps the new connection and the other peer.
\<close>
theorem stale_detach_keeps_room:
  assumes "role = RolePC \<or> role = RoleMobile" "old \<noteq> new"
    and "rooms1 = snd (attachConn sid role new rooms)"
  shows "map_of (detachConn sid role old rooms1) = map_of rooms1"
  using assms by (auto simp: fun_eq_iff attachConn_def detachConn_def Let_def go_map)

text \<open>
  C25: The WebSocket endpoint lets in only holders of an issued key: whatever the query says, a
  connection is accepted for a session and a role only if the key is the PC key of a live
  pairing of that session (role pc) or the mobile key of one that was claimed (role mobile),
  and the role that was asked for, if any, is that role.
\<close>
theorem session_socket_authenticated:
  assumes "reach store_init store_step s"
    and "handleSessionWS_request path deviceKey roleQuery now s = Inr (sid, role)"
  shows "\<exists>p \<in> set (psHeap s). pgSessionID p = sid \<and> now \<le> pgExpiresAt p \<and>
    (role = RolePC \<and> strings_TrimSpace deviceKey = pgPCDeviceKey p \<or>
     role = RoleMobile \<and> strings_TrimSpace deviceKey = pgMobileDeviceKey p \<and> pgClaimed p) \<and>
    strings_TrimSpace roleQuery \<in> {[], role}"
proof -
  from assms(2) have k: "strings_TrimSpace deviceKey \<noteq> []"
    and v: "ValidateSessionKey now sid (strings_TrimSpace deviceKey) s = Some role"
    and r: "strings_TrimSpace roleQuery \<in> {[], role}"
    by (auto simp: handleSessionWS_request_def Let_def split: if_splits option.splits)
  from validate_sound [OF pairing.reach_inv [OF assms(1)] v] k r show ?thesis by blast
qed

text \<open>
  The claim endpoint reports each outcome with its status: 200 with the session and the
  mobile key exactly for a claim that succeeds, 404 for an unknown code, 409 for one that
  expired or is already claimed, 500 when the random source fails (with an error of its own); and the code of the path
  is the code that is claimed.
\<close>
theorem claim_endpoint_statuses:
  assumes "code \<noteq> []" "CHR ''/'' \<notin> set code"
    and "ClaimPairing now rnd code s = (res, s')"
    and "case rnd of Inl e \<Rightarrow> \<not> errors_Is e ErrPairingNotFound \<and> \<not> errors_Is e ErrPairingExpired
           \<and> \<not> errors_Is e ErrPairingClaimed | Inr b \<Rightarrow> True"
  shows "handlePairingClaim ''POST'' (''/v1/pairings/'' @ code @ ''/claim'') now rnd s =
    ((case res of
        Inr p \<Rightarrow> (200, JObj [(''sessionId'', enc_string (pgSessionID p)),
                   (''mobileDeviceKey'', enc_string (pgMobileDeviceKey p)),
                   (''expiresAt'', JInt (UnixMilli (pgExpiresAt p)))])
      | Inl err \<Rightarrow> (if err = ErrPairingNotFound then 404
                   else if err = ErrPairingExpired \<or> err = ErrPairingClaimed then 409 else 500,
                   error_json (Error err))), s')"
proof -
  have seg: "path_segments (CHR ''/'' # strings_Join (''v1'' # [''pairings'', code] @ [''claim'']) ''/'')
      = ''v1'' # [''pairings'', code] @ [''claim'']"
    by (rule path_segments_build) (use assms in auto)
  have "res = Inl e \<Longrightarrow>
      (errors_Is e ErrPairingNotFound \<longleftrightarrow> e = ErrPairingNotFound) \<and>
      (errors_Is e ErrPairingExpired \<longleftrightarrow> e = ErrPairingExpired) \<and>
      (errors_Is e ErrPairingClaimed \<longleftrightarrow> e = ErrPairingClaimed)" for e
    using assms(3,4) by (cases rule: ClaimPairing_cases [of s code now rnd])
      (auto simp: ErrPairingNotFound_def ErrPairingExpired_def ErrPairingClaimed_def)
  with seg assms show ?thesis
    by (auto simp: handlePairingClaim_def writeJSON_def split: sum.split)
qed

section \<open>Witnesses\<close>

theorem rooms_invariant_witness:
  "rooms_ok (snd (handleSessionWS_connect Second ''s1'' RolePC 1 []))"
proof -
  have "reach (\<lambda>r. r = []) room_step (snd (handleSessionWS_connect Second ''s1'' RolePC 1 []))"
    by (rule reach_step [where s = "[]"], rule reach_init) (simp_all add: step_connect)
  then show ?thesis by (rule rooms_invariant)
qed


theorem signaling_isolation_witness:
  "(2, ex_offer) \<in> set (fst (signaling_readLoop_turn Second (\<lambda>c. None) ''s1'' RolePC 1 ex_offer
      [(''s1'', ex_room\<lparr>mobileConn := Some 2\<rparr>)])) \<and> SID ex_offer = ''s1''"
proof -
  have o: "Envelope_Validate ex_offer = None" "validateSignalEnvelope ''s1'' RolePC ex_offer = None" by code_simp+
  have "(2, ex_offer) \<in> set (fst (signaling_readLoop_turn Second (\<lambda>c. None) ''s1'' RolePC 1 ex_offer
      [(''s1'', ex_room\<lparr>mobileConn := Some 2\<rparr>)]))"
    by (simp add: signaling_readLoop_turn_def o forwardOrQueue_def forwardOrQueue_route_def ex_room_def)
  from this signaling_isolation [OF this] show ?thesis by simp
qed

theorem stale_detach_keeps_room_witness:
  "map_of (detachConn ''s1'' RolePC 1 (snd (attachConn ''s1'' RolePC 3 [(''s1'', ex_room)]))) ''s1''
     = Some (ex_room\<lparr>pcConn := Some 3\<rparr>)"
  using stale_detach_keeps_room [of RolePC 1 3 _ "''s1''" "[(''s1'', ex_room)]", OF _ _ refl]
  by (simp add: attachConn_def ex_room_def Let_def)

theorem session_socket_authenticated_witness:
  "\<exists>p \<in> set (psHeap ex_store). pgSessionID p = ex_sid \<and> ex_key = pgPCDeviceKey p"
proof -
  have st: "store_step (NewStore Minute) ex_store"
    unfolding ex_store_def by (rule step_Create) (simp_all add: range_order_def NewStore_def map_keys_def rnd_ok_def)
  have r: "reach store_init store_step ex_store"
    by (rule reach_step [where s = "NewStore Minute"], rule reach_init) (auto simp: store_init_def st)
  have "handleSessionWS_request (''/v1/sessions/'' @ ex_sid @ ''/ws'') ex_key [] 5 ex_store = Inr (ex_sid, RolePC)"
    "strings_TrimSpace ex_key = ex_key"
    by code_simp+
  from session_socket_authenticated [OF r this(1)] this(2) show ?thesis by auto
qed

theorem claim_endpoint_statuses_witness:
  "fst (fst (handlePairingClaim ''POST'' (''/v1/pairings/'' @ ''ABC'' @ ''/claim'') 0 (Inr ''x'') (NewStore Minute))) = 404"
  using claim_endpoint_statuses [of "''ABC''" 0 "Inr ''x''" "NewStore Minute" "Inl ErrPairingNotFound" "NewStore Minute"]
  by (simp add: ClaimPairing_def NewStore_def Let_def)

end
