(* ===== verification/Thread_Json.thy ===== *)
theory Thread_Json
  imports Go_Json
begin

text \<open>
  The structs of \<open>internal/agent/thread_store.go\<close> with their JSON encoding: what the HTTP API
  returns and what the snapshot on disk holds. The \<open>data\<close> of an event is a \<open>map[string]any\<close>; it
  is represented by its association list in the order of the keys, in which \<open>encoding/json\<close>
  writes it, or \<open>None\<close> for the nil map. A value of type \<open>any\<close> is the tree that it is marshalled
  to, with its strings as they are in memory.
\<close>

section \<open>Values of type any\<close>

type_synonym data = "(string \<times> json) list option"

fun any_json :: "json \<Rightarrow> json" and any_elems :: "json list \<Rightarrow> json list"
    and any_fields :: "(string \<times> json) list \<Rightarrow> (string \<times> json) list" where
  "any_json (JStr s) = enc_string s"
| "any_json (JArr js) = JArr (any_elems js)"
| "any_json (JObj kvs) = JObj (any_fields kvs)"
| "any_json JNull = JNull"
| "any_json (JBool b) = JBool b"
| "any_json (JInt i) = JInt i"
| "any_json (JFrac s) = JFrac s"
| "any_elems [] = []"
| "any_elems (j # js) = any_json j # any_elems js"
| "any_fields [] = []"
| "any_fields ((k, v) # kvs) = (toValidUTF8 k, any_json v) # any_fields kvs"

text \<open>A map literal of the sources.\<close>

definition map_literal :: "(string \<times> json) list \<Rightarrow> data" where
  "map_literal kvs = Some (sort_by (\<lambda>a b. fst a < fst b) kvs)"

definition omit_data :: "string \<Rightarrow> data \<Rightarrow> (string \<times> json) list" where
  "omit_data k d = (case d of None \<Rightarrow> [] | Some kvs \<Rightarrow>
     if kvs = [] then [] else [(k, JObj (any_fields kvs))])"

definition decode_data :: "json \<Rightarrow> data \<Rightarrow> data result" where
  "decode_data j cur =
     (case j of
        JNull \<Rightarrow> Inr None
      | JObj kvs \<Rightarrow> Inr (Some (fold (\<lambda>(k, v) m. AList.update k v m) kvs
                        (case cur of None \<Rightarrow> [] | Some m \<Rightarrow> m)))
      | _ \<Rightarrow> Inl json_error)"

text \<open>
  The data that survives a round trip: not the empty map (which is omitted), distinct keys,
  and values whose strings are valid UTF-8.
\<close>

definition data_ok :: "data \<Rightarrow> bool" where
  "data_ok d \<longleftrightarrow> (case d of None \<Rightarrow> True | Some kvs \<Rightarrow>
     kvs \<noteq> [] \<and> distinct (map fst kvs) \<and> any_fields kvs = kvs)"

section \<open>Structs\<close>

record ThreadSummary =
  tsmID :: string
  tsmSessionID :: string
  tsmTitle :: string
  tsmState :: string
  tsmCurrentJobID :: string
  tsmLastEventKind :: string
  tsmLastEventText :: string
  tsmUpdatedAt :: int

definition zero_ThreadSummary :: ThreadSummary where
  "zero_ThreadSummary = \<lparr>tsmID = [], tsmSessionID = [], tsmTitle = [], tsmState = [], tsmCurrentJobID = [], tsmLastEventKind = [], tsmLastEventText = [], tsmUpdatedAt = 0\<rparr>"

definition ThreadSummary_json :: "ThreadSummary \<Rightarrow> json" where
  "ThreadSummary_json p = JObj
    ([(''id'', enc_string (tsmID p))] @
     omit_string ''sessionId'' (tsmSessionID p) @
     [(''title'', enc_string (tsmTitle p))] @
     omit_string ''state'' (tsmState p) @
     omit_string ''currentJobId'' (tsmCurrentJobID p) @
     omit_string ''lastEventKind'' (tsmLastEventKind p) @
     omit_string ''lastEventText'' (tsmLastEventText p) @
     [(''updatedAt'', JInt (tsmUpdatedAt p))])"

definition ThreadSummary_names :: "string list" where
  "ThreadSummary_names = [''id'', ''sessionId'', ''title'', ''state'', ''currentJobId'', ''lastEventKind'', ''lastEventText'', ''updatedAt'']"

definition ThreadSummary_put :: "string \<Rightarrow> json \<Rightarrow> ThreadSummary \<Rightarrow> ThreadSummary result" where
  "ThreadSummary_put f v p =
     (if f = ''id'' then map_result (\<lambda>x. p\<lparr>tsmID := x\<rparr>) (decode_string v (tsmID p))
      else if f = ''sessionId'' then map_result (\<lambda>x. p\<lparr>tsmSessionID := x\<rparr>) (decode_string v (tsmSessionID p))
      else if f = ''title'' then map_result (\<lambda>x. p\<lparr>tsmTitle := x\<rparr>) (decode_string v (tsmTitle p))
      else if f = ''state'' then map_result (\<lambda>x. p\<lparr>tsmState := x\<rparr>) (decode_string v (tsmState p))
      else if f = ''currentJobId'' then map_result (\<lambda>x. p\<lparr>tsmCurrentJobID := x\<rparr>) (decode_string v (tsmCurrentJobID p))
      else if f = ''lastEventKind'' then map_result (\<lambda>x. p\<lparr>tsmLastEventKind := x\<rparr>) (decode_string v (tsmLastEventKind p))
      else if f = ''lastEventText'' then map_result (\<lambda>x. p\<lparr>tsmLastEventText := x\<rparr>) (decode_string v (tsmLastEventText p))
      else map_result (\<lambda>x. p\<lparr>tsmUpdatedAt := x\<rparr>) (decode_int v (tsmUpdatedAt p)))"

definition ThreadSummary_unjson :: "json \<Rightarrow> ThreadSummary result" where
  "ThreadSummary_unjson j = decode_struct ThreadSummary_names ThreadSummary_put j zero_ThreadSummary"

definition ThreadSummary_ok :: "ThreadSummary \<Rightarrow> bool" where
  "ThreadSummary_ok p \<longleftrightarrow> valid_utf8 (tsmID p) \<and>
     valid_utf8 (tsmSessionID p) \<and>
     valid_utf8 (tsmTitle p) \<and>
     valid_utf8 (tsmState p) \<and>
     valid_utf8 (tsmCurrentJobID p) \<and>
     valid_utf8 (tsmLastEventKind p) \<and>
     valid_utf8 (tsmLastEventText p) \<and>
     minInt64 \<le> tsmUpdatedAt p \<and> tsmUpdatedAt p \<le> maxInt64"

record ThreadEvent =
  tevID :: string
  tevThreadID :: string
  tevJobID :: string
  tevKind :: string
  tevRole :: string
  tevTitle :: string
  tevBody :: string
  tevData :: data
  tevAt :: int

definition zero_ThreadEvent :: ThreadEvent where
  "zero_ThreadEvent = \<lparr>tevID = [], tevThreadID = [], tevJobID = [], tevKind = [], tevRole = [], tevTitle = [], tevBody = [], tevData = None, tevAt = 0\<rparr>"

definition ThreadEvent_json :: "ThreadEvent \<Rightarrow> json" where
  "ThreadEvent_json p = JObj
    ([(''id'', enc_string (tevID p)), (''threadId'', enc_string (tevThreadID p))] @
     omit_string ''jobId'' (tevJobID p) @
     [(''kind'', enc_string (tevKind p)), (''role'', enc_string (tevRole p)), (''title'', enc_string (tevTitle p))] @
     omit_string ''body'' (tevBody p) @
     omit_data ''data'' (tevData p) @
     [(''at'', JInt (tevAt p))])"

definition ThreadEvent_names :: "string list" where
  "ThreadEvent_names = [''id'', ''threadId'', ''jobId'', ''kind'', ''role'', ''title'', ''body'', ''data'', ''at'']"

definition ThreadEvent_put :: "string \<Rightarrow> json \<Rightarrow> ThreadEvent \<Rightarrow> ThreadEvent result" where
  "ThreadEvent_put f v p =
     (if f = ''id'' then map_result (\<lambda>x. p\<lparr>tevID := x\<rparr>) (decode_string v (tevID p))
      else if f = ''threadId'' then map_result (\<lambda>x. p\<lparr>tevThreadID := x\<rparr>) (decode_string v (tevThreadID p))
      else if f = ''jobId'' then map_result (\<lambda>x. p\<lparr>tevJobID := x\<rparr>) (decode_string v (tevJobID p))
      else if f = ''kind'' then map_result (\<lambda>x. p\<lparr>tevKind := x\<rparr>) (decode_string v (tevKind p))
      else if f = ''role'' then map_result (\<lambda>x. p\<lparr>tevRole := x\<rparr>) (decode_string v (tevRole p))
      else if f = ''title'' then map_result (\<lambda>x. p\<lparr>tevTitle := x\<rparr>) (decode_string v (tevTitle p))
      else if f = ''body'' then map_result (\<lambda>x. p\<lparr>tevBody := x\<rparr>) (decode_string v (tevBody p))
      else if f = ''data'' then map_result (\<lambda>x. p\<lparr>tevData := x\<rparr>) (decode_data v (tevData p))
      else map_result (\<lambda>x. p\<lparr>tevAt := x\<rparr>) (decode_int v (tevAt p)))"

definition ThreadEvent_unjson :: "json \<Rightarrow> ThreadEvent result" where
  "ThreadEvent_unjson j = decode_struct ThreadEvent_names ThreadEvent_put j zero_ThreadEvent"

definition ThreadEvent_ok :: "ThreadEvent \<Rightarrow> bool" where
  "ThreadEvent_ok p \<longleftrightarrow> valid_utf8 (tevID p) \<and>
     valid_utf8 (tevThreadID p) \<and>
     valid_utf8 (tevJobID p) \<and>
     valid_utf8 (tevKind p) \<and>
     valid_utf8 (tevRole p) \<and>
     valid_utf8 (tevTitle p) \<and>
     valid_utf8 (tevBody p) \<and>
     data_ok (tevData p) \<and>
     minInt64 \<le> tevAt p \<and> tevAt p \<le> maxInt64"

record ThreadDetail =
  tdtThread :: ThreadSummary
  tdtEvents :: "ThreadEvent list"

definition zero_ThreadDetail :: ThreadDetail where
  "zero_ThreadDetail = \<lparr>tdtThread = zero_ThreadSummary, tdtEvents = []\<rparr>"

definition ThreadDetail_json :: "ThreadDetail \<Rightarrow> json" where
  "ThreadDetail_json p = JObj
    ([(''thread'', ThreadSummary_json (tdtThread p)),
      (''events'', JArr (map ThreadEvent_json (tdtEvents p)))])"

definition ThreadDetail_names :: "string list" where
  "ThreadDetail_names = [''thread'', ''events'']"

definition ThreadDetail_put :: "string \<Rightarrow> json \<Rightarrow> ThreadDetail \<Rightarrow> ThreadDetail result" where
  "ThreadDetail_put f v p =
     (if f = ''thread'' then map_result (\<lambda>x. p\<lparr>tdtThread := x\<rparr>) (decode_struct ThreadSummary_names ThreadSummary_put v (tdtThread p))
      else map_result (\<lambda>x. p\<lparr>tdtEvents := x\<rparr>) (decode_list ThreadEvent_unjson v))"

definition ThreadDetail_unjson :: "json \<Rightarrow> ThreadDetail result" where
  "ThreadDetail_unjson j = decode_struct ThreadDetail_names ThreadDetail_put j zero_ThreadDetail"

definition ThreadDetail_ok :: "ThreadDetail \<Rightarrow> bool" where
  "ThreadDetail_ok p \<longleftrightarrow> ThreadSummary_ok (tdtThread p) \<and>
     (\<forall>x \<in> set (tdtEvents p). ThreadEvent_ok x)"

record threadStoreSnapshot =
  tssVersion :: int
  tssSavedAt :: int
  tssThreads :: "ThreadDetail list"

definition zero_threadStoreSnapshot :: threadStoreSnapshot where
  "zero_threadStoreSnapshot = \<lparr>tssVersion = 0, tssSavedAt = 0, tssThreads = []\<rparr>"

definition threadStoreSnapshot_json :: "threadStoreSnapshot \<Rightarrow> json" where
  "threadStoreSnapshot_json p = JObj
    ([(''version'', JInt (tssVersion p)),
      (''savedAt'', JInt (tssSavedAt p)),
      (''threads'', JArr (map ThreadDetail_json (tssThreads p)))])"

definition threadStoreSnapshot_names :: "string list" where
  "threadStoreSnapshot_names = [''version'', ''savedAt'', ''threads'']"

definition threadStoreSnapshot_put :: "string \<Rightarrow> json \<Rightarrow> threadStoreSnapshot \<Rightarrow> threadStoreSnapshot result" where
  "threadStoreSnapshot_put f v p =
     (if f = ''version'' then map_result (\<lambda>x. p\<lparr>tssVersion := x\<rparr>) (decode_int v (tssVersion p))
      else if f = ''savedAt'' then map_result (\<lambda>x. p\<lparr>tssSavedAt := x\<rparr>) (decode_int v (tssSavedAt p))
      else map_result (\<lambda>x. p\<lparr>tssThreads := x\<rparr>) (decode_list ThreadDetail_unjson v))"

definition threadStoreSnapshot_unjson :: "json \<Rightarrow> threadStoreSnapshot result" where
  "threadStoreSnapshot_unjson j = decode_struct threadStoreSnapshot_names threadStoreSnapshot_put j zero_threadStoreSnapshot"

definition threadStoreSnapshot_ok :: "threadStoreSnapshot \<Rightarrow> bool" where
  "threadStoreSnapshot_ok p \<longleftrightarrow> minInt64 \<le> tssVersion p \<and> tssVersion p \<le> maxInt64 \<and>
     minInt64 \<le> tssSavedAt p \<and> tssSavedAt p \<le> maxInt64 \<and>
     (\<forall>x \<in> set (tssThreads p). ThreadDetail_ok x)"

section \<open>Round trips\<close>

lemma fold_update_distinct:
  "distinct (map fst (m @ kvs)) \<Longrightarrow> fold (\<lambda>(k, v) m. AList.update k v m) kvs m = m @ kvs"
proof (induction kvs arbitrary: m)
  case (Cons kv kvs)
  obtain k v where kv: "kv = (k, v)" by (cases kv)
  have "k \<notin> fst ` set m \<Longrightarrow> AList.update k v m = m @ [(k, v)]" by (induction m) auto
  moreover have "k \<notin> fst ` set m" using Cons.prems kv by auto
  ultimately show ?case using Cons.IH [of "m @ [(k, v)]"] Cons.prems kv by simp
qed simp

lemma decode_data_ok [json_codec]:
  "data_ok (Some kvs) \<Longrightarrow> decode_data (JObj (any_fields kvs)) None = Inr (Some kvs)"
  using fold_update_distinct [of "[]" kvs] by (simp add: decode_data_def data_ok_def)

lemma omit_data_simps [json_codec]:
  "omit_data k None = []"
  "data_ok (Some kvs) \<Longrightarrow> omit_data k (Some kvs) = [(k, JObj (any_fields kvs))]"
  by (simp_all add: omit_data_def data_ok_def)

lemma ThreadSummary_dec_enc: "ThreadSummary_ok p \<Longrightarrow> ThreadSummary_unjson (ThreadSummary_json p) = Inr p"
  by (simp add: ThreadSummary_unjson_def ThreadSummary_json_def ThreadSummary_put_def ThreadSummary_names_def zero_ThreadSummary_def ThreadSummary_ok_def
      json_codec)

lemma ThreadEvent_dec_enc: "ThreadEvent_ok p \<Longrightarrow> ThreadEvent_unjson (ThreadEvent_json p) = Inr p"
  by (cases "tevData p") (simp_all add: ThreadEvent_unjson_def ThreadEvent_json_def ThreadEvent_put_def ThreadEvent_names_def zero_ThreadEvent_def ThreadEvent_ok_def
      json_codec)

lemma ThreadDetail_dec_enc: "ThreadDetail_ok p \<Longrightarrow> ThreadDetail_unjson (ThreadDetail_json p) = Inr p"
  by (simp add: ThreadDetail_unjson_def ThreadDetail_json_def ThreadDetail_put_def ThreadDetail_names_def zero_ThreadDetail_def ThreadDetail_ok_def
      json_codec ThreadSummary_dec_enc [unfolded ThreadSummary_unjson_def] ThreadEvent_dec_enc)

lemma threadStoreSnapshot_dec_enc: "threadStoreSnapshot_ok p \<Longrightarrow> threadStoreSnapshot_unjson (threadStoreSnapshot_json p) = Inr p"
  by (simp add: threadStoreSnapshot_unjson_def threadStoreSnapshot_json_def threadStoreSnapshot_put_def threadStoreSnapshot_names_def zero_threadStoreSnapshot_def threadStoreSnapshot_ok_def
      json_codec ThreadDetail_dec_enc)

text \<open>The snapshot of the store and the structs of the API are instances of the codec interface.\<close>

interpretation cThreadDetail: payload_codec ThreadDetail_json ThreadDetail_unjson ThreadDetail_ok
  by unfold_locales (rule ThreadDetail_dec_enc)

interpretation cSnapshot: payload_codec threadStoreSnapshot_json threadStoreSnapshot_unjson threadStoreSnapshot_ok
  by unfold_locales (rule threadStoreSnapshot_dec_enc)

end
