(* ===== verification/Thread_Store.thy ===== *)
theory Thread_Store
  imports Thread_Json
begin

text \<open>
  \<open>internal/agent/thread_store.go\<close>: conversation threads as append-only logs of events with a
  summary, the table from jobs to threads, and the snapshot on disk that is rewritten after
  every change. What the operations take from the outside world is in \<open>World\<close>: the readings of
  the clock, one after the other, the files, and what the file operations of each save return.
\<close>

section \<open>The outside world\<close>

text \<open>The content of a file: a JSON document, white space, or bytes that do not parse.\<close>

datatype file_content = FileJson json | FileBlank | FileGarbage

datatype save_fault = NoFault | FaultMkdir goerror | FaultWrite goerror | FaultRename goerror

record World =
  wClock :: "nat \<Rightarrow> instant"
  wTicks :: nat
  wFiles :: "(string, file_content) gomap"
  wFaults :: "nat \<Rightarrow> save_fault"
  wSaves :: nat

definition time_Now :: "World \<Rightarrow> instant \<times> World" where
  "time_Now w = (wClock w (wTicks w), w\<lparr>wTicks := Suc (wTicks w)\<rparr>)"

section \<open>Texts\<close>

text \<open>The Korean texts of the sources, as their UTF-8 bytes.\<close>

definition ko_new_thread :: string where
  "ko_new_thread =
     [CHR 0xEC, CHR 0x83, CHR 0x88, CHR 0x20, CHR 0xEC, CHR 0x8A, CHR 0xA4, CHR 0xEB, CHR 0xA0,
     CHR 0x88, CHR 0xEB, CHR 0x93, CHR 0x9C]"

definition ko_prompt_submitted :: string where
  "ko_prompt_submitted =
     [CHR 0xED, CHR 0x94, CHR 0x84, CHR 0xEB, CHR 0xA1, CHR 0xAC, CHR 0xED, CHR 0x94, CHR 0x84,
     CHR 0xED, CHR 0x8A, CHR 0xB8, CHR 0x20, CHR 0xEC, CHR 0xA0, CHR 0x9C, CHR 0xEC, CHR 0xB6,
     CHR 0x9C]"

definition ko_prompt_accepted :: string where
  "ko_prompt_accepted =
     [CHR 0xEC, CHR 0x9E, CHR 0x91, CHR 0xEC, CHR 0x97, CHR 0x85, CHR 0x20, CHR 0xEC, CHR 0x8B,
     CHR 0x9C, CHR 0xEC, CHR 0x9E, CHR 0x91]"

definition ko_patch_ready :: string where
  "ko_patch_ready =
     [CHR 0xED, CHR 0x8C, CHR 0xA8, CHR 0xEC, CHR 0xB9, CHR 0x98, CHR 0x20, CHR 0xEC, CHR 0xA4,
     CHR 0x80, CHR 0xEB, CHR 0xB9, CHR 0x84, CHR 0x20, CHR 0xEC, CHR 0x99, CHR 0x84, CHR 0xEB,
     CHR 0xA3, CHR 0x8C]"

definition ko_patch_apply_requested :: string where
  "ko_patch_apply_requested =
     [CHR 0xED, CHR 0x8C, CHR 0xA8, CHR 0xEC, CHR 0xB9, CHR 0x98, CHR 0x20, CHR 0xEC, CHR 0xA0,
     CHR 0x81, CHR 0xEC, CHR 0x9A, CHR 0xA9, CHR 0x20, CHR 0xEC, CHR 0x9A, CHR 0x94, CHR 0xEC,
     CHR 0xB2, CHR 0xAD]"

definition ko_patch_applied :: string where
  "ko_patch_applied =
     [CHR 0xED, CHR 0x8C, CHR 0xA8, CHR 0xEC, CHR 0xB9, CHR 0x98, CHR 0x20, CHR 0xEC, CHR 0xA0,
     CHR 0x81, CHR 0xEC, CHR 0x9A, CHR 0xA9, CHR 0x20, CHR 0xEA, CHR 0xB2, CHR 0xB0, CHR 0xEA,
     CHR 0xB3, CHR 0xBC]"

definition ko_run_requested :: string where
  "ko_run_requested =
     [CHR 0xEC, CHR 0x8B, CHR 0xA4, CHR 0xED, CHR 0x96, CHR 0x89, CHR 0x20, CHR 0xEC, CHR 0x9A,
     CHR 0x94, CHR 0xEC, CHR 0xB2, CHR 0xAD]"

definition ko_run_finished :: string where
  "ko_run_finished =
     [CHR 0xEC, CHR 0x8B, CHR 0xA4, CHR 0xED, CHR 0x96, CHR 0x89, CHR 0x20, CHR 0xEA, CHR 0xB2,
     CHR 0xB0, CHR 0xEA, CHR 0xB3, CHR 0xBC]"

section \<open>Helpers\<close>

fun first_nonblank :: "string list \<Rightarrow> string" where
  "first_nonblank [] = []"
| "first_nonblank (line # lines) =
     (let line = strings_TrimSpace line in if line \<noteq> [] then line else first_nonblank lines)"

definition firstLine :: "string \<Rightarrow> string" where
  "firstLine v = first_nonblank (strings_Split (crlf_to_lf v) LF)"

definition normalizeThreadTitle :: "string \<Rightarrow> string" where
  "normalizeThreadTitle title =
     (let title = strings_TrimSpace (firstLine title) in
      if title = [] then ko_new_thread
      else if length title > 72 then take 72 title
      else title)"

fun firstNonEmptyText :: "string list \<Rightarrow> string" where
  "firstNonEmptyText [] = []"
| "firstNonEmptyText (v # vs) =
     (let v = strings_TrimSpace v in
      if v \<noteq> [] then (if length v > 160 then take 160 v else v) else firstNonEmptyText vs)"

definition humanizeEventKind :: "string \<Rightarrow> string" where
  "humanizeEventKind kind =
     (if kind = ''prompt_submitted'' then ko_prompt_submitted
      else if kind = ''prompt_accepted'' then ko_prompt_accepted
      else if kind = ''patch_ready'' then ko_patch_ready
      else if kind = ''patch_apply_requested'' then ko_patch_apply_requested
      else if kind = ''patch_applied'' then ko_patch_applied
      else if kind = ''run_requested'' then ko_run_requested
      else if kind = ''run_finished'' then ko_run_finished
      else kind)"

definition valueFromData :: "data \<Rightarrow> string \<Rightarrow> string \<Rightarrow> string" where
  "valueFromData d key fallback =
     (case d of
        None \<Rightarrow> fallback
      | Some kvs \<Rightarrow>
          (case map_of kvs key of
             Some (JStr s) \<Rightarrow> (let s = strings_TrimSpace s in if s \<noteq> [] then s else fallback)
           | _ \<Rightarrow> fallback))"

text \<open>The copy of an event has a map of its own with the same entries.\<close>

definition cloneThreadEvent :: "ThreadEvent \<Rightarrow> ThreadEvent" where
  "cloneThreadEvent e = e"

section \<open>The store\<close>

record threadRecord =
  trSummary :: ThreadSummary
  trEvents :: "ThreadEvent list"

record ThreadStore =
  tstThreads :: "(string, threadRecord) gomap"
  tstJobToThread :: "(string, string) gomap"
  tstPath :: string

definition NewThreadStore :: ThreadStore where
  "NewThreadStore = \<lparr>tstThreads = [], tstJobToThread = [], tstPath = []\<rparr>"

definition record_detail :: "threadRecord \<Rightarrow> ThreadDetail" where
  "record_detail r = \<lparr>tdtThread = trSummary r, tdtEvents = map cloneThreadEvent (trEvents r)\<rparr>"

definition snapshotLocked :: "ThreadStore \<Rightarrow> World \<Rightarrow> threadStoreSnapshot \<times> World" where
  "snapshotLocked s w =
     (let threadIDs = sort_Strings (map_keys (tstThreads s));
          details = List.map_filter (\<lambda>i. map_option record_detail (map_of (tstThreads s) i)) threadIDs;
          (now, w) = time_Now w
      in (\<lparr>tssVersion = 1, tssSavedAt = UnixMilli now, tssThreads = details\<rparr>, w))"

text \<open>
  \<open>persistLocked\<close> step by step: the directory, the temporary file, the removal of the old
  snapshot, the renaming. A write that fails leaves an incomplete temporary file.
\<close>

definition tmp_path :: "string \<Rightarrow> string" where
  "tmp_path path = path @ ''.tmp''"

definition write_tmp :: "string \<Rightarrow> file_content \<Rightarrow> World \<Rightarrow> World" where
  "write_tmp path c w = w\<lparr>wFiles := AList.update (tmp_path path) c (wFiles w)\<rparr>"

definition remove_main :: "string \<Rightarrow> World \<Rightarrow> World" where
  "remove_main path w = w\<lparr>wFiles := AList.delete path (wFiles w)\<rparr>"

definition rename_tmp :: "string \<Rightarrow> World \<Rightarrow> World" where
  "rename_tmp path w =
     (case map_of (wFiles w) (tmp_path path) of
        None \<Rightarrow> w
      | Some c \<Rightarrow> w\<lparr>wFiles := AList.update path c (AList.delete (tmp_path path) (wFiles w))\<rparr>)"

definition persistLocked :: "ThreadStore \<Rightarrow> World \<Rightarrow> goerror option \<times> World" where
  "persistLocked s w =
     (let (snapshot, w) = snapshotLocked s w;
          doc = FileJson (threadStoreSnapshot_json snapshot);
          fault = wFaults w (wSaves w);
          w = w\<lparr>wSaves := Suc (wSaves w)\<rparr>
      in case fault of
           FaultMkdir err \<Rightarrow> (Some (ErrWrap ''mkdir thread store dir: '' err []), w)
         | FaultWrite err \<Rightarrow> (Some (ErrWrap ''write thread store tmp snapshot: '' err []),
             write_tmp (tstPath s) FileGarbage w)
         | FaultRename err \<Rightarrow> (Some (ErrWrap ''replace thread store snapshot: '' err []),
             remove_main (tstPath s) (write_tmp (tstPath s) doc w))
         | NoFault \<Rightarrow> (None, rename_tmp (tstPath s) (remove_main (tstPath s) (write_tmp (tstPath s) doc w))))"

definition persistLockedBestEffort :: "ThreadStore \<Rightarrow> World \<Rightarrow> World" where
  "persistLockedBestEffort s w = (if tstPath s = [] then w else snd (persistLocked s w))"

fun load_events :: "string \<Rightarrow> ThreadEvent list \<Rightarrow> (string, string) gomap \<Rightarrow> (string, string) gomap" where
  "load_events tid [] jobs = jobs"
| "load_events tid (e # es) jobs =
     load_events tid es (if tevJobID e \<noteq> [] then AList.update (tevJobID e) tid jobs else jobs)"

fun load_details :: "ThreadDetail list \<Rightarrow> ThreadStore \<Rightarrow> ThreadStore" where
  "load_details [] s = s"
| "load_details (d # ds) s =
     (let t = tdtThread d;
          jobs = load_events (tsmID t) (tdtEvents d) (tstJobToThread s);
          jobs = (if tsmCurrentJobID t \<noteq> [] then AList.update (tsmCurrentJobID t) (tsmID t) jobs else jobs)
      in load_details ds (s\<lparr>tstJobToThread := jobs,
           tstThreads := AList.update (tsmID t)
             \<lparr>trSummary = t, trEvents = map cloneThreadEvent (tdtEvents d)\<rparr> (tstThreads s)\<rparr>))"

text \<open>\<open>readErr\<close> is the error of \<open>os.ReadFile\<close> on a file that exists, if any.\<close>

definition loadFromDisk :: "goerror option \<Rightarrow> ThreadStore \<Rightarrow> World \<Rightarrow> ThreadStore result" where
  "loadFromDisk readErr s w =
     (if tstPath s = [] then Inr s
      else case map_of (wFiles w) (tstPath s) of
        None \<Rightarrow> Inr s
      | Some c \<Rightarrow>
          (case readErr of
             Some err \<Rightarrow> Inl (ErrWrap ''read thread store snapshot: '' err [])
           | None \<Rightarrow>
               (case c of
                  FileBlank \<Rightarrow> Inr s
                | FileGarbage \<Rightarrow> Inl (ErrWrap ''decode thread store snapshot: '' json_error [])
                | FileJson j \<Rightarrow>
                    (case threadStoreSnapshot_unjson j of
                       Inl err \<Rightarrow> Inl (ErrWrap ''decode thread store snapshot: '' err [])
                     | Inr snapshot \<Rightarrow>
                         Inr (load_details (tssThreads snapshot)
                           (s\<lparr>tstThreads := [], tstJobToThread := []\<rparr>))))))"

definition NewPersistentThreadStore :: "string \<Rightarrow> goerror option \<Rightarrow> World \<Rightarrow> ThreadStore result" where
  "NewPersistentThreadStore path readErr w =
     (let store = NewThreadStore\<lparr>tstPath := strings_TrimSpace path\<rparr> in
      if tstPath store = [] then Inr store else loadFromDisk readErr store w)"

definition ThreadStore_PersistencePath :: "ThreadStore \<Rightarrow> string" where
  "ThreadStore_PersistencePath s = tstPath s"

definition EnsureThread ::
    "string \<Rightarrow> string \<Rightarrow> string \<Rightarrow> ThreadStore \<Rightarrow> World \<Rightarrow> ThreadSummary \<times> ThreadStore \<times> World" where
  "EnsureThread threadID sessionID title s w =
     (let (t, w) = time_Now w; now = UnixMilli t;
          normalizedTitle = normalizeThreadTitle title;
          (threadID, w) = (if threadID = []
             then let (t, w) = time_Now w in (''thread_'' @ Itoa (UnixNano t), w) else (threadID, w))
      in case map_of (tstThreads s) threadID of
           None \<Rightarrow>
             let summary = zero_ThreadSummary\<lparr>tsmID := threadID, tsmSessionID := strings_TrimSpace sessionID,
                   tsmTitle := normalizedTitle, tsmState := ''draft'', tsmUpdatedAt := now\<rparr>;
                 s = s\<lparr>tstThreads := AList.update threadID \<lparr>trSummary = summary, trEvents = []\<rparr> (tstThreads s)\<rparr>
             in (summary, s, persistLockedBestEffort s w)
         | Some r \<Rightarrow>
             let m = trSummary r;
                 m = (if tsmTitle m = ko_new_thread \<and> normalizedTitle \<noteq> [] then m\<lparr>tsmTitle := normalizedTitle\<rparr> else m);
                 m = (if tsmSessionID m = [] \<and> strings_TrimSpace sessionID \<noteq> []
                      then m\<lparr>tsmSessionID := strings_TrimSpace sessionID\<rparr> else m);
                 m = m\<lparr>tsmUpdatedAt := now\<rparr>;
                 s = s\<lparr>tstThreads := AList.update threadID (r\<lparr>trSummary := m\<rparr>) (tstThreads s)\<rparr>
             in (m, s, persistLockedBestEffort s w))"

text \<open>The fields of an event that \<open>AppendEvent\<close> fills in, and what the event does to the summary.\<close>

definition complete_event :: "string \<Rightarrow> ThreadEvent \<Rightarrow> World \<Rightarrow> ThreadEvent \<times> World" where
  "complete_event threadID event w =
     (let (event, w) = (if tevID event = []
             then let (t, w) = time_Now w in (event\<lparr>tevID := ''evt_'' @ Itoa (UnixNano t)\<rparr>, w) else (event, w));
          event = (if tevThreadID event = [] then event\<lparr>tevThreadID := threadID\<rparr> else event);
          (event, w) = (if tevAt event = 0
             then let (t, w) = time_Now w in (event\<lparr>tevAt := UnixMilli t\<rparr>, w) else (event, w));
          event = (if tevTitle event = [] then event\<lparr>tevTitle := humanizeEventKind (tevKind event)\<rparr> else event)
      in (event, w))"

definition state_after :: "ThreadEvent \<Rightarrow> string \<Rightarrow> string" where
  "state_after event st =
     (if tevKind event = ''prompt_submitted'' then ''prompt_submitted''
      else if tevKind event = ''patch_ready'' then ''patch_ready''
      else if tevKind event = ''patch_applied'' then valueFromData (tevData event) ''status'' ''applied''
      else if tevKind event = ''run_finished'' then valueFromData (tevData event) ''status'' ''completed''
      else st)"

definition AppendEvent ::
    "string \<Rightarrow> ThreadEvent \<Rightarrow> ThreadStore \<Rightarrow> World \<Rightarrow> ThreadSummary result \<times> ThreadStore \<times> World" where
  "AppendEvent threadID event s w =
     (case map_of (tstThreads s) threadID of
        None \<Rightarrow> (Inl (ErrNew (''thread '' @ threadID @ '' not found'')), s, w)
      | Some r \<Rightarrow>
          let (event, w) = complete_event threadID event w;
              m = trSummary r;
              m = m\<lparr>tsmUpdatedAt := tevAt event, tsmLastEventKind := tevKind event,
                    tsmLastEventText := firstNonEmptyText [tevBody event, tevTitle event]\<rparr>;
              m = (if tevJobID event \<noteq> [] then m\<lparr>tsmCurrentJobID := tevJobID event\<rparr> else m);
              s = (if tevJobID event \<noteq> []
                   then s\<lparr>tstJobToThread := AList.update (tevJobID event) threadID (tstJobToThread s)\<rparr> else s);
              m = m\<lparr>tsmState := state_after event (tsmState m)\<rparr>;
              r = \<lparr>trSummary = m, trEvents = trEvents r @ [cloneThreadEvent event]\<rparr>;
              s = s\<lparr>tstThreads := AList.update threadID r (tstThreads s)\<rparr>
          in (Inr m, s, persistLockedBestEffort s w))"

definition AssignJob :: "string \<Rightarrow> string \<Rightarrow> ThreadStore \<Rightarrow> World \<Rightarrow> ThreadStore \<times> World" where
  "AssignJob threadID jobID s w =
     (if threadID = [] \<or> jobID = [] then (s, w)
      else let s = (case map_of (tstThreads s) threadID of
                      None \<Rightarrow> s
                    | Some r \<Rightarrow> s\<lparr>tstThreads := AList.update threadID
                        (r\<lparr>trSummary := (trSummary r)\<lparr>tsmCurrentJobID := jobID\<rparr>\<rparr>) (tstThreads s)\<rparr>);
               s = s\<lparr>tstJobToThread := AList.update jobID threadID (tstJobToThread s)\<rparr>
           in (s, persistLockedBestEffort s w))"

definition ThreadIDForJob :: "string \<Rightarrow> ThreadStore \<Rightarrow> string option" where
  "ThreadIDForJob jobID s = map_of (tstJobToThread s) jobID"

definition newer :: "ThreadSummary \<Rightarrow> ThreadSummary \<Rightarrow> bool" where
  "newer a b \<longleftrightarrow> (if tsmUpdatedAt a = tsmUpdatedAt b then tsmID a > tsmID b else tsmUpdatedAt a > tsmUpdatedAt b)"

definition ThreadStore_List :: "string list \<Rightarrow> ThreadStore \<Rightarrow> ThreadSummary list" where
  "ThreadStore_List order s =
     sort_by newer (List.map_filter (\<lambda>i. map_option trSummary (map_of (tstThreads s) i)) order)"

definition ThreadStore_Get :: "string \<Rightarrow> ThreadStore \<Rightarrow> ThreadDetail option" where
  "ThreadStore_Get threadID s = map_option record_detail (map_of (tstThreads s) threadID)"

end
