(* ===== verification/Thread_Log.thy ===== *)
theory Thread_Log
  imports Thread_Store
begin

text \<open>
  What the thread store guarantees: the summary of a thread is a function of its log, logs are
  append-only, the list is sorted, and the snapshot on disk restores the threads. A client
  sees a store through the locale \<open>event_log\<close>.
\<close>

section \<open>The interface\<close>

locale event_log =
  fixes append :: "'k \<Rightarrow> 'e \<Rightarrow> 's \<Rightarrow> 's" and log :: "'s \<Rightarrow> 'k \<Rightarrow> 'x list option"
    and stored :: "'k \<Rightarrow> 'e \<Rightarrow> 's \<Rightarrow> 'x"
  assumes append_log:
    "log (append k e s) k' = (if k' = k then map_option (\<lambda>l. l @ [stored k e s]) (log s k) else log s k')"
begin

lemma append_all_other: "k' \<noteq> k \<Longrightarrow> log (fold (append k) es s) k' = log s k'"
  by (induction es arbitrary: s) (simp_all add: append_log)

lemma append_all_length:
  "log s k = Some l \<Longrightarrow> \<exists>l'. log (fold (append k) es s) k = Some (l @ l') \<and> length l' = length es"
proof (induction es arbitrary: s l)
  case (Cons e es)
  have "log (append k e s) k = Some (l @ [stored k e s])" using Cons.prems by (simp add: append_log)
  from Cons.IH [OF this] show ?case by auto
qed simp

end

definition log_append :: "string \<Rightarrow> ThreadEvent \<Rightarrow> ThreadStore \<times> World \<Rightarrow> ThreadStore \<times> World" where
  "log_append tid e sw = snd (AppendEvent tid e (fst sw) (snd sw))"

definition log_of :: "ThreadStore \<times> World \<Rightarrow> string \<Rightarrow> ThreadEvent list option" where
  "log_of sw tid = map_option trEvents (map_of (tstThreads (fst sw)) tid)"

definition log_stored :: "string \<Rightarrow> ThreadEvent \<Rightarrow> ThreadStore \<times> World \<Rightarrow> ThreadEvent" where
  "log_stored tid e sw = fst (complete_event tid e (snd sw))"

section \<open>The invariant\<close>

text \<open>The state of a thread as a function of its events.\<close>

definition thread_state :: "ThreadEvent list \<Rightarrow> string" where
  "thread_state es = fold state_after es ''draft''"

definition last_kind :: "ThreadEvent list \<Rightarrow> string" where
  "last_kind es = (if es = [] then [] else tevKind (last es))"

definition last_text :: "ThreadEvent list \<Rightarrow> string" where
  "last_text es = (if es = [] then [] else firstNonEmptyText [tevBody (last es), tevTitle (last es)])"

definition record_ok :: "string \<Rightarrow> threadRecord \<Rightarrow> bool" where
  "record_ok k r \<longleftrightarrow>
     (let m = trSummary r; es = trEvents r in
      tsmID m = k \<and> k \<noteq> [] \<and> tsmState m = thread_state es \<and> tsmLastEventKind m = last_kind es \<and>
      tsmLastEventText m = last_text es \<and> length (tsmLastEventText m) \<le> 160 \<and>
      tsmTitle m \<noteq> [] \<and> length (tsmTitle m) \<le> 72 \<and>
      (\<forall>e \<in> set es. tevID e \<noteq> [] \<and> tevThreadID e \<noteq> []))"

definition thread_store_ok :: "ThreadStore \<Rightarrow> bool" where
  "thread_store_ok s \<longleftrightarrow>
     wf_map (tstThreads s) \<and> wf_map (tstJobToThread s) \<and>
     (\<forall>(k, r) \<in> set (tstThreads s). record_ok k r)"

inductive thread_step :: "ThreadStore \<times> World \<Rightarrow> ThreadStore \<times> World \<Rightarrow> bool" where
  step_Ensure: "thread_step (s, w) (snd (EnsureThread tid sid title s w))"
| step_Append: "thread_step (s, w) (snd (AppendEvent tid e s w))"
| step_Assign: "thread_step (s, w) (AssignJob tid job s w)"

definition thread_init :: "ThreadStore \<times> World \<Rightarrow> bool" where
  "thread_init sw \<longleftrightarrow> (\<exists>path w. sw = (NewThreadStore\<lparr>tstPath := path\<rparr>, w))"

text \<open>A thread names a job when it is the current one or an event belongs to it.\<close>

definition detail_names :: "ThreadDetail \<Rightarrow> string \<Rightarrow> bool" where
  "detail_names d job \<longleftrightarrow> job \<noteq> [] \<and>
     (tsmCurrentJobID (tdtThread d) = job \<or> (\<exists>e \<in> set (tdtEvents d). tevJobID e = job))"

definition detail_record :: "ThreadDetail \<Rightarrow> threadRecord" where
  "detail_record d = \<lparr>trSummary = tdtThread d, trEvents = tdtEvents d\<rparr>"

definition thread_names :: "ThreadStore \<Rightarrow> string \<Rightarrow> string \<Rightarrow> bool" where
  "thread_names s tid job \<longleftrightarrow> (case ThreadStore_Get tid s of None \<Rightarrow> False | Some d \<Rightarrow> detail_names d job)"

section \<open>Crashes\<close>

text \<open>The states of the disk at which a crash can interrupt a save, with the document it writes.\<close>

definition save_doc :: "ThreadStore \<Rightarrow> World \<Rightarrow> file_content" where
  "save_doc s w = FileJson (threadStoreSnapshot_json (fst (snapshotLocked s w)))"

definition crash_points :: "ThreadStore \<Rightarrow> World \<Rightarrow> World list" where
  "crash_points s w =
     (let p = tstPath s; w1 = write_tmp p (save_doc s w) w; w2 = remove_main p w1
      in [w, write_tmp p FileGarbage w, w1, w2, rename_tmp p w2])"

section \<open>An example\<close>

definition ex_world :: World where
  "ex_world = \<lparr>wClock = (\<lambda>n. 5000000 + int n), wTicks = 0, wFiles = [], wFaults = (\<lambda>n. NoFault), wSaves = 0\<rparr>"

definition ex_threads :: "ThreadStore \<times> World" where
  "ex_threads = snd (EnsureThread ''t1'' ''s1'' ''fix it'' NewThreadStore ex_world)"

definition ex_store1 :: ThreadStore where
  "ex_store1 = \<lparr>tstThreads = [(''t1'', \<lparr>trSummary = zero_ThreadSummary\<lparr>tsmID := ''t1'', tsmTitle := ''fix'', tsmState := ''draft''\<rparr>,
     trEvents = []\<rparr>)], tstJobToThread = [], tstPath = ''/t''\<rparr>"

section \<open>Lemmas\<close>

lemma map_clone [simp]: "map cloneThreadEvent es = es"
  by (simp add: cloneThreadEvent_def map_idI)

lemma thread_store_okD:
  "thread_store_ok s \<Longrightarrow> map_of (tstThreads s) k = Some r \<Longrightarrow> record_ok k r"
  by (auto simp: thread_store_ok_def dest: map_of_SomeD)

lemma thread_store_ok_update:
  assumes "thread_store_ok s" "record_ok k r" "wf_map js"
  shows "thread_store_ok (s\<lparr>tstThreads := AList.update k r (tstThreads s), tstJobToThread := js\<rparr>)"
  using assms by (auto simp: thread_store_ok_def set_map_iff go_map split: if_splits)

lemma thread_store_ok_threads:
  "thread_store_ok s \<Longrightarrow> record_ok k r \<Longrightarrow> thread_store_ok (s\<lparr>tstThreads := AList.update k r (tstThreads s)\<rparr>)"
  by (auto simp: thread_store_ok_def set_map_iff go_map split: if_splits)

lemma ko_new_thread_length: "ko_new_thread \<noteq> []" "length ko_new_thread \<le> 72"
  by (simp_all add: ko_new_thread_def)

lemma normalizeThreadTitle_ok: "normalizeThreadTitle t \<noteq> []" "length (normalizeThreadTitle t) \<le> 72"
  using ko_new_thread_length by (auto simp: normalizeThreadTitle_def Let_def)

lemma firstNonEmptyText_length: "length (firstNonEmptyText vs) \<le> 160"
  by (induction vs) (auto simp: Let_def)

lemma thread_state_snoc: "thread_state (es @ [e]) = state_after e (thread_state es)"
  by (simp add: thread_state_def)

lemma complete_event_simps:
  assumes "tid \<noteq> []"
  shows "tevID (fst (complete_event tid e w)) \<noteq> []" "tevThreadID (fst (complete_event tid e w)) \<noteq> []"
    "tevKind (fst (complete_event tid e w)) = tevKind e" "tevJobID (fst (complete_event tid e w)) = tevJobID e"
    "tevData (fst (complete_event tid e w)) = tevData e" "tevBody (fst (complete_event tid e w)) = tevBody e"
    "tevRole (fst (complete_event tid e w)) = tevRole e"
  using assms by (auto simp: complete_event_def Let_def time_Now_def)

text \<open>What \<open>AppendEvent\<close> does to the tables.\<close>

lemma AppendEvent_Some:
  assumes "map_of (tstThreads s) tid = Some r"
  obtains m where "fst (AppendEvent tid e s w) = Inr m"
    "tstThreads (fst (snd (AppendEvent tid e s w))) =
      AList.update tid \<lparr>trSummary = m, trEvents = trEvents r @ [fst (complete_event tid e w)]\<rparr> (tstThreads s)"
    "tstJobToThread (fst (snd (AppendEvent tid e s w))) =
      (if tevJobID (fst (complete_event tid e w)) \<noteq> []
       then AList.update (tevJobID (fst (complete_event tid e w))) tid (tstJobToThread s) else tstJobToThread s)"
    "tstPath (fst (snd (AppendEvent tid e s w))) = tstPath s"
    "m = (trSummary r)\<lparr>tsmUpdatedAt := tevAt (fst (complete_event tid e w)),
       tsmLastEventKind := tevKind (fst (complete_event tid e w)),
       tsmLastEventText := firstNonEmptyText [tevBody (fst (complete_event tid e w)), tevTitle (fst (complete_event tid e w))],
       tsmCurrentJobID := (if tevJobID (fst (complete_event tid e w)) \<noteq> []
         then tevJobID (fst (complete_event tid e w)) else tsmCurrentJobID (trSummary r)),
       tsmState := state_after (fst (complete_event tid e w)) (tsmState (trSummary r))\<rparr>"
  using assms that
  by (cases "complete_event tid e w"; cases "tevJobID (fst (complete_event tid e w)) = []")
     (auto simp: AppendEvent_def Let_def cloneThreadEvent_def)

lemma AppendEvent_None:
  "map_of (tstThreads s) tid = None \<Longrightarrow>
   AppendEvent tid e s w = (Inl (ErrNew (''thread '' @ tid @ '' not found'')), s, w)"
  by (simp add: AppendEvent_def)

lemma AppendEvent_ok:
  assumes "thread_store_ok s"
  shows "thread_store_ok (fst (snd (AppendEvent tid e s w)))"
proof (cases "map_of (tstThreads s) tid")
  case (Some r)
  let ?e = "fst (complete_event tid e w)"
  note ok = thread_store_okD [OF assms Some]
  have tid: "tid \<noteq> []" using ok by (simp add: record_ok_def Let_def)
  obtain m where m: "tstThreads (fst (snd (AppendEvent tid e s w))) =
      AList.update tid \<lparr>trSummary = m, trEvents = trEvents r @ [?e]\<rparr> (tstThreads s)"
    "tstJobToThread (fst (snd (AppendEvent tid e s w))) =
      (if tevJobID ?e \<noteq> [] then AList.update (tevJobID ?e) tid (tstJobToThread s) else tstJobToThread s)"
    "m = (trSummary r)\<lparr>tsmUpdatedAt := tevAt ?e, tsmLastEventKind := tevKind ?e,
       tsmLastEventText := firstNonEmptyText [tevBody ?e, tevTitle ?e],
       tsmCurrentJobID := (if tevJobID ?e \<noteq> [] then tevJobID ?e else tsmCurrentJobID (trSummary r)),
       tsmState := state_after ?e (tsmState (trSummary r))\<rparr>"
    by (rule AppendEvent_Some [OF Some, of e w])
  have "record_ok tid \<lparr>trSummary = m, trEvents = trEvents r @ [?e]\<rparr>"
    using ok complete_event_simps [OF tid, of e w] firstNonEmptyText_length [of "[tevBody ?e, tevTitle ?e]"]
    unfolding m(3) record_ok_def Let_def
    by (simp add: thread_state_snoc last_kind_def last_text_def del: firstNonEmptyText.simps)
  moreover have "wf_map (tstJobToThread (fst (snd (AppendEvent tid e s w))))"
    using assms by (simp add: m(2) thread_store_ok_def)
  ultimately show ?thesis
    using assms by (auto simp: thread_store_ok_def m(1) set_map_iff go_map split: if_splits)
qed (use assms in \<open>simp add: AppendEvent_None\<close>)

interpretation threads: event_log log_append log_of log_stored
proof
  fix k k' :: string and e :: ThreadEvent and sw :: "ThreadStore \<times> World"
  obtain s w where sw: "sw = (s, w)" by (cases sw)
  show "log_of (log_append k e sw) k' =
    (if k' = k then map_option (\<lambda>l. l @ [log_stored k e sw]) (log_of sw k) else log_of sw k')"
  proof (cases "map_of (tstThreads s) k")
    case None
    then show ?thesis by (simp add: sw log_of_def log_append_def AppendEvent_None)
  next
    case (Some r)
    obtain m where "tstThreads (fst (snd (AppendEvent k e s w))) =
      AList.update k \<lparr>trSummary = m, trEvents = trEvents r @ [fst (complete_event k e w)]\<rparr> (tstThreads s)"
      by (rule AppendEvent_Some [OF Some, of e w])
    with Some show ?thesis by (simp add: sw log_of_def log_append_def log_stored_def go_map)
  qed
qed


lemma record_ok_summary:
  assumes "record_ok k r" "tsmTitle m \<noteq> []" "length (tsmTitle m) \<le> 72"
    "tsmID m = tsmID (trSummary r)" "tsmState m = tsmState (trSummary r)"
    "tsmLastEventKind m = tsmLastEventKind (trSummary r)" "tsmLastEventText m = tsmLastEventText (trSummary r)"
  shows "record_ok k (r\<lparr>trSummary := m\<rparr>)"
  using assms by (auto simp: record_ok_def Let_def)

text \<open>What \<open>EnsureThread\<close> does: it creates an empty thread or touches the summary of an existing one.\<close>

lemma EnsureThread_cases:
  obtains (new) tid' where "map_of (tstThreads s) tid' = None" "tid' \<noteq> []" "tid \<noteq> [] \<Longrightarrow> tid' = tid"
    "\<exists>now. fst (EnsureThread tid sid title s w) = zero_ThreadSummary\<lparr>tsmID := tid', tsmSessionID := strings_TrimSpace sid,
       tsmTitle := normalizeThreadTitle title, tsmState := ''draft'', tsmUpdatedAt := now\<rparr>"
    "fst (snd (EnsureThread tid sid title s w)) = s\<lparr>tstThreads := AList.update tid'
       \<lparr>trSummary = fst (EnsureThread tid sid title s w), trEvents = []\<rparr> (tstThreads s)\<rparr>"
  | (old) tid' r where "map_of (tstThreads s) tid' = Some r" "tid \<noteq> [] \<Longrightarrow> tid' = tid"
    "fst (snd (EnsureThread tid sid title s w)) = s\<lparr>tstThreads := AList.update tid'
       (r\<lparr>trSummary := fst (EnsureThread tid sid title s w)\<rparr>) (tstThreads s)\<rparr>"
    "\<exists>now. fst (EnsureThread tid sid title s w) = (trSummary r)\<lparr>
       tsmTitle := (if tsmTitle (trSummary r) = ko_new_thread then normalizeThreadTitle title else tsmTitle (trSummary r)),
       tsmSessionID := (if tsmSessionID (trSummary r) = [] then strings_TrimSpace sid else tsmSessionID (trSummary r)),
       tsmUpdatedAt := now\<rparr>"
proof -
  define tid' where "tid' = (if tid = [] then ''thread_'' @ Itoa (UnixNano (wClock w (Suc (wTicks w)))) else tid)"
  have n: "normalizeThreadTitle title \<noteq> []" by (rule normalizeThreadTitle_ok)
  have t: "tid' \<noteq> []" "tid \<noteq> [] \<Longrightarrow> tid' = tid" by (simp_all add: tid'_def)
  show thesis
  proof (cases "map_of (tstThreads s) tid'")
    case None
    show thesis
      by (rule new [OF None t]) (use None in \<open>auto simp: EnsureThread_def Let_def time_Now_def tid'_def split: if_splits\<close>)
  next
    case (Some r)
    let ?m = "(trSummary r)\<lparr>
       tsmTitle := (if tsmTitle (trSummary r) = ko_new_thread then normalizeThreadTitle title else tsmTitle (trSummary r)),
       tsmSessionID := (if tsmSessionID (trSummary r) = [] then strings_TrimSpace sid else tsmSessionID (trSummary r)),
       tsmUpdatedAt := UnixMilli (wClock w (wTicks w))\<rparr>"
    have "fst (EnsureThread tid sid title s w) = ?m"
      by (rule ThreadSummary.equality)
        (use Some n in \<open>simp_all add: EnsureThread_def Let_def time_Now_def tid'_def split: if_splits\<close>)
    moreover have "fst (snd (EnsureThread tid sid title s w)) = s\<lparr>tstThreads := AList.update tid'
       (r\<lparr>trSummary := fst (EnsureThread tid sid title s w)\<rparr>) (tstThreads s)\<rparr>"
      using Some by (auto simp: EnsureThread_def Let_def time_Now_def tid'_def split: if_splits)
    ultimately show thesis using old [OF Some t(2)] by blast
  qed
qed

lemma EnsureThread_ok:
  assumes "thread_store_ok s"
  shows "thread_store_ok (fst (snd (EnsureThread tid sid title s w)))"
proof (cases rule: EnsureThread_cases [of s tid sid title w])
  case (new tid')
  then have "record_ok tid' \<lparr>trSummary = fst (EnsureThread tid sid title s w), trEvents = []\<rparr>"
    using normalizeThreadTitle_ok [of title]
    by (auto simp: record_ok_def zero_ThreadSummary_def thread_state_def last_kind_def last_text_def)
  with new assms show ?thesis by (simp add: thread_store_ok_threads)
next
  case (old tid' r)
  note ok = thread_store_okD [OF assms old(1)]
  have "record_ok tid' (r\<lparr>trSummary := fst (EnsureThread tid sid title s w)\<rparr>)"
    by (rule record_ok_summary [OF ok])
      (use old(4) ok normalizeThreadTitle_ok [of title] in \<open>auto simp: record_ok_def Let_def split: if_splits\<close>)
  with old assms show ?thesis by (simp add: thread_store_ok_threads)
qed

lemma AssignJob_ok:
  assumes "thread_store_ok s"
  shows "thread_store_ok (fst (AssignJob tid job s w))"
proof (cases "map_of (tstThreads s) tid")
  case None
  with assms show ?thesis by (auto simp: AssignJob_def Let_def thread_store_ok_def)
next
  case (Some r)
  have "record_ok tid (r\<lparr>trSummary := (trSummary r)\<lparr>tsmCurrentJobID := job\<rparr>\<rparr>)"
    by (rule record_ok_summary [OF thread_store_okD [OF assms Some]])
      (use thread_store_okD [OF assms Some] in \<open>auto simp: record_ok_def Let_def\<close>)
  with Some assms show ?thesis
    by (auto simp: AssignJob_def Let_def intro!: thread_store_ok_update) (simp add: thread_store_ok_def)
qed

interpretation thread_inv: inductive_invariant thread_init thread_step "\<lambda>sw. thread_store_ok (fst sw)"
proof
  show "thread_store_ok (fst sw)" if "thread_init sw" for sw
    using that by (auto simp: thread_init_def NewThreadStore_def thread_store_ok_def)
  show "thread_store_ok (fst sw')" if "thread_store_ok (fst sw)" "thread_step sw sw'" for sw sw'
    using that(2,1) by cases (auto simp: EnsureThread_ok AppendEvent_ok AssignJob_ok)
qed

subsection \<open>The list\<close>

lemma newer_strict_order:
  assumes "thread_store_ok s"
  shows "strict_order_on {m. \<exists>k r. map_of (tstThreads s) k = Some r \<and> m = trSummary r} newer"
proof -
  have key: "tsmID (trSummary r) = k" if "map_of (tstThreads s) k = Some r" for k r
    using thread_store_okD [OF assms that] by (simp add: record_ok_def Let_def)
  have "m = m'" if "map_of (tstThreads s) k = Some r" "m = trSummary r" "map_of (tstThreads s) k' = Some r'"
      "m' = trSummary r'" "tsmID m = tsmID m'" for m m' k k' r r'
    using that key by (metis option.inject)
  then show ?thesis unfolding strict_order_on_def newer_def
    by (auto split: if_splits) (metis linorder_neqE)+
qed


lemma map_filter_keys:
  assumes "wf_map m" "range_order ks m"
  shows "List.map_filter (\<lambda>i. map_option f (map_of m i)) ks = map (\<lambda>i. f (the (map_of m i))) ks"
proof -
  have "\<forall>k \<in> set ks. map_of m k \<noteq> None" using range_order_iff [OF assms(2)] by blast
  then show ?thesis by (induction ks) (auto simp: List.map_filter_simps)
qed

lemma List_entries:
  assumes "wf_map m" "range_order ks m"
  shows "mset (map (\<lambda>i. f (the (map_of m i))) ks) = mset (map (f \<circ> snd) m)"
proof -
  have "mset ks = mset (map_keys m)" using assms by (metis range_order_def wf_map_def set_eq_iff_mset_eq_distinct)
  then have "mset (map (\<lambda>i. f (the (map_of m i))) ks) = mset (map (\<lambda>i. f (the (map_of m i))) (map_keys m))"
    by (simp only: mset_map)
  also have "map (\<lambda>i. f (the (map_of m i))) (map_keys m) = map (f \<circ> snd) m"
    using assms(1) by (auto simp: map_keys_def wf_map_def)
  finally show ?thesis .
qed

subsection \<open>Save and load\<close>

lemma load_events_spec:
  "map_of (load_events tid es jobs) j =
     (if j \<noteq> [] \<and> (\<exists>e \<in> set es. tevJobID e = j) then Some tid else map_of jobs j)"
  by (induction es arbitrary: jobs) (auto simp: go_map)

lemma load_details_path [simp]: "tstPath (load_details ds s) = tstPath s"
  by (induction ds arbitrary: s) (simp_all add: Let_def)

lemma load_details_threads:
  assumes "distinct (map (\<lambda>d. tsmID (tdtThread d)) ds)"
  shows "map_of (tstThreads (load_details ds s)) k =
    (case map_of (map (\<lambda>d. (tsmID (tdtThread d), detail_record d)) ds) k of
       Some r \<Rightarrow> Some r | None \<Rightarrow> map_of (tstThreads s) k)"
  using assms
proof (induction ds arbitrary: s)
  case (Cons d ds)
  have "map_of (map (\<lambda>d. (tsmID (tdtThread d), detail_record d)) ds) (tsmID (tdtThread d)) = None"
    using Cons.prems by (force simp: map_of_eq_None_iff)
  with Cons show ?case
    by (auto simp: Let_def go_map detail_record_def split: option.split)
qed simp

lemma load_details_jobs:
  "map_of (tstJobToThread (load_details ds s)) j = Some t \<Longrightarrow>
     (\<exists>d \<in> set ds. detail_names d j \<and> tsmID (tdtThread d) = t) \<or> map_of (tstJobToThread s) j = Some t"
proof (induction ds arbitrary: s)
  case (Cons d ds)
  from Cons.IH [of "s\<lparr>tstJobToThread :=
      (if tsmCurrentJobID (tdtThread d) \<noteq> [] then AList.update (tsmCurrentJobID (tdtThread d)) (tsmID (tdtThread d))
         (load_events (tsmID (tdtThread d)) (tdtEvents d) (tstJobToThread s))
       else load_events (tsmID (tdtThread d)) (tdtEvents d) (tstJobToThread s)),
      tstThreads := AList.update (tsmID (tdtThread d))
        \<lparr>trSummary = tdtThread d, trEvents = map cloneThreadEvent (tdtEvents d)\<rparr> (tstThreads s)\<rparr>"] Cons.prems
  show ?case by (auto simp: Let_def go_map load_events_spec detail_names_def split: if_splits)
qed simp

lemma load_details_jobs_kept:
  "map_of (tstJobToThread s) j \<noteq> None \<or> (\<exists>d \<in> set ds. detail_names d j) \<Longrightarrow>
   map_of (tstJobToThread (load_details ds s)) j \<noteq> None"
proof (induction ds arbitrary: s)
  case (Cons d ds)
  show ?case unfolding load_details.simps Let_def
    by (rule Cons.IH) (use Cons.prems in \<open>auto simp: go_map load_events_spec detail_names_def\<close>)
qed simp

lemma snapshot_details:
  assumes "thread_store_ok s" and ds_def: "ds = tssThreads (fst (snapshotLocked s w))"
  shows "distinct (map (\<lambda>d. tsmID (tdtThread d)) ds)"
    and "map_of (map (\<lambda>d. (tsmID (tdtThread d), detail_record d)) ds) k = map_of (tstThreads s) k"
    and "d \<in> set ds \<longleftrightarrow> ThreadStore_Get (tsmID (tdtThread d)) s = Some d"
proof -
  let ?ids = "sort_Strings (map_keys (tstThreads s))"
  have wf: "wf_map (tstThreads s)" using assms(1) by (simp add: thread_store_ok_def)
  have ro: "range_order ?ids (tstThreads s)"
    using wf by (simp add: range_order_def sort_Strings_def wf_map_def)
  have ds: "ds = map (\<lambda>i. record_detail (the (map_of (tstThreads s) i))) ?ids"
    unfolding ds_def snapshotLocked_def Let_def using map_filter_keys [OF wf ro, of record_detail]
    by (simp add: time_Now_def)
  have key: "tsmID (trSummary (the (map_of (tstThreads s) i))) = i" if "i \<in> set ?ids" for i
    using that range_order_iff [OF ro, of i] thread_store_okD [OF assms(1), of i]
    by (auto simp: record_ok_def Let_def)
  have ids: "map (\<lambda>d. tsmID (tdtThread d)) ds = ?ids"
    using key by (auto simp: ds record_detail_def intro!: map_idI)
  then show "distinct (map (\<lambda>d. tsmID (tdtThread d)) ds)" using ro by (simp add: range_order_def)
  have pairs: "map (\<lambda>d. (tsmID (tdtThread d), detail_record d)) ds = map (\<lambda>i. (i, the (map_of (tstThreads s) i))) ?ids"
    using key by (auto simp: ds record_detail_def detail_record_def)
  show "map_of (map (\<lambda>d. (tsmID (tdtThread d), detail_record d)) ds) k = map_of (tstThreads s) k"
    unfolding pairs using range_order_iff [OF ro, of k] by (auto simp: map_of_map_restrict restrict_map_def)
  show "d \<in> set ds \<longleftrightarrow> ThreadStore_Get (tsmID (tdtThread d)) s = Some d"
  proof
    assume "d \<in> set ds"
    then obtain i where i: "i \<in> set ?ids" "d = record_detail (the (map_of (tstThreads s) i))" by (auto simp: ds)
    moreover from i have "tsmID (tdtThread d) = i" using key by (simp add: record_detail_def)
    ultimately show "ThreadStore_Get (tsmID (tdtThread d)) s = Some d"
      using range_order_iff [OF ro, of i] by (auto simp: ThreadStore_Get_def)
  next
    assume g: "ThreadStore_Get (tsmID (tdtThread d)) s = Some d"
    then have "tsmID (tdtThread d) \<in> set ?ids" using range_order_iff [OF ro] by (auto simp: ThreadStore_Get_def)
    with g show "d \<in> set ds" by (force simp: ds ThreadStore_Get_def image_iff)
  qed
qed

lemma persist_ok:
  assumes "persistLocked s w = (None, w')"
  shows "map_of (wFiles w') (tstPath s) = Some (save_doc s w)"
proof -
  have w1: "wFiles (snd (snapshotLocked s w)) = wFiles w" by (simp add: snapshotLocked_def time_Now_def Let_def)
  have "tstPath s \<noteq> tmp_path (tstPath s)" by (simp add: tmp_path_def)
  with assms show ?thesis
    by (auto simp: persistLocked_def case_prod_beta Let_def save_doc_def rename_tmp_def remove_main_def write_tmp_def go_map
        split: save_fault.splits option.splits)
qed


lemma ex_threads_reach: "reach thread_init thread_step ex_threads"
  unfolding ex_threads_def
  by (rule reach_step [where s = "(NewThreadStore, ex_world)"], rule reach_init)
    (auto simp: thread_init_def NewThreadStore_def intro: step_Ensure)

lemma ex_threads_get: "\<exists>d. ThreadStore_Get ''t1'' (fst ex_threads) = Some d"
  by (cases rule: EnsureThread_cases [of NewThreadStore "''t1''" "''s1''" "''fix it''" ex_world])
    (auto simp: ex_threads_def ThreadStore_Get_def go_map)

section \<open>Properties\<close>

text \<open>
  In every reachable thread store the summary of a thread is determined by its log: its
  state is the fold of the state changes over the events, its last kind and text are those of
  the last event, its id is its key, its title is not empty and at most 72 bytes long.
\<close>
theorem thread_summary_of_log:
  assumes "reach thread_init thread_step (s, w)" "ThreadStore_Get tid s = Some d"
  shows "tsmID (tdtThread d) = tid \<and> tsmState (tdtThread d) = thread_state (tdtEvents d) \<and>
    tsmLastEventKind (tdtThread d) = last_kind (tdtEvents d) \<and>
    tsmLastEventText (tdtThread d) = last_text (tdtEvents d) \<and>
    tsmTitle (tdtThread d) \<noteq> [] \<and> length (tsmTitle (tdtThread d)) \<le> 72 \<and>
    length (tsmLastEventText (tdtThread d)) \<le> 160"
  using thread_store_okD [of s tid] thread_inv.reach_inv [OF assms(1)] assms(2)
  by (auto simp: ThreadStore_Get_def record_detail_def record_ok_def Let_def)

text \<open>
  Logs are append-only: no operation removes a thread, and each keeps the events of every
  thread as they are, adding at most one; a session id that is set stays.
\<close>
theorem thread_log_append_only:
  assumes "thread_step (s, w) (s', w')" "ThreadStore_Get tid s = Some d"
  shows "\<exists>d' es. ThreadStore_Get tid s' = Some d' \<and> tdtEvents d' = tdtEvents d @ es \<and> length es \<le> 1 \<and>
    (tsmSessionID (tdtThread d) \<noteq> [] \<longrightarrow> tsmSessionID (tdtThread d') = tsmSessionID (tdtThread d))"
proof -
  from assms(2) obtain r where r: "map_of (tstThreads s) tid = Some r" "d = record_detail r"
    by (auto simp: ThreadStore_Get_def)
  have same: "\<exists>d' es. Some (record_detail r) = Some d' \<and> tdtEvents d' = tdtEvents d @ es \<and> length es \<le> 1 \<and>
    (tsmSessionID (tdtThread d) \<noteq> [] \<longrightarrow> tsmSessionID (tdtThread d') = tsmSessionID (tdtThread d))"
    using r(2) by (intro exI [of _ d] exI [of _ "[]"]) simp
  from assms(1) show ?thesis
  proof cases
    case (step_Ensure i sid title)
    then have s': "s' = fst (snd (EnsureThread i sid title s w))" by (metis fst_conv)
    show ?thesis
    proof (cases rule: EnsureThread_cases [of s i sid title w])
      case (new tid')
      then have "map_of (tstThreads s') tid = Some r" using r s' by (auto simp: go_map)
      with same show ?thesis by (simp add: ThreadStore_Get_def)
    next
      case (old tid' r')
      with s' r same show ?thesis
        by (cases "tid' = tid") (auto simp: ThreadStore_Get_def go_map record_detail_def)
    qed
  next
    case (step_Append i e)
    then have s': "s' = fst (snd (AppendEvent i e s w))" by (metis fst_conv)
    show ?thesis
    proof (cases "map_of (tstThreads s) i")
      case None
      with s' r same show ?thesis by (simp add: AppendEvent_None ThreadStore_Get_def)
    next
      case (Some r')
      obtain m where "tstThreads (fst (snd (AppendEvent i e s w))) =
          AList.update i \<lparr>trSummary = m, trEvents = trEvents r' @ [fst (complete_event i e w)]\<rparr> (tstThreads s)"
        "tsmSessionID m = tsmSessionID (trSummary r')"
        by (rule AppendEvent_Some [OF Some, of e w]) simp
      with s' r same Some show ?thesis
        by (cases "i = tid") (auto simp: ThreadStore_Get_def go_map record_detail_def)
    qed
  next
    case (step_Assign i job)
    with r same show ?thesis
      by (cases "i = tid") (auto simp: AssignJob_def Let_def ThreadStore_Get_def go_map record_detail_def
          split: if_splits option.splits)
  qed
qed

text \<open>
  C35: Save and load: after a successful save, a store opened on the same path has the same
  threads with the same summaries and events (for texts that are valid UTF-8); it maps every
  job that some thread names, and only to a thread that names it.
\<close>
theorem thread_store_save_load:
  assumes "thread_store_ok s" "tstPath s \<noteq> []" "strings_TrimSpace (tstPath s) = tstPath s"
    and "\<forall>(k, r) \<in> set (tstThreads s). ThreadDetail_ok (record_detail r)"
    and "minInt64 \<le> UnixMilli (wClock w (wTicks w))" "UnixMilli (wClock w (wTicks w)) \<le> maxInt64"
    and "persistLocked s w = (None, w')"
  shows "\<exists>s'. NewPersistentThreadStore (tstPath s) None w' = Inr s' \<and>
    (\<forall>tid. ThreadStore_Get tid s' = ThreadStore_Get tid s) \<and>
    (\<forall>job. (\<exists>tid. thread_names s tid job) \<longrightarrow> (\<exists>tid. ThreadIDForJob job s' = Some tid)) \<and>
    (\<forall>job tid. ThreadIDForJob job s' = Some tid \<longrightarrow> thread_names s tid job)"
proof -
  let ?snap = "fst (snapshotLocked s w)"
  let ?s0 = "NewThreadStore\<lparr>tstPath := tstPath s\<rparr>"
  define s' where "s' = load_details (tssThreads ?snap) (?s0\<lparr>tstThreads := [], tstJobToThread := []\<rparr>)"
  note sd = snapshot_details [OF assms(1), of "tssThreads ?snap" w, OF refl]
  have "\<forall>d \<in> set (tssThreads ?snap). ThreadDetail_ok d"
  proof
    fix d assume "d \<in> set (tssThreads ?snap)"
    then obtain r where "map_of (tstThreads s) (tsmID (tdtThread d)) = Some r" "d = record_detail r"
      using sd(3) by (auto simp: ThreadStore_Get_def)
    with assms(4) show "ThreadDetail_ok d" by (auto dest: map_of_SomeD)
  qed
  then have "threadStoreSnapshot_ok ?snap"
    using assms(5,6) by (auto simp: threadStoreSnapshot_ok_def snapshotLocked_def Let_def time_Now_def minInt64_def maxInt64_def)
  then have load: "NewPersistentThreadStore (tstPath s) None w' = Inr s'"
    using persist_ok [OF assms(7)] cSnapshot.dec_enc assms(2,3)
    by (simp add: NewPersistentThreadStore_def loadFromDisk_def save_doc_def s'_def)
  have th: "map_of (tstThreads s') k = map_of (tstThreads s) k" for k
    using load_details_threads [OF sd(1)] sd(2) by (simp add: s'_def split: option.split)
  have "ThreadIDForJob job s' = Some tid \<Longrightarrow> thread_names s tid job" for job tid
    using load_details_jobs [of "tssThreads ?snap" _ job tid] sd(3)
    by (fastforce simp: s'_def ThreadIDForJob_def thread_names_def)
  moreover have "thread_names s tid job \<Longrightarrow> \<exists>tid. ThreadIDForJob job s' = Some tid" for tid job
  proof -
    assume "thread_names s tid job"
    then obtain d where d: "ThreadStore_Get tid s = Some d" "detail_names d job"
      by (auto simp: thread_names_def split: option.splits)
    then have "tsmID (tdtThread d) = tid" using thread_store_okD [OF assms(1), of tid]
      by (auto simp: ThreadStore_Get_def record_detail_def record_ok_def Let_def)
    then have "d \<in> set (tssThreads ?snap)" using d sd(3) by simp
    then show ?thesis using load_details_jobs_kept [of _ job "tssThreads ?snap"] d
      by (fastforce simp: s'_def ThreadIDForJob_def)
  qed
  ultimately show ?thesis using load th by (auto simp: ThreadStore_Get_def)
qed

text \<open>
  A crash during a save leaves a complete document on disk: at every point the snapshot path
  holds what it held before or the complete new document, or it is missing and the temporary
  file beside it holds the complete new one.
\<close>
theorem save_crash_states:
  assumes "w' \<in> set (crash_points s w)"
  shows "map_of (wFiles w') (tstPath s) = map_of (wFiles w) (tstPath s) \<or>
    map_of (wFiles w') (tstPath s) = Some (save_doc s w) \<or>
    map_of (wFiles w') (tstPath s) = None \<and> map_of (wFiles w') (tmp_path (tstPath s)) = Some (save_doc s w)"
  using assms by (auto simp: crash_points_def Let_def write_tmp_def remove_main_def rename_tmp_def tmp_path_def go_map
      split: option.splits)

text \<open>
  The list of threads is complete, sorted from the most recently updated on (ties by
  descending id), and the same for every order in which the map is visited.
\<close>
theorem thread_list_sorted:
  assumes "thread_store_ok s" "range_order order (tstThreads s)"
  shows "sorted_wrt newer (ThreadStore_List order s) \<and>
    mset (ThreadStore_List order s) = mset (map (trSummary \<circ> snd) (tstThreads s)) \<and>
    (\<forall>order'. range_order order' (tstThreads s) \<longrightarrow> ThreadStore_List order' s = ThreadStore_List order s)"
proof -
  have wf: "wf_map (tstThreads s)" using assms(1) by (simp add: thread_store_ok_def)
  let ?xs = "\<lambda>order. map (\<lambda>i. trSummary (the (map_of (tstThreads s) i))) order"
  have l: "ThreadStore_List ord s = sort_by newer (?xs ord)" if "range_order ord (tstThreads s)" for ord
    using map_filter_keys [OF wf that, of trSummary] by (simp add: ThreadStore_List_def)
  have so: "strict_order_on (set (?xs order)) newer"
    by (rule strict_order_on_subset [OF newer_strict_order [OF assms(1)]])
      (use range_order_iff [OF assms(2)] in force)
  have "inj_on (\<lambda>i. trSummary (the (map_of (tstThreads s) i))) (set order)"
  proof (rule inj_onI)
    fix i j assume ij: "i \<in> set order" "j \<in> set order"
      "trSummary (the (map_of (tstThreads s) i)) = trSummary (the (map_of (tstThreads s) j))"
    have "tsmID (trSummary (the (map_of (tstThreads s) k))) = k" if "k \<in> set order" for k
      using that range_order_iff [OF assms(2), of k] thread_store_okD [OF assms(1), of k]
      by (auto simp: record_ok_def Let_def)
    with ij show "i = j" by metis
  qed
  then have d: "distinct (?xs order)" using assms(2) by (simp add: distinct_map range_order_def)
  have ms: "mset (?xs ord) = mset (map (trSummary \<circ> snd) (tstThreads s))" if "range_order ord (tstThreads s)" for ord
    by (rule List_entries [OF wf that])
  have "ThreadStore_List ord s = ThreadStore_List order s" if "range_order ord (tstThreads s)" for ord
    using sort_by_unique [OF so d, of "?xs ord"] ms [OF assms(2)] ms [OF that] l [OF assms(2)] l [OF that] by argo
  then show ?thesis
    using sorted_sort_by [OF so d] ms [OF assms(2)] l [OF assms(2)] by (metis mset_sort_by)
qed

section \<open>Witnesses\<close>

theorem thread_summary_of_log_witness:
  "\<exists>d. ThreadStore_Get ''t1'' (fst ex_threads) = Some d \<and> tsmState (tdtThread d) = thread_state (tdtEvents d)"
proof -
  have r: "reach thread_init thread_step ex_threads" by (rule ex_threads_reach)
  obtain d where d: "ThreadStore_Get ''t1'' (fst ex_threads) = Some d" using ex_threads_get by blast
  from thread_summary_of_log [of "fst ex_threads" "snd ex_threads" "''t1''" d] r d show ?thesis by simp
qed

theorem thread_log_append_only_witness:
  "\<exists>d' es. ThreadStore_Get ''t1'' (fst (snd (AppendEvent ''t1'' zero_ThreadEvent (fst ex_threads) (snd ex_threads)))) = Some d' \<and> length (es :: ThreadEvent list) \<le> 1"
proof -
  obtain d where d: "ThreadStore_Get ''t1'' (fst ex_threads) = Some d" using ex_threads_get by blast
  have "thread_step (fst ex_threads, snd ex_threads) (snd (AppendEvent ''t1'' zero_ThreadEvent (fst ex_threads) (snd ex_threads)))"
    by (rule step_Append)
  then have "thread_step (fst ex_threads, snd ex_threads)
     (fst (snd (AppendEvent ''t1'' zero_ThreadEvent (fst ex_threads) (snd ex_threads))),
      snd (snd (AppendEvent ''t1'' zero_ThreadEvent (fst ex_threads) (snd ex_threads))))" by simp
  from thread_log_append_only [OF this d] show ?thesis by blast
qed

theorem thread_store_save_load_witness:
  "\<exists>s'. NewPersistentThreadStore ''/t'' None (snd (persistLocked ex_store1 ex_world)) = Inr s' \<and>
     ThreadStore_Get ''t1'' s' = ThreadStore_Get ''t1'' ex_store1"
proof -
  have 1: "thread_store_ok ex_store1" "\<forall>(k, r) \<in> set (tstThreads ex_store1). ThreadDetail_ok (record_detail r)"
    "strings_TrimSpace (tstPath ex_store1) = tstPath ex_store1" "fst (persistLocked ex_store1 ex_world) = None"
    by code_simp+
  have 2: "tstPath ex_store1 = ''/t''" "minInt64 \<le> UnixMilli (wClock ex_world (wTicks ex_world))"
    "UnixMilli (wClock ex_world (wTicks ex_world)) \<le> maxInt64"
    by (simp_all add: ex_store1_def ex_world_def UnixMilli_def Millisecond_def minInt64_def maxInt64_def)
  have "persistLocked ex_store1 ex_world = (None, snd (persistLocked ex_store1 ex_world))"
    using 1(4) by (metis prod.collapse)
  from thread_store_save_load [OF 1(1) _ 1(3,2) 2(2,3) this] 2(1) show ?thesis by auto
qed

theorem save_crash_states_witness:
  "map_of (wFiles (write_tmp ''/t'' FileGarbage ex_world)) ''/t'' = map_of (wFiles ex_world) ''/t''"
proof -
  have "write_tmp ''/t'' FileGarbage ex_world \<in> set (crash_points ex_store1 ex_world)"
    by (simp add: crash_points_def Let_def ex_store1_def)
  from save_crash_states [OF this] show ?thesis
    by (simp add: ex_store1_def write_tmp_def tmp_path_def ex_world_def)
qed

theorem thread_list_sorted_witness:
  "mset (ThreadStore_List [''t1''] ex_store1) = mset (map (trSummary \<circ> snd) (tstThreads ex_store1))"
proof -
  have "thread_store_ok ex_store1" "range_order [''t1''] (tstThreads ex_store1)" by code_simp+
  from thread_list_sorted [OF this] show ?thesis by blast
qed

section \<open>The window of a save\<close>

text \<open>
  \<open>persistLocked\<close> removes the snapshot before it renames the temporary file, and \<open>loadFromDisk\<close>
  does not look at the temporary file: a crash between the two steps opens an empty store.
\<close>

lemma crash_before_rename_loads_empty:
  assumes "path \<noteq> []" "strings_TrimSpace path = path" "tstPath s = path"
  shows "NewPersistentThreadStore path None (remove_main path (write_tmp path (save_doc s w) w)) =
    Inr (NewThreadStore\<lparr>tstPath := path\<rparr>)"
  using assms by (simp add: NewPersistentThreadStore_def loadFromDisk_def remove_main_def write_tmp_def go_map NewThreadStore_def)

end
