(* ===== verification/Adapter.thy ===== *)
theory Adapter
  imports Payloads
begin

text \<open>
  The interface between the orchestrator and an editor (\<open>internal/agent/types.go\<close>), the run
  profiles (\<open>profiles.go\<close>), the description of an adapter (\<open>adapter_runtime_info.go\<close>) and the mock
  adapter (\<open>mock_adapter.go\<close>). The Go interface \<open>WorkspaceAdapter\<close> is a record of functions over
  the adapter's own state.
\<close>

section \<open>Types (types.go)\<close>

record AdapterCapabilities =
  SupportsPartialApply :: bool
  SupportsStructuredPatch :: bool
  SupportsContextSelection :: bool
  SupportsArtifacts :: bool
  SupportsOpenLocation :: bool

record ContextRequest =
  crqOptions :: ContextOptions

record WorkspaceContext =
  wcActiveFilePath :: string
  wcSelection :: string
  wcLatestTerminalError :: string
  wcChangedFiles :: "string list"
  wcLastRunProfile :: string
  wcLastRunStatus :: string

record SubmitTaskInput =
  stiPrompt :: string
  stiTemplate :: string
  stiContext :: WorkspaceContext

record TaskHandle =
  thTaskID :: string

record ApplyPatchInput =
  apiTaskID :: string
  apiMode :: string
  apiSelected :: "SelectedHunk list"

record ApplyPatchResult =
  aprStatus :: string
  aprMessage :: string

record RunProfileInput =
  rpiTaskID :: string
  rpiJobID :: string
  rpiProfileID :: string
  rpiCommand :: string

record RunHandle =
  rhRunID :: string

record RunResult =
  rrsRunID :: string
  rrsProfileID :: string
  rrsStatus :: string
  rrsSummary :: string
  rrsTopErrors :: "ParsedError list"
  rrsExcerpt :: string
  rrsOutput :: string
  rrsChangedFiles :: "string list"

record OpenLocationInput =
  oliPath :: string
  oliLine :: int
  oliColumn :: int

record RunProfileDescriptor =
  rpdID :: string
  rpdLabel :: string
  rpdCommand :: string
  rpdScope :: string
  rpdOptional :: bool

record 's WorkspaceAdapter =
  waName :: string
  waCapabilities :: AdapterCapabilities
  waGetContext :: "ContextRequest \<Rightarrow> 's \<Rightarrow> WorkspaceContext result \<times> 's"
  waSubmitTask :: "SubmitTaskInput \<Rightarrow> 's \<Rightarrow> TaskHandle result \<times> 's"
  waGetPatch :: "string \<Rightarrow> 's \<Rightarrow> PatchReadyPayload option result \<times> 's"
  waApplyPatch :: "ApplyPatchInput \<Rightarrow> 's \<Rightarrow> ApplyPatchResult result \<times> 's"
  waRunProfile :: "RunProfileInput \<Rightarrow> 's \<Rightarrow> RunHandle result \<times> 's"
  waGetRunResult :: "string \<Rightarrow> 's \<Rightarrow> RunResult option result \<times> 's"
  waOpenLocation :: "OpenLocationInput \<Rightarrow> 's \<Rightarrow> goerror option \<times> 's"

record Job =
  jobID :: string
  jobThreadID :: string
  jobSessionID :: string
  jobTaskID :: string
  jobPrompt :: string
  jobState :: string
  jobPatchFiles :: "string list"
  jobCreatedAt :: instant

section \<open>Adapter information (adapter\_runtime\_info.go)\<close>

record AdapterRuntimeInfo =
  ariName :: string
  ariMode :: string
  ariReady :: bool
  ariCapabilities :: AdapterCapabilities
  ariWorkspaceRoot :: string
  ariBinary :: string
  ariBinaryPath :: string
  ariBridgeAddress :: string
  ariTempRoot :: string
  ariPromptTimeout :: string
  ariRunTimeout :: string
  ariNotes :: "string list"

definition zero_AdapterCapabilities :: AdapterCapabilities where
  "zero_AdapterCapabilities = \<lparr>SupportsPartialApply = False, SupportsStructuredPatch = False,
     SupportsContextSelection = False, SupportsArtifacts = False, SupportsOpenLocation = False\<rparr>"

definition zero_AdapterRuntimeInfo :: AdapterRuntimeInfo where
  "zero_AdapterRuntimeInfo = \<lparr>ariName = [], ariMode = [], ariReady = False,
     ariCapabilities = zero_AdapterCapabilities, ariWorkspaceRoot = [], ariBinary = [],
     ariBinaryPath = [], ariBridgeAddress = [], ariTempRoot = [], ariPromptTimeout = [],
     ariRunTimeout = [], ariNotes = []\<rparr>"

definition BasicAdapterRuntimeInfo :: "'s WorkspaceAdapter option \<Rightarrow> AdapterRuntimeInfo" where
  "BasicAdapterRuntimeInfo adapter =
     (case adapter of
        None \<Rightarrow> zero_AdapterRuntimeInfo
      | Some a \<Rightarrow> zero_AdapterRuntimeInfo\<lparr>ariName := waName a, ariReady := True,
          ariCapabilities := waCapabilities a\<rparr>)"

section \<open>Run profiles (profiles.go)\<close>

record RunProfile =
  rpfLabel :: string
  rpfCommand :: string
  rpfScope :: string
  rpfOptional :: bool

definition zero_RunProfile :: RunProfile where
  "zero_RunProfile = \<lparr>rpfLabel = [], rpfCommand = [], rpfScope = [], rpfOptional = False\<rparr>"

definition RunProfile_json :: "RunProfile \<Rightarrow> json" where
  "RunProfile_json p = JObj
    ([(''label'', enc_string (rpfLabel p)), (''command'', enc_string (rpfCommand p)), (''scope'', enc_string (rpfScope p))] @
     omit_bool ''optional'' (rpfOptional p))"

definition RunProfile_names :: "string list" where
  "RunProfile_names = [''label'', ''command'', ''scope'', ''optional'']"

definition RunProfile_put :: "string \<Rightarrow> json \<Rightarrow> RunProfile \<Rightarrow> RunProfile result" where
  "RunProfile_put f v p =
     (if f = ''label'' then map_result (\<lambda>x. p\<lparr>rpfLabel := x\<rparr>) (decode_string v (rpfLabel p))
      else if f = ''command'' then map_result (\<lambda>x. p\<lparr>rpfCommand := x\<rparr>) (decode_string v (rpfCommand p))
      else if f = ''scope'' then map_result (\<lambda>x. p\<lparr>rpfScope := x\<rparr>) (decode_string v (rpfScope p))
      else map_result (\<lambda>x. p\<lparr>rpfOptional := x\<rparr>) (decode_bool v (rpfOptional p)))"

definition RunProfile_unjson :: "json \<Rightarrow> RunProfile result" where
  "RunProfile_unjson j = decode_struct RunProfile_names RunProfile_put j zero_RunProfile"

definition RunProfile_ok :: "RunProfile \<Rightarrow> bool" where
  "RunProfile_ok p \<longleftrightarrow> valid_utf8 (rpfLabel p) \<and>
     valid_utf8 (rpfCommand p) \<and>
     valid_utf8 (rpfScope p)"

definition DefaultRunProfiles :: "(string, RunProfile) gomap" where
  "DefaultRunProfiles =
     [(''test_last'', \<lparr>rpfLabel = ''Re-run Last Test'', rpfCommand = ''dynamic'', rpfScope = ''MEDIUM'', rpfOptional = False\<rparr>),
      (''test_all'', \<lparr>rpfLabel = ''Run All Tests'', rpfCommand = ''npm test'', rpfScope = ''MEDIUM'', rpfOptional = False\<rparr>),
      (''build'', \<lparr>rpfLabel = ''Build'', rpfCommand = ''npm run build'', rpfScope = ''MEDIUM'', rpfOptional = False\<rparr>),
      (''dev'', \<lparr>rpfLabel = ''Dev Server'', rpfCommand = ''npm run dev'', rpfScope = ''MEDIUM'', rpfOptional = True\<rparr>)]"

text \<open>The result of reading the profile file: missing, another error, no JSON, or a document.\<close>

datatype profile_file = PfMissing | PfError goerror | PfGarbage | PfJson json

fun decode_profiles :: "(string \<times> json) list \<Rightarrow> (string, RunProfile) gomap \<Rightarrow> (string, RunProfile) gomap result" where
  "decode_profiles [] m = Inr m"
| "decode_profiles ((k, v) # kvs) m =
     bind_result (RunProfile_unjson v) (\<lambda>p. decode_profiles kvs (AList.update k p m))"

definition LoadRunProfiles :: "string \<Rightarrow> profile_file \<Rightarrow> (string, RunProfile) gomap result" where
  "LoadRunProfiles path content =
     (if path = [] then Inr DefaultRunProfiles
      else case content of
        PfMissing \<Rightarrow> Inr DefaultRunProfiles
      | PfError err \<Rightarrow> Inl (ErrWrap ''read run profile file: '' err [])
      | PfGarbage \<Rightarrow> Inl (ErrWrap ''parse run profile json: '' json_error [])
      | PfJson j \<Rightarrow>
          (case (case j of JNull \<Rightarrow> Inr [] | JObj kvs \<Rightarrow> decode_profiles kvs [] | _ \<Rightarrow> Inl json_error) of
             Inl err \<Rightarrow> Inl (ErrWrap ''parse run profile json: '' err [])
           | Inr profiles \<Rightarrow>
               if profiles = [] then Inl (ErrNew ''run profile file is empty'') else Inr profiles))"

definition descriptor_less :: "RunProfileDescriptor \<Rightarrow> RunProfileDescriptor \<Rightarrow> bool" where
  "descriptor_less a b \<longleftrightarrow>
     (if rpdOptional a \<noteq> rpdOptional b then \<not> rpdOptional a
      else if rpdLabel a = rpdLabel b then rpdID a < rpdID b
      else rpdLabel a < rpdLabel b)"

definition descriptor_of :: "string \<Rightarrow> RunProfile \<Rightarrow> RunProfileDescriptor" where
  "descriptor_of pid p = \<lparr>rpdID = pid, rpdLabel = rpfLabel p, rpdCommand = rpfCommand p,
     rpdScope = rpfScope p, rpdOptional = rpfOptional p\<rparr>"

definition RunProfileDescriptors :: "string list \<Rightarrow> (string, RunProfile) gomap \<Rightarrow> RunProfileDescriptor list" where
  "RunProfileDescriptors order profiles =
     sort_by descriptor_less
       (List.map_filter (\<lambda>pid. map_option (descriptor_of pid) (map_of profiles pid)) order)"

section \<open>The mock adapter (mock\_adapter.go)\<close>

record MockAdapter =
  maTaskSeq :: int
  maRunSeq :: int

definition NewMockAdapter :: MockAdapter where
  "NewMockAdapter = \<lparr>maTaskSeq = 0, maRunSeq = 0\<rparr>"

definition mock_GetContext :: "ContextRequest \<Rightarrow> MockAdapter \<Rightarrow> WorkspaceContext result \<times> MockAdapter" where
  "mock_GetContext input a =
     (Inr \<lparr>wcActiveFilePath = ''src/auth/middleware.ts'', wcSelection = ''if (!token) return 401'',
        wcLatestTerminalError = ''expected 401 got 500'',
        wcChangedFiles = [''src/auth/middleware.ts'', ''tests/auth/middleware.test.ts''],
        wcLastRunProfile = ''test_all'', wcLastRunStatus = ''failed''\<rparr>, a)"

definition mock_SubmitTask :: "SubmitTaskInput \<Rightarrow> MockAdapter \<Rightarrow> TaskHandle result \<times> MockAdapter" where
  "mock_SubmitTask input a =
     (let n = maTaskSeq a + 1
      in (Inr \<lparr>thTaskID = ''task_'' @ Itoa n\<rparr>, a\<lparr>maTaskSeq := n\<rparr>))"

definition mock_GetPatch :: "string \<Rightarrow> MockAdapter \<Rightarrow> PatchReadyPayload option result \<times> MockAdapter" where
  "mock_GetPatch taskID a =
     (Inr (Some \<lparr>prJobID = [], prSummary = ''Fix auth middleware test path and null guard'',
        prFiles = [\<lparr>fpPath = ''src/auth/middleware.ts'', fpStatus = ''modified'',
          fpHunks = [\<lparr>hunkHunkID = ''h1'', hunkHeader = ''@@ -12,7 +12,9 @@'',
            hunkDiff = ''- if (!token) throw new Error()'' @ [LF] @
              ''+ if (!token) return res.status(401).send()'',
            hunkRisk = ''low''\<rparr>]\<rparr>]\<rparr>), a)"

definition mock_ApplyPatch :: "ApplyPatchInput \<Rightarrow> MockAdapter \<Rightarrow> ApplyPatchResult result \<times> MockAdapter" where
  "mock_ApplyPatch input a =
     (if apiMode input = ''selected'' \<and> apiSelected input = []
      then (Inr \<lparr>aprStatus = ''failed'', aprMessage = ''selected mode requires hunk selection''\<rparr>, a)
      else if apiMode input = ''selected''
      then (Inr \<lparr>aprStatus = ''partial'', aprMessage = ''selected hunks applied''\<rparr>, a)
      else (Inr \<lparr>aprStatus = ''success'', aprMessage = ''patch applied''\<rparr>, a))"

definition mock_RunProfile :: "RunProfileInput \<Rightarrow> MockAdapter \<Rightarrow> RunHandle result \<times> MockAdapter" where
  "mock_RunProfile input a =
     (let n = maRunSeq a + 1
      in (Inr \<lparr>rhRunID = ''run_'' @ rpiProfileID input @ ''_'' @ Itoa n\<rparr>, a\<lparr>maRunSeq := n\<rparr>))"

definition mock_GetRunResult :: "string \<Rightarrow> MockAdapter \<Rightarrow> RunResult option result \<times> MockAdapter" where
  "mock_GetRunResult runID a =
     (Inr (Some \<lparr>rrsRunID = runID, rrsProfileID = ''test_all'', rrsStatus = ''failed'',
        rrsSummary = ''1 failing test in auth middleware'',
        rrsTopErrors = [\<lparr>peMessage = ''expected 401 got 500'', pePath = ''tests/auth/middleware.test.ts'',
          peLine = 44, peColumn = 13\<rparr>],
        rrsExcerpt = ''AssertionError: expected 401 got 500'',
        rrsOutput = ''FAIL tests/auth/middleware.test.ts'' @ [LF] @ ''AssertionError: expected 401 got 500'',
        rrsChangedFiles = []\<rparr>), a)"

definition mock_OpenLocation :: "OpenLocationInput \<Rightarrow> MockAdapter \<Rightarrow> goerror option \<times> MockAdapter" where
  "mock_OpenLocation input a = (None, a)"

definition mock_adapter :: "MockAdapter WorkspaceAdapter" where
  "mock_adapter =
     \<lparr>waName = ''mock-cursor'',
      waCapabilities = \<lparr>SupportsPartialApply = True, SupportsStructuredPatch = True,
        SupportsContextSelection = True, SupportsArtifacts = False, SupportsOpenLocation = True\<rparr>,
      waGetContext = mock_GetContext, waSubmitTask = mock_SubmitTask, waGetPatch = mock_GetPatch,
      waApplyPatch = mock_ApplyPatch, waRunProfile = mock_RunProfile,
      waGetRunResult = mock_GetRunResult, waOpenLocation = mock_OpenLocation\<rparr>"

section \<open>What the orchestrator relies on\<close>

text \<open>
  The contract of an adapter: patches and run results are data that the protocol can carry
  (valid UTF-8, 64-bit positions).
\<close>

definition run_result_ok :: "RunResult \<Rightarrow> bool" where
  "run_result_ok r \<longleftrightarrow>
     valid_utf8 (rrsProfileID r) \<and> valid_utf8 (rrsStatus r) \<and> valid_utf8 (rrsSummary r) \<and>
     (\<forall>e \<in> set (rrsTopErrors r). ParsedError_ok e) \<and> valid_utf8 (rrsExcerpt r) \<and>
     valid_utf8 (rrsOutput r) \<and> (\<forall>f \<in> set (rrsChangedFiles r). valid_utf8 f)"

locale workspace_adapter =
  fixes A :: "'s WorkspaceAdapter"
  assumes get_patch_ok: "fst (waGetPatch A tid st) = Inr (Some p) \<Longrightarrow> PatchReadyPayload_ok p"
    and apply_patch_ok: "fst (waApplyPatch A inp st) = Inr res \<Longrightarrow>
        valid_utf8 (aprStatus res) \<and> valid_utf8 (aprMessage res)"
    and get_run_result_ok: "fst (waGetRunResult A rid st) = Inr (Some r) \<Longrightarrow> run_result_ok r"
begin

text \<open>A patch keeps its meaning when the orchestrator has put its own job id into it and sent it.\<close>

lemma patch_ready_carried:
  assumes "fst (waGetPatch A tid st) = Inr (Some p)" "valid_utf8 job"
    "NewEnvelope now sid rid seq TypePatchReady (Inr (PatchReadyPayload_json (p\<lparr>prJobID := job\<rparr>))) = Inr e"
  shows "DecodePayload e PatchReadyPayload_unjson = Inr (p\<lparr>prJobID := job\<rparr>)"
  by (rule cPatchReadyPayload.envelope_carries [OF _ assms(3)])
    (use get_patch_ok [OF assms(1)] assms(2) in \<open>simp add: PatchReadyPayload_ok_def\<close>)

lemma patch_result_carried:
  assumes "fst (waApplyPatch A inp st) = Inr r" "valid_utf8 job"
    "NewEnvelope now sid rid seq TypePatchResult (Inr (PatchResultPayload_json
       \<lparr>pxJobID = job, pxStatus = aprStatus r, pxMessage = aprMessage r\<rparr>)) = Inr e"
  shows "DecodePayload e PatchResultPayload_unjson =
    Inr \<lparr>pxJobID = job, pxStatus = aprStatus r, pxMessage = aprMessage r\<rparr>"
  by (rule cPatchResultPayload.envelope_carries [OF _ assms(3)])
    (use apply_patch_ok [OF assms(1)] assms(2) in \<open>simp add: PatchResultPayload_ok_def\<close>)

end

section \<open>Lemmas\<close>

lemma RunProfile_dec_enc: "RunProfile_ok p \<Longrightarrow> RunProfile_unjson (RunProfile_json p) = Inr p"
  by (simp add: RunProfile_unjson_def RunProfile_json_def RunProfile_put_def RunProfile_names_def zero_RunProfile_def RunProfile_ok_def
      json_codec)

lemma ascii_valid: "list_all (\<lambda>c. byte c < 0x80) s \<Longrightarrow> valid_utf8 s"
  by (rule valid_utf8_ascii) (simp add: ascii_string_def list_all_iff)

interpretation mock: workspace_adapter mock_adapter
proof
  show "PatchReadyPayload_ok p" if "fst (waGetPatch mock_adapter tid st) = Inr (Some p)" for tid st p
    using that by (auto simp: mock_adapter_def mock_GetPatch_def PatchReadyPayload_ok_def FilePatch_ok_def
        Hunk_ok_def byte_def intro!: ascii_valid)
  show "valid_utf8 (aprStatus r) \<and> valid_utf8 (aprMessage r)" if "fst (waApplyPatch mock_adapter inp st) = Inr r" for inp st r
    using that by (auto simp: mock_adapter_def mock_ApplyPatch_def byte_def intro!: ascii_valid split: if_splits)
  show "run_result_ok r" if "fst (waGetRunResult mock_adapter rid st) = Inr (Some r)" for rid st r
    using that by (auto simp: mock_adapter_def mock_GetRunResult_def run_result_ok_def ParsedError_ok_def
        minInt64_def maxInt64_def byte_def intro!: ascii_valid)
qed

lemma descriptor_strict_order:
  "strict_order_on {d. \<exists>pid p. map_of m pid = Some p \<and> d = descriptor_of pid p} descriptor_less"
  unfolding strict_order_on_def descriptor_less_def
  by (auto simp: descriptor_of_def split: if_splits)

end
