(* ===== verification/Go_Monad.thy ===== *)
theory Go_Monad
  imports Go_Prelude "HOL-Library.State_Monad"
begin

text \<open>
  Handlers that thread a state through many calls are programs of the library's state monad.
  \<open>wp m Q s\<close> says that running \<open>m\<close> in \<open>s\<close> ends with a result and a state that satisfy \<open>Q\<close>; the
  collection \<open>wp\<close> computes it through a program, operation by operation.
\<close>

named_theorems wp \<open>weakest preconditions of programs\<close>

definition wp :: "('s, 'a) state \<Rightarrow> ('a \<Rightarrow> 's \<Rightarrow> bool) \<Rightarrow> 's \<Rightarrow> bool" where
  "wp m Q s \<longleftrightarrow> (case run_state m s of (a, s') \<Rightarrow> Q a s')"

text \<open>A program that applies a function to the state, and one that reads it.\<close>

definition modify_state :: "('s \<Rightarrow> 's) \<Rightarrow> ('s, unit) state" where
  "modify_state f = State (\<lambda>s. ((), f s))"

definition gets_state :: "('s \<Rightarrow> 'a) \<Rightarrow> ('s, 'a) state" where
  "gets_state f = State (\<lambda>s. (f s, s))"

lemma wp_run: "wp m Q s \<Longrightarrow> run_state m s = (a, s') \<Longrightarrow> Q a s'"
  by (simp add: wp_def)

lemma wp_bind [wp]: "wp (State_Monad.bind m f) Q s \<longleftrightarrow> wp m (\<lambda>a. wp (f a) Q) s"
  by (simp add: wp_def case_prod_beta)

lemma wp_return [wp]: "wp (State_Monad.return x) Q s \<longleftrightarrow> Q x s"
  by (simp add: wp_def)

lemma wp_State [wp]: "wp (State f) Q s \<longleftrightarrow> (case f s of (a, s') \<Rightarrow> Q a s')"
  by (simp add: wp_def)

lemma wp_modify [wp]: "wp (modify_state f) Q s \<longleftrightarrow> Q () (f s)"
  by (simp add: modify_state_def wp)

lemma wp_gets [wp]: "wp (gets_state f) Q s \<longleftrightarrow> Q (f s) s"
  by (simp add: gets_state_def wp)

lemma wp_if [wp]: "wp (if b then m else n) Q s \<longleftrightarrow> (if b then wp m Q s else wp n Q s)"
  by simp

lemma wp_case_sum [wp]:
  "wp (case x of Inl e \<Rightarrow> f e | Inr y \<Rightarrow> g y) Q s \<longleftrightarrow> (case x of Inl e \<Rightarrow> wp (f e) Q s | Inr y \<Rightarrow> wp (g y) Q s)"
  by (cases x) simp_all

lemma wp_case_option [wp]:
  "wp (case x of None \<Rightarrow> m | Some y \<Rightarrow> g y) Q s \<longleftrightarrow> (case x of None \<Rightarrow> wp m Q s | Some y \<Rightarrow> wp (g y) Q s)"
  by (cases x) simp_all

lemma wp_mono: "wp m Q s \<Longrightarrow> (\<And>a s'. Q a s' \<Longrightarrow> R a s') \<Longrightarrow> wp m R s"
  by (simp add: wp_def case_prod_beta)

lemma wp_conj: "wp m Q s \<Longrightarrow> wp m R s \<Longrightarrow> wp m (\<lambda>a s'. Q a s' \<and> R a s') s"
  by (simp add: wp_def case_prod_beta)

end
