(* ===== verification/Orchestrator.thy ===== *)
theory Orchestrator
  imports Adapter Thread_Log Go_Monad
begin

text \<open>
  \<open>internal/agent/orchestrator.go\<close>: the handlers of the control messages. A handler talks to
  the workspace adapter, records what happens in the thread of the job, keeps the table of
  jobs and answers with envelopes. The adapter is the argument \<open>A\<close> (a record of functions)
  with its own state in \<open>orcAdapter\<close>; the clock and the disk are in \<open>orcWorld\<close>. A handler runs
  without interleaving with others here; the deadline of its context is up to the adapter,
  which may answer with an error at any call.
\<close>

section \<open>State\<close>

record 's Orchestrator =
  orcProfiles :: "(string, RunProfile) gomap"
  orcThreads :: ThreadStore
  orcJobs :: "(string, Job) gomap"
  orcSeq :: int
  orcAdapter :: 's
  orcWorld :: World

type_synonym reply = "Envelope list \<times> goerror option"
type_synonym ('s, 'a) orc = "('s Orchestrator, 'a) state"

definition NewOrchestrator ::
    "'s \<Rightarrow> (string, RunProfile) gomap option \<Rightarrow> ThreadStore option \<Rightarrow> World \<Rightarrow> 's Orchestrator" where
  "NewOrchestrator adapter profiles threadStore w =
     \<lparr>orcProfiles = (case profiles of None \<Rightarrow> DefaultRunProfiles | Some p \<Rightarrow> p),
      orcThreads = (case threadStore of None \<Rightarrow> NewThreadStore | Some t \<Rightarrow> t),
      orcJobs = [], orcSeq = 0, orcAdapter = adapter, orcWorld = w\<rparr>"

section \<open>Primitive operations\<close>

text \<open>A reading of the clock, a call of the thread store, a call of the adapter.\<close>

definition tick :: "'s Orchestrator \<Rightarrow> 's Orchestrator" where
  "tick s = s\<lparr>orcWorld := snd (time_Now (orcWorld s))\<rparr>"

definition with_clock :: "(instant \<Rightarrow> 'a) \<Rightarrow> ('s, 'a) orc" where
  "with_clock f = State (\<lambda>s. (f (fst (time_Now (orcWorld s))), tick s))"

definition do_ensure :: "string \<Rightarrow> string \<Rightarrow> string \<Rightarrow> 's Orchestrator \<Rightarrow> 's Orchestrator" where
  "do_ensure tid sid title s =
     (let r = snd (EnsureThread tid sid title (orcThreads s) (orcWorld s))
      in s\<lparr>orcThreads := fst r, orcWorld := snd r\<rparr>)"

definition ensure_thread :: "string \<Rightarrow> string \<Rightarrow> string \<Rightarrow> ('s, ThreadSummary) orc" where
  "ensure_thread tid sid title =
     State (\<lambda>s. (fst (EnsureThread tid sid title (orcThreads s) (orcWorld s)), do_ensure tid sid title s))"

definition do_append :: "string \<Rightarrow> ThreadEvent \<Rightarrow> 's Orchestrator \<Rightarrow> 's Orchestrator" where
  "do_append tid e s =
     (let r = snd (AppendEvent tid e (orcThreads s) (orcWorld s))
      in s\<lparr>orcThreads := fst r, orcWorld := snd r\<rparr>)"

definition do_assign :: "string \<Rightarrow> string \<Rightarrow> 's Orchestrator \<Rightarrow> 's Orchestrator" where
  "do_assign tid job s =
     (let r = AssignJob tid job (orcThreads s) (orcWorld s)
      in s\<lparr>orcThreads := fst r, orcWorld := snd r\<rparr>)"

definition call_adapter :: "('s \<Rightarrow> 'a \<times> 's) \<Rightarrow> ('s, 'a) orc" where
  "call_adapter f = State (\<lambda>s. case f (orcAdapter s) of (a, st) \<Rightarrow> (a, s\<lparr>orcAdapter := st\<rparr>))"

text \<open>The event that a composite literal of the sources denotes, the other fields zero.\<close>

definition thread_event :: "string \<Rightarrow> string \<Rightarrow> string \<Rightarrow> string \<Rightarrow> string \<Rightarrow> (string \<times> json) list \<Rightarrow> ThreadEvent" where
  "thread_event job kind role title body kvs =
     zero_ThreadEvent\<lparr>tevJobID := job, tevKind := kind, tevRole := role, tevTitle := title,
       tevBody := body, tevData := map_literal kvs\<rparr>"

section \<open>Helpers of the orchestrator\<close>

definition nextSeq :: "('s, int) orc" where
  "nextSeq = State (\<lambda>s. let n = wrap64 (orcSeq s + 1) in (n, s\<lparr>orcSeq := n\<rparr>))"

definition newID :: "string \<Rightarrow> ('s, string) orc" where
  "newID prefix = with_clock (\<lambda>now. prefix @ ''_'' @ Itoa (UnixNano now))"

definition getJob :: "string \<Rightarrow> ('s, Job option) orc" where
  "getJob jid = gets_state (\<lambda>s. map_of (orcJobs s) jid)"

definition set_job_state :: "string \<Rightarrow> string \<Rightarrow> (string, Job) gomap \<Rightarrow> (string, Job) gomap" where
  "set_job_state jid st jobs =
     (case map_of jobs jid of None \<Rightarrow> jobs | Some job \<Rightarrow> AList.update jid (job\<lparr>jobState := st\<rparr>) jobs)"

definition setJobState :: "string \<Rightarrow> string \<Rightarrow> ('s, unit) orc" where
  "setJobState jid st = modify_state (\<lambda>s. s\<lparr>orcJobs := set_job_state jid st (orcJobs s)\<rparr>)"

fun patch_paths :: "FilePatch list \<Rightarrow> string list \<Rightarrow> string list" where
  "patch_paths [] paths = paths"
| "patch_paths (f # fs) paths =
     (if fpPath f = [] then patch_paths fs paths
      else if fpPath f \<in> set paths then patch_paths fs paths
      else patch_paths fs (paths @ [fpPath f]))"

definition patchFilePaths :: "FilePatch list \<Rightarrow> string list" where
  "patchFilePaths files = (if files = [] then [] else patch_paths files [])"

text \<open>Where the source ignores the error of a constructor, it goes on with the zero envelope.\<close>

definition or_zero :: "Envelope result \<Rightarrow> Envelope" where
  "or_zero r = (case r of Inl _ \<Rightarrow> zero_Envelope | Inr e \<Rightarrow> e)"

definition ack_envelope :: "Envelope \<Rightarrow> bool \<Rightarrow> string \<Rightarrow> ('s, Envelope) orc" where
  "ack_envelope env accepted message = do {
     seq \<leftarrow> nextSeq;
     with_clock (\<lambda>now. or_zero (NewCmdAck now (SID env) seq (RID env) accepted message))
   }"

definition reply_envelope :: "Envelope \<Rightarrow> string \<Rightarrow> MessageType \<Rightarrow> json \<Rightarrow> ('s, Envelope) orc" where
  "reply_envelope env prefix typ payload = do {
     rid \<leftarrow> newID prefix;
     seq \<leftarrow> nextSeq;
     with_clock (\<lambda>now. or_zero (NewEnvelope now (SID env) rid seq typ (Inr payload)))
   }"

definition ackFail :: "Envelope \<Rightarrow> string \<Rightarrow> goerror \<Rightarrow> ('s, reply) orc" where
  "ackFail env message err = do {
     let sid = (if SID env = [] then ''unknown'' else SID env);
     rid \<leftarrow> (if RID env = [] then newID ''rid'' else State_Monad.return (RID env));
     seq \<leftarrow> nextSeq;
     ack \<leftarrow> with_clock (\<lambda>now. NewCmdAck now sid seq rid False message);
     State_Monad.return (case ack of
       Inl ackErr \<Rightarrow> ([], Some (ErrWrap ''build ack: '' ackErr []))
     | Inr e \<Rightarrow> ([e], Some err))
   }"

section \<open>Handlers\<close>

definition ko_task_started :: string where
  "ko_task_started =
     [CHR 0xED, CHR 0x94, CHR 0x84, CHR 0xEB, CHR 0xA1, CHR 0xAC, CHR 0xED, CHR 0x94, CHR 0x84,
      CHR 0xED, CHR 0x8A, CHR 0xB8, CHR 0xEB, CHR 0xA5, CHR 0xBC, CHR 0x20, CHR 0xEB, CHR 0xB0,
      CHR 0x9B, CHR 0xEC, CHR 0x95, CHR 0x84, CHR 0x20, CHR 0xED, CHR 0x8C, CHR 0xA8, CHR 0xEC,
      CHR 0xB9, CHR 0x98, CHR 0xEB, CHR 0xA5, CHR 0xBC, CHR 0x20, CHR 0xEC, CHR 0x83, CHR 0x9D,
      CHR 0xEC, CHR 0x84, CHR 0xB1, CHR 0xED, CHR 0x95, CHR 0xA9, CHR 0xEB, CHR 0x8B, CHR 0x88,
      CHR 0xEB, CHR 0x8B, CHR 0xA4, CHR 0x2E]"

definition ko_patch_failed :: string where
  "ko_patch_failed =
     [CHR 0xED, CHR 0x8C, CHR 0xA8, CHR 0xEC, CHR 0xB9, CHR 0x98, CHR 0x20, CHR 0xEC, CHR 0xA0,
      CHR 0x81, CHR 0xEC, CHR 0x9A, CHR 0xA9, CHR 0x20, CHR 0xEC, CHR 0x8B, CHR 0xA4, CHR 0xED,
      CHR 0x8C, CHR 0xA8]"

definition json_strings :: "string list \<Rightarrow> json" where
  "json_strings xs = JArr (map JStr xs)"

text \<open>The end of \<open>handlePromptSubmit\<close>, from the creation of the job on.\<close>

definition start_job :: "Envelope \<Rightarrow> PromptSubmitPayload \<Rightarrow> string \<Rightarrow> TaskHandle \<Rightarrow> PatchReadyPayload \<Rightarrow> ('s, reply) orc" where
  "start_job env payload threadID taskHandle patch = do {
     jid \<leftarrow> newID ''job'';
     job \<leftarrow> with_clock (\<lambda>now. \<lparr>jobID = jid, jobThreadID = threadID, jobSessionID = SID env,
       jobTaskID = thTaskID taskHandle, jobPrompt = psPrompt payload, jobState = ''patch_ready'',
       jobPatchFiles = patchFilePaths (prFiles patch), jobCreatedAt = now\<rparr>);
     modify_state (\<lambda>s. s\<lparr>orcJobs := AList.update jid job (orcJobs s)\<rparr>);
     modify_state (do_assign threadID jid);
     modify_state (do_append threadID (thread_event jid ''prompt_accepted'' ''system'' ko_prompt_accepted
       ko_task_started [(''taskId'', JStr (thTaskID taskHandle)), (''message'', JStr ''task started'')]));
     modify_state (do_append threadID (thread_event jid ''patch_ready'' ''assistant'' ko_patch_ready
       (prSummary patch) [(''jobId'', JStr jid), (''summary'', JStr (prSummary patch)),
         (''fileCount'', JInt (int (length (prFiles patch)))), (''files'', JArr (map FilePatch_json (prFiles patch)))]));
     ack \<leftarrow> ack_envelope env True ''accepted'';
     promptAck \<leftarrow> reply_envelope env ''prompt_ack'' TypePromptAck (PromptAckPayload_json
       \<lparr>pkThreadID = threadID, pkJobID = jid, pkAccepted = True, pkMessage = ''task started''\<rparr>);
     patchReady \<leftarrow> reply_envelope env ''patch_ready'' TypePatchReady
       (PatchReadyPayload_json (patch\<lparr>prJobID := jid\<rparr>));
     State_Monad.return ([ack, promptAck, patchReady], None)
   }"

definition handlePromptSubmit :: "'s WorkspaceAdapter \<Rightarrow> Envelope \<Rightarrow> ('s, reply) orc" where
  "handlePromptSubmit A env =
     (case DecodePayload env PromptSubmitPayload_unjson of
        Inl err \<Rightarrow> ackFail env ''invalid prompt payload'' err
      | Inr payload \<Rightarrow>
          if psPrompt payload = [] then ackFail env ''prompt is required'' (ErrNew ''prompt is required'')
          else do {
            threadSummary \<leftarrow> ensure_thread (psThreadID payload) (SID env) (psPrompt payload);
            let threadID = tsmID threadSummary;
            ctx \<leftarrow> call_adapter (waGetContext A \<lparr>crqOptions = psContextOptions payload\<rparr>);
            (case ctx of
               Inl err \<Rightarrow> ackFail env ''adapter get context failed'' err
             | Inr contextData \<Rightarrow> do {
                 modify_state (do_append threadID (thread_event [] ''prompt_submitted'' ''user''
                   ko_prompt_submitted (psPrompt payload)
                   [(''template'', JStr (psTemplate payload)),
                    (''activeFilePath'', JStr (wcActiveFilePath contextData)),
                    (''selection'', JStr (wcSelection contextData)),
                    (''changedFiles'', json_strings (wcChangedFiles contextData))]));
                 task \<leftarrow> call_adapter (waSubmitTask A \<lparr>stiPrompt = psPrompt payload,
                   stiTemplate = psTemplate payload, stiContext = contextData\<rparr>);
                 (case task of
                    Inl err \<Rightarrow> ackFail env ''adapter submit task failed'' err
                  | Inr taskHandle \<Rightarrow> do {
                      got \<leftarrow> call_adapter (waGetPatch A (thTaskID taskHandle));
                      (case got of
                         Inl err \<Rightarrow> ackFail env ''adapter get patch failed'' err
                       | Inr patch \<Rightarrow>
                           (case patch of
                              None \<Rightarrow> ackFail env ''patch is not ready'' (ErrNew ''patch is nil'')
                            | Some patch \<Rightarrow> start_job env payload threadID taskHandle patch))
                    })
               })
          })"

definition job_not_found :: "Envelope \<Rightarrow> string \<Rightarrow> ('s, reply) orc" where
  "job_not_found env jid = ackFail env ''job not found'' (ErrNew (''job '' @ jid @ '' not found''))"

definition handlePatchApply :: "'s WorkspaceAdapter \<Rightarrow> Envelope \<Rightarrow> ('s, reply) orc" where
  "handlePatchApply A env =
     (case DecodePayload env PatchApplyPayload_unjson of
        Inl err \<Rightarrow> ackFail env ''invalid patch apply payload'' err
      | Inr payload \<Rightarrow> do {
          found \<leftarrow> getJob (paJobID payload);
          (case found of
             None \<Rightarrow> job_not_found env (paJobID payload)
           | Some job \<Rightarrow> do {
               modify_state (do_append (jobThreadID job) (thread_event (jobID job) ''patch_apply_requested'' ''user''
                 ko_patch_apply_requested (''mode='' @ paMode payload)
                 [(''mode'', JStr (paMode payload)), (''selectedCount'', JInt (int (length (paSelected payload))))]));
               applied \<leftarrow> call_adapter (waApplyPatch A \<lparr>apiTaskID = jobTaskID job, apiMode = paMode payload,
                 apiSelected = paSelected payload\<rparr>);
               (case applied of
                  Inl err \<Rightarrow> do {
                    modify_state (do_append (jobThreadID job) (thread_event (jobID job) ''patch_applied'' ''system''
                      ko_patch_failed (Error err)
                      [(''status'', JStr ''failed''), (''message'', JStr (Error err))]));
                    ack \<leftarrow> ack_envelope env False (Error err);
                    patchResult \<leftarrow> reply_envelope env ''patch_result'' TypePatchResult (PatchResultPayload_json
                      \<lparr>pxJobID = paJobID payload, pxStatus = ''failed'', pxMessage = Error err\<rparr>);
                    State_Monad.return ([ack, patchResult], Some err)
                  }
                | Inr res \<Rightarrow> do {
                    setJobState (paJobID payload) ''applied'';
                    modify_state (do_append (jobThreadID job) (thread_event (jobID job) ''patch_applied'' ''system''
                      ko_patch_applied (aprMessage res)
                      [(''status'', JStr (aprStatus res)), (''message'', JStr (aprMessage res))]));
                    ack \<leftarrow> ack_envelope env True ''patch apply queued'';
                    patchResult \<leftarrow> reply_envelope env ''patch_result'' TypePatchResult (PatchResultPayload_json
                      \<lparr>pxJobID = paJobID payload, pxStatus = aprStatus res, pxMessage = aprMessage res\<rparr>);
                    State_Monad.return ([ack, patchResult], None)
                  })
             })
        })"

text \<open>The end of \<open>handleRunProfile\<close>, once there is a result.\<close>

definition finish_run :: "Envelope \<Rightarrow> RunProfilePayload \<Rightarrow> Job \<Rightarrow> RunResult \<Rightarrow> ('s, reply) orc" where
  "finish_run env payload job runResult = do {
     let changedFiles = (if rrsChangedFiles runResult = [] then jobPatchFiles job else rrsChangedFiles runResult);
     setJobState (rpJobID payload) ''completed'';
     modify_state (do_append (jobThreadID job) (thread_event (jobID job) ''run_finished'' ''system'' ko_run_finished
       (firstNonEmptyText [rrsSummary runResult, rrsExcerpt runResult])
       [(''profileId'', JStr (rpProfileID payload)), (''status'', JStr (rrsStatus runResult)),
        (''summary'', JStr (rrsSummary runResult)), (''excerpt'', JStr (rrsExcerpt runResult)),
        (''output'', JStr (rrsOutput runResult)),
        (''topErrors'', JArr (map ParsedError_json (rrsTopErrors runResult))),
        (''changedFiles'', json_strings changedFiles)]));
     ack \<leftarrow> ack_envelope env True ''run started'';
     res \<leftarrow> reply_envelope env ''run_result'' TypeRunResult (RunResultPayload_json
       \<lparr>rrJobID = rpJobID payload, rrProfileID = rrsProfileID runResult, rrStatus = rrsStatus runResult,
        rrSummary = rrsSummary runResult, rrTopErrors = rrsTopErrors runResult, rrExcerpt = rrsExcerpt runResult,
        rrOutput = rrsOutput runResult, rrChangedFiles = changedFiles\<rparr>);
     State_Monad.return ([ack, res], None)
   }"

definition handleRunProfile :: "'s WorkspaceAdapter \<Rightarrow> Envelope \<Rightarrow> ('s, reply) orc" where
  "handleRunProfile A env =
     (case DecodePayload env RunProfilePayload_unjson of
        Inl err \<Rightarrow> ackFail env ''invalid run profile payload'' err
      | Inr payload \<Rightarrow> do {
          found \<leftarrow> getJob (rpJobID payload);
          (case found of
             None \<Rightarrow> job_not_found env (rpJobID payload)
           | Some job \<Rightarrow> do {
               known \<leftarrow> gets_state (\<lambda>s. map_of (orcProfiles s) (rpProfileID payload));
               (case known of
                  None \<Rightarrow> ackFail env ''unknown run profile''
                    (ErrNew (''profile '' @ rpProfileID payload @ '' not found''))
                | Some profile \<Rightarrow> do {
                    modify_state (do_append (jobThreadID job) (thread_event (jobID job) ''run_requested'' ''user''
                      ko_run_requested (firstNonEmptyText [rpfLabel profile, rpProfileID payload])
                      [(''profileId'', JStr (rpProfileID payload)), (''label'', JStr (rpfLabel profile)),
                       (''command'', JStr (rpfCommand profile))]));
                    started \<leftarrow> call_adapter (waRunProfile A \<lparr>rpiTaskID = jobTaskID job, rpiJobID = rpJobID payload,
                      rpiProfileID = rpProfileID payload, rpiCommand = rpfCommand profile\<rparr>);
                    (case started of
                       Inl err \<Rightarrow> ackFail env ''run profile execution failed'' err
                     | Inr runHandle \<Rightarrow> do {
                         got \<leftarrow> call_adapter (waGetRunResult A (rhRunID runHandle));
                         (case got of
                            Inl err \<Rightarrow> ackFail env ''failed to fetch run result'' err
                          | Inr runResult \<Rightarrow>
                              (case runResult of
                                 None \<Rightarrow> ackFail env ''run result is empty'' (ErrNew ''run result is nil'')
                               | Some runResult \<Rightarrow> finish_run env payload job runResult))
                       })
                  })
             })
        })"

definition handleOpenLocation :: "'s WorkspaceAdapter \<Rightarrow> Envelope \<Rightarrow> ('s, reply) orc" where
  "handleOpenLocation A env =
     (case DecodePayload env OpenLocationPayload_unjson of
        Inl err \<Rightarrow> ackFail env ''invalid open location payload'' err
      | Inr payload \<Rightarrow> do {
          opened \<leftarrow> call_adapter (waOpenLocation A \<lparr>oliPath = olPath payload, oliLine = olLine payload,
            oliColumn = olColumn payload\<rparr>);
          (case opened of
             Some err \<Rightarrow> ackFail env ''open location failed'' err
           | None \<Rightarrow> do {
               ack \<leftarrow> ack_envelope env True ''location opened'';
               State_Monad.return ([ack], None)
             })
        })"

definition Orchestrator_HandleEnvelope :: "'s WorkspaceAdapter \<Rightarrow> Envelope \<Rightarrow> ('s, reply) orc" where
  "Orchestrator_HandleEnvelope A env =
     (case Envelope_Validate env of
        Some err \<Rightarrow> ackFail env (''invalid envelope: '' @ Error err) err
      | None \<Rightarrow>
          if Type env = TypePromptSubmit then handlePromptSubmit A env
          else if Type env = TypePatchApply then handlePatchApply A env
          else if Type env = TypeRunProfile then handleRunProfile A env
          else if Type env = TypeOpenLocation then handleOpenLocation A env
          else ackFail env ''unsupported message type'' (ErrNew ''unsupported message type''))"

definition Orchestrator_RunProfiles :: "string list \<Rightarrow> 's Orchestrator \<Rightarrow> RunProfileDescriptor list" where
  "Orchestrator_RunProfiles order s = RunProfileDescriptors order (orcProfiles s)"

end
