(* ===== verification/Orchestrator_Flow.thy ===== *)
theory Orchestrator_Flow
  imports Orchestrator
begin

text \<open>
  What the orchestrator guarantees: every message is answered by exactly one acknowledgement,
  which comes first and says whether the request succeeded; the table of jobs agrees with the
  thread store; and what each handler does on its success path and on its error paths.
\<close>

section \<open>Observations\<close>

definition orc_log :: "'s Orchestrator \<Rightarrow> string \<Rightarrow> ThreadEvent list option" where
  "orc_log s tid = log_of (orcThreads s, orcWorld s) tid"

definition clock_ok :: "'s Orchestrator \<Rightarrow> bool" where
  "clock_ok s \<longleftrightarrow> (\<forall>n. 0 < UnixMilli (wClock (orcWorld s) n))"

definition job_ok :: "ThreadStore \<Rightarrow> string \<Rightarrow> Job \<Rightarrow> bool" where
  "job_ok th k j \<longleftrightarrow> jobID j = k \<and> k \<noteq> [] \<and> map_of (tstThreads th) (jobThreadID j) \<noteq> None \<and>
     ThreadIDForJob k th = Some (jobThreadID j) \<and>
     jobState j \<in> {''patch_ready'', ''applied'', ''completed''} \<and>
     distinct (jobPatchFiles j) \<and> [] \<notin> set (jobPatchFiles j)"

definition orc_inv :: "'s Orchestrator \<Rightarrow> bool" where
  "orc_inv s \<longleftrightarrow> thread_store_ok (orcThreads s) \<and> wf_map (orcJobs s) \<and>
     (\<forall>(k, j) \<in> set (orcJobs s). job_ok (orcThreads s) k j)"

definition orc_thread :: "'s Orchestrator \<Rightarrow> string \<Rightarrow> bool" where
  "orc_thread s tid \<longleftrightarrow> map_of (tstThreads (orcThreads s)) tid \<noteq> None"

text \<open>A run: the orchestrator starts on any sound store, and handles messages one after the other.\<close>

definition orc_init :: "'s Orchestrator \<Rightarrow> bool" where
  "orc_init s \<longleftrightarrow> (\<exists>a profiles store w. s = NewOrchestrator a profiles store w \<and>
     (case store of None \<Rightarrow> True | Some st \<Rightarrow> thread_store_ok st))"

inductive orc_step :: "'s WorkspaceAdapter \<Rightarrow> 's Orchestrator \<Rightarrow> 's Orchestrator \<Rightarrow> bool" for A where
  step_Handle: "orc_step A s (snd (run_state (Orchestrator_HandleEnvelope A env) s))"

text \<open>
  The form of an answer: the acknowledgement of the request first, then envelopes of other
  types; all valid, of the request's session, with consecutive sequence numbers.
\<close>

definition ack_sid :: "Envelope \<Rightarrow> string" where
  "ack_sid env = (if SID env = [] then ''unknown'' else SID env)"

definition is_ack :: "Envelope \<Rightarrow> bool \<Rightarrow> Envelope \<Rightarrow> bool" where
  "is_ack env accepted a \<longleftrightarrow> Type a = TypeCmdAck \<and> SID a = ack_sid env \<and>
     (\<exists>rid message. RID a = rid @ ''_ack'' \<and> (RID env \<noteq> [] \<longrightarrow> rid = RID env) \<and>
        Payload a = Some (CmdAckPayload_json
          \<lparr>caRequestRID = rid, caAccepted = accepted, caMessage = message\<rparr>))"

definition reply_ok :: "Envelope \<Rightarrow> int \<Rightarrow> reply \<Rightarrow> int \<Rightarrow> bool" where
  "reply_ok env q r q' \<longleftrightarrow> (\<exists>a es. fst r = a # es \<and> is_ack env (snd r = None) a \<and>
     (\<forall>e \<in> set es. Type e \<in> {TypePromptAck, TypePatchReady, TypePatchResult, TypeRunResult} \<and> SID e = SID env) \<and>
     (\<forall>e \<in> set (a # es). Envelope_Validate e = None) \<and>
     map Seq (a # es) = [q + 1..q'] \<and> length es \<le> 2)"

definition is_reply :: "Envelope \<Rightarrow> MessageType \<Rightarrow> json \<Rightarrow> Envelope \<Rightarrow> bool" where
  "is_reply env typ payload e \<longleftrightarrow> Type e = typ \<and> SID e = SID env \<and> Payload e = Some payload \<and> Envelope_Validate e = None"

text \<open>The log of a thread, empty when there is none yet.\<close>

definition log_before :: "'s Orchestrator \<Rightarrow> string \<Rightarrow> ThreadEvent list" where
  "log_before s tid = (case orc_log s tid of None \<Rightarrow> [] | Some l \<Rightarrow> l)"

text \<open>No thread disappears and no event of a log changes.\<close>

definition grows :: "'s Orchestrator \<Rightarrow> 's Orchestrator \<Rightarrow> bool" where
  "grows s s' \<longleftrightarrow> (\<forall>tid l. orc_log s tid = Some l \<longrightarrow> (\<exists>es. orc_log s' tid = Some (l @ es)))"

text \<open>Between two states only the clock was read and sequence numbers were taken.\<close>

definition quiet :: "'s Orchestrator \<Rightarrow> 's Orchestrator \<Rightarrow> bool" where
  "quiet s s' \<longleftrightarrow> orcJobs s' = orcJobs s \<and> orcThreads s' = orcThreads s \<and> orcAdapter s' = orcAdapter s \<and>
     orcProfiles s' = orcProfiles s \<and> wClock (orcWorld s') = wClock (orcWorld s)"

text \<open>The requests that the orchestrator refuses before it does anything.\<close>

definition refused :: "'s Orchestrator \<Rightarrow> Envelope \<Rightarrow> bool" where
  "refused s env \<longleftrightarrow> Envelope_Validate env \<noteq> None \<or>
     (if Type env = TypePromptSubmit then
        (case DecodePayload env PromptSubmitPayload_unjson of Inl _ \<Rightarrow> True | Inr p \<Rightarrow> psPrompt p = [])
      else if Type env = TypePatchApply then
        (case DecodePayload env PatchApplyPayload_unjson of Inl _ \<Rightarrow> True | Inr p \<Rightarrow> map_of (orcJobs s) (paJobID p) = None)
      else if Type env = TypeRunProfile then
        (case DecodePayload env RunProfilePayload_unjson of Inl _ \<Rightarrow> True
         | Inr p \<Rightarrow> map_of (orcJobs s) (rpJobID p) = None \<or> map_of (orcProfiles s) (rpProfileID p) = None)
      else if Type env = TypeOpenLocation then
        (case DecodePayload env OpenLocationPayload_unjson of Inl _ \<Rightarrow> True | Inr p \<Rightarrow> False)
      else True)"

text \<open>
  What a served prompt leaves behind: the stored job and the three envelopes of the answer.
\<close>

definition job_started ::
    "Envelope \<Rightarrow> string \<Rightarrow> TaskHandle \<Rightarrow> PatchReadyPayload \<Rightarrow> 's Orchestrator \<Rightarrow> string \<Rightarrow> reply \<Rightarrow> 's Orchestrator \<Rightarrow> bool" where
  "job_started env tid h patch s jid r s' \<longleftrightarrow>
     (\<exists>a e f. r = ([a, e, f], None) \<and> is_ack env True a \<and>
        is_reply env TypePromptAck (PromptAckPayload_json
          \<lparr>pkThreadID = tid, pkJobID = jid, pkAccepted = True, pkMessage = ''task started''\<rparr>) e \<and>
        is_reply env TypePatchReady (PatchReadyPayload_json (patch\<lparr>prJobID := jid\<rparr>)) f) \<and>
     (\<exists>j. map_of (orcJobs s') jid = Some j \<and> jobThreadID j = tid \<and> jobTaskID j = thTaskID h \<and>
        jobSessionID j = SID env \<and> jobState j = ''patch_ready'' \<and>
        set (jobPatchFiles j) = fpPath ` set (prFiles patch) - {[]}) \<and>
     (\<forall>k. k \<noteq> jid \<longrightarrow> map_of (orcJobs s') k = map_of (orcJobs s) k)"

definition job_events :: "string \<Rightarrow> ThreadEvent list \<Rightarrow> bool" where
  "job_events jid es \<longleftrightarrow> map (\<lambda>e. (tevKind e, tevJobID e)) es = [(''prompt_accepted'', jid), (''patch_ready'', jid)]"

text \<open>What the two handlers of an existing job leave behind: two events in its thread and two envelopes.\<close>

definition job_handled ::
    "Envelope \<Rightarrow> Job \<Rightarrow> string list \<Rightarrow> MessageType \<Rightarrow> json \<Rightarrow> 's Orchestrator \<Rightarrow> reply \<Rightarrow> 's Orchestrator \<Rightarrow> bool" where
  "job_handled env j kinds typ payload s r s' \<longleftrightarrow>
     (\<exists>a e. fst r = [a, e] \<and> is_ack env (snd r = None) a \<and> is_reply env typ payload e) \<and>
     (\<exists>es. orc_log s' (jobThreadID j) = Some (log_before s (jobThreadID j) @ es) \<and>
        map (\<lambda>e. (tevKind e, tevJobID e)) es = map (\<lambda>k. (k, jobID j)) kinds)"

text \<open>Room for the sequence numbers of one answer.\<close>

definition seq_room :: "int \<Rightarrow> bool" where
  "seq_room q \<longleftrightarrow> 0 \<le> q \<and> q + 3 \<le> maxInt64"

section \<open>An example\<close>

definition ex_orc :: "MockAdapter Orchestrator" where
  "ex_orc = NewOrchestrator NewMockAdapter None None ex_world"

definition ex_prompt :: Envelope where
  "ex_prompt = \<lparr>SID = ''s1'', RID = ''r1'', Seq = 1, TS = 5, Type = TypePromptSubmit,
     Payload = Some (JObj [(''prompt'', JStr ''fix'')])\<rparr>"

definition ex_context :: WorkspaceContext where
  "ex_context = (case mock_GetContext \<lparr>crqOptions = zero_ContextOptions\<rparr> NewMockAdapter of (Inr c, _) \<Rightarrow> c)"

definition ex_patch :: PatchReadyPayload where
  "ex_patch = (case mock_GetPatch [] NewMockAdapter of (Inr (Some p), _) \<Rightarrow> p)"

definition ex_job :: Job where
  "ex_job = \<lparr>jobID = ''j1'', jobThreadID = ''t1'', jobSessionID = ''s1'', jobTaskID = ''task_1'', jobPrompt = ''fix'',
     jobState = ''patch_ready'', jobPatchFiles = [''a''], jobCreatedAt = 0\<rparr>"

definition ex_orc_job :: "MockAdapter Orchestrator" where
  "ex_orc_job = ex_orc\<lparr>orcThreads := ex_store1\<lparr>tstJobToThread := [(''j1'', ''t1'')]\<rparr>, orcJobs := [(''j1'', ex_job)]\<rparr>"

definition ex_apply :: Envelope where
  "ex_apply = \<lparr>SID = ''s1'', RID = ''r2'', Seq = 2, TS = 5, Type = TypePatchApply,
     Payload = Some (JObj [(''jobId'', JStr ''j1''), (''mode'', JStr ''all'')])\<rparr>"

definition ex_run :: Envelope where
  "ex_run = \<lparr>SID = ''s1'', RID = ''r3'', Seq = 3, TS = 5, Type = TypeRunProfile,
     Payload = Some (JObj [(''jobId'', JStr ''j1''), (''profileId'', JStr ''build'')])\<rparr>"

section \<open>Lemmas\<close>

subsection \<open>The state after the primitive operations\<close>

lemma wClock_persist [simp]: "wClock (persistLockedBestEffort st w) = wClock w"
  by (simp add: persistLockedBestEffort_def persistLocked_def snapshotLocked_def time_Now_def Let_def
      write_tmp_def remove_main_def rename_tmp_def split: save_fault.split option.split)

lemma wClock_EnsureThread [simp]: "wClock (snd (snd (EnsureThread tid sid title st w))) = wClock w"
  by (simp add: EnsureThread_def Let_def time_Now_def split: option.split prod.split)

lemma wClock_AppendEvent [simp]: "wClock (snd (snd (AppendEvent tid e st w))) = wClock w"
  by (auto simp: AppendEvent_def complete_event_def Let_def time_Now_def split: option.split prod.split)

lemma wClock_AssignJob [simp]: "wClock (snd (AssignJob tid job st w)) = wClock w"
  by (simp add: AssignJob_def Let_def)

lemma tick_simps [simp]:
  "orcJobs (tick s) = orcJobs s" "orcSeq (tick s) = orcSeq s" "orcAdapter (tick s) = orcAdapter s"
  "orcProfiles (tick s) = orcProfiles s" "orcThreads (tick s) = orcThreads s"
  "wClock (orcWorld (tick s)) = wClock (orcWorld s)"
  by (simp_all add: tick_def time_Now_def)

lemma do_ensure_simps [simp]:
  "orcJobs (do_ensure tid sid title s) = orcJobs s" "orcSeq (do_ensure tid sid title s) = orcSeq s"
  "orcAdapter (do_ensure tid sid title s) = orcAdapter s" "orcProfiles (do_ensure tid sid title s) = orcProfiles s"
  "wClock (orcWorld (do_ensure tid sid title s)) = wClock (orcWorld s)"
  by (simp_all add: do_ensure_def Let_def)

lemma do_append_simps [simp]:
  "orcJobs (do_append tid e s) = orcJobs s" "orcSeq (do_append tid e s) = orcSeq s"
  "orcAdapter (do_append tid e s) = orcAdapter s" "orcProfiles (do_append tid e s) = orcProfiles s"
  "wClock (orcWorld (do_append tid e s)) = wClock (orcWorld s)"
  by (simp_all add: do_append_def Let_def)

lemma do_assign_simps [simp]:
  "orcJobs (do_assign tid job s) = orcJobs s" "orcSeq (do_assign tid job s) = orcSeq s"
  "orcAdapter (do_assign tid job s) = orcAdapter s" "orcProfiles (do_assign tid job s) = orcProfiles s"
  "wClock (orcWorld (do_assign tid job s)) = wClock (orcWorld s)"
  by (simp_all add: do_assign_def Let_def)

lemma clock_ok_simps [simp]:
  "clock_ok (tick s) = clock_ok s" "clock_ok (do_ensure tid sid title s) = clock_ok s"
  "clock_ok (do_append tid e s) = clock_ok s" "clock_ok (do_assign tid job s) = clock_ok s"
  "clock_ok (s\<lparr>orcJobs := jobs\<rparr>) = clock_ok s" "clock_ok (s\<lparr>orcSeq := q\<rparr>) = clock_ok s"
  "clock_ok (s\<lparr>orcAdapter := st\<rparr>) = clock_ok s"
  by (simp_all add: clock_ok_def)

lemma thread_event_simps [simp]:
  "tevJobID (thread_event job kind role title body kvs) = job" "tevKind (thread_event job kind role title body kvs) = kind"
  "tevRole (thread_event job kind role title body kvs) = role" "tevBody (thread_event job kind role title body kvs) = body"
  "tevData (thread_event job kind role title body kvs) = map_literal kvs"
  by (simp_all add: thread_event_def)

subsection \<open>The primitive programs\<close>

lemma wp_clock [wp]: "wp (with_clock f) Q s \<longleftrightarrow> Q (f (fst (time_Now (orcWorld s)))) (tick s)"
  by (simp add: with_clock_def wp)

lemma wp_nextSeq [wp]:
  "wp nextSeq Q s \<longleftrightarrow> Q (wrap64 (orcSeq s + 1)) (s\<lparr>orcSeq := wrap64 (orcSeq s + 1)\<rparr>)"
  by (simp add: nextSeq_def wp Let_def)

lemma wp_adapter [wp]:
  "wp (call_adapter f) Q s \<longleftrightarrow> (case f (orcAdapter s) of (a, st) \<Rightarrow> Q a (s\<lparr>orcAdapter := st\<rparr>))"
  by (simp add: call_adapter_def wp case_prod_beta)

lemma wp_ensure [wp]:
  "wp (ensure_thread tid sid title) Q s \<longleftrightarrow>
     Q (fst (EnsureThread tid sid title (orcThreads s) (orcWorld s))) (do_ensure tid sid title s)"
  by (simp add: ensure_thread_def wp)

lemmas wp_programs = newID_def getJob_def setJobState_def job_not_found_def Let_def

lemma clock_pos: "clock_ok s \<Longrightarrow> 0 < UnixMilli (fst (time_Now (orcWorld s)))"
  by (simp add: clock_ok_def time_Now_def)

subsection \<open>Answers\<close>

lemma next_seq: "0 \<le> q \<Longrightarrow> q < maxInt64 \<Longrightarrow> wrap64 (q + 1) = q + 1"
  by (rule wrap64_id) (simp_all add: minInt64_def)

lemma quiet_clock: "quiet s s' \<Longrightarrow> clock_ok s' = clock_ok s"
  by (simp add: quiet_def clock_ok_def)

lemma quiet_refl: "quiet s s"
  by (simp add: quiet_def)

lemma quiet_tick: "quiet s s' \<Longrightarrow> quiet s (tick s')"
  by (simp add: quiet_def)

lemma quiet_seq: "quiet s s' \<Longrightarrow> quiet s (s'\<lparr>orcSeq := q\<rparr>)"
  by (simp add: quiet_def)

lemma quiet_trans: "quiet s s' \<Longrightarrow> quiet s' s'' \<Longrightarrow> quiet s s''"
  by (simp add: quiet_def)

lemma ack_built:
  assumes "clock_ok s" "0 \<le> q" "RID env \<noteq> [] \<Longrightarrow> rid = RID env"
  obtains a where "NewCmdAck (fst (time_Now (orcWorld s))) (ack_sid env) q rid accepted message = Inr a"
    "is_ack env accepted a" "Envelope_Validate a = None" "Seq a = q"
proof -
  let ?a = "\<lparr>SID = ack_sid env, RID = rid @ ''_ack'', Seq = q, TS = UnixMilli (fst (time_Now (orcWorld s))),
    Type = TypeCmdAck, Payload = Some (CmdAckPayload_json \<lparr>caRequestRID = rid, caAccepted = accepted, caMessage = message\<rparr>)\<rparr>"
  show thesis
    by (rule that [of ?a]) (use assms clock_pos [OF assms(1)] in
      \<open>auto simp: NewCmdAck_Inr_iff is_ack_def Validate_None_iff ack_sid_def\<close>)
qed

lemma wp_ackFail:
  assumes "clock_ok s" "0 \<le> orcSeq s" "orcSeq s < maxInt64"
    and "\<And>a s'. is_ack env False a \<Longrightarrow> Envelope_Validate a = None \<Longrightarrow> Seq a = orcSeq s + 1 \<Longrightarrow>
      orcSeq s' = orcSeq s + 1 \<Longrightarrow> quiet s s' \<Longrightarrow> Q ([a], Some err) s'"
  shows "wp (ackFail env message err) Q s"
proof -
  have main: "wp (do {
     seq \<leftarrow> nextSeq;
     ack \<leftarrow> with_clock (\<lambda>now. NewCmdAck now (ack_sid env) seq rid False message);
     State_Monad.return (case ack of
       Inl ackErr \<Rightarrow> ([], Some (ErrWrap ''build ack: '' ackErr []))
     | Inr e \<Rightarrow> ([e], Some err))
   }) Q s1"
    if s1: "quiet s s1" "orcSeq s1 = orcSeq s" "RID env \<noteq> [] \<Longrightarrow> rid = RID env" for s1 rid
  proof -
    let ?s2 = "s1\<lparr>orcSeq := orcSeq s + 1\<rparr>"
    have q: "quiet s ?s2" by (rule quiet_seq [OF s1(1)])
    obtain a where a: "NewCmdAck (fst (time_Now (orcWorld ?s2))) (ack_sid env) (orcSeq s + 1) rid False message = Inr a"
      "is_ack env False a" "Envelope_Validate a = None" "Seq a = orcSeq s + 1"
      by (rule ack_built [of ?s2 "orcSeq s + 1" env rid False message]) (use s1 q assms quiet_clock [OF q] in simp_all)
    have "Q ([a], Some err) (tick ?s2)" by (rule assms(4) [OF a(2-4) _ quiet_tick [OF q]]) simp
    then show ?thesis using a(1) s1 next_seq [OF assms(2,3)] by (simp add: wp)
  qed
  show ?thesis
    unfolding ackFail_def Let_def ack_sid_def [symmetric]
    by (subst wp_bind, simp only: wp_if newID_def wp_clock wp_return split: if_split)
      (intro conjI impI main; simp add: quiet_def)
qed

lemma wp_ack_envelope:
  assumes "clock_ok s" "0 \<le> orcSeq s" "orcSeq s < maxInt64" "SID env \<noteq> []"
    and "\<And>a s'. is_ack env accepted a \<Longrightarrow> Envelope_Validate a = None \<Longrightarrow> Seq a = orcSeq s + 1 \<Longrightarrow>
      orcSeq s' = orcSeq s + 1 \<Longrightarrow> quiet s s' \<Longrightarrow> Q a s'"
  shows "wp (ack_envelope env accepted message) Q s"
proof -
  let ?s2 = "s\<lparr>orcSeq := orcSeq s + 1\<rparr>"
  have q: "quiet s ?s2" by (rule quiet_seq [OF quiet_refl])
  obtain a where a: "NewCmdAck (fst (time_Now (orcWorld ?s2))) (ack_sid env) (orcSeq s + 1) (RID env) accepted message = Inr a"
    "is_ack env accepted a" "Envelope_Validate a = None" "Seq a = orcSeq s + 1"
    by (rule ack_built [of ?s2 "orcSeq s + 1" env "RID env" accepted message]) (use assms quiet_clock [OF q] in simp_all)
  have "Q a (tick ?s2)" by (rule assms(5) [OF a(2-4) _ quiet_tick [OF q]]) simp
  with a(1) assms(4) show ?thesis
    by (simp add: ack_envelope_def wp next_seq [OF assms(2,3)] or_zero_def ack_sid_def)
qed

lemma wp_reply_envelope:
  assumes "clock_ok s" "0 \<le> orcSeq s" "orcSeq s < maxInt64" "SID env \<noteq> []" "prefix \<noteq> []" "typ \<noteq> []"
    and "\<And>e s'. Type e = typ \<Longrightarrow> SID e = SID env \<Longrightarrow> Payload e = Some payload \<Longrightarrow> Envelope_Validate e = None \<Longrightarrow>
      Seq e = orcSeq s + 1 \<Longrightarrow> orcSeq s' = orcSeq s + 1 \<Longrightarrow> quiet s s' \<Longrightarrow> Q e s'"
  shows "wp (reply_envelope env prefix typ payload) Q s"
proof -
  let ?s2 = "(tick s)\<lparr>orcSeq := orcSeq s + 1\<rparr>"
  let ?now = "fst (time_Now (orcWorld ?s2))"
  have q: "quiet s ?s2" by (rule quiet_seq [OF quiet_tick [OF quiet_refl]])
  define rid where "rid = prefix @ ''_'' @ Itoa (UnixNano (fst (time_Now (orcWorld s))))"
  define e where "e = \<lparr>SID = SID env, RID = rid, Seq = orcSeq s + 1, TS = UnixMilli ?now, Type = typ, Payload = Some payload\<rparr>"
  have pos: "0 < UnixMilli ?now" by (rule clock_pos) (use assms(1) quiet_clock [OF q] in simp)
  have new: "NewEnvelope ?now (SID env) rid (orcSeq s + 1) typ (Inr payload) = Inr e"
    unfolding e_def by (rule NewEnvelope_ok) (use assms pos in \<open>simp_all add: rid_def\<close>)
  have "Q e (tick ?s2)"
    by (rule assms(7) [OF _ _ _ _ _ _ quiet_tick [OF q]])
      (use new assms pos in \<open>simp_all add: e_def Validate_None_iff rid_def\<close>)
  with new show ?thesis
    by (simp add: reply_envelope_def newID_def wp next_seq [OF assms(2,3)] or_zero_def rid_def)
qed

lemma wp_answer2:
  assumes "clock_ok s" "seq_room (orcSeq s)" "SID env \<noteq> []" "prefix \<noteq> []" "typ \<noteq> []"
    and "\<And>a e s'. is_ack env accepted a \<Longrightarrow> Envelope_Validate a = None \<Longrightarrow> is_reply env typ payload e \<Longrightarrow>
      Seq a = orcSeq s + 1 \<Longrightarrow> Seq e = orcSeq s + 2 \<Longrightarrow> orcSeq s' = orcSeq s + 2 \<Longrightarrow> quiet s s' \<Longrightarrow> Q a e s'"
  shows "wp (ack_envelope env accepted message) (\<lambda>a. wp (reply_envelope env prefix typ payload) (Q a)) s"
proof (rule wp_ack_envelope)
  fix a s1
  assume 1: "is_ack env accepted a" "Envelope_Validate a = None" "Seq a = orcSeq s + 1" "orcSeq s1 = orcSeq s + 1" "quiet s s1"
  show "wp (reply_envelope env prefix typ payload) (Q a) s1"
    by (rule wp_reply_envelope)
      (use 1 assms in \<open>auto simp: seq_room_def quiet_clock is_reply_def intro!: assms(6) elim: quiet_trans\<close>)
qed (use assms in \<open>simp_all add: seq_room_def\<close>)

lemma wp_answer3:
  assumes "clock_ok s" "seq_room (orcSeq s)" "SID env \<noteq> []" "prefix \<noteq> []" "typ \<noteq> []" "prefix' \<noteq> []" "typ' \<noteq> []"
    and "\<And>a e f s'. is_ack env accepted a \<Longrightarrow> Envelope_Validate a = None \<Longrightarrow> is_reply env typ payload e \<Longrightarrow>
      is_reply env typ' payload' f \<Longrightarrow> Seq a = orcSeq s + 1 \<Longrightarrow> Seq e = orcSeq s + 2 \<Longrightarrow> Seq f = orcSeq s + 3 \<Longrightarrow>
      orcSeq s' = orcSeq s + 3 \<Longrightarrow> quiet s s' \<Longrightarrow> Q a e f s'"
  shows "wp (ack_envelope env accepted message) (\<lambda>a. wp (reply_envelope env prefix typ payload)
    (\<lambda>e. wp (reply_envelope env prefix' typ' payload') (Q a e))) s"
proof (rule wp_answer2)
  fix a e s1
  assume 1: "is_ack env accepted a" "Envelope_Validate a = None" "is_reply env typ payload e"
    "Seq a = orcSeq s + 1" "Seq e = orcSeq s + 2" "orcSeq s1 = orcSeq s + 2" "quiet s s1"
  show "wp (reply_envelope env prefix' typ' payload') (Q a e) s1"
    by (rule wp_reply_envelope)
      (use 1 assms in \<open>auto simp: seq_room_def quiet_clock is_reply_def intro!: assms(8) elim: quiet_trans\<close>)
qed (use assms in simp_all)

lemma upto_simps3: "[q + 1..q + 1] = [q + 1]" "[q + 1..q + 2] = [q + 1, q + 2]" "[q + 1..q + 3] = [q + 1, q + 2, q + (3::int)]"
  by (simp_all add: upto.simps)

lemma reply_ok_1:
  "is_ack env (err = None) a \<Longrightarrow> Envelope_Validate a = None \<Longrightarrow> Seq a = q + 1 \<Longrightarrow> q' = q + 1 \<Longrightarrow>
   reply_ok env q ([a], err) q'"
  by (simp add: reply_ok_def upto_simps3)

lemma reply_ok_2:
  "is_ack env (err = None) a \<Longrightarrow> Envelope_Validate a = None \<Longrightarrow> Seq a = q + 1 \<Longrightarrow>
   is_reply env typ p e \<Longrightarrow> typ \<in> {TypePatchResult, TypeRunResult} \<Longrightarrow> Seq e = q + 2 \<Longrightarrow>
   q' = q + 2 \<Longrightarrow> reply_ok env q ([a, e], err) q'"
  by (auto simp: reply_ok_def upto_simps3 is_reply_def)

lemma reply_ok_3:
  "is_ack env (err = None) a \<Longrightarrow> Envelope_Validate a = None \<Longrightarrow> Seq a = q + 1 \<Longrightarrow>
   is_reply env TypePromptAck p e \<Longrightarrow> Seq e = q + 2 \<Longrightarrow> is_reply env TypePatchReady p' f \<Longrightarrow> Seq f = q + 3 \<Longrightarrow>
   q' = q + 3 \<Longrightarrow> reply_ok env q ([a, e, f], err) q'"
  by (simp add: reply_ok_def upto_simps3 is_reply_def)

text \<open>A failure answers in the required form whatever state it starts from.\<close>

lemma ackFail_reply:
  assumes "clock_ok s" "seq_room (orcSeq s)" "orcSeq s = q"
  shows "wp (ackFail env message err) (\<lambda>r s'. reply_ok env q r (orcSeq s')) s"
  by (rule wp_ackFail) (use assms in \<open>auto simp: seq_room_def intro!: reply_ok_1\<close>)

lemma start_job_reply:
  assumes "clock_ok s" "seq_room (orcSeq s)" "SID env \<noteq> []" "orcSeq s = q"
  shows "wp (start_job env payload tid h patch) (\<lambda>r s'. reply_ok env q r (orcSeq s')) s"
  unfolding start_job_def wp_programs wp
  by (rule wp_answer3) (use assms in \<open>auto intro: reply_ok_3\<close>)

lemma handlePromptSubmit_reply:
  assumes "clock_ok s" "seq_room (orcSeq s)" "SID env \<noteq> []"
  shows "wp (handlePromptSubmit A env) (\<lambda>r s'. reply_ok env (orcSeq s) r (orcSeq s')) s"
  unfolding handlePromptSubmit_def wp_programs wp
  using assms by (auto split: sum.split option.split prod.split intro!: ackFail_reply start_job_reply)

lemma handlePatchApply_reply:
  assumes "clock_ok s" "seq_room (orcSeq s)" "SID env \<noteq> []"
  shows "wp (handlePatchApply A env) (\<lambda>r s'. reply_ok env (orcSeq s) r (orcSeq s')) s"
  unfolding handlePatchApply_def wp_programs wp
  using assms by (auto split: sum.split option.split prod.split intro!: ackFail_reply wp_answer2 intro: reply_ok_2)

lemma handleRunProfile_reply:
  assumes "clock_ok s" "seq_room (orcSeq s)" "SID env \<noteq> []"
  shows "wp (handleRunProfile A env) (\<lambda>r s'. reply_ok env (orcSeq s) r (orcSeq s')) s"
  unfolding handleRunProfile_def finish_run_def wp_programs wp
  using assms by (auto split: sum.split option.split prod.split intro!: ackFail_reply wp_answer2 intro: reply_ok_2)

lemma handleOpenLocation_reply:
  assumes "clock_ok s" "seq_room (orcSeq s)" "SID env \<noteq> []"
  shows "wp (handleOpenLocation A env) (\<lambda>r s'. reply_ok env (orcSeq s) r (orcSeq s')) s"
  unfolding handleOpenLocation_def wp_programs wp
  using assms by (auto simp: seq_room_def split: sum.split option.split prod.split
      intro!: ackFail_reply wp_ack_envelope intro: reply_ok_1)

lemma HandleEnvelope_reply:
  assumes "clock_ok s" "seq_room (orcSeq s)"
  shows "wp (Orchestrator_HandleEnvelope A env) (\<lambda>r s'. reply_ok env (orcSeq s) r (orcSeq s')) s"
  unfolding Orchestrator_HandleEnvelope_def wp
  using assms by (auto simp: Validate_None_iff split: option.split intro!: ackFail_reply handlePromptSubmit_reply
      handlePatchApply_reply handleRunProfile_reply handleOpenLocation_reply)

subsection \<open>The invariant\<close>

lemma orc_inv_iff:
  "orc_inv s \<longleftrightarrow> thread_store_ok (orcThreads s) \<and> wf_map (orcJobs s) \<and>
     (\<forall>k j. map_of (orcJobs s) k = Some j \<longrightarrow> job_ok (orcThreads s) k j)"
  by (auto simp: orc_inv_def set_map_iff)

lemma orc_inv_job: "orc_inv s \<Longrightarrow> map_of (orcJobs s) k = Some j \<Longrightarrow> job_ok (orcThreads s) k j"
  by (simp add: orc_inv_iff)

lemma orc_inv_simps [simp]:
  "orc_inv (tick s) = orc_inv s" "orc_inv (s\<lparr>orcSeq := q\<rparr>) = orc_inv s" "orc_inv (s\<lparr>orcAdapter := st\<rparr>) = orc_inv s"
  "orc_thread (tick s) tid = orc_thread s tid" "orc_thread (s\<lparr>orcSeq := q\<rparr>) tid = orc_thread s tid"
  "orc_thread (s\<lparr>orcAdapter := st\<rparr>) tid = orc_thread s tid" "orc_thread (s\<lparr>orcJobs := jobs\<rparr>) tid = orc_thread s tid"
  by (simp_all add: orc_inv_def orc_thread_def)

lemma quiet_inv: "quiet s s' \<Longrightarrow> orc_inv s' = orc_inv s"
  by (simp add: quiet_def orc_inv_def)

lemma tables_append:
  "map_of (tstThreads (fst (snd (AppendEvent tid e th w)))) k \<noteq> None \<longleftrightarrow> map_of (tstThreads th) k \<noteq> None"
  "ThreadIDForJob k (fst (snd (AppendEvent tid e th w))) =
     (if map_of (tstThreads th) tid \<noteq> None \<and> tevJobID e = k \<and> k \<noteq> [] then Some tid else ThreadIDForJob k th)"
proof (atomize (full), cases "map_of (tstThreads th) tid")
  case (Some r)
  have *: "tevJobID (fst (complete_event tid e w)) = tevJobID e"
    by (auto simp: complete_event_def Let_def time_Now_def)
  obtain m where "tstThreads (fst (snd (AppendEvent tid e th w))) =
      AList.update tid \<lparr>trSummary = m, trEvents = trEvents r @ [fst (complete_event tid e w)]\<rparr> (tstThreads th)"
    "tstJobToThread (fst (snd (AppendEvent tid e th w))) =
      (if tevJobID e \<noteq> [] then AList.update (tevJobID e) tid (tstJobToThread th) else tstJobToThread th)"
    by (rule AppendEvent_Some [OF Some, of e w, unfolded *])
  with Some show "(map_of (tstThreads (fst (snd (AppendEvent tid e th w)))) k \<noteq> None \<longleftrightarrow> map_of (tstThreads th) k \<noteq> None) \<and>
    ThreadIDForJob k (fst (snd (AppendEvent tid e th w))) =
     (if map_of (tstThreads th) tid \<noteq> None \<and> tevJobID e = k \<and> k \<noteq> [] then Some tid else ThreadIDForJob k th)"
    by (auto simp: go_map ThreadIDForJob_def)
qed (simp add: AppendEvent_None)

lemma inv_append:
  assumes "orc_inv s" "\<And>j. map_of (orcJobs s) (tevJobID e) = Some j \<Longrightarrow> jobThreadID j = tid"
  shows "orc_inv (do_append tid e s)"
  using assms AppendEvent_ok [of "orcThreads s" tid e "orcWorld s"]
  by (auto simp: orc_inv_iff do_append_def Let_def job_ok_def tables_append simp del: not_None_eq)

lemma thread_append [simp]: "orc_thread (do_append tid e s) k = orc_thread s k"
  by (simp add: orc_thread_def do_append_def Let_def tables_append del: not_None_eq)

lemma tables_ensure:
  "map_of (tstThreads th) k \<noteq> None \<Longrightarrow> map_of (tstThreads (fst (snd (EnsureThread tid sid title th w)))) k \<noteq> None"
  "ThreadIDForJob k (fst (snd (EnsureThread tid sid title th w))) = ThreadIDForJob k th"
  by (cases rule: EnsureThread_cases [of th tid sid title w]; auto simp: go_map ThreadIDForJob_def)+

lemma ensure_exists:
  assumes "thread_store_ok th"
  shows "map_of (tstThreads (fst (snd (EnsureThread tid sid title th w)))) (tsmID (fst (EnsureThread tid sid title th w))) \<noteq> None"
proof (cases rule: EnsureThread_cases [of th tid sid title w])
  case (new tid')
  then show ?thesis by (auto simp: go_map zero_ThreadSummary_def)
next
  case (old tid' r)
  with thread_store_okD [OF assms old(1)] show ?thesis by (auto simp: go_map record_ok_def Let_def)
qed

lemma inv_ensure: "orc_inv s \<Longrightarrow> orc_inv (do_ensure tid sid title s)"
  using EnsureThread_ok [of "orcThreads s" tid sid title "orcWorld s"]
  by (auto simp: orc_inv_iff do_ensure_def Let_def job_ok_def tables_ensure simp del: not_None_eq)

lemma thread_ensure:
  "orc_inv s \<Longrightarrow> orc_thread (do_ensure tid sid title s) (tsmID (fst (EnsureThread tid sid title (orcThreads s) (orcWorld s))))"
  by (simp add: orc_inv_iff orc_thread_def do_ensure_def Let_def ensure_exists del: not_None_eq)

lemma inv_job_state:
  assumes "orc_inv s" "orcJobs s = jobs" "st \<in> {''patch_ready'', ''applied'', ''completed''}"
  shows "orc_inv (s\<lparr>orcJobs := set_job_state k st jobs\<rparr>)"
  using assms by (auto simp: orc_inv_iff set_job_state_def go_map job_ok_def split: option.split if_splits)

lemma inv_new_job:
  assumes "orc_inv s" "orc_thread s tid" "jid \<noteq> []" "jobID job = jid" "jobThreadID job = tid"
    "jobState job = ''patch_ready''" "distinct (jobPatchFiles job)" "[] \<notin> set (jobPatchFiles job)"
  shows "orc_inv (do_assign tid jid (s\<lparr>orcJobs := AList.update jid job (orcJobs s)\<rparr>))"
proof -
  obtain r where r: "map_of (tstThreads (orcThreads s)) tid = Some r" using assms(2) by (auto simp: orc_thread_def)
  have "tid \<noteq> []" using assms(1) thread_store_okD [OF _ r] by (auto simp: orc_inv_iff record_ok_def Let_def)
  with assms r AssignJob_ok [of "orcThreads s" tid jid "orcWorld s"] show ?thesis
    by (auto simp: orc_inv_iff do_assign_def Let_def job_ok_def AssignJob_def ThreadIDForJob_def go_map split: if_splits)
qed

lemma patch_paths_ok: "distinct ps \<Longrightarrow> [] \<notin> set ps \<Longrightarrow> distinct (patch_paths fs ps) \<and> [] \<notin> set (patch_paths fs ps)"
  by (induction fs arbitrary: ps) auto

lemma patch_paths_set: "set (patch_paths fs ps) = set ps \<union> (fpPath ` set fs - {[]})"
  by (induction fs arbitrary: ps) auto

text \<open>The answers themselves change nothing but the sequence number and the clock.\<close>

lemma wp_ackFail_quiet: "(\<And>r s'. quiet s s' \<Longrightarrow> Q r s') \<Longrightarrow> wp (ackFail env message err) Q s"
  by (simp add: ackFail_def newID_def wp Let_def quiet_def split: sum.split)

lemma wp_ack_quiet: "(\<And>r s'. quiet s s' \<Longrightarrow> Q r s') \<Longrightarrow> wp (ack_envelope env accepted message) Q s"
  by (simp add: ack_envelope_def wp quiet_def)

lemma wp_reply_quiet: "(\<And>r s'. quiet s s' \<Longrightarrow> Q r s') \<Longrightarrow> wp (reply_envelope env prefix typ payload) Q s"
  by (simp add: reply_envelope_def newID_def wp quiet_def)

lemmas wp_quiet = wp_ackFail_quiet wp_ack_quiet wp_reply_quiet

lemma start_job_inv:
  assumes "orc_inv s" "orc_thread s tid"
  shows "wp (start_job env payload tid h patch) (\<lambda>r s'. orc_inv s') s"
proof -
  define jid where "jid = ''job'' @ ''_'' @ Itoa (UnixNano (fst (time_Now (orcWorld s))))"
  define job where "job = \<lparr>jobID = jid, jobThreadID = tid, jobSessionID = SID env, jobTaskID = thTaskID h,
    jobPrompt = psPrompt payload, jobState = ''patch_ready'', jobPatchFiles = patchFilePaths (prFiles patch),
    jobCreatedAt = fst (time_Now (orcWorld (tick s)))\<rparr>"
  let ?s1 = "do_assign tid jid ((tick (tick s))\<lparr>orcJobs := AList.update jid job (orcJobs s)\<rparr>)"
  have jid: "jid \<noteq> []" by (simp add: jid_def)
  have inv: "orc_inv ?s1"
    using inv_new_job [of "tick (tick s)" tid jid job] assms jid patch_paths_ok [of "[]" "prFiles patch"]
    by (simp add: job_def patchFilePaths_def)
  have "orc_inv (do_append tid e (do_append tid e' ?s1))" if "tevJobID e = jid" "tevJobID e' = jid" for e e'
    by (intro inv_append inv) (use that in \<open>auto simp: go_map job_def\<close>)
  then show ?thesis
    unfolding start_job_def wp_programs wp jid_def [symmetric]
    by (auto simp: quiet_inv job_def intro!: wp_quiet)
qed

lemma handlePromptSubmit_inv:
  assumes "orc_inv s"
  shows "wp (handlePromptSubmit A env) (\<lambda>r s'. orc_inv s') s"
proof -
  have no: "map_of (orcJobs s) [] = None" using orc_inv_job [OF assms, of "[]"] by (cases "map_of (orcJobs s) []") (auto simp: job_ok_def)
  show ?thesis
    unfolding handlePromptSubmit_def wp_programs wp
    using assms no by (auto simp: quiet_inv thread_ensure inv_ensure split: sum.split option.split prod.split
        intro!: wp_quiet start_job_inv inv_append)
qed

lemma lookup_set_job_state:
  "map_of (set_job_state k st jobs) k' = map_option (\<lambda>j. if k' = k then j\<lparr>jobState := st\<rparr> else j) (map_of jobs k')"
  by (cases "map_of jobs k'") (auto simp: set_job_state_def go_map split: option.split)

lemmas job_event = lookup_set_job_state quiet_inv

lemma handlePatchApply_inv:
  assumes "orc_inv s"
  shows "wp (handlePatchApply A env) (\<lambda>r s'. orc_inv s') s"
proof (cases "DecodePayload env PatchApplyPayload_unjson")
  case (Inr p)
  show ?thesis
  proof (cases "map_of (orcJobs s) (paJobID p)")
    case (Some j)
    have "jobID j = paJobID p" using orc_inv_job [OF assms Some] by (simp add: job_ok_def)
    with Inr Some assms show ?thesis unfolding handlePatchApply_def wp_programs wp
      by (auto simp: job_event split: sum.split prod.split intro!: wp_quiet inv_append inv_job_state)
  qed (use Inr assms in \<open>auto simp: handlePatchApply_def wp_programs wp quiet_inv intro!: wp_quiet\<close>)
qed (use assms in \<open>auto simp: handlePatchApply_def wp quiet_inv intro!: wp_quiet\<close>)

lemma handleRunProfile_inv:
  assumes "orc_inv s"
  shows "wp (handleRunProfile A env) (\<lambda>r s'. orc_inv s') s"
proof (cases "DecodePayload env RunProfilePayload_unjson")
  case (Inr p)
  show ?thesis
  proof (cases "map_of (orcJobs s) (rpJobID p)")
    case (Some j)
    have "jobID j = rpJobID p" using orc_inv_job [OF assms Some] by (simp add: job_ok_def)
    with Inr Some assms show ?thesis unfolding handleRunProfile_def finish_run_def wp_programs wp
      by (auto simp: job_event split: sum.split prod.split option.split intro!: wp_quiet inv_append inv_job_state
          simp del: firstNonEmptyText.simps)
  qed (use Inr assms in \<open>auto simp: handleRunProfile_def wp_programs wp quiet_inv intro!: wp_quiet\<close>)
qed (use assms in \<open>auto simp: handleRunProfile_def wp quiet_inv intro!: wp_quiet\<close>)

lemma HandleEnvelope_inv:
  assumes "orc_inv s"
  shows "wp (Orchestrator_HandleEnvelope A env) (\<lambda>r s'. orc_inv s') s"
  unfolding Orchestrator_HandleEnvelope_def wp
  using assms handlePromptSubmit_inv handlePatchApply_inv handleRunProfile_inv
  by (auto simp: quiet_inv handleOpenLocation_def wp split: option.split sum.split prod.split intro!: wp_quiet)

lemma NewOrchestrator_inv:
  "(case store of None \<Rightarrow> True | Some st \<Rightarrow> thread_store_ok st) \<Longrightarrow> orc_inv (NewOrchestrator a profiles store w)"
  by (auto simp: NewOrchestrator_def orc_inv_def NewThreadStore_def thread_store_ok_def split: option.splits)

interpretation orc: inductive_invariant orc_init "orc_step A" orc_inv for A
proof
  show "orc_inv s" if "orc_init s" for s :: "'a Orchestrator"
    using that NewOrchestrator_inv by (auto simp: orc_init_def)
  show "orc_inv t" if "orc_inv s" "orc_step A s t" for s t
    using that(2) HandleEnvelope_inv [OF that(1)] by (cases rule: orc_step.cases) (auto simp: wp_def case_prod_beta)
qed

subsection \<open>Logs\<close>

lemma orc_log_simps [simp]:
  "orc_log (tick s) k = orc_log s k" "orc_log (s\<lparr>orcSeq := q\<rparr>) k = orc_log s k"
  "orc_log (s\<lparr>orcAdapter := st\<rparr>) k = orc_log s k" "orc_log (s\<lparr>orcJobs := jobs\<rparr>) k = orc_log s k"
  by (simp_all add: orc_log_def log_of_def)

lemma orc_log_append [simp]:
  "orc_log (do_append tid e s) k =
     (if k = tid then map_option (\<lambda>l. l @ [log_stored tid e (orcThreads s, orcWorld s)]) (orc_log s tid) else orc_log s k)"
  using threads.append_log [of tid e "(orcThreads s, orcWorld s)" k]
  by (simp add: orc_log_def do_append_def log_append_def Let_def)

lemma orc_log_assign [simp]: "orc_log (do_assign tid job s) k = orc_log s k"
  by (auto simp: orc_log_def do_assign_def AssignJob_def Let_def log_of_def go_map split: option.split)

lemma orc_log_ensure: "orc_log s k = Some l \<Longrightarrow> orc_log (do_ensure tid sid title s) k = Some l"
  by (cases rule: EnsureThread_cases [of "orcThreads s" tid sid title "orcWorld s"])
    (auto simp: orc_log_def do_ensure_def Let_def log_of_def go_map)

lemma log_stored_simps [simp]:
  "tevKind (log_stored tid e sw) = tevKind e" "tevJobID (log_stored tid e sw) = tevJobID e"
  "tevData (log_stored tid e sw) = tevData e" "tevBody (log_stored tid e sw) = tevBody e"
  "tevRole (log_stored tid e sw) = tevRole e"
  by (auto simp: log_stored_def complete_event_def Let_def time_Now_def)

lemma grows_ops:
  "grows s s"
  "grows s s1 \<Longrightarrow> grows s (tick s1)" "grows s s1 \<Longrightarrow> grows s (s1\<lparr>orcSeq := q\<rparr>)"
  "grows s s1 \<Longrightarrow> grows s (s1\<lparr>orcAdapter := st\<rparr>)" "grows s s1 \<Longrightarrow> grows s (s1\<lparr>orcJobs := jobs\<rparr>)"
  "grows s s1 \<Longrightarrow> grows s (do_assign tid job s1)"
  by (simp_all add: grows_def)

lemma grows_ensure: "grows s s1 \<Longrightarrow> grows s (do_ensure tid sid title s1)"
  unfolding grows_def by (meson orc_log_ensure)

lemma grows_append: "grows s s1 \<Longrightarrow> grows s (do_append tid e s1)"
  by (fastforce simp: grows_def)

lemma grows_quiet: "quiet s1 s2 \<Longrightarrow> grows s s1 \<Longrightarrow> grows s s2"
  by (simp add: grows_def quiet_def orc_log_def log_of_def)

lemmas grows = grows_ops grows_ensure grows_append

lemma HandleEnvelope_grows: "wp (Orchestrator_HandleEnvelope A env) (\<lambda>r s'. grows s s') s"
proof -
  have "wp (handlePromptSubmit A env) (\<lambda>r s'. grows s s') s"
    unfolding handlePromptSubmit_def start_job_def wp_programs wp
    by (auto split: option.split sum.split prod.split intro!: wp_quiet grows elim!: grows_quiet)
  moreover have "wp (handlePatchApply A env) (\<lambda>r s'. grows s s') s"
    unfolding handlePatchApply_def wp_programs wp
    by (auto split: option.split sum.split prod.split intro!: wp_quiet grows elim!: grows_quiet)
  moreover have "wp (handleRunProfile A env) (\<lambda>r s'. grows s s') s"
    unfolding handleRunProfile_def finish_run_def wp_programs wp
    by (auto simp del: firstNonEmptyText.simps split: option.split sum.split prod.split
        intro!: wp_quiet grows elim!: grows_quiet)
  ultimately show ?thesis
    unfolding Orchestrator_HandleEnvelope_def handleOpenLocation_def wp
    by (auto split: option.split sum.split prod.split intro!: wp_quiet grows elim!: grows_quiet)
qed

subsection \<open>Flows\<close>

lemma quiet_log: "quiet s s' \<Longrightarrow> orc_log s' tid = orc_log s tid"
  by (simp add: quiet_def orc_log_def log_of_def)

lemma log_detail:
  assumes "orc_inv s" "orc_log s tid = Some l"
  shows "\<exists>d. ThreadStore_Get tid (orcThreads s) = Some d \<and> tdtEvents d = l \<and> tsmState (tdtThread d) = thread_state l"
proof -
  obtain r where r: "map_of (tstThreads (orcThreads s)) tid = Some r" "trEvents r = l"
    using assms(2) by (auto simp: orc_log_def log_of_def)
  have "record_ok tid r" by (rule thread_store_okD [OF _ r(1)]) (use assms(1) in \<open>simp add: orc_inv_iff\<close>)
  with r show ?thesis by (auto simp: ThreadStore_Get_def record_detail_def record_ok_def Let_def)
qed

lemma ensure_log:
  assumes "orc_inv s" and tid'_def: "tid' = tsmID (fst (EnsureThread tid sid title (orcThreads s) (orcWorld s)))"
  shows "orc_log (do_ensure tid sid title s) tid' = Some (log_before s tid')" "tid \<noteq> [] \<Longrightarrow> tid' = tid"
proof (atomize (full), cases rule: EnsureThread_cases [of "orcThreads s" tid sid title "orcWorld s"])
  case (new k)
  then show "orc_log (do_ensure tid sid title s) tid' = Some (log_before s tid') \<and> (tid \<noteq> [] \<longrightarrow> tid' = tid)"
    by (auto simp: tid'_def orc_log_def do_ensure_def Let_def log_of_def go_map log_before_def zero_ThreadSummary_def)
next
  case (old k r)
  have "record_ok k r" by (rule thread_store_okD [OF _ old(1)]) (use assms(1) in \<open>simp add: orc_inv_iff\<close>)
  with old show "orc_log (do_ensure tid sid title s) tid' = Some (log_before s tid') \<and> (tid \<noteq> [] \<longrightarrow> tid' = tid)"
    by (auto simp: tid'_def orc_log_def do_ensure_def Let_def log_of_def go_map log_before_def record_ok_def)
qed

lemma start_job_flow:
  assumes "clock_ok s" "seq_room (orcSeq s)" "SID env \<noteq> []" "orc_log s tid = Some l"
  shows "wp (start_job env p tid h patch) (\<lambda>r s'. \<exists>jid es. job_started env tid h patch s jid r s' \<and>
    orc_log s' tid = Some (l @ es) \<and> job_events jid es \<and> orcAdapter s' = orcAdapter s) s" (is "wp _ ?P s")
proof -
  define jid where "jid = ''job'' @ ''_'' @ Itoa (UnixNano (fst (time_Now (orcWorld s))))"
  define job where "job = \<lparr>jobID = jid, jobThreadID = tid, jobSessionID = SID env, jobTaskID = thTaskID h,
    jobPrompt = psPrompt p, jobState = ''patch_ready'', jobPatchFiles = patchFilePaths (prFiles patch),
    jobCreatedAt = fst (time_Now (orcWorld (tick s)))\<rparr>"
  let ?s1 = "do_assign tid jid ((tick (tick s))\<lparr>orcJobs := AList.update jid job (orcJobs (tick (tick s)))\<rparr>)"
  have files: "set (jobPatchFiles job) = fpPath ` set (prFiles patch) - {[]}"
    by (simp add: job_def patchFilePaths_def patch_paths_set)
  have fin: "?P ([a, e, f], None) s'"
    if "is_ack env True a" "is_reply env TypePromptAck (PromptAckPayload_json
        \<lparr>pkThreadID = tid, pkJobID = jid, pkAccepted = True, pkMessage = ''task started''\<rparr>) e"
      "is_reply env TypePatchReady (PatchReadyPayload_json (patch\<lparr>prJobID := jid\<rparr>)) f"
      and q: "quiet (do_append tid e2 (do_append tid e1 ?s1)) s'"
      and ev: "tevKind e1 = ''prompt_accepted''" "tevJobID e1 = jid" "tevKind e2 = ''patch_ready''" "tevJobID e2 = jid"
    for a e f s' e1 e2
  proof -
    obtain es where "orc_log s' tid = Some (l @ es)"
      "map (\<lambda>e. (tevKind e, tevJobID e)) es = [(''prompt_accepted'', jid), (''patch_ready'', jid)]"
      using quiet_log [OF q, of tid] assms(4) ev by simp
    moreover have "map_of (orcJobs s') jid = Some job" "orcAdapter s' = orcAdapter s"
      "\<forall>k. k \<noteq> jid \<longrightarrow> map_of (orcJobs s') k = map_of (orcJobs s) k"
      using q by (simp_all add: quiet_def go_map)
    moreover have "jobThreadID job = tid" "jobTaskID job = thTaskID h" "jobSessionID job = SID env" "jobState job = ''patch_ready''"
      by (simp_all add: job_def)
    ultimately show ?thesis using that(1-3) files unfolding job_started_def job_events_def
      by (intro exI [of _ jid] exI [of _ es] conjI exI [of _ a] exI [of _ e] exI [of _ f] exI [of _ job]) simp_all
  qed
  show ?thesis
    unfolding start_job_def wp_programs wp jid_def [symmetric] job_def [symmetric]
  proof (rule wp_answer3, goal_cases)
    case (8 a e f s')
    show ?case by (rule fin [OF 8(1,3,4,9)]) simp_all
  qed (simp_all add: assms(1-3))
qed

lemma refused_quiet:
  assumes "refused s env"
  shows "wp (Orchestrator_HandleEnvelope A env) (\<lambda>r s'. quiet s s' \<and> snd r \<noteq> None) s"
proof -
  have f: "wp (ackFail env message err) (\<lambda>r s'. quiet s s' \<and> snd r \<noteq> None) s" for message err
    by (simp add: ackFail_def newID_def wp Let_def quiet_def split: sum.split)
  let ?Q = "\<lambda>r s'. quiet s s' \<and> snd r \<noteq> None"
  have 1: "wp (handlePromptSubmit A env) ?Q s"
    if "case DecodePayload env PromptSubmitPayload_unjson of Inl _ \<Rightarrow> True | Inr p \<Rightarrow> psPrompt p = []"
    using that f by (simp add: handlePromptSubmit_def wp split: sum.splits)
  have 2: "wp (handlePatchApply A env) ?Q s"
    if "case DecodePayload env PatchApplyPayload_unjson of Inl _ \<Rightarrow> True | Inr p \<Rightarrow> map_of (orcJobs s) (paJobID p) = None"
    using that f by (simp add: handlePatchApply_def getJob_def job_not_found_def wp split: sum.splits)
  have 3: "wp (handleRunProfile A env) ?Q s"
    if "case DecodePayload env RunProfilePayload_unjson of Inl _ \<Rightarrow> True
        | Inr p \<Rightarrow> map_of (orcJobs s) (rpJobID p) = None \<or> map_of (orcProfiles s) (rpProfileID p) = None"
  proof (cases "DecodePayload env RunProfilePayload_unjson")
    case (Inr p)
    with that f show ?thesis
      by (cases "map_of (orcJobs s) (rpJobID p)") (simp_all add: handleRunProfile_def getJob_def job_not_found_def wp)
  qed (use f in \<open>simp add: handleRunProfile_def\<close>)
  have 4: "wp (handleOpenLocation A env) ?Q s"
    if "case DecodePayload env OpenLocationPayload_unjson of Inl _ \<Rightarrow> True | Inr p \<Rightarrow> False"
    using that f by (simp add: handleOpenLocation_def wp split: sum.splits)
  show ?thesis
  proof (cases "Envelope_Validate env")
    case None
    then show ?thesis unfolding Orchestrator_HandleEnvelope_def wp
      using assms 1 2 3 4 f by (simp add: refused_def del: not_None_eq split: if_splits)
  qed (use f in \<open>simp add: Orchestrator_HandleEnvelope_def\<close>)
qed

lemma job_log:
  assumes "orc_inv s" "map_of (orcJobs s) k = Some j"
  shows "orc_log s (jobThreadID j) = Some (log_before s (jobThreadID j))" "jobID j = k"
  using orc_inv_job [OF assms] by (auto simp: job_ok_def orc_log_def log_of_def log_before_def)

lemma job_handledI:
  assumes "is_ack env (err = None) a" "is_reply env typ payload e"
    and "quiet (do_append (jobThreadID j) e2 s1) s'" "orc_log s1 (jobThreadID j) = Some (log_before s (jobThreadID j) @ [e1])"
    and "tevKind e1 = k1" "tevJobID e1 = jobID j" "tevKind e2 = k2" "tevJobID e2 = jobID j"
  shows "job_handled env j [k1, k2] typ payload s ([a, e], err) s'"
  unfolding job_handled_def
  by (intro conjI exI [of _ a] exI [of _ e] exI [of _ "[e1, log_stored (jobThreadID j) e2 (orcThreads s1, orcWorld s1)]"])
    (use assms quiet_log [OF assms(3), of "jobThreadID j"] in simp_all)

lemma handlePatchApply_flow:
  assumes "orc_inv s" "clock_ok s" "seq_room (orcSeq s)" "SID env \<noteq> []"
    and "DecodePayload env PatchApplyPayload_unjson = Inr p" "map_of (orcJobs s) (paJobID p) = Some j"
    and "waApplyPatch A \<lparr>apiTaskID = jobTaskID j, apiMode = paMode p, apiSelected = paSelected p\<rparr> (orcAdapter s) = (res, st)"
  shows "wp (handlePatchApply A env) (\<lambda>r s'. orcAdapter s' = st \<and>
    (case res of
       Inl err \<Rightarrow> snd r = Some err \<and> orcJobs s' = orcJobs s \<and>
         job_handled env j [''patch_apply_requested'', ''patch_applied''] TypePatchResult (PatchResultPayload_json
           \<lparr>pxJobID = paJobID p, pxStatus = ''failed'', pxMessage = Error err\<rparr>) s r s'
     | Inr x \<Rightarrow> snd r = None \<and> orcJobs s' = set_job_state (paJobID p) ''applied'' (orcJobs s) \<and>
         job_handled env j [''patch_apply_requested'', ''patch_applied''] TypePatchResult (PatchResultPayload_json
           \<lparr>pxJobID = paJobID p, pxStatus = aprStatus x, pxMessage = aprMessage x\<rparr>) s r s')) s"
proof (cases res)
  note jl = job_log [OF assms(1,6)]
  case (Inl err)
  show ?thesis
    unfolding handlePatchApply_def wp_programs wp assms(5) sum.case gets_state_def assms(6) option.case do_append_simps assms(7) Inl prod.case
  proof (rule wp_answer2, goal_cases)
    case (6 a e s')
    have q: "orcAdapter s' = st" "orcJobs s' = orcJobs s" using 6(7) by (simp_all add: quiet_def)
    show ?case by (intro conjI job_handledI [OF _ 6(3,7)]) (use 6(1) q jl in simp)+
  qed (use assms(2-4) in simp_all)
next
  note jl = job_log [OF assms(1,6)]
  case (Inr x)
  show ?thesis
    unfolding handlePatchApply_def wp_programs wp assms(5) sum.case gets_state_def assms(6) option.case do_append_simps assms(7) Inr prod.case
  proof (rule wp_answer2, goal_cases)
    case (6 a e s')
    have q: "orcAdapter s' = st" "orcJobs s' = set_job_state (paJobID p) ''applied'' (orcJobs s)" using 6(7) by (simp_all add: quiet_def)
    show ?case by (intro conjI job_handledI [OF _ 6(3,7)]) (use 6(1) q jl in simp)+
  qed (use assms(2-4) in simp_all)
qed

lemma adapter_after: "orcAdapter (s\<lparr>orcAdapter := st\<rparr>) = st"
  by simp

lemma handleRunProfile_flow:
  assumes "orc_inv s" "clock_ok s" "seq_room (orcSeq s)" "SID env \<noteq> []"
    and "DecodePayload env RunProfilePayload_unjson = Inr p" "map_of (orcJobs s) (rpJobID p) = Some j"
    and "map_of (orcProfiles s) (rpProfileID p) = Some pf"
    and "waRunProfile A \<lparr>rpiTaskID = jobTaskID j, rpiJobID = rpJobID p, rpiProfileID = rpProfileID p,
      rpiCommand = rpfCommand pf\<rparr> (orcAdapter s) = (Inr h, st1)"
    and "waGetRunResult A (rhRunID h) st1 = (Inr (Some x), st2)"
  shows "wp (handleRunProfile A env) (\<lambda>r s'. orcAdapter s' = st2 \<and> snd r = None \<and>
    orcJobs s' = set_job_state (rpJobID p) ''completed'' (orcJobs s) \<and>
    job_handled env j [''run_requested'', ''run_finished''] TypeRunResult (RunResultPayload_json
      \<lparr>rrJobID = rpJobID p, rrProfileID = rrsProfileID x, rrStatus = rrsStatus x, rrSummary = rrsSummary x,
       rrTopErrors = rrsTopErrors x, rrExcerpt = rrsExcerpt x, rrOutput = rrsOutput x,
       rrChangedFiles = (if rrsChangedFiles x = [] then jobPatchFiles j else rrsChangedFiles x)\<rparr>) s r s') s"
  unfolding handleRunProfile_def finish_run_def wp_programs wp assms(5) sum.case assms(6,7) option.case do_append_simps
    assms(8) prod.case adapter_after assms(9)
proof (rule wp_answer2, goal_cases)
  case (6 a e s')
  note jl = job_log [OF assms(1,6)]
  have q: "orcAdapter s' = st2" "orcJobs s' = set_job_state (rpJobID p) ''completed'' (orcJobs s)"
    using 6(7) by (simp_all add: quiet_def)
  show ?case by (intro conjI job_handledI [OF _ 6(3,7)]) (use 6(1) q jl in simp)+
qed (use assms(2-4) in simp_all)

lemma prompt_flow:
  assumes inv: "orc_inv s" and "clock_ok s" "seq_room (orcSeq s)"
    and "Envelope_Validate env = None" "Type env = TypePromptSubmit"
    and "DecodePayload env PromptSubmitPayload_unjson = Inr p" "psPrompt p \<noteq> []"
    and "waGetContext A \<lparr>crqOptions = psContextOptions p\<rparr> (orcAdapter s) = (Inr c, a1)"
    and "waSubmitTask A \<lparr>stiPrompt = psPrompt p, stiTemplate = psTemplate p, stiContext = c\<rparr> a1 = (Inr h, a2)"
    and "waGetPatch A (thTaskID h) a2 = (Inr (Some patch), a3)"
    and "run_state (Orchestrator_HandleEnvelope A env) s = (r, s')"
  shows "\<exists>tid jid es d. (psThreadID p \<noteq> [] \<longrightarrow> tid = psThreadID p) \<and> job_started env tid h patch s jid r s' \<and>
    ThreadStore_Get tid (orcThreads s') = Some d \<and> tdtEvents d = log_before s tid @ es \<and>
    map (\<lambda>e. (tevKind e, tevJobID e)) es = [(''prompt_submitted'', []), (''prompt_accepted'', jid), (''patch_ready'', jid)] \<and>
    tsmState (tdtThread d) = ''patch_ready'' \<and> orcAdapter s' = a3"
proof -
  define tid where "tid = tsmID (fst (EnsureThread (psThreadID p) (SID env) (psPrompt p) (orcThreads s) (orcWorld s)))"
  define e1 where "e1 = thread_event [] ''prompt_submitted'' ''user'' ko_prompt_submitted (psPrompt p)
    [(''template'', JStr (psTemplate p)), (''activeFilePath'', JStr (wcActiveFilePath c)),
     (''selection'', JStr (wcSelection c)), (''changedFiles'', json_strings (wcChangedFiles c))]"
  define s0 where "s0 = (do_ensure (psThreadID p) (SID env) (psPrompt p) s)\<lparr>orcAdapter := a1\<rparr>"
  define s1 where "s1 = (do_append tid e1 s0)\<lparr>orcAdapter := a3\<rparr>"
  note ens = ensure_log [OF inv tid_def]
  have log: "orc_log s1 tid = Some (log_before s tid @ [log_stored tid e1 (orcThreads s0, orcWorld s0)])"
    using ens(1) by (simp add: s1_def s0_def)
  have run: "wp (start_job env p tid h patch) (\<lambda>x s''. (x, s'') = (r, s')) s1"
    using assms(4-11) by (simp add: Orchestrator_HandleEnvelope_def handlePromptSubmit_def wp_def Let_def ensure_thread_def
        call_adapter_def modify_state_def tid_def [symmetric] e1_def [symmetric] s1_def s0_def)
  have eq: "run_state (start_job env p tid h patch) s1 = (r, s')" using run by (simp add: wp_def case_prod_beta prod_eq_iff)
  have "clock_ok s1" "seq_room (orcSeq s1)" "SID env \<noteq> []" "orcAdapter s1 = a3" "orcJobs s1 = orcJobs s"
    using assms(2-4) by (simp_all add: s1_def s0_def Validate_None_iff)
  note fl = wp_run [OF start_job_flow [OF this(1-3) log] eq] this(4,5)
  have inv': "orc_inv s'" using wp_run [OF HandleEnvelope_inv [OF inv] assms(11)] .
  obtain jid es where g: "job_started env tid h patch s1 jid r s'"
      "orc_log s' tid = Some ((log_before s tid @ [log_stored tid e1 (orcThreads s0, orcWorld s0)]) @ es)"
      "job_events jid es" "orcAdapter s' = a3"
    using fl by auto
  have js: "job_started env tid h patch s jid r s'" using g(1) fl(3) by (simp add: job_started_def)
  obtain d where d: "ThreadStore_Get tid (orcThreads s') = Some d"
      "tdtEvents d = log_before s tid @ log_stored tid e1 (orcThreads s0, orcWorld s0) # es"
      "tsmState (tdtThread d) = thread_state (tdtEvents d)"
    using log_detail [OF inv' g(2)] by auto
  have "tsmState (tdtThread d) = ''patch_ready''"
    using g(3) d(2,3) by (auto simp: job_events_def thread_state_def state_after_def)
  with js g(3,4) d(1,2) ens(2) show ?thesis
    by (intro exI [of _ tid] exI [of _ jid] exI [of _ "log_stored tid e1 (orcThreads s0, orcWorld s0) # es"] exI [of _ d])
      (simp add: e1_def job_events_def)
qed

section \<open>Properties\<close>

text \<open>
  C1: Every message is answered (no handler drops one, and no error path returns nothing): the
  answer starts with one acknowledgement, for the request id of the message, that says
  accepted exactly when the handler returned no error; what follows it is of the result
  types; every envelope passes validation, is of the message's session, and the sequence
  numbers continue without a gap. This for every adapter and every message, valid or not.
\<close>
theorem every_message_acknowledged:
  assumes "clock_ok s" "seq_room (orcSeq s)" "run_state (Orchestrator_HandleEnvelope A env) s = (r, s')"
  shows "reply_ok env (orcSeq s) r (orcSeq s')"
  using wp_run [OF HandleEnvelope_reply [OF assms(1,2)] assms(3)] .

text \<open>
  C34: In every state that the orchestrator reaches, the tables agree: a job is stored under its
  own id, its thread exists and is the one that the thread store names for the job, its
  state is one of the three, and its patch files are distinct and not empty.
\<close>
theorem jobs_agree_with_threads:
  assumes "reach orc_init (orc_step A) s" "map_of (orcJobs s) k = Some j"
  shows "jobID j = k \<and> ThreadIDForJob k (orcThreads s) = Some (jobThreadID j) \<and>
    (\<exists>d. ThreadStore_Get (jobThreadID j) (orcThreads s) = Some d \<and> tsmState (tdtThread d) = thread_state (tdtEvents d)) \<and>
    jobState j \<in> {''patch_ready'', ''applied'', ''completed''} \<and>
    distinct (jobPatchFiles j) \<and> [] \<notin> set (jobPatchFiles j)"
proof -
  note inv = orc.reach_inv [OF assms(1)]
  note ok = orc_inv_job [OF inv assms(2)]
  obtain l where "orc_log s (jobThreadID j) = Some l" using ok by (auto simp: job_ok_def orc_log_def log_of_def)
  from log_detail [OF inv this] ok show ?thesis by (auto simp: job_ok_def)
qed

text \<open>
  Whatever the message and whatever the adapter answers, the history is kept: every thread
  is still there and its log is the old log with events appended.
\<close>
theorem handling_keeps_history:
  assumes "run_state (Orchestrator_HandleEnvelope A env) s = (r, s')" "log_of (orcThreads s, orcWorld s) tid = Some l"
  shows "\<exists>es. log_of (orcThreads s', orcWorld s') tid = Some (l @ es)"
  using wp_run [OF HandleEnvelope_grows assms(1)] assms(2) by (simp add: grows_def orc_log_def)

text \<open>
  A bad request leaves no trace: a message that is invalid, of an unsupported type, with a
  payload that does not decode, an empty prompt, an unknown job or an unknown run profile
  reports an error and changes neither jobs nor threads, and the adapter is not called.
\<close>
theorem bad_request_no_effect:
  assumes "refused s env" "run_state (Orchestrator_HandleEnvelope A env) s = (r, s')"
  shows "snd r \<noteq> None \<and> orcJobs s' = orcJobs s \<and> orcThreads s' = orcThreads s \<and> orcAdapter s' = orcAdapter s"
  using wp_run [OF refused_quiet [OF assms(1)] assms(2)] by (simp add: quiet_def)

text \<open>
  C33: A prompt that the adapter serves becomes a job: the job is stored with the adapter's task
  id, the files of the patch and state \<open>patch_ready\<close>, under a thread that is the requested one if
  the message names one; the log of that thread grows by the three events of the prompt, its
  state is \<open>patch_ready\<close>, no other job changes; the answer is the acknowledgement, the prompt
  acknowledgement with the thread and job ids, and the adapter's patch with the job id in it.
\<close>
theorem prompt_starts_job:
  assumes "reach orc_init (orc_step A) s" "clock_ok s" "seq_room (orcSeq s)"
    and "Envelope_Validate env = None" "Type env = TypePromptSubmit"
    and "DecodePayload env PromptSubmitPayload_unjson = Inr p" "psPrompt p \<noteq> []"
    and "waGetContext A \<lparr>crqOptions = psContextOptions p\<rparr> (orcAdapter s) = (Inr c, a1)"
    and "waSubmitTask A \<lparr>stiPrompt = psPrompt p, stiTemplate = psTemplate p, stiContext = c\<rparr> a1 = (Inr h, a2)"
    and "waGetPatch A (thTaskID h) a2 = (Inr (Some patch), a3)"
    and "run_state (Orchestrator_HandleEnvelope A env) s = (r, s')"
  shows "\<exists>tid jid es d. (psThreadID p \<noteq> [] \<longrightarrow> tid = psThreadID p) \<and> job_started env tid h patch s jid r s' \<and>
    ThreadStore_Get tid (orcThreads s') = Some d \<and> tdtEvents d = log_before s tid @ es \<and>
    map (\<lambda>e. (tevKind e, tevJobID e)) es = [(''prompt_submitted'', []), (''prompt_accepted'', jid), (''patch_ready'', jid)] \<and>
    tsmState (tdtThread d) = ''patch_ready'' \<and> orcAdapter s' = a3"
  using prompt_flow [OF orc.reach_inv [OF assms(1)] assms(2-11)] .

text \<open>
  A patch is applied as asked: the adapter is called with the task of the job and the
  requested mode and hunks; its answer is reported unchanged, as status and message of the
  result or, on an error, as a failed result with a negative acknowledgement; the job becomes
  \<open>applied\<close> exactly when the adapter returned no error, whatever status it reports; request
  and outcome are recorded in the job's thread.
\<close>
theorem patch_apply_reported:
  assumes "orc_inv s" "clock_ok s" "seq_room (orcSeq s)" "Envelope_Validate env = None" "Type env = TypePatchApply"
    and "DecodePayload env PatchApplyPayload_unjson = Inr p" "map_of (orcJobs s) (paJobID p) = Some j"
    and "waApplyPatch A \<lparr>apiTaskID = jobTaskID j, apiMode = paMode p, apiSelected = paSelected p\<rparr> (orcAdapter s) = (res, st)"
    and "run_state (Orchestrator_HandleEnvelope A env) s = (r, s')"
  shows "orcAdapter s' = st \<and>
    (case res of
       Inl err \<Rightarrow> snd r = Some err \<and> orcJobs s' = orcJobs s \<and>
         job_handled env j [''patch_apply_requested'', ''patch_applied''] TypePatchResult (PatchResultPayload_json
           \<lparr>pxJobID = paJobID p, pxStatus = ''failed'', pxMessage = Error err\<rparr>) s r s'
     | Inr x \<Rightarrow> snd r = None \<and> orcJobs s' = set_job_state (paJobID p) ''applied'' (orcJobs s) \<and>
         job_handled env j [''patch_apply_requested'', ''patch_applied''] TypePatchResult (PatchResultPayload_json
           \<lparr>pxJobID = paJobID p, pxStatus = aprStatus x, pxMessage = aprMessage x\<rparr>) s r s')"
proof -
  have "SID env \<noteq> []" using assms(4) by (simp add: Validate_None_iff)
  moreover have "run_state (handlePatchApply A env) s = (r, s')"
    using assms(4,5,9) by (simp add: Orchestrator_HandleEnvelope_def)
  ultimately show ?thesis using wp_run [OF handlePatchApply_flow [OF assms(1-3) _ assms(6-8)]] by blast
qed

text \<open>
  A run profile is executed for the job and its result is reported field by field; when the
  adapter reports no changed files, those of the job's patch stand in. The command is the
  one of the configured profile, never one from the message.
\<close>
theorem run_profile_reported:
  assumes "orc_inv s" "clock_ok s" "seq_room (orcSeq s)" "Envelope_Validate env = None" "Type env = TypeRunProfile"
    and "DecodePayload env RunProfilePayload_unjson = Inr p" "map_of (orcJobs s) (rpJobID p) = Some j"
    and "map_of (orcProfiles s) (rpProfileID p) = Some pf"
    and "waRunProfile A \<lparr>rpiTaskID = jobTaskID j, rpiJobID = rpJobID p, rpiProfileID = rpProfileID p,
      rpiCommand = rpfCommand pf\<rparr> (orcAdapter s) = (Inr h, st1)"
    and "waGetRunResult A (rhRunID h) st1 = (Inr (Some x), st2)"
    and "run_state (Orchestrator_HandleEnvelope A env) s = (r, s')"
  shows "orcAdapter s' = st2 \<and> snd r = None \<and>
    orcJobs s' = set_job_state (rpJobID p) ''completed'' (orcJobs s) \<and>
    job_handled env j [''run_requested'', ''run_finished''] TypeRunResult (RunResultPayload_json
      \<lparr>rrJobID = rpJobID p, rrProfileID = rrsProfileID x, rrStatus = rrsStatus x, rrSummary = rrsSummary x,
       rrTopErrors = rrsTopErrors x, rrExcerpt = rrsExcerpt x, rrOutput = rrsOutput x,
       rrChangedFiles = (if rrsChangedFiles x = [] then jobPatchFiles j else rrsChangedFiles x)\<rparr>) s r s'"
proof -
  have "SID env \<noteq> []" using assms(4) by (simp add: Validate_None_iff)
  moreover have "run_state (handleRunProfile A env) s = (r, s')"
    using assms(4,5,11) by (simp add: Orchestrator_HandleEnvelope_def)
  ultimately show ?thesis using wp_run [OF handleRunProfile_flow [OF assms(1-3) _ assms(6-10)]] by blast
qed

section \<open>Witnesses\<close>

lemma ex_clock_pos: "0 < UnixMilli (wClock ex_world n)"
proof -
  have "(5000000::int) div 1000000 \<le> (5000000 + int n) div 1000000" by (rule zdiv_mono1) simp_all
  then show ?thesis by (simp add: ex_world_def UnixMilli_def Millisecond_def)
qed

lemma ex_clock: "clock_ok ex_orc" "clock_ok ex_orc_job"
  by (simp_all add: ex_clock_pos clock_ok_def ex_orc_job_def ex_orc_def NewOrchestrator_def)

lemma ex_room: "seq_room (orcSeq ex_orc)" "seq_room (orcSeq ex_orc_job)"
  by (simp_all add: seq_room_def ex_orc_job_def ex_orc_def NewOrchestrator_def maxInt64_def)

lemma ex_reach: "reach orc_init (orc_step mock_adapter) ex_orc"
  unfolding ex_orc_def by (rule reach_init) (force simp: orc_init_def)

lemma ex_job_inv: "orc_inv ex_orc_job"
  by code_simp

lemma ex_prompt_decodes:
  "Envelope_Validate ex_prompt = None" "Type ex_prompt = TypePromptSubmit"
  "DecodePayload ex_prompt PromptSubmitPayload_unjson = Inr (zero_PromptSubmitPayload\<lparr>psPrompt := ''fix''\<rparr>)"
  "psPrompt (zero_PromptSubmitPayload\<lparr>psPrompt := ''fix''\<rparr>) \<noteq> []"
  by code_simp+

lemma ex_mock_serves:
  "waGetContext mock_adapter \<lparr>crqOptions = psContextOptions (zero_PromptSubmitPayload\<lparr>psPrompt := ''fix''\<rparr>)\<rparr> (orcAdapter ex_orc) =
     (Inr ex_context, NewMockAdapter)"
  "waSubmitTask mock_adapter \<lparr>stiPrompt = psPrompt (zero_PromptSubmitPayload\<lparr>psPrompt := ''fix''\<rparr>),
     stiTemplate = psTemplate (zero_PromptSubmitPayload\<lparr>psPrompt := ''fix''\<rparr>), stiContext = ex_context\<rparr> NewMockAdapter =
     (Inr \<lparr>thTaskID = ''task_'' @ Itoa 1\<rparr>, NewMockAdapter\<lparr>maTaskSeq := 1\<rparr>)"
  "waGetPatch mock_adapter (thTaskID \<lparr>thTaskID = ''task_'' @ Itoa 1\<rparr>) (NewMockAdapter\<lparr>maTaskSeq := 1\<rparr>) =
     (Inr (Some ex_patch), NewMockAdapter\<lparr>maTaskSeq := 1\<rparr>)"
  by (simp_all add: mock_adapter_def mock_GetContext_def mock_SubmitTask_def mock_GetPatch_def NewMockAdapter_def
      ex_context_def ex_patch_def ex_orc_def NewOrchestrator_def)

theorem every_message_acknowledged_witness:
  "reply_ok ex_prompt 0 (fst (run_state (Orchestrator_HandleEnvelope mock_adapter ex_prompt) ex_orc))
     (orcSeq (snd (run_state (Orchestrator_HandleEnvelope mock_adapter ex_prompt) ex_orc)))"
proof -
  have "orcSeq ex_orc = 0" by (simp add: ex_orc_def NewOrchestrator_def)
  with every_message_acknowledged [OF ex_clock(1) ex_room(1) prod.collapse [symmetric]] show ?thesis by metis
qed

theorem jobs_agree_with_threads_witness:
  "\<exists>k j s. map_of (orcJobs s) k = Some j \<and> jobState j = ''patch_ready'' \<and>
     ThreadIDForJob k (orcThreads s) = Some (jobThreadID j) \<and> reach orc_init (orc_step mock_adapter) s"
proof -
  let ?s = "snd (run_state (Orchestrator_HandleEnvelope mock_adapter ex_prompt) ex_orc)"
  have r: "reach orc_init (orc_step mock_adapter) ?s" by (rule reach_step [OF ex_reach step_Handle])
  obtain k j where j: "map_of (orcJobs ?s) k = Some j" "jobState j = ''patch_ready''"
    using prompt_flow [OF orc.reach_inv [OF ex_reach] ex_clock(1) ex_room(1) ex_prompt_decodes ex_mock_serves
        prod.collapse [symmetric]] by (auto simp: job_started_def)
  show ?thesis
    by (rule exI [of _ k], rule exI [of _ j], rule exI [of _ ?s])
      (use jobs_agree_with_threads [OF r j(1)] j r in blast)
qed

theorem handling_keeps_history_witness:
  "\<exists>es. log_of (orcThreads (snd (run_state (Orchestrator_HandleEnvelope mock_adapter ex_apply) ex_orc_job)),
     orcWorld (snd (run_state (Orchestrator_HandleEnvelope mock_adapter ex_apply) ex_orc_job))) ''t1'' = Some ([] @ es)"
  by (rule handling_keeps_history [OF prod.collapse [symmetric]])
    (simp add: ex_orc_job_def ex_orc_def NewOrchestrator_def log_of_def ex_store1_def)

theorem bad_request_no_effect_witness:
  "orcJobs (snd (run_state (Orchestrator_HandleEnvelope mock_adapter ex_apply) ex_orc)) = []"
proof -
  have "refused ex_orc ex_apply" "orcJobs ex_orc = []" by code_simp+
  with bad_request_no_effect [OF _ prod.collapse [symmetric]] show ?thesis by metis
qed

theorem prompt_starts_job_witness:
  "\<exists>tid jid h patch. job_started ex_prompt tid h patch ex_orc jid
     (fst (run_state (Orchestrator_HandleEnvelope mock_adapter ex_prompt) ex_orc))
     (snd (run_state (Orchestrator_HandleEnvelope mock_adapter ex_prompt) ex_orc))"
  using prompt_starts_job [OF ex_reach ex_clock(1) ex_room(1) ex_prompt_decodes ex_mock_serves prod.collapse [symmetric]]
  by blast

theorem patch_apply_reported_witness:
  "orcJobs (snd (run_state (Orchestrator_HandleEnvelope mock_adapter ex_apply) ex_orc_job)) =
     [(''j1'', ex_job\<lparr>jobState := ''applied''\<rparr>)]"
proof -
  let ?p = "zero_PatchApplyPayload\<lparr>paJobID := ''j1'', paMode := ''all''\<rparr>"
  have 2: "Envelope_Validate ex_apply = None" "Type ex_apply = TypePatchApply"
    "DecodePayload ex_apply PatchApplyPayload_unjson = Inr ?p" by code_simp+
  have 3: "map_of (orcJobs ex_orc_job) (paJobID ?p) = Some ex_job" by code_simp
  have 4: "waApplyPatch mock_adapter \<lparr>apiTaskID = jobTaskID ex_job, apiMode = paMode ?p, apiSelected = paSelected ?p\<rparr>
      (orcAdapter ex_orc_job) = (Inr \<lparr>aprStatus = ''success'', aprMessage = ''patch applied''\<rparr>, orcAdapter ex_orc_job)"
    by (simp add: mock_adapter_def mock_ApplyPatch_def)
  have "set_job_state (paJobID ?p) ''applied'' (orcJobs ex_orc_job) = [(''j1'', ex_job\<lparr>jobState := ''applied''\<rparr>)]"
    by (simp add: set_job_state_def ex_orc_job_def)
  with patch_apply_reported [OF ex_job_inv ex_clock(2) ex_room(2) 2 3 4 prod.collapse [symmetric]] show ?thesis by simp
qed

theorem run_profile_reported_witness:
  "orcJobs (snd (run_state (Orchestrator_HandleEnvelope mock_adapter ex_run) ex_orc_job)) =
     [(''j1'', ex_job\<lparr>jobState := ''completed''\<rparr>)]"
proof -
  let ?p = "\<lparr>rpJobID = ''j1'', rpProfileID = ''build''\<rparr>"
  let ?pf = "\<lparr>rpfLabel = ''Build'', rpfCommand = ''npm run build'', rpfScope = ''MEDIUM'', rpfOptional = False\<rparr>"
  have 2: "Envelope_Validate ex_run = None" "Type ex_run = TypeRunProfile"
    "DecodePayload ex_run RunProfilePayload_unjson = Inr ?p" by code_simp+
  have 3: "map_of (orcJobs ex_orc_job) (rpJobID ?p) = Some ex_job" "map_of (orcProfiles ex_orc_job) (rpProfileID ?p) = Some ?pf"
    by code_simp+
  obtain h st x where 4: "waRunProfile mock_adapter \<lparr>rpiTaskID = jobTaskID ex_job, rpiJobID = rpJobID ?p,
      rpiProfileID = rpProfileID ?p, rpiCommand = rpfCommand ?pf\<rparr> (orcAdapter ex_orc_job) = (Inr h, st)"
    "waGetRunResult mock_adapter (rhRunID h) st = (Inr (Some x), st)"
    by (simp add: mock_adapter_def mock_RunProfile_def mock_GetRunResult_def Let_def)
  have "set_job_state (rpJobID ?p) ''completed'' (orcJobs ex_orc_job) = [(''j1'', ex_job\<lparr>jobState := ''completed''\<rparr>)]"
    by (simp add: set_job_state_def ex_orc_job_def)
  with run_profile_reported [OF ex_job_inv ex_clock(2) ex_room(2) 2 3 4 prod.collapse [symmetric]] show ?thesis by simp
qed

end
