(* ===== verification/Control_Metrics.thy ===== *)
theory Control_Metrics
  imports Ack_Tracker
begin

text \<open>
  \<open>internal/agent/control_metrics.go\<close>: counters and latencies of the control messages, in
  total, by transport path, by message type and by both. The theorem of this theory says that
  every cell of these tables is the accumulator of exactly the observations with its labels.
\<close>

section \<open>Model\<close>

abbreviation ControlPathUnknown :: string where "ControlPathUnknown \<equiv> ''unknown''"
abbreviation ControlPathHTTP :: string where "ControlPathHTTP \<equiv> ''http''"
abbreviation ControlPathP2P :: string where "ControlPathP2P \<equiv> ''p2p''"

record ControlMetricStats =
  cmsRequests :: int
  cmsSuccesses :: int
  cmsFailures :: int
  cmsTimeouts :: int
  cmsLastLatencyMs :: int
  cmsAvgLatencyMs :: int
  cmsMaxLatencyMs :: int

record ControlMetricsSnapshot =
  snapTotals :: ControlMetricStats
  snapByPath :: "(string, ControlMetricStats) gomap"
  snapByType :: "(string, ControlMetricStats) gomap"
  snapByTypePath :: "(string, (string, ControlMetricStats) gomap) gomap"

record controlMetricAccumulator =
  cmaRequests :: int
  cmaSuccesses :: int
  cmaFailures :: int
  cmaTimeouts :: int
  cmaTotalLatency :: duration
  cmaLastLatency :: duration
  cmaMaxLatency :: duration

record ControlMetrics =
  cmTotals :: controlMetricAccumulator
  cmByPath :: "(string, controlMetricAccumulator) gomap"
  cmByType :: "(string, controlMetricAccumulator) gomap"
  cmByTypePath :: "(string, (string, controlMetricAccumulator) gomap) gomap"

definition zero_accumulator :: controlMetricAccumulator where
  "zero_accumulator = \<lparr>cmaRequests = 0, cmaSuccesses = 0, cmaFailures = 0, cmaTimeouts = 0,
     cmaTotalLatency = 0, cmaLastLatency = 0, cmaMaxLatency = 0\<rparr>"

definition zero_stats :: ControlMetricStats where
  "zero_stats = \<lparr>cmsRequests = 0, cmsSuccesses = 0, cmsFailures = 0, cmsTimeouts = 0,
     cmsLastLatencyMs = 0, cmsAvgLatencyMs = 0, cmsMaxLatencyMs = 0\<rparr>"

definition NewControlMetrics :: ControlMetrics where
  "NewControlMetrics = \<lparr>cmTotals = zero_accumulator,
     cmByPath = [(ControlPathUnknown, zero_accumulator), (ControlPathHTTP, zero_accumulator), (ControlPathP2P, zero_accumulator)],
     cmByType = [], cmByTypePath = []\<rparr>"

definition EmptyControlMetricsSnapshot :: ControlMetricsSnapshot where
  "EmptyControlMetricsSnapshot = \<lparr>snapTotals = zero_stats,
     snapByPath = [(ControlPathUnknown, zero_stats), (ControlPathHTTP, zero_stats), (ControlPathP2P, zero_stats)],
     snapByType = [], snapByTypePath = []\<rparr>"

definition normalizeControlPath :: "string \<Rightarrow> string" where
  "normalizeControlPath path =
     (let p = strings_ToLower (strings_TrimSpace path) in
      if p = ControlPathHTTP then ControlPathHTTP
      else if p = ControlPathP2P then ControlPathP2P
      else ControlPathUnknown)"

definition normalizeControlMessageType :: "MessageType \<Rightarrow> string" where
  "normalizeControlMessageType messageType =
     (let v = strings_TrimSpace messageType in if v = [] then ''UNKNOWN'' else v)"

definition durationMillis :: "duration \<Rightarrow> int" where
  "durationMillis v = (if v \<le> 0 then 0 else Milliseconds v)"

definition observeAccumulator ::
    "duration \<Rightarrow> goerror option \<Rightarrow> controlMetricAccumulator \<Rightarrow> controlMetricAccumulator" where
  "observeAccumulator d err a =
     (let a = a\<lparr>cmaRequests := cmaRequests a + 1, cmaTotalLatency := wrap64 (cmaTotalLatency a + d), cmaLastLatency := d\<rparr>;
          a = (if d > cmaMaxLatency a then a\<lparr>cmaMaxLatency := d\<rparr> else a)
      in case err of
           None \<Rightarrow> a\<lparr>cmaSuccesses := cmaSuccesses a + 1\<rparr>
         | Some e \<Rightarrow>
             if errors_Is e DeadlineExceeded then a\<lparr>cmaTimeouts := cmaTimeouts a + 1\<rparr>
             else a\<lparr>cmaFailures := cmaFailures a + 1\<rparr>)"

text \<open>
  \<open>pathAccumulator\<close> and \<open>typeAccumulator\<close> return a pointer into the table, creating the cell if
  need be; \<open>typePathAccumulator\<close> creates the inner table too. Here the cell is read, and
  written back by \<open>Observe\<close>.
\<close>

definition pathAccumulator :: "string \<Rightarrow> (string, controlMetricAccumulator) gomap \<Rightarrow> controlMetricAccumulator" where
  "pathAccumulator path m = (case map_of m path of Some a \<Rightarrow> a | None \<Rightarrow> zero_accumulator)"

definition typeAccumulator :: "string \<Rightarrow> (string, controlMetricAccumulator) gomap \<Rightarrow> controlMetricAccumulator" where
  "typeAccumulator messageType m = (case map_of m messageType of Some a \<Rightarrow> a | None \<Rightarrow> zero_accumulator)"

definition typePathAccumulator ::
    "string \<Rightarrow> string \<Rightarrow> (string, (string, controlMetricAccumulator) gomap) gomap \<Rightarrow>
     (string, controlMetricAccumulator) gomap \<times> controlMetricAccumulator" where
  "typePathAccumulator messageType path m =
     (let byPath = (case map_of m messageType of Some b \<Rightarrow> b | None \<Rightarrow> [])
      in (byPath, case map_of byPath path of Some a \<Rightarrow> a | None \<Rightarrow> zero_accumulator))"

definition ControlMetrics_Observe ::
    "MessageType \<Rightarrow> string \<Rightarrow> duration \<Rightarrow> goerror option \<Rightarrow> ControlMetrics \<Rightarrow> ControlMetrics" where
  "ControlMetrics_Observe messageType path d err m =
     (let path = normalizeControlPath path;
          label = normalizeControlMessageType messageType;
          d = (if d < 0 then 0 else d);
          upd = observeAccumulator d err;
          (byPath, cell) = typePathAccumulator label path (cmByTypePath m)
      in \<lparr>cmTotals = upd (cmTotals m),
          cmByPath = AList.update path (upd (pathAccumulator path (cmByPath m))) (cmByPath m),
          cmByType = AList.update label (upd (typeAccumulator label (cmByType m))) (cmByType m),
          cmByTypePath = AList.update label (AList.update path (upd cell) byPath) (cmByTypePath m)\<rparr>)"

definition snapshotAccumulator :: "controlMetricAccumulator \<Rightarrow> ControlMetricStats" where
  "snapshotAccumulator a =
     \<lparr>cmsRequests = cmaRequests a, cmsSuccesses = cmaSuccesses a, cmsFailures = cmaFailures a,
      cmsTimeouts = cmaTimeouts a, cmsLastLatencyMs = durationMillis (cmaLastLatency a),
      cmsAvgLatencyMs = (if cmaRequests a > 0 then Milliseconds (quot (cmaTotalLatency a) (cmaRequests a)) else 0),
      cmsMaxLatencyMs = durationMillis (cmaMaxLatency a)\<rparr>"

text \<open>
  The loops of \<open>Snapshot\<close> store one entry per key into a map, so the order of the visits does
  not show in the result; the model visits the tables in the order of their lists.
\<close>

definition put_all :: "('a \<Rightarrow> 'b) \<Rightarrow> (string, 'a) gomap \<Rightarrow> (string, 'b) gomap \<Rightarrow> (string, 'b) gomap" where
  "put_all f m acc = fold (\<lambda>(k, a). AList.update k (f a)) m acc"

definition ControlMetrics_Snapshot :: "ControlMetrics \<Rightarrow> ControlMetricsSnapshot" where
  "ControlMetrics_Snapshot m =
     (let s = EmptyControlMetricsSnapshot in
      \<lparr>snapTotals = snapshotAccumulator (cmTotals m),
       snapByPath = put_all snapshotAccumulator (cmByPath m) (snapByPath s),
       snapByType = put_all snapshotAccumulator (cmByType m) (snapByType s),
       snapByTypePath = put_all (\<lambda>byPath. put_all snapshotAccumulator byPath []) (cmByTypePath m) (snapByTypePath s)\<rparr>)"

section \<open>Specification\<close>

text \<open>An observation as the tables see it, and the accumulator of a list of them.\<close>

record observation =
  obsType :: string
  obsPath :: string
  obsDuration :: duration
  obsError :: "goerror option"

definition observe :: "observation \<Rightarrow> ControlMetrics \<Rightarrow> ControlMetrics" where
  "observe o1 = ControlMetrics_Observe (obsType o1) (obsPath o1) (obsDuration o1) (obsError o1)"

definition obs_type :: "observation \<Rightarrow> string" where "obs_type o1 = normalizeControlMessageType (obsType o1)"
definition obs_path :: "observation \<Rightarrow> string" where "obs_path o1 = normalizeControlPath (obsPath o1)"

definition accumulate :: "observation list \<Rightarrow> controlMetricAccumulator" where
  "accumulate os = fold (\<lambda>o1. observeAccumulator (max 0 (obsDuration o1)) (obsError o1)) os zero_accumulator"

definition cell :: "(observation \<Rightarrow> bool) \<Rightarrow> observation list \<Rightarrow> controlMetricAccumulator option" where
  "cell P os = (if filter P os = [] then None else Some (accumulate (filter P os)))"

definition is_timeout :: "observation \<Rightarrow> bool" where
  "is_timeout o1 \<longleftrightarrow> (case obsError o1 of None \<Rightarrow> False | Some e \<Rightarrow> errors_Is e DeadlineExceeded)"

definition tables_of :: "observation list \<Rightarrow> ControlMetrics \<Rightarrow> bool" where
  "tables_of os m \<longleftrightarrow>
     cmTotals m = accumulate os \<and>
     (\<forall>p. map_of (cmByPath m) p =
        (if p \<in> {ControlPathUnknown, ControlPathHTTP, ControlPathP2P} then Some (accumulate (filter (\<lambda>o1. obs_path o1 = p) os)) else None)) \<and>
     (\<forall>t. map_of (cmByType m) t = cell (\<lambda>o1. obs_type o1 = t) os) \<and>
     (\<forall>t. (case map_of (cmByTypePath m) t of
        None \<Rightarrow> cell (\<lambda>o1. obs_type o1 = t) os = None
      | Some b \<Rightarrow> \<forall>p. map_of b p = cell (\<lambda>o1. obs_type o1 = t \<and> obs_path o1 = p) os))"

definition metrics_wf :: "ControlMetrics \<Rightarrow> bool" where
  "metrics_wf m \<longleftrightarrow> wf_map (cmByPath m) \<and> wf_map (cmByType m) \<and> wf_map (cmByTypePath m) \<and>
     (\<forall>t b. map_of (cmByTypePath m) t = Some b \<longrightarrow> wf_map b)"

section \<open>Lemmas\<close>

lemma accumulate_snoc:
  "accumulate (os @ [o1]) = observeAccumulator (max 0 (obsDuration o1)) (obsError o1) (accumulate os)"
  by (simp add: accumulate_def)

lemma accumulate_Nil: "accumulate [] = zero_accumulator"
  by (simp add: accumulate_def)

lemma cell_snoc:
  "cell P (os @ [o1]) = (if P o1
     then Some (observeAccumulator (max 0 (obsDuration o1)) (obsError o1) (case cell P os of None \<Rightarrow> zero_accumulator | Some a \<Rightarrow> a))
     else cell P os)"
  by (auto simp: cell_def accumulate_snoc accumulate_Nil)

lemma obs_path_cases: "obs_path o1 \<in> {ControlPathUnknown, ControlPathHTTP, ControlPathP2P}"
  by (simp add: obs_path_def normalizeControlPath_def Let_def)

lemma tables_step:
  assumes "tables_of os m"
  shows "tables_of (os @ [o1]) (observe o1 m)"
proof -
  define upd where "upd = observeAccumulator (max 0 (obsDuration o1)) (obsError o1)"
  define inner where "inner = (case map_of (cmByTypePath m) (obs_type o1) of Some b \<Rightarrow> b | None \<Rightarrow> [])"
  have max: "max 0 (obsDuration o1) = (if obsDuration o1 < 0 then 0 else obsDuration o1)" by simp
  have m': "observe o1 m =
     \<lparr>cmTotals = upd (cmTotals m),
      cmByPath = AList.update (obs_path o1) (upd (pathAccumulator (obs_path o1) (cmByPath m))) (cmByPath m),
      cmByType = AList.update (obs_type o1) (upd (typeAccumulator (obs_type o1) (cmByType m))) (cmByType m),
      cmByTypePath = AList.update (obs_type o1) (AList.update (obs_path o1)
        (upd (case map_of inner (obs_path o1) of Some a \<Rightarrow> a | None \<Rightarrow> zero_accumulator)) inner) (cmByTypePath m)\<rparr>"
    by (simp add: observe_def ControlMetrics_Observe_def Let_def obs_path_def obs_type_def upd_def inner_def max typePathAccumulator_def)
  from assms have tot: "cmTotals m = accumulate os"
    and pa: "map_of (cmByPath m) p = (if p \<in> {ControlPathUnknown, ControlPathHTTP, ControlPathP2P}
      then Some (accumulate (filter (\<lambda>o1. obs_path o1 = p) os)) else None)"
    and ty: "map_of (cmByType m) t = cell (\<lambda>o1. obs_type o1 = t) os"
    and tp: "case map_of (cmByTypePath m) t of None \<Rightarrow> cell (\<lambda>o1. obs_type o1 = t) os = None
      | Some b \<Rightarrow> \<forall>p. map_of b p = cell (\<lambda>o1. obs_type o1 = t \<and> obs_path o1 = p) os" for p t
    unfolding tables_of_def by blast+
  have sub: "cell (\<lambda>o1. obs_type o1 = t) os = None \<Longrightarrow> cell (\<lambda>o1. obs_type o1 = t \<and> obs_path o1 = p) os = None" for t p
    by (auto simp: cell_def filter_empty_conv split: if_splits)
  have inner: "map_of inner p = cell (\<lambda>x. obs_type x = obs_type o1 \<and> obs_path x = p) os" for p
    using tp [of "obs_type o1"] sub by (auto simp: inner_def split: option.splits)
  have "cmTotals (observe o1 m) = accumulate (os @ [o1])" by (simp add: m' accumulate_snoc tot upd_def)
  moreover have "map_of (cmByPath (observe o1 m)) p = (if p \<in> {ControlPathUnknown, ControlPathHTTP, ControlPathP2P}
      then Some (accumulate (filter (\<lambda>o1. obs_path o1 = p) (os @ [o1]))) else None)" for p
    using obs_path_cases [of o1]
    by (cases "p = obs_path o1") (simp_all add: m' go_map pathAccumulator_def pa accumulate_snoc upd_def del: insert_iff)
  moreover have "map_of (cmByType (observe o1 m)) t = cell (\<lambda>o1. obs_type o1 = t) (os @ [o1])" for t
    by (auto simp: m' go_map typeAccumulator_def ty cell_snoc upd_def)
  moreover have "case map_of (cmByTypePath (observe o1 m)) t of None \<Rightarrow> cell (\<lambda>o1. obs_type o1 = t) (os @ [o1]) = None
      | Some b \<Rightarrow> \<forall>p. map_of b p = cell (\<lambda>o1. obs_type o1 = t \<and> obs_path o1 = p) (os @ [o1])" for t
    using tp [of t] by (auto simp: m' go_map inner cell_snoc upd_def split: option.splits)
  ultimately show ?thesis unfolding tables_of_def by blast
qed

lemma tables_New: "tables_of [] NewControlMetrics"
  by (simp add: tables_of_def NewControlMetrics_def accumulate_Nil cell_def)

lemma tables_all: "tables_of os m \<Longrightarrow> tables_of (os @ os') (fold observe os' m)"
proof (induction os' arbitrary: os m)
  case (Cons o1 os')
  from Cons.IH [OF tables_step [OF Cons.prems]] show ?case by simp
qed simp

lemma map_of_put_all:
  "map_of (put_all f m acc) k = (case map_of (rev m) k of None \<Rightarrow> map_of acc k | Some a \<Rightarrow> Some (f a))"
  by (induction m arbitrary: acc) (auto simp: put_all_def go_map map_add_def split: option.splits)

lemma accumulate_counts:
  "cmaRequests (accumulate os) = int (length os)"
  "cmaSuccesses (accumulate os) = int (length (filter (\<lambda>o1. obsError o1 = None) os))"
  "cmaTimeouts (accumulate os) = int (length (filter is_timeout os))"
  "cmaFailures (accumulate os) = int (length (filter (\<lambda>o1. obsError o1 \<noteq> None \<and> \<not> is_timeout o1) os))"
  by (induction os rule: rev_induct; auto simp: accumulate_Nil accumulate_snoc zero_accumulator_def observeAccumulator_def
      Let_def is_timeout_def split: option.splits)+

lemma accumulate_latency:
  assumes "\<forall>o1 \<in> set os. obsDuration o1 \<le> maxInt64" "sum_list (map (\<lambda>o1. max 0 (obsDuration o1)) os) \<le> maxInt64"
  shows "cmaTotalLatency (accumulate os) = sum_list (map (\<lambda>o1. max 0 (obsDuration o1)) os) \<and>
    (\<forall>o1 \<in> set os. obsDuration o1 \<le> cmaMaxLatency (accumulate os)) \<and> 0 \<le> cmaMaxLatency (accumulate os)"
  using assms
proof (induction os rule: rev_induct)
  case (snoc o1 os)
  let ?S = "sum_list (map (\<lambda>o1. max 0 (obsDuration o1)) os)"
  have nn: "0 \<le> ?S" by (rule sum_list_nonneg) auto
  with snoc.prems(2) have "?S \<le> maxInt64" by (auto simp: max_def split: if_splits)
  with snoc have IH: "cmaTotalLatency (accumulate os) = ?S" "\<forall>x \<in> set os. obsDuration x \<le> cmaMaxLatency (accumulate os)"
    "0 \<le> cmaMaxLatency (accumulate os)" by simp_all
  have "wrap64 (?S + max 0 (obsDuration o1)) = ?S + max 0 (obsDuration o1)"
    by (rule wrap64_id) (use nn snoc.prems(2) in \<open>simp_all add: minInt64_def\<close>)
  with IH show ?case
    by (force simp: accumulate_snoc observeAccumulator_def Let_def split: option.splits)
qed (simp add: accumulate_Nil zero_accumulator_def)

lemma observe_wf: "metrics_wf m \<Longrightarrow> metrics_wf (observe o1 m)"
  by (auto simp: metrics_wf_def observe_def ControlMetrics_Observe_def Let_def typePathAccumulator_def go_map
      split: option.splits if_splits)

lemma tables_wf: "metrics_wf (fold observe os NewControlMetrics)"
proof (induction os rule: rev_induct)
  case Nil
  show ?case by (simp add: metrics_wf_def NewControlMetrics_def wf_map_def map_keys_def)
next
  case (snoc o1 os)
  then show ?case by (simp add: observe_wf)
qed

lemma map_of_rev_wf: "wf_map m \<Longrightarrow> map_of (rev m) = map_of m"
  unfolding wf_map_def map_keys_def by (rule map_of_inject_set [THEN iffD2]) (simp_all add: rev_map [symmetric])

section \<open>Property\<close>

text \<open>
  C24: The published metrics are exact: after any series of observations, each cell (the total,
  a path, a type, a type on a path) reports the accumulator of exactly the observations with
  its normalised labels, a cell without observations is absent (the three paths excepted,
  which report zeros), and requests, successes, timeouts and failures are the numbers of
  observations, of those without error, with an exceeded deadline, and with another error.
\<close>
theorem control_metrics_exact:
  fixes os :: "observation list"
  defines "s \<equiv> ControlMetrics_Snapshot (fold observe os NewControlMetrics)"
  shows "snapTotals s = snapshotAccumulator (accumulate os) \<and>
    (\<forall>p. map_of (snapByPath s) p = (if p \<in> {ControlPathUnknown, ControlPathHTTP, ControlPathP2P}
       then Some (snapshotAccumulator (accumulate (filter (\<lambda>o1. obs_path o1 = p) os))) else None)) \<and>
    (\<forall>t. map_of (snapByType s) t = map_option snapshotAccumulator (cell (\<lambda>o1. obs_type o1 = t) os)) \<and>
    (\<forall>t p. Option.bind (map_of (snapByTypePath s) t) (\<lambda>b. map_of b p) =
       map_option snapshotAccumulator (cell (\<lambda>o1. obs_type o1 = t \<and> obs_path o1 = p) os)) \<and>
    cmsRequests (snapTotals s) = int (length os) \<and>
    cmsSuccesses (snapTotals s) = int (length (filter (\<lambda>o1. obsError o1 = None) os)) \<and>
    cmsTimeouts (snapTotals s) = int (length (filter is_timeout os)) \<and>
    cmsSuccesses (snapTotals s) + cmsTimeouts (snapTotals s) + cmsFailures (snapTotals s) = cmsRequests (snapTotals s)"
proof -
  define m where "m = fold observe os NewControlMetrics"
  have t: "tables_of os m" using tables_all [OF tables_New, of os] by (simp add: m_def)
  from tables_wf [of os, folded m_def] have wf: "wf_map (cmByPath m)" "wf_map (cmByType m)" "wf_map (cmByTypePath m)"
    "map_of (cmByTypePath m) t = Some b \<Longrightarrow> wf_map b" for t b unfolding metrics_wf_def by blast+
  have rev: "map_of (rev (cmByPath m)) = map_of (cmByPath m)" "map_of (rev (cmByType m)) = map_of (cmByType m)"
    "map_of (rev (cmByTypePath m)) = map_of (cmByTypePath m)" by (rule map_of_rev_wf [OF wf(1)] map_of_rev_wf [OF wf(2)] map_of_rev_wf [OF wf(3)])+
  have sub: "cell (\<lambda>o1. obs_type o1 = t) os = None \<Longrightarrow> cell (\<lambda>o1. obs_type o1 = t \<and> obs_path o1 = p) os = None" for t p
    by (auto simp: cell_def filter_empty_conv split: if_splits)
  have tp: "case map_of (cmByTypePath m) t of None \<Rightarrow> cell (\<lambda>o1. obs_type o1 = t) os = None
      | Some b \<Rightarrow> \<forall>p. map_of b p = cell (\<lambda>o1. obs_type o1 = t \<and> obs_path o1 = p) os" for t
    using t unfolding tables_of_def by blast
  have 1: "map_of (snapByPath s) p = (if p \<in> {ControlPathUnknown, ControlPathHTTP, ControlPathP2P}
       then Some (snapshotAccumulator (accumulate (filter (\<lambda>o1. obs_path o1 = p) os))) else None)" for p
    using t by (simp add: s_def m_def [symmetric] ControlMetrics_Snapshot_def map_of_put_all rev tables_of_def
        EmptyControlMetricsSnapshot_def del: insert_iff) auto
  have 2: "map_of (snapByType s) t = map_option snapshotAccumulator (cell (\<lambda>o1. obs_type o1 = t) os)" for t
    using t by (simp add: s_def m_def [symmetric] ControlMetrics_Snapshot_def map_of_put_all rev tables_of_def
        EmptyControlMetricsSnapshot_def split: option.split)
  have 3: "Option.bind (map_of (snapByTypePath s) t) (\<lambda>b. map_of b p) =
       map_option snapshotAccumulator (cell (\<lambda>o1. obs_type o1 = t \<and> obs_path o1 = p) os)" for t p
  proof (cases "map_of (cmByTypePath m) t")
    case None
    then show ?thesis using tp [of t] sub by (simp add: s_def m_def [symmetric] ControlMetrics_Snapshot_def map_of_put_all rev
        EmptyControlMetricsSnapshot_def)
  next
    case (Some b)
    have "map_of b p = cell (\<lambda>o1. obs_type o1 = t \<and> obs_path o1 = p) os"
      using tp [of t] Some by simp
    then show ?thesis using Some map_of_rev_wf [OF wf(4) [OF Some]]
      by (simp add: s_def m_def [symmetric] ControlMetrics_Snapshot_def map_of_put_all rev EmptyControlMetricsSnapshot_def
          split: option.split)
  qed
  have tot: "snapTotals s = snapshotAccumulator (accumulate os)"
    using t by (simp add: s_def m_def [symmetric] ControlMetrics_Snapshot_def tables_of_def)
  have "length (filter (\<lambda>o1. obsError o1 = None) os) + length (filter is_timeout os) +
      length (filter (\<lambda>o1. obsError o1 \<noteq> None \<and> \<not> is_timeout o1) os) = length os"
    by (induction os) (auto simp: is_timeout_def split: option.splits)
  with 1 2 3 tot accumulate_counts [of os] show ?thesis by (simp add: snapshotAccumulator_def)
qed

end
