(* ===== verification/Control_Plane.thy ===== *)
theory Control_Plane
  imports Orchestrator_Flow Ack_Ledger Control_Metrics State_Manager
begin

text \<open>
  \<open>internal/agent/control_router.go\<close>, \<open>ack_registration.go\<close> and \<open>control_timeouts.go\<close>: how a control
  message reaches the orchestrator or the acknowledgement tracker, and which of the answers are
  tracked. \<open>Agent\<close> is what the HTTP server and the peer-to-peer session manager share; a component
  that may be \<open>nil\<close> is an option. The adapter is given the deadline of the context that it is
  called under, so it is an argument of type \<open>duration \<Rightarrow> 's WorkspaceAdapter\<close>.
\<close>

section \<open>State\<close>

record 's Agent =
  agOrc :: "'s Orchestrator option"
  agAcks :: "AckTracker option"
  agMetrics :: "ControlMetrics option"
  agConn :: StateManager

record ControlHandleResult =
  chrResponses :: "Envelope list"
  chrAckHandled :: bool
  chrAckRequestID :: string

definition zero_ControlHandleResult :: ControlHandleResult where
  "zero_ControlHandleResult = \<lparr>chrResponses = [], chrAckHandled = False, chrAckRequestID = []\<rparr>"

section \<open>Operations\<close>

definition controlEnvelopeTimeout :: "MessageType \<Rightarrow> duration" where
  "controlEnvelopeTimeout messageType =
     (if messageType = TypePromptSubmit \<or> messageType = TypeRunProfile then 5 * Minute
      else if messageType = TypePatchApply then 30 * Second
      else 5 * Second)"

fun registerAckableResponses ::
    "instant \<Rightarrow> AckTracker option \<Rightarrow> Envelope list \<Rightarrow> AckTransport \<Rightarrow> bool \<Rightarrow> AckTracker option" where
  "registerAckableResponses now None responses transport retryEnabled = None"
| "registerAckableResponses now (Some tracker) [] transport retryEnabled = Some tracker"
| "registerAckableResponses now (Some tracker) (response # responses) transport retryEnabled =
     (if Type response = TypeCmdAck then registerAckableResponses now (Some tracker) responses transport retryEnabled
      else registerAckableResponses now (Some (AckTracker_RegisterEnvelope now response transport retryEnabled tracker))
             responses transport retryEnabled)"

definition ControlRouter_HandleEnvelope ::
    "instant \<Rightarrow> 's WorkspaceAdapter \<Rightarrow> Envelope \<Rightarrow> 's Agent \<Rightarrow> (ControlHandleResult \<times> goerror option) \<times> 's Agent" where
  "ControlRouter_HandleEnvelope now A env a =
     (if Type env = TypeCmdAck then
        (case agAcks a of
           None \<Rightarrow> ((zero_ControlHandleResult, Some (ErrNew ''ack tracker is not configured'')), a)
         | Some tracker \<Rightarrow>
             (case DecodePayload env CmdAckPayload_unjson of
                Inl err \<Rightarrow> ((zero_ControlHandleResult, Some err), a)
              | Inr payload \<Rightarrow>
                  (case AckTracker_Ack now (caRequestRID payload) tracker of
                     (tracker, handled) \<Rightarrow>
                       ((\<lparr>chrResponses = [], chrAckHandled = handled, chrAckRequestID = caRequestRID payload\<rparr>, None),
                        a\<lparr>agAcks := Some tracker\<rparr>))))
      else
        (case agOrc a of
           None \<Rightarrow> ((zero_ControlHandleResult, Some (ErrNew ''orchestrator is not configured'')), a)
         | Some orc \<Rightarrow>
             (case run_state (Orchestrator_HandleEnvelope A env) orc of
                ((responses, err), orc) \<Rightarrow>
                  ((zero_ControlHandleResult\<lparr>chrResponses := responses\<rparr>, err), a\<lparr>agOrc := Some orc\<rparr>))))"

text \<open>
  What both transports do with a message: call the router under the timeout of its type and
  observe the call. \<open>now0\<close> is the start, \<open>now1\<close> the end of the call.
\<close>

definition handle_observed ::
    "instant \<Rightarrow> instant \<Rightarrow> (duration \<Rightarrow> 's WorkspaceAdapter) \<Rightarrow> string \<Rightarrow> Envelope \<Rightarrow> 's Agent \<Rightarrow>
     (ControlHandleResult \<times> goerror option) \<times> 's Agent" where
  "handle_observed now0 now1 A path env a =
     (case ControlRouter_HandleEnvelope now0 (A (controlEnvelopeTimeout (Type env))) env a of
        ((result, err), a) \<Rightarrow>
          ((result, err),
           if Type env \<noteq> TypeCmdAck
           then a\<lparr>agMetrics := map_option (ControlMetrics_Observe (Type env) path (time_Sub now1 now0) err) (agMetrics a)\<rparr>
           else a))"

section \<open>Lemmas\<close>

lemma registerAckable_fold:
  "registerAckableResponses now (Some t) rs transport retry =
     Some (fold ack_register (map (\<lambda>e. (now, e, transport, retry)) (filter (\<lambda>e. Type e \<noteq> TypeCmdAck) rs)) t)"
  by (induction rs arbitrary: t) (simp_all add: ack_register_def)

lemma registerAckable_waits:
  assumes "registerAckableResponses now (Some t) rs transport retry = Some t'"
  shows "ack_waits t' k \<longleftrightarrow> (\<exists>e \<in> set rs. Type e \<noteq> TypeCmdAck \<and> RID e = k) \<or> ack_waits t k"
  using assms acks.register_all_waits
      [of "map (\<lambda>e. (now, e, transport, retry)) (filter (\<lambda>e. Type e \<noteq> TypeCmdAck) rs)" t k]
  by (auto simp: registerAckable_fold image_iff)

lemma registerAckable_append:
  "registerAckableResponses now tr (rs @ rs') transport retry =
     registerAckableResponses now (registerAckableResponses now tr rs transport retry) rs' transport retry"
proof (cases tr)
  case None
  then show ?thesis by (cases rs; cases rs') simp_all
next
  case (Some t)
  then show ?thesis by (simp add: registerAckable_fold)
qed

lemma Router_ack:
  assumes "Type k = TypeCmdAck" "agAcks a = Some t" "DecodePayload k CmdAckPayload_unjson = Inr p"
  shows "ControlRouter_HandleEnvelope now A k a =
    ((\<lparr>chrResponses = [], chrAckHandled = ack_waits t (caRequestRID p), chrAckRequestID = caRequestRID p\<rparr>, None),
     a\<lparr>agAcks := Some (fst (ack_ack (now, caRequestRID p) t))\<rparr>)"
  using assms acks.ack_answer [of "(now, caRequestRID p)" t]
  by (simp add: ControlRouter_HandleEnvelope_def ack_ack_def case_prod_beta)

lemma Router_orc:
  assumes "Type env \<noteq> TypeCmdAck" "agOrc a = Some orc" "run_state (Orchestrator_HandleEnvelope A env) orc = ((rs, err), orc')"
  shows "ControlRouter_HandleEnvelope now A env a =
    ((zero_ControlHandleResult\<lparr>chrResponses := rs\<rparr>, err), a\<lparr>agOrc := Some orc'\<rparr>)"
  using assms by (simp add: ControlRouter_HandleEnvelope_def)

section \<open>Properties\<close>

text \<open>
  From a control message to the acknowledgement of its answers: whatever the handlers return
  for a message, once the answers have been registered, the client's acknowledgement of any of
  them that is not itself an acknowledgement is reported as handled, a second acknowledgement of
  the same one is reported as not handled, neither changes the orchestrator, and the answer is
  then no longer waited for.
\<close>
theorem response_acknowledged_once:
  assumes "Type env \<noteq> TypeCmdAck" "agAcks a = Some t"
    and "ControlRouter_HandleEnvelope now A env a = ((result, err), a1)"
    and "a2 = a1\<lparr>agAcks := registerAckableResponses now1 (agAcks a1) (chrResponses result) transport retry\<rparr>"
    and "e \<in> set (chrResponses result)" "Type e \<noteq> TypeCmdAck"
    and "Type k = TypeCmdAck" "DecodePayload k CmdAckPayload_unjson = Inr p" "caRequestRID p = RID e"
  shows "\<exists>a3. ControlRouter_HandleEnvelope now2 A' k a2 =
      ((\<lparr>chrResponses = [], chrAckHandled = True, chrAckRequestID = RID e\<rparr>, None), a3) \<and>
    agOrc a3 = agOrc a1 \<and> (\<forall>t3. agAcks a3 = Some t3 \<longrightarrow> map_of (pending t3) (RID e) = None) \<and>
    (\<exists>a4. ControlRouter_HandleEnvelope now3 A' k a3 =
      ((\<lparr>chrResponses = [], chrAckHandled = False, chrAckRequestID = RID e\<rparr>, None), a4) \<and> agOrc a4 = agOrc a1)"
proof -
  have t1: "agAcks a1 = Some t"
    using assms(1-3) by (auto simp: ControlRouter_HandleEnvelope_def split: option.splits prod.splits)
  obtain t2 where t2: "registerAckableResponses now1 (Some t) (chrResponses result) transport retry = Some t2"
    by (simp add: registerAckable_fold)
  then have w: "ack_waits t2 (RID e)" using registerAckable_waits [OF t2] assms(5,6) by auto
  have a2: "agAcks a2 = Some t2" "agOrc a2 = agOrc a1" using assms(4) t1 t2 by simp_all
  define t3 where "t3 = fst (ack_ack (now2, RID e) t2)"
  have "\<not> ack_waits t3 (RID e)" using acks.ack_waits [of "(now2, RID e)" t2 "RID e"] by (simp add: t3_def)
  then show ?thesis
    using Router_ack [OF assms(7) a2(1) assms(8), of now2 A'] w a2(2)
      Router_ack [OF assms(7) _ assms(8), of "a2\<lparr>agAcks := Some t3\<rparr>" t3 now3 A']
    by (simp add: assms(9) t3_def ack_waits_def)
qed

text \<open>A prompt handled with the mock adapter by an agent with a tracker.\<close>

definition ex_agent :: "MockAdapter Agent" where
  "ex_agent = \<lparr>agOrc = Some ex_orc, agAcks = Some (NewAckTracker 0), agMetrics = Some NewControlMetrics,
     agConn = NewStateManager 0 DefaultManagerConfig\<rparr>"

definition ex_ack :: "string \<Rightarrow> Envelope" where
  "ex_ack rid = \<lparr>SID = ''s1'', RID = ''r9'', Seq = 2, TS = 6, Type = TypeCmdAck,
     Payload = Some (JObj [(''requestRid'', JStr rid), (''accepted'', JBool True)])\<rparr>"

lemma ex_ack_decodes:
  "DecodePayload (ex_ack rid) CmdAckPayload_unjson = Inr \<lparr>caRequestRID = rid, caAccepted = True, caMessage = []\<rparr>"
  by (simp add: ex_ack_def DecodePayload_def CmdAckPayload_unjson_def CmdAckPayload_names_def CmdAckPayload_put_def
      zero_CmdAckPayload_def json_codec decode_string_def)

lemma response_acknowledged_once_witness:
  "\<exists>(e :: Envelope) a2 a3. Type e = TypePromptAck \<and>
     ControlRouter_HandleEnvelope 9 mock_adapter (ex_ack (RID e)) a2 =
       ((\<lparr>chrResponses = [], chrAckHandled = True, chrAckRequestID = RID e\<rparr>, None), a3)"
proof -
  let ?r = "run_state (Orchestrator_HandleEnvelope mock_adapter ex_prompt) ex_orc"
  obtain c e f where r: "fst ?r = ([c, e, f], None)" and e: "Type e = TypePromptAck"
    using prompt_flow [OF orc.reach_inv [OF ex_reach] ex_clock(1) ex_room(1) ex_prompt_decodes ex_mock_serves
        prod.collapse [symmetric]] by (auto simp: job_started_def is_reply_def)
  have h: "ControlRouter_HandleEnvelope 0 mock_adapter ex_prompt ex_agent =
      ((zero_ControlHandleResult\<lparr>chrResponses := [c, e, f]\<rparr>, None), ex_agent\<lparr>agOrc := Some (snd ?r)\<rparr>)"
    by (rule Router_orc) (use r in \<open>auto simp: ex_prompt_decodes(2) ex_agent_def prod_eq_iff\<close>)
  have "agAcks ex_agent = Some (NewAckTracker 0)" by (simp add: ex_agent_def)
  moreover have "Type (ex_ack rid) = TypeCmdAck" for rid by (simp add: ex_ack_def)
  ultimately obtain a2 a3 where "ControlRouter_HandleEnvelope 9 mock_adapter (ex_ack (RID e)) a2 =
      ((\<lparr>chrResponses = [], chrAckHandled = True, chrAckRequestID = RID e\<rparr>, None), a3)"
    using response_acknowledged_once [OF _ _ h refl, of "NewAckTracker 0" e "ex_ack (RID e)"
      "\<lparr>caRequestRID = RID e, caAccepted = True, caMessage = []\<rparr>" 9 mock_adapter 1 "''http''" False 10]
      e ex_ack_decodes [of "RID e"] by (auto simp: ex_prompt_decodes(2))
  with e show ?thesis by blast
qed

end
