(* ===== verification/Webrtc_Peer.thy ===== *)
theory Webrtc_Peer
  imports Payloads
begin

text \<open>
  \<open>internal/webrtc/types.go\<close> and \<open>internal/webrtc/peer.go\<close>: one end of a peer connection with its
  control channel and the bounded queues that its callbacks fill. The WebRTC library (pion) is
  the argument \<open>L\<close>, a record of functions over the library's own state; its callbacks are
  operations of the peer that the environment calls.
\<close>

section \<open>Types (types.go)\<close>

type_synonym Side = string
abbreviation SidePC :: Side where "SidePC \<equiv> ''pc''"
abbreviation SideMobile :: Side where "SideMobile \<equiv> ''mobile''"

record Config =
  cfgSide :: Side
  cfgDataChannelLabel :: string
  cfgOfferTimeout :: duration

definition webrtc_DefaultConfig :: "Side \<Rightarrow> Config" where
  "webrtc_DefaultConfig side =
     \<lparr>cfgSide = side, cfgDataChannelLabel = ''vibedeck-control'', cfgOfferTimeout = 6 * Second\<rparr>"

type_synonym PeerState = string
abbreviation StateNew :: PeerState where "StateNew \<equiv> ''new''"
abbreviation StateConnecting :: PeerState where "StateConnecting \<equiv> ''connecting''"
abbreviation StateConnected :: PeerState where "StateConnected \<equiv> ''connected''"
abbreviation StateDisconnected :: PeerState where "StateDisconnected \<equiv> ''disconnected''"
abbreviation StateFailed :: PeerState where "StateFailed \<equiv> ''failed''"
abbreviation PeerStateClosed :: PeerState where "PeerStateClosed \<equiv> ''closed''"

section \<open>The library\<close>

datatype sdp_type = SDPOffer | SDPAnswer

datatype PeerConnectionState =
  PCUnknown | PCNew | PCConnecting | PCConnected | PCDisconnected | PCFailed | PCClosed

text \<open>
  The functions of the library that the peer calls. \<open>pionGathered\<close> says whether gathering
  completes before a timer of the given duration fires.
\<close>

record 'p Pion =
  pionCreateDataChannel :: "string \<Rightarrow> 'p \<Rightarrow> goerror option \<times> 'p"
  pionCreateOffer :: "'p \<Rightarrow> string result \<times> 'p"
  pionCreateAnswer :: "'p \<Rightarrow> string result \<times> 'p"
  pionSetLocalDescription :: "string \<Rightarrow> 'p \<Rightarrow> goerror option \<times> 'p"
  pionSetRemoteDescription :: "sdp_type \<Rightarrow> string \<Rightarrow> 'p \<Rightarrow> goerror option \<times> 'p"
  pionLocalDescription :: "'p \<Rightarrow> string option"
  pionGathered :: "duration \<Rightarrow> 'p \<Rightarrow> bool \<times> 'p"
  pionAddICECandidate :: "string \<Rightarrow> string option \<Rightarrow> int option \<Rightarrow> 'p \<Rightarrow> goerror option \<times> 'p"
  pionSend :: "json \<Rightarrow> 'p \<Rightarrow> goerror option \<times> 'p"
  pionClose :: "'p \<Rightarrow> goerror option \<times> 'p"

record ICECandidateInit =
  iceCandidate :: string
  iceSDPMid :: "string option"
  iceSDPMLineIndex :: "int option"

section \<open>The peer (peer.go)\<close>

text \<open>A data channel message: the text of a JSON document, or other bytes.\<close>

datatype message = MsgJson json | MsgOther

record 'p Peer =
  peerCfg :: Config
  peerConn :: 'p
  peerHasDC :: bool
  peerClosed :: bool
  peerDcReady :: bool
  localCandidates :: "SignalICEPayload list"
  peerMessages :: "message list"
  peerStates :: "PeerState list"

text \<open>A send in a \<open>select\<close> with a \<open>default\<close>: it takes place if the channel has room.\<close>

definition try_put :: "nat \<Rightarrow> 'a \<Rightarrow> 'a list \<Rightarrow> 'a list" where
  "try_put cap x q = (if length q < cap then q @ [x] else q)"

definition bindDataChannel :: "'p Peer \<Rightarrow> 'p Peer" where
  "bindDataChannel p = p\<lparr>peerHasDC := True\<rparr>"

text \<open>\<open>conn\<close> is what \<open>pion.NewPeerConnection\<close> returns.\<close>

definition NewPeer :: "'p Pion \<Rightarrow> Config \<Rightarrow> 'p result \<Rightarrow> 'p Peer result" where
  "NewPeer L cfg conn =
     (if cfgSide cfg = [] then Inl (ErrNew ''side is required'')
      else
        let cfg = (if cfgDataChannelLabel cfg = []
                   then cfg\<lparr>cfgDataChannelLabel := cfgDataChannelLabel (webrtc_DefaultConfig (cfgSide cfg))\<rparr> else cfg);
            cfg = (if cfgOfferTimeout cfg \<le> 0
                   then cfg\<lparr>cfgOfferTimeout := cfgOfferTimeout (webrtc_DefaultConfig (cfgSide cfg))\<rparr> else cfg)
        in case conn of
             Inl err \<Rightarrow> Inl (ErrWrap ''create peer connection: '' err [])
           | Inr pc \<Rightarrow>
               let p = \<lparr>peerCfg = cfg, peerConn = pc, peerHasDC = False, peerClosed = False, peerDcReady = False,
                        localCandidates = [], peerMessages = [], peerStates = []\<rparr>
               in if cfgSide cfg = SidePC
                  then case pionCreateDataChannel L (cfgDataChannelLabel cfg) pc of
                         (Some err, pc) \<Rightarrow> Inl (ErrWrap ''create data channel: '' err [])
                       | (None, pc) \<Rightarrow> Inr (bindDataChannel (p\<lparr>peerConn := pc\<rparr>))
                  else Inr p)"

definition toSignalICEPayload :: "ICECandidateInit \<Rightarrow> SignalICEPayload" where
  "toSignalICEPayload c =
     \<lparr>siCandidate = iceCandidate c,
      siSDPMid = (case iceSDPMid c of None \<Rightarrow> [] | Some m \<Rightarrow> m),
      siSDPMLineIndex = (case iceSDPMLineIndex c of None \<Rightarrow> 0 | Some l \<Rightarrow> l)\<rparr>"

definition mapPeerState :: "PeerConnectionState \<Rightarrow> PeerState" where
  "mapPeerState st =
     (case st of
        PCNew \<Rightarrow> StateNew | PCConnecting \<Rightarrow> StateConnecting | PCConnected \<Rightarrow> StateConnected
      | PCDisconnected \<Rightarrow> StateDisconnected | PCFailed \<Rightarrow> StateFailed | PCClosed \<Rightarrow> PeerStateClosed
      | _ \<Rightarrow> StateNew)"

text \<open>The callbacks that \<open>bindBaseHandlers\<close> and \<open>bindDataChannel\<close> register.\<close>

definition onICECandidate :: "ICECandidateInit option \<Rightarrow> 'p Peer \<Rightarrow> 'p Peer" where
  "onICECandidate candidate p =
     (case candidate of
        None \<Rightarrow> p
      | Some c \<Rightarrow> if peerClosed p then p
                  else p\<lparr>localCandidates := try_put 128 (toSignalICEPayload c) (localCandidates p)\<rparr>)"

definition onConnectionStateChange :: "PeerConnectionState \<Rightarrow> 'p Peer \<Rightarrow> 'p Peer" where
  "onConnectionStateChange st p =
     (if peerClosed p then p else p\<lparr>peerStates := try_put 32 (mapPeerState st) (peerStates p)\<rparr>)"

definition onDataChannel :: "'p Peer \<Rightarrow> 'p Peer" where
  "onDataChannel p = bindDataChannel p"

definition onOpen :: "'p Peer \<Rightarrow> 'p Peer" where
  "onOpen p = (if peerClosed p then p else p\<lparr>peerDcReady := True\<rparr>)"

definition onClose :: "'p Peer \<Rightarrow> 'p Peer" where
  "onClose p = p\<lparr>peerDcReady := False\<rparr>"

definition onMessage :: "message \<Rightarrow> 'p Peer \<Rightarrow> 'p Peer" where
  "onMessage msg p = (if peerClosed p then p else p\<lparr>peerMessages := try_put 128 msg (peerMessages p)\<rparr>)"

definition waitGatheringComplete :: "'p Pion \<Rightarrow> duration \<Rightarrow> 'p Peer \<Rightarrow> goerror option \<times> 'p Peer" where
  "waitGatheringComplete L d p =
     (case pionGathered L d (peerConn p) of
        (True, pc) \<Rightarrow> (None, p\<lparr>peerConn := pc\<rparr>)
      | (False, pc) \<Rightarrow> (Some (ErrNew ''ice gathering timeout''), p\<lparr>peerConn := pc\<rparr>))"

text \<open>What \<open>CreateOffer\<close> and \<open>ApplyOfferAndCreateAnswer\<close> do once they have a description.\<close>

definition describe :: "'p Pion \<Rightarrow> string \<Rightarrow> string \<Rightarrow> string \<Rightarrow> 'p Peer \<Rightarrow> string result \<times> 'p Peer" where
  "describe L sdp setFailed missing p =
     (case pionSetLocalDescription L sdp (peerConn p) of
        (Some err, pc) \<Rightarrow> (Inl (ErrWrap setFailed err []), p\<lparr>peerConn := pc\<rparr>)
      | (None, pc) \<Rightarrow>
          (case waitGatheringComplete L (cfgOfferTimeout (peerCfg p)) (p\<lparr>peerConn := pc\<rparr>) of
             (Some err, p) \<Rightarrow> (Inl err, p)
           | (None, p) \<Rightarrow>
               (case pionLocalDescription L (peerConn p) of
                  None \<Rightarrow> (Inl (ErrNew missing), p)
                | Some local \<Rightarrow> (Inr local, p))))"

definition CreateOffer :: "'p Pion \<Rightarrow> 'p Peer \<Rightarrow> string result \<times> 'p Peer" where
  "CreateOffer L p =
     (if cfgSide (peerCfg p) \<noteq> SidePC then (Inl (ErrNew ''only pc peer can create offer''), p)
      else case pionCreateOffer L (peerConn p) of
        (Inl err, pc) \<Rightarrow> (Inl (ErrWrap ''create offer: '' err []), p\<lparr>peerConn := pc\<rparr>)
      | (Inr offer, pc) \<Rightarrow> describe L offer ''set local offer: '' ''local description is nil'' (p\<lparr>peerConn := pc\<rparr>))"

definition ApplyOfferAndCreateAnswer :: "'p Pion \<Rightarrow> string \<Rightarrow> 'p Peer \<Rightarrow> string result \<times> 'p Peer" where
  "ApplyOfferAndCreateAnswer L offerSDP p =
     (if cfgSide (peerCfg p) \<noteq> SideMobile then (Inl (ErrNew ''only mobile peer can apply offer''), p)
      else if offerSDP = [] then (Inl (ErrNew ''offer sdp is required''), p)
      else case pionSetRemoteDescription L SDPOffer offerSDP (peerConn p) of
        (Some err, pc) \<Rightarrow> (Inl (ErrWrap ''set remote offer: '' err []), p\<lparr>peerConn := pc\<rparr>)
      | (None, pc) \<Rightarrow>
          (case pionCreateAnswer L pc of
             (Inl err, pc) \<Rightarrow> (Inl (ErrWrap ''create answer: '' err []), p\<lparr>peerConn := pc\<rparr>)
           | (Inr answer, pc) \<Rightarrow> describe L answer ''set local answer: '' ''local answer is nil'' (p\<lparr>peerConn := pc\<rparr>)))"

definition ApplyAnswer :: "'p Pion \<Rightarrow> string \<Rightarrow> 'p Peer \<Rightarrow> goerror option \<times> 'p Peer" where
  "ApplyAnswer L answerSDP p =
     (if cfgSide (peerCfg p) \<noteq> SidePC then (Some (ErrNew ''only pc peer can apply answer''), p)
      else if answerSDP = [] then (Some (ErrNew ''answer sdp is required''), p)
      else case pionSetRemoteDescription L SDPAnswer answerSDP (peerConn p) of
        (Some err, pc) \<Rightarrow> (Some (ErrWrap ''set remote answer: '' err []), p\<lparr>peerConn := pc\<rparr>)
      | (None, pc) \<Rightarrow> (None, p\<lparr>peerConn := pc\<rparr>))"

text \<open>The line index is converted to \<open>uint16\<close>.\<close>

definition AddRemoteICECandidate :: "'p Pion \<Rightarrow> SignalICEPayload \<Rightarrow> 'p Peer \<Rightarrow> goerror option \<times> 'p Peer" where
  "AddRemoteICECandidate L payload p =
     (if siCandidate payload = [] then (Some (ErrNew ''candidate is required''), p)
      else
        let mid = (if siSDPMid payload \<noteq> [] then Some (siSDPMid payload) else None);
            idx = (if siSDPMLineIndex payload \<ge> 0 then Some (siSDPMLineIndex payload mod 2 ^ 16) else None)
        in case pionAddICECandidate L (siCandidate payload) mid idx (peerConn p) of
             (Some err, pc) \<Rightarrow> (Some (ErrWrap ''add remote candidate: '' err []), p\<lparr>peerConn := pc\<rparr>)
           | (None, pc) \<Rightarrow> (None, p\<lparr>peerConn := pc\<rparr>))"

definition Peer_Send :: "'p Pion \<Rightarrow> json \<Rightarrow> 'p Peer \<Rightarrow> goerror option \<times> 'p Peer" where
  "Peer_Send L d p =
     (if peerClosed p then (Some (ErrNew ''peer is closed''), p)
      else if \<not> peerDcReady p then (Some (ErrNew ''data channel is not open''), p)
      else if \<not> peerHasDC p then (Some (ErrNew ''data channel is nil''), p)
      else case pionSend L d (peerConn p) of
        (Some err, pc) \<Rightarrow> (Some (ErrWrap ''send data channel message: '' err []), p\<lparr>peerConn := pc\<rparr>)
      | (None, pc) \<Rightarrow> (None, p\<lparr>peerConn := pc\<rparr>))"

definition Peer_Close :: "'p Pion \<Rightarrow> 'p Peer \<Rightarrow> goerror option \<times> 'p Peer" where
  "Peer_Close L p =
     (if peerClosed p then (None, p)
      else
        let p = p\<lparr>peerClosed := True, peerDcReady := False\<rparr>
        in case pionClose L (peerConn p) of
             (Some err, pc) \<Rightarrow> (Some (ErrWrap ''close peer connection: '' err []), p\<lparr>peerConn := pc\<rparr>)
           | (None, pc) \<Rightarrow> (None, p\<lparr>peerConn := pc\<rparr>))"

text \<open>
  The waiting loops, over what they see before their timer fires: the states they receive, the
  readings of the flag.
\<close>

fun WaitForState :: "PeerState \<Rightarrow> PeerState list \<Rightarrow> goerror option" where
  "WaitForState target [] = Some (ErrNew (''wait for state timeout: '' @ target))"
| "WaitForState target (st # sts) =
     (if st = target then None
      else if st = StateFailed \<or> st = PeerStateClosed then Some (ErrNew (''peer entered terminal state: '' @ st))
      else WaitForState target sts)"

fun WaitDataChannelOpen :: "bool list \<Rightarrow> goerror option" where
  "WaitDataChannelOpen [] = Some (ErrNew ''wait data channel open timeout'')"
| "WaitDataChannelOpen (ready # rs) = (if ready then None else WaitDataChannelOpen rs)"

section \<open>The queues\<close>

definition peer_queues_ok :: "'p Peer \<Rightarrow> bool" where
  "peer_queues_ok p \<longleftrightarrow> length (localCandidates p) \<le> 128 \<and> length (peerMessages p) \<le> 128 \<and> length (peerStates p) \<le> 32 \<and>
     (peerClosed p \<longrightarrow> \<not> peerDcReady p)"

text \<open>The operations that talk to the library keep everything but the library's state.\<close>

definition same_peer :: "'p Peer \<Rightarrow> 'p Peer \<Rightarrow> bool" where
  "same_peer p p' \<longleftrightarrow> peerCfg p' = peerCfg p \<and> peerHasDC p' = peerHasDC p \<and> peerClosed p' = peerClosed p \<and>
     peerDcReady p' = peerDcReady p \<and> localCandidates p' = localCandidates p \<and> peerMessages p' = peerMessages p \<and>
     peerStates p' = peerStates p"

section \<open>Lemmas\<close>

named_theorems peer_ops \<open>definitions of the operations of a peer\<close>

lemmas [peer_ops] = CreateOffer_def ApplyOfferAndCreateAnswer_def ApplyAnswer_def AddRemoteICECandidate_def
  Peer_Send_def Peer_Close_def describe_def waitGatheringComplete_def

lemma try_put_bound: "length q \<le> cap \<Longrightarrow> length (try_put cap x q) \<le> cap"
  by (simp add: try_put_def)

lemma try_put_set: "set (try_put cap x q) \<subseteq> insert x (set q)"
  by (auto simp: try_put_def)

lemma same_peer_ops:
  "same_peer p (snd (CreateOffer L p))" "same_peer p (snd (ApplyOfferAndCreateAnswer L sdp p))"
  "same_peer p (snd (ApplyAnswer L sdp p))" "same_peer p (snd (AddRemoteICECandidate L ice p))"
  "same_peer p (snd (Peer_Send L d p))"
  by (auto simp: same_peer_def peer_ops Let_def split: prod.splits sum.splits option.splits bool.splits)

lemma peer_queues_callbacks:
  "peer_queues_ok p \<Longrightarrow> peer_queues_ok (onICECandidate c p)" "peer_queues_ok p \<Longrightarrow> peer_queues_ok (onConnectionStateChange st p)"
  "peer_queues_ok p \<Longrightarrow> peer_queues_ok (onDataChannel p)" "peer_queues_ok p \<Longrightarrow> peer_queues_ok (onOpen p)"
  "peer_queues_ok p \<Longrightarrow> peer_queues_ok (onClose p)" "peer_queues_ok p \<Longrightarrow> peer_queues_ok (onMessage m p)"
  "peer_queues_ok p \<Longrightarrow> peer_queues_ok (snd (Peer_Close L p))"
  by (auto simp: peer_queues_ok_def onICECandidate_def onConnectionStateChange_def onDataChannel_def bindDataChannel_def
      onOpen_def onClose_def onMessage_def Peer_Close_def Let_def try_put_bound split: option.split prod.split)

lemma same_peer_queues: "same_peer p p' \<Longrightarrow> peer_queues_ok p' = peer_queues_ok p"
  by (simp add: same_peer_def peer_queues_ok_def)

lemma send_after_close:
  assumes "peerClosed p"
  shows "Peer_Send L d p = (Some (ErrNew ''peer is closed''), p)" "Peer_Close L p = (None, p)" "onOpen p = p" "onMessage m p = p"
    "onICECandidate c p = p" "onConnectionStateChange st p = p"
  using assms by (simp_all add: Peer_Send_def Peer_Close_def onOpen_def onMessage_def onICECandidate_def
      onConnectionStateChange_def split: option.split)

end
