(* ===== verification/Webrtc_Bridge.thy ===== *)
theory Webrtc_Bridge
  imports Webrtc_Peer Signaling_Server
begin

text \<open>
  \<open>internal/webrtc/bridge.go\<close>: the bridge between a peer connection and the signalling channel.
  \<open>Run\<close> is a loop over a \<open>select\<close> of three cases; each case is a turn here, and a run is a
  sequence of turns interleaved with the calls and callbacks of other goroutines
  (\<open>bridge_step\<close>). The two clock readings of \<open>emit\<close> are its arguments \<open>now\<close> and \<open>now'\<close>.
\<close>

section \<open>The bridge\<close>

record 'p SignalBridge =
  brSessionID :: string
  brSide :: Side
  brPeer :: "'p Peer"
  brInbound :: "Envelope list"
  brOutbound :: "Envelope list"
  brErrors :: "goerror list"
  brSeq :: int
  brOfferStarted :: bool
  brClosed :: bool

definition NewSignalBridge :: "string \<Rightarrow> Side \<Rightarrow> 'p Peer option \<Rightarrow> 'p SignalBridge result" where
  "NewSignalBridge sessionID side peer =
     (if sessionID = [] then Inl (ErrNew ''sessionID is required'')
      else if side = [] then Inl (ErrNew ''side is required'')
      else case peer of
        None \<Rightarrow> Inl (ErrNew ''peer is required'')
      | Some peer \<Rightarrow> Inr \<lparr>brSessionID = sessionID, brSide = side, brPeer = peer, brInbound = [], brOutbound = [],
                          brErrors = [], brSeq = 0, brOfferStarted = False, brClosed = False\<rparr>)"

definition InboundEnvelope :: "Envelope \<Rightarrow> 'p SignalBridge \<Rightarrow> goerror option \<times> 'p SignalBridge" where
  "InboundEnvelope env b =
     (if brClosed b then (Some (ErrNew ''bridge is closed''), b)
      else if length (brInbound b) < 256 then (None, b\<lparr>brInbound := brInbound b @ [env]\<rparr>)
      else (Some (ErrNew ''inbound queue is full''), b))"

definition reportError :: "goerror option \<Rightarrow> 'p SignalBridge \<Rightarrow> 'p SignalBridge" where
  "reportError err b =
     (case err of None \<Rightarrow> b | Some e \<Rightarrow> b\<lparr>brErrors := try_put 128 e (brErrors b)\<rparr>)"

definition emit ::
    "instant \<Rightarrow> instant \<Rightarrow> MessageType \<Rightarrow> json \<Rightarrow> 'p SignalBridge \<Rightarrow> goerror option \<times> 'p SignalBridge" where
  "emit now now' typ payload b =
     (let b = b\<lparr>brSeq := brSeq b + 1\<rparr>
      in case NewEnvelope now' (brSessionID b) (''bridge_'' @ typ @ ''_'' @ Itoa (UnixNano now)) (brSeq b) typ (Inr payload) of
           Inl err \<Rightarrow> (Some (ErrWrap ''build envelope: '' err []), b)
         | Inr env \<Rightarrow>
             if length (brOutbound b) < 256 then (None, b\<lparr>brOutbound := brOutbound b @ [env]\<rparr>)
             else (Some (ErrNew ''outbound queue is full''), b))"

definition StartOffer :: "'p Pion \<Rightarrow> instant \<Rightarrow> instant \<Rightarrow> 'p SignalBridge \<Rightarrow> goerror option \<times> 'p SignalBridge" where
  "StartOffer L now now' b =
     (if brSide b \<noteq> SidePC then (Some (ErrNew ''only pc bridge can start offer''), b)
      else if brOfferStarted b then (None, b)
      else
        let b = b\<lparr>brOfferStarted := True\<rparr>
        in case CreateOffer L (brPeer b) of
             (Inl err, p) \<Rightarrow> (Some (ErrWrap ''create offer: '' err []), b\<lparr>brPeer := p\<rparr>)
           | (Inr offer, p) \<Rightarrow> emit now now' TypeSignalOffer (SignalOfferPayload_json \<lparr>soSDP = offer\<rparr>) (b\<lparr>brPeer := p\<rparr>))"

definition ProcessEnvelope ::
    "'p Pion \<Rightarrow> instant \<Rightarrow> instant \<Rightarrow> Envelope \<Rightarrow> 'p SignalBridge \<Rightarrow> goerror option \<times> 'p SignalBridge" where
  "ProcessEnvelope L now now' env b =
     (if SID env \<noteq> brSessionID b
      then (Some (ErrNew (''sid mismatch: expected='' @ brSessionID b @ '' got='' @ SID env)), b)
      else if Type env = TypeSignalReady then
        (case DecodePayload env SignalReadyPayload_unjson of
           Inl err \<Rightarrow> (Some (ErrWrap ''decode signal ready payload: '' err []), b)
         | Inr payload \<Rightarrow>
             if srPeerConnected payload \<and> brSide b = SidePC then StartOffer L now now' b else (None, b))
      else if Type env = TypeSignalOffer then
        (if brSide b \<noteq> SideMobile then (Some (ErrNew ''only mobile bridge can process SIGNAL_OFFER''), b)
         else case DecodePayload env SignalOfferPayload_unjson of
           Inl err \<Rightarrow> (Some (ErrWrap ''decode signal offer payload: '' err []), b)
         | Inr payload \<Rightarrow>
             (case ApplyOfferAndCreateAnswer L (soSDP payload) (brPeer b) of
                (Inl err, p) \<Rightarrow> (Some (ErrWrap ''apply offer/create answer: '' err []), b\<lparr>brPeer := p\<rparr>)
              | (Inr answer, p) \<Rightarrow>
                  emit now now' TypeSignalAnswer (SignalAnswerPayload_json \<lparr>saSDP = answer\<rparr>) (b\<lparr>brPeer := p\<rparr>)))
      else if Type env = TypeSignalAnswer then
        (if brSide b \<noteq> SidePC then (Some (ErrNew ''only pc bridge can process SIGNAL_ANSWER''), b)
         else case DecodePayload env SignalAnswerPayload_unjson of
           Inl err \<Rightarrow> (Some (ErrWrap ''decode signal answer payload: '' err []), b)
         | Inr payload \<Rightarrow>
             (case ApplyAnswer L (saSDP payload) (brPeer b) of
                (Some err, p) \<Rightarrow> (Some (ErrWrap ''apply answer: '' err []), b\<lparr>brPeer := p\<rparr>)
              | (None, p) \<Rightarrow> (None, b\<lparr>brPeer := p\<rparr>)))
      else if Type env = TypeSignalICE then
        (case DecodePayload env SignalICEPayload_unjson of
           Inl err \<Rightarrow> (Some (ErrWrap ''decode signal ice payload: '' err []), b)
         | Inr payload \<Rightarrow>
             (case AddRemoteICECandidate L payload (brPeer b) of
                (Some err, p) \<Rightarrow> (Some (ErrWrap ''add remote ice candidate: '' err []), b\<lparr>brPeer := p\<rparr>)
              | (None, p) \<Rightarrow> (None, b\<lparr>brPeer := p\<rparr>)))
      else if Type env = TypeCmdAck then (None, b)
      else (Some (ErrNew (''unsupported signaling envelope type: '' @ Type env)), b))"

text \<open>The three cases of the \<open>select\<close> in \<open>Run\<close>.\<close>

datatype run_case = RunInbound | RunCandidate | RunDone

definition bridge_Run_turn :: "'p Pion \<Rightarrow> instant \<Rightarrow> instant \<Rightarrow> run_case \<Rightarrow> 'p SignalBridge \<Rightarrow> 'p SignalBridge option" where
  "bridge_Run_turn L now now' rc b =
     (case rc of
        RunInbound \<Rightarrow>
          (case brInbound b of
             [] \<Rightarrow> None
           | env # rest \<Rightarrow>
               (case ProcessEnvelope L now now' env (b\<lparr>brInbound := rest\<rparr>) of (err, b) \<Rightarrow> Some (reportError err b)))
      | RunCandidate \<Rightarrow>
          (case localCandidates (brPeer b) of
             [] \<Rightarrow> None
           | candidate # rest \<Rightarrow>
               let b = b\<lparr>brPeer := (brPeer b)\<lparr>localCandidates := rest\<rparr>\<rparr>
               in if siCandidate candidate = [] then Some b
                  else case emit now now' TypeSignalICE
                         (SignalICEPayload_json \<lparr>siCandidate = siCandidate candidate, siSDPMid = siSDPMid candidate,
                            siSDPMLineIndex = siSDPMLineIndex candidate\<rparr>) b of
                       (err, b) \<Rightarrow> Some (reportError err b))
      | RunDone \<Rightarrow> Some (b\<lparr>brClosed := True\<rparr>))"

section \<open>Runs\<close>

text \<open>
  A state of a run: the bridge and what the readers of \<open>Outbound()\<close> and \<open>Errors()\<close> have taken. The
  callback of a candidate has a line index of Go type \<open>uint16\<close>.
\<close>

record 'p bridge_run =
  runBridge :: "'p SignalBridge"
  runTaken :: "Envelope list"
  runReturned :: bool

definition ice_init_ok :: "ICECandidateInit \<Rightarrow> bool" where
  "ice_init_ok c \<longleftrightarrow> (case iceSDPMLineIndex c of None \<Rightarrow> True | Some l \<Rightarrow> 0 \<le> l \<and> l < 2 ^ 16)"

definition onBridge :: "('p SignalBridge \<Rightarrow> 'p SignalBridge) \<Rightarrow> 'p bridge_run \<Rightarrow> 'p bridge_run" where
  "onBridge f r = r\<lparr>runBridge := f (runBridge r)\<rparr>"

definition onPeer :: "('p Peer \<Rightarrow> 'p Peer) \<Rightarrow> 'p bridge_run \<Rightarrow> 'p bridge_run" where
  "onPeer f = onBridge (\<lambda>b. b\<lparr>brPeer := f (brPeer b)\<rparr>)"

definition bridge_init :: "'p Pion \<Rightarrow> 'p bridge_run \<Rightarrow> bool" where
  "bridge_init L r \<longleftrightarrow> (\<exists>sid peer cfg conn. cfgSide cfg \<in> {SidePC, SideMobile} \<and> NewPeer L cfg conn = Inr peer \<and>
     NewSignalBridge sid (cfgSide cfg) (Some peer) = Inr (runBridge r)) \<and>
     runTaken r = [] \<and> \<not> runReturned r"

inductive bridge_step :: "'p Pion \<Rightarrow> 'p bridge_run \<Rightarrow> 'p bridge_run \<Rightarrow> bool" for L where
  step_inbound: "bridge_step L r (onBridge (\<lambda>b. snd (InboundEnvelope env b)) r)"
| step_turn: "\<not> runReturned r \<Longrightarrow> bridge_Run_turn L now now' rc (runBridge r) = Some b \<Longrightarrow>
    bridge_step L r (r\<lparr>runBridge := b, runReturned := (rc = RunDone)\<rparr>)"
| step_offer: "bridge_step L r (onBridge (\<lambda>b. snd (StartOffer L now now' b)) r)"
| step_take: "brOutbound (runBridge r) = e # es \<Longrightarrow>
    bridge_step L r (r\<lparr>runBridge := (runBridge r)\<lparr>brOutbound := es\<rparr>, runTaken := runTaken r @ [e]\<rparr>)"
| step_error: "brErrors (runBridge r) = e # es \<Longrightarrow> bridge_step L r (onBridge (brErrors_update (\<lambda>_. es)) r)"
| step_candidate: "ice_init_ok c \<Longrightarrow> bridge_step L r (onPeer (onICECandidate (Some c)) r)"
| step_state: "bridge_step L r (onPeer (onConnectionStateChange st) r)"
| step_channel: "bridge_step L r (onPeer onDataChannel r)"
| step_open: "bridge_step L r (onPeer onOpen r)"
| step_shut: "bridge_step L r (onPeer onClose r)"
| step_message: "bridge_step L r (onPeer (onMessage m) r)"
| step_send: "bridge_step L r (onPeer (\<lambda>p. snd (Peer_Send L d p)) r)"
| step_close: "bridge_step L r (onPeer (\<lambda>p. snd (Peer_Close L p)) r)"

text \<open>Everything the bridge has put on its outbound channel, in order.\<close>

definition run_sent :: "'p bridge_run \<Rightarrow> Envelope list" where
  "run_sent r = runTaken r @ brOutbound (runBridge r)"

definition candidate_ok :: "SignalICEPayload \<Rightarrow> bool" where
  "candidate_ok c \<longleftrightarrow> 0 \<le> siSDPMLineIndex c \<and> siSDPMLineIndex c < 2 ^ 16"

text \<open>What holds of an envelope that the bridge of the given session and side has sent.\<close>

definition signal_ok :: "string \<Rightarrow> Side \<Rightarrow> Envelope \<Rightarrow> bool" where
  "signal_ok sid side e \<longleftrightarrow> Envelope_Validate e = None \<and> validateSignalEnvelope sid side e = None"

text \<open>
  What the bridge relies on in the library: a local description, once there is one, has text.
\<close>

definition pion_sdp_ok :: "'p Pion \<Rightarrow> bool" where
  "pion_sdp_ok L \<longleftrightarrow> (\<forall>c. pionLocalDescription L c \<noteq> Some [])"

definition offers :: "Envelope list \<Rightarrow> nat" where
  "offers es = length (filter (\<lambda>e. Type e = TypeSignalOffer) es)"

definition sent_ok :: "string \<Rightarrow> Side \<Rightarrow> Envelope list \<Rightarrow> bool" where
  "sent_ok sid side es \<longleftrightarrow> (\<forall>e \<in> set es. signal_ok sid side e) \<and> sorted_wrt (\<lambda>e e'. Seq e < Seq e') es \<and> offers es \<le> 1"

definition bridge_inv :: "'p Pion \<Rightarrow> 'p bridge_run \<Rightarrow> bool" where
  "bridge_inv L r \<longleftrightarrow>
     (let b = runBridge r in
      brSide b = cfgSide (peerCfg (brPeer b)) \<and> brSide b \<in> {SidePC, SideMobile} \<and> peer_queues_ok (brPeer b) \<and>
      (\<forall>c \<in> set (localCandidates (brPeer b)). candidate_ok c) \<and>
      length (brInbound b) \<le> 256 \<and> length (brOutbound b) \<le> 256 \<and> length (brErrors b) \<le> 128 \<and>
      (\<forall>e \<in> set (run_sent r). Seq e \<le> brSeq b) \<and>
      (pion_sdp_ok L \<longrightarrow> sent_ok (brSessionID b) (brSide b) (run_sent r)) \<and>
      offers (run_sent r) \<le> of_bool (brOfferStarted b))"

text \<open>What one operation of the bridge adds to its outbound channel.\<close>

definition bridge_adds :: "'p Pion \<Rightarrow> 'p SignalBridge \<Rightarrow> 'p SignalBridge \<Rightarrow> bool" where
  "bridge_adds L b b' \<longleftrightarrow>
     brSessionID b' = brSessionID b \<and> brSide b' = brSide b \<and> same_peer (brPeer b) (brPeer b') \<and>
     brInbound b' = brInbound b \<and> brErrors b' = brErrors b \<and> brClosed b' = brClosed b \<and> brSeq b \<le> brSeq b' \<and>
     (length (brOutbound b) \<le> 256 \<longrightarrow> length (brOutbound b') \<le> 256) \<and>
     (brOfferStarted b \<longrightarrow> brOfferStarted b') \<and>
     (brOutbound b' = brOutbound b \<or>
      (\<exists>e. brOutbound b' = brOutbound b @ [e] \<and> brSeq b < Seq e \<and> Seq e \<le> brSeq b' \<and>
         (Type e = TypeSignalOffer \<longrightarrow> \<not> brOfferStarted b \<and> brOfferStarted b') \<and>
         (pion_sdp_ok L \<longrightarrow> signal_ok (brSessionID b) (brSide b) e)))"

section \<open>Lemmas\<close>

lemma toValidUTF8_eq_Nil [simp]: "toValidUTF8 s = [] \<longleftrightarrow> s = []"
proof (cases s)
  case (Cons a t)
  then show ?thesis
    by (cases "utf8_width (a # t)") (simp_all add: toValidUTF8.simps(2))
qed simp

lemma signal_payloads:
  "SignalOfferPayload_unjson (SignalOfferPayload_json \<lparr>soSDP = sdp\<rparr>) = Inr \<lparr>soSDP = toValidUTF8 sdp\<rparr>"
  "SignalAnswerPayload_unjson (SignalAnswerPayload_json \<lparr>saSDP = sdp\<rparr>) = Inr \<lparr>saSDP = toValidUTF8 sdp\<rparr>"
  by (simp_all add: SignalOfferPayload_unjson_def SignalOfferPayload_json_def SignalOfferPayload_names_def
      SignalOfferPayload_put_def zero_SignalOfferPayload_def SignalAnswerPayload_unjson_def SignalAnswerPayload_json_def
      SignalAnswerPayload_names_def SignalAnswerPayload_put_def zero_SignalAnswerPayload_def json_codec
      decode_string_def enc_string_def)

lemma ice_payload:
  assumes "candidate_ok c"
  shows "SignalICEPayload_unjson (SignalICEPayload_json c) =
    Inr \<lparr>siCandidate = toValidUTF8 (siCandidate c), siSDPMid = toValidUTF8 (siSDPMid c), siSDPMLineIndex = siSDPMLineIndex c\<rparr>"
  using assms by (simp add: SignalICEPayload_unjson_def SignalICEPayload_json_def SignalICEPayload_names_def
      SignalICEPayload_put_def zero_SignalICEPayload_def json_codec decode_string_def enc_string_def candidate_ok_def
      decode_int_def minInt64_def maxInt64_def)

text \<open>\<open>emit\<close> adds one envelope when the channel has room, and the server accepts it.\<close>

lemma emit_cases:
  obtains (full) err where "emit now now' typ payload b = (Some err, b\<lparr>brSeq := brSeq b + 1\<rparr>)"
  | (put) env where "emit now now' typ payload b = (None, b\<lparr>brSeq := brSeq b + 1, brOutbound := brOutbound b @ [env]\<rparr>)"
      "length (brOutbound b) < 256"
      "env = \<lparr>SID = brSessionID b, RID = ''bridge_'' @ typ @ ''_'' @ Itoa (UnixNano now), Seq = brSeq b + 1,
              TS = UnixMilli now', Type = typ, Payload = Some payload\<rparr>" "Envelope_Validate env = None"
proof (cases "NewEnvelope now' (brSessionID b) (''bridge_'' @ typ @ ''_'' @ Itoa (UnixNano now)) (brSeq b + 1) typ (Inr payload)")
  case (Inl err)
  then show ?thesis by (intro full) (simp add: emit_def)
next
  case (Inr env)
  show ?thesis
  proof (cases "length (brOutbound b) < 256")
    case True
    with Inr have "emit now now' typ payload b = (None, b\<lparr>brSeq := brSeq b + 1, brOutbound := brOutbound b @ [env]\<rparr>)"
      by (simp add: emit_def)
    then show ?thesis
      by (rule put) (use True Inr in \<open>auto simp: NewEnvelope_Inr_iff Validate_None_iff\<close>)
  next
    case False
    with Inr show ?thesis by (intro full) (simp add: emit_def)
  qed
qed

lemma same_peer_refl [simp]: "same_peer p p"
  by (simp add: same_peer_def)

lemma bridge_adds_refl [simp]: "bridge_adds L b b"
  by (simp add: bridge_adds_def)

lemma emit_adds:
  assumes "typ = TypeSignalOffer \<longrightarrow> \<not> brOfferStarted b0 \<and> brOfferStarted b" "brOfferStarted b0 \<longrightarrow> brOfferStarted b"
    and "\<And>env :: Envelope. pion_sdp_ok L \<Longrightarrow> SID env = brSessionID b0 \<Longrightarrow> Type env = typ \<Longrightarrow> Payload env = Some payload \<Longrightarrow>
      validateSignalEnvelope (brSessionID b0) (brSide b0) env = None"
    and "b = b0\<lparr>brOfferStarted := st, brPeer := p\<rparr>" "same_peer (brPeer b0) p"
  shows "bridge_adds L b0 (snd (emit now now' typ payload b))"
proof (cases rule: emit_cases [of now now' "typ" payload b])
  case (full err)
  with assms(2,4,5) show ?thesis by (simp add: bridge_adds_def)
next
  case (put env)
  with assms show ?thesis by (auto simp: bridge_adds_def signal_ok_def)
qed

text \<open>A description that the peer hands out has text.\<close>

lemma described:
  "pion_sdp_ok L \<Longrightarrow> CreateOffer L p = (Inr sdp, p') \<Longrightarrow> sdp \<noteq> []"
  "pion_sdp_ok L \<Longrightarrow> ApplyOfferAndCreateAnswer L o' p = (Inr sdp, p') \<Longrightarrow> sdp \<noteq> []"
  by (auto simp: peer_ops pion_sdp_ok_def split: if_splits prod.splits sum.splits option.splits bool.splits)

lemma StartOffer_adds: "bridge_adds L b (snd (StartOffer L now now' b))"
proof (cases "brSide b = SidePC \<and> \<not> brOfferStarted b")
  case True
  obtain r p where r: "CreateOffer L (brPeer b) = (r, p)" by fastforce
  have p: "same_peer (brPeer b) p" using same_peer_ops(1) [of "brPeer b" L] r by simp
  show ?thesis
  proof (cases r)
    case (Inl err)
    with True r p show ?thesis by (simp add: StartOffer_def bridge_adds_def)
  next
    case (Inr sdp)
    have "bridge_adds L b (snd (emit now now' TypeSignalOffer (SignalOfferPayload_json \<lparr>soSDP = sdp\<rparr>)
      (b\<lparr>brOfferStarted := True, brPeer := p\<rparr>)))"
    proof (rule emit_adds)
      fix env :: Envelope
      assume "pion_sdp_ok L" "SID env = brSessionID b" "Type env = TypeSignalOffer"
        "Payload env = Some (SignalOfferPayload_json \<lparr>soSDP = sdp\<rparr>)"
      then show "validateSignalEnvelope (brSessionID b) (brSide b) env = None"
        using True described(1) [of L "brPeer b" sdp p] r Inr
        by (simp add: validateSignalEnvelope_def validateSignalType_def DecodePayload_def signal_payloads)
    qed (use True p in auto)
    with True r Inr show ?thesis by (simp add: StartOffer_def)
  qed
qed (auto simp: StartOffer_def)

lemma adds_cases:
  "(c \<Longrightarrow> bridge_adds L b (snd x)) \<Longrightarrow> (\<not> c \<Longrightarrow> bridge_adds L b (snd y)) \<Longrightarrow> bridge_adds L b (snd (if c then x else y))"
  "(\<And>e. r = Inl e \<Longrightarrow> bridge_adds L b (snd (f e))) \<Longrightarrow> (\<And>v. r = Inr v \<Longrightarrow> bridge_adds L b (snd (g v))) \<Longrightarrow>
     bridge_adds L b (snd (case_sum f g r))"
  "(q = None \<Longrightarrow> bridge_adds L b (snd x)) \<Longrightarrow> (\<And>v. q = Some v \<Longrightarrow> bridge_adds L b (snd (h v))) \<Longrightarrow>
     bridge_adds L b (snd (case_option x h q))"
  "(\<And>v w. z = (v, w) \<Longrightarrow> bridge_adds L b (snd (k v w))) \<Longrightarrow> bridge_adds L b (snd (case_prod k z))"
  by (simp_all split: sum.split option.split prod.split)

lemma ProcessEnvelope_adds: "bridge_adds L b (snd (ProcessEnvelope L now now' env b))"
proof -
  have offer: "bridge_adds L b (snd (emit now now' TypeSignalAnswer (SignalAnswerPayload_json \<lparr>saSDP = sdp\<rparr>) (b\<lparr>brPeer := p\<rparr>)))"
    if "ApplyOfferAndCreateAnswer L o' (brPeer b) = (Inr sdp, p)" "brSide b = SideMobile" for o' sdp p
  proof (rule emit_adds [where st = "brOfferStarted b" and p = p])
    fix env :: Envelope
    assume "pion_sdp_ok L" "SID env = brSessionID b" "Type env = TypeSignalAnswer"
      "Payload env = Some (SignalAnswerPayload_json \<lparr>saSDP = sdp\<rparr>)"
    then show "validateSignalEnvelope (brSessionID b) (brSide b) env = None"
      using that described(2) [of L o' "brPeer b" sdp p]
      by (simp add: validateSignalEnvelope_def validateSignalType_def DecodePayload_def signal_payloads)
  qed (use that same_peer_ops(2) [of "brPeer b" L o'] in auto)
  have keep: "bridge_adds L b (b\<lparr>brPeer := p\<rparr>)"
    if "ApplyOfferAndCreateAnswer L sdp (brPeer b) = (r, p) \<or> ApplyAnswer L sdp (brPeer b) = (r', p) \<or>
        AddRemoteICECandidate L ice (brPeer b) = (r', p)" for p sdp ice r r'
    using that same_peer_ops(2,3) [of "brPeer b" L sdp] same_peer_ops(4) [of "brPeer b" L ice]
    by (auto simp: bridge_adds_def)
  show ?thesis
    unfolding ProcessEnvelope_def
    by (intro adds_cases) (auto intro: StartOffer_adds offer keep)
qed

lemma offers_append [simp]: "offers (xs @ ys) = offers xs + offers ys"
  by (simp add: offers_def)

lemma offers_single: "offers [e] = of_bool (Type e = TypeSignalOffer)"
  by (simp add: offers_def)

lemma adds_frame:
  assumes "bridge_adds L b b'"
  shows "brSessionID b' = brSessionID b" "brSide b' = brSide b" "peerCfg (brPeer b') = peerCfg (brPeer b)"
    "peer_queues_ok (brPeer b') = peer_queues_ok (brPeer b)" "localCandidates (brPeer b') = localCandidates (brPeer b)"
    "brInbound b' = brInbound b" "brErrors b' = brErrors b" "brSeq b \<le> brSeq b'"
    "length (brOutbound b) \<le> 256 \<Longrightarrow> length (brOutbound b') \<le> 256" "brOfferStarted b \<Longrightarrow> brOfferStarted b'"
  using assms same_peer_queues [of "brPeer b" "brPeer b'"] by (simp_all add: bridge_adds_def same_peer_def)

lemma inv_offers: "bridge_inv L r \<Longrightarrow> offers (run_sent r) \<le> of_bool (brOfferStarted (runBridge r))"
  by (simp add: bridge_inv_def Let_def)

lemma inv_adds:
  assumes inv: "bridge_inv L r" and adds: "bridge_adds L (runBridge r) b'"
  shows "bridge_inv L (r\<lparr>runBridge := b'\<rparr>)"
proof (cases "brOutbound b' = brOutbound (runBridge r)")
  case True
  then have sent: "run_sent (r\<lparr>runBridge := b'\<rparr>) = run_sent r" by (simp add: run_sent_def)
  have "\<forall>e \<in> set (run_sent r). Seq e \<le> brSeq b'"
    using inv adds_frame(8) [OF adds] by (fastforce simp: bridge_inv_def Let_def)
  moreover have "offers (run_sent r) \<le> of_bool (brOfferStarted b')"
    using inv_offers [OF inv] adds_frame(10) [OF adds] by (cases "brOfferStarted (runBridge r)") simp_all
  ultimately show ?thesis
    using inv adds_frame(9) [OF adds] by (auto simp: bridge_inv_def Let_def sent adds_frame(1-7) [OF adds])
next
  case False
  with adds obtain e where e: "brOutbound b' = brOutbound (runBridge r) @ [e]" "brSeq (runBridge r) < Seq e" "Seq e \<le> brSeq b'"
    "Type e = TypeSignalOffer \<longrightarrow> \<not> brOfferStarted (runBridge r) \<and> brOfferStarted b'"
    "pion_sdp_ok L \<longrightarrow> signal_ok (brSessionID (runBridge r)) (brSide (runBridge r)) e"
    by (auto simp: bridge_adds_def)
  then have sent: "run_sent (r\<lparr>runBridge := b'\<rparr>) = run_sent r @ [e]" by (simp add: run_sent_def)
  have lt: "\<forall>e' \<in> set (run_sent r). Seq e' < Seq e"
    using inv e(2) by (auto simp: bridge_inv_def Let_def)
  have le: "\<forall>e' \<in> set (run_sent r @ [e]). Seq e' \<le> brSeq b'"
    using lt e(3) by fastforce
  have off: "offers (run_sent r @ [e]) \<le> of_bool (brOfferStarted b')"
    using inv_offers [OF inv] e(4) adds_frame(10) [OF adds]
    by (cases "brOfferStarted (runBridge r)") (auto simp: offers_single)
  then have one: "offers (run_sent r @ [e]) \<le> 1"
    by (rule order_trans) simp
  have "pion_sdp_ok L \<longrightarrow> sent_ok (brSessionID (runBridge r)) (brSide (runBridge r)) (run_sent r @ [e])"
    using inv e(5) lt one by (auto simp: bridge_inv_def sent_ok_def sorted_wrt_append Let_def)
  then show ?thesis
    using inv le off adds_frame(9) [OF adds] by (auto simp: bridge_inv_def Let_def sent adds_frame(1-7) [OF adds])
qed

lemma inv_frame:
  assumes "bridge_inv L r" "brSessionID b' = brSessionID (runBridge r)" "brSide b' = brSide (runBridge r)"
    "peerCfg (brPeer b') = peerCfg (brPeer (runBridge r))" "peer_queues_ok (brPeer b')"
    "\<forall>c \<in> set (localCandidates (brPeer b')). candidate_ok c" "length (brInbound b') \<le> 256"
    "brOutbound b' = brOutbound (runBridge r)" "length (brErrors b') \<le> 128" "brSeq b' = brSeq (runBridge r)"
    "brOfferStarted b' = brOfferStarted (runBridge r)"
  shows "bridge_inv L (r\<lparr>runBridge := b'\<rparr>)"
  using assms by (auto simp: bridge_inv_def run_sent_def Let_def)

lemma inv_returned [simp]: "bridge_inv L (r\<lparr>runReturned := x\<rparr>) = bridge_inv L r"
  by (simp add: bridge_inv_def run_sent_def)

lemma inv_reportError: "bridge_inv L r \<Longrightarrow> bridge_inv L (r\<lparr>runBridge := reportError err (runBridge r)\<rparr>)"
  by (rule inv_frame) (auto simp: reportError_def bridge_inv_def Let_def try_put_bound split: option.split)

text \<open>A callback of the peer that keeps its configuration and its queues well formed keeps the invariant.\<close>

lemma inv_onPeer:
  assumes "bridge_inv L r" "\<And>p. peer_queues_ok p \<Longrightarrow> peer_queues_ok (f p)" "\<And>p. peerCfg (f p) = peerCfg p"
    "\<And>p. \<forall>c \<in> set (localCandidates p). candidate_ok c \<Longrightarrow> \<forall>c \<in> set (localCandidates (f p)). candidate_ok c"
  shows "bridge_inv L (onPeer f r)"
  unfolding onPeer_def onBridge_def
  by (rule inv_frame) (use assms in \<open>auto simp: bridge_inv_def Let_def\<close>)

lemma onICECandidate_ok:
  assumes "ice_init_ok c" "\<forall>x \<in> set (localCandidates p). candidate_ok x"
  shows "\<forall>x \<in> set (localCandidates (onICECandidate (Some c) p)). candidate_ok x"
proof -
  have "candidate_ok (toSignalICEPayload c)"
    using assms(1) by (auto simp: ice_init_ok_def candidate_ok_def toSignalICEPayload_def split: option.splits)
  then show ?thesis
    using assms(2) try_put_set [of 128 "toSignalICEPayload c" "localCandidates p"]
    by (auto simp: onICECandidate_def split: if_splits)
qed

lemma emit_candidate_adds:
  assumes "candidate_ok c" "siCandidate c \<noteq> []" "brSide b \<in> {SidePC, SideMobile}"
  shows "bridge_adds L b (snd (emit now now' TypeSignalICE (SignalICEPayload_json c) b))"
proof (rule emit_adds [where st = "brOfferStarted b" and p = "brPeer b"])
  fix env :: Envelope
  assume "SID env = brSessionID b" "Type env = TypeSignalICE" "Payload env = Some (SignalICEPayload_json c)"
  then show "validateSignalEnvelope (brSessionID b) (brSide b) env = None"
    using assms by (auto simp: validateSignalEnvelope_def validateSignalType_def DecodePayload_def ice_payload)
qed simp_all

lemma Run_turn_inv:
  assumes inv: "bridge_inv L r" and turn: "bridge_Run_turn L now now' rc (runBridge r) = Some b'"
  shows "bridge_inv L (r\<lparr>runBridge := b'\<rparr>)"
proof (cases rc)
  case RunInbound
  with turn obtain env rest where q: "brInbound (runBridge r) = env # rest"
    by (auto simp: bridge_Run_turn_def split: list.splits)
  let ?b = "(runBridge r)\<lparr>brInbound := rest\<rparr>"
  obtain err b1 where b1: "ProcessEnvelope L now now' env ?b = (err, b1)" by fastforce
  have "bridge_inv L (r\<lparr>runBridge := ?b\<rparr>)"
    by (rule inv_frame [OF inv]) (use inv q in \<open>auto simp: bridge_inv_def Let_def\<close>)
  then have "bridge_inv L (r\<lparr>runBridge := b1\<rparr>)"
    using inv_adds [of L "r\<lparr>runBridge := ?b\<rparr>" b1] ProcessEnvelope_adds [of L ?b now now' env] b1 by simp
  from inv_reportError [OF this, of err] show ?thesis
    using turn RunInbound q b1 by (simp add: bridge_Run_turn_def)
next
  case RunCandidate
  with turn obtain c rest where q: "localCandidates (brPeer (runBridge r)) = c # rest"
    by (auto simp: bridge_Run_turn_def split: list.splits)
  let ?b = "(runBridge r)\<lparr>brPeer := (brPeer (runBridge r))\<lparr>localCandidates := rest\<rparr>\<rparr>"
  obtain err b1 where b1: "emit now now' TypeSignalICE (SignalICEPayload_json c) ?b = (err, b1)" by fastforce
  have c: "candidate_ok c" "brSide ?b \<in> {SidePC, SideMobile}"
    using inv q by (auto simp: bridge_inv_def Let_def)
  have b: "bridge_inv L (r\<lparr>runBridge := ?b\<rparr>)"
    by (rule inv_frame [OF inv]) (use inv q in \<open>auto simp: bridge_inv_def Let_def peer_queues_ok_def\<close>)
  then have "bridge_inv L (r\<lparr>runBridge := b1\<rparr>)" if "siCandidate c \<noteq> []"
    using inv_adds [of L "r\<lparr>runBridge := ?b\<rparr>" b1] emit_candidate_adds [OF c(1) that c(2), of L now now'] b1 by simp
  then show ?thesis
    using inv_reportError [of L "r\<lparr>runBridge := b1\<rparr>" err] b turn RunCandidate q b1 by (cases c) (auto simp: bridge_Run_turn_def Let_def split: if_splits)
next
  case RunDone
  have "bridge_inv L (r\<lparr>runBridge := (runBridge r)\<lparr>brClosed := True\<rparr>\<rparr>)"
    by (rule inv_frame [OF inv]) (use inv in \<open>auto simp: bridge_inv_def Let_def\<close>)
  with turn RunDone show ?thesis by (simp add: bridge_Run_turn_def)
qed

lemma bridge_step_inv:
  assumes "bridge_inv L r" "bridge_step L r r'"
  shows "bridge_inv L r'"
  using assms(2)
proof cases
  case (step_inbound env)
  have "bridge_inv L (r\<lparr>runBridge := snd (InboundEnvelope env (runBridge r))\<rparr>)"
    by (rule inv_frame [OF assms(1)]) (use assms(1) in \<open>auto simp: InboundEnvelope_def bridge_inv_def Let_def\<close>)
  with step_inbound show ?thesis by (simp add: onBridge_def)
next
  case (step_turn now now' rc b)
  with Run_turn_inv [OF assms(1)] have "bridge_inv L (r\<lparr>runBridge := b\<rparr>)" by blast
  then show ?thesis by (simp add: step_turn(1))
next
  case (step_offer now now')
  then show ?thesis using inv_adds [OF assms(1) StartOffer_adds] by (simp add: onBridge_def)
next
  case (step_take e es)
  have "run_sent r' = run_sent r" using step_take by (simp add: run_sent_def)
  with step_take assms(1) show ?thesis by (auto simp: bridge_inv_def Let_def)
next
  case (step_error e es)
  have "bridge_inv L (r\<lparr>runBridge := (runBridge r)\<lparr>brErrors := es\<rparr>\<rparr>)"
    by (rule inv_frame [OF assms(1)]) (use assms(1) step_error in \<open>auto simp: bridge_inv_def Let_def\<close>)
  with step_error show ?thesis by (simp add: onBridge_def)
next
  case (step_candidate c)
  show ?thesis unfolding step_candidate(1)
  proof (rule inv_onPeer [OF assms(1)])
    show "\<forall>x \<in> set (localCandidates (onICECandidate (Some c) p)). candidate_ok x"
      if "\<forall>x \<in> set (localCandidates p). candidate_ok x" for p :: "'a Peer"
      using step_candidate(2) that by (rule onICECandidate_ok)
  qed (simp_all add: peer_queues_callbacks, simp add: onICECandidate_def)
qed (auto intro!: inv_onPeer [OF assms(1)] simp: peer_queues_callbacks onConnectionStateChange_def onDataChannel_def
    bindDataChannel_def onOpen_def onClose_def onMessage_def Peer_Send_def Peer_Close_def Let_def
    peer_queues_ok_def try_put_bound split: prod.splits option.splits if_splits)

lemma NewPeer_props:
  assumes "NewPeer L cfg conn = Inr p"
  shows "cfgSide (peerCfg p) = cfgSide cfg" "peer_queues_ok p" "localCandidates p = []" "\<not> peerClosed p"
  using assms by (auto simp: NewPeer_def bindDataChannel_def peer_queues_ok_def Let_def
      split: if_splits sum.splits prod.splits option.splits)

interpretation bridge: inductive_invariant "bridge_init L" "bridge_step L" "bridge_inv L" for L
proof (unfold_locales, goal_cases)
  case (1 r)
  then obtain sid peer cfg conn where "cfgSide cfg \<in> {SidePC, SideMobile}" "NewPeer L cfg conn = Inr peer"
    "NewSignalBridge sid (cfgSide cfg) (Some peer) = Inr (runBridge r)" "runTaken r = []"
    by (auto simp: bridge_init_def)
  moreover then have "runBridge r = \<lparr>brSessionID = sid, brSide = cfgSide cfg, brPeer = peer, brInbound = [], brOutbound = [],
                          brErrors = [], brSeq = 0, brOfferStarted = False, brClosed = False\<rparr>"
    by (auto simp: NewSignalBridge_def split: if_splits)
  ultimately show ?case
    using NewPeer_props [of L cfg conn peer]
    by (auto simp: bridge_inv_def run_sent_def sent_ok_def offers_def)
next
  case (2 r r')
  then show ?case by (rule bridge_step_inv)
qed

section \<open>Properties\<close>


text \<open>A library that always succeeds, whose state is its local description, and a run of it.\<close>

definition ex_pion :: "(string option) Pion" where
  "ex_pion = \<lparr>pionCreateDataChannel = (\<lambda>_ s. (None, s)), pionCreateOffer = (\<lambda>s. (Inr ''v=0 offer'', s)),
     pionCreateAnswer = (\<lambda>s. (Inr ''v=0 answer'', s)), pionSetLocalDescription = (\<lambda>d s. (None, Some (''v=0'' @ d))),
     pionSetRemoteDescription = (\<lambda>_ _ s. (None, s)), pionLocalDescription = (\<lambda>s. case s of Some [] \<Rightarrow> None | _ \<Rightarrow> s),
     pionGathered = (\<lambda>_ s. (True, s)), pionAddICECandidate = (\<lambda>_ _ _ s. (None, s)), pionSend = (\<lambda>_ s. (None, s)),
     pionClose = (\<lambda>s. (None, s))\<rparr>"

definition ex_peer :: "Side \<Rightarrow> (string option) Peer" where
  "ex_peer side = \<lparr>peerCfg = webrtc_DefaultConfig side, peerConn = None, peerHasDC = (side = SidePC), peerClosed = False,
     peerDcReady = False, localCandidates = [], peerMessages = [], peerStates = []\<rparr>"

definition ex_bridge :: "Side \<Rightarrow> (string option) SignalBridge" where
  "ex_bridge side = \<lparr>brSessionID = ''s1'', brSide = side, brPeer = ex_peer side, brInbound = [], brOutbound = [],
     brErrors = [], brSeq = 0, brOfferStarted = False, brClosed = False\<rparr>"





lemma emit_ok:
  assumes "brSessionID b \<noteq> []" "0 \<le> brSeq b" "length (brOutbound b) < 256" "Millisecond \<le> now'" "typ \<noteq> []"
  shows "emit now now' typ payload b =
    (None, b\<lparr>brSeq := brSeq b + 1, brOutbound := brOutbound b @
       [\<lparr>SID = brSessionID b, RID = ''bridge_'' @ typ @ ''_'' @ Itoa (UnixNano now), Seq = brSeq b + 1, TS = UnixMilli now',
         Type = typ, Payload = Some payload\<rparr>]\<rparr>)"
  using assms UnixMilli_pos [OF assms(4)] by (simp add: emit_def NewEnvelope_ok)

text \<open>
  The negotiation between the two ends. When the signalling server tells the PC's bridge that
  its peer is connected, and the WebRTC library makes an offer, makes an answer for exactly that
  offer and accepts exactly that answer, then the PC's bridge sends one envelope, the mobile
  bridge answers it with one envelope, the PC's bridge takes it without error, and both peers are
  left in the states that the library calls give.
\<close>

theorem offer_answer_exchange:
  assumes "brSide pc = SidePC" "brSide mob = SideMobile" "brSessionID pc = sid" "brSessionID mob = sid" "sid \<noteq> []"
    "0 \<le> brSeq pc" "0 \<le> brSeq mob" "length (brOutbound pc) < 256" "length (brOutbound mob) < 256"
    "\<not> brOfferStarted pc" "Millisecond \<le> now"
    "buildSignalReadyEnvelope now now now now sid RoleMobile = Inr ready" "now \<le> maxInt64"
    "CreateOffer L (brPeer pc) = (Inr offer, p1)" "valid_utf8 offer"
    "ApplyOfferAndCreateAnswer L' offer (brPeer mob) = (Inr answer, m1)" "valid_utf8 answer"
    "ApplyAnswer L answer p1 = (None, p2)"
  shows "\<exists>o' a pc1 mob1 pc2. ProcessEnvelope L now now ready pc = (None, pc1) \<and> brOutbound pc1 = brOutbound pc @ [o'] \<and>
    ProcessEnvelope L' now now o' mob = (None, mob1) \<and> brOutbound mob1 = brOutbound mob @ [a] \<and>
    ProcessEnvelope L now now a pc1 = (None, pc2) \<and> brPeer pc2 = p2 \<and> brPeer mob1 = m1"
proof -
  have "minInt64 \<le> UnixMilli now" "UnixMilli now \<le> maxInt64"
    using assms(11,13) by (simp_all add: UnixMilli_def Millisecond_def minInt64_def maxInt64_def)
  moreover have "valid_utf8 RoleMobile" by code_simp
  ultimately have ready: "SID ready = sid" "Type ready = TypeSignalReady"
    "DecodePayload ready SignalReadyPayload_unjson = Inr \<lparr>srRole = RoleMobile, srPeerConnected = True, srTimestamp = UnixMilli now\<rparr>"
    using assms(12) by (auto simp: buildSignalReadyEnvelope_def NewEnvelope_Inr_iff DecodePayload_def
        SignalReadyPayload_dec_enc SignalReadyPayload_ok_def)
  define pc1 where "pc1 = snd (emit now now TypeSignalOffer (SignalOfferPayload_json \<lparr>soSDP = offer\<rparr>)
    (pc\<lparr>brOfferStarted := True, brPeer := p1\<rparr>))"
  define mob1 where "mob1 = snd (emit now now TypeSignalAnswer (SignalAnswerPayload_json \<lparr>saSDP = answer\<rparr>) (mob\<lparr>brPeer := m1\<rparr>))"
  note e1 = emit_ok [of "pc\<lparr>brOfferStarted := True, brPeer := p1\<rparr>" now TypeSignalOffer now]
  note e2 = emit_ok [of "mob\<lparr>brPeer := m1\<rparr>" now TypeSignalAnswer now]
  have pc1: "ProcessEnvelope L now now ready pc = (None, pc1)"
    using assms e1 ready by (simp add: ProcessEnvelope_def StartOffer_def pc1_def)
  obtain o' where o': "brOutbound pc1 = brOutbound pc @ [o']" "SID o' = sid" "Type o' = TypeSignalOffer"
    "DecodePayload o' SignalOfferPayload_unjson = Inr \<lparr>soSDP = offer\<rparr>"
    using assms e1 by (simp add: pc1_def DecodePayload_def signal_payloads toValidUTF8_id)
  have mob1: "ProcessEnvelope L' now now o' mob = (None, mob1)"
    using assms e2 o' by (simp add: ProcessEnvelope_def mob1_def)
  obtain a where a: "brOutbound mob1 = brOutbound mob @ [a]" "SID a = sid" "Type a = TypeSignalAnswer"
    "DecodePayload a SignalAnswerPayload_unjson = Inr \<lparr>saSDP = answer\<rparr>"
    using assms e2 by (simp add: mob1_def DecodePayload_def signal_payloads toValidUTF8_id)
  have "brPeer pc1 = p1" "brSide pc1 = SidePC" "brSessionID pc1 = sid" "brPeer mob1 = m1"
    using assms e1 e2 by (simp_all add: pc1_def mob1_def)
  moreover from this have "ProcessEnvelope L now now a pc1 = (None, pc1\<lparr>brPeer := p2\<rparr>)"
    using assms a by (simp add: ProcessEnvelope_def)
  ultimately show ?thesis using pc1 o'(1) mob1 a(1) by force
qed

lemma offer_answer_exchange_witness:
  "\<exists>o' a pc1 mob1 pc2.
     ProcessEnvelope ex_pion Second Second \<lparr>SID = ''s1'', RID = ''signal_ready_'' @ Itoa (UnixNano Second), Seq = 1000, TS = 1000,
       Type = TypeSignalReady, Payload = Some (SignalReadyPayload_json \<lparr>srRole = RoleMobile, srPeerConnected = True, srTimestamp = 1000\<rparr>)\<rparr>
       (ex_bridge SidePC) = (None, pc1) \<and> brOutbound pc1 = brOutbound (ex_bridge SidePC) @ [o'] \<and>
    ProcessEnvelope ex_pion Second Second o' (ex_bridge SideMobile) = (None, mob1) \<and>
    brOutbound mob1 = brOutbound (ex_bridge SideMobile) @ [a] \<and>
    ProcessEnvelope ex_pion Second Second a pc1 = (None, pc2) \<and> brPeer pc2 = (ex_peer SidePC)\<lparr>peerConn := Some ''v=0v=0 offer''\<rparr> \<and>
    brPeer mob1 = (ex_peer SideMobile)\<lparr>peerConn := Some ''v=0v=0 answer''\<rparr>"
proof (rule offer_answer_exchange [where sid = "''s1''" and offer = "''v=0v=0 offer''" and answer = "''v=0v=0 answer''"
      and ?p1.0 = "(ex_peer SidePC)\<lparr>peerConn := Some ''v=0v=0 offer''\<rparr>"])
  show "buildSignalReadyEnvelope Second Second Second Second ''s1'' RoleMobile = Inr \<lparr>SID = ''s1'', RID = ''signal_ready_'' @ Itoa (UnixNano Second), Seq = 1000, TS = 1000,
       Type = TypeSignalReady, Payload = Some (SignalReadyPayload_json \<lparr>srRole = RoleMobile, srPeerConnected = True, srTimestamp = 1000\<rparr>)\<rparr>"
  proof -
    have "UnixMilli Second = 1000" by (simp add: UnixMilli_def Second_def Millisecond_def)
    then show ?thesis by (simp add: buildSignalReadyEnvelope_def NewEnvelope_ok)
  qed
qed (simp_all add: ex_bridge_def peer_ops ex_pion_def ex_peer_def webrtc_DefaultConfig_def Second_def Millisecond_def maxInt64_def
    valid_utf8_ascii ascii_string_def byte_def)

end
