(* ===== verification/P2P_Session.thy ===== *)
theory P2P_Session
  imports Control_Plane Webrtc_Bridge
begin

text \<open>
  \<open>internal/agent/p2p_session.go\<close>: the manager of the agent's peer-to-peer session. A session has
  a runtime (the peer, its signalling bridge, the websocket); the goroutines of a session keep a
  pointer to it after it has been stopped, so the runtimes live in a list and are named by their
  index. Each goroutine is a loop; one iteration is a turn here, which reads the clock once
  except where the code measures a duration. The websocket, the HTTP exchange with the
  signalling server and the WebRTC library are arguments.
\<close>

section \<open>Types\<close>

record StartP2PRequest =
  sprSignalingBaseURL :: string

record P2PSessionStatus =
  pssActive :: bool
  pssSessionID :: string
  pssPairingCode :: string
  pssExpiresAt :: int
  pssSignalingBaseURL :: string
  pssState :: ConnectionState
  pssLastError :: string
  pssUpdatedAt :: int

record pairingCreateResponse =
  pcrCode :: string
  pcrSessionID :: string
  pcrPCDeviceKey :: string
  pcrExpiresAt :: int

record 'p p2pRuntime =
  rtSessionID :: string
  rtPairingCode :: string
  rtExpiresAt :: int
  rtWsURL :: string
  rtBridge :: "'p SignalBridge"
  rtWsClosed :: bool
  rtCancelled :: bool

record ('s, 'p) P2PSessionManager =
  pmAgent :: "'s Agent"
  pmDefaultSignalingBaseURL :: string
  pmRuntimes :: "'p p2pRuntime list"
  pmActive :: "nat option"
  pmStatus :: P2PSessionStatus
  pmStarted :: bool

definition pairingCreateResponse_put ::
    "string \<Rightarrow> json \<Rightarrow> pairingCreateResponse \<Rightarrow> pairingCreateResponse result" where
  "pairingCreateResponse_put f v p =
     (if f = ''code'' then map_result (\<lambda>x. p\<lparr>pcrCode := x\<rparr>) (decode_string v (pcrCode p))
      else if f = ''sessionId'' then map_result (\<lambda>x. p\<lparr>pcrSessionID := x\<rparr>) (decode_string v (pcrSessionID p))
      else if f = ''pcDeviceKey'' then map_result (\<lambda>x. p\<lparr>pcrPCDeviceKey := x\<rparr>) (decode_string v (pcrPCDeviceKey p))
      else map_result (\<lambda>x. p\<lparr>pcrExpiresAt := x\<rparr>) (decode_int v (pcrExpiresAt p)))"

definition pairingCreateResponse_unjson :: "json \<Rightarrow> pairingCreateResponse result" where
  "pairingCreateResponse_unjson j =
     decode_struct [''code'', ''sessionId'', ''pcDeviceKey'', ''expiresAt''] pairingCreateResponse_put j
       \<lparr>pcrCode = [], pcrSessionID = [], pcrPCDeviceKey = [], pcrExpiresAt = 0\<rparr>"

section \<open>Status\<close>

definition NewP2PSessionManager :: "instant \<Rightarrow> 's Agent \<Rightarrow> string \<Rightarrow> ('s, 'p) P2PSessionManager" where
  "NewP2PSessionManager now agent signalingBaseURL =
     (let signalingBaseURL = (if strings_TrimSpace signalingBaseURL = [] then ''http://127.0.0.1:8081'' else signalingBaseURL)
      in \<lparr>pmAgent = agent, pmDefaultSignalingBaseURL = signalingBaseURL, pmRuntimes = [], pmActive = None,
          pmStatus = \<lparr>pssActive = False, pssSessionID = [], pssPairingCode = [], pssExpiresAt = 0,
            pssSignalingBaseURL = [], pssState = StateManager_State (agConn agent), pssLastError = [],
            pssUpdatedAt = UnixMilli now\<rparr>,
          pmStarted = False\<rparr>)"

definition SetControlMetrics :: "ControlMetrics option \<Rightarrow> ('s, 'p) P2PSessionManager \<Rightarrow> ('s, 'p) P2PSessionManager" where
  "SetControlMetrics ms m = m\<lparr>pmAgent := (pmAgent m)\<lparr>agMetrics := ms\<rparr>\<rparr>"

definition DefaultSignalingBaseURL :: "('s, 'p) P2PSessionManager \<Rightarrow> string" where
  "DefaultSignalingBaseURL m = strings_TrimSpace (pmDefaultSignalingBaseURL m)"

definition pm_conn :: "('s, 'p) P2PSessionManager \<Rightarrow> StateManager" where
  "pm_conn m = agConn (pmAgent m)"

definition updateStateSnapshot :: "instant \<Rightarrow> ('s, 'p) P2PSessionManager \<Rightarrow> ('s, 'p) P2PSessionManager" where
  "updateStateSnapshot now m =
     m\<lparr>pmStatus := (pmStatus m)\<lparr>pssState := StateManager_State (pm_conn m), pssUpdatedAt := UnixMilli now\<rparr>\<rparr>"

definition setLastError :: "instant \<Rightarrow> string \<Rightarrow> ('s, 'p) P2PSessionManager \<Rightarrow> ('s, 'p) P2PSessionManager" where
  "setLastError now message m =
     m\<lparr>pmStatus := (pmStatus m)\<lparr>pssLastError := message, pssState := StateManager_State (pm_conn m),
         pssUpdatedAt := UnixMilli now\<rparr>\<rparr>"

definition P2P_Status :: "instant \<Rightarrow> ('s, 'p) P2PSessionManager \<Rightarrow> P2PSessionStatus \<times> ('s, 'p) P2PSessionManager" where
  "P2P_Status now m =
     (let m = (if pmStarted m then updateStateSnapshot now m else m) in (pmStatus m, m))"

text \<open>A call of the state manager, followed by \<open>updateStateSnapshot\<close>.\<close>

definition conn_call :: "instant \<Rightarrow> (StateManager \<Rightarrow> StateManager) \<Rightarrow> ('s, 'p) P2PSessionManager \<Rightarrow> ('s, 'p) P2PSessionManager" where
  "conn_call now f m =
     updateStateSnapshot now (m\<lparr>pmAgent := (pmAgent m)\<lparr>agConn := f (agConn (pmAgent m))\<rparr>\<rparr>)"

definition fail_reconnect :: "instant \<Rightarrow> string \<Rightarrow> ('s, 'p) P2PSessionManager \<Rightarrow> ('s, 'p) P2PSessionManager" where
  "fail_reconnect now message m = conn_call now (BeginReconnect now) (setLastError now message m)"

section \<open>Start and Stop\<close>

text \<open>What the exchange with the signalling server gives: \<open>http.NewRequest\<close> or \<open>Do\<close> fails, or a reply.\<close>

datatype http_reply = NewRequestFailed goerror | DoFailed goerror | Reply int "json option"

definition createPairing :: "(string \<Rightarrow> string result) \<Rightarrow> (string \<Rightarrow> http_reply) \<Rightarrow> string \<Rightarrow> pairingCreateResponse result" where
  "createPairing buildPairingURL post signalingBaseURL =
     (case buildPairingURL signalingBaseURL of
        Inl err \<Rightarrow> Inl err
      | Inr u \<Rightarrow>
          (case post u of
             NewRequestFailed err \<Rightarrow> Inl (ErrWrap ''new pairing request: '' err [])
           | DoFailed err \<Rightarrow> Inl (ErrWrap ''pairing request failed: '' err [])
           | Reply status body \<Rightarrow>
               if status \<noteq> StatusCreated then Inl (ErrNew (''pairing request unexpected status: '' @ Itoa status))
               else case (case body of None \<Rightarrow> Inl json_error | Some j \<Rightarrow> pairingCreateResponse_unjson j) of
                 Inl err \<Rightarrow> Inl (ErrWrap ''decode pairing response: '' err [])
               | Inr out \<Rightarrow>
                   if pcrCode out = [] \<or> pcrSessionID out = [] \<or> pcrPCDeviceKey out = []
                   then Inl (ErrNew ''invalid pairing response'') else Inr out))"

text \<open>The outside world of \<open>Start\<close>: the URL functions, the signalling server, the dialler, the library.\<close>

record 'p start_env =
  seBuildPairingURL :: "string \<Rightarrow> string result"
  sePost :: "string \<Rightarrow> http_reply"
  seBuildSessionWSURL :: "string \<Rightarrow> string \<Rightarrow> string \<Rightarrow> string \<Rightarrow> string result"
  seDial :: "string \<Rightarrow> goerror option"
  seNewPeerConnection :: "'p result"

definition Start_check :: "('s, 'p) P2PSessionManager \<Rightarrow> (P2PSessionStatus \<times> goerror) option" where
  "Start_check m =
     (case pmActive m of
        Some i \<Rightarrow> Some (pmStatus m, ErrNew ''p2p session already active'')
      | None \<Rightarrow> None)"

text \<open>The part of \<open>Start\<close> that runs without the lock: the last error to record and the error, or a runtime.\<close>

definition Start_prepare ::
    "'p Pion \<Rightarrow> 'p start_env \<Rightarrow> string \<Rightarrow> (string \<times> goerror) + 'p p2pRuntime" where
  "Start_prepare L E baseURL =
     (case createPairing (seBuildPairingURL E) (sePost E) baseURL of
        Inl err \<Rightarrow> Inl (''create pairing failed: '' @ Error err, err)
      | Inr pairing \<Rightarrow>
      case seBuildSessionWSURL E baseURL (pcrSessionID pairing) (pcrPCDeviceKey pairing) ''pc'' of
        Inl err \<Rightarrow> Inl (''build ws url failed: '' @ Error err, err)
      | Inr wsURL \<Rightarrow>
      case seDial E wsURL of
        Some err \<Rightarrow> Inl (''dial signaling ws failed: '' @ Error err, err)
      | None \<Rightarrow>
      case NewPeer L (webrtc_DefaultConfig SidePC) (seNewPeerConnection E) of
        Inl err \<Rightarrow> Inl (''new pc peer failed: '' @ Error err, err)
      | Inr peer \<Rightarrow>
      case NewSignalBridge (pcrSessionID pairing) SidePC (Some peer) of
        Inl err \<Rightarrow> Inl (''new signal bridge failed: '' @ Error err, err)
      | Inr bridge \<Rightarrow>
          Inr \<lparr>rtSessionID = pcrSessionID pairing, rtPairingCode = pcrCode pairing, rtExpiresAt = pcrExpiresAt pairing,
               rtWsURL = wsURL, rtBridge = bridge, rtWsClosed = False, rtCancelled = False\<rparr>)"

definition Start_install :: "instant \<Rightarrow> string \<Rightarrow> 'p p2pRuntime \<Rightarrow> ('s, 'p) P2PSessionManager \<Rightarrow> ('s, 'p) P2PSessionManager" where
  "Start_install now baseURL rt m =
     (let m = m\<lparr>pmRuntimes := pmRuntimes m @ [rt], pmActive := Some (length (pmRuntimes m)), pmStarted := True,
            pmStatus := \<lparr>pssActive = True, pssSessionID = rtSessionID rt, pssPairingCode = rtPairingCode rt,
              pssExpiresAt = rtExpiresAt rt, pssSignalingBaseURL = baseURL,
              pssState = StateManager_State (pm_conn m), pssLastError = [], pssUpdatedAt = UnixMilli now\<rparr>\<rparr>
      in conn_call now (BeginSignaling now) m)"

definition start_base_url :: "StartP2PRequest \<Rightarrow> ('s, 'p) P2PSessionManager \<Rightarrow> string" where
  "start_base_url req m =
     (let baseURL = strings_TrimSpace (sprSignalingBaseURL req)
      in if baseURL = [] then pmDefaultSignalingBaseURL m else baseURL)"

definition P2P_Start ::
    "instant \<Rightarrow> 'p Pion \<Rightarrow> 'p start_env \<Rightarrow> StartP2PRequest \<Rightarrow> ('s, 'p) P2PSessionManager \<Rightarrow>
     (P2PSessionStatus \<times> goerror option) \<times> ('s, 'p) P2PSessionManager" where
  "P2P_Start now L E req m =
     (case Start_check m of
        Some (status, err) \<Rightarrow> ((status, Some err), m)
      | None \<Rightarrow>
          let baseURL = start_base_url req m
          in case Start_prepare L E baseURL of
               Inl (message, err) \<Rightarrow>
                 (case P2P_Status now (setLastError now message m) of (status, m) \<Rightarrow> ((status, Some err), m))
             | Inr rt \<Rightarrow>
                 (case P2P_Status now (Start_install now baseURL rt m) of (status, m) \<Rightarrow> ((status, None), m)))"

definition P2P_Stop ::
    "instant \<Rightarrow> 'p Pion \<Rightarrow> string list \<Rightarrow> ('s, 'p) P2PSessionManager \<Rightarrow>
     (P2PSessionStatus \<times> goerror option) \<times> ('s, 'p) P2PSessionManager" where
  "P2P_Stop now L order m =
     (case pmActive m of
        None \<Rightarrow> ((pmStatus m, Some (ErrNew ''p2p session is not active'')), m)
      | Some i \<Rightarrow>
          let rt = pmRuntimes m ! i;
              bridge = rtBridge rt;
              rt' = rt\<lparr>rtCancelled := True, rtWsClosed := True, rtBridge := bridge\<lparr>brPeer := snd (Peer_Close L (brPeer bridge))\<rparr>\<rparr>;
              m = m\<lparr>pmActive := None, pmRuntimes := (pmRuntimes m)[i := rt']\<rparr>;
              m = m\<lparr>pmAgent := (pmAgent m)\<lparr>agAcks :=
                    map_option (AckTracker_ForgetBySessionTransport (rtSessionID rt) AckTransportP2P order) (agAcks (pmAgent m))\<rparr>\<rparr>;
              m = conn_call now (StateManager_Close now) m;
              m = m\<lparr>pmStatus := (pmStatus m)\<lparr>pssActive := False, pssSessionID := [], pssPairingCode := [],
                    pssExpiresAt := 0, pssUpdatedAt := UnixMilli now\<rparr>\<rparr>
          in ((pmStatus m, None), m))"

section \<open>The goroutines of a session\<close>

definition rt_bridge :: "nat \<Rightarrow> ('s, 'p) P2PSessionManager \<Rightarrow> 'p SignalBridge" where
  "rt_bridge i m = rtBridge (pmRuntimes m ! i)"

definition rt_peer :: "nat \<Rightarrow> ('s, 'p) P2PSessionManager \<Rightarrow> 'p Peer" where
  "rt_peer i m = brPeer (rt_bridge i m)"

definition on_bridge :: "nat \<Rightarrow> ('p SignalBridge \<Rightarrow> 'p SignalBridge) \<Rightarrow> ('s, 'p) P2PSessionManager \<Rightarrow> ('s, 'p) P2PSessionManager" where
  "on_bridge i f m =
     m\<lparr>pmRuntimes := (pmRuntimes m)[i := (pmRuntimes m ! i)\<lparr>rtBridge := f (rt_bridge i m)\<rparr>]\<rparr>"

definition on_peer :: "nat \<Rightarrow> ('p Peer \<Rightarrow> 'p Peer) \<Rightarrow> ('s, 'p) P2PSessionManager \<Rightarrow> ('s, 'p) P2PSessionManager" where
  "on_peer i f = on_bridge i (\<lambda>b. b\<lparr>brPeer := f (brPeer b)\<rparr>)"

definition ctx_done :: "nat \<Rightarrow> ('s, 'p) P2PSessionManager \<Rightarrow> bool" where
  "ctx_done i m = rtCancelled (pmRuntimes m ! i)"

text \<open>
  A turn returns whether the loop goes on. An iteration of \<open>wsReadLoop\<close> is taken from the return
  of \<open>ReadJSON\<close> on; \<open>None\<close> is a \<open>select\<close> whose channel is empty.
\<close>

definition wsReadLoop_turn ::
    "instant \<Rightarrow> nat \<Rightarrow> Envelope result \<Rightarrow> ('s, 'p) P2PSessionManager \<Rightarrow> bool \<times> ('s, 'p) P2PSessionManager" where
  "wsReadLoop_turn now i readResult m =
     (case readResult of
        Inl err \<Rightarrow>
          if ctx_done i m then (False, m)
          else (False, fail_reconnect now (''signaling ws read failed: '' @ Error err) m)
      | Inr env \<Rightarrow>
          (case Envelope_Validate env of
             Some err \<Rightarrow> (True, m)
           | None \<Rightarrow>
               (case InboundEnvelope env (rt_bridge i m) of
                  (Some err, b) \<Rightarrow> (True, setLastError now (''bridge inbound failed: '' @ Error err) (on_bridge i (\<lambda>_. b) m))
                | (None, b) \<Rightarrow> (True, on_bridge i (\<lambda>_. b) m))))"

definition wsWriteLoop_turn ::
    "instant \<Rightarrow> nat \<Rightarrow> goerror option \<Rightarrow> ('s, 'p) P2PSessionManager \<Rightarrow> (bool \<times> ('s, 'p) P2PSessionManager) option" where
  "wsWriteLoop_turn now i werr m =
     (case brOutbound (rt_bridge i m) of
        [] \<Rightarrow> None
      | env # rest \<Rightarrow>
          let m = on_bridge i (\<lambda>b. b\<lparr>brOutbound := rest\<rparr>) m;
              m = (if Type env = TypeSignalOffer then conn_call now (BeginP2P now) m else m)
          in case werr of
               None \<Rightarrow> Some (True, m)
             | Some err \<Rightarrow>
                 if ctx_done i m then Some (False, m)
                 else Some (False, fail_reconnect now (''signaling ws write failed: '' @ Error err) m))"

definition bridgeErrorLoop_turn ::
    "instant \<Rightarrow> nat \<Rightarrow> ('s, 'p) P2PSessionManager \<Rightarrow> ('s, 'p) P2PSessionManager option" where
  "bridgeErrorLoop_turn now i m =
     (case brErrors (rt_bridge i m) of
        [] \<Rightarrow> None
      | err # rest \<Rightarrow>
          Some (fail_reconnect now (''bridge runtime error: '' @ Error err) (on_bridge i (\<lambda>b. b\<lparr>brErrors := rest\<rparr>) m)))"

definition peerStateLoop_turn ::
    "instant \<Rightarrow> nat \<Rightarrow> ('s, 'p) P2PSessionManager \<Rightarrow> ('s, 'p) P2PSessionManager option" where
  "peerStateLoop_turn now i m =
     (case peerStates (rt_peer i m) of
        [] \<Rightarrow> None
      | st # rest \<Rightarrow>
          let m = on_peer i (\<lambda>p. p\<lparr>peerStates := rest\<rparr>) m
          in Some (if st = StateConnected then conn_call now (MarkP2PConnected now) m
                   else if st = StateDisconnected \<or> st = StateFailed then conn_call now (BeginReconnect now) m
                   else m))"

definition sendPeerEnvelope ::
    "'p Pion \<Rightarrow> nat \<Rightarrow> Envelope \<Rightarrow> ('s, 'p) P2PSessionManager \<Rightarrow> goerror option \<times> ('s, 'p) P2PSessionManager" where
  "sendPeerEnvelope L i env m =
     (case Peer_Send L (Envelope_json env) (rt_peer i m) of
        (Some err, p) \<Rightarrow> (Some (ErrWrap ''peer send: '' err []), on_peer i (\<lambda>_. p) m)
      | (None, p) \<Rightarrow> (None, on_peer i (\<lambda>_. p) m))"

text \<open>The loop of \<open>peerMessageLoop\<close> over the responses.\<close>

fun send_responses ::
    "instant \<Rightarrow> 'p Pion \<Rightarrow> nat \<Rightarrow> Envelope list \<Rightarrow> ('s, 'p) P2PSessionManager \<Rightarrow> bool \<times> ('s, 'p) P2PSessionManager" where
  "send_responses now L i [] m = (True, m)"
| "send_responses now L i (response # responses) m =
     (case sendPeerEnvelope L i response m of
        (Some err, m) \<Rightarrow>
          if ctx_done i m then (False, m)
          else (False, fail_reconnect now (''send control response failed: '' @ Error err) m)
      | (None, m) \<Rightarrow>
          send_responses now L i responses
            (m\<lparr>pmAgent := (pmAgent m)\<lparr>agAcks :=
               registerAckableResponses now (agAcks (pmAgent m)) [response] AckTransportP2P True\<rparr>\<rparr>))"

definition handle_control ::
    "instant \<Rightarrow> instant \<Rightarrow> 'p Pion \<Rightarrow> (duration \<Rightarrow> 's WorkspaceAdapter) \<Rightarrow> nat \<Rightarrow> Envelope \<Rightarrow> ('s, 'p) P2PSessionManager \<Rightarrow>
     bool \<times> ('s, 'p) P2PSessionManager" where
  "handle_control now0 now1 L A i env m =
     (case handle_observed now0 now1 A ''p2p'' env (pmAgent m) of
        ((result, err), agent) \<Rightarrow>
          let m = m\<lparr>pmAgent := agent\<rparr>;
              m = (case err of None \<Rightarrow> m
                   | Some err \<Rightarrow> setLastError now1 (''control envelope handling failed: '' @ Error err) m)
          in if Type env = TypeCmdAck then (True, m)
             else send_responses now1 L i (chrResponses result) m)"

definition peerMessageLoop_turn ::
    "instant \<Rightarrow> instant \<Rightarrow> 'p Pion \<Rightarrow> (duration \<Rightarrow> 's WorkspaceAdapter) \<Rightarrow> nat \<Rightarrow> ('s, 'p) P2PSessionManager \<Rightarrow>
     (bool \<times> ('s, 'p) P2PSessionManager) option" where
  "peerMessageLoop_turn now0 now1 L A i m =
     (case peerMessages (rt_peer i m) of
        [] \<Rightarrow> None
      | message # rest \<Rightarrow>
          let m = on_peer i (\<lambda>p. p\<lparr>peerMessages := rest\<rparr>) m
          in case (case message of MsgOther \<Rightarrow> Inl json_error | MsgJson j \<Rightarrow> Envelope_unjson j) of
               Inl err \<Rightarrow> Some (True, setLastError now0 (''decode control envelope failed: '' @ Error err) m)
             | Inr env \<Rightarrow>
                 (case Envelope_Validate env of
                    Some err \<Rightarrow> Some (True, setLastError now0 (''invalid control envelope: '' @ Error err) m)
                  | None \<Rightarrow>
                      if SID env \<noteq> rtSessionID (pmRuntimes m ! i)
                      then Some (True, setLastError now0 (''control envelope sid mismatch: expected='' @
                             rtSessionID (pmRuntimes m ! i) @ '' got='' @ SID env) m)
                      else Some (handle_control now0 now1 L A i env m)))"

text \<open>The two loops of \<open>ackRetryLoop\<close> over a batch.\<close>

fun report_exhausted :: "instant \<Rightarrow> nat \<Rightarrow> PendingAck list \<Rightarrow> ('s, 'p) P2PSessionManager \<Rightarrow> ('s, 'p) P2PSessionManager" where
  "report_exhausted now i [] m = m"
| "report_exhausted now i (e # es) m =
     (if ackTransport e \<noteq> AckTransportP2P \<or> ackSID e \<noteq> rtSessionID (pmRuntimes m ! i) then report_exhausted now i es m
      else report_exhausted now i es
        (fail_reconnect now (''ack retry exhausted: rid='' @ ackRID e @ '' type='' @ ackMessageType e @
           '' retries='' @ Itoa (RetryCount e)) m))"

fun send_retries :: "instant \<Rightarrow> 'p Pion \<Rightarrow> nat \<Rightarrow> AckRetry list \<Rightarrow> ('s, 'p) P2PSessionManager \<Rightarrow> bool \<times> ('s, 'p) P2PSessionManager" where
  "send_retries now L i [] m = (True, m)"
| "send_retries now L i (r # rs) m =
     (if ackTransport (retryPending r) \<noteq> AckTransportP2P \<or> ackSID (retryPending r) \<noteq> rtSessionID (pmRuntimes m ! i)
      then send_retries now L i rs m
      else case sendPeerEnvelope L i (retryEnvelope r) m of
        (Some err, m) \<Rightarrow>
          if ctx_done i m then (False, m)
          else (False, fail_reconnect now (''ack retry send failed: rid='' @ ackRID (retryPending r) @ '' attempt='' @
                 Itoa (RetryCount (retryPending r)) @ '' err='' @ Error err) m)
      | (None, m) \<Rightarrow> send_retries now L i rs m)"

definition ackRetryLoop_turn ::
    "instant \<Rightarrow> string list \<Rightarrow> 'p Pion \<Rightarrow> nat \<Rightarrow> ('s, 'p) P2PSessionManager \<Rightarrow> bool \<times> ('s, 'p) P2PSessionManager" where
  "ackRetryLoop_turn now order L i m =
     (case agAcks (pmAgent m) of
        None \<Rightarrow> (False, m)
      | Some tracker \<Rightarrow>
          (case AckTracker_DueRetries now order tracker of
             (tracker, batch) \<Rightarrow>
               let m = m\<lparr>pmAgent := (pmAgent m)\<lparr>agAcks := Some tracker\<rparr>\<rparr>;
                   m = report_exhausted now i (Exhausted batch) m
               in send_retries now L i (Retries batch) m))"

end
