(* ===== verification/P2P_Flow.thy ===== *)
theory P2P_Flow
  imports P2P_Session
begin

text \<open>
  Runs of the peer-to-peer session manager: its status agrees with its runtimes, control messages
  that arrive over the data channel are answered over it and tracked, and a stopped session leaves
  nothing behind.
\<close>

section \<open>Definitions\<close>

text \<open>What no goroutine of a session changes: the tables of sessions, and the status but for state and error.\<close>

definition same_rt :: "'p p2pRuntime \<Rightarrow> 'p p2pRuntime \<Rightarrow> bool" where
  "same_rt r r' \<longleftrightarrow> rtSessionID r' = rtSessionID r \<and> rtPairingCode r' = rtPairingCode r \<and> rtWsClosed r' = rtWsClosed r \<and>
     rtCancelled r' = rtCancelled r \<and> (peerClosed (brPeer (rtBridge r)) \<longrightarrow> peerClosed (brPeer (rtBridge r')))"

definition same_session :: "('s, 'p) P2PSessionManager \<Rightarrow> ('s, 'p) P2PSessionManager \<Rightarrow> bool" where
  "same_session m m' \<longleftrightarrow> pmActive m' = pmActive m \<and> pmStarted m' = pmStarted m \<and>
     length (pmRuntimes m') = length (pmRuntimes m) \<and>
     (\<forall>i < length (pmRuntimes m). same_rt (pmRuntimes m ! i) (pmRuntimes m' ! i)) \<and>
     pssActive (pmStatus m') = pssActive (pmStatus m) \<and> pssSessionID (pmStatus m') = pssSessionID (pmStatus m) \<and>
     pssPairingCode (pmStatus m') = pssPairingCode (pmStatus m)"







text \<open>Sending a list of envelopes over the data channel; \<open>None\<close> when one of them fails.\<close>

fun send_all :: "'p Pion \<Rightarrow> Envelope list \<Rightarrow> 'p Peer \<Rightarrow> 'p Peer option" where
  "send_all L [] p = Some p"
| "send_all L (e # es) p = (case Peer_Send L (Envelope_json e) p of (None, p) \<Rightarrow> send_all L es p | (Some err, p) \<Rightarrow> None)"



section \<open>Lemmas\<close>

lemma same_rt_refl [simp]: "same_rt r r"
  by (simp add: same_rt_def)


lemma same_session_refl [simp]: "same_session m m"
  by (simp add: same_session_def)
















text \<open>What one iteration of the message loop does with a message: drop it, or handle it.\<close>

definition decode_message :: "message \<Rightarrow> Envelope result" where
  "decode_message msg = (case msg of MsgOther \<Rightarrow> Inl json_error | MsgJson j \<Rightarrow> Envelope_unjson j)"

lemma message_turn_cases:
  assumes "peerMessages (rt_peer i m) = msg # rest"
  obtains (dropped) s where "peerMessageLoop_turn now0 now1 L A i m =
      Some (True, setLastError now0 s (on_peer i (\<lambda>p. p\<lparr>peerMessages := rest\<rparr>) m))" "s \<noteq> []"
  | (handled) env where "peerMessageLoop_turn now0 now1 L A i m =
      Some (handle_control now0 now1 L A i env (on_peer i (\<lambda>p. p\<lparr>peerMessages := rest\<rparr>) m))"
      "decode_message msg = Inr env" "Envelope_Validate env = None"
      "SID env = rtSessionID (pmRuntimes (on_peer i (\<lambda>p. p\<lparr>peerMessages := rest\<rparr>) m) ! i)"
proof (cases "decode_message msg")
  case (Inl err)
  show ?thesis by (rule dropped [of "''decode control envelope failed: '' @ Error err"]) (use Inl assms in \<open>simp_all add: peerMessageLoop_turn_def decode_message_def\<close>)
next
  case (Inr env)
  note d = assms Inr [unfolded decode_message_def]
  show ?thesis
  proof (cases "Envelope_Validate env")
    case (Some err)
    show ?thesis by (rule dropped [of "''invalid control envelope: '' @ Error err"]) (use Some d in \<open>simp_all add: peerMessageLoop_turn_def\<close>)
  next
    case None
    show ?thesis
    proof (cases "SID env = rtSessionID (pmRuntimes (on_peer i (\<lambda>p. p\<lparr>peerMessages := rest\<rparr>) m) ! i)")
      case True
      show ?thesis by (rule handled) (use None True d Inr in \<open>simp_all add: peerMessageLoop_turn_def\<close>)
    next
      case False
      show ?thesis by (rule dropped [of "''control envelope sid mismatch: expected='' @
          rtSessionID (pmRuntimes (on_peer i (\<lambda>p. p\<lparr>peerMessages := rest\<rparr>) m) ! i) @ '' got='' @ SID env"]) (use None False d in \<open>simp_all add: peerMessageLoop_turn_def Let_def\<close>)
    qed
  qed
qed















text \<open>Sending the answers when the channel takes all of them.\<close>

lemma on_peer_simps [simp]:
  "pmAgent (on_peer i f m) = pmAgent m" "pmActive (on_peer i f m) = pmActive m" "pmStatus (on_peer i f m) = pmStatus m"
  "length (pmRuntimes (on_peer i f m)) = length (pmRuntimes m)"
  "i < length (pmRuntimes m) \<Longrightarrow> rt_peer i (on_peer i f m) = f (rt_peer i m)"
  "rt_peer i (m\<lparr>pmAgent := a\<rparr>) = rt_peer i m"
  by (simp_all add: on_peer_def on_bridge_def rt_peer_def rt_bridge_def)

lemma on_peer_session [simp]:
  "j < length (pmRuntimes m) \<Longrightarrow> rtSessionID (pmRuntimes (on_peer i f m) ! j) = rtSessionID (pmRuntimes m ! j)"
  "j < length (pmRuntimes m) \<Longrightarrow> ctx_done j (on_peer i f m) = ctx_done j m"
  by (cases "i = j", auto simp: on_peer_def on_bridge_def ctx_done_def)+

lemma setLastError_simps [simp]:
  "pmAgent (setLastError now msg m) = pmAgent m" "pmRuntimes (setLastError now msg m) = pmRuntimes m"
  "rt_peer i (setLastError now msg m) = rt_peer i m" "pmActive (setLastError now msg m) = pmActive m"
  "ctx_done i (setLastError now msg m) = ctx_done i m"
  by (simp_all add: setLastError_def rt_peer_def rt_bridge_def ctx_done_def)

lemma send_responses_ok:
  assumes "i < length (pmRuntimes m)" "send_all L es (rt_peer i m) = Some p"
  shows "\<exists>m'. send_responses now L i es m = (True, m') \<and> rt_peer i m' = p \<and>
    pmAgent m' = (pmAgent m)\<lparr>agAcks := registerAckableResponses now (agAcks (pmAgent m)) es AckTransportP2P True\<rparr>"
  using assms
proof (induction es arbitrary: m)
  case Nil
  then show ?case by (cases "pmAgent m"; cases "agAcks (pmAgent m)") simp_all
next
  case (Cons e es)
  from Cons.prems(2) obtain p1 where s: "Peer_Send L (Envelope_json e) (rt_peer i m) = (None, p1)" "send_all L es p1 = Some p"
    by (auto split: prod.splits option.splits)
  let ?m = "(on_peer i (\<lambda>_. p1) m)\<lparr>pmAgent := (pmAgent m)\<lparr>agAcks :=
      registerAckableResponses now (agAcks (pmAgent m)) [e] AckTransportP2P True\<rparr>\<rparr>"
  obtain m' where m': "send_responses now L i es ?m = (True, m')" "rt_peer i m' = p"
    "pmAgent m' = (pmAgent ?m)\<lparr>agAcks := registerAckableResponses now (agAcks (pmAgent ?m)) es AckTransportP2P True\<rparr>"
    using Cons.IH [of ?m] Cons.prems(1) s(2) by auto
  have "send_responses now L i (e # es) m = (True, m')"
    using s(1) m'(1) by (simp add: sendPeerEnvelope_def)
  moreover have "pmAgent m' = (pmAgent m)\<lparr>agAcks := registerAckableResponses now (agAcks (pmAgent m)) (e # es) AckTransportP2P True\<rparr>"
    using m'(3) registerAckable_append [of now "agAcks (pmAgent m)" "[e]" es] by simp
  ultimately show ?case using m'(2) by blast
qed

section \<open>Properties\<close>


text \<open>
  C6: A control message that arrives over the data channel, of this session and valid, is handled
  by the orchestrator exactly once, and when the channel is open all the answers are sent over
  it in order: first the acknowledgement of the message, accepted exactly when the handler
  reports no error; every other answer is then waited for by the acknowledgement tracker.
\<close>
theorem p2p_message_answered:
  assumes "i < length (pmRuntimes m)" "peerMessages (rt_peer i m) = MsgJson (Envelope_json env) # rest"
    and "Envelope_ok env" "Envelope_Validate env = None" "SID env = rtSessionID (pmRuntimes m ! i)" "Type env \<noteq> TypeCmdAck"
    and "agOrc (pmAgent m) = Some orc" "agAcks (pmAgent m) = Some t" "clock_ok orc" "seq_room (orcSeq orc)"
    and "run_state (Orchestrator_HandleEnvelope (A (controlEnvelopeTimeout (Type env))) env) orc = ((es, err), orc')"
    and "send_all L es ((rt_peer i m)\<lparr>peerMessages := rest\<rparr>) = Some p"
  shows "\<exists>m' t'. peerMessageLoop_turn now0 now1 L A i m = Some (True, m') \<and> rt_peer i m' = p \<and>
    agOrc (pmAgent m') = Some orc' \<and> agAcks (pmAgent m') = Some t' \<and> es \<noteq> [] \<and> is_ack env (err = None) (hd es) \<and>
    (\<forall>e \<in> set (tl es). map_of (pending t') (RID e) \<noteq> None)"
proof -
  let ?m1 = "on_peer i (\<lambda>p. p\<lparr>peerMessages := rest\<rparr>) m"
  let ?a = "(pmAgent m)\<lparr>agOrc := Some orc', agMetrics := map_option (ControlMetrics_Observe (Type env) ''p2p''
    (time_Sub now1 now0) err) (agMetrics (pmAgent m))\<rparr>"
  let ?m2 = "(case err of None \<Rightarrow> ?m1\<lparr>pmAgent := ?a\<rparr>
    | Some err \<Rightarrow> setLastError now1 (''control envelope handling failed: '' @ Error err) (?m1\<lparr>pmAgent := ?a\<rparr>))"
  have h: "handle_observed now0 now1 A ''p2p'' env (pmAgent m) = ((zero_ControlHandleResult\<lparr>chrResponses := es\<rparr>, err), ?a)"
    using Router_orc [OF assms(6,7,11)] assms(6) by (simp add: handle_observed_def)
  have m2: "rt_peer i ?m2 = (rt_peer i m)\<lparr>peerMessages := rest\<rparr>" "pmAgent ?m2 = ?a" "i < length (pmRuntimes ?m2)"
    using assms(1) by (auto split: option.split)
  obtain m' where m': "send_responses now1 L i es ?m2 = (True, m')" "rt_peer i m' = p"
    "pmAgent m' = ?a\<lparr>agAcks := registerAckableResponses now1 (Some t) es AckTransportP2P True\<rparr>"
    using send_responses_ok [OF m2(3), of L es p now1] assms(8,12) unfolding m2 by auto
  obtain t' where t': "registerAckableResponses now1 (Some t) es AckTransportP2P True = Some t'"
    by (simp add: registerAckable_fold)
  have "peerMessageLoop_turn now0 now1 L A i m = Some (handle_control now0 now1 L A i env ?m1)"
    using assms(1-5) Envelope_dec_enc [OF assms(3)] by (simp add: peerMessageLoop_turn_def)
  moreover have "handle_control now0 now1 L A i env ?m1 = (True, m')"
    using h m'(1) assms(6) by (simp add: handle_control_def Let_def zero_ControlHandleResult_def)
  moreover have "reply_ok env (orcSeq orc) (es, err) (orcSeq orc')"
    using wp_run [OF HandleEnvelope_reply [OF assms(9,10)] assms(11)] .
  then obtain a bs where es: "es = a # bs" "is_ack env (err = None) a"
    "\<forall>e \<in> set bs. Type e \<in> {TypePromptAck, TypePatchReady, TypePatchResult, TypeRunResult}"
    by (auto simp: reply_ok_def)
  then have "map_of (pending t') (RID e) \<noteq> None" if "e \<in> set bs" for e
  proof -
    have "Type e \<noteq> TypeCmdAck" using es(3) that by auto
    with registerAckable_waits [OF t', of "RID e"] that es(1) show ?thesis by (auto simp: ack_waits_def)
  qed
  ultimately show ?thesis using m'(2,3) t' es by auto
qed

text \<open>
  What arrives over the data channel and is not a valid envelope of this session (text that
  is no envelope, an envelope that fails validation, an envelope of another session) is dropped:
  the orchestrator, the tracker, the metrics and the connection state are as before, nothing is
  sent, and the loop goes on with the next message.
\<close>
theorem foreign_message_dropped:
  assumes "i < length (pmRuntimes m)" "peerMessages (rt_peer i m) = msg # rest"
    and "\<forall>env. (\<exists>j. msg = MsgJson j \<and> Envelope_unjson j = Inr env) \<longrightarrow>
      Envelope_Validate env \<noteq> None \<or> SID env \<noteq> rtSessionID (pmRuntimes m ! i)"
  shows "\<exists>m'. peerMessageLoop_turn now0 now1 L A i m = Some (True, m') \<and> pmAgent m' = pmAgent m \<and>
    rt_peer i m' = (rt_peer i m)\<lparr>peerMessages := rest\<rparr> \<and> pmActive m' = pmActive m \<and> pssLastError (pmStatus m') \<noteq> []"
proof -
  obtain s where "peerMessageLoop_turn now0 now1 L A i m =
      Some (True, setLastError now0 s (on_peer i (\<lambda>p. p\<lparr>peerMessages := rest\<rparr>) m))" "s \<noteq> []"
  proof (cases rule: message_turn_cases [OF assms(2), of now0 now1 L A])
    case (2 env)
    then show ?thesis using assms(1,3) by (auto simp: decode_message_def split: message.splits)
  qed blast
  moreover from this have "pssLastError (pmStatus (setLastError now0 s (on_peer i (\<lambda>p. p\<lparr>peerMessages := rest\<rparr>) m))) \<noteq> []"
    by (simp add: setLastError_def)
  ultimately show ?thesis using assms(1) by simp
qed





text \<open>A token of the pairing store is made of printable ASCII letters and digits.\<close>

lemma base32_lower_chars:
  assumes "c \<in> set (strings_ToLower (base32_EncodeToString b)) \<or> c \<in> set (base32_EncodeToString b)"
  shows "plain_byte c" "byte c < 128" "c \<noteq> CHR ''/''"
proof -
  have a: "set (base32_EncodeToString b) \<subseteq> set base32_alphabet" by (simp add: base32_EncodeToString_def base32_groups_set)
  then have "ascii_string (base32_EncodeToString b)" using base32_alphabet_chars by (auto simp: ascii_string_def)
  then have "c \<in> ascii_lower ` set base32_alphabet \<union> set base32_alphabet"
    using assms a by (auto simp: ToLower_ascii)
  moreover have "\<forall>c \<in> ascii_lower ` set base32_alphabet \<union> set base32_alphabet. plain_byte c \<and> byte c < 128 \<and> c \<noteq> CHR ''/''"
    by code_simp
  ultimately show "plain_byte c" "byte c < 128" "c \<noteq> CHR ''/''" by blast+
qed

lemma base32_lower_utf8: "valid_utf8 (strings_ToLower (base32_EncodeToString b))" "valid_utf8 (base32_EncodeToString b)"
  by (auto intro!: valid_utf8_ascii simp: ascii_string_def intro: base32_lower_chars(2) [OF disjI1] base32_lower_chars(2) [OF disjI2])

lemma base32_lower_trim: "strings_TrimSpace (strings_ToLower (base32_EncodeToString b)) = strings_ToLower (base32_EncodeToString b)"
  by (rule TrimSpace_plain) (auto intro: base32_lower_chars(1) dest: hd_in_set last_in_set)

text \<open>
  The pairing handshake between the agent and the signalling server: from the server's
  reply to \<open>POST /v1/pairings\<close> the agent reads exactly the code, session id, device key and
  expiry of the pairing that the server stored, and until the pairing expires the server accepts
  a websocket for that session and key with the role of the PC.
\<close>
lemma pairing_handshake:
  assumes "handlePairings ''POST'' now0 order (Inr b1) (Inr b2) (Inr b3) now s = ((status, body), s')"
    and "b1 \<noteq> []" "b2 \<noteq> []" "b3 \<noteq> []" "buildPairingURL url = Inr u" "post u = Reply status (Some body)"
    and "minInt64 \<le> UnixMilli (now + psTtl s)" "UnixMilli (now + psTtl s) \<le> maxInt64" "now' \<le> now + psTtl s"
  shows "\<exists>p pairing. createPairing buildPairingURL post url = Inr p \<and> pairing \<in> set (psHeap s') \<and>
    pcrCode p = pgCode pairing \<and> pcrSessionID p = pgSessionID pairing \<and> pcrPCDeviceKey p = pgPCDeviceKey pairing \<and>
    pcrExpiresAt p = UnixMilli (pgExpiresAt pairing) \<and>
    pcrSessionID p = strings_ToLower (base32_EncodeToString b2) \<and> pcrPCDeviceKey p = strings_ToLower (base32_EncodeToString b3) \<and>
    handleSessionWS_request (''/v1/sessions/'' @ pcrSessionID p @ ''/ws'') (pcrPCDeviceKey p) ''pc'' now' s' =
      Inr (pcrSessionID p, RolePC)"
proof -
  define P where "P = new_pairing b1 b2 b3 now (psTtl s)"
  let ?tok = "\<lambda>b. strings_ToLower (base32_EncodeToString b)"
  have P: "pgCode P = base32_EncodeToString b1" "pgSessionID P = ?tok b2" "pgPCDeviceKey P = ?tok b3"
    "pgExpiresAt P = now + psTtl s" "pgMobileDeviceKey P = []"
    by (simp_all add: P_def new_pairing_def)
  have ne: "?tok b \<noteq> []" "base32_EncodeToString b \<noteq> []" if "b \<noteq> []" for b
    using randomToken_nonempty [OF that, of "?tok b"] base32_upper [of b] by (auto simp: randomToken_def)
  have c: "CreatePairing now0 order (Inr b1) (Inr b2) (Inr b3) now s = (Inr P, s')"
    and sb: "status = StatusCreated" "body = JObj [(''code'', enc_string (pgCode P)), (''sessionId'', enc_string (pgSessionID P)),
           (''pcDeviceKey'', enc_string (pgPCDeviceKey P)), (''expiresAt'', JInt (UnixMilli (pgExpiresAt P)))]"
    using assms(1) CreatePairing_Inr [of now0 order b1 b2 b3 now s]
    by (auto simp: handlePairings_def writeJSON_def P_def [symmetric] Let_def)
  have heap: "psHeap s' = psHeap s @ [P]" "map_of (bySession s') (pgSessionID P) = Some (length (psHeap s))"
    using c CreatePairing_Inr [of now0 order b1 b2 b3 now s] by (auto simp: P_def [symmetric] Let_def go_map)
  have "pairingCreateResponse_unjson body = Inr \<lparr>pcrCode = pgCode P, pcrSessionID = pgSessionID P,
      pcrPCDeviceKey = pgPCDeviceKey P, pcrExpiresAt = UnixMilli (pgExpiresAt P)\<rparr>" (is "_ = Inr ?p")
    using assms(7,8) by (simp add: sb pairingCreateResponse_unjson_def pairingCreateResponse_put_def json_codec P base32_lower_utf8)
  then have p: "createPairing buildPairingURL post url = Inr ?p"
    using assms(2-6) sb(1) by (simp add: createPairing_def P ne)
  have "path_segments (CHR ''/'' # strings_Join (''v1'' # [''sessions'', ?tok b2] @ [''ws'']) ''/'') =
      ''v1'' # [''sessions'', ?tok b2] @ [''ws'']"
    by (rule path_segments_build) (use base32_lower_chars(3) [of "CHR ''/''" b2] in auto)
  then have seg: "path_segments (''/v1/sessions/'' @ ?tok b2 @ ''/ws'') = [''v1'', ''sessions'', ?tok b2, ''ws'']"
    by simp
  have "strings_HasSuffix (''/v1/sessions/'' @ ?tok b2 @ ''/ws'') ''/ws''"
    unfolding HasSuffix_iff by (rule exI [of _ "''/v1/sessions/'' @ ?tok b2"]) simp
  moreover have "ValidateSessionKey now' (?tok b2) (?tok b3) s' = Some RolePC"
    using heap assms(9) by (simp add: ValidateSessionKey_def P nth_append)
  moreover have "strings_TrimSpace ''pc'' = ''pc''" by code_simp
  ultimately have "handleSessionWS_request (''/v1/sessions/'' @ ?tok b2 @ ''/ws'') (?tok b3) ''pc'' now' s' = Inr (?tok b2, RolePC)"
    using ne(1) [OF assms(4)] seg unfolding handleSessionWS_request_def Let_def base32_lower_trim
    by simp
  then show ?thesis using p heap(1) P by (intro exI [of _ ?p] exI [of _ P]) simp
qed

section \<open>Examples\<close>

definition ex_start_env :: "string option start_env" where
  "ex_start_env = \<lparr>seBuildPairingURL = Inr, sePost = (\<lambda>u. Reply StatusCreated (Some (JObj [(''code'', JStr ''AB''),
       (''sessionId'', JStr ''s1''), (''pcDeviceKey'', JStr ''k1''), (''expiresAt'', JInt 9)]))),
     seBuildSessionWSURL = (\<lambda>u s k r. Inr u), seDial = (\<lambda>u. None), seNewPeerConnection = Inr None\<rparr>"

definition ex_manager :: "(MockAdapter, string option) P2PSessionManager" where
  "ex_manager = NewP2PSessionManager 0 ex_agent []"

definition ex_started :: "(MockAdapter, string option) P2PSessionManager" where
  "ex_started = snd (P2P_Start 0 ex_pion ex_start_env \<lparr>sprSignalingBaseURL = []\<rparr> ex_manager)"

text \<open>The same session with its data channel open and one message received.\<close>

definition ex_open :: "message \<Rightarrow> (MockAdapter, string option) P2PSessionManager" where
  "ex_open msg = on_peer 0 (\<lambda>p. p\<lparr>peerDcReady := True, peerMessages := [msg]\<rparr>) ex_started"

lemma ex_prepare:
  "Start_prepare ex_pion ex_start_env u = Inr \<lparr>rtSessionID = ''s1'', rtPairingCode = ''AB'', rtExpiresAt = 9, rtWsURL = u,
     rtBridge = ex_bridge SidePC, rtWsClosed = False, rtCancelled = False\<rparr>"
proof -
  have "NewPeer ex_pion (webrtc_DefaultConfig SidePC) (Inr None) = Inr (ex_peer SidePC)" by code_simp
  moreover have "pairingCreateResponse_unjson (JObj [(''code'', JStr ''AB''),
       (''sessionId'', JStr ''s1''), (''pcDeviceKey'', JStr ''k1''), (''expiresAt'', JInt 9)]) =
      Inr \<lparr>pcrCode = ''AB'', pcrSessionID = ''s1'', pcrPCDeviceKey = ''k1'', pcrExpiresAt = 9\<rparr>" by code_simp
  ultimately show ?thesis
    by (simp add: Start_prepare_def createPairing_def ex_start_env_def NewSignalBridge_def ex_bridge_def)
qed

lemma ex_started_simps:
  "pmActive ex_started = Some 0" "length (pmRuntimes ex_started) = 1" "rtSessionID (pmRuntimes ex_started ! 0) = ''s1''"
  "rt_peer 0 ex_started = ex_peer SidePC" "agOrc (pmAgent ex_started) = Some ex_orc"
  "agAcks (pmAgent ex_started) = Some (NewAckTracker 0)"
  by (simp_all add: ex_started_def P2P_Start_def Start_check_def ex_manager_def NewP2PSessionManager_def ex_prepare
      Start_install_def P2P_Status_def conn_call_def updateStateSnapshot_def rt_peer_def rt_bridge_def ex_bridge_def ex_agent_def Let_def)



lemma ex_sends:
  "peerDcReady p \<Longrightarrow> peerHasDC p \<Longrightarrow> \<not> peerClosed p \<Longrightarrow> send_all ex_pion es p = Some p"
  by (induction es) (simp_all add: Peer_Send_def ex_pion_def)

lemma ex_open_simps:
  "length (pmRuntimes (ex_open msg)) = 1" "rtSessionID (pmRuntimes (ex_open msg) ! 0) = ''s1''"
  "rt_peer 0 (ex_open msg) = (ex_peer SidePC)\<lparr>peerDcReady := True, peerMessages := [msg]\<rparr>"
  "pmAgent (ex_open msg) = pmAgent ex_started"
  by (simp_all add: ex_open_def ex_started_simps)

lemma p2p_message_answered_witness:
  "\<exists>m' a. peerMessageLoop_turn 0 0 ex_pion (\<lambda>_. mock_adapter) 0 (ex_open (MsgJson (Envelope_json ex_prompt))) = Some (True, m') \<and>
     is_ack ex_prompt True a"
proof -
  let ?r = "run_state (Orchestrator_HandleEnvelope mock_adapter ex_prompt) ex_orc"
  let ?m = "ex_open (MsgJson (Envelope_json ex_prompt))"
  obtain es where r: "fst ?r = (es, None)"
    using prompt_flow [OF orc.reach_inv [OF ex_reach] ex_clock(1) ex_room(1) ex_prompt_decodes ex_mock_serves
        prod.collapse [symmetric]] by (auto simp: job_started_def)
  have ok: "Envelope_ok ex_prompt" "SID ex_prompt = ''s1''" by code_simp+
  have "\<exists>m' t'. peerMessageLoop_turn 0 0 ex_pion (\<lambda>_. mock_adapter) 0 ?m = Some (True, m') \<and>
     rt_peer 0 m' = (rt_peer 0 ?m)\<lparr>peerMessages := []\<rparr> \<and>
     agOrc (pmAgent m') = Some (snd ?r) \<and> agAcks (pmAgent m') = Some t' \<and> es \<noteq> [] \<and> is_ack ex_prompt ((None :: goerror option) = None) (hd es) \<and>
     (\<forall>e \<in> set (tl es). map_of (pending t') (RID e) \<noteq> None)"
    by (rule p2p_message_answered [where t = "NewAckTracker 0", OF _ _ ok(1) ex_prompt_decodes(1) _ _ _ _ ex_clock(1) ex_room(1) _ ex_sends])
      (use ok r in \<open>simp_all add: ex_open_simps ex_started_simps ex_prompt_decodes ex_peer_def prod_eq_iff\<close>)
  then show ?thesis by auto
qed

lemma foreign_message_dropped_witness:
  "\<exists>m'. peerMessageLoop_turn 0 0 ex_pion (\<lambda>_. mock_adapter) 0 (ex_open MsgOther) = Some (True, m') \<and>
     pmAgent m' = pmAgent (ex_open MsgOther)"
  using foreign_message_dropped [of 0 "ex_open MsgOther" MsgOther "[]" 0 0 ex_pion "\<lambda>_. mock_adapter"]
  by (auto simp: ex_open_simps)


lemma pairing_handshake_witness:
  "\<exists>p (pairing :: Pairing) (s' :: Store). createPairing Inr (\<lambda>_. Reply (fst (fst (handlePairings ''POST'' 0 [] (Inr ''a'') (Inr ''b'') (Inr ''c'') 0 (NewStore Minute))))
     (Some (snd (fst (handlePairings ''POST'' 0 [] (Inr ''a'') (Inr ''b'') (Inr ''c'') 0 (NewStore Minute)))))) ''u'' = Inr p \<and>
     pcrSessionID p = pgSessionID pairing \<and>
     handleSessionWS_request (''/v1/sessions/'' @ pcrSessionID p @ ''/ws'') (pcrPCDeviceKey p) ''pc'' 1 s' = Inr (pcrSessionID p, RolePC)"
proof -
  let ?h = "handlePairings ''POST'' 0 [] (Inr ''a'') (Inr ''b'') (Inr ''c'') 0 (NewStore Minute)"
  have h: "?h = ((fst (fst ?h), snd (fst ?h)), snd ?h)" by simp
  have "minInt64 \<le> UnixMilli (0 + psTtl (NewStore Minute))" "UnixMilli (0 + psTtl (NewStore Minute)) \<le> maxInt64"
    "1 \<le> 0 + psTtl (NewStore Minute)"
    by (simp_all add: NewStore_def Minute_def Second_def Millisecond_def UnixMilli_def minInt64_def maxInt64_def)
  note * = pairing_handshake [OF h _ _ _ _ _ this, of Inr "''u''" "''u''" "\<lambda>_. Reply (fst (fst ?h)) (Some (snd (fst ?h)))"]
  have "''a'' \<noteq> []" "''b'' \<noteq> []" "''c'' \<noteq> []" by simp_all
  from * [OF this refl refl] show ?thesis by blast
qed

text \<open>
  \<open>Start\<close> looks at \<open>m.active\<close> in one critical section and installs the runtime in another, so two
  calls that run at the same time can both pass the check: the second session replaces the
  first, which keeps running, and no \<open>Stop\<close> reaches it any more.
\<close>

lemma concurrent_starts_leak:
  assumes "pmActive m = None" "\<not> rtCancelled rt1" "\<not> rtCancelled rt2"
  shows "Start_check m = None \<and>
    (let m2 = Start_install now url2 rt2 (Start_install now url1 rt1 m) in
     pmActive m2 = Some (Suc (length (pmRuntimes m))) \<and> \<not> ctx_done (length (pmRuntimes m)) m2 \<and>
     \<not> ctx_done (length (pmRuntimes m)) (snd (P2P_Stop now L order m2)))"
proof -
  let ?m2 = "Start_install now url2 rt2 (Start_install now url1 rt1 m)"
  have a: "pmActive ?m2 = Some (Suc (length (pmRuntimes m)))" "pmRuntimes ?m2 = pmRuntimes m @ [rt1, rt2]"
    by (simp_all add: Start_install_def conn_call_def updateStateSnapshot_def)
  have "pmRuntimes (snd (P2P_Stop now L order ?m2)) = pmRuntimes m @ [rt1, rt2\<lparr>rtCancelled := True, rtWsClosed := True,
      rtBridge := (rtBridge rt2)\<lparr>brPeer := snd (Peer_Close L (brPeer (rtBridge rt2)))\<rparr>\<rparr>]"
    unfolding P2P_Stop_def a by (simp add: a conn_call_def updateStateSnapshot_def nth_append list_update_append Let_def)
  with assms a show ?thesis by (simp add: Start_check_def ctx_done_def nth_append Let_def)
qed

end
