(* ===== verification/Go_Sha1.thy ===== *)
theory Go_Sha1
  imports Go_Prelude "HOL-Library.Word"
begin

text \<open>
  \<open>crypto/sha1\<close>, which the patch parser uses to name hunks: the digest over 32-bit words as
  FIPS 180-4 defines it, and the \<open>%x\<close> format of a byte slice.
\<close>

unbundle bit_operations_syntax

type_synonym word32 = "32 word"

definition byte_word :: "char \<Rightarrow> word32" where
  "byte_word c = of_nat (byte c)"

text \<open>Big-endian words of a list of bytes whose length is a multiple of four, and back.\<close>

fun be_words :: "string \<Rightarrow> word32 list" where
  "be_words (a # b # c # d # cs) =
     (push_bit 24 (byte_word a) OR push_bit 16 (byte_word b) OR push_bit 8 (byte_word c) OR byte_word d) # be_words cs"
| "be_words _ = []"

definition be_bytes :: "word32 \<Rightarrow> string" where
  "be_bytes w = map (\<lambda>n. char_of (unat (drop_bit n w) mod 256)) [24, 16, 8, 0]"

definition be_length :: "nat \<Rightarrow> string" where
  "be_length n = map (\<lambda>i. char_of (n div 256 ^ i mod 256)) [7, 6, 5, 4, 3, 2, 1, 0]"

definition sha1_pad :: "string \<Rightarrow> string" where
  "sha1_pad m = m @ [CHR 0x80] @ replicate ((119 - length m mod 64) mod 64) (CHR 0x00) @ be_length (8 * length m)"

text \<open>The message schedule, in reverse order of the indices.\<close>

fun schedule :: "nat \<Rightarrow> word32 list \<Rightarrow> word32 list" where
  "schedule 0 ws = ws"
| "schedule (Suc n) ws =
     schedule n (word_rotl 1 (ws ! 2 XOR ws ! 7 XOR ws ! 13 XOR ws ! 15) # ws)"

type_synonym sha1_state = "word32 \<times> word32 \<times> word32 \<times> word32 \<times> word32"

definition sha1_f :: "nat \<Rightarrow> word32 \<Rightarrow> word32 \<Rightarrow> word32 \<Rightarrow> word32 \<times> word32" where
  "sha1_f t b c d =
     (if t < 20 then ((b AND c) OR (NOT b AND d), 0x5A827999)
      else if t < 40 then (b XOR c XOR d, 0x6ED9EBA1)
      else if t < 60 then ((b AND c) OR (b AND d) OR (c AND d), 0x8F1BBCDC)
      else (b XOR c XOR d, 0xCA62C1D6))"

fun sha1_rounds :: "nat \<Rightarrow> word32 list \<Rightarrow> sha1_state \<Rightarrow> sha1_state" where
  "sha1_rounds t [] st = st"
| "sha1_rounds t (w # ws) (a, b, c, d, e) =
     (let (f, k) = sha1_f t b c d
      in sha1_rounds (Suc t) ws (word_rotl 5 a + f + e + k + w, a, word_rotl 30 b, c, d))"

definition sha1_block :: "sha1_state \<Rightarrow> word32 list \<Rightarrow> sha1_state" where
  "sha1_block st block =
     (case st of (a, b, c, d, e) \<Rightarrow>
      case sha1_rounds 0 (rev (schedule 64 (rev block))) st of (a', b', c', d', e') \<Rightarrow>
        (a + a', b + b', c + c', d + d', e + e'))"

fun sha1_blocks :: "nat \<Rightarrow> word32 list \<Rightarrow> sha1_state \<Rightarrow> sha1_state" where
  "sha1_blocks 0 ws st = st"
| "sha1_blocks (Suc n) ws st = sha1_blocks n (drop 16 ws) (sha1_block st (take 16 ws))"

definition sha1_Sum :: "string \<Rightarrow> string" where
  "sha1_Sum m =
     (let ws = be_words (sha1_pad m)
      in case sha1_blocks (length ws div 16) ws (0x67452301, 0xEFCDAB89, 0x98BADCFE, 0x10325476, 0xC3D2E1F0) of
           (a, b, c, d, e) \<Rightarrow> be_bytes a @ be_bytes b @ be_bytes c @ be_bytes d @ be_bytes e)"

definition hex_digit :: "nat \<Rightarrow> char" where
  "hex_digit n = ''0123456789abcdef'' ! n"

definition hex_string :: "string \<Rightarrow> string" where
  "hex_string s = concat (map (\<lambda>c. [hex_digit (byte c div 16), hex_digit (byte c mod 16)]) s)"

text \<open>The padded message is a whole number of blocks.\<close>

lemma sha1_pad_blocks: "length (sha1_pad m) mod 64 = 0"
proof -
  have "(r + 1 + (119 - r) mod 64 + 8) mod 64 = 0" if "r < 64" for r :: nat
  proof (cases "r \<le> 55")
    case True
    then have "(119 - r) mod 64 = 55 - r" using mod_add_self2 [of "55 - r" 64] by simp
    with True show ?thesis by simp
  next
    case False
    with that have "(119 - r) mod 64 = 119 - r" by simp
    with False that show ?thesis by simp
  qed
  from this [of "length m mod 64"] have "(length m mod 64 + (1 + (119 - length m mod 64) mod 64 + 8)) mod 64 = 0"
    by (simp add: ac_simps)
  then have "(length m + (1 + (119 - length m mod 64) mod 64 + 8)) mod 64 = 0"
    by (simp only: mod_add_left_eq)
  then show ?thesis by (simp add: sha1_pad_def be_length_def ac_simps)
qed

end
