(* ===== verification/Unified_Patch.thy ===== *)
theory Unified_Patch
  imports Adapter Go_Sha1
begin

text \<open>
  The patch part of \<open>internal/agent/cursor_agent_cli_adapter.go\<close>: the parser of the unified diff
  that git writes, the ids of its hunks, the selection of hunks and the text that is handed back
  to \<open>git apply\<close>. \<open>win\<close> says whether the program runs on Windows (\<open>filepath.ToSlash\<close>).
\<close>

section \<open>Standard library\<close>

definition ToSlash :: "bool \<Rightarrow> string \<Rightarrow> string" where
  "ToSlash win s = (if win then map (\<lambda>c. if c = CHR 0x5C then CHR ''/'' else c) s else s)"

text \<open>\<open>strings.Fields\<close>: the maximal runs of bytes that hold no white space.\<close>

definition starts_space :: "string \<Rightarrow> bool" where
  "starts_space s \<longleftrightarrow> list_ex (\<lambda>p. strings_HasPrefix s p) space_seqs"

fun split_field :: "string \<Rightarrow> string \<times> string" where
  "split_field [] = ([], [])"
| "split_field (c # cs) =
     (if starts_space (c # cs) then ([], c # cs)
      else (case split_field cs of (a, b) \<Rightarrow> (c # a, b)))"

lemma split_field_length: "length (snd (split_field s)) \<le> length s"
  by (induction s) (auto split: prod.splits)

lemma trim_seqs_length: "length (trim_seqs seqs s) \<le> length s"
  using trim_seqs_suffix [of s seqs] by (metis le_add2 length_append)

lemma split_field_shorter:
  assumes "trim_seqs space_seqs s = c # cs"
  shows "length (snd (split_field (c # cs))) < length s"
proof -
  have "\<not> starts_space (c # cs)"
    using trim_seqs_no_prefix [of _ space_seqs s] space_seqs_nonempty assms
    by (auto simp: starts_space_def list_ex_iff)
  then have "snd (split_field (c # cs)) = snd (split_field cs)" by (simp split: prod.split)
  then show ?thesis
    using split_field_length [of cs] trim_seqs_length [of space_seqs s] assms by simp
qed

function strings_Fields :: "string \<Rightarrow> string list" where
  "strings_Fields s =
     (case trim_seqs space_seqs s of
        [] \<Rightarrow> []
      | c # cs \<Rightarrow> fst (split_field (c # cs)) # strings_Fields (snd (split_field (c # cs))))"
  by pat_completeness auto
termination
  by (relation "measure length") (auto dest: split_field_shorter)

declare strings_Fields.simps [simp del]

section \<open>Types\<close>

record unifiedPatchHunk =
  uhHunkID :: string
  uhHeader :: string
  uhLines :: "string list"

record unifiedPatchFile =
  ufPath :: string
  ufStatus :: string
  ufHeaderLines :: "string list"
  ufHunks :: "unifiedPatchHunk list"

record unifiedPatch =
  upFiles :: "unifiedPatchFile list"

section \<open>Parsing\<close>

definition parsePatchPath :: "bool \<Rightarrow> string \<Rightarrow> string" where
  "parsePatchPath win v =
     (let v = strings_TrimSpace v;
          v = strings_Trim v [CHR 0x22];
          v = (if strings_HasPrefix v ''a/'' \<or> strings_HasPrefix v ''b/'' then drop 2 v else v)
      in ToSlash win v)"

definition parseDiffGitPath :: "bool \<Rightarrow> string \<Rightarrow> string" where
  "parseDiffGitPath win line =
     (let parts = strings_Fields line in
      if length parts \<ge> 4 then
        let candidate = parsePatchPath win (parts ! 3) in
        if candidate \<noteq> [] \<and> candidate \<noteq> ''/dev/null'' then candidate
        else let candidate = parsePatchPath win (parts ! 2) in
          if candidate \<noteq> [] \<and> candidate \<noteq> ''/dev/null'' then candidate else []
      else [])"

definition makeHunkID :: "string \<Rightarrow> string \<Rightarrow> string list \<Rightarrow> int \<Rightarrow> string" where
  "makeHunkID path header lines index =
     (let hash = sha1_Sum (path @ [LF] @ header @ [LF] @ strings_Join lines [LF])
      in ''h'' @ Itoa index @ ''_'' @ hex_string (take 4 hash))"

text \<open>The variables of \<open>parseUnifiedPatch\<close> and its two closures.\<close>

record parse_state =
  prsFiles :: "unifiedPatchFile list"
  prsCurrent :: "unifiedPatchFile option"
  prsHunk :: "unifiedPatchHunk option"
  prsIndex :: int

definition flushHunk :: "parse_state \<Rightarrow> parse_state" where
  "flushHunk s =
     (case prsCurrent s of
        None \<Rightarrow> s
      | Some current \<Rightarrow>
          (case prsHunk s of
             None \<Rightarrow> s
           | Some h \<Rightarrow>
               let index = prsIndex s + 1;
                   h = h\<lparr>uhHunkID := makeHunkID (ufPath current) (uhHeader h) (uhLines h) index\<rparr>
               in s\<lparr>prsIndex := index, prsCurrent := Some (current\<lparr>ufHunks := ufHunks current @ [h]\<rparr>), prsHunk := None\<rparr>))"

definition flushFile :: "parse_state \<Rightarrow> parse_state" where
  "flushFile s =
     (if prsCurrent s = None then s
      else
        let s = flushHunk s in
        case prsCurrent s of
          None \<Rightarrow> s
        | Some current \<Rightarrow>
            let current = (if ufStatus current = [] then current\<lparr>ufStatus := ''modified''\<rparr> else current)
            in s\<lparr>prsFiles := prsFiles s @ [current], prsCurrent := None, prsIndex := 0\<rparr>)"

definition header_line :: "bool \<Rightarrow> string \<Rightarrow> unifiedPatchFile \<Rightarrow> unifiedPatchFile" where
  "header_line win line current =
     (let current = current\<lparr>ufHeaderLines := ufHeaderLines current @ [line]\<rparr> in
      if strings_HasPrefix line ''new file mode '' then current\<lparr>ufStatus := ''added''\<rparr>
      else if strings_HasPrefix line ''deleted file mode '' then current\<lparr>ufStatus := ''deleted''\<rparr>
      else if strings_HasPrefix line ''rename from '' \<or> strings_HasPrefix line ''rename to ''
        then current\<lparr>ufStatus := ''renamed''\<rparr>
      else if strings_HasPrefix line ''+++ '' then
        (let path = parsePatchPath win (strings_TrimSpace (drop 4 line))
         in if path \<noteq> [] \<and> path \<noteq> ''/dev/null'' then current\<lparr>ufPath := path\<rparr> else current)
      else current)"

definition parse_line :: "bool \<Rightarrow> string \<Rightarrow> parse_state \<Rightarrow> parse_state" where
  "parse_line win line s =
     (if strings_HasPrefix line ''diff --git '' then
        (flushFile s)\<lparr>prsCurrent := Some \<lparr>ufPath = parseDiffGitPath win line, ufStatus = ''modified'',
           ufHeaderLines = [line], ufHunks = []\<rparr>\<rparr>
      else case prsCurrent s of
        None \<Rightarrow> s
      | Some current \<Rightarrow>
          if strings_HasPrefix line ''@@ '' then
            (flushHunk s)\<lparr>prsHunk := Some \<lparr>uhHunkID = [], uhHeader = line, uhLines = []\<rparr>\<rparr>
          else case prsHunk s of
            Some h \<Rightarrow> s\<lparr>prsHunk := Some (h\<lparr>uhLines := uhLines h @ [line]\<rparr>)\<rparr>
          | None \<Rightarrow> s\<lparr>prsCurrent := Some (header_line win line current)\<rparr>)"

definition parseUnifiedPatch :: "bool \<Rightarrow> string \<Rightarrow> unifiedPatch" where
  "parseUnifiedPatch win raw =
     (let raw = crlf_to_lf raw in
      if strings_TrimSpace raw = [] then \<lparr>upFiles = []\<rparr>
      else \<lparr>upFiles = prsFiles (flushFile (fold (parse_line win) (strings_Split raw LF)
             \<lparr>prsFiles = [], prsCurrent = None, prsHunk = None, prsIndex = 0\<rparr>))\<rparr>)"

section \<open>Payloads\<close>

definition hunk_payload :: "unifiedPatchHunk \<Rightarrow> Hunk" where
  "hunk_payload h = \<lparr>hunkHunkID = uhHunkID h, hunkHeader = uhHeader h,
     hunkDiff = strings_Join (uhLines h) [LF], hunkRisk = ''medium''\<rparr>"

definition file_payload :: "unifiedPatchFile \<Rightarrow> FilePatch" where
  "file_payload f = \<lparr>fpPath = ufPath f, fpStatus = ufStatus f, fpHunks = map hunk_payload (ufHunks f)\<rparr>"

definition toPatchReadyPayload :: "string \<Rightarrow> unifiedPatch \<Rightarrow> PatchReadyPayload" where
  "toPatchReadyPayload summary p =
     (let files = map file_payload (upFiles p);
          summary = (if summary = [] then
             (if files = [] then ''Cursor Agent completed without code changes''
              else ''Cursor Agent proposed changes in '' @ Itoa (int (length files)) @ '' file(s)'')
             else summary)
      in \<lparr>prJobID = [], prSummary = summary, prFiles = files\<rparr>)"

definition clonePatchReadyPayload :: "PatchReadyPayload option \<Rightarrow> PatchReadyPayload option" where
  "clonePatchReadyPayload input =
     (case input of
        None \<Rightarrow> None
      | Some p \<Rightarrow> Some \<lparr>prJobID = prJobID p, prSummary = prSummary p,
          prFiles = map (\<lambda>f. \<lparr>fpPath = fpPath f, fpStatus = fpStatus f, fpHunks = fpHunks f\<rparr>) (prFiles p)\<rparr>)"

definition countHunks :: "unifiedPatch \<Rightarrow> int" where
  "countHunks p = fold (\<lambda>f n. n + int (length (ufHunks f))) (upFiles p) 0"

section \<open>Selection and rendering\<close>

definition render_line :: "string \<Rightarrow> string" where
  "render_line l = l @ [LF]"

definition render_hunk :: "unifiedPatchHunk \<Rightarrow> string" where
  "render_hunk h = render_line (uhHeader h) @ concat (map render_line (uhLines h))"

definition render_file :: "unifiedPatchFile \<Rightarrow> string" where
  "render_file f = concat (map render_line (ufHeaderLines f)) @ concat (map render_hunk (ufHunks f))"

fun render_files :: "nat \<Rightarrow> unifiedPatchFile list \<Rightarrow> string" where
  "render_files index [] = []"
| "render_files index (f # fs) = (if index > 0 then [LF] else []) @ render_file f @ render_files (Suc index) fs"

definition renderUnifiedPatch :: "unifiedPatch \<Rightarrow> string" where
  "renderUnifiedPatch p = render_files 0 (upFiles p)"

text \<open>The map from paths to sets of hunk ids, and the loop over the files of the task.\<close>

type_synonym selection = "(string, (string, unit) gomap) gomap"

definition select_entry :: "SelectedHunk \<Rightarrow> selection \<Rightarrow> selection" where
  "select_entry entry selected =
     (let selected = (case map_of selected (shPath entry) of None \<Rightarrow> AList.update (shPath entry) [] selected | Some _ \<Rightarrow> selected)
      in fold (\<lambda>hunkID selected. case map_of selected (shPath entry) of
                 None \<Rightarrow> selected
               | Some ids \<Rightarrow> AList.update (shPath entry) (AList.update hunkID () ids) selected)
           (shHunkIDs entry) selected)"

fun select_hunks :: "(string, unit) gomap \<Rightarrow> unifiedPatchHunk list \<Rightarrow> unifiedPatchHunk list \<times> int \<Rightarrow> unifiedPatchHunk list \<times> int" where
  "select_hunks ids [] acc = acc"
| "select_hunks ids (h # hs) (kept, n) =
     (if map_of ids (uhHunkID h) = None then select_hunks ids hs (kept, n) else select_hunks ids hs (kept @ [h], n + 1))"

fun filter_files :: "selection \<Rightarrow> unifiedPatchFile list \<Rightarrow> unifiedPatchFile list \<times> int \<Rightarrow> unifiedPatchFile list \<times> int" where
  "filter_files selected [] acc = acc"
| "filter_files selected (f # fs) (files, n) =
     (case map_of selected (ufPath f) of
        None \<Rightarrow> filter_files selected fs (files, n)
      | Some ids \<Rightarrow>
          (case select_hunks ids (ufHunks f) ([], n) of
             (hunks, n) \<Rightarrow>
               if hunks = [] then filter_files selected fs (files, n)
               else filter_files selected fs (files @ [\<lparr>ufPath = ufPath f, ufStatus = ufStatus f,
                      ufHeaderLines = ufHeaderLines f, ufHunks = hunks\<rparr>], n)))"

definition buildPatchForApply :: "string \<Rightarrow> unifiedPatch \<Rightarrow> ApplyPatchInput \<Rightarrow> (string \<times> int) result" where
  "buildPatchForApply rawDiff parsed input =
     (if apiMode input = ''all'' \<or> apiMode input = [] then Inr (rawDiff, countHunks parsed)
      else if apiMode input = ''selected'' then
        (if apiSelected input = [] then Inl (ErrNew ''selected mode requires hunk selection'')
         else
           let selected = fold select_entry (apiSelected input) [];
               (files, selectedCount) = filter_files selected (upFiles parsed) ([], 0)
           in if selectedCount = 0 then Inl (ErrNew ''selected hunks not found in patch'')
              else Inr (renderUnifiedPatch \<lparr>upFiles = files\<rparr>, selectedCount))
      else Inl (ErrNew (''unsupported patch apply mode: '' @ apiMode input)))"

end
