(* ===== verification/Go_Os.thy ===== *)
theory Go_Os
  imports Go_Monad
begin

text \<open>
  The operating system as the adapters see it: processes (\<open>os/exec\<close>), files and directories
  (\<open>os\<close>), the paths of the platform (\<open>path/filepath\<close>) and the clock are the fields of the record
  \<open>OS\<close>, functions over a state \<open>'w\<close> of which nothing is known. \<open>traced\<close> is the same system with
  a log of its effects, so that a property can speak of what a program did to it.
\<close>

section \<open>Contexts\<close>

datatype go_context = Background | Request bool | WithTimeout go_context duration

fun has_deadline :: "go_context \<Rightarrow> bool" where
  "has_deadline Background = False"
| "has_deadline (Request deadline) = deadline"
| "has_deadline (WithTimeout ctx d) = True"

section \<open>Operations\<close>

record command =
  cmdCtx :: go_context
  cmdDir :: string
  cmdEnv :: "string list option"
  cmdStdin :: "string option"
  cmdName :: string
  cmdArgs :: "string list"

record file_info =
  fiIsDir :: bool
  fiMode :: int

record 'w OS =
  osWindows :: bool
  osEnviron :: "string list"
  osJoin :: "string list \<Rightarrow> string"
  osDir :: "string \<Rightarrow> string"
  osRun :: "command \<Rightarrow> 'w \<Rightarrow> (string \<times> string \<times> goerror option) \<times> 'w"
  osLookPath :: "string \<Rightarrow> 'w \<Rightarrow> string result \<times> 'w"
  osGetwd :: "'w \<Rightarrow> string result \<times> 'w"
  osMkdirTemp :: "string \<Rightarrow> string \<Rightarrow> 'w \<Rightarrow> string result \<times> 'w"
  osRemoveAll :: "string \<Rightarrow> 'w \<Rightarrow> goerror option \<times> 'w"
  osStat :: "string \<Rightarrow> 'w \<Rightarrow> file_info result \<times> 'w"
  osMkdirAll :: "string \<Rightarrow> 'w \<Rightarrow> goerror option \<times> 'w"
  osOpen :: "string \<Rightarrow> 'w \<Rightarrow> goerror option \<times> 'w"
  osCreate :: "string \<Rightarrow> 'w \<Rightarrow> goerror option \<times> 'w"
  osCopy :: "string \<Rightarrow> string \<Rightarrow> 'w \<Rightarrow> goerror option \<times> 'w"
  osChmod :: "string \<Rightarrow> int \<Rightarrow> 'w \<Rightarrow> goerror option \<times> 'w"
  osNow :: "'w \<Rightarrow> instant \<times> 'w"

section \<open>Programs that may fail\<close>

text \<open>\<open>if err != nil { return err }\<close>, for calls with a result and for calls with an error only.\<close>

definition try_bind :: "('s, 'a result) state \<Rightarrow> ('a \<Rightarrow> ('s, 'b result) state) \<Rightarrow> ('s, 'b result) state" where
  "try_bind m f = State_Monad.bind m (\<lambda>r. case r of Inl e \<Rightarrow> State_Monad.return (Inl e) | Inr x \<Rightarrow> f x)"

definition err_bind :: "('s, goerror option) state \<Rightarrow> ('s, goerror option) state \<Rightarrow> ('s, goerror option) state" where
  "err_bind m n = State_Monad.bind m (\<lambda>r. case r of Some e \<Rightarrow> State_Monad.return (Some e) | None \<Rightarrow> n)"

definition as_result :: "('s, goerror option) state \<Rightarrow> ('s, unit result) state" where
  "as_result m = State_Monad.bind m (\<lambda>r. State_Monad.return (case r of Some e \<Rightarrow> Inl e | None \<Rightarrow> Inr ()))"

definition as_error :: "('s, 'a result) state \<Rightarrow> ('s, goerror option) state" where
  "as_error m = State_Monad.bind m (\<lambda>r. State_Monad.return (case r of Inl e \<Rightarrow> Some e | Inr _ \<Rightarrow> None))"

text \<open>\<open>fmt.Errorf("pre: %w", err)\<close>\<close>

definition wrap_error :: "string \<Rightarrow> ('s, 'a result) state \<Rightarrow> ('s, 'a result) state" where
  "wrap_error pre m = State_Monad.bind m (\<lambda>r. State_Monad.return (case r of Inl e \<Rightarrow> Inl (ErrWrap pre e []) | Inr x \<Rightarrow> Inr x))"

section \<open>The log of effects\<close>

datatype effect =
    Ran command "string \<times> string \<times> goerror option"
  | MadeTemp string "string result"
  | RemovedAll string
  | MadeDir string
  | Created string
  | Copied string string
  | Chmodded string

definition logged :: "('r \<Rightarrow> effect) \<Rightarrow> ('w \<Rightarrow> 'r \<times> 'w) \<Rightarrow> 'w \<times> effect list \<Rightarrow> 'r \<times> 'w \<times> effect list" where
  "logged e f = (\<lambda>(w, tr). case f w of (r, w') \<Rightarrow> (r, (w', tr @ [e r])))"

definition silent :: "('w \<Rightarrow> 'r \<times> 'w) \<Rightarrow> 'w \<times> effect list \<Rightarrow> 'r \<times> 'w \<times> effect list" where
  "silent f = (\<lambda>(w, tr). case f w of (r, w') \<Rightarrow> (r, (w', tr)))"

definition traced :: "'w OS \<Rightarrow> ('w \<times> effect list) OS" where
  "traced os =
     \<lparr>osWindows = osWindows os, osEnviron = osEnviron os, osJoin = osJoin os, osDir = osDir os,
      osRun = (\<lambda>c. logged (Ran c) (osRun os c)),
      osLookPath = (\<lambda>f. silent (osLookPath os f)),
      osGetwd = silent (osGetwd os),
      osMkdirTemp = (\<lambda>d p. logged (MadeTemp d) (osMkdirTemp os d p)),
      osRemoveAll = (\<lambda>p. logged (\<lambda>_. RemovedAll p) (osRemoveAll os p)),
      osStat = (\<lambda>p. silent (osStat os p)),
      osMkdirAll = (\<lambda>p. logged (\<lambda>_. MadeDir p) (osMkdirAll os p)),
      osOpen = (\<lambda>p. silent (osOpen os p)),
      osCreate = (\<lambda>p. logged (\<lambda>_. Created p) (osCreate os p)),
      osCopy = (\<lambda>s t. logged (\<lambda>_. Copied s t) (osCopy os s t)),
      osChmod = (\<lambda>p m. logged (\<lambda>_. Chmodded p) (osChmod os p m)),
      osNow = silent (osNow os)\<rparr>"

section \<open>Lemmas\<close>

lemma wp_case_prod [wp]: "wp (case p of (a, b) \<Rightarrow> f a b) Q s \<longleftrightarrow> (case p of (a, b) \<Rightarrow> wp (f a b) Q s)"
  by (cases p) simp

lemma traced_fields [simp]:
  "osWindows (traced os) = osWindows os" "osJoin (traced os) = osJoin os" "osDir (traced os) = osDir os"
  "osEnviron (traced os) = osEnviron os"
  by (simp_all add: traced_def)

text \<open>\<open>emits C m\<close>: whatever happens, a program only appends effects to the log that satisfy \<open>C\<close>.\<close>

definition emits :: "(effect \<Rightarrow> bool) \<Rightarrow> ('w \<times> effect list, 'a) state \<Rightarrow> bool" where
  "emits C m \<longleftrightarrow> (\<forall>w tr. \<exists>es. snd (snd (run_state m (w, tr))) = tr @ es \<and> list_all C es)"

named_theorems emits \<open>effects of programs\<close>

lemma emits_bind [emits]: "emits C m \<Longrightarrow> (\<And>x. emits C (f x)) \<Longrightarrow> emits C (State_Monad.bind m f)"
proof (unfold emits_def, intro allI)
  fix w tr
  assume m: "\<forall>w tr. \<exists>es. snd (snd (run_state m (w, tr))) = tr @ es \<and> list_all C es"
    and f: "\<And>x. \<forall>w tr. \<exists>es. snd (snd (run_state (f x) (w, tr))) = tr @ es \<and> list_all C es"
  obtain x w' tr' where r: "run_state m (w, tr) = (x, (w', tr'))" by (metis prod.exhaust)
  obtain es where es: "tr' = tr @ es" "list_all C es" using m [rule_format, of w tr] r by auto
  obtain fs where fs: "snd (snd (run_state (f x) (w', tr'))) = tr' @ fs" "list_all C fs"
    using f [of x, rule_format, of w' tr'] by auto
  show "\<exists>es. snd (snd (run_state (State_Monad.bind m f) (w, tr))) = tr @ es \<and> list_all C es"
    by (rule exI [of _ "es @ fs"]) (use es fs in \<open>simp add: r\<close>)
qed

lemma emits_return [emits]: "emits C (State_Monad.return x)"
  by (simp add: emits_def)

lemma emits_if [emits]: "(b \<Longrightarrow> emits C m) \<Longrightarrow> (\<not> b \<Longrightarrow> emits C n) \<Longrightarrow> emits C (if b then m else n)"
  by simp

lemma emits_case_option [emits]:
  "(x = None \<Longrightarrow> emits C m) \<Longrightarrow> (\<And>y. x = Some y \<Longrightarrow> emits C (f y)) \<Longrightarrow> emits C (case x of None \<Rightarrow> m | Some y \<Rightarrow> f y)"
  by (cases x) simp_all

lemma emits_case_sum [emits]:
  "(\<And>e. x = Inl e \<Longrightarrow> emits C (f e)) \<Longrightarrow> (\<And>y. x = Inr y \<Longrightarrow> emits C (g y)) \<Longrightarrow> emits C (case x of Inl e \<Rightarrow> f e | Inr y \<Rightarrow> g y)"
  by (cases x) simp_all

lemma emits_case_prod [emits]: "(\<And>a b. x = (a, b) \<Longrightarrow> emits C (f a b)) \<Longrightarrow> emits C (case x of (a, b) \<Rightarrow> f a b)"
  by (cases x) simp

lemma emits_try_bind [emits]: "emits C m \<Longrightarrow> (\<And>x. emits C (f x)) \<Longrightarrow> emits C (try_bind m f)"
  unfolding try_bind_def by (intro emits)

lemma emits_err_bind [emits]: "emits C m \<Longrightarrow> emits C n \<Longrightarrow> emits C (err_bind m n)"
  unfolding err_bind_def by (intro emits)

lemma emits_as [emits]: "emits C m \<Longrightarrow> emits C (as_error m)" "emits C n \<Longrightarrow> emits C (as_result n)"
    "emits C m \<Longrightarrow> emits C (wrap_error p m)"
  unfolding as_error_def as_result_def wrap_error_def by (intro emits; assumption)+

lemma emits_logged: "(\<And>r. C (e r)) \<Longrightarrow> emits C (State (logged e f))"
  by (auto simp: emits_def logged_def split: prod.splits)

lemma emits_silent: "emits C (State (silent f))"
  by (auto simp: emits_def silent_def split: prod.splits)

lemma emits_ops [emits]:
  "(\<And>e. C (Ran c e)) \<Longrightarrow> emits C (State (osRun (traced os) c))"
  "emits C (State (osLookPath (traced os) f))"
  "emits C (State (osGetwd (traced os)))"
  "(\<And>r. C (MadeTemp d r)) \<Longrightarrow> emits C (State (osMkdirTemp (traced os) d p))"
  "C (RemovedAll p) \<Longrightarrow> emits C (State (osRemoveAll (traced os) p))"
  "emits C (State (osStat (traced os) p))"
  "C (MadeDir p) \<Longrightarrow> emits C (State (osMkdirAll (traced os) p))"
  "emits C (State (osOpen (traced os) p))"
  "C (Created p) \<Longrightarrow> emits C (State (osCreate (traced os) p))"
  "C (Copied s t) \<Longrightarrow> emits C (State (osCopy (traced os) s t))"
  "C (Chmodded p) \<Longrightarrow> emits C (State (osChmod (traced os) p m))"
  "emits C (State (osNow (traced os)))"
  by (auto simp: traced_def intro: emits_logged emits_silent)

lemma emits_mono: "emits C m \<Longrightarrow> (\<And>e. C e \<Longrightarrow> D e) \<Longrightarrow> emits D m"
  unfolding emits_def list_all_iff by metis

lemma emits_run:
  assumes "emits C m" "run_state m (w, tr) = (r, s)"
  obtains w' es where "s = (w', tr @ es)" "list_all C es"
proof -
  obtain es where "snd (snd (run_state m (w, tr))) = tr @ es" "list_all C es" using assms(1) by (auto simp: emits_def)
  with assms(2) that [of "fst s" es] show ?thesis by (cases s) auto
qed

lemma try_bind_ok:
  assumes "run_state (try_bind m f) s = (Inr y, s')"
  obtains x s1 where "run_state m s = (Inr x, s1)" "run_state (f x) s1 = (Inr y, s')"
  using assms by (auto simp: try_bind_def split: prod.splits sum.splits)

lemma traced_ops:
  "osRun (traced os) c (w, tr) = (case osRun os c w of (r, w') \<Rightarrow> (r, (w', tr @ [Ran c r])))"
  "osMkdirTemp (traced os) d p (w, tr) = (case osMkdirTemp os d p w of (m, w') \<Rightarrow> (m, (w', tr @ [MadeTemp d m])))"
  "osRemoveAll (traced os) p (w, tr) = (case osRemoveAll os p w of (x, w') \<Rightarrow> (x, (w', tr @ [RemovedAll p])))"
  by (simp_all add: traced_def logged_def)

lemma traced_now: "osNow (traced os) s = (t, s') \<Longrightarrow> snd s' = snd s"
  by (auto simp: traced_def silent_def split: prod.splits)

text \<open>\<open>leads m Q\<close>: the result and the new effects of a program satisfy \<open>Q\<close>.\<close>

definition leads :: "('w \<times> effect list, 'a) state \<Rightarrow> ('a \<Rightarrow> effect list \<Rightarrow> bool) \<Rightarrow> bool" where
  "leads m Q \<longleftrightarrow> (\<forall>w tr. \<exists>es. snd (snd (run_state m (w, tr))) = tr @ es \<and> Q (fst (run_state m (w, tr))) es)"

lemma leads_run:
  assumes "leads m Q" "run_state m (w, tr) = (r, s)"
  shows "\<exists>w' es. s = (w', tr @ es) \<and> Q r es"
proof -
  obtain es where "snd (snd (run_state m (w, tr))) = tr @ es" "Q (fst (run_state m (w, tr))) es"
    using assms(1) by (auto simp: leads_def)
  with assms(2) show ?thesis by (cases s) auto
qed

lemma leads_bind:
  assumes "leads m P" "\<And>x es. P x es \<Longrightarrow> leads (f x) (\<lambda>y fs. Q y (es @ fs))"
  shows "leads (State_Monad.bind m f) Q"
proof (unfold leads_def, intro allI)
  fix w tr
  obtain x s where r: "run_state m (w, tr) = (x, s)" by (rule prod.exhaust)
  obtain w' es where es: "s = (w', tr @ es)" "P x es" using leads_run [OF assms(1) r] by blast
  obtain y s' where r': "run_state (f x) (w', tr @ es) = (y, s')" by (rule prod.exhaust)
  obtain w'' fs where fs: "s' = (w'', (tr @ es) @ fs)" "Q y (es @ fs)" using leads_run [OF assms(2) [OF es(2)] r'] by blast
  show "\<exists>es. snd (snd (run_state (State_Monad.bind m f) (w, tr))) = tr @ es \<and> Q (fst (run_state (State_Monad.bind m f) (w, tr))) es"
    by (rule exI [of _ "es @ fs"]) (use es fs r' in \<open>simp add: r\<close>)
qed

lemma leads_return: "Q x [] \<Longrightarrow> leads (State_Monad.return x) Q"
  by (simp add: leads_def)

lemma leads_mono: "leads m P \<Longrightarrow> (\<And>x es. P x es \<Longrightarrow> Q x es) \<Longrightarrow> leads m Q"
  unfolding leads_def by meson

lemma leads_try_bind:
  assumes "leads m P" "\<And>e es. P (Inl e) es \<Longrightarrow> Q (Inl e) es" "\<And>x es. P (Inr x) es \<Longrightarrow> leads (f x) (\<lambda>y fs. Q y (es @ fs))"
  shows "leads (try_bind m f) Q"
  unfolding try_bind_def
  by (rule leads_bind [OF assms(1)]) (auto split: sum.split intro!: leads_return assms(2,3))

lemma leads_run_command: "(\<And>r. Q r [Ran c r]) \<Longrightarrow> leads (State (osRun (traced os) c)) Q"
  by (auto simp: leads_def traced_ops split: prod.splits)

lemma emits_leads: "emits C m \<Longrightarrow> (\<And>x es. list_all C es \<Longrightarrow> Q x es) \<Longrightarrow> leads m Q"
  unfolding emits_def leads_def by meson

end
