(* ===== verification/Cursor_Cli.thy ===== *)
theory Cursor_Cli
  imports Unified_Patch Go_Os
begin

text \<open>
  The adapter that runs the cursor-agent command (\<open>internal/agent/cursor_agent_cli_adapter.go\<close>):
  a prompt is worked on in a temporary git worktree, its diff becomes the patch of the task, and
  an approved patch is applied to the workspace with git. The operating system \<open>os\<close> and the
  context \<open>ctx\<close> of the request are arguments; \<open>parse_json\<close> is the reading of a text by
  \<open>encoding/json\<close> (\<open>None\<close>: not a JSON document).
\<close>

section \<open>Types\<close>

record CursorAgentCLIConfig =
  ccWorkspaceRoot :: string
  ccTempRoot :: string
  ccGitBin :: string
  ccCursorAgentBin :: string
  ccCursorAgentArgs :: "string list"
  ccCursorAgentEnv :: "string list"
  ccSyncIgnoredPaths :: "string list"
  ccCursorAgentUseWSL :: bool
  ccCursorAgentWSLDistro :: string
  ccCursorAgentWSLBinary :: string
  ccPromptTimeout :: duration
  ccRunTimeout :: duration

record cursorAgentTask =
  ctTaskID :: string
  ctPrompt :: string
  ctSummary :: string
  ctRawDiff :: string
  ctParsed :: unifiedPatch
  ctPatch :: "PatchReadyPayload option"
  ctCreatedAt :: instant

record 'w CursorAgentCLIAdapter =
  caCfg :: CursorAgentCLIConfig
  caTaskSeq :: int
  caRunSeq :: int
  caTasks :: "(string, cursorAgentTask) gomap"
  caRuns :: "(string, RunResult) gomap"
  caLastRunProfile :: string
  caLastRunStatus :: string
  caLatestTerminalError :: string
  caResolvedGitBin :: string
  caResolvedCursorAgent :: string
  caWorld :: 'w

record cursorAgentJSONOutput =
  cjType :: string
  cjResult :: string
  cjText :: string
  cjOutput :: string
  cjSummary :: string
  cjMessage :: string

section \<open>Text helpers\<close>

fun first_nonempty :: "string list \<Rightarrow> string" where
  "first_nonempty [] = []"
| "first_nonempty (line # lines) =
     (let line = strings_TrimSpace line in if line \<noteq> [] then line else first_nonempty lines)"

definition firstNonEmptyLine :: "string \<Rightarrow> string" where
  "firstNonEmptyLine v = first_nonempty (strings_Split (crlf_to_lf v) LF)"

definition compactMessage :: "string \<Rightarrow> string" where
  "compactMessage v =
     (let v = strings_TrimSpace (crlf_to_lf v) in if v = [] then ''unknown error'' else firstNonEmptyLine v)"

definition lastLines :: "string \<Rightarrow> int \<Rightarrow> string" where
  "lastLines v limit =
     (if limit \<le> 0 then []
      else
        let lines = strings_Split (crlf_to_lf (strings_TrimSpace v)) LF;
            filtered = filter (\<lambda>l. strings_TrimSpace l \<noteq> []) lines
        in if int (length filtered) \<le> limit then strings_Join filtered [LF]
           else strings_Join (drop (length filtered - nat limit) filtered) [LF])"

definition nonEmptyStrings :: "string list \<Rightarrow> string list" where
  "nonEmptyStrings vs = filter (\<lambda>v. v \<noteq> []) (map strings_TrimSpace vs)"

text \<open>\<open>strings.LastIndex\<close>: the last position at which \<open>sub\<close> occurs.\<close>

fun strings_LastIndex :: "string \<Rightarrow> string \<Rightarrow> nat option" where
  "strings_LastIndex [] sub = (if sub = [] then Some 0 else None)"
| "strings_LastIndex (c # cs) sub =
     (case strings_LastIndex cs sub of
        Some i \<Rightarrow> Some (Suc i)
      | None \<Rightarrow> if strings_HasPrefix (c # cs) sub then Some 0 else None)"

definition FromSlash :: "bool \<Rightarrow> string \<Rightarrow> string" where
  "FromSlash win s = (if win then map (\<lambda>c. if c = CHR ''/'' then CHR 0x5C else c) s else s)"

definition platformShellCommand :: "bool \<Rightarrow> string \<Rightarrow> string \<times> string list" where
  "platformShellCommand win command =
     (if win then (''cmd'', [''/d'', ''/s'', ''/c'', command]) else (''sh'', [''-lc'', command]))"

definition withOptionalTimeout :: "go_context \<Rightarrow> duration \<Rightarrow> go_context" where
  "withOptionalTimeout ctx timeout =
     (if \<not> has_deadline ctx \<and> timeout > 0 then WithTimeout ctx timeout else ctx)"

section \<open>Commands\<close>

definition runCommand :: "'w OS \<Rightarrow> go_context \<Rightarrow> string \<Rightarrow> string list \<Rightarrow> string option \<Rightarrow> string \<Rightarrow> string list \<Rightarrow>
    ('w, string \<times> string \<times> goerror option) state" where
  "runCommand os ctx dir env stdin name args =
     State (osRun os \<lparr>cmdCtx = ctx, cmdDir = dir, cmdEnv = (if env \<noteq> [] then Some (osEnviron os @ env) else None),
       cmdStdin = stdin, cmdName = name, cmdArgs = args\<rparr>)"

text \<open>The message of a failed command, from its error output or from the error of the call.\<close>

definition failure_message :: "string \<Rightarrow> goerror \<Rightarrow> string" where
  "failure_message stderr err =
     (let message = strings_TrimSpace stderr in if message = [] then Error err else message)"

definition git_failed :: "string list \<Rightarrow> string \<Rightarrow> goerror \<Rightarrow> goerror" where
  "git_failed args stderr err =
     ErrNew (''git '' @ strings_Join args '' '' @ '' failed: '' @ compactMessage (failure_message stderr err))"

definition runGit :: "'w OS \<Rightarrow> CursorAgentCLIConfig \<Rightarrow> go_context \<Rightarrow> string \<Rightarrow> string list \<Rightarrow> ('w, string result) state" where
  "runGit os cfg ctx dir args = do {
     (stdout, stderr, err) \<leftarrow> runCommand os ctx dir [] None (ccGitBin cfg) args;
     State_Monad.return (case err of Some err \<Rightarrow> Inl (git_failed args stderr err) | None \<Rightarrow> Inr stdout)
   }"

definition runGitWithInput :: "'w OS \<Rightarrow> CursorAgentCLIConfig \<Rightarrow> go_context \<Rightarrow> string \<Rightarrow> string \<Rightarrow> string list \<Rightarrow> ('w, string result) state" where
  "runGitWithInput os cfg ctx dir input args = do {
     (stdout, stderr, err) \<leftarrow> runCommand os ctx dir [] (Some input) (ccGitBin cfg) args;
     State_Monad.return (case err of Some err \<Rightarrow> Inl (git_failed args stderr err) | None \<Rightarrow> Inr stdout)
   }"

definition gitTopLevel :: "'w OS \<Rightarrow> go_context \<Rightarrow> string \<Rightarrow> string \<Rightarrow> ('w, string result) state" where
  "gitTopLevel os ctx gitBin dir = do {
     (stdout, stderr, err) \<leftarrow> runCommand os ctx dir [] None gitBin [''rev-parse'', ''--show-toplevel''];
     State_Monad.return (case err of
       Some err \<Rightarrow> Inl (ErrNew (''detect git workspace root: '' @ compactMessage (failure_message stderr err)))
     | None \<Rightarrow>
         let root = strings_TrimSpace stdout
         in if root = [] then Inl (ErrNew ''git workspace root is empty'') else Inr root)
   }"

definition copyFile :: "'w OS \<Rightarrow> string \<Rightarrow> string \<Rightarrow> ('w, goerror option) state" where
  "copyFile os sourcePath targetPath = do {
     r \<leftarrow> State (osStat os sourcePath);
     case r of
       Inl err \<Rightarrow> State_Monad.return (Some err)
     | Inr info \<Rightarrow>
         if fiIsDir info then State_Monad.return None
         else err_bind (State (osMkdirAll os (osDir os targetPath)))
             (err_bind (State (osOpen os sourcePath))
             (err_bind (State (osCreate os targetPath))
             (err_bind (State (osCopy os sourcePath targetPath))
             (State (osChmod os targetPath (fiMode info))))))
   }"

section \<open>Files of the workspace\<close>

definition trimmed_lines :: "string \<Rightarrow> string list" where
  "trimmed_lines output = map strings_TrimSpace (strings_Split (crlf_to_lf output) LF)"

definition status_path :: "bool \<Rightarrow> string \<Rightarrow> (string, unit) gomap \<Rightarrow> (string, unit) gomap" where
  "status_path win line seen =
     (if line = [] \<or> length line < 3 then seen
      else
        let path = strings_TrimSpace (drop 3 line);
            path = (case strings_LastIndex path '' -> '' of
                      Some arrow \<Rightarrow> strings_TrimSpace (drop (arrow + 4) path)
                    | None \<Rightarrow> path)
        in if path = [] then seen else AList.update (ToSlash win path) () seen)"

definition listChangedFiles :: "'w OS \<Rightarrow> CursorAgentCLIConfig \<Rightarrow> go_context \<Rightarrow> ('w, string list result) state" where
  "listChangedFiles os cfg ctx =
     try_bind (runGit os cfg ctx (ccWorkspaceRoot cfg) [''status'', ''--short'', ''--untracked-files=all'']) (\<lambda>output.
       if strings_TrimSpace output = [] then State_Monad.return (Inr [])
       else State_Monad.return (Inr (sort_Strings (map_keys (fold (status_path (osWindows os)) (trimmed_lines output) [])))))"

definition append_path :: "string \<Rightarrow> string list \<Rightarrow> string list" where
  "append_path path files = (if path = [] \<or> path \<in> set files then files else files @ [path])"

definition appendGitOutput :: "string \<Rightarrow> string list \<Rightarrow> string list" where
  "appendGitOutput output files = fold append_path (trimmed_lines output) files"

definition listSnapshotFiles :: "'w OS \<Rightarrow> CursorAgentCLIConfig \<Rightarrow> go_context \<Rightarrow> ('w, string list result) state" where
  "listSnapshotFiles os cfg ctx =
     try_bind (runGit os cfg ctx (ccWorkspaceRoot cfg) [''ls-files'', ''--others'', ''--exclude-standard'']) (\<lambda>untrackedOutput.
       let files = appendGitOutput untrackedOutput [] in
       if ccSyncIgnoredPaths cfg \<noteq> [] then
         try_bind (wrap_error ''list ignored snapshot files: ''
             (runGit os cfg ctx (ccWorkspaceRoot cfg)
               ([''ls-files'', ''--others'', ''--ignored'', ''--exclude-standard'', ''--''] @ ccSyncIgnoredPaths cfg)))
           (\<lambda>ignoredOutput. State_Monad.return (Inr (sort_Strings (appendGitOutput ignoredOutput files))))
       else State_Monad.return (Inr (sort_Strings files)))"

fun copy_files :: "'w OS \<Rightarrow> CursorAgentCLIConfig \<Rightarrow> string \<Rightarrow> string list \<Rightarrow> ('w, unit result) state" where
  "copy_files os cfg worktreeDir [] = State_Monad.return (Inr ())"
| "copy_files os cfg worktreeDir (path # paths) =
     try_bind (wrap_error (''copy workspace snapshot file '' @ path @ '': '')
         (as_result (copyFile os (osJoin os [ccWorkspaceRoot cfg, FromSlash (osWindows os) path])
            (osJoin os [worktreeDir, FromSlash (osWindows os) path]))))
       (\<lambda>_. copy_files os cfg worktreeDir paths)"

definition syncWorkspaceIntoWorktree :: "'w OS \<Rightarrow> CursorAgentCLIConfig \<Rightarrow> go_context \<Rightarrow> string \<Rightarrow> ('w, unit result) state" where
  "syncWorkspaceIntoWorktree os cfg ctx worktreeDir =
     try_bind (runGit os cfg ctx (ccWorkspaceRoot cfg) [''diff'', ''--binary'', ''HEAD'', ''--'', ''.'']) (\<lambda>trackedDiff.
     try_bind (if strings_TrimSpace trackedDiff \<noteq> [] then
           wrap_error ''apply workspace tracked changes to temp worktree: ''
             (runGitWithInput os cfg ctx worktreeDir trackedDiff [''apply'', ''--binary'', ''--whitespace=nowarn''])
         else State_Monad.return (Inr [])) (\<lambda>_.
     try_bind (listSnapshotFiles os cfg ctx) (\<lambda>snapshotFiles.
       copy_files os cfg worktreeDir snapshotFiles)))"

definition stageUntrackedFilesForDiff :: "'w OS \<Rightarrow> CursorAgentCLIConfig \<Rightarrow> go_context \<Rightarrow> string \<Rightarrow> ('w, unit result) state" where
  "stageUntrackedFilesForDiff os cfg ctx worktreeDir =
     try_bind (runGit os cfg ctx worktreeDir [''ls-files'', ''--others'', ''--exclude-standard'']) (\<lambda>output.
       let paths = filter (\<lambda>p. p \<noteq> []) (trimmed_lines output) in
       if paths = [] then State_Monad.return (Inr ())
       else try_bind (wrap_error ''stage untracked files for diff: ''
                (runGit os cfg ctx worktreeDir ([''add'', ''-N'', ''--''] @ paths)))
              (\<lambda>_. State_Monad.return (Inr ())))"

definition commitWorktreeBaseline :: "'w OS \<Rightarrow> CursorAgentCLIConfig \<Rightarrow> go_context \<Rightarrow> string \<Rightarrow> ('w, unit result) state" where
  "commitWorktreeBaseline os cfg ctx worktreeDir =
     try_bind (runGit os cfg ctx worktreeDir [''status'', ''--short'', ''--untracked-files=all'']) (\<lambda>status.
       if strings_TrimSpace status = [] then State_Monad.return (Inr ())
       else
         try_bind (runGit os cfg ctx worktreeDir [''add'', ''-A'']) (\<lambda>_.
         try_bind (wrap_error ''commit temp worktree baseline: ''
             (runGit os cfg ctx worktreeDir [''-c'', ''user.name=VibeDeck'', ''-c'', ''user.email=vibedeck@example.local'',
               ''commit'', ''--quiet'', ''-m'', ''vibedeck baseline'']))
           (\<lambda>_. State_Monad.return (Inr ()))))"

section \<open>The agent\<close>

definition runCursorAgent :: "'w OS \<Rightarrow> CursorAgentCLIConfig \<Rightarrow> go_context \<Rightarrow> string \<Rightarrow> string \<Rightarrow> ('w, string result) state" where
  "runCursorAgent os cfg ctx worktreeDir prompt = do {
     (stdout, stderr, err) \<leftarrow> runCommand os (withOptionalTimeout ctx (ccPromptTimeout cfg)) worktreeDir
        (ccCursorAgentEnv cfg) None (ccCursorAgentBin cfg) (ccCursorAgentArgs cfg @ [prompt]);
     State_Monad.return (case err of
       Some err \<Rightarrow>
         let message = strings_TrimSpace stderr;
             message = (if message = [] then strings_TrimSpace stdout else message);
             message = (if message = [] then Error err else message)
         in Inl (ErrNew (''cursor-agent execution failed: '' @ compactMessage message))
     | None \<Rightarrow> if strings_TrimSpace stdout = [] then Inr (strings_TrimSpace stderr) else Inr stdout)
   }"

definition buildCursorAgentPrompt :: "bool \<Rightarrow> SubmitTaskInput \<Rightarrow> string" where
  "buildCursorAgentPrompt win input =
     ''You are running inside a disposable VibeDeck git worktree snapshot.'' @ [LF] @
     ''Apply the requested code changes directly to files in this workspace.'' @ [LF] @
     ''Do not create commits, do not rewrite unrelated files, and do not start long-running processes.'' @ [LF] @
     ''Keep the resulting diff as small and reviewable as possible.'' @ [LF, LF] @
     (if stiTemplate input \<noteq> [] then ''Template: '' @ stiTemplate input @ [LF] else []) @
     ''User request:'' @ [LF] @ strings_TrimSpace (stiPrompt input) @ [LF] @
     (if wcActiveFilePath (stiContext input) \<noteq> [] then [LF] @ ''Active file: '' @ ToSlash win (wcActiveFilePath (stiContext input)) @ [LF] else []) @
     (if wcSelection (stiContext input) \<noteq> [] then ''Selection:'' @ [LF] @ wcSelection (stiContext input) @ [LF] else []) @
     (if wcLatestTerminalError (stiContext input) \<noteq> [] then ''Latest terminal error:'' @ [LF] @ wcLatestTerminalError (stiContext input) @ [LF] else []) @
     (if wcChangedFiles (stiContext input) \<noteq> [] then
        ''Changed files already in the workspace:'' @ [LF] @
        concat (map (\<lambda>path. ''- '' @ ToSlash win path @ [LF]) (wcChangedFiles (stiContext input)))
      else [])"

definition cursorAgentJSONOutput_put :: "string \<Rightarrow> json \<Rightarrow> cursorAgentJSONOutput \<Rightarrow> cursorAgentJSONOutput result" where
  "cursorAgentJSONOutput_put f v p =
     (if f = ''type'' then map_result (\<lambda>x. p\<lparr>cjType := x\<rparr>) (decode_string v (cjType p))
      else if f = ''result'' then map_result (\<lambda>x. p\<lparr>cjResult := x\<rparr>) (decode_string v (cjResult p))
      else if f = ''text'' then map_result (\<lambda>x. p\<lparr>cjText := x\<rparr>) (decode_string v (cjText p))
      else if f = ''output'' then map_result (\<lambda>x. p\<lparr>cjOutput := x\<rparr>) (decode_string v (cjOutput p))
      else if f = ''summary'' then map_result (\<lambda>x. p\<lparr>cjSummary := x\<rparr>) (decode_string v (cjSummary p))
      else map_result (\<lambda>x. p\<lparr>cjMessage := x\<rparr>) (decode_string v (cjMessage p)))"

definition cursorAgentJSONOutput_unjson :: "json \<Rightarrow> cursorAgentJSONOutput result" where
  "cursorAgentJSONOutput_unjson j =
     decode_struct [''type'', ''result'', ''text'', ''output'', ''summary'', ''message''] cursorAgentJSONOutput_put j
       \<lparr>cjType = [], cjResult = [], cjText = [], cjOutput = [], cjSummary = [], cjMessage = []\<rparr>"

definition extractCursorAgentSummary :: "(string \<Rightarrow> json option) \<Rightarrow> string \<Rightarrow> string" where
  "extractCursorAgentSummary parse_json output =
     (let trimmed = strings_TrimSpace output in
      if trimmed = [] then []
      else
        case (case parse_json trimmed of None \<Rightarrow> Inl json_error | Some j \<Rightarrow> cursorAgentJSONOutput_unjson j) of
          Inr parsed \<Rightarrow>
            (case nonEmptyStrings [cjSummary parsed, cjResult parsed, cjText parsed, cjOutput parsed, cjMessage parsed] of
               candidate # _ \<Rightarrow> firstNonEmptyLine candidate
             | [] \<Rightarrow> firstNonEmptyLine trimmed)
        | Inl _ \<Rightarrow> firstNonEmptyLine trimmed)"

definition taskSummary :: "(string \<Rightarrow> json option) \<Rightarrow> string \<Rightarrow> unifiedPatch \<Rightarrow> string" where
  "taskSummary parse_json cursorOutput parsed =
     (let summary = strings_TrimSpace (extractCursorAgentSummary parse_json cursorOutput) in
      if summary \<noteq> [] then summary
      else if upFiles parsed = [] then ''Cursor Agent completed without code changes''
      else ''Cursor Agent proposed changes in '' @ Itoa (int (length (upFiles parsed))) @ '' file(s)'')"

definition generate_in :: "'w OS \<Rightarrow> (string \<Rightarrow> json option) \<Rightarrow> CursorAgentCLIConfig \<Rightarrow> go_context \<Rightarrow> string \<Rightarrow> SubmitTaskInput \<Rightarrow> string \<Rightarrow>
    ('w, cursorAgentTask result) state" where
  "generate_in os parse_json cfg ctx taskID input worktreeDir =
     try_bind (runGit os cfg ctx (ccWorkspaceRoot cfg) [''worktree'', ''add'', ''--detach'', worktreeDir]) (\<lambda>_.
     try_bind (syncWorkspaceIntoWorktree os cfg ctx worktreeDir) (\<lambda>_.
     try_bind (commitWorktreeBaseline os cfg ctx worktreeDir) (\<lambda>_.
     try_bind (runCursorAgent os cfg ctx worktreeDir (buildCursorAgentPrompt (osWindows os) input)) (\<lambda>cursorOutput.
     try_bind (stageUntrackedFilesForDiff os cfg ctx worktreeDir) (\<lambda>_.
     try_bind (runGit os cfg ctx worktreeDir [''diff'', ''--binary'', ''HEAD'', ''--'', ''.'']) (\<lambda>rawDiff.
       let parsed = parseUnifiedPatch (osWindows os) rawDiff;
           patchPayload = toPatchReadyPayload (taskSummary parse_json cursorOutput parsed) parsed
       in do {
         now \<leftarrow> State (osNow os);
         State_Monad.return (Inr \<lparr>ctTaskID = taskID, ctPrompt = stiPrompt input, ctSummary = prSummary patchPayload,
           ctRawDiff = rawDiff, ctParsed = parsed, ctPatch = Some patchPayload, ctCreatedAt = now\<rparr>)
       }))))))"

definition cleanup :: "'w OS \<Rightarrow> CursorAgentCLIConfig \<Rightarrow> string \<Rightarrow> string \<Rightarrow> ('w, unit) state" where
  "cleanup os cfg worktreeParent worktreeDir = do {
     _ \<leftarrow> runGit os cfg (WithTimeout Background (10 * Second)) (ccWorkspaceRoot cfg) [''worktree'', ''remove'', ''--force'', worktreeDir];
     _ \<leftarrow> State (osRemoveAll os worktreeParent);
     State_Monad.return ()
   }"

definition generateTask :: "'w OS \<Rightarrow> (string \<Rightarrow> json option) \<Rightarrow> CursorAgentCLIConfig \<Rightarrow> go_context \<Rightarrow> string \<Rightarrow> SubmitTaskInput \<Rightarrow>
    ('w, cursorAgentTask result) state" where
  "generateTask os parse_json cfg ctx taskID input =
     try_bind (wrap_error ''create cursor-agent temp dir: '' (State (osMkdirTemp os (ccTempRoot cfg) ''vibedeck-cursor-agent-*''))) (\<lambda>worktreeParent.
       let worktreeDir = osJoin os [worktreeParent, ''worktree''] in do {
         task \<leftarrow> generate_in os parse_json cfg ctx taskID input worktreeDir;
         _ \<leftarrow> cleanup os cfg worktreeParent worktreeDir;
         State_Monad.return task
       })"

section \<open>Run profiles\<close>

definition dynamic_message :: string where
  "dynamic_message = ''dynamic run profile is not configured''"

definition message_error :: "string \<Rightarrow> ParsedError" where
  "message_error message = \<lparr>peMessage = message, pePath = [], peLine = 0, peColumn = 0\<rparr>"

definition run_outcome :: "string \<Rightarrow> RunProfileInput \<Rightarrow> string \<Rightarrow> string \<Rightarrow> goerror option \<Rightarrow> RunResult" where
  "run_outcome runID input stdout stderr err =
     (let combined = strings_TrimSpace (strings_Join (nonEmptyStrings [stdout, stderr]) [LF]);
          status = (if err \<noteq> None then ''failed'' else ''passed'');
          summary = (case err of Some err \<Rightarrow> ''command failed: '' @ compactMessage (Error err)
                     | None \<Rightarrow> ''command completed successfully'');
          summary = (if status = ''passed'' \<and> combined \<noteq> [] then firstNonEmptyLine combined else summary)
      in \<lparr>rrsRunID = runID, rrsProfileID = rpiProfileID input, rrsStatus = status, rrsSummary = summary,
          rrsTopErrors = (case err of
             None \<Rightarrow> []
           | Some err \<Rightarrow>
               let message = firstNonEmptyLine combined;
                   message = (if message = [] then compactMessage (Error err) else message)
               in [message_error message]),
          rrsExcerpt = lastLines combined 20, rrsOutput = combined, rrsChangedFiles = []\<rparr>)"

definition executeRunProfile :: "'w OS \<Rightarrow> CursorAgentCLIConfig \<Rightarrow> go_context \<Rightarrow> string \<Rightarrow> RunProfileInput \<Rightarrow> ('w, RunResult) state" where
  "executeRunProfile os cfg ctx runID input =
     (if strings_TrimSpace (rpiCommand input) = [] \<or> rpiCommand input = ''dynamic'' then
        State_Monad.return \<lparr>rrsRunID = runID, rrsProfileID = rpiProfileID input, rrsStatus = ''failed'',
          rrsSummary = ''dynamic run profile is not configured for cursor_agent_cli'',
          rrsTopErrors = [message_error dynamic_message], rrsExcerpt = dynamic_message,
          rrsOutput = dynamic_message, rrsChangedFiles = []\<rparr>
      else
        case platformShellCommand (osWindows os) (rpiCommand input) of (name, args) \<Rightarrow> do {
          (stdout, stderr, err) \<leftarrow> runCommand os (withOptionalTimeout ctx (ccRunTimeout cfg)) (ccWorkspaceRoot cfg) [] None name args;
          State_Monad.return (run_outcome runID input stdout stderr err)
        })"

section \<open>The adapter\<close>

definition with_world :: "('w, 'a) state \<Rightarrow> 'w CursorAgentCLIAdapter \<Rightarrow> 'a \<times> 'w CursorAgentCLIAdapter" where
  "with_world m a = (case run_state m (caWorld a) of (r, w) \<Rightarrow> (r, a\<lparr>caWorld := w\<rparr>))"

definition NewCursorAgentCLIAdapter :: "'w OS \<Rightarrow> (string \<Rightarrow> string) \<Rightarrow> go_context \<Rightarrow> CursorAgentCLIConfig \<Rightarrow> 'w \<Rightarrow>
    'w CursorAgentCLIAdapter result \<times> 'w" where
  "NewCursorAgentCLIAdapter os quote ctx cfg w =
     run_state (
       if strings_TrimSpace (ccGitBin cfg) = [] then State_Monad.return (Inl (ErrNew ''cursor agent git binary is required''))
       else if strings_TrimSpace (ccCursorAgentBin cfg) = [] then State_Monad.return (Inl (ErrNew ''cursor agent binary is required''))
       else
         try_bind (if strings_TrimSpace (ccWorkspaceRoot cfg) = [] then wrap_error ''get working directory: '' (State (osGetwd os))
                   else State_Monad.return (Inr (ccWorkspaceRoot cfg))) (\<lambda>root.
         try_bind (wrap_error (''find git binary '' @ quote (ccGitBin cfg) @ '': '') (State (osLookPath os (ccGitBin cfg)))) (\<lambda>gitPath.
         try_bind (wrap_error (''find cursor-agent binary '' @ quote (ccCursorAgentBin cfg) @ '': '') (State (osLookPath os (ccCursorAgentBin cfg)))) (\<lambda>cursorAgentPath.
         try_bind (gitTopLevel os ctx (ccGitBin cfg) root) (\<lambda>repoRoot. do {
           w \<leftarrow> State_Monad.get;
           State_Monad.return (Inr \<lparr>caCfg = cfg\<lparr>ccWorkspaceRoot := repoRoot\<rparr>, caTaskSeq = 0, caRunSeq = 0, caTasks = [], caRuns = [],
             caLastRunProfile = [], caLastRunStatus = [], caLatestTerminalError = [],
             caResolvedGitBin = gitPath, caResolvedCursorAgent = cursorAgentPath, caWorld = w\<rparr>)
         }))))) w"

definition cli_Capabilities :: AdapterCapabilities where
  "cli_Capabilities = \<lparr>SupportsPartialApply = True, SupportsStructuredPatch = True,
     SupportsContextSelection = False, SupportsArtifacts = False, SupportsOpenLocation = False\<rparr>"

definition cli_GetContext :: "'w OS \<Rightarrow> go_context \<Rightarrow> ContextRequest \<Rightarrow> 'w CursorAgentCLIAdapter \<Rightarrow>
    WorkspaceContext result \<times> 'w CursorAgentCLIAdapter" where
  "cli_GetContext os ctx input a =
     (case (if coIncludeWorkspaceSummary (crqOptions input) then with_world (listChangedFiles os (caCfg a) ctx) a else (Inr [], a)) of
        (Inl err, a) \<Rightarrow> (Inl err, a)
      | (Inr changedFiles, a) \<Rightarrow>
          (Inr \<lparr>wcActiveFilePath = [], wcSelection = [],
             wcLatestTerminalError = (if coIncludeLatestError (crqOptions input) then caLatestTerminalError a else []),
             wcChangedFiles = (if coIncludeWorkspaceSummary (crqOptions input) then changedFiles else []),
             wcLastRunProfile = (if coIncludeWorkspaceSummary (crqOptions input) then caLastRunProfile a else []),
             wcLastRunStatus = (if coIncludeWorkspaceSummary (crqOptions input) then caLastRunStatus a else [])\<rparr>, a))"

definition cli_SubmitTask :: "'w OS \<Rightarrow> (string \<Rightarrow> json option) \<Rightarrow> go_context \<Rightarrow> SubmitTaskInput \<Rightarrow> 'w CursorAgentCLIAdapter \<Rightarrow>
    TaskHandle result \<times> 'w CursorAgentCLIAdapter" where
  "cli_SubmitTask os parse_json ctx input a =
     (let a = a\<lparr>caTaskSeq := wrap64 (caTaskSeq a + 1)\<rparr>;
          taskID = ''task_'' @ Itoa (caTaskSeq a)
      in case with_world (generateTask os parse_json (caCfg a) ctx taskID input) a of
           (Inl err, a) \<Rightarrow> (Inl err, a)
         | (Inr task, a) \<Rightarrow> (Inr \<lparr>thTaskID = taskID\<rparr>, a\<lparr>caTasks := AList.update taskID task (caTasks a)\<rparr>))"

definition cli_GetPatch :: "string \<Rightarrow> 'w CursorAgentCLIAdapter \<Rightarrow> PatchReadyPayload option result \<times> 'w CursorAgentCLIAdapter" where
  "cli_GetPatch taskID a =
     (case map_of (caTasks a) taskID of
        None \<Rightarrow> (Inl (ErrNew (''task '' @ taskID @ '' not found'')), a)
      | Some task \<Rightarrow> (Inr (clonePatchReadyPayload (ctPatch task)), a))"

definition cli_ApplyPatch :: "'w OS \<Rightarrow> go_context \<Rightarrow> ApplyPatchInput \<Rightarrow> 'w CursorAgentCLIAdapter \<Rightarrow>
    ApplyPatchResult result \<times> 'w CursorAgentCLIAdapter" where
  "cli_ApplyPatch os ctx input a =
     (case map_of (caTasks a) (apiTaskID input) of
        None \<Rightarrow> (Inr \<lparr>aprStatus = ''failed'', aprMessage = ''task not found''\<rparr>, a)
      | Some task \<Rightarrow>
          (case buildPatchForApply (ctRawDiff task) (ctParsed task) input of
             Inl err \<Rightarrow> (Inr \<lparr>aprStatus = ''failed'', aprMessage = Error err\<rparr>, a)
           | Inr (patchText, selectedCount) \<Rightarrow>
               if strings_TrimSpace patchText = [] then (Inr \<lparr>aprStatus = ''success'', aprMessage = ''no patch changes to apply''\<rparr>, a)
               else
                 case with_world (runGitWithInput os (caCfg a) ctx (ccWorkspaceRoot (caCfg a)) patchText
                        [''apply'', ''--check'', ''--binary'', ''--whitespace=nowarn'']) a of
                   (Inl err, a) \<Rightarrow> (Inr \<lparr>aprStatus = ''conflict'', aprMessage = Error err\<rparr>, a)
                 | (Inr _, a) \<Rightarrow>
                     (case with_world (runGitWithInput os (caCfg a) ctx (ccWorkspaceRoot (caCfg a)) patchText
                        [''apply'', ''--binary'', ''--whitespace=nowarn'']) a of
                        (Inl err, a) \<Rightarrow> (Inr \<lparr>aprStatus = ''failed'', aprMessage = Error err\<rparr>, a)
                      | (Inr _, a) \<Rightarrow>
                          (Inr \<lparr>aprStatus = ''success'', aprMessage =
                             (if apiMode input = ''selected'' then ''selected hunks applied ('' @ Itoa selectedCount @ '')''
                              else ''patch applied'')\<rparr>, a))))"

definition cli_RunProfile :: "'w OS \<Rightarrow> go_context \<Rightarrow> RunProfileInput \<Rightarrow> 'w CursorAgentCLIAdapter \<Rightarrow>
    RunHandle result \<times> 'w CursorAgentCLIAdapter" where
  "cli_RunProfile os ctx input a =
     (let a = a\<lparr>caRunSeq := wrap64 (caRunSeq a + 1)\<rparr>;
          runID = ''run_'' @ rpiProfileID input @ ''_'' @ Itoa (caRunSeq a)
      in case with_world (executeRunProfile os (caCfg a) ctx runID input) a of
           (result, a) \<Rightarrow>
             (Inr \<lparr>rhRunID = runID\<rparr>,
              a\<lparr>caRuns := AList.update runID result (caRuns a), caLastRunProfile := rpiProfileID input,
                caLastRunStatus := rrsStatus result,
                caLatestTerminalError := (if rrsStatus result \<noteq> ''passed'' then firstNonEmptyLine (rrsExcerpt result) else [])\<rparr>))"

definition cli_GetRunResult :: "string \<Rightarrow> 'w CursorAgentCLIAdapter \<Rightarrow> RunResult option result \<times> 'w CursorAgentCLIAdapter" where
  "cli_GetRunResult runID a =
     (case map_of (caRuns a) runID of
        None \<Rightarrow> (Inl (ErrNew (''run '' @ runID @ '' not found'')), a)
      | Some result \<Rightarrow> (Inr (Some result), a))"

definition cli_OpenLocation :: "OpenLocationInput \<Rightarrow> 'w CursorAgentCLIAdapter \<Rightarrow> goerror option \<times> 'w CursorAgentCLIAdapter" where
  "cli_OpenLocation input a = (None, a)"

text \<open>The adapter as the interface that the orchestrator calls.\<close>

definition cursor_cli_adapter :: "'w OS \<Rightarrow> (string \<Rightarrow> json option) \<Rightarrow> go_context \<Rightarrow> 'w CursorAgentCLIAdapter WorkspaceAdapter" where
  "cursor_cli_adapter os parse_json ctx =
     \<lparr>waName = ''cursor-agent-cli'', waCapabilities = cli_Capabilities,
      waGetContext = cli_GetContext os ctx, waSubmitTask = cli_SubmitTask os parse_json ctx,
      waGetPatch = cli_GetPatch, waApplyPatch = cli_ApplyPatch os ctx, waRunProfile = cli_RunProfile os ctx,
      waGetRunResult = cli_GetRunResult, waOpenLocation = cli_OpenLocation\<rparr>"

end
