(* ===== verification/Patch_Laws.thy ===== *)
theory Patch_Laws
  imports Unified_Patch
begin

text \<open>
  What the patch parser and the selection of hunks guarantee: no line of the diff is lost, every
  hunk can be addressed by its file and id, and a selection hands git exactly the selected hunks.
\<close>

section \<open>Definitions\<close>

definition is_diff :: "string \<Rightarrow> bool" where "is_diff l \<longleftrightarrow> strings_HasPrefix l ''diff --git ''"
definition is_hunk :: "string \<Rightarrow> bool" where "is_hunk l \<longleftrightarrow> strings_HasPrefix l ''@@ ''"

definition hunk_lines :: "unifiedPatchHunk \<Rightarrow> string list" where
  "hunk_lines h = uhHeader h # uhLines h"

definition file_lines :: "unifiedPatchFile \<Rightarrow> string list" where
  "file_lines f = ufHeaderLines f @ concat (map hunk_lines (ufHunks f))"

definition patch_lines :: "unifiedPatch \<Rightarrow> string list" where
  "patch_lines p = concat (map file_lines (upFiles p))"

text \<open>The lines that a state of the parser has taken in.\<close>

definition taken_lines :: "parse_state \<Rightarrow> string list" where
  "taken_lines s = concat (map file_lines (prsFiles s)) @
     (case prsCurrent s of None \<Rightarrow> []
      | Some f \<Rightarrow> file_lines f @ (case prsHunk s of None \<Rightarrow> [] | Some h \<Rightarrow> hunk_lines h))"

definition new_file :: "bool \<Rightarrow> string \<Rightarrow> unifiedPatchFile" where
  "new_file win line = \<lparr>ufPath = parseDiffGitPath win line, ufStatus = ''modified'', ufHeaderLines = [line], ufHunks = []\<rparr>"

text \<open>
  A file of a parsed patch: its header starts with the \<open>diff --git\<close> line and has neither another
  one nor a hunk header, its path and status are what the header lines say, and a hunk starts with
  its header. \<open>hunks_named\<close>: the ids of the hunks are computed from path, content and position.
\<close>

definition header_ok :: "bool \<Rightarrow> unifiedPatchFile \<Rightarrow> bool" where
  "header_ok win f \<longleftrightarrow> (\<exists>first rest. is_diff first \<and> (\<forall>l \<in> set rest. \<not> is_diff l \<and> \<not> is_hunk l) \<and>
     f\<lparr>ufHunks := []\<rparr> = fold (header_line win) rest (new_file win first))"

definition hunk_ok :: "unifiedPatchHunk \<Rightarrow> bool" where
  "hunk_ok h \<longleftrightarrow> is_hunk (uhHeader h) \<and> (\<forall>l \<in> set (uhLines h). \<not> is_diff l \<and> \<not> is_hunk l)"

definition hunks_named :: "unifiedPatchFile \<Rightarrow> bool" where
  "hunks_named f \<longleftrightarrow> (\<forall>k < length (ufHunks f). uhHunkID (ufHunks f ! k) =
     makeHunkID (ufPath f) (uhHeader (ufHunks f ! k)) (uhLines (ufHunks f ! k)) (int k + 1))"

definition file_ok :: "bool \<Rightarrow> unifiedPatchFile \<Rightarrow> bool" where
  "file_ok win f \<longleftrightarrow> header_ok win f \<and> (\<forall>h \<in> set (ufHunks f). hunk_ok h)"

definition parse_inv :: "bool \<Rightarrow> parse_state \<Rightarrow> bool" where
  "parse_inv win s \<longleftrightarrow> (\<forall>f \<in> set (prsFiles s). file_ok win f \<and> hunks_named f) \<and>
     (case prsCurrent s of
        None \<Rightarrow> prsHunk s = None \<and> prsIndex s = 0
      | Some f \<Rightarrow> file_ok win f \<and> hunks_named f \<and> prsIndex s = int (length (ufHunks f)) \<and>
          (case prsHunk s of None \<Rightarrow> ufHunks f = [] | Some h \<Rightarrow> hunk_ok h))"

text \<open>The reference definition of a selection.\<close>

definition chosen :: "SelectedHunk list \<Rightarrow> string \<Rightarrow> unifiedPatchHunk \<Rightarrow> bool" where
  "chosen sel path h \<longleftrightarrow> (\<exists>e \<in> set sel. shPath e = path \<and> uhHunkID h \<in> set (shHunkIDs e))"

definition chosen_file :: "SelectedHunk list \<Rightarrow> unifiedPatchFile \<Rightarrow> unifiedPatchFile" where
  "chosen_file sel f = f\<lparr>ufHunks := filter (chosen sel (ufPath f)) (ufHunks f)\<rparr>"

definition chosen_files :: "SelectedHunk list \<Rightarrow> unifiedPatch \<Rightarrow> unifiedPatchFile list" where
  "chosen_files sel p = filter (\<lambda>f. ufHunks f \<noteq> []) (map (chosen_file sel) (upFiles p))"

text \<open>
  The content of a file, without the ids; \<open>closed_file\<close> has the empty line at its end with which
  the rendering ends every file.
\<close>

definition content :: "unifiedPatchFile \<Rightarrow> string \<times> string \<times> string list \<times> (string \<times> string list) list" where
  "content f = (ufPath f, ufStatus f, ufHeaderLines f, map (\<lambda>h. (uhHeader h, uhLines h)) (ufHunks f))"

definition closed_file :: "unifiedPatchFile \<Rightarrow> unifiedPatchFile" where
  "closed_file f = f\<lparr>ufHunks := butlast (ufHunks f) @ [(last (ufHunks f))\<lparr>uhLines := uhLines (last (ufHunks f)) @ [[]]\<rparr>]\<rparr>"

text \<open>A diff with two files, the first with two hunks.\<close>

definition ex_diff :: string where
  "ex_diff = strings_Join [''diff --git a/m.go b/m.go'', ''--- a/m.go'', ''+++ b/m.go'', ''@@ -1 +1 @@'', ''-a'', ''+b'',
     ''@@ -9 +9 @@'', ''+c'', ''diff --git a/n b/n'', ''new file mode 100644'', ''--- /dev/null'', ''+++ b/n'', ''@@ -0,0 +1 @@'', ''+d'', []] [LF]"

definition ex_selection :: ApplyPatchInput where
  "ex_selection = \<lparr>apiTaskID = ''task_1'', apiMode = ''selected'',
     apiSelected = [\<lparr>shPath = ''m.go'', shHunkIDs = [makeHunkID ''m.go'' ''@@ -9 +9 @@'' [''+c''] 2]\<rparr>]\<rparr>"

section \<open>Nothing is lost\<close>

lemma flushHunk_lines [simp]: "taken_lines (flushHunk s) = taken_lines s"
  by (auto simp: flushHunk_def taken_lines_def file_lines_def hunk_lines_def Let_def split: option.splits)

lemma flushHunk_current: "prsCurrent s \<noteq> None \<Longrightarrow> prsCurrent (flushHunk s) \<noteq> None \<and> prsHunk (flushHunk s) = None"
  by (auto simp: flushHunk_def Let_def split: option.splits)

lemma flushFile_lines [simp]: "taken_lines (flushFile s) = taken_lines s"
proof (cases "prsCurrent s")
  case (Some f)
  then obtain g where "prsCurrent (flushHunk s) = Some g" "prsHunk (flushHunk s) = None"
    using flushHunk_current [of s] by auto
  then have "taken_lines (flushFile s) = taken_lines (flushHunk s)"
    using Some by (auto simp: flushFile_def taken_lines_def file_lines_def Let_def)
  then show ?thesis by simp
qed (simp add: flushFile_def)

lemma flushFile_current [simp]: "prsCurrent (flushFile s) = None"
  using flushHunk_current [of s] by (auto simp: flushFile_def Let_def split: option.split)

lemma header_line_rest:
  "ufHeaderLines (header_line win l f) = ufHeaderLines f @ [l]" "ufHunks (header_line win l f) = ufHunks f"
  by (auto simp: header_line_def Let_def)

text \<open>The five things the parser does with a line.\<close>

lemma parse_line_cases:
  obtains (diff) "is_diff l" "parse_line win l s = (flushFile s)\<lparr>prsCurrent := Some (new_file win l)\<rparr>"
  | (skip) "\<not> is_diff l" "prsCurrent s = None" "parse_line win l s = s"
  | (hunk) f where "\<not> is_diff l" "prsCurrent s = Some f" "is_hunk l"
      "parse_line win l s = (flushHunk s)\<lparr>prsHunk := Some \<lparr>uhHunkID = [], uhHeader = l, uhLines = []\<rparr>\<rparr>"
  | (body) f h where "\<not> is_diff l" "prsCurrent s = Some f" "\<not> is_hunk l" "prsHunk s = Some h"
      "parse_line win l s = s\<lparr>prsHunk := Some (h\<lparr>uhLines := uhLines h @ [l]\<rparr>)\<rparr>"
  | (header) f where "\<not> is_diff l" "prsCurrent s = Some f" "\<not> is_hunk l" "prsHunk s = None"
      "parse_line win l s = s\<lparr>prsCurrent := Some (header_line win l f)\<rparr>"
proof (cases "is_diff l")
  case True
  then show ?thesis by (intro diff) (simp_all add: parse_line_def is_diff_def new_file_def)
next
  case nd: False
  show ?thesis
  proof (cases "prsCurrent s")
    case None
    with nd show ?thesis by (intro skip) (simp_all add: parse_line_def is_diff_def)
  next
    case (Some f)
    show ?thesis
    proof (cases "is_hunk l")
      case True
      with nd Some show ?thesis by (intro hunk) (simp_all add: parse_line_def is_diff_def is_hunk_def)
    next
      case nh: False
      show ?thesis
      proof (cases "prsHunk s")
        case None
        with nd nh Some show ?thesis by (intro header) (simp_all add: parse_line_def is_diff_def is_hunk_def)
      next
        case (Some h)
        with nd nh \<open>prsCurrent s = Some f\<close> show ?thesis
          by (intro body) (simp_all add: parse_line_def is_diff_def is_hunk_def)
      qed
    qed
  qed
qed

lemma flushFile_hunk: "parse_inv win s \<Longrightarrow> prsHunk (flushFile s) = None"
  using flushHunk_current [of s] by (auto simp: flushFile_def parse_inv_def Let_def split: option.splits)

lemma parse_line_lines:
  assumes "parse_inv win s"
  shows "taken_lines (parse_line win l s) = taken_lines s @ (if is_diff l \<or> prsCurrent s \<noteq> None then [l] else []) \<and>
    (prsCurrent (parse_line win l s) = None \<longleftrightarrow> \<not> is_diff l \<and> prsCurrent s = None)"
proof (cases rule: parse_line_cases [of l win s])
  case diff
  have "taken_lines ((flushFile s)\<lparr>prsCurrent := Some (new_file win l)\<rparr>) = taken_lines (flushFile s) @ [l]"
    using flushFile_hunk [OF assms] by (simp add: taken_lines_def file_lines_def new_file_def)
  with diff show ?thesis by simp
next
  case (hunk f)
  have "taken_lines ((flushHunk s)\<lparr>prsHunk := Some \<lparr>uhHunkID = [], uhHeader = l, uhLines = []\<rparr>\<rparr>) = taken_lines (flushHunk s) @ [l]"
    using flushHunk_current [of s] hunk(2) by (auto simp: taken_lines_def hunk_lines_def)
  with hunk flushHunk_current [of s] show ?thesis by simp
next
  case (body f h)
  then show ?thesis by (simp add: taken_lines_def hunk_lines_def)
next
  case (header f)
  with assms show ?thesis by (simp add: taken_lines_def file_lines_def header_line_rest parse_inv_def)
qed simp

section \<open>The invariant of the parser\<close>

lemma header_line_ok:
  assumes "header_ok win f" "\<not> is_diff l" "\<not> is_hunk l" "ufHunks f = []"
  shows "header_ok win (header_line win l f)"
proof -
  obtain first rest where "is_diff first" "\<forall>l \<in> set rest. \<not> is_diff l \<and> \<not> is_hunk l"
    "f\<lparr>ufHunks := []\<rparr> = fold (header_line win) rest (new_file win first)"
    using assms(1) by (auto simp: header_ok_def)
  moreover have "f\<lparr>ufHunks := []\<rparr> = f" using assms(4) by simp
  moreover have "(header_line win l f)\<lparr>ufHunks := []\<rparr> = header_line win l f"
    using assms(4) header_line_rest(2) [of win l f] by simp
  ultimately show ?thesis
    unfolding header_ok_def using assms(2,3) by (intro exI [of _ first] exI [of _ "rest @ [l]"]) auto
qed

lemma flushHunk_inv:
  assumes "parse_inv win s" "prsCurrent s = Some f"
  shows "\<exists>g. flushHunk s = s\<lparr>prsIndex := int (length (ufHunks g)), prsCurrent := Some g, prsHunk := None\<rparr> \<and>
    file_ok win g \<and> hunks_named g \<and> ufPath g = ufPath f \<and> ufStatus g = ufStatus f"
proof (cases "prsHunk s")
  case None
  with assms show ?thesis by (intro exI [of _ f]) (simp add: flushHunk_def parse_inv_def)
next
  case (Some h)
  let ?h = "h\<lparr>uhHunkID := makeHunkID (ufPath f) (uhHeader h) (uhLines h) (int (length (ufHunks f)) + 1)\<rparr>"
  let ?g = "f\<lparr>ufHunks := ufHunks f @ [?h]\<rparr>"
  have ok: "file_ok win f" "hunks_named f" "prsIndex s = int (length (ufHunks f))" "hunk_ok h"
    using assms Some by (auto simp: parse_inv_def)
  have "file_ok win ?g" using ok by (auto simp: file_ok_def header_ok_def hunk_ok_def)
  moreover have "hunks_named ?g" using ok(2) by (auto simp: hunks_named_def nth_append less_Suc_eq)
  ultimately show ?thesis using ok Some assms(2) by (intro exI [of _ ?g]) (simp add: flushHunk_def Let_def add.commute)
qed

lemma header_status: "header_ok win f \<Longrightarrow> ufStatus f \<noteq> []"
proof -
  have "ufStatus (fold (header_line win) rest g) \<noteq> []" if "ufStatus g \<noteq> []" for rest g
    using that by (induction rest arbitrary: g) (auto simp: header_line_def Let_def)
  note st = this
  assume "header_ok win f"
  then obtain first rest where "f\<lparr>ufHunks := []\<rparr> = fold (header_line win) rest (new_file win first)"
    by (auto simp: header_ok_def)
  then have "ufStatus (f\<lparr>ufHunks := []\<rparr>) \<noteq> []" using st [of "new_file win first" rest] by (simp add: new_file_def)
  then show "ufStatus f \<noteq> []" by simp
qed

lemma flushFile_inv:
  assumes "parse_inv win s"
  shows "parse_inv win (flushFile s)"
proof (cases "prsCurrent s")
  case None
  with assms show ?thesis by (simp add: flushFile_def)
next
  case (Some f)
  obtain g where g: "flushHunk s = s\<lparr>prsIndex := int (length (ufHunks g)), prsCurrent := Some g, prsHunk := None\<rparr>"
    "file_ok win g" "hunks_named g"
    using flushHunk_inv [OF assms Some] by blast
  then have "flushFile s = s\<lparr>prsIndex := 0, prsCurrent := None, prsHunk := None, prsFiles := prsFiles s @ [g]\<rparr>"
    using Some header_status [of win g] by (simp add: flushFile_def Let_def file_ok_def)
  with assms g show ?thesis by (auto simp: parse_inv_def)
qed

lemma parse_line_inv:
  assumes "parse_inv win s"
  shows "parse_inv win (parse_line win l s)"
proof (cases rule: parse_line_cases [of l win s])
  case diff
  have "header_ok win (new_file win l)"
    unfolding header_ok_def using diff(1) by (intro exI [of _ l] exI [of _ "[]"]) (simp add: new_file_def)
  with diff flushFile_inv [OF assms] flushFile_current [of s] show ?thesis
    by (simp add: parse_inv_def file_ok_def hunks_named_def new_file_def)
next
  case (hunk f)
  obtain g where g: "flushHunk s = s\<lparr>prsIndex := int (length (ufHunks g)), prsCurrent := Some g, prsHunk := None\<rparr>"
    "file_ok win g" "hunks_named g"
    using flushHunk_inv [OF assms hunk(2)] by blast
  with hunk assms show ?thesis by (simp add: parse_inv_def hunk_ok_def)
next
  case (body f h)
  with assms show ?thesis by (auto simp: parse_inv_def hunk_ok_def)
next
  case (header f)
  with assms have f: "header_ok win f" "ufHunks f = []" by (auto simp: parse_inv_def file_ok_def)
  from header_line_ok [OF f(1) header(1,3) f(2)] show ?thesis
    using assms header f(2) by (simp add: parse_inv_def file_ok_def header_line_rest hunks_named_def)
qed (use assms in simp)

definition parse_start :: parse_state where
  "parse_start = \<lparr>prsFiles = [], prsCurrent = None, prsHunk = None, prsIndex = 0\<rparr>"

lemma parse_start_inv: "parse_inv win parse_start"
  by (simp add: parse_inv_def parse_start_def)

lemma parse_start_lines: "taken_lines parse_start = []" "prsCurrent parse_start = None"
  by (simp_all add: taken_lines_def parse_start_def)

lemma fold_parse_inv: "parse_inv win s \<Longrightarrow> parse_inv win (fold (parse_line win) ls s)"
  by (induction ls arbitrary: s) (simp_all add: parse_line_inv)

lemma fold_parse_lines:
  "parse_inv win s \<Longrightarrow> taken_lines (fold (parse_line win) ls s) =
     taken_lines s @ (if prsCurrent s = None then dropWhile (\<lambda>l. \<not> is_diff l) ls else ls)"
proof (induction ls arbitrary: s)
  case (Cons l ls)
  from Cons.IH [OF parse_line_inv [OF Cons.prems, of l]] parse_line_lines [OF Cons.prems, of l]
  show ?case by (cases "prsCurrent s"; cases "is_diff l") simp_all
qed simp

text \<open>A text that is only white space has no line that starts a file.\<close>

lemma trim_seqs_chars: "set s \<subseteq> set (concat seqs) \<union> set (trim_seqs seqs s)"
proof (induction seqs s rule: trim_seqs.induct)
  case (1 seqs s)
  show ?case
  proof (cases "find (\<lambda>p. p \<noteq> [] \<and> strings_HasPrefix s p) seqs")
    case None
    then show ?thesis by (subst trim_seqs.simps) simp
  next
    case (Some p)
    then have p: "p \<in> set seqs" "strings_HasPrefix s p" by (auto simp: find_Some_iff)
    then have "set s = set p \<union> set (drop (length p) s)" by (auto simp: HasPrefix_iff)
    moreover have "set p \<subseteq> set (concat seqs)" using p(1) by auto
    ultimately show ?thesis using 1 [OF Some] Some by (subst trim_seqs.simps) auto
  qed
qed

lemma Split_subset: "l \<in> set (strings_Split s c) \<Longrightarrow> set l \<subseteq> set s"
proof (induction s arbitrary: l)
  case (Cons a s)
  then show ?case by (auto split: if_splits list.splits) blast+
qed simp

lemma blank_no_diff:
  assumes "strings_TrimSpace s = []" "l \<in> set (strings_Split s LF)"
  shows "\<not> is_diff l"
proof
  assume "is_diff l"
  then have "CHR ''d'' \<in> set l" by (auto simp: is_diff_def HasPrefix_iff)
  moreover have "set l \<subseteq> set s" using assms(2) by (rule Split_subset)
  moreover have "set s \<subseteq> set (concat space_seqs)"
  proof -
    have "trim_seqs (map rev space_seqs) (rev (trim_seqs space_seqs s)) = []" using assms(1) by (simp add: strings_TrimSpace_def)
    then have "set (rev (trim_seqs space_seqs s)) \<subseteq> set (concat (map rev space_seqs))"
      using trim_seqs_chars [of "rev (trim_seqs space_seqs s)" "map rev space_seqs"] by simp
    then show ?thesis using trim_seqs_chars [of s space_seqs] by auto
  qed
  moreover have "CHR ''d'' \<notin> set (concat space_seqs)" by code_simp
  ultimately show False by blast
qed

lemma fold_skip: "\<forall>l \<in> set ls. \<not> is_diff l \<Longrightarrow> prsCurrent s = None \<Longrightarrow> fold (parse_line win) ls s = s"
  by (induction ls) (simp_all add: parse_line_def is_diff_def)

lemma parse_files: "upFiles (parseUnifiedPatch win raw) =
  prsFiles (flushFile (fold (parse_line win) (strings_Split (crlf_to_lf raw) LF) parse_start))"
proof (cases "strings_TrimSpace (crlf_to_lf raw) = []")
  case True
  then have "fold (parse_line win) (strings_Split (crlf_to_lf raw) LF) parse_start = parse_start"
    using blank_no_diff by (intro fold_skip) (auto simp: parse_start_lines)
  with True show ?thesis by (simp add: parseUnifiedPatch_def parse_start_def flushFile_def)
qed (simp add: parseUnifiedPatch_def parse_start_def)

lemma parse_lines:
  "patch_lines (parseUnifiedPatch win raw) = dropWhile (\<lambda>l. \<not> is_diff l) (strings_Split (crlf_to_lf raw) LF)"
proof -
  let ?s = "fold (parse_line win) (strings_Split (crlf_to_lf raw) LF) parse_start"
  have "patch_lines (parseUnifiedPatch win raw) = taken_lines (flushFile ?s)"
    by (simp add: patch_lines_def parse_files taken_lines_def)
  also have "\<dots> = dropWhile (\<lambda>l. \<not> is_diff l) (strings_Split (crlf_to_lf raw) LF)"
    using fold_parse_lines [OF parse_start_inv] by (simp add: parse_start_lines)
  finally show ?thesis .
qed

lemma parsed_files_ok:
  assumes "f \<in> set (upFiles (parseUnifiedPatch win raw))"
  shows "file_ok win f" "hunks_named f"
proof -
  have "parse_inv win (flushFile (fold (parse_line win) (strings_Split (crlf_to_lf raw) LF) parse_start))"
    by (intro flushFile_inv fold_parse_inv parse_start_inv)
  then show "file_ok win f" "hunks_named f" using assms by (auto simp: parse_files parse_inv_def split: if_splits)
qed

section \<open>Hunk ids\<close>

lemma Itoa_no_underscore: "CHR ''_'' \<notin> set (Itoa i)"
proof -
  have "CHR ''_'' \<noteq> digit_char d" if "d < 10" for d
  proof
    assume "CHR ''_'' = digit_char d"
    then have "(of_char CHR ''_'' :: nat) = of_char (digit_char d)" by simp
    with that show False by (simp add: digit_char_def)
  qed
  then have "CHR ''_'' \<notin> set (nat_digits n)" for n using nat_digits_set by blast
  then show ?thesis by (auto simp: Itoa_def)
qed

lemma makeHunkID_inj: "makeHunkID p h ls i = makeHunkID p' h' ls' j \<Longrightarrow> i = j"
proof -
  have t: "takeWhile (\<lambda>c. c \<noteq> CHR ''_'') (Itoa k @ CHR ''_'' # x) = Itoa k" for k x
    using Itoa_no_underscore [of k] by (subst takeWhile_append2) auto
  assume "makeHunkID p h ls i = makeHunkID p' h' ls' j"
  then have "takeWhile (\<lambda>c. c \<noteq> CHR ''_'') (drop 1 (makeHunkID p h ls i)) = takeWhile (\<lambda>c. c \<noteq> CHR ''_'') (drop 1 (makeHunkID p' h' ls' j))"
    by simp
  then have "Itoa i = Itoa j" by (simp add: makeHunkID_def t)
  then show "i = j" by (simp add: Itoa_inj)
qed

lemma hunks_named_distinct: "hunks_named f \<Longrightarrow> distinct (map uhHunkID (ufHunks f))"
  unfolding distinct_conv_nth hunks_named_def by (auto dest!: makeHunkID_inj)

section \<open>Selection\<close>

definition selects :: "selection \<Rightarrow> string \<Rightarrow> string \<Rightarrow> bool" where
  "selects sel path hid \<longleftrightarrow> (\<exists>ids. map_of sel path = Some ids \<and> map_of ids hid \<noteq> None)"

lemma select_ids:
  fixes sel :: selection and hids :: "string list"
  assumes "map_of sel path = Some ids0"
  defines "sel' \<equiv> fold (\<lambda>hid sel. case map_of sel path of None \<Rightarrow> sel
      | Some ids \<Rightarrow> AList.update path (AList.update hid () ids) sel) hids sel"
  shows "(\<forall>q. map_of sel' q \<noteq> None \<longleftrightarrow> map_of sel q \<noteq> None) \<and>
    (\<forall>q hid. selects sel' q hid \<longleftrightarrow> selects sel q hid \<or> q = path \<and> hid \<in> set hids)"
  unfolding sel'_def using assms(1)
proof (induction hids arbitrary: sel ids0)
  case (Cons h hids)
  let ?sel = "AList.update path (AList.update h () ids0) sel"
  have "map_of ?sel path = Some (AList.update h () ids0)" by (simp add: go_map)
  note IH = Cons.IH [OF this]
  have "selects ?sel q hid \<longleftrightarrow> selects sel q hid \<or> q = path \<and> hid = h" for q hid
    using Cons.prems by (auto simp: selects_def go_map)
  moreover have "map_of ?sel q \<noteq> None \<longleftrightarrow> map_of sel q \<noteq> None" for q
    using Cons.prems by (auto simp: go_map)
  ultimately show ?case using IH Cons.prems by auto
qed simp

lemma select_entry_spec:
  "(\<forall>q. map_of (select_entry e sel) q \<noteq> None \<longleftrightarrow> map_of sel q \<noteq> None \<or> q = shPath e) \<and>
   (\<forall>q hid. selects (select_entry e sel) q hid \<longleftrightarrow> selects sel q hid \<or> q = shPath e \<and> hid \<in> set (shHunkIDs e))"
proof (cases "map_of sel (shPath e)")
  case None
  let ?sel = "AList.update (shPath e) [] sel"
  have "map_of ?sel (shPath e) = Some []" by (simp add: go_map)
  from select_ids [OF this, of "shHunkIDs e"] None show ?thesis
    by (auto simp: select_entry_def selects_def go_map)
next
  case (Some ids)
  from select_ids [OF Some, of "shHunkIDs e"] Some show ?thesis by (auto simp: select_entry_def)
qed

lemma select_all_spec:
  "selects (fold select_entry es sel) q hid \<longleftrightarrow> selects sel q hid \<or> (\<exists>e \<in> set es. shPath e = q \<and> hid \<in> set (shHunkIDs e))"
  by (induction es arbitrary: sel) (auto simp: select_entry_spec)

lemma select_hunks_spec:
  "select_hunks ids hs (kept, n) =
     (kept @ filter (\<lambda>h. map_of ids (uhHunkID h) \<noteq> None) hs, n + int (length (filter (\<lambda>h. map_of ids (uhHunkID h) \<noteq> None) hs)))"
  by (induction hs arbitrary: kept n) auto

definition selected_file :: "selection \<Rightarrow> unifiedPatchFile \<Rightarrow> unifiedPatchFile" where
  "selected_file sel f = f\<lparr>ufHunks := filter (\<lambda>h. selects sel (ufPath f) (uhHunkID h)) (ufHunks f)\<rparr>"

lemma filter_files_spec:
  "filter_files sel fs (files, n) =
     (files @ filter (\<lambda>f. ufHunks f \<noteq> []) (map (selected_file sel) fs),
      n + sum_list (map (\<lambda>f. int (length (ufHunks (selected_file sel f)))) fs))"
proof (induction fs arbitrary: files n)
  case (Cons f fs)
  show ?case
  proof (cases "map_of sel (ufPath f)")
    case None
    then have "ufHunks (selected_file sel f) = []" by (simp add: selected_file_def selects_def)
    with None Cons show ?thesis by simp
  next
    case (Some ids)
    then have "ufHunks (selected_file sel f) = filter (\<lambda>h. map_of ids (uhHunkID h) \<noteq> None) (ufHunks f)"
      by (simp add: selected_file_def selects_def)
    moreover have "\<lparr>ufPath = ufPath f, ufStatus = ufStatus f, ufHeaderLines = ufHeaderLines f,
        ufHunks = ufHunks (selected_file sel f)\<rparr> = selected_file sel f"
      by (simp add: selected_file_def)
    ultimately show ?thesis using Some Cons by (simp add: select_hunks_spec algebra_simps)
  qed
qed simp

lemma selected_chosen: "selected_file (fold select_entry es []) f = chosen_file es f"
proof -
  have "selects (fold select_entry es []) q hid \<longleftrightarrow> (\<exists>e \<in> set es. shPath e = q \<and> hid \<in> set (shHunkIDs e))" for q hid
    using select_all_spec [of es "[]" q hid] by (simp add: selects_def)
  then show ?thesis by (simp add: selected_file_def chosen_file_def chosen_def [abs_def])
qed

section \<open>Rendering and reading back\<close>

lemma closed_file_lines: "ufHunks f \<noteq> [] \<Longrightarrow> file_lines (closed_file f) = file_lines f @ [[]]"
  using append_butlast_last_id [of "ufHunks f"]
  by (cases "ufHunks f" rule: rev_cases) (simp_all add: file_lines_def closed_file_def hunk_lines_def)

lemma closed_file_ok: "file_ok win f \<Longrightarrow> ufHunks f \<noteq> [] \<Longrightarrow> file_ok win (closed_file f)"
  by (cases "ufHunks f" rule: rev_cases)
    (auto simp: file_ok_def header_ok_def closed_file_def hunk_ok_def is_diff_def is_hunk_def strings_HasPrefix_def)

lemma chosen_file_ok: "file_ok win f \<Longrightarrow> file_ok win (chosen_file sel f)"
  by (auto simp: file_ok_def header_ok_def chosen_file_def)

lemma render_file_lines: "render_file f = concat (map render_line (file_lines f))"
proof -
  have "concat (map render_hunk hs) = concat (map render_line (concat (map hunk_lines hs)))" for hs
    by (induction hs) (simp_all add: render_hunk_def hunk_lines_def)
  then show ?thesis by (simp add: render_file_def file_lines_def)
qed

lemma Split_render_line: "LF \<notin> set l \<Longrightarrow> strings_Split (render_line l @ s) LF = l # strings_Split s LF"
  by (induction l) (auto simp: render_line_def)

lemma Split_render_lines:
  "\<forall>l \<in> set ls. LF \<notin> set l \<Longrightarrow> strings_Split (concat (map render_line ls) @ s) LF = ls @ strings_Split s LF"
  by (induction ls) (simp_all add: Split_render_line)

lemma render_files_lines:
  "render_files n fs = (if n > 0 \<and> fs \<noteq> [] then [LF] else []) @ strings_Join (map render_file fs) [LF]"
proof (induction fs arbitrary: n)
  case (Cons f fs)
  then show ?case by (cases fs) simp_all
qed simp

lemma Split_render_files:
  assumes "fs \<noteq> []" "\<forall>f \<in> set fs. ufHunks f \<noteq> [] \<and> (\<forall>l \<in> set (file_lines f). LF \<notin> set l)"
  shows "strings_Split (strings_Join (map render_file fs) [LF]) LF = concat (map (\<lambda>f. file_lines (closed_file f)) fs)"
  using assms
proof (induction fs)
  case (Cons f fs)
  have f: "strings_Split (render_file f @ s) LF = file_lines f @ strings_Split s LF" for s
    using Split_render_lines [of "file_lines f" s] Cons.prems by (simp add: render_file_lines)
  show ?case
  proof (cases fs)
    case Nil
    with f [of "[]"] Cons.prems show ?thesis by (simp add: closed_file_lines)
  next
    case (Cons g gs)
    with f Cons.IH Cons.prems show ?thesis by (simp add: closed_file_lines)
  qed
qed simp

text \<open>What the parser has read so far, up to the ids: the closed files and the open one.\<close>

definition pair :: "unifiedPatchHunk \<Rightarrow> string \<times> string list" where
  "pair h = (uhHeader h, uhLines h)"

definition seen :: "parse_state \<Rightarrow> (string \<times> string \<times> string list \<times> (string \<times> string list) list) list" where
  "seen s = map content (prsFiles s) @ (case prsCurrent s of None \<Rightarrow> [] | Some f \<Rightarrow>
     [(ufPath f, ufStatus f, ufHeaderLines f, map pair (ufHunks f) @ (case prsHunk s of None \<Rightarrow> [] | Some h \<Rightarrow> [pair h]))])"

lemma content_pair: "content f = (ufPath f, ufStatus f, ufHeaderLines f, map pair (ufHunks f))"
  by (simp add: content_def pair_def)

lemma flushHunk_seen: "seen (flushHunk s) = seen s"
  by (auto simp: seen_def flushHunk_def pair_def Let_def split: option.splits)

lemma flushFile_seen:
  assumes "parse_inv win s"
  shows "map content (prsFiles (flushFile s)) = seen s"
proof (cases "prsCurrent s")
  case None
  then show ?thesis by (simp add: flushFile_def seen_def)
next
  case (Some f)
  obtain g where g: "flushHunk s = s\<lparr>prsIndex := int (length (ufHunks g)), prsCurrent := Some g, prsHunk := None\<rparr>"
    "file_ok win g"
    using flushHunk_inv [OF assms Some] by blast
  have "map content (prsFiles (flushFile s)) = seen (flushHunk s)"
    using g Some header_status [of win g] by (simp add: flushFile_def seen_def Let_def content_pair file_ok_def)
  then show ?thesis by (simp add: flushHunk_seen)
qed

lemma fold_body:
  assumes "prsCurrent s = Some f" "prsHunk s = Some h" "\<forall>l \<in> set ls. \<not> is_diff l \<and> \<not> is_hunk l"
  shows "fold (parse_line win) ls s = s\<lparr>prsHunk := Some (h\<lparr>uhLines := uhLines h @ ls\<rparr>)\<rparr>"
  using assms
proof (induction ls arbitrary: s h)
  case (Cons l ls)
  then have "parse_line win l s = s\<lparr>prsHunk := Some (h\<lparr>uhLines := uhLines h @ [l]\<rparr>)\<rparr>"
    by (simp add: parse_line_def is_diff_def is_hunk_def)
  with Cons.IH [of "parse_line win l s" "h\<lparr>uhLines := uhLines h @ [l]\<rparr>"] Cons.prems show ?case by simp
qed simp

lemma fold_header:
  assumes "prsCurrent s = Some f" "prsHunk s = None" "\<forall>l \<in> set ls. \<not> is_diff l \<and> \<not> is_hunk l"
  shows "fold (parse_line win) ls s = s\<lparr>prsCurrent := Some (fold (header_line win) ls f)\<rparr>"
  using assms
proof (induction ls arbitrary: s f)
  case (Cons l ls)
  then have "parse_line win l s = s\<lparr>prsCurrent := Some (header_line win l f)\<rparr>"
    by (simp add: parse_line_def is_diff_def is_hunk_def)
  with Cons.IH [of "parse_line win l s" "header_line win l f"] Cons.prems show ?case by simp
qed simp

lemma is_hunk_not_diff: "is_hunk l \<Longrightarrow> \<not> is_diff l"
  by (auto simp: is_diff_def is_hunk_def HasPrefix_iff)

lemma fold_hunk:
  assumes "prsCurrent s = Some f" "hunk_ok h"
  shows "fold (parse_line win) (hunk_lines h) s =
    (flushHunk s)\<lparr>prsHunk := Some \<lparr>uhHunkID = [], uhHeader = uhHeader h, uhLines = uhLines h\<rparr>\<rparr>"
proof -
  let ?t = "(flushHunk s)\<lparr>prsHunk := Some \<lparr>uhHunkID = [], uhHeader = uhHeader h, uhLines = []\<rparr>\<rparr>"
  have "parse_line win (uhHeader h) s = ?t"
    using assms is_hunk_not_diff [of "uhHeader h"]
    by (simp add: parse_line_def hunk_ok_def is_diff_def is_hunk_def)
  moreover obtain g where "prsCurrent ?t = Some g" using flushHunk_current [of s] assms(1) by auto
  ultimately show ?thesis
    using assms(2) fold_body [of ?t g "\<lparr>uhHunkID = [], uhHeader = uhHeader h, uhLines = []\<rparr>" "uhLines h" win]
    by (simp add: hunk_lines_def hunk_ok_def)
qed

lemma seen_next_hunk:
  assumes "prsCurrent s = Some f"
  shows "\<exists>pre g. prsCurrent ((flushHunk s)\<lparr>prsHunk := Some h\<rparr>) = Some g \<and>
    seen s = pre @ [(ufPath g, ufStatus g, ufHeaderLines g, map pair (ufHunks g))] \<and>
    seen ((flushHunk s)\<lparr>prsHunk := Some h\<rparr>) = pre @ [(ufPath g, ufStatus g, ufHeaderLines g, map pair (ufHunks g) @ [pair h])]"
  using flushHunk_current [of s] assms flushHunk_seen [of s] by (auto simp: seen_def)

lemma fold_hunks:
  assumes "prsCurrent s = Some f" "\<forall>h \<in> set hs. hunk_ok h" "seen s = pre @ [(p, st, hls, ps)]"
  shows "seen (fold (parse_line win) (concat (map hunk_lines hs)) s) = pre @ [(p, st, hls, ps @ map pair hs)]"
  using assms
proof (induction hs arbitrary: s f ps)
  case (Cons h hs)
  let ?t = "(flushHunk s)\<lparr>prsHunk := Some \<lparr>uhHunkID = [], uhHeader = uhHeader h, uhLines = uhLines h\<rparr>\<rparr>"
  obtain g where g: "prsCurrent ?t = Some g" "seen ?t = pre @ [(p, st, hls, ps @ [pair h])]"
    using seen_next_hunk [OF Cons.prems(1), of "\<lparr>uhHunkID = [], uhHeader = uhHeader h, uhLines = uhLines h\<rparr>"] Cons.prems(3)
    by (auto simp: pair_def)
  have "hunk_ok h" using Cons.prems(2) by simp
  then have t: "fold (parse_line win) (hunk_lines h) s = ?t" by (rule fold_hunk [OF Cons.prems(1)])
  have "seen (fold (parse_line win) (concat (map hunk_lines hs)) ?t) = pre @ [(p, st, hls, (ps @ [pair h]) @ map pair hs)]"
    using Cons.prems(2) by (intro Cons.IH [OF g(1) _ g(2)]) simp
  then show ?case by (simp add: t)
qed simp

text \<open>A well-formed file is read back as it is, whatever was read before it.\<close>

lemma fold_file:
  assumes "file_ok win f" "parse_inv win s"
  shows "seen (fold (parse_line win) (file_lines f) s) = seen s @ [content f]"
proof -
  obtain first rest where h: "is_diff first" "\<forall>l \<in> set rest. \<not> is_diff l \<and> \<not> is_hunk l"
    "f\<lparr>ufHunks := []\<rparr> = fold (header_line win) rest (new_file win first)"
    using assms(1) by (auto simp: file_ok_def header_ok_def)
  have lines: "ufHeaderLines (fold (header_line win) ls g) = ufHeaderLines g @ ls" for ls g
    by (induction ls arbitrary: g) (simp_all add: header_line_rest)
  have "ufHeaderLines f = ufHeaderLines (f\<lparr>ufHunks := []\<rparr>)" by simp
  also have "\<dots> = first # rest" by (simp only: h(3) lines) (simp add: new_file_def)
  finally have hl: "ufHeaderLines f = first # rest" .
  let ?s = "(flushFile s)\<lparr>prsCurrent := Some (new_file win first)\<rparr>"
  let ?t = "?s\<lparr>prsCurrent := Some (f\<lparr>ufHunks := []\<rparr>)\<rparr>"
  have "parse_line win first s = ?s" using h(1) by (simp add: parse_line_def is_diff_def new_file_def)
  moreover have "fold (parse_line win) rest ?s = ?t"
    using fold_header [of ?s "new_file win first" rest win] h(2,3) flushFile_hunk [OF assms(2)] by simp
  ultimately have "fold (parse_line win) (file_lines f) s = fold (parse_line win) (concat (map hunk_lines (ufHunks f))) ?t"
    by (simp add: file_lines_def hl)
  moreover have "seen ?t = seen s @ [(ufPath f, ufStatus f, ufHeaderLines f, [])]"
    using flushFile_hunk [OF assms(2)] flushFile_seen [OF assms(2)] by (simp add: seen_def)
  ultimately show ?thesis
    using fold_hunks [of ?t "f\<lparr>ufHunks := []\<rparr>" "ufHunks f"] assms(1) by (simp add: file_ok_def content_pair)
qed

lemma fold_files:
  "\<forall>f \<in> set fs. file_ok win f \<Longrightarrow> parse_inv win s \<Longrightarrow>
   seen (fold (parse_line win) (concat (map file_lines fs)) s) = seen s @ map content fs"
  by (induction fs arbitrary: s) (simp_all add: fold_file fold_parse_inv)

lemma crlf_to_lf_id: "CR \<notin> set s \<Longrightarrow> crlf_to_lf s = s"
  by (induction s rule: crlf_to_lf.induct) auto

lemma parse_lines_plain:
  assumes "l \<in> set (patch_lines (parseUnifiedPatch win raw))"
  shows "LF \<notin> set l" "CR \<notin> set raw \<Longrightarrow> CR \<notin> set l"
proof -
  have l: "l \<in> set (strings_Split (crlf_to_lf raw) LF)" using assms by (auto simp: parse_lines dest: set_dropWhileD)
  then show "LF \<notin> set l" by (rule Split_no_sep)
  show "CR \<notin> set l" if "CR \<notin> set raw" using Split_subset [OF l] crlf_to_lf_id [OF that] that by auto
qed

lemma chosen_files_of:
  assumes "f \<in> set (chosen_files sel (parseUnifiedPatch win raw))"
  shows "file_ok win f" "ufHunks f \<noteq> []" "set (file_lines f) \<subseteq> set (patch_lines (parseUnifiedPatch win raw))"
proof -
  obtain g where g: "g \<in> set (upFiles (parseUnifiedPatch win raw))" "f = chosen_file sel g" "ufHunks f \<noteq> []"
    using assms by (auto simp: chosen_files_def)
  then show "file_ok win f" "ufHunks f \<noteq> []" using parsed_files_ok(1) chosen_file_ok by blast+
  have "set (file_lines f) \<subseteq> set (file_lines g)" by (auto simp: g(2) file_lines_def chosen_file_def)
  with g(1) show "set (file_lines f) \<subseteq> set (patch_lines (parseUnifiedPatch win raw))" by (auto simp: patch_lines_def)
qed

lemma buildPatchForApply_selected:
  fixes p :: unifiedPatch
  assumes "apiMode input = ''selected''" "apiSelected input \<noteq> []"
  defines "fs \<equiv> chosen_files (apiSelected input) p"
  shows "buildPatchForApply raw p input =
    (if fs = [] then Inl (ErrNew ''selected hunks not found in patch'')
     else Inr (strings_Join (map render_file fs) [LF], int (sum_list (map (\<lambda>f. length (ufHunks f)) fs))))"
proof -
  have cnt: "sum_list (map (\<lambda>f. int (length (ufHunks (g f)))) xs) =
      int (sum_list (map (\<lambda>f. length (ufHunks f)) (filter (\<lambda>f. ufHunks f \<noteq> []) (map g xs))))"
    for g :: "unifiedPatchFile \<Rightarrow> unifiedPatchFile" and xs by (induction xs) auto
  have "ufHunks f \<noteq> []" if "f \<in> set fs" for f using that by (auto simp: fs_def chosen_files_def)
  then have pos: "sum_list (map (\<lambda>f. length (ufHunks f)) fs) = 0 \<longleftrightarrow> fs = []" by (cases fs) auto
  have "filter_files (fold select_entry (apiSelected input) []) (upFiles p) ([], 0) =
      (fs, int (sum_list (map (\<lambda>f. length (ufHunks f)) fs)))"
    by (simp add: filter_files_spec selected_chosen [abs_def] cnt fs_def chosen_files_def)
  with assms(1,2) pos show ?thesis
    by (simp add: buildPatchForApply_def renderUnifiedPatch_def render_files_lines)
qed

lemma set_Join: "set (strings_Join ls sep) \<subseteq> \<Union> (set ` set ls) \<union> set sep"
  by (induction ls sep rule: strings_Join.induct) auto

lemma filter_single_key: "distinct (map k xs) \<Longrightarrow> x \<in> set xs \<Longrightarrow> filter (\<lambda>y. k y = k x) xs = [x]"
  by (induction xs) (auto simp: filter_empty_conv image_iff)

lemma filter_map_single_key:
  "distinct (map k xs) \<Longrightarrow> x \<in> set xs \<Longrightarrow> (\<And>y. k y \<noteq> k x \<Longrightarrow> \<not> P (g y)) \<Longrightarrow> P (g x) \<Longrightarrow> filter P (map g xs) = [g x]"
proof (induction xs)
  case (Cons y ys)
  show ?case
  proof (cases "x = y")
    case True
    with Cons.prems have "filter P (map g ys) = []" by (auto simp: filter_empty_conv image_iff)
    with True Cons.prems(4) show ?thesis by simp
  next
    case False
    with Cons.prems have "k y \<noteq> k x" "x \<in> set ys" by (auto simp: image_iff)
    with Cons show ?thesis by simp
  qed
qed simp

text \<open>The example diff, read with the hash of the ids left symbolic.\<close>

declare makeHunkID_def [code del]

lemma ex_diff_parsed: "upFiles (parseUnifiedPatch False ex_diff) =
  [\<lparr>ufPath = ''m.go'', ufStatus = ''modified'', ufHeaderLines = [''diff --git a/m.go b/m.go'', ''--- a/m.go'', ''+++ b/m.go''],
     ufHunks = [\<lparr>uhHunkID = makeHunkID ''m.go'' ''@@ -1 +1 @@'' [''-a'', ''+b''] 1, uhHeader = ''@@ -1 +1 @@'', uhLines = [''-a'', ''+b'']\<rparr>,
                \<lparr>uhHunkID = makeHunkID ''m.go'' ''@@ -9 +9 @@'' [''+c''] 2, uhHeader = ''@@ -9 +9 @@'', uhLines = [''+c'']\<rparr>]\<rparr>,
   \<lparr>ufPath = ''n'', ufStatus = ''added'', ufHeaderLines = [''diff --git a/n b/n'', ''new file mode 100644'', ''--- /dev/null'', ''+++ b/n''],
     ufHunks = [\<lparr>uhHunkID = makeHunkID ''n'' ''@@ -0,0 +1 @@'' [''+d'', []] 1, uhHeader = ''@@ -0,0 +1 @@'', uhLines = [''+d'', []]\<rparr>]\<rparr>]"
  by code_simp

declare makeHunkID_def [code]

section \<open>Properties\<close>

text \<open>
  C20: The parser of a diff loses nothing: the lines of its files, with their headers and hunks in
  order, are exactly the lines of the diff from the first \<open>diff --git\<close> line on.
\<close>
theorem patch_parse_lossless:
  "patch_lines (parseUnifiedPatch win raw) =
     dropWhile (\<lambda>l. \<not> strings_HasPrefix l ''diff --git '') (strings_Split (crlf_to_lf raw) LF)"
  using parse_lines by (simp add: is_diff_def)

text \<open>
  C19: Every hunk that is offered to the client can be applied by itself: when the files of the diff
  have distinct paths, the selection of the offered path and hunk id builds a patch of exactly that
  hunk under the header of its file.
\<close>
theorem patch_hunks_addressable:
  assumes "fp \<in> set (prFiles (toPatchReadyPayload summary (parseUnifiedPatch win raw)))" "hk \<in> set (fpHunks fp)"
    and "distinct (map ufPath (upFiles (parseUnifiedPatch win raw)))"
    and "apiMode input = ''selected''" "apiSelected input = [\<lparr>shPath = fpPath fp, shHunkIDs = [hunkHunkID hk]\<rparr>]"
  shows "\<exists>f \<in> set (upFiles (parseUnifiedPatch win raw)). \<exists>h \<in> set (ufHunks f).
    fp = file_payload f \<and> hk = hunk_payload h \<and>
    buildPatchForApply raw (parseUnifiedPatch win raw) input = Inr (render_file (f\<lparr>ufHunks := [h]\<rparr>), 1)"
proof -
  let ?p = "parseUnifiedPatch win raw"
  obtain f h where f: "f \<in> set (upFiles ?p)" "fp = file_payload f" "h \<in> set (ufHunks f)" "hk = hunk_payload h"
    using assms(1,2) by (auto simp: toPatchReadyPayload_def Let_def file_payload_def)
  have sel: "apiSelected input = [\<lparr>shPath = ufPath f, shHunkIDs = [uhHunkID h]\<rparr>]"
    using assms(5) f by (simp add: file_payload_def hunk_payload_def)
  have "distinct (map uhHunkID (ufHunks f))" using parsed_files_ok(2) [OF f(1)] by (rule hunks_named_distinct)
  then have one: "chosen_file (apiSelected input) f = f\<lparr>ufHunks := [h]\<rparr>"
    using f(3) by (simp add: chosen_file_def sel chosen_def [abs_def] filter_single_key)
  have none: "ufHunks (chosen_file (apiSelected input) g) = []" if "ufPath g \<noteq> ufPath f" for g
    using that by (simp add: chosen_file_def sel chosen_def [abs_def])
  have "chosen_files (apiSelected input) ?p = [f\<lparr>ufHunks := [h]\<rparr>]"
    unfolding chosen_files_def using filter_map_single_key [OF assms(3) f(1), of "\<lambda>f. ufHunks f \<noteq> []" "chosen_file (apiSelected input)"] one none by simp
  then have "buildPatchForApply raw ?p input = Inr (render_file (f\<lparr>ufHunks := [h]\<rparr>), 1)"
    using buildPatchForApply_selected [of input raw ?p] assms(4) sel by simp
  with f show ?thesis by blast
qed

theorem patch_hunks_addressable_witness:
  "\<exists>f \<in> set (upFiles (parseUnifiedPatch False ex_diff)). \<exists>h \<in> set (ufHunks f).
     ufPath f = ''m.go'' \<and> uhHeader h = ''@@ -9 +9 @@'' \<and>
     buildPatchForApply ex_diff (parseUnifiedPatch False ex_diff) ex_selection = Inr (render_file (f\<lparr>ufHunks := [h]\<rparr>), 1)"
proof -
  let ?f = "upFiles (parseUnifiedPatch False ex_diff) ! 0"
  have "file_payload ?f \<in> set (prFiles (toPatchReadyPayload [] (parseUnifiedPatch False ex_diff)))"
    "hunk_payload (ufHunks ?f ! 1) \<in> set (fpHunks (file_payload ?f))"
    "distinct (map ufPath (upFiles (parseUnifiedPatch False ex_diff)))"
    "apiMode ex_selection = ''selected''"
    "apiSelected ex_selection = [\<lparr>shPath = fpPath (file_payload ?f), shHunkIDs = [hunkHunkID (hunk_payload (ufHunks ?f ! 1))]\<rparr>]"
    by (simp_all add: toPatchReadyPayload_def file_payload_def hunk_payload_def ex_diff_parsed ex_selection_def)
  from patch_hunks_addressable [OF this] show ?thesis
    by (auto simp: ex_diff_parsed file_payload_def hunk_payload_def)
qed

text \<open>
  C18: A selection hands git exactly the selected hunks: of a diff without carriage returns the
  patch that is built reads back as the files with at least one selected hunk, in order, each with
  its header and its selected hunks unchanged (and a blank line that ends the file), and the count
  that is reported is the number of these hunks.
\<close>
theorem selected_patch_exact:
  assumes "CR \<notin> set raw" "apiMode input = ''selected''"
    and "buildPatchForApply raw (parseUnifiedPatch win raw) input = Inr (text, n)"
  shows "map content (upFiles (parseUnifiedPatch win text)) =
      map (content \<circ> closed_file) (chosen_files (apiSelected input) (parseUnifiedPatch win raw)) \<and>
    n = int (length (concat (map ufHunks (chosen_files (apiSelected input) (parseUnifiedPatch win raw))))) \<and> n > 0"
proof (intro conjI)
  let ?p = "parseUnifiedPatch win raw" let ?fs = "chosen_files (apiSelected input) ?p"
  have "apiSelected input \<noteq> []" using assms(2,3) by (auto simp: buildPatchForApply_def)
  note built = buildPatchForApply_selected [OF assms(2) this, of raw ?p]
  from built assms(3) have fs: "?fs \<noteq> []" "text = strings_Join (map render_file ?fs) [LF]"
    "n = int (sum_list (map (\<lambda>f. length (ufHunks f)) ?fs))" by (auto split: if_splits)
  show "n = int (length (concat (map ufHunks ?fs)))" by (simp add: fs(3) length_concat comp_def)
  have "ufHunks (hd ?fs) \<noteq> []" using hd_in_set [OF fs(1)] by (rule chosen_files_of(2))
  then show "n > 0" using fs(1) by (cases ?fs) (simp_all add: fs(3) add_pos_nonneg)
  have plain: "LF \<notin> set l" "CR \<notin> set l" if "f \<in> set ?fs" "l \<in> set (file_lines f)" for f l
    using chosen_files_of(3) [OF that(1)] that(2) parse_lines_plain assms(1) by blast+
  have split: "strings_Split text LF = concat (map file_lines (map closed_file ?fs))"
    using Split_render_files [OF fs(1)] chosen_files_of(2) plain(1) by (simp add: fs(2) comp_def)
  have "CR \<notin> set (render_file f)" if "f \<in> set ?fs" for f
    using plain(2) [OF that] by (auto simp: render_file_lines render_line_def)
  moreover have "set text \<subseteq> \<Union> (set ` set (map render_file ?fs)) \<union> set [LF]" unfolding fs(2) by (rule set_Join)
  ultimately have "CR \<notin> set text" by (auto dest!: subsetD)
  moreover have "\<forall>f \<in> set (map closed_file ?fs). file_ok win f"
    using chosen_files_of(1,2) closed_file_ok by auto
  ultimately have "map content (upFiles (parseUnifiedPatch win text)) = seen parse_start @ map content (map closed_file ?fs)"
    using fold_files [OF _ parse_start_inv, of "map closed_file ?fs" win]
    by (simp add: parse_files crlf_to_lf_id flushFile_seen [OF fold_parse_inv [OF parse_start_inv]] split)
  then show "map content (upFiles (parseUnifiedPatch win text)) = map (content \<circ> closed_file) ?fs"
    by (simp add: seen_def parse_start_def)
qed

theorem selected_patch_exact_witness:
  "\<exists>text. buildPatchForApply ex_diff (parseUnifiedPatch False ex_diff) ex_selection = Inr (text, 1) \<and>
     map content (upFiles (parseUnifiedPatch False text)) =
       [(''m.go'', ''modified'', [''diff --git a/m.go b/m.go'', ''--- a/m.go'', ''+++ b/m.go''], [(''@@ -9 +9 @@'', [''+c'', []])])]"
proof -
  let ?p = "parseUnifiedPatch False ex_diff"
  have mode: "apiMode ex_selection = ''selected''" "apiSelected ex_selection \<noteq> []" by (simp_all add: ex_selection_def)
  have ne: "makeHunkID ''m.go'' ''@@ -1 +1 @@'' [''-a'', ''+b''] 1 \<noteq> makeHunkID ''m.go'' ''@@ -9 +9 @@'' [''+c''] 2"
    by (auto dest: makeHunkID_inj)
  have fs: "chosen_files (apiSelected ex_selection) ?p = [(upFiles ?p ! 0)\<lparr>ufHunks := [ufHunks (upFiles ?p ! 0) ! 1]\<rparr>]"
    using ne by (simp add: chosen_files_def chosen_file_def chosen_def ex_diff_parsed ex_selection_def)
  then obtain out where t: "buildPatchForApply ex_diff ?p ex_selection = Inr (out, 1)"
    using buildPatchForApply_selected [OF mode, of ex_diff ?p] by simp
  have "CR \<notin> set ex_diff" by code_simp
  note r = selected_patch_exact [OF this mode(1) t, THEN conjunct1]
  have "(content \<circ> closed_file) ((upFiles ?p ! 0)\<lparr>ufHunks := [ufHunks (upFiles ?p ! 0) ! 1]\<rparr>) =
    (''m.go'', ''modified'', [''diff --git a/m.go b/m.go'', ''--- a/m.go'', ''+++ b/m.go''], [(''@@ -9 +9 @@'', [''+c'', []])])"
    by (simp add: ex_diff_parsed content_def closed_file_def)
  then have "map content (upFiles (parseUnifiedPatch False out)) =
    [(''m.go'', ''modified'', [''diff --git a/m.go b/m.go'', ''--- a/m.go'', ''+++ b/m.go''], [(''@@ -9 +9 @@'', [''+c'', []])])]"
    unfolding r fs by (simp only: list.map)
  with t show ?thesis by (intro exI [of _ out] conjI)
qed

end
