(* ===== verification/Cursor_Worktree.thy ===== *)
theory Cursor_Worktree
  imports Cursor_Cli Patch_Laws
begin

text \<open>
  What the cursor-agent adapter does to the machine, stated over the log of effects of \<open>traced\<close>:
  a prompt works in its temporary worktree only and removes it, the workspace is changed only by a
  patch that git has checked, and the patch of a task is the diff of its worktree.
\<close>

section \<open>Definitions\<close>

text \<open>
  The arguments with which git reads the workspace, and the commands of a prompt: they run in the
  worktree \<open>wt\<close>, read the workspace, or register the worktree.
\<close>

definition workspace_query :: "CursorAgentCLIConfig \<Rightarrow> string list \<Rightarrow> bool" where
  "workspace_query cfg args \<longleftrightarrow> args \<in>
     {[''diff'', ''--binary'', ''HEAD'', ''--'', ''.''],
      [''ls-files'', ''--others'', ''--exclude-standard''],
      [''ls-files'', ''--others'', ''--ignored'', ''--exclude-standard'', ''--''] @ ccSyncIgnoredPaths cfg}"

definition confined_command :: "CursorAgentCLIConfig \<Rightarrow> string \<Rightarrow> command \<Rightarrow> bool" where
  "confined_command cfg wt c \<longleftrightarrow>
     cmdDir c = wt \<or>
     cmdDir c = ccWorkspaceRoot cfg \<and> cmdName c = ccGitBin cfg \<and> cmdStdin c = None \<and>
       (workspace_query cfg (cmdArgs c) \<or> cmdArgs c = [''worktree'', ''add'', ''--detach'', wt])"

definition below :: "'w OS \<Rightarrow> string \<Rightarrow> string \<Rightarrow> bool" where
  "below os wt p \<longleftrightarrow> (\<exists>path. p = osJoin os [wt, path])"

fun confined :: "'w OS \<Rightarrow> CursorAgentCLIConfig \<Rightarrow> string \<Rightarrow> effect \<Rightarrow> bool" where
  "confined os cfg wt (Ran c r) = confined_command cfg wt c"
| "confined os cfg wt (MadeTemp d r) = False"
| "confined os cfg wt (RemovedAll p) = False"
| "confined os cfg wt (MadeDir p) = (\<exists>q. below os wt q \<and> p = osDir os q)"
| "confined os cfg wt (Created p) = below os wt p"
| "confined os cfg wt (Copied p q) = (below os (ccWorkspaceRoot cfg) p \<and> below os wt q)"
| "confined os cfg wt (Chmodded p) = below os wt p"

definition git_command :: "CursorAgentCLIConfig \<Rightarrow> go_context \<Rightarrow> string \<Rightarrow> string option \<Rightarrow> string list \<Rightarrow> command" where
  "git_command cfg ctx dir stdin args =
     \<lparr>cmdCtx = ctx, cmdDir = dir, cmdEnv = None, cmdStdin = stdin, cmdName = ccGitBin cfg, cmdArgs = args\<rparr>"

definition worktree_remove :: "CursorAgentCLIConfig \<Rightarrow> string \<Rightarrow> command" where
  "worktree_remove cfg wt = git_command cfg (WithTimeout Background (10 * Second)) (ccWorkspaceRoot cfg) None
     [''worktree'', ''remove'', ''--force'', wt]"

definition worktree_diff :: "CursorAgentCLIConfig \<Rightarrow> go_context \<Rightarrow> string \<Rightarrow> command" where
  "worktree_diff cfg ctx wt = git_command cfg ctx wt None [''diff'', ''--binary'', ''HEAD'', ''--'', ''.'']"

definition apply_check :: "CursorAgentCLIConfig \<Rightarrow> go_context \<Rightarrow> string \<Rightarrow> command" where
  "apply_check cfg ctx patch = git_command cfg ctx (ccWorkspaceRoot cfg) (Some patch)
     [''apply'', ''--check'', ''--binary'', ''--whitespace=nowarn'']"

definition apply_patch :: "CursorAgentCLIConfig \<Rightarrow> go_context \<Rightarrow> string \<Rightarrow> command" where
  "apply_patch cfg ctx patch = git_command cfg ctx (ccWorkspaceRoot cfg) (Some patch)
     [''apply'', ''--binary'', ''--whitespace=nowarn'']"

text \<open>The effects of a call, and the error of a command's result.\<close>

definition effects_of :: "('w \<times> effect list) CursorAgentCLIAdapter \<Rightarrow> ('w \<times> effect list) CursorAgentCLIAdapter \<Rightarrow> effect list" where
  "effects_of a a' = drop (length (snd (caWorld a))) (snd (caWorld a'))"

text \<open>A machine on which every command succeeds and \<open>git diff\<close> and the agent write one line.\<close>

definition ex_os :: "unit OS" where
  "ex_os = \<lparr>osWindows = False, osEnviron = [], osJoin = (\<lambda>ps. strings_Join ps ''/''), osDir = (\<lambda>p. p),
     osRun = (\<lambda>c w. ((if cmdArgs c = [''diff'', ''--binary'', ''HEAD'', ''--'', ''.''] then ''x'' else [], [], None), w)),
     osLookPath = (\<lambda>f w. (Inr f, w)), osGetwd = (\<lambda>w. (Inr ''/'', w)), osMkdirTemp = (\<lambda>d p w. (Inr ''/tmp/1'', w)),
     osRemoveAll = (\<lambda>p w. (None, w)), osStat = (\<lambda>p w. (Inr \<lparr>fiIsDir = False, fiMode = 0\<rparr>, w)), osMkdirAll = (\<lambda>p w. (None, w)),
     osOpen = (\<lambda>p w. (None, w)), osCreate = (\<lambda>p w. (None, w)), osCopy = (\<lambda>p q w. (None, w)), osChmod = (\<lambda>p m w. (None, w)),
     osNow = (\<lambda>w. (0, w))\<rparr>"

definition ex_cli :: "(unit \<times> effect list) CursorAgentCLIAdapter" where
  "ex_cli = \<lparr>caCfg = \<lparr>ccWorkspaceRoot = ''/ws'', ccTempRoot = [], ccGitBin = ''git'', ccCursorAgentBin = ''cursor-agent'', ccCursorAgentArgs = [],
       ccCursorAgentEnv = [], ccSyncIgnoredPaths = [], ccCursorAgentUseWSL = False, ccCursorAgentWSLDistro = [], ccCursorAgentWSLBinary = [],
       ccPromptTimeout = Minute, ccRunTimeout = Minute\<rparr>,
     caTaskSeq = 0, caRunSeq = 0, caTasks = [], caRuns = [], caLastRunProfile = [], caLastRunStatus = [], caLatestTerminalError = [],
     caResolvedGitBin = ''git'', caResolvedCursorAgent = ''cursor-agent'', caWorld = ((), [])\<rparr>"

definition ex_prompt :: SubmitTaskInput where
  "ex_prompt = \<lparr>stiPrompt = ''fix'', stiTemplate = [], stiContext = \<lparr>wcActiveFilePath = [], wcSelection = [], wcLatestTerminalError = [],
     wcChangedFiles = [], wcLastRunProfile = [], wcLastRunStatus = []\<rparr>\<rparr>"

definition ex_submit :: "TaskHandle result \<times> (unit \<times> effect list) CursorAgentCLIAdapter" where
  "ex_submit = cli_SubmitTask (traced ex_os) (\<lambda>_. None) (Request True) ex_prompt ex_cli"

definition ex_approval :: ApplyPatchInput where
  "ex_approval = \<lparr>apiTaskID = ''task_1'', apiMode = ''all'', apiSelected = []\<rparr>"

definition ex_apply :: "ApplyPatchResult result \<times> (unit \<times> effect list) CursorAgentCLIAdapter" where
  "ex_apply = cli_ApplyPatch (traced ex_os) (Request True) ex_approval (snd ex_submit)"



section \<open>A prompt is confined to its worktree\<close>

lemma runGit_emits [emits]:
  "(\<And>r. C (Ran (git_command cfg ctx dir None args) r)) \<Longrightarrow> emits C (runGit (traced os) cfg ctx dir args)"
  unfolding runGit_def runCommand_def by (intro emits) (simp add: git_command_def)

lemma runGitWithInput_emits [emits]:
  "(\<And>r. C (Ran (git_command cfg ctx dir (Some inp) args) r)) \<Longrightarrow> emits C (runGitWithInput (traced os) cfg ctx dir inp args)"
  unfolding runGitWithInput_def runCommand_def by (intro emits) (simp add: git_command_def)

lemma confined_git:
  "confined os cfg wt (Ran (git_command cfg ctx wt stdin args) r)"
  "workspace_query cfg args \<Longrightarrow> confined os cfg wt (Ran (git_command cfg ctx (ccWorkspaceRoot cfg) None args) r)"
  "confined os cfg wt (Ran (git_command cfg ctx (ccWorkspaceRoot cfg) None [''worktree'', ''add'', ''--detach'', wt]) r)"
  by (simp_all add: confined_command_def git_command_def)

lemma workspace_queries:
  "workspace_query cfg [''diff'', ''--binary'', ''HEAD'', ''--'', ''.'']"
  "workspace_query cfg [''ls-files'', ''--others'', ''--exclude-standard'']"
  "workspace_query cfg ([''ls-files'', ''--others'', ''--ignored'', ''--exclude-standard'', ''--''] @ ccSyncIgnoredPaths cfg)"
  unfolding workspace_query_def by blast+

lemma copyFile_emits [emits]:
  assumes "below os (ccWorkspaceRoot cfg) p" "below os wt q"
  shows "emits (confined os cfg wt) (copyFile (traced os) p q)"
  unfolding copyFile_def by (intro emits) (use assms in auto)

lemma copy_files_emits [emits]: "emits (confined os cfg wt) (copy_files (traced os) cfg wt paths)"
  by (induction paths) (auto intro!: emits simp: below_def)

lemma listSnapshotFiles_emits [emits]: "emits (confined os cfg wt) (listSnapshotFiles (traced os) cfg ctx)"
  unfolding listSnapshotFiles_def Let_def by (intro emits confined_git workspace_queries)

lemma sync_emits [emits]: "emits (confined os cfg wt) (syncWorkspaceIntoWorktree (traced os) cfg ctx wt)"
  unfolding syncWorkspaceIntoWorktree_def by (intro emits confined_git workspace_queries)

lemma stage_emits [emits]: "emits (confined os cfg wt) (stageUntrackedFilesForDiff (traced os) cfg ctx wt)"
  unfolding stageUntrackedFilesForDiff_def Let_def by (intro emits confined_git)

lemma commit_emits [emits]: "emits (confined os cfg wt) (commitWorktreeBaseline (traced os) cfg ctx wt)"
  unfolding commitWorktreeBaseline_def by (intro emits confined_git)

lemma runCursorAgent_emits [emits]: "emits (confined os cfg wt) (runCursorAgent (traced os) cfg ctx wt prompt)"
  unfolding runCursorAgent_def runCommand_def by (intro emits) (simp add: confined_command_def)

lemma generate_in_emits [emits]: "emits (confined os cfg wt) (generate_in (traced os) pj cfg ctx tid inp wt)"
  unfolding generate_in_def Let_def by (intro emits confined_git)

lemma runGit_run:
  "run_state (runGit (traced os) cfg ctx dir args) (w, tr) =
     (case osRun os (git_command cfg ctx dir None args) w of
        (r, w') \<Rightarrow> (case snd (snd r) of None \<Rightarrow> Inr (fst r) | Some e \<Rightarrow> Inl (git_failed args (fst (snd r)) e),
                    (w', tr @ [Ran (git_command cfg ctx dir None args) r])))"
  by (cases "osRun os (git_command cfg ctx dir None args) w")
    (auto simp: runGit_def runCommand_def traced_ops git_command_def split: option.splits)

lemma runGitWithInput_run:
  "run_state (runGitWithInput (traced os) cfg ctx dir inp args) (w, tr) =
     (case osRun os (git_command cfg ctx dir (Some inp) args) w of
        (r, w') \<Rightarrow> (case snd (snd r) of None \<Rightarrow> Inr (fst r) | Some e \<Rightarrow> Inl (git_failed args (fst (snd r)) e),
                    (w', tr @ [Ran (git_command cfg ctx dir (Some inp) args) r])))"
  by (cases "osRun os (git_command cfg ctx dir (Some inp) args) w")
    (auto simp: runGitWithInput_def runCommand_def traced_ops git_command_def split: option.splits)

lemma cleanup_run:
  "\<exists>w' r. run_state (cleanup (traced os) cfg parent wt) (w, tr) =
     ((), (w', tr @ [Ran (worktree_remove cfg wt) r, RemovedAll parent]))"
  by (simp add: cleanup_def runGit_run worktree_remove_def traced_ops case_prod_beta) (metis prod.exhaust)

text \<open>The course of a prompt: a temporary directory, the work, the removal.\<close>

lemma generateTask_run:
  obtains (no_dir) w' e where "run_state (generateTask (traced os) pj cfg ctx tid inp) (w, tr) =
      (Inl (ErrWrap ''create cursor-agent temp dir: '' e []), (w', tr @ [MadeTemp (ccTempRoot cfg) (Inl e)]))"
  | (worked) w1 parent res w2 mid w3 r where
      "run_state (generate_in (traced os) pj cfg ctx tid inp (osJoin os [parent, ''worktree'']))
         (w1, tr @ [MadeTemp (ccTempRoot cfg) (Inr parent)]) = (res, (w2, tr @ MadeTemp (ccTempRoot cfg) (Inr parent) # mid))"
      "list_all (confined os cfg (osJoin os [parent, ''worktree''])) mid"
      "run_state (generateTask (traced os) pj cfg ctx tid inp) (w, tr) =
         (res, (w3, tr @ MadeTemp (ccTempRoot cfg) (Inr parent) # mid @
            [Ran (worktree_remove cfg (osJoin os [parent, ''worktree''])) r, RemovedAll parent]))"
proof (cases "osMkdirTemp os (ccTempRoot cfg) ''vibedeck-cursor-agent-*'' w")
  case (Pair d w1)
  show ?thesis
  proof (cases d)
    case (Inl e)
    with Pair show ?thesis
      by (intro no_dir [of e w1]) (simp add: generateTask_def try_bind_def wrap_error_def traced_ops)
  next
    case (Inr parent)
    let ?wt = "osJoin os [parent, ''worktree'']" let ?tr = "tr @ [MadeTemp (ccTempRoot cfg) (Inr parent)]"
    obtain res s2 where g: "run_state (generate_in (traced os) pj cfg ctx tid inp ?wt) (w1, ?tr) = (res, s2)"
      by (rule prod.exhaust)
    obtain w2 mid where s2: "s2 = (w2, ?tr @ mid)" "list_all (confined os cfg ?wt) mid"
      using emits_run [OF generate_in_emits g] by blast
    obtain w3 r where c: "run_state (cleanup (traced os) cfg parent ?wt) (w2, ?tr @ mid) =
        ((), (w3, (?tr @ mid) @ [Ran (worktree_remove cfg ?wt) r, RemovedAll parent]))"
      using cleanup_run [of os cfg parent ?wt w2 "?tr @ mid"] by (elim exE)
    have m: "osMkdirTemp (traced os) (ccTempRoot cfg) ''vibedeck-cursor-agent-*'' (w, tr) = (Inr parent, (w1, ?tr))"
      using Pair Inr by (simp add: traced_ops)
    show ?thesis
      by (rule worked [of parent w1 res w2 mid w3 r])
        (use g s2 c m in \<open>simp_all add: generateTask_def try_bind_def wrap_error_def Let_def\<close>)
  qed
qed


lemma emits_any: "emits C m \<Longrightarrow> run_state m s = (r, s') \<Longrightarrow> \<exists>es. snd s' = snd s @ es"
  by (cases s) (metis emits_run snd_conv)

lemma clone_same: "clonePatchReadyPayload p = p"
proof -
  have "(\<lambda>f. \<lparr>fpPath = fpPath f, fpStatus = fpStatus f, fpHunks = fpHunks f\<rparr>) = id" by (rule ext) simp
  then show ?thesis by (simp add: clonePatchReadyPayload_def split: option.split)
qed

lemma effects_of_append [simp]:
  "effects_of a a = []" "effects_of a (a\<lparr>caWorld := (w, snd (caWorld a) @ es)\<rparr>) = es"
  by (simp_all add: effects_of_def)

lemma with_world_git:
  "with_world (runGitWithInput (traced os) cfg ctx dir inp args) a =
     (case osRun os (git_command cfg ctx dir (Some inp) args) (fst (caWorld a)) of
        (r, w') \<Rightarrow> (case snd (snd r) of None \<Rightarrow> Inr (fst r) | Some e \<Rightarrow> Inl (git_failed args (fst (snd r)) e),
                    a\<lparr>caWorld := (w', snd (caWorld a) @ [Ran (git_command cfg ctx dir (Some inp) args) r])\<rparr>))"
  by (cases "caWorld a") (simp add: with_world_def runGitWithInput_run split: prod.splits)

text \<open>A prompt that succeeds has read its diff in the worktree.\<close>

lemma generate_in_ok:
  assumes "run_state (generate_in (traced os) pj cfg ctx tid inp wt) (w, tr) = (Inr task, (w', tr @ es))"
  obtains raw serr where "Ran (worktree_diff cfg ctx wt) (raw, serr, None) \<in> set es" "ctRawDiff task = raw"
    "ctParsed task = parseUnifiedPatch (osWindows os) raw" "ctTaskID task = tid" "ctPrompt task = stiPrompt inp"
    "\<exists>summary. summary \<noteq> [] \<and> ctPatch task = Some (toPatchReadyPayload summary (parseUnifiedPatch (osWindows os) raw))"
proof -
  note [emits] = confined_git
  obtain s1 s2 s3 s4 s5 s6 raw out where steps:
    "run_state (runGit (traced os) cfg ctx (ccWorkspaceRoot cfg) [''worktree'', ''add'', ''--detach'', wt]) (w, tr) = (Inr out, s1)"
    "\<exists>x. run_state (syncWorkspaceIntoWorktree (traced os) cfg ctx wt) s1 = (Inr x, s2)"
    "\<exists>x. run_state (commitWorktreeBaseline (traced os) cfg ctx wt) s2 = (Inr x, s3)"
    "\<exists>x. run_state (runCursorAgent (traced os) cfg ctx wt (buildCursorAgentPrompt (osWindows os) inp)) s3 = (Inr x, s4)"
    "\<exists>x. run_state (stageUntrackedFilesForDiff (traced os) cfg ctx wt) s4 = (Inr x, s5)"
    "run_state (runGit (traced os) cfg ctx wt [''diff'', ''--binary'', ''HEAD'', ''--'', ''.'']) s5 = (Inr raw, s6)"
    "ctTaskID task = tid" "ctPrompt task = stiPrompt inp" "ctRawDiff task = raw" "ctParsed task = parseUnifiedPatch (osWindows os) raw"
    "\<exists>x. ctPatch task = Some (toPatchReadyPayload (taskSummary pj x (parseUnifiedPatch (osWindows os) raw)) (parseUnifiedPatch (osWindows os) raw))"
    "snd (w', tr @ es) = snd s6"
    using assms unfolding generate_in_def
    apply (elim try_bind_ok)
    subgoal for out s1 x2 s2 x3 s3 x4 s4 x5 s5 raw s6
      by (rule that [of out s1 s2 s3 s4 s5 raw s6]) (auto simp: Let_def split: prod.splits dest!: traced_now)
    done
  have e1: "\<exists>xs. snd s1 = tr @ xs" using emits_any [OF _ steps(1), of "\<lambda>_. True"] by (auto intro: emits)
  have grow: "\<exists>xs. snd s2 = snd s1 @ xs" "\<exists>xs. snd s3 = snd s2 @ xs" "\<exists>xs. snd s4 = snd s3 @ xs" "\<exists>xs. snd s5 = snd s4 @ xs"
    using steps(2-5) by (elim exE emits_any [OF sync_emits] emits_any [OF commit_emits] emits_any [OF runCursorAgent_emits] emits_any [OF stage_emits])+
  obtain w5 tr5 where s5: "s5 = (w5, tr5)" by fastforce
  obtain serr where "snd s6 = tr5 @ [Ran (worktree_diff cfg ctx wt) (raw, serr, None)]"
    using steps(6) by (auto simp: s5 runGit_run worktree_diff_def split: prod.splits option.splits)
  then have "Ran (worktree_diff cfg ctx wt) (raw, serr, None) \<in> set es"
    using e1 grow s5 steps(12) by auto
  moreover have "taskSummary pj x p \<noteq> []" for x p by (simp add: taskSummary_def Let_def)
  ultimately show ?thesis using steps(7-11) that by metis
qed


text \<open>The example.\<close>

lemma run_try_bind: "run_state (try_bind m f) s = (case run_state m s of (r, s') \<Rightarrow> (case r of Inl e \<Rightarrow> (Inl e, s') | Inr x \<Rightarrow> run_state (f x) s'))"
  by (simp add: try_bind_def split: prod.splits sum.splits)

lemma ex_blank: "strings_TrimSpace ''x'' = ''x''" "strings_TrimSpace [] = []" "trimmed_lines [] = [[]]" "sort_Strings [] = []"
  by code_simp+

lemma ex_git:
  "run_state (runGit (traced ex_os) cfg ctx dir args) (w, tr) =
     (Inr (if args = [''diff'', ''--binary'', ''HEAD'', ''--'', ''.''] then ''x'' else []),
      (w, tr @ [Ran (git_command cfg ctx dir None args) ((if args = [''diff'', ''--binary'', ''HEAD'', ''--'', ''.''] then ''x'' else []), [], None)]))"
  by (simp add: runGit_run ex_os_def git_command_def)

lemma ex_git_input:
  "args \<noteq> [''diff'', ''--binary'', ''HEAD'', ''--'', ''.''] \<Longrightarrow>
   run_state (runGitWithInput (traced ex_os) cfg ctx dir inp args) (w, tr) =
     (Inr [], (w, tr @ [Ran (git_command cfg ctx dir (Some inp) args) ([], [], None)]))"
  by (simp add: runGitWithInput_run ex_os_def git_command_def)

lemma ex_generate:
  assumes "ccSyncIgnoredPaths cfg = []" "ccCursorAgentArgs cfg = []"
  shows "\<exists>task s'. run_state (generate_in (traced ex_os) pj cfg ctx tid inp wt) ((), tr) = (Inr task, s') \<and> ctRawDiff task = ''x''"
proof -
  have agent: "\<exists>s'. run_state (runCursorAgent (traced ex_os) cfg ctx wt p) s = (Inr [], s')" for p s
    using assms(2) by (cases s) (simp add: runCursorAgent_def runCommand_def traced_ops ex_os_def ex_blank)
  have sync: "\<exists>s'. run_state (syncWorkspaceIntoWorktree (traced ex_os) cfg ctx wt) s = (Inr (), s')" for s
    by (cases s) (simp add: syncWorkspaceIntoWorktree_def run_try_bind ex_git ex_git_input ex_blank wrap_error_def
        listSnapshotFiles_def assms(1) appendGitOutput_def append_path_def Let_def)
  have commit: "\<exists>s'. run_state (commitWorktreeBaseline (traced ex_os) cfg ctx wt) s = (Inr (), s')" for s
    by (cases s) (simp add: commitWorktreeBaseline_def run_try_bind ex_git ex_blank)
  have stage: "\<exists>s'. run_state (stageUntrackedFilesForDiff (traced ex_os) cfg ctx wt) s = (Inr (), s')" for s
    by (cases s) (simp add: stageUntrackedFilesForDiff_def run_try_bind ex_git ex_blank Let_def)
  obtain s1 where s1: "run_state (runGit (traced ex_os) cfg ctx (ccWorkspaceRoot cfg) [''worktree'', ''add'', ''--detach'', wt]) ((), tr) = (Inr [], s1)"
    by (simp add: ex_git)
  obtain s2 where s2: "run_state (syncWorkspaceIntoWorktree (traced ex_os) cfg ctx wt) s1 = (Inr (), s2)" using sync by blast
  obtain s3 where s3: "run_state (commitWorktreeBaseline (traced ex_os) cfg ctx wt) s2 = (Inr (), s3)" using commit by blast
  obtain s4 where s4: "run_state (runCursorAgent (traced ex_os) cfg ctx wt (buildCursorAgentPrompt (osWindows ex_os) inp)) s3 = (Inr [], s4)" using agent by blast
  obtain s5 where s5: "run_state (stageUntrackedFilesForDiff (traced ex_os) cfg ctx wt) s4 = (Inr (), s5)" using stage by blast
  obtain s6 where s6: "run_state (runGit (traced ex_os) cfg ctx wt [''diff'', ''--binary'', ''HEAD'', ''--'', ''.'']) s5 = (Inr ''x'', s6)"
    by (cases s5) (simp add: ex_git)
  show ?thesis by (simp add: generate_in_def run_try_bind s1 s2 s3 s4 s5 s6 Let_def split: prod.splits)
qed

lemma ex_submitted: "\<exists>task. ctRawDiff task = ''x'' \<and> fst ex_submit = Inr \<lparr>thTaskID = ''task_1''\<rparr> \<and>
  caTasks (snd ex_submit) = [(''task_1'', task)] \<and> caCfg (snd ex_submit) = caCfg ex_cli"
proof -
  have cfg: "ccSyncIgnoredPaths (caCfg ex_cli) = []" "ccCursorAgentArgs (caCfg ex_cli) = []" by (simp_all add: ex_cli_def)
  have id: "Itoa (wrap64 (caTaskSeq ex_cli + 1)) = ''1''" by code_simp
  have w: "caWorld ex_cli = ((), [])" "caTasks ex_cli = []" by (simp_all add: ex_cli_def)
  obtain task s1 where g: "run_state (generate_in (traced ex_os) (\<lambda>_. None) (caCfg ex_cli) (Request True) ''task_1'' ex_prompt
      (osJoin ex_os [''/tmp/1'', ''worktree''])) ((), [MadeTemp (ccTempRoot (caCfg ex_cli)) (Inr ''/tmp/1'')]) = (Inr task, s1)" "ctRawDiff task = ''x''"
    using ex_generate [OF cfg] by blast
  have t: "osMkdirTemp ex_os d p u = (Inr ''/tmp/1'', u)" for d p u by (simp add: ex_os_def)
  have "\<exists>s2. run_state (generateTask (traced ex_os) (\<lambda>_. None) (caCfg ex_cli) (Request True) ''task_1'' ex_prompt) ((), []) = (Inr task, s2)"
    using g(1) by (simp add: generateTask_def run_try_bind wrap_error_def traced_ops t Let_def split: prod.splits)
  then show ?thesis
    using g(2) by (auto simp: ex_submit_def cli_SubmitTask_def with_world_def Let_def id w)
qed

section \<open>Properties\<close>


text \<open>
  C12: The workspace is changed only by a patch that git has checked. An approval runs no command when
  the task is unknown, the selection is wrong or the patch is blank; else it hands the patch to
  \<open>git apply --check\<close> and, only when that succeeds, the same text to \<open>git apply\<close>. The status says
  which of these happened: conflict means that nothing was applied, success that all of it was.
\<close>
theorem patch_apply_checked:
  assumes "cli_ApplyPatch (traced os) ctx input a = (res, a')"
  shows "\<exists>r. res = Inr r \<and>
    (case map_of (caTasks a) (apiTaskID input) of
       None \<Rightarrow> effects_of a a' = [] \<and> aprStatus r = ''failed''
     | Some task \<Rightarrow>
         (case buildPatchForApply (ctRawDiff task) (ctParsed task) input of
            Inl e \<Rightarrow> effects_of a a' = [] \<and> aprStatus r = ''failed'' \<and> aprMessage r = Error e
          | Inr (patch, n) \<Rightarrow>
              if strings_TrimSpace patch = [] then effects_of a a' = [] \<and> aprStatus r = ''success''
              else (\<exists>out serr e. effects_of a a' = [Ran (apply_check (caCfg a) ctx patch) (out, serr, Some e)] \<and> aprStatus r = ''conflict'') \<or>
                (\<exists>o1 e1 o2 e2 e. effects_of a a' =
                    [Ran (apply_check (caCfg a) ctx patch) (o1, e1, None), Ran (apply_patch (caCfg a) ctx patch) (o2, e2, Some e)] \<and>
                    aprStatus r = ''failed'') \<or>
                (\<exists>o1 e1 o2 e2. effects_of a a' =
                    [Ran (apply_check (caCfg a) ctx patch) (o1, e1, None), Ran (apply_patch (caCfg a) ctx patch) (o2, e2, None)] \<and>
                    aprStatus r = ''success'')))"
proof (cases "map_of (caTasks a) (apiTaskID input)")
  case None
  with assms show ?thesis by (auto simp: cli_ApplyPatch_def)
next
  case (Some task)
  show ?thesis
  proof (cases "buildPatchForApply (ctRawDiff task) (ctParsed task) input")
    case (Inl e)
    with Some assms show ?thesis by (auto simp: cli_ApplyPatch_def)
  next
    case (Inr pn)
    obtain patch n where pn: "pn = (patch, n)" by fastforce
    show ?thesis
    proof (cases "strings_TrimSpace patch = []")
      case True
      with Some Inr pn assms show ?thesis by (auto simp: cli_ApplyPatch_def)
    next
      case False
      obtain o1 e1 err1 w1 where c: "osRun os (apply_check (caCfg a) ctx patch) (fst (caWorld a)) = ((o1, e1, err1), w1)"
        by (metis prod.exhaust)
      obtain o2 e2 err2 w2 where p: "osRun os (apply_patch (caCfg a) ctx patch) w1 = ((o2, e2, err2), w2)"
        by (metis prod.exhaust)
      note run = assms [unfolded cli_ApplyPatch_def with_world_git]
      show ?thesis
        using run Some Inr pn False c p unfolding apply_check_def apply_patch_def
        by (cases err1; cases err2) auto
    qed
  qed
qed

theorem patch_apply_checked_witness:
  "\<exists>o1 e1 err1 es. effects_of (snd ex_submit) (snd ex_apply) =
     Ran (apply_check (caCfg ex_cli) (Request True) ''x'') (o1, e1, err1) # es"
proof -
  have e: "cli_ApplyPatch (traced ex_os) (Request True) ex_approval (snd ex_submit) = (fst ex_apply, snd ex_apply)"
    by (simp add: ex_apply_def)
  obtain task where "ctRawDiff task = ''x''" "map_of (caTasks (snd ex_submit)) (apiTaskID ex_approval) = Some task"
    "caCfg (snd ex_submit) = caCfg ex_cli"
    using ex_submitted by (auto simp: ex_approval_def)
  with patch_apply_checked [OF e] show ?thesis
    by (auto simp: buildPatchForApply_def ex_approval_def ex_blank)
qed

text \<open>
  C13: What the user is shown is what the agent wrote: the task that a successful prompt returns holds
  the output of \<open>git diff\<close> in the worktree of that prompt; the patch offered for review is that diff
  parsed, and an approval of the task builds its patch from that same text.
\<close>
theorem reviewed_patch_is_worktree_diff:
  assumes "cli_SubmitTask (traced os) pj ctx inp a = (Inr h, a')"
  shows "\<exists>parent raw serr summary task. Ran (worktree_diff (caCfg a) ctx (osJoin os [parent, ''worktree''])) (raw, serr, None) \<in> set (effects_of a a') \<and>
    fst (cli_GetPatch (thTaskID h) a') = Inr (Some (toPatchReadyPayload summary (parseUnifiedPatch (osWindows os) raw))) \<and>
    map_of (caTasks a') (thTaskID h) = Some task \<and> ctRawDiff task = raw \<and> ctParsed task = parseUnifiedPatch (osWindows os) raw \<and>
    ctPrompt task = stiPrompt inp"
proof -
  obtain w tr where a: "caWorld a = (w, tr)" by fastforce
  let ?id = "''task_'' @ Itoa (wrap64 (caTaskSeq a + 1))"
  obtain task s' where g: "run_state (generateTask (traced os) pj (caCfg a) ctx ?id inp) (w, tr) = (Inr task, s')"
    and h: "h = \<lparr>thTaskID = ?id\<rparr>" and a': "caWorld a' = s'" "caTasks a' = AList.update ?id task (caTasks a)"
    using assms a by (auto simp: cli_SubmitTask_def with_world_def Let_def split: prod.splits sum.splits)
  show ?thesis
  proof (cases rule: generateTask_run [of os pj "caCfg a" ctx ?id inp w tr])
    case (no_dir w' e)
    with g show ?thesis by simp
  next
    case (worked w1 parent res w2 mid w3 r)
    have res: "res = Inr task" "s' = (w3, tr @ MadeTemp (ccTempRoot (caCfg a)) (Inr parent) # mid @
        [Ran (worktree_remove (caCfg a) (osJoin os [parent, ''worktree''])) r, RemovedAll parent])"
      using g worked(3) by auto
    have run: "run_state (generate_in (traced os) pj (caCfg a) ctx ?id inp (osJoin os [parent, ''worktree'']))
        (w1, tr @ [MadeTemp (ccTempRoot (caCfg a)) (Inr parent)]) = (Inr task, (w2, (tr @ [MadeTemp (ccTempRoot (caCfg a)) (Inr parent)]) @ mid))"
      using worked(1) res(1) by simp
    from generate_in_ok [OF run] obtain raw serr summary where t:
      "Ran (worktree_diff (caCfg a) ctx (osJoin os [parent, ''worktree''])) (raw, serr, None) \<in> set mid"
      "ctRawDiff task = raw" "ctParsed task = parseUnifiedPatch (osWindows os) raw" "ctPrompt task = stiPrompt inp"
      "ctPatch task = Some (toPatchReadyPayload summary (parseUnifiedPatch (osWindows os) raw))" by metis
    have "effects_of a a' = MadeTemp (ccTempRoot (caCfg a)) (Inr parent) # mid @
        [Ran (worktree_remove (caCfg a) (osJoin os [parent, ''worktree''])) r, RemovedAll parent]"
      by (simp add: effects_of_def a a' res(2))
    moreover have "map_of (caTasks a') (thTaskID h) = Some task" by (simp add: a' h go_map)
    ultimately show ?thesis using t by (auto simp: cli_GetPatch_def clone_same)
  qed
qed

theorem reviewed_patch_is_worktree_diff_witness:
  "\<exists>parent raw serr summary. Ran (worktree_diff (caCfg ex_cli) (Request True) (osJoin ex_os [parent, ''worktree''])) (raw, serr, None) \<in> set (effects_of ex_cli (snd ex_submit)) \<and>
     fst (cli_GetPatch ''task_1'' (snd ex_submit)) = Inr (Some (toPatchReadyPayload summary (parseUnifiedPatch False raw)))"
proof -
  have "cli_SubmitTask (traced ex_os) (\<lambda>_. None) (Request True) ex_prompt ex_cli = (Inr \<lparr>thTaskID = ''task_1''\<rparr>, snd ex_submit)"
    using ex_submitted by (metis ex_submit_def prod.collapse)
  from reviewed_patch_is_worktree_diff [OF this] show ?thesis
    by (auto simp: ex_os_def)
qed



end
