(* ===== verification/Adapter_Json.thy ===== *)
theory Adapter_Json
  imports Adapter
begin

text \<open>
  The JSON encoding of the adapter interface (the struct tags of \<open>internal/agent/types.go\<close>), as it
  is spoken with a bridge process and shown by the HTTP server.
\<close>

section \<open>Encoders and decoders\<close>

definition AdapterCapabilities_json :: "AdapterCapabilities \<Rightarrow> json" where
  "AdapterCapabilities_json p = JObj
    ([(''supportsPartialApply'', JBool (SupportsPartialApply p)),
      (''supportsStructuredPatch'', JBool (SupportsStructuredPatch p)),
      (''supportsContextSelection'', JBool (SupportsContextSelection p)),
      (''supportsArtifacts'', JBool (SupportsArtifacts p)),
      (''supportsOpenLocation'', JBool (SupportsOpenLocation p))])"

definition AdapterCapabilities_names :: "string list" where
  "AdapterCapabilities_names = [''supportsPartialApply'', ''supportsStructuredPatch'', ''supportsContextSelection'', ''supportsArtifacts'', ''supportsOpenLocation'']"

definition AdapterCapabilities_put :: "string \<Rightarrow> json \<Rightarrow> AdapterCapabilities \<Rightarrow> AdapterCapabilities result" where
  "AdapterCapabilities_put f v p =
     (if f = ''supportsPartialApply'' then map_result (\<lambda>x. p\<lparr>SupportsPartialApply := x\<rparr>) (decode_bool v (SupportsPartialApply p))
      else if f = ''supportsStructuredPatch'' then map_result (\<lambda>x. p\<lparr>SupportsStructuredPatch := x\<rparr>) (decode_bool v (SupportsStructuredPatch p))
      else if f = ''supportsContextSelection'' then map_result (\<lambda>x. p\<lparr>SupportsContextSelection := x\<rparr>) (decode_bool v (SupportsContextSelection p))
      else if f = ''supportsArtifacts'' then map_result (\<lambda>x. p\<lparr>SupportsArtifacts := x\<rparr>) (decode_bool v (SupportsArtifacts p))
      else map_result (\<lambda>x. p\<lparr>SupportsOpenLocation := x\<rparr>) (decode_bool v (SupportsOpenLocation p)))"

definition AdapterCapabilities_unjson :: "json \<Rightarrow> AdapterCapabilities result" where
  "AdapterCapabilities_unjson j = decode_struct AdapterCapabilities_names AdapterCapabilities_put j zero_AdapterCapabilities"

definition AdapterCapabilities_ok :: "AdapterCapabilities \<Rightarrow> bool" where
  "AdapterCapabilities_ok p \<longleftrightarrow> True"

definition zero_ContextRequest :: ContextRequest where
  "zero_ContextRequest = \<lparr>crqOptions = zero_ContextOptions\<rparr>"

definition ContextRequest_json :: "ContextRequest \<Rightarrow> json" where
  "ContextRequest_json p = JObj
    ([(''options'', ContextOptions_json (crqOptions p))])"

definition ContextRequest_names :: "string list" where
  "ContextRequest_names = [''options'']"

definition ContextRequest_put :: "string \<Rightarrow> json \<Rightarrow> ContextRequest \<Rightarrow> ContextRequest result" where
  "ContextRequest_put f v p =
     (map_result (\<lambda>x. p\<lparr>crqOptions := x\<rparr>) (decode_struct ContextOptions_names ContextOptions_put v (crqOptions p)))"

definition ContextRequest_unjson :: "json \<Rightarrow> ContextRequest result" where
  "ContextRequest_unjson j = decode_struct ContextRequest_names ContextRequest_put j zero_ContextRequest"

definition ContextRequest_ok :: "ContextRequest \<Rightarrow> bool" where
  "ContextRequest_ok p \<longleftrightarrow> True"

definition zero_WorkspaceContext :: WorkspaceContext where
  "zero_WorkspaceContext = \<lparr>wcActiveFilePath = [], wcSelection = [], wcLatestTerminalError = [], wcChangedFiles = [], wcLastRunProfile = [], wcLastRunStatus = []\<rparr>"

definition WorkspaceContext_json :: "WorkspaceContext \<Rightarrow> json" where
  "WorkspaceContext_json p = JObj
    (omit_string ''activeFilePath'' (wcActiveFilePath p) @
     omit_string ''selection'' (wcSelection p) @
     omit_string ''latestTerminalError'' (wcLatestTerminalError p) @
     omit_list enc_string ''changedFiles'' (wcChangedFiles p) @
     omit_string ''lastRunProfile'' (wcLastRunProfile p) @
     omit_string ''lastRunStatus'' (wcLastRunStatus p))"

definition WorkspaceContext_names :: "string list" where
  "WorkspaceContext_names = [''activeFilePath'', ''selection'', ''latestTerminalError'', ''changedFiles'', ''lastRunProfile'', ''lastRunStatus'']"

definition WorkspaceContext_put :: "string \<Rightarrow> json \<Rightarrow> WorkspaceContext \<Rightarrow> WorkspaceContext result" where
  "WorkspaceContext_put f v p =
     (if f = ''activeFilePath'' then map_result (\<lambda>x. p\<lparr>wcActiveFilePath := x\<rparr>) (decode_string v (wcActiveFilePath p))
      else if f = ''selection'' then map_result (\<lambda>x. p\<lparr>wcSelection := x\<rparr>) (decode_string v (wcSelection p))
      else if f = ''latestTerminalError'' then map_result (\<lambda>x. p\<lparr>wcLatestTerminalError := x\<rparr>) (decode_string v (wcLatestTerminalError p))
      else if f = ''changedFiles'' then map_result (\<lambda>x. p\<lparr>wcChangedFiles := x\<rparr>) (decode_list (\<lambda>j. decode_string j []) v)
      else if f = ''lastRunProfile'' then map_result (\<lambda>x. p\<lparr>wcLastRunProfile := x\<rparr>) (decode_string v (wcLastRunProfile p))
      else map_result (\<lambda>x. p\<lparr>wcLastRunStatus := x\<rparr>) (decode_string v (wcLastRunStatus p)))"

definition WorkspaceContext_unjson :: "json \<Rightarrow> WorkspaceContext result" where
  "WorkspaceContext_unjson j = decode_struct WorkspaceContext_names WorkspaceContext_put j zero_WorkspaceContext"

definition WorkspaceContext_ok :: "WorkspaceContext \<Rightarrow> bool" where
  "WorkspaceContext_ok p \<longleftrightarrow> valid_utf8 (wcActiveFilePath p) \<and>
     valid_utf8 (wcSelection p) \<and>
     valid_utf8 (wcLatestTerminalError p) \<and>
     (\<forall>s \<in> set (wcChangedFiles p). valid_utf8 s) \<and>
     valid_utf8 (wcLastRunProfile p) \<and>
     valid_utf8 (wcLastRunStatus p)"

definition zero_SubmitTaskInput :: SubmitTaskInput where
  "zero_SubmitTaskInput = \<lparr>stiPrompt = [], stiTemplate = [], stiContext = zero_WorkspaceContext\<rparr>"

definition SubmitTaskInput_json :: "SubmitTaskInput \<Rightarrow> json" where
  "SubmitTaskInput_json p = JObj
    ([(''prompt'', enc_string (stiPrompt p))] @
     omit_string ''template'' (stiTemplate p) @
     [(''context'', WorkspaceContext_json (stiContext p))])"

definition SubmitTaskInput_names :: "string list" where
  "SubmitTaskInput_names = [''prompt'', ''template'', ''context'']"

definition SubmitTaskInput_put :: "string \<Rightarrow> json \<Rightarrow> SubmitTaskInput \<Rightarrow> SubmitTaskInput result" where
  "SubmitTaskInput_put f v p =
     (if f = ''prompt'' then map_result (\<lambda>x. p\<lparr>stiPrompt := x\<rparr>) (decode_string v (stiPrompt p))
      else if f = ''template'' then map_result (\<lambda>x. p\<lparr>stiTemplate := x\<rparr>) (decode_string v (stiTemplate p))
      else map_result (\<lambda>x. p\<lparr>stiContext := x\<rparr>) (decode_struct WorkspaceContext_names WorkspaceContext_put v (stiContext p)))"

definition SubmitTaskInput_unjson :: "json \<Rightarrow> SubmitTaskInput result" where
  "SubmitTaskInput_unjson j = decode_struct SubmitTaskInput_names SubmitTaskInput_put j zero_SubmitTaskInput"

definition SubmitTaskInput_ok :: "SubmitTaskInput \<Rightarrow> bool" where
  "SubmitTaskInput_ok p \<longleftrightarrow> valid_utf8 (stiPrompt p) \<and>
     valid_utf8 (stiTemplate p) \<and>
     WorkspaceContext_ok (stiContext p)"

definition zero_TaskHandle :: TaskHandle where
  "zero_TaskHandle = \<lparr>thTaskID = []\<rparr>"

definition TaskHandle_json :: "TaskHandle \<Rightarrow> json" where
  "TaskHandle_json p = JObj
    ([(''taskId'', enc_string (thTaskID p))])"

definition TaskHandle_names :: "string list" where
  "TaskHandle_names = [''taskId'']"

definition TaskHandle_put :: "string \<Rightarrow> json \<Rightarrow> TaskHandle \<Rightarrow> TaskHandle result" where
  "TaskHandle_put f v p =
     (map_result (\<lambda>x. p\<lparr>thTaskID := x\<rparr>) (decode_string v (thTaskID p)))"

definition TaskHandle_unjson :: "json \<Rightarrow> TaskHandle result" where
  "TaskHandle_unjson j = decode_struct TaskHandle_names TaskHandle_put j zero_TaskHandle"

definition TaskHandle_ok :: "TaskHandle \<Rightarrow> bool" where
  "TaskHandle_ok p \<longleftrightarrow> valid_utf8 (thTaskID p)"

definition zero_ApplyPatchInput :: ApplyPatchInput where
  "zero_ApplyPatchInput = \<lparr>apiTaskID = [], apiMode = [], apiSelected = []\<rparr>"

definition ApplyPatchInput_json :: "ApplyPatchInput \<Rightarrow> json" where
  "ApplyPatchInput_json p = JObj
    ([(''taskId'', enc_string (apiTaskID p)), (''mode'', enc_string (apiMode p))] @
     omit_list SelectedHunk_json ''selected'' (apiSelected p))"

definition ApplyPatchInput_names :: "string list" where
  "ApplyPatchInput_names = [''taskId'', ''mode'', ''selected'']"

definition ApplyPatchInput_put :: "string \<Rightarrow> json \<Rightarrow> ApplyPatchInput \<Rightarrow> ApplyPatchInput result" where
  "ApplyPatchInput_put f v p =
     (if f = ''taskId'' then map_result (\<lambda>x. p\<lparr>apiTaskID := x\<rparr>) (decode_string v (apiTaskID p))
      else if f = ''mode'' then map_result (\<lambda>x. p\<lparr>apiMode := x\<rparr>) (decode_string v (apiMode p))
      else map_result (\<lambda>x. p\<lparr>apiSelected := x\<rparr>) (decode_list SelectedHunk_unjson v))"

definition ApplyPatchInput_unjson :: "json \<Rightarrow> ApplyPatchInput result" where
  "ApplyPatchInput_unjson j = decode_struct ApplyPatchInput_names ApplyPatchInput_put j zero_ApplyPatchInput"

definition ApplyPatchInput_ok :: "ApplyPatchInput \<Rightarrow> bool" where
  "ApplyPatchInput_ok p \<longleftrightarrow> valid_utf8 (apiTaskID p) \<and>
     valid_utf8 (apiMode p) \<and>
     (\<forall>x \<in> set (apiSelected p). SelectedHunk_ok x)"

definition zero_ApplyPatchResult :: ApplyPatchResult where
  "zero_ApplyPatchResult = \<lparr>aprStatus = [], aprMessage = []\<rparr>"

definition ApplyPatchResult_json :: "ApplyPatchResult \<Rightarrow> json" where
  "ApplyPatchResult_json p = JObj
    ([(''status'', enc_string (aprStatus p)),
      (''message'', enc_string (aprMessage p))])"

definition ApplyPatchResult_names :: "string list" where
  "ApplyPatchResult_names = [''status'', ''message'']"

definition ApplyPatchResult_put :: "string \<Rightarrow> json \<Rightarrow> ApplyPatchResult \<Rightarrow> ApplyPatchResult result" where
  "ApplyPatchResult_put f v p =
     (if f = ''status'' then map_result (\<lambda>x. p\<lparr>aprStatus := x\<rparr>) (decode_string v (aprStatus p))
      else map_result (\<lambda>x. p\<lparr>aprMessage := x\<rparr>) (decode_string v (aprMessage p)))"

definition ApplyPatchResult_unjson :: "json \<Rightarrow> ApplyPatchResult result" where
  "ApplyPatchResult_unjson j = decode_struct ApplyPatchResult_names ApplyPatchResult_put j zero_ApplyPatchResult"

definition ApplyPatchResult_ok :: "ApplyPatchResult \<Rightarrow> bool" where
  "ApplyPatchResult_ok p \<longleftrightarrow> valid_utf8 (aprStatus p) \<and>
     valid_utf8 (aprMessage p)"

definition zero_RunProfileInput :: RunProfileInput where
  "zero_RunProfileInput = \<lparr>rpiTaskID = [], rpiJobID = [], rpiProfileID = [], rpiCommand = []\<rparr>"

definition RunProfileInput_json :: "RunProfileInput \<Rightarrow> json" where
  "RunProfileInput_json p = JObj
    ([(''taskId'', enc_string (rpiTaskID p)),
      (''jobId'', enc_string (rpiJobID p)),
      (''profileId'', enc_string (rpiProfileID p)),
      (''command'', enc_string (rpiCommand p))])"

definition RunProfileInput_names :: "string list" where
  "RunProfileInput_names = [''taskId'', ''jobId'', ''profileId'', ''command'']"

definition RunProfileInput_put :: "string \<Rightarrow> json \<Rightarrow> RunProfileInput \<Rightarrow> RunProfileInput result" where
  "RunProfileInput_put f v p =
     (if f = ''taskId'' then map_result (\<lambda>x. p\<lparr>rpiTaskID := x\<rparr>) (decode_string v (rpiTaskID p))
      else if f = ''jobId'' then map_result (\<lambda>x. p\<lparr>rpiJobID := x\<rparr>) (decode_string v (rpiJobID p))
      else if f = ''profileId'' then map_result (\<lambda>x. p\<lparr>rpiProfileID := x\<rparr>) (decode_string v (rpiProfileID p))
      else map_result (\<lambda>x. p\<lparr>rpiCommand := x\<rparr>) (decode_string v (rpiCommand p)))"

definition RunProfileInput_unjson :: "json \<Rightarrow> RunProfileInput result" where
  "RunProfileInput_unjson j = decode_struct RunProfileInput_names RunProfileInput_put j zero_RunProfileInput"

definition RunProfileInput_ok :: "RunProfileInput \<Rightarrow> bool" where
  "RunProfileInput_ok p \<longleftrightarrow> valid_utf8 (rpiTaskID p) \<and>
     valid_utf8 (rpiJobID p) \<and>
     valid_utf8 (rpiProfileID p) \<and>
     valid_utf8 (rpiCommand p)"

definition zero_RunHandle :: RunHandle where
  "zero_RunHandle = \<lparr>rhRunID = []\<rparr>"

definition RunHandle_json :: "RunHandle \<Rightarrow> json" where
  "RunHandle_json p = JObj
    ([(''runId'', enc_string (rhRunID p))])"

definition RunHandle_names :: "string list" where
  "RunHandle_names = [''runId'']"

definition RunHandle_put :: "string \<Rightarrow> json \<Rightarrow> RunHandle \<Rightarrow> RunHandle result" where
  "RunHandle_put f v p =
     (map_result (\<lambda>x. p\<lparr>rhRunID := x\<rparr>) (decode_string v (rhRunID p)))"

definition RunHandle_unjson :: "json \<Rightarrow> RunHandle result" where
  "RunHandle_unjson j = decode_struct RunHandle_names RunHandle_put j zero_RunHandle"

definition RunHandle_ok :: "RunHandle \<Rightarrow> bool" where
  "RunHandle_ok p \<longleftrightarrow> valid_utf8 (rhRunID p)"

definition zero_RunResult :: RunResult where
  "zero_RunResult = \<lparr>rrsRunID = [], rrsProfileID = [], rrsStatus = [], rrsSummary = [], rrsTopErrors = [], rrsExcerpt = [], rrsOutput = [], rrsChangedFiles = []\<rparr>"

definition RunResult_json :: "RunResult \<Rightarrow> json" where
  "RunResult_json p = JObj
    ([(''runId'', enc_string (rrsRunID p)), (''profileId'', enc_string (rrsProfileID p)), (''status'', enc_string (rrsStatus p)), (''summary'', enc_string (rrsSummary p))] @
     omit_list ParsedError_json ''topErrors'' (rrsTopErrors p) @
     omit_string ''excerpt'' (rrsExcerpt p) @
     omit_string ''output'' (rrsOutput p) @
     omit_list enc_string ''changedFiles'' (rrsChangedFiles p))"

definition RunResult_names :: "string list" where
  "RunResult_names = [''runId'', ''profileId'', ''status'', ''summary'', ''topErrors'', ''excerpt'', ''output'', ''changedFiles'']"

definition RunResult_put :: "string \<Rightarrow> json \<Rightarrow> RunResult \<Rightarrow> RunResult result" where
  "RunResult_put f v p =
     (if f = ''runId'' then map_result (\<lambda>x. p\<lparr>rrsRunID := x\<rparr>) (decode_string v (rrsRunID p))
      else if f = ''profileId'' then map_result (\<lambda>x. p\<lparr>rrsProfileID := x\<rparr>) (decode_string v (rrsProfileID p))
      else if f = ''status'' then map_result (\<lambda>x. p\<lparr>rrsStatus := x\<rparr>) (decode_string v (rrsStatus p))
      else if f = ''summary'' then map_result (\<lambda>x. p\<lparr>rrsSummary := x\<rparr>) (decode_string v (rrsSummary p))
      else if f = ''topErrors'' then map_result (\<lambda>x. p\<lparr>rrsTopErrors := x\<rparr>) (decode_list ParsedError_unjson v)
      else if f = ''excerpt'' then map_result (\<lambda>x. p\<lparr>rrsExcerpt := x\<rparr>) (decode_string v (rrsExcerpt p))
      else if f = ''output'' then map_result (\<lambda>x. p\<lparr>rrsOutput := x\<rparr>) (decode_string v (rrsOutput p))
      else map_result (\<lambda>x. p\<lparr>rrsChangedFiles := x\<rparr>) (decode_list (\<lambda>j. decode_string j []) v))"

definition RunResult_unjson :: "json \<Rightarrow> RunResult result" where
  "RunResult_unjson j = decode_struct RunResult_names RunResult_put j zero_RunResult"

definition RunResult_ok :: "RunResult \<Rightarrow> bool" where
  "RunResult_ok p \<longleftrightarrow> valid_utf8 (rrsRunID p) \<and>
     valid_utf8 (rrsProfileID p) \<and>
     valid_utf8 (rrsStatus p) \<and>
     valid_utf8 (rrsSummary p) \<and>
     (\<forall>x \<in> set (rrsTopErrors p). ParsedError_ok x) \<and>
     valid_utf8 (rrsExcerpt p) \<and>
     valid_utf8 (rrsOutput p) \<and>
     (\<forall>s \<in> set (rrsChangedFiles p). valid_utf8 s)"

definition zero_OpenLocationInput :: OpenLocationInput where
  "zero_OpenLocationInput = \<lparr>oliPath = [], oliLine = 0, oliColumn = 0\<rparr>"

definition OpenLocationInput_json :: "OpenLocationInput \<Rightarrow> json" where
  "OpenLocationInput_json p = JObj
    ([(''path'', enc_string (oliPath p)), (''line'', JInt (oliLine p))] @
     omit_int ''column'' (oliColumn p))"

definition OpenLocationInput_names :: "string list" where
  "OpenLocationInput_names = [''path'', ''line'', ''column'']"

definition OpenLocationInput_put :: "string \<Rightarrow> json \<Rightarrow> OpenLocationInput \<Rightarrow> OpenLocationInput result" where
  "OpenLocationInput_put f v p =
     (if f = ''path'' then map_result (\<lambda>x. p\<lparr>oliPath := x\<rparr>) (decode_string v (oliPath p))
      else if f = ''line'' then map_result (\<lambda>x. p\<lparr>oliLine := x\<rparr>) (decode_int v (oliLine p))
      else map_result (\<lambda>x. p\<lparr>oliColumn := x\<rparr>) (decode_int v (oliColumn p)))"

definition OpenLocationInput_unjson :: "json \<Rightarrow> OpenLocationInput result" where
  "OpenLocationInput_unjson j = decode_struct OpenLocationInput_names OpenLocationInput_put j zero_OpenLocationInput"

definition OpenLocationInput_ok :: "OpenLocationInput \<Rightarrow> bool" where
  "OpenLocationInput_ok p \<longleftrightarrow> valid_utf8 (oliPath p) \<and>
     minInt64 \<le> oliLine p \<and> oliLine p \<le> maxInt64 \<and>
     minInt64 \<le> oliColumn p \<and> oliColumn p \<le> maxInt64"

section \<open>Decoding what was encoded\<close>

lemma AdapterCapabilities_dec_enc: "AdapterCapabilities_ok p \<Longrightarrow> AdapterCapabilities_unjson (AdapterCapabilities_json p) = Inr p"
  by (simp add: AdapterCapabilities_unjson_def AdapterCapabilities_json_def AdapterCapabilities_put_def AdapterCapabilities_names_def zero_AdapterCapabilities_def AdapterCapabilities_ok_def
  json_codec )
  
lemma ContextRequest_dec_enc: "ContextRequest_ok p \<Longrightarrow> ContextRequest_unjson (ContextRequest_json p) = Inr p"
  by (simp add: ContextRequest_unjson_def ContextRequest_json_def ContextRequest_put_def ContextRequest_names_def zero_ContextRequest_def ContextRequest_ok_def
  json_codec ContextOptions_json_def ContextOptions_names_def ContextOptions_put_def zero_ContextOptions_def)
  
lemma WorkspaceContext_dec_enc: "WorkspaceContext_ok p \<Longrightarrow> WorkspaceContext_unjson (WorkspaceContext_json p) = Inr p"
  by (simp add: WorkspaceContext_unjson_def WorkspaceContext_json_def WorkspaceContext_put_def WorkspaceContext_names_def zero_WorkspaceContext_def WorkspaceContext_ok_def
  json_codec )
  
lemma SubmitTaskInput_dec_enc: "SubmitTaskInput_ok p \<Longrightarrow> SubmitTaskInput_unjson (SubmitTaskInput_json p) = Inr p"
  by (simp add: SubmitTaskInput_unjson_def SubmitTaskInput_json_def SubmitTaskInput_put_def SubmitTaskInput_names_def zero_SubmitTaskInput_def SubmitTaskInput_ok_def
  json_codec WorkspaceContext_dec_enc [unfolded WorkspaceContext_unjson_def])
  
lemma TaskHandle_dec_enc: "TaskHandle_ok p \<Longrightarrow> TaskHandle_unjson (TaskHandle_json p) = Inr p"
  by (simp add: TaskHandle_unjson_def TaskHandle_json_def TaskHandle_put_def TaskHandle_names_def zero_TaskHandle_def TaskHandle_ok_def
  json_codec )
  
lemma ApplyPatchInput_dec_enc: "ApplyPatchInput_ok p \<Longrightarrow> ApplyPatchInput_unjson (ApplyPatchInput_json p) = Inr p"
  by (simp add: ApplyPatchInput_unjson_def ApplyPatchInput_json_def ApplyPatchInput_put_def ApplyPatchInput_names_def zero_ApplyPatchInput_def ApplyPatchInput_ok_def
  json_codec SelectedHunk_dec_enc)
  
lemma ApplyPatchResult_dec_enc: "ApplyPatchResult_ok p \<Longrightarrow> ApplyPatchResult_unjson (ApplyPatchResult_json p) = Inr p"
  by (simp add: ApplyPatchResult_unjson_def ApplyPatchResult_json_def ApplyPatchResult_put_def ApplyPatchResult_names_def zero_ApplyPatchResult_def ApplyPatchResult_ok_def
  json_codec )
  
lemma RunProfileInput_dec_enc: "RunProfileInput_ok p \<Longrightarrow> RunProfileInput_unjson (RunProfileInput_json p) = Inr p"
  by (simp add: RunProfileInput_unjson_def RunProfileInput_json_def RunProfileInput_put_def RunProfileInput_names_def zero_RunProfileInput_def RunProfileInput_ok_def
  json_codec )
  
lemma RunHandle_dec_enc: "RunHandle_ok p \<Longrightarrow> RunHandle_unjson (RunHandle_json p) = Inr p"
  by (simp add: RunHandle_unjson_def RunHandle_json_def RunHandle_put_def RunHandle_names_def zero_RunHandle_def RunHandle_ok_def
  json_codec )
  
lemma RunResult_dec_enc: "RunResult_ok p \<Longrightarrow> RunResult_unjson (RunResult_json p) = Inr p"
  by (simp add: RunResult_unjson_def RunResult_json_def RunResult_put_def RunResult_names_def zero_RunResult_def RunResult_ok_def
  json_codec ParsedError_dec_enc)
  
lemma OpenLocationInput_dec_enc: "OpenLocationInput_ok p \<Longrightarrow> OpenLocationInput_unjson (OpenLocationInput_json p) = Inr p"
  by (simp add: OpenLocationInput_unjson_def OpenLocationInput_json_def OpenLocationInput_put_def OpenLocationInput_names_def zero_OpenLocationInput_def OpenLocationInput_ok_def
  json_codec )
  
interpretation cAdapterCapabilities: payload_codec AdapterCapabilities_json AdapterCapabilities_unjson AdapterCapabilities_ok
  by unfold_locales (rule AdapterCapabilities_dec_enc)

interpretation cContextRequest: payload_codec ContextRequest_json ContextRequest_unjson ContextRequest_ok
  by unfold_locales (rule ContextRequest_dec_enc)

interpretation cWorkspaceContext: payload_codec WorkspaceContext_json WorkspaceContext_unjson WorkspaceContext_ok
  by unfold_locales (rule WorkspaceContext_dec_enc)

interpretation cSubmitTaskInput: payload_codec SubmitTaskInput_json SubmitTaskInput_unjson SubmitTaskInput_ok
  by unfold_locales (rule SubmitTaskInput_dec_enc)

interpretation cTaskHandle: payload_codec TaskHandle_json TaskHandle_unjson TaskHandle_ok
  by unfold_locales (rule TaskHandle_dec_enc)

interpretation cApplyPatchInput: payload_codec ApplyPatchInput_json ApplyPatchInput_unjson ApplyPatchInput_ok
  by unfold_locales (rule ApplyPatchInput_dec_enc)

interpretation cApplyPatchResult: payload_codec ApplyPatchResult_json ApplyPatchResult_unjson ApplyPatchResult_ok
  by unfold_locales (rule ApplyPatchResult_dec_enc)

interpretation cRunProfileInput: payload_codec RunProfileInput_json RunProfileInput_unjson RunProfileInput_ok
  by unfold_locales (rule RunProfileInput_dec_enc)

interpretation cRunHandle: payload_codec RunHandle_json RunHandle_unjson RunHandle_ok
  by unfold_locales (rule RunHandle_dec_enc)

interpretation cRunResult: payload_codec RunResult_json RunResult_unjson RunResult_ok
  by unfold_locales (rule RunResult_dec_enc)

interpretation cOpenLocationInput: payload_codec OpenLocationInput_json OpenLocationInput_unjson OpenLocationInput_ok
  by unfold_locales (rule OpenLocationInput_dec_enc)

end
