(* ===== verification/Cursor_Config.thy ===== *)
theory Cursor_Config
  imports Cursor_Cli
begin

text \<open>
  The configuration of the cursor-agent adapter (\<open>cursor_agent_cli_adapter.go\<close>) and the helpers that
  read the environment (\<open>cursor_bridge_adapter.go\<close>). \<open>getenv\<close> is the environment of the process,
  \<open>parse_json\<close> and \<open>parse_duration\<close> read a text as \<open>encoding/json\<close> and \<open>time.ParseDuration\<close> do,
  \<open>quote\<close> is \<open>strconv.Quote\<close>.
\<close>

section \<open>Standard library\<close>

text \<open>\<open>path.Clean\<close> and \<open>path.Join\<close>.\<close>

fun clean_step :: "bool \<Rightarrow> string \<Rightarrow> string list \<Rightarrow> string list" where
  "clean_step rooted c out =
     (if c = [] \<or> c = ''.'' then out
      else if c = ''..'' then
        (if out \<noteq> [] \<and> last out \<noteq> ''..'' then butlast out
         else if rooted then out else out @ [c])
      else out @ [c])"

definition path_Clean :: "string \<Rightarrow> string" where
  "path_Clean p =
     (let rooted = strings_HasPrefix p ''/'';
          out = fold (clean_step rooted) (strings_Split p CHR ''/'') [];
          cleaned = (if rooted then ''/'' else []) @ strings_Join out ''/''
      in if cleaned = [] then ''.'' else cleaned)"

definition path_Join :: "string list \<Rightarrow> string" where
  "path_Join elems =
     (let elems = filter (\<lambda>e. e \<noteq> []) elems in if elems = [] then [] else path_Clean (strings_Join elems ''/''))"

text \<open>\<open>strings.EqualFold\<close>, for a comparison with an ASCII text.\<close>

definition strings_EqualFold :: "string \<Rightarrow> string \<Rightarrow> bool" where
  "strings_EqualFold s t \<longleftrightarrow> json_fold s = json_fold t"

text \<open>\<open>time.Duration.String\<close>: the fraction without trailing zeros, then the units.\<close>

fun strip_zeros :: "string \<Rightarrow> string" where
  "strip_zeros [] = []"
| "strip_zeros (c # cs) = (if c = CHR ''0'' then strip_zeros cs else c # cs)"

definition fmtFrac :: "int \<Rightarrow> nat \<Rightarrow> string" where
  "fmtFrac v prec =
     (let frac = Itoa (v mod 10 ^ prec);
          digits = rev (strip_zeros (rev (replicate (prec - length frac) CHR ''0'' @ frac)))
      in if prec = 0 \<or> digits = [] then [] else CHR ''.'' # digits)"

definition duration_String :: "duration \<Rightarrow> string" where
  "duration_String d =
     (let u = abs d; sign = (if d < 0 then ''-'' else []) in
      if u = 0 then ''0s''
      else if u < 1000 then sign @ Itoa u @ ''ns''
      else if u < 1000000 then sign @ Itoa (u div 1000) @ fmtFrac u 3 @ [CHR 0xC2, CHR 0xB5, CHR ''s'']
      else if u < 1000000000 then sign @ Itoa (u div 1000000) @ fmtFrac u 6 @ ''ms''
      else
        let secs = u div 1000000000; mins = secs div 60; hours = mins div 60 in
        sign @ (if hours > 0 then Itoa hours @ ''h'' else []) @
          (if mins > 0 then Itoa (mins mod 60) @ ''m'' else []) @ Itoa (secs mod 60) @ fmtFrac u 9 @ ''s'')"

section \<open>Reading the environment\<close>

definition jsonStringArray :: "(string \<Rightarrow> json option) \<Rightarrow> string \<Rightarrow> string list result" where
  "jsonStringArray parse_json v =
     (case parse_json v of None \<Rightarrow> Inl json_error | Some j \<Rightarrow> decode_list (\<lambda>x. decode_string x []) j)"

definition jsonStringArrayEnv :: "(string \<Rightarrow> string) \<Rightarrow> (string \<Rightarrow> json option) \<Rightarrow> string \<Rightarrow> string list result" where
  "jsonStringArrayEnv getenv parse_json key =
     (let v = strings_TrimSpace (getenv key) in
      if v = [] then Inr []
      else case jsonStringArray parse_json v of
        Inl err \<Rightarrow> Inl (ErrWrap (''parse '' @ key @ '': '') err [])
      | Inr result \<Rightarrow> Inr result)"

definition durationEnv :: "(string \<Rightarrow> string) \<Rightarrow> (string \<Rightarrow> duration option) \<Rightarrow> string \<Rightarrow> duration \<Rightarrow> duration" where
  "durationEnv getenv parse_duration key fallback =
     (let v = strings_TrimSpace (getenv key) in
      if v = [] then fallback
      else case parse_duration v of None \<Rightarrow> fallback | Some d \<Rightarrow> d)"

definition trustWorkspaceEnv :: "(string \<Rightarrow> string) \<Rightarrow> string \<Rightarrow> bool \<Rightarrow> bool" where
  "trustWorkspaceEnv getenv key fallback =
     (let v = strings_ToLower (strings_TrimSpace (getenv key)) in
      if v = [] then fallback else v \<in> {''1'', ''true'', ''yes'', ''on''})"

definition boolEnv :: "(string \<Rightarrow> string) \<Rightarrow> string \<Rightarrow> bool" where
  "boolEnv getenv key = trustWorkspaceEnv getenv key False"

definition sanitizeSyncPathspecs :: "string list \<Rightarrow> string list" where
  "sanitizeSyncPathspecs vs = sort_Strings (fold append_path (map strings_TrimSpace vs) [])"

section \<open>Arguments of the agent\<close>

definition ensureCursorAgentTrustFlag :: "string list \<Rightarrow> bool \<Rightarrow> string list" where
  "ensureCursorAgentTrustFlag args enabled =
     (if \<not> enabled then args else if ''--trust'' \<in> set args then args else args @ [''--trust''])"

definition defaultCursorAgentModel :: "(string \<Rightarrow> string) \<Rightarrow> string" where
  "defaultCursorAgentModel getenv =
     (let model = strings_TrimSpace (getenv ''CURSOR_AGENT_MODEL'') in if model = [] then ''auto'' else model)"

fun has_model_arg :: "string list \<Rightarrow> bool" where
  "has_model_arg [] = False"
| "has_model_arg (arg # args) =
     (if arg = ''--model'' \<and> args \<noteq> [] then True
      else if strings_HasPrefix arg ''--model='' then True
      else has_model_arg args)"

definition ensureCursorAgentModelArg :: "string list \<Rightarrow> string \<Rightarrow> string list" where
  "ensureCursorAgentModelArg args model =
     (let model = strings_TrimSpace model in
      if model = [] then args else if has_model_arg args then args else args @ [''--model'', model])"

section \<open>The Windows subsystem for Linux\<close>

record resolvedWSLCursorAgent =
  rwDistro :: string
  rwBinary :: string

definition defaultWSLExecutable :: "string \<Rightarrow> string" where
  "defaultWSLExecutable current =
     (if strings_TrimSpace current = [] \<or> strings_EqualFold (strings_TrimSpace current) ''cursor-agent''
      then ''wsl.exe'' else current)"

definition normalizeWSLOutput :: "string \<Rightarrow> string" where
  "normalizeWSLOutput v = filter (\<lambda>c. c \<noteq> CHR 0x00) v"

definition buildWSLBaseArgs :: "string \<Rightarrow> string list" where
  "buildWSLBaseArgs distro = (if distro \<noteq> [] then [''-d'', distro] else []) @ [''--'']"

definition buildWSLCursorAgentArgs :: "string \<Rightarrow> string \<Rightarrow> string list \<Rightarrow> string list" where
  "buildWSLCursorAgentArgs distro linuxBinary cursorAgentArgs = buildWSLBaseArgs distro @ [linuxBinary] @ cursorAgentArgs"

definition wslCursorAgentNote :: "string \<Rightarrow> string" where
  "wslCursorAgentNote distro =
     (if distro = [] then ''cursor-agent is invoked through the default WSL distro''
      else ''cursor-agent is invoked through WSL distro: '' @ distro)"

definition wsl_message :: "string \<Rightarrow> string \<Rightarrow> goerror \<Rightarrow> string" where
  "wsl_message stdout stderr err =
     (let message = normalizeWSLOutput (strings_Join (nonEmptyStrings [stdout, stderr]) [LF])
      in if message = [] then Error err else message)"

definition wslBinaryAvailable :: "'w OS \<Rightarrow> string \<Rightarrow> string \<Rightarrow> string \<Rightarrow> ('w, bool) state" where
  "wslBinaryAvailable os wslBin distro linuxBinary = do {
     (_, _, err) \<leftarrow> runCommand os Background [] [] None wslBin (buildWSLBaseArgs distro @ [linuxBinary, ''--version'']);
     State_Monad.return (err = None)
   }"

definition wslPrintenv :: "'w OS \<Rightarrow> string \<Rightarrow> string \<Rightarrow> string \<Rightarrow> ('w, string result) state" where
  "wslPrintenv os wslBin distro key = do {
     (stdout, stderr, err) \<leftarrow> runCommand os Background [] [] None wslBin (buildWSLBaseArgs distro @ [''printenv'', key]);
     State_Monad.return (case err of
       Some err \<Rightarrow> Inl (ErrNew (''read WSL environment '' @ key @ '': '' @ compactMessage (wsl_message stdout stderr err)))
     | None \<Rightarrow>
         let v = strings_TrimSpace (normalizeWSLOutput stdout)
         in if v = [] then Inl (ErrNew (''WSL environment '' @ key @ '' is empty'')) else Inr v)
   }"

definition listWSLDistros :: "'w OS \<Rightarrow> string \<Rightarrow> ('w, string list result) state" where
  "listWSLDistros os wslBin = do {
     (stdout, stderr, err) \<leftarrow> runCommand os Background [] [] None wslBin [''-l'', ''-q''];
     State_Monad.return (case err of
       Some err \<Rightarrow> Inl (ErrNew (''list WSL distros: '' @ compactMessage (wsl_message stdout stderr err)))
     | None \<Rightarrow>
         let raw = normalizeWSLOutput (strings_Join (nonEmptyStrings [stdout, stderr]) [LF])
         in Inr (fold append_path (map strings_TrimSpace (strings_Split raw LF)) []))
   }"

fun try_candidates :: "'w OS \<Rightarrow> string \<Rightarrow> string \<Rightarrow> string list \<Rightarrow> ('w, string option) state" where
  "try_candidates os wslBin distro [] = State_Monad.return None"
| "try_candidates os wslBin distro (c # cs) = do {
     ok \<leftarrow> wslBinaryAvailable os wslBin distro c;
     (if ok then State_Monad.return (Some c) else try_candidates os wslBin distro cs)
   }"

definition resolveWSLCursorAgentInDistro :: "'w OS \<Rightarrow> (string \<Rightarrow> string) \<Rightarrow> string \<Rightarrow> string \<Rightarrow> ('w, resolvedWSLCursorAgent result) state" where
  "resolveWSLCursorAgentInDistro os quote wslBin distro =
     try_bind (wslPrintenv os wslBin distro ''HOME'') (\<lambda>homeDir. do {
       found \<leftarrow> try_candidates os wslBin distro
         [path_Join [homeDir, ''.local'', ''bin'', ''cursor-agent''], path_Join [homeDir, ''.local'', ''bin'', ''agent'']];
       State_Monad.return (case found of
         Some candidate \<Rightarrow> Inr \<lparr>rwDistro = distro, rwBinary = candidate\<rparr>
       | None \<Rightarrow>
           if distro = [] then Inl (ErrNew ''cursor-agent was not found in the default WSL distro'')
           else Inl (ErrNew (''cursor-agent was not found in WSL distro '' @ quote distro)))
     })"

fun try_distros :: "'w OS \<Rightarrow> (string \<Rightarrow> string) \<Rightarrow> string \<Rightarrow> string list \<Rightarrow> ('w, resolvedWSLCursorAgent result) state" where
  "try_distros os quote wslBin [] =
     State_Monad.return (Inl (ErrNew ''cursor-agent was not found in any WSL distro; set CURSOR_AGENT_WSL_DISTRO''))"
| "try_distros os quote wslBin (distro # distros) =
     (if distro = [] then try_distros os quote wslBin distros
      else do {
        r \<leftarrow> resolveWSLCursorAgentInDistro os quote wslBin distro;
        case r of Inr resolved \<Rightarrow> State_Monad.return (Inr resolved) | Inl _ \<Rightarrow> try_distros os quote wslBin distros
      })"

definition resolveWSLCursorAgent :: "'w OS \<Rightarrow> (string \<Rightarrow> string) \<Rightarrow> string \<Rightarrow> string \<Rightarrow> ('w, resolvedWSLCursorAgent result) state" where
  "resolveWSLCursorAgent os quote wslBin requested =
     (if requested \<noteq> [] then resolveWSLCursorAgentInDistro os quote wslBin requested
      else do {
        r \<leftarrow> resolveWSLCursorAgentInDistro os quote wslBin [];
        case r of
          Inr resolved \<Rightarrow> State_Monad.return (Inr resolved)
        | Inl _ \<Rightarrow> try_bind (listWSLDistros os wslBin) (try_distros os quote wslBin)
      })"

section \<open>The default configuration\<close>

definition agent_args :: "(string \<Rightarrow> string) \<Rightarrow> (string \<Rightarrow> json option) \<Rightarrow> string list result" where
  "agent_args getenv parse_json =
     bind_result (jsonStringArrayEnv getenv parse_json ''CURSOR_AGENT_ARGS_JSON'') (\<lambda>args.
       let args = (if args = [] then [''--print'', ''--output-format'', ''json''] else args);
           args = ensureCursorAgentTrustFlag args (trustWorkspaceEnv getenv ''CURSOR_AGENT_TRUST_WORKSPACE'' True)
       in Inr (ensureCursorAgentModelArg args (defaultCursorAgentModel getenv)))"

definition env_or :: "(string \<Rightarrow> string) \<Rightarrow> string \<Rightarrow> string \<Rightarrow> string" where
  "env_or getenv key fallback = (let v = strings_TrimSpace (getenv key) in if v = [] then fallback else v)"

definition DefaultCursorAgentCLIConfig :: "'w OS \<Rightarrow> (string \<Rightarrow> string) \<Rightarrow> (string \<Rightarrow> json option) \<Rightarrow> (string \<Rightarrow> duration option) \<Rightarrow>
    (string \<Rightarrow> string) \<Rightarrow> ('w, CursorAgentCLIConfig result) state" where
  "DefaultCursorAgentCLIConfig os getenv parse_json parse_duration quote =
     try_bind (let root = strings_TrimSpace (getenv ''CURSOR_AGENT_WORKSPACE_ROOT'')
         in if root = [] then wrap_error ''get working directory: '' (State (osGetwd os)) else State_Monad.return (Inr root)) (\<lambda>workspaceRoot.
     try_bind (State_Monad.return (agent_args getenv parse_json)) (\<lambda>cursorAgentArgs.
     try_bind (State_Monad.return (jsonStringArrayEnv getenv parse_json ''CURSOR_AGENT_ENV_JSON'')) (\<lambda>cursorAgentEnv.
     try_bind (State_Monad.return (jsonStringArrayEnv getenv parse_json ''CURSOR_AGENT_SYNC_IGNORED_JSON'')) (\<lambda>syncIgnoredPaths.
       let cursorAgentBin = env_or getenv ''CURSOR_AGENT_BIN'' ''cursor-agent'';
           useWSL = boolEnv getenv ''CURSOR_AGENT_USE_WSL'';
           wslDistro = strings_TrimSpace (getenv ''CURSOR_AGENT_WSL_DISTRO'');
           cursorAgentBin = (if useWSL then defaultWSLExecutable cursorAgentBin else cursorAgentBin)
       in try_bind (if useWSL then
              try_bind (resolveWSLCursorAgent os quote cursorAgentBin wslDistro) (\<lambda>resolved.
                State_Monad.return (Inr (rwDistro resolved, rwBinary resolved,
                  buildWSLCursorAgentArgs (rwDistro resolved) (rwBinary resolved) cursorAgentArgs)))
            else State_Monad.return (Inr (wslDistro, [], cursorAgentArgs)))
          (\<lambda>(wslDistro, wslBinary, cursorAgentArgs).
            State_Monad.return (Inr
              \<lparr>ccWorkspaceRoot = workspaceRoot,
               ccTempRoot = strings_TrimSpace (getenv ''CURSOR_AGENT_TEMP_ROOT''),
               ccGitBin = env_or getenv ''CURSOR_AGENT_GIT_BIN'' ''git'',
               ccCursorAgentBin = cursorAgentBin,
               ccCursorAgentArgs = cursorAgentArgs,
               ccCursorAgentEnv = cursorAgentEnv,
               ccSyncIgnoredPaths = sanitizeSyncPathspecs syncIgnoredPaths,
               ccCursorAgentUseWSL = useWSL,
               ccCursorAgentWSLDistro = wslDistro,
               ccCursorAgentWSLBinary = wslBinary,
               ccPromptTimeout = durationEnv getenv parse_duration ''CURSOR_AGENT_PROMPT_TIMEOUT'' (2 * Minute),
               ccRunTimeout = durationEnv getenv parse_duration ''CURSOR_AGENT_RUN_TIMEOUT'' (2 * Minute)\<rparr>))))))"

definition cli_RuntimeInfo :: "'w CursorAgentCLIAdapter \<Rightarrow> AdapterRuntimeInfo" where
  "cli_RuntimeInfo a =
     \<lparr>ariName = ''cursor-agent-cli'', ariMode = ''cursor_agent_cli'', ariReady = True, ariCapabilities = cli_Capabilities,
      ariWorkspaceRoot = ccWorkspaceRoot (caCfg a), ariBinary = ccCursorAgentBin (caCfg a),
      ariBinaryPath = caResolvedCursorAgent a, ariBridgeAddress = [], ariTempRoot = ccTempRoot (caCfg a),
      ariPromptTimeout = duration_String (ccPromptTimeout (caCfg a)),
      ariRunTimeout = duration_String (ccRunTimeout (caCfg a)),
      ariNotes = [''cursor-agent runs inside a temporary git worktree snapshot'',
          ''review approval applies the resulting diff to the real workspace with git apply''] @
        (if caResolvedGitBin a \<noteq> [] then [''git binary: '' @ caResolvedGitBin a] else []) @
        (if ccCursorAgentUseWSL (caCfg a) then
           [wslCursorAgentNote (ccCursorAgentWSLDistro (caCfg a))] @
           (if ccCursorAgentWSLBinary (caCfg a) \<noteq> [] then [''wsl cursor-agent binary: '' @ ccCursorAgentWSLBinary (caCfg a)] else [])
         else [])\<rparr>"

text \<open>A machine with one distribution, whose agent answers.\<close>

definition ex_wsl :: "unit OS" where
  "ex_wsl = \<lparr>osWindows = True, osEnviron = [], osJoin = (\<lambda>ps. []), osDir = (\<lambda>p. p),
     osRun = (\<lambda>c w. (((if ''printenv'' \<in> set (cmdArgs c) then ''/home/u'' else []), [], None), w)),
     osLookPath = (\<lambda>f w. (Inr f, w)), osGetwd = (\<lambda>w. (Inr ''/'', w)), osMkdirTemp = (\<lambda>d p w. (Inr [], w)),
     osRemoveAll = (\<lambda>p w. (None, w)), osStat = (\<lambda>p w. (Inr \<lparr>fiIsDir = False, fiMode = 0\<rparr>, w)), osMkdirAll = (\<lambda>p w. (None, w)),
     osOpen = (\<lambda>p w. (None, w)), osCreate = (\<lambda>p w. (None, w)), osCopy = (\<lambda>p q w. (None, w)), osChmod = (\<lambda>p m w. (None, w)),
     osNow = (\<lambda>w. (0, w))\<rparr>"

definition ex_wsl_config :: "CursorAgentCLIConfig result \<times> unit \<times> effect list" where
  "ex_wsl_config = run_state (DefaultCursorAgentCLIConfig (traced ex_wsl)
     (\<lambda>k. if k = ''CURSOR_AGENT_USE_WSL'' then ''1'' else if k = ''CURSOR_AGENT_WSL_DISTRO'' then ''U'' else [])
     (\<lambda>_. None) (\<lambda>_. None) (\<lambda>s. s)) ((), [])"

section \<open>The agent that was found answers\<close>

text \<open>The command with which a binary in a distribution is tried, and that it succeeded.\<close>

definition answered :: "string \<Rightarrow> string \<Rightarrow> string \<Rightarrow> effect list \<Rightarrow> bool" where
  "answered wslBin distro binary es \<longleftrightarrow> (\<exists>c out serr. Ran c (out, serr, None) \<in> set es \<and> cmdName c = wslBin \<and>
     cmdArgs c = buildWSLBaseArgs distro @ [binary, ''--version''])"

lemma answered_append: "answered b d x es \<or> answered b d x fs \<Longrightarrow> answered b d x (es @ fs)"
  unfolding answered_def by auto

lemma wslBinaryAvailable_leads:
  "leads (wslBinaryAvailable (traced os) wslBin distro binary) (\<lambda>ok es. ok \<longrightarrow> answered wslBin distro binary es)"
  unfolding wslBinaryAvailable_def runCommand_def
  by (rule leads_bind [OF leads_run_command [where Q = "\<lambda>r es. \<exists>c. es = [Ran c r] \<and> cmdName c = wslBin \<and>
      cmdArgs c = buildWSLBaseArgs distro @ [binary, ''--version'']"]])
    (auto simp: answered_def intro!: leads_return)

lemma try_candidates_leads:
  "leads (try_candidates (traced os) wslBin distro cs) (\<lambda>r es. \<forall>c. r = Some c \<longrightarrow> answered wslBin distro c es)"
proof (induction cs)
  case (Cons c cs)
  show ?case unfolding try_candidates.simps
    by (rule leads_bind [OF wslBinaryAvailable_leads])
      (auto intro!: leads_return leads_mono [OF Cons.IH] answered_append)
qed (auto intro: leads_return)

lemma wslPrintenv_leads: "leads (wslPrintenv (traced os) wslBin distro key) (\<lambda>_ _. True)"
  by (rule emits_leads [of "\<lambda>_. True"]) (auto simp: wslPrintenv_def runCommand_def intro!: emits)

lemma listWSLDistros_leads: "leads (listWSLDistros (traced os) wslBin) (\<lambda>_ _. True)"
  by (rule emits_leads [of "\<lambda>_. True"]) (auto simp: listWSLDistros_def runCommand_def intro!: emits)

lemma resolve_distro_leads:
  "leads (resolveWSLCursorAgentInDistro (traced os) quote wslBin distro)
     (\<lambda>r es. \<forall>x. r = Inr x \<longrightarrow> rwDistro x = distro \<and> answered wslBin distro (rwBinary x) es)"
  unfolding resolveWSLCursorAgentInDistro_def
  by (rule leads_try_bind [OF wslPrintenv_leads], simp)
    (rule leads_bind [OF try_candidates_leads], auto split: option.splits intro!: leads_return answered_append)

lemma try_distros_leads:
  "leads (try_distros (traced os) quote wslBin ds) (\<lambda>r es. \<forall>x. r = Inr x \<longrightarrow> answered wslBin (rwDistro x) (rwBinary x) es)"
proof (induction ds)
  case (Cons d ds)
  have "leads (State_Monad.bind (resolveWSLCursorAgentInDistro (traced os) quote wslBin d)
      (\<lambda>r. case r of Inr resolved \<Rightarrow> State_Monad.return (Inr resolved) | Inl _ \<Rightarrow> try_distros (traced os) quote wslBin ds))
     (\<lambda>r es. \<forall>x. r = Inr x \<longrightarrow> answered wslBin (rwDistro x) (rwBinary x) es)"
    by (rule leads_bind [OF resolve_distro_leads])
      (auto split: sum.split intro!: leads_return leads_mono [OF Cons.IH] answered_append)
  with Cons.IH show ?case by simp
qed (auto intro: leads_return)

lemma resolve_leads:
  "leads (resolveWSLCursorAgent (traced os) quote wslBin requested)
     (\<lambda>r es. \<forall>x. r = Inr x \<longrightarrow> (requested \<noteq> [] \<longrightarrow> rwDistro x = requested) \<and> answered wslBin (rwDistro x) (rwBinary x) es)"
proof (cases "requested = []")
  case True
  have "leads (try_bind (listWSLDistros (traced os) wslBin) (try_distros (traced os) quote wslBin))
     (\<lambda>r es. \<forall>x. r = Inr x \<longrightarrow> answered wslBin (rwDistro x) (rwBinary x) es)"
    by (rule leads_try_bind [OF listWSLDistros_leads]) (auto intro!: leads_mono [OF try_distros_leads] answered_append)
  note rest = leads_mono [OF this]
  show ?thesis
    unfolding resolveWSLCursorAgent_def using True
    by simp (rule leads_bind [OF resolve_distro_leads], auto split: sum.split intro!: leads_return rest answered_append)
next
  case False
  then show ?thesis
    unfolding resolveWSLCursorAgent_def by simp (rule leads_mono [OF resolve_distro_leads], auto)
qed

lemma has_model_arg_append: "has_model_arg ys \<Longrightarrow> has_model_arg (xs @ ys)"
  by (induction xs) auto

lemma agent_args_complete:
  assumes "agent_args getenv parse_json = Inr args"
  shows "has_model_arg args" "trustWorkspaceEnv getenv ''CURSOR_AGENT_TRUST_WORKSPACE'' True \<Longrightarrow> ''--trust'' \<in> set args"
proof -
  have "strings_TrimSpace (defaultCursorAgentModel getenv) \<noteq> []"
  proof -
    have "strings_TrimSpace ''auto'' = ''auto''" by code_simp
    then show ?thesis by (simp add: defaultCursorAgentModel_def Let_def TrimSpace_idem)
  qed
  with assms show "has_model_arg args" "trustWorkspaceEnv getenv ''CURSOR_AGENT_TRUST_WORKSPACE'' True \<Longrightarrow> ''--trust'' \<in> set args"
    by (auto simp: agent_args_def bind_result_def ensureCursorAgentModelArg_def ensureCursorAgentTrustFlag_def
        has_model_arg_append Let_def split: sum.splits if_splits)
qed

lemma default_config_leads:
  "leads (DefaultCursorAgentCLIConfig (traced os) getenv parse_json parse_duration quote)
     (\<lambda>r es. \<forall>cfg. r = Inr cfg \<longrightarrow> (\<exists>args. agent_args getenv parse_json = Inr args \<and>
        (if ccCursorAgentUseWSL cfg
         then ccCursorAgentArgs cfg = buildWSLBaseArgs (ccCursorAgentWSLDistro cfg) @ [ccCursorAgentWSLBinary cfg] @ args \<and>
           answered (ccCursorAgentBin cfg) (ccCursorAgentWSLDistro cfg) (ccCursorAgentWSLBinary cfg) es
         else ccCursorAgentArgs cfg = args)))"
proof -
  let ?use = "boolEnv getenv ''CURSOR_AGENT_USE_WSL''" let ?agent = "env_or getenv ''CURSOR_AGENT_BIN'' ''cursor-agent''"
  let ?bin = "if ?use then defaultWSLExecutable ?agent else ?agent"
  let ?distro = "strings_TrimSpace (getenv ''CURSOR_AGENT_WSL_DISTRO'')"
  have wsl: "leads (if ?use then try_bind (resolveWSLCursorAgent (traced os) quote ?bin ?distro) (\<lambda>resolved.
        State_Monad.return (Inr (rwDistro resolved, rwBinary resolved, buildWSLCursorAgentArgs (rwDistro resolved) (rwBinary resolved) args)))
      else State_Monad.return (Inr (?distro, [], args)))
    (\<lambda>r es. \<forall>d b as. r = Inr (d, b, as) \<longrightarrow> (if ?use then as = buildWSLBaseArgs d @ [b] @ args \<and> answered ?bin d b es else as = args))" for args
    by (auto intro!: leads_try_bind [OF resolve_leads] leads_return simp: buildWSLCursorAgentArgs_def)
  show ?thesis
    unfolding DefaultCursorAgentCLIConfig_def Let_def
    apply (rule leads_try_bind [where P = "\<lambda>_ _. True"], (auto intro!: emits_leads [of "\<lambda>_. True"] emits)[1], simp)
    apply (rule leads_try_bind [OF leads_return [where Q = "\<lambda>r es. r = agent_args getenv parse_json"]], rule refl, simp)
    apply (rule leads_try_bind [where P = "\<lambda>_ _. True"], rule leads_return, simp, simp)
    apply (rule leads_try_bind [where P = "\<lambda>_ _. True"], rule leads_return, simp, simp)
    apply (rule leads_try_bind, rule wsl, simp)
    apply (auto intro!: leads_return answered_append split: if_splits)
    done
qed

section \<open>Properties\<close>

text \<open>
  The default configuration starts an agent that answers: in WSL mode the configured program,
  distribution and binary are ones with which \<open>--version\<close> has just succeeded, and the arguments run
  that binary; the arguments of the agent always name a model and, unless it is switched off, trust
  the workspace.
\<close>
theorem default_config_agent_answers:
  assumes "run_state (DefaultCursorAgentCLIConfig (traced os) getenv parse_json parse_duration quote) (w, tr) = (Inr cfg, (w', tr'))"
  shows "\<exists>args. has_model_arg args \<and> (trustWorkspaceEnv getenv ''CURSOR_AGENT_TRUST_WORKSPACE'' True \<longrightarrow> ''--trust'' \<in> set args) \<and>
    (if ccCursorAgentUseWSL cfg
     then ccCursorAgentArgs cfg = buildWSLBaseArgs (ccCursorAgentWSLDistro cfg) @ [ccCursorAgentWSLBinary cfg] @ args \<and>
       answered (ccCursorAgentBin cfg) (ccCursorAgentWSLDistro cfg) (ccCursorAgentWSLBinary cfg) (drop (length tr) tr')
     else ccCursorAgentArgs cfg = args)"
proof -
  obtain args where "agent_args getenv parse_json = Inr args" "if ccCursorAgentUseWSL cfg
     then ccCursorAgentArgs cfg = buildWSLBaseArgs (ccCursorAgentWSLDistro cfg) @ [ccCursorAgentWSLBinary cfg] @ args \<and>
       answered (ccCursorAgentBin cfg) (ccCursorAgentWSLDistro cfg) (ccCursorAgentWSLBinary cfg) (drop (length tr) tr')
     else ccCursorAgentArgs cfg = args"
    using leads_run [OF default_config_leads assms] by auto
  with agent_args_complete show ?thesis by blast
qed

theorem default_config_agent_answers_witness:
  "case fst ex_wsl_config of Inl _ \<Rightarrow> False | Inr cfg \<Rightarrow>
     (\<exists>args. ccCursorAgentArgs cfg = buildWSLBaseArgs (ccCursorAgentWSLDistro cfg) @ [ccCursorAgentWSLBinary cfg] @ args) \<and>
     answered (ccCursorAgentBin cfg) (ccCursorAgentWSLDistro cfg) (ccCursorAgentWSLBinary cfg) (snd (snd ex_wsl_config))"
proof -
  have "case fst ex_wsl_config of Inr cfg \<Rightarrow> ccCursorAgentUseWSL cfg | Inl _ \<Rightarrow> False" by code_simp
  then obtain cfg where cfg: "fst ex_wsl_config = Inr cfg" "ccCursorAgentUseWSL cfg" by (auto split: sum.splits)
  then have "run_state (DefaultCursorAgentCLIConfig (traced ex_wsl)
     (\<lambda>k. if k = ''CURSOR_AGENT_USE_WSL'' then ''1'' else if k = ''CURSOR_AGENT_WSL_DISTRO'' then ''U'' else [])
     (\<lambda>_. None) (\<lambda>_. None) (\<lambda>s. s)) ((), []) = (Inr cfg, (fst (snd ex_wsl_config), snd (snd ex_wsl_config)))"
    unfolding ex_wsl_config_def [symmetric] by (simp add: prod_eq_iff)
  from default_config_agent_answers [OF this] cfg show ?thesis by auto
qed

end
