(* ===== verification/Cursor_Bridge.thy ===== *)
theory Cursor_Bridge
  imports Adapter_Json Cursor_Config
begin

text \<open>
  The adapter that talks to a bridge process or TCP peer, one JSON document per line
  (\<open>internal/agent/cursor_bridge_adapter.go\<close>). Calls run concurrently with the reader of the
  answers and with the end of the connection; \<open>bridge_turn\<close> is one atomic step of one of these
  goroutines. The response channels live in a heap (\<open>cbChans\<close>, a channel is an index); \<open>None\<close>
  is a run-time panic, a send on a closed channel or a second close. The documents on the wire are values of \<open>json\<close>.
\<close>

section \<open>Types\<close>

record CursorBridgeProcessConfig =
  bpCommand :: string
  bpArgs :: "string list"
  bpWorkingDir :: string
  bpEnv :: "string list"
  bpStartupTimeout :: duration
  bpCallTimeout :: duration

record CursorBridgeTCPConfig =
  btAddress :: string
  btDialTimeout :: duration
  btStartupTimeout :: duration
  btCallTimeout :: duration

record cursorBridgeRequest =
  cqID :: string
  cqMethod :: string
  cqParams :: RawMessage

record cursorBridgeError =
  cbeMessage :: string

record cursorBridgeResponse =
  cbrID :: string
  cbrResult :: RawMessage
  cbrError :: "cursorBridgeError option"

record response_chan =
  rcBuf :: "cursorBridgeResponse list"
  rcClosed :: bool

record CursorBridgeAdapter =
  cbName :: string
  cbCapabilities :: AdapterCapabilities
  cbCallTimeout :: duration
  cbPending :: "(string, nat) gomap"
  cbStderrTail :: "string list"
  cbRequestSeq :: int
  cbDone :: bool
  cbWaitErr :: "goerror option"
  cbFinished :: bool
  cbClosed :: bool
  cbFinishOnReadEOF :: bool
  cbChans :: "response_chan list"

section \<open>Wire format\<close>

definition cursorBridgeRequest_json :: "cursorBridgeRequest \<Rightarrow> json" where
  "cursorBridgeRequest_json r = JObj ([(''id'', enc_string (cqID r)), (''method'', enc_string (cqMethod r))] @
     (case cqParams r of None \<Rightarrow> [] | Some p \<Rightarrow> [(''params'', p)]))"

definition cursorBridgeError_put :: "string \<Rightarrow> json \<Rightarrow> cursorBridgeError \<Rightarrow> cursorBridgeError result" where
  "cursorBridgeError_put f v p = map_result (\<lambda>x. p\<lparr>cbeMessage := x\<rparr>) (decode_string v (cbeMessage p))"

definition cursorBridgeResponse_put :: "string \<Rightarrow> json \<Rightarrow> cursorBridgeResponse \<Rightarrow> cursorBridgeResponse result" where
  "cursorBridgeResponse_put f v p =
     (if f = ''id'' then map_result (\<lambda>x. p\<lparr>cbrID := x\<rparr>) (decode_string v (cbrID p))
      else if f = ''result'' then Inr (p\<lparr>cbrResult := Some v\<rparr>)
      else if v = JNull then Inr (p\<lparr>cbrError := None\<rparr>)
      else map_result (\<lambda>x. p\<lparr>cbrError := Some x\<rparr>)
        (decode_struct [''message''] cursorBridgeError_put v (case cbrError p of None \<Rightarrow> \<lparr>cbeMessage = []\<rparr> | Some e \<Rightarrow> e)))"

definition cursorBridgeResponse_unjson :: "json \<Rightarrow> cursorBridgeResponse result" where
  "cursorBridgeResponse_unjson j =
     decode_struct [''id'', ''result'', ''error''] cursorBridgeResponse_put j \<lparr>cbrID = [], cbrResult = None, cbrError = None\<rparr>"

section \<open>Operations on the adapter\<close>

definition newCursorBridgeAdapter :: "duration \<Rightarrow> CursorBridgeAdapter" where
  "newCursorBridgeAdapter callTimeout =
     \<lparr>cbName = [], cbCapabilities = zero_AdapterCapabilities, cbCallTimeout = callTimeout, cbPending = [],
      cbStderrTail = [], cbRequestSeq = 0, cbDone = False, cbWaitErr = None, cbFinished = False, cbClosed = False,
      cbFinishOnReadEOF = False, cbChans = []\<rparr>"

definition appendStderr :: "string \<Rightarrow> CursorBridgeAdapter \<Rightarrow> CursorBridgeAdapter" where
  "appendStderr line a =
     (let trimmed = strings_TrimSpace line in
      if trimmed = [] then a
      else
        let tail = cbStderrTail a @ [trimmed];
            tail = (if length tail > 20 then drop (length tail - 20) tail else tail)
        in a\<lparr>cbStderrTail := tail\<rparr>)"

text \<open>\<open>readStderr\<close>: the lines of the scanner, and the error that ended it.\<close>

definition readStderr :: "string list \<Rightarrow> goerror option \<Rightarrow> CursorBridgeAdapter \<Rightarrow> CursorBridgeAdapter" where
  "readStderr ls err a =
     (let a = fold appendStderr ls a in
      case err of None \<Rightarrow> a | Some e \<Rightarrow> appendStderr (''stderr read failed: '' @ Error e) a)"

definition stderrSummary :: "CursorBridgeAdapter \<Rightarrow> string" where
  "stderrSummary a = strings_Join (cbStderrTail a) '' | ''"

definition bridgeStoppedError :: "CursorBridgeAdapter \<Rightarrow> goerror" where
  "bridgeStoppedError a =
     (let err = (case cbWaitErr a of None \<Rightarrow> ErrNew ''cursor bridge connection closed'' | Some err \<Rightarrow> err);
          stderr = stderrSummary a
      in if stderr = [] then err else ErrWrap [] err ('' (stderr: '' @ stderr @ '')''))"

definition dropPending :: "string \<Rightarrow> CursorBridgeAdapter \<Rightarrow> CursorBridgeAdapter" where
  "dropPending requestID a = a\<lparr>cbPending := AList.delete requestID (cbPending a)\<rparr>"

text \<open>The channel operations of the heap.\<close>

definition send_response :: "nat \<Rightarrow> cursorBridgeResponse \<Rightarrow> CursorBridgeAdapter \<Rightarrow> CursorBridgeAdapter option" where
  "send_response ch r a =
     (if rcClosed (cbChans a ! ch) then None
      else Some (a\<lparr>cbChans := (cbChans a)[ch := (cbChans a ! ch)\<lparr>rcBuf := rcBuf (cbChans a ! ch) @ [r]\<rparr>]\<rparr>))"

definition close_response :: "nat \<Rightarrow> CursorBridgeAdapter \<Rightarrow> CursorBridgeAdapter option" where
  "close_response ch a =
     (if rcClosed (cbChans a ! ch) then None
      else Some (a\<lparr>cbChans := (cbChans a)[ch := (cbChans a ! ch)\<lparr>rcClosed := True\<rparr>]\<rparr>))"

text \<open>\<open>deliver\<close> under its lock: the channel that waits for the response is taken out of the table.\<close>

definition deliver_take :: "cursorBridgeResponse \<Rightarrow> CursorBridgeAdapter \<Rightarrow> nat option \<times> CursorBridgeAdapter" where
  "deliver_take r a =
     (case map_of (cbPending a) (cbrID r) of
        None \<Rightarrow> (None, a)
      | Some ch \<Rightarrow> (Some ch, a\<lparr>cbPending := AList.delete (cbrID r) (cbPending a)\<rparr>))"

definition deliver_send :: "nat \<Rightarrow> cursorBridgeResponse \<Rightarrow> CursorBridgeAdapter \<Rightarrow> CursorBridgeAdapter option" where
  "deliver_send ch r a = Option.bind (send_response ch r a) (close_response ch)"

text \<open>\<open>finish\<close>: the first caller sets the error and closes \<open>done\<close>, empties the table and closes its channels.\<close>

definition finish_begin :: "goerror option \<Rightarrow> CursorBridgeAdapter \<Rightarrow> CursorBridgeAdapter option" where
  "finish_begin err a =
     (if cbFinished a then Some a
      else if cbDone a then None
      else Some (a\<lparr>cbFinished := True, cbWaitErr := err, cbDone := True\<rparr>))"

definition finish_swap :: "CursorBridgeAdapter \<Rightarrow> nat list \<times> CursorBridgeAdapter" where
  "finish_swap a = (map snd (cbPending a), a\<lparr>cbPending := []\<rparr>)"

section \<open>Calls\<close>

datatype call_phase = Writing | Selecting | Returned "RawMessage result"

record bridge_call =
  bcRequest :: cursorBridgeRequest
  bcChan :: nat
  bcPhase :: call_phase

definition call_begin :: "string \<Rightarrow> RawMessage \<Rightarrow> CursorBridgeAdapter \<Rightarrow> bridge_call \<times> CursorBridgeAdapter" where
  "call_begin method params a =
     (let n = wrap64 (cbRequestSeq a + 1); requestID = ''bridge_'' @ Itoa n; ch = length (cbChans a)
      in (\<lparr>bcRequest = \<lparr>cqID = requestID, cqMethod = method, cqParams = params\<rparr>, bcChan = ch, bcPhase = Writing\<rparr>,
          a\<lparr>cbRequestSeq := n, cbChans := cbChans a @ [\<lparr>rcBuf = [], rcClosed = False\<rparr>],
            cbPending := AList.update requestID ch (cbPending a)\<rparr>))"

definition call_write :: "goerror option \<Rightarrow> bridge_call \<Rightarrow> CursorBridgeAdapter \<Rightarrow> bridge_call \<times> CursorBridgeAdapter" where
  "call_write err c a =
     (case err of
        Some err \<Rightarrow> (c\<lparr>bcPhase := Returned (Inl (ErrWrap ''write cursor bridge request: '' err []))\<rparr>, dropPending (cqID (bcRequest c)) a)
      | None \<Rightarrow> (c\<lparr>bcPhase := Selecting\<rparr>, a))"

definition response_result :: "cursorBridgeResponse \<Rightarrow> RawMessage result" where
  "response_result r = (case cbrError r of Some e \<Rightarrow> Inl (ErrNew (cbeMessage e)) | None \<Rightarrow> Inr (cbrResult r))"

text \<open>The cases of the \<open>select\<close>; a case that is not ready does not happen.\<close>

datatype select_case = OnResponse | OnContext goerror | OnDone

definition call_select :: "select_case \<Rightarrow> bridge_call \<Rightarrow> CursorBridgeAdapter \<Rightarrow> bridge_call \<times> CursorBridgeAdapter" where
  "call_select b c a =
     (case b of
        OnResponse \<Rightarrow>
          (case rcBuf (cbChans a ! bcChan c) of
             r # rs \<Rightarrow> (c\<lparr>bcPhase := Returned (response_result r)\<rparr>,
                        a\<lparr>cbChans := (cbChans a)[bcChan c := (cbChans a ! bcChan c)\<lparr>rcBuf := rs\<rparr>]\<rparr>)
           | [] \<Rightarrow> if rcClosed (cbChans a ! bcChan c) then (c\<lparr>bcPhase := Returned (Inl (bridgeStoppedError a))\<rparr>, a) else (c, a))
      | OnContext err \<Rightarrow> (c\<lparr>bcPhase := Returned (Inl err)\<rparr>, dropPending (cqID (bcRequest c)) a)
      | OnDone \<Rightarrow>
          if cbDone a then (c\<lparr>bcPhase := Returned (Inl (bridgeStoppedError a))\<rparr>, dropPending (cqID (bcRequest c)) a) else (c, a))"

section \<open>Goroutines\<close>

definition EOF :: goerror where "EOF = ErrSentinel ''EOF''"

text \<open>\<open>readStdout\<close>: between two lines, sending a response, at the end of the input, returned.\<close>

datatype reader = Reading | Sending nat cursorBridgeResponse "goerror option" | Ending goerror | Stopped

definition read_next :: "goerror option \<Rightarrow> reader" where
  "read_next err = (case err of None \<Rightarrow> Reading | Some e \<Rightarrow> Ending e)"

text \<open>A line of the input: white space, text that is no JSON document, or a document.\<close>

datatype bridge_line = BlankLine | GarbageLine | JsonLine json

definition decode_response :: "bridge_line \<Rightarrow> cursorBridgeResponse result" where
  "decode_response line = (case line of JsonLine j \<Rightarrow> cursorBridgeResponse_unjson j | _ \<Rightarrow> Inl json_error)"

definition readStdout_read :: "bridge_line \<Rightarrow> goerror option \<Rightarrow> CursorBridgeAdapter \<Rightarrow> (reader \<times> CursorBridgeAdapter) option" where
  "readStdout_read line err a =
     (if line = BlankLine then Some (read_next err, a)
      else case decode_response line of
        Inl e \<Rightarrow> map_option (\<lambda>a. (Stopped, a)) (finish_begin (Some (ErrWrap ''decode cursor bridge stdout: '' e [])) a)
      | Inr response \<Rightarrow>
          (case deliver_take response a of
             (None, a) \<Rightarrow> Some (read_next err, a)
           | (Some ch, a) \<Rightarrow> Some (Sending ch response err, a)))"

definition readStdout_end :: "goerror \<Rightarrow> CursorBridgeAdapter \<Rightarrow> CursorBridgeAdapter option" where
  "readStdout_end err a =
     (if errors_Is err EOF then (if cbFinishOnReadEOF a then finish_begin None a else Some a)
      else finish_begin (Some (ErrWrap ''read cursor bridge stdout: '' err [])) a)"

definition waitForExit :: "goerror option \<Rightarrow> CursorBridgeAdapter \<Rightarrow> CursorBridgeAdapter option" where
  "waitForExit err a =
     (case err of
        None \<Rightarrow> finish_begin None a
      | Some e \<Rightarrow> finish_begin (Some (ErrWrap ''cursor bridge process exited: '' e [])) a)"

text \<open>
  The program: the adapter, its calls, the reader, and \<open>finish\<close>: whether it has emptied the table
  and the channels that it has still to close.
\<close>

record bridge_state =
  brAdapter :: CursorBridgeAdapter
  brCalls :: "bridge_call list"
  brReader :: reader
  brSwapped :: bool
  brClosing :: "nat list"

datatype bridge_event =
    BCall string RawMessage
  | BWrite nat "goerror option"
  | BSelect nat select_case
  | BRead bridge_line "goerror option"
  | BSend
  | BReadEnd
  | BExit "goerror option"
  | BFinishSwap
  | BFinishClose nat
  | BStderr string

definition call_turn :: "call_phase \<Rightarrow> nat \<Rightarrow> (bridge_call \<Rightarrow> CursorBridgeAdapter \<Rightarrow> bridge_call \<times> CursorBridgeAdapter) \<Rightarrow> bridge_state \<Rightarrow> bridge_state" where
  "call_turn ph i f s =
     (if i < length (brCalls s) \<and> bcPhase (brCalls s ! i) = ph
      then case f (brCalls s ! i) (brAdapter s) of (c, a) \<Rightarrow> s\<lparr>brAdapter := a, brCalls := (brCalls s)[i := c]\<rparr>
      else s)"

text \<open>An event whose goroutine is not at that point does nothing.\<close>

fun bridge_turn :: "bridge_event \<Rightarrow> bridge_state \<Rightarrow> bridge_state option" where
  "bridge_turn (BCall method params) s =
     (case call_begin method params (brAdapter s) of (c, a) \<Rightarrow> Some (s\<lparr>brAdapter := a, brCalls := brCalls s @ [c]\<rparr>))"
| "bridge_turn (BWrite i err) s = Some (call_turn Writing i (call_write err) s)"
| "bridge_turn (BSelect i b) s = Some (call_turn Selecting i (call_select b) s)"
| "bridge_turn (BRead line err) s =
     (case brReader s of
        Reading \<Rightarrow> map_option (\<lambda>(rd, a). s\<lparr>brReader := rd, brAdapter := a\<rparr>) (readStdout_read line err (brAdapter s))
      | _ \<Rightarrow> Some s)"
| "bridge_turn BSend s =
     (case brReader s of
        Sending ch r err \<Rightarrow> map_option (\<lambda>a. s\<lparr>brAdapter := a, brReader := read_next err\<rparr>) (deliver_send ch r (brAdapter s))
      | _ \<Rightarrow> Some s)"
| "bridge_turn BReadEnd s =
     (case brReader s of
        Ending err \<Rightarrow> map_option (\<lambda>a. s\<lparr>brAdapter := a, brReader := Stopped\<rparr>) (readStdout_end err (brAdapter s))
      | _ \<Rightarrow> Some s)"
| "bridge_turn (BExit err) s =
     (if cbFinishOnReadEOF (brAdapter s) then Some s
      else map_option (\<lambda>a. s\<lparr>brAdapter := a\<rparr>) (waitForExit err (brAdapter s)))"
| "bridge_turn BFinishSwap s =
     (if cbDone (brAdapter s) \<and> \<not> brSwapped s
      then case finish_swap (brAdapter s) of (chs, a) \<Rightarrow> Some (s\<lparr>brAdapter := a, brSwapped := True, brClosing := chs\<rparr>)
      else Some s)"
| "bridge_turn (BFinishClose k) s =
     (if k < length (brClosing s)
      then map_option (\<lambda>a. s\<lparr>brAdapter := a, brClosing := take k (brClosing s) @ drop (Suc k) (brClosing s)\<rparr>)
             (close_response (brClosing s ! k) (brAdapter s))
      else Some s)"
| "bridge_turn (BStderr line) s = Some (s\<lparr>brAdapter := appendStderr line (brAdapter s)\<rparr>)"

fun bridge_exec :: "bridge_event list \<Rightarrow> bridge_state \<Rightarrow> bridge_state option" where
  "bridge_exec [] s = Some s"
| "bridge_exec (ev # evs) s = Option.bind (bridge_turn ev s) (bridge_exec evs)"

definition bridge_start :: "duration \<Rightarrow> bool \<Rightarrow> bridge_state" where
  "bridge_start callTimeout tcp =
     \<lparr>brAdapter = (newCursorBridgeAdapter callTimeout)\<lparr>cbFinishOnReadEOF := tcp\<rparr>, brCalls = [], brReader = Reading,
      brSwapped = False, brClosing = []\<rparr>"

inductive bridge_moves :: "bridge_state \<Rightarrow> bridge_state \<Rightarrow> bool" where
  turn: "bridge_turn ev s = Some t \<Longrightarrow> bridge_moves s t"

section \<open>The interface\<close>

text \<open>
  What a call gives to its method: \<open>call\<close> performs the exchange for a method with its parameters;
  the raw result is then decoded into the result variable of the method.
\<close>

type_synonym 's bridge_caller = "string \<Rightarrow> RawMessage \<Rightarrow> 's \<Rightarrow> RawMessage result \<times> 's"

definition decode_out :: "(json \<Rightarrow> 'a result) \<Rightarrow> 'a \<Rightarrow> RawMessage result \<Rightarrow> 'a result" where
  "decode_out dec out raw =
     (case raw of
        Inl err \<Rightarrow> Inl err
      | Inr None \<Rightarrow> Inr out
      | Inr (Some j) \<Rightarrow>
          if j = JNull then Inr out
          else case dec j of Inl err \<Rightarrow> Inl (ErrWrap ''decode cursor bridge response: '' err []) | Inr x \<Rightarrow> Inr x)"

definition call_decoded :: "'s bridge_caller \<Rightarrow> string \<Rightarrow> RawMessage \<Rightarrow> (json \<Rightarrow> 'a result) \<Rightarrow> 'a \<Rightarrow> 's \<Rightarrow> 'a result \<times> 's" where
  "call_decoded call method params dec out s =
     (case call method params s of (raw, s) \<Rightarrow> (decode_out dec out raw, s))"

definition bridge_GetContext :: "'s bridge_caller \<Rightarrow> ContextRequest \<Rightarrow> 's \<Rightarrow> WorkspaceContext result \<times> 's" where
  "bridge_GetContext call input = call_decoded call ''getContext'' (Some (ContextRequest_json input)) WorkspaceContext_unjson zero_WorkspaceContext"

definition bridge_SubmitTask :: "'s bridge_caller \<Rightarrow> SubmitTaskInput \<Rightarrow> 's \<Rightarrow> TaskHandle result \<times> 's" where
  "bridge_SubmitTask call input = call_decoded call ''submitTask'' (Some (SubmitTaskInput_json input)) TaskHandle_unjson zero_TaskHandle"

definition bridge_GetPatch :: "'s bridge_caller \<Rightarrow> string \<Rightarrow> 's \<Rightarrow> PatchReadyPayload option result \<times> 's" where
  "bridge_GetPatch call taskID = call_decoded call ''getPatch'' (Some (JObj [(''taskId'', enc_string taskID)]))
     (\<lambda>j. map_result Some (PatchReadyPayload_unjson j)) None"

definition bridge_ApplyPatch :: "'s bridge_caller \<Rightarrow> ApplyPatchInput \<Rightarrow> 's \<Rightarrow> ApplyPatchResult result \<times> 's" where
  "bridge_ApplyPatch call input = call_decoded call ''applyPatch'' (Some (ApplyPatchInput_json input)) ApplyPatchResult_unjson zero_ApplyPatchResult"

definition bridge_RunProfile :: "'s bridge_caller \<Rightarrow> RunProfileInput \<Rightarrow> 's \<Rightarrow> RunHandle result \<times> 's" where
  "bridge_RunProfile call input = call_decoded call ''runProfile'' (Some (RunProfileInput_json input)) RunHandle_unjson zero_RunHandle"

definition bridge_GetRunResult :: "'s bridge_caller \<Rightarrow> string \<Rightarrow> 's \<Rightarrow> RunResult option result \<times> 's" where
  "bridge_GetRunResult call runID = call_decoded call ''getRunResult'' (Some (JObj [(''runId'', enc_string runID)]))
     (\<lambda>j. map_result Some (RunResult_unjson j)) None"

definition bridge_OpenLocation :: "'s bridge_caller \<Rightarrow> OpenLocationInput \<Rightarrow> 's \<Rightarrow> goerror option \<times> 's" where
  "bridge_OpenLocation call input s =
     (case call ''openLocation'' (Some (OpenLocationInput_json input)) s of
        (Inl err, s) \<Rightarrow> (Some err, s)
      | (Inr _, s) \<Rightarrow> (None, s))"

definition cursor_bridge_adapter :: "'s bridge_caller \<Rightarrow> CursorBridgeAdapter \<Rightarrow> 's WorkspaceAdapter" where
  "cursor_bridge_adapter call a =
     \<lparr>waName = cbName a, waCapabilities = cbCapabilities a, waGetContext = bridge_GetContext call,
      waSubmitTask = bridge_SubmitTask call, waGetPatch = bridge_GetPatch call, waApplyPatch = bridge_ApplyPatch call,
      waRunProfile = bridge_RunProfile call, waGetRunResult = bridge_GetRunResult call,
      waOpenLocation = bridge_OpenLocation call\<rparr>"

section \<open>Start and end\<close>

definition bridge_bootstrap :: "'s bridge_caller \<Rightarrow> CursorBridgeAdapter \<Rightarrow> 's \<Rightarrow> CursorBridgeAdapter result \<times> 's" where
  "bridge_bootstrap call a s =
     (case call_decoded call ''name'' None (\<lambda>j. decode_string j []) [] s of
        (Inl err, s) \<Rightarrow> (Inl (ErrWrap ''cursor bridge handshake(name): '' err []), s)
      | (Inr name, s) \<Rightarrow>
          (case call_decoded call ''capabilities'' None AdapterCapabilities_unjson zero_AdapterCapabilities s of
             (Inl err, s) \<Rightarrow> (Inl (ErrWrap ''cursor bridge handshake(capabilities): '' err []), s)
           | (Inr capabilities, s) \<Rightarrow> (Inr (a\<lparr>cbName := name, cbCapabilities := capabilities\<rparr>), s)))"

text \<open>
  The process of a bridge as a parameter: its pipes, its start, closing its standard input, whether
  it has ended (\<open>done\<close>) before two seconds have passed, and killing it.
\<close>

record 's bridge_process =
  pxStdinPipe :: "'s \<Rightarrow> goerror option \<times> 's"
  pxStdoutPipe :: "'s \<Rightarrow> goerror option \<times> 's"
  pxStderrPipe :: "'s \<Rightarrow> goerror option \<times> 's"
  pxStart :: "'s \<Rightarrow> goerror option \<times> 's"
  pxCloseStdin :: "'s \<Rightarrow> 's"
  pxDoneInTime :: "'s \<Rightarrow> bool \<times> 's"
  pxKill :: "'s \<Rightarrow> 's"

text \<open>
  \<open>Close\<close>: only the first one shuts the connection down; \<open>shutdown\<close> is \<open>closeFn\<close>. It then waits for
  \<open>done\<close>, which changes nothing.
\<close>

definition bridge_Close :: "('s \<Rightarrow> 's) \<Rightarrow> CursorBridgeAdapter \<Rightarrow> 's \<Rightarrow> CursorBridgeAdapter \<times> 's" where
  "bridge_Close shutdown a s = (if cbClosed a then (a, s) else (a\<lparr>cbClosed := True\<rparr>, shutdown s))"

definition process_closeFn :: "'s bridge_process \<Rightarrow> 's \<Rightarrow> 's" where
  "process_closeFn px s = (case pxDoneInTime px (pxCloseStdin px s) of (ended, s) \<Rightarrow> if ended then s else pxKill px s)"

definition bridge_command :: "string list \<Rightarrow> CursorBridgeProcessConfig \<Rightarrow> command" where
  "bridge_command environ cfg =
     \<lparr>cmdCtx = Background, cmdDir = bpWorkingDir cfg, cmdEnv = (if bpEnv cfg = [] then None else Some (environ @ bpEnv cfg)),
      cmdStdin = None, cmdName = bpCommand cfg, cmdArgs = bpArgs cfg\<rparr>"

definition NewCursorBridgeAdapter :: "string list \<Rightarrow> (string \<Rightarrow> string) \<Rightarrow> (command \<Rightarrow> 's bridge_process) \<Rightarrow> 's bridge_caller \<Rightarrow>
    CursorBridgeProcessConfig \<Rightarrow> 's \<Rightarrow> CursorBridgeAdapter result \<times> 's" where
  "NewCursorBridgeAdapter environ quote proc call cfg s =
     (if bpCommand cfg = [] then (Inl (ErrNew ''cursor bridge command is required''), s)
      else let px = proc (bridge_command environ cfg) in
        (case pxStdinPipe px s of
           (Some err, s) \<Rightarrow> (Inl (ErrWrap ''cursor bridge stdin pipe: '' err []), s)
         | (None, s) \<Rightarrow> (case pxStdoutPipe px s of
           (Some err, s) \<Rightarrow> (Inl (ErrWrap ''cursor bridge stdout pipe: '' err []), s)
         | (None, s) \<Rightarrow> (case pxStderrPipe px s of
           (Some err, s) \<Rightarrow> (Inl (ErrWrap ''cursor bridge stderr pipe: '' err []), s)
         | (None, s) \<Rightarrow> (case pxStart px s of
           (Some err, s) \<Rightarrow> (Inl (ErrWrap (''start cursor bridge command '' @ quote (bpCommand cfg) @ '': '') err []), s)
         | (None, s) \<Rightarrow>
             let a = newCursorBridgeAdapter (bpCallTimeout cfg) in
             (case bridge_bootstrap call a s of
                (Inl err, s) \<Rightarrow> (Inl err, snd (bridge_Close (process_closeFn px) a s))
              | (Inr a, s) \<Rightarrow> (Inr a, s)))))))"

definition NewCursorBridgeTCPAdapter :: "(string \<Rightarrow> string) \<Rightarrow> (string \<Rightarrow> 's \<Rightarrow> goerror option \<times> 's) \<Rightarrow> 's bridge_caller \<Rightarrow> ('s \<Rightarrow> 's) \<Rightarrow> CursorBridgeTCPConfig \<Rightarrow> 's \<Rightarrow>
    CursorBridgeAdapter result \<times> 's" where
  "NewCursorBridgeTCPAdapter quote dial call shutdown cfg s =
     (if strings_TrimSpace (btAddress cfg) = [] then (Inl (ErrNew ''cursor bridge tcp address is required''), s)
      else case dial (btAddress cfg) s of (Some err, s) \<Rightarrow> (Inl (ErrWrap (''dial cursor bridge tcp '' @ quote (btAddress cfg) @ '': '') err []), s)
      | (None, s) \<Rightarrow>
          let a = (newCursorBridgeAdapter (btCallTimeout cfg))\<lparr>cbFinishOnReadEOF := True\<rparr> in
          (case bridge_bootstrap call a s of
             (Inl err, s) \<Rightarrow> (Inl (ErrWrap ''cursor bridge tcp handshake: '' err []), snd (bridge_Close shutdown a s))
           | (Inr a, s) \<Rightarrow> (Inr a, s)))"

section \<open>Configuration\<close>

definition defaultCursorBridgeArgs :: "'w OS \<Rightarrow> (string \<Rightarrow> bool) \<Rightarrow> (string \<Rightarrow> string) \<Rightarrow> (string \<Rightarrow> json option) \<Rightarrow> string \<Rightarrow> ('w, string list result) state" where
  "defaultCursorBridgeArgs os isAbs getenv parse_json workingDir =
     (let rawArgs = strings_TrimSpace (getenv ''CURSOR_BRIDGE_ARGS_JSON'') in
      if rawArgs \<noteq> [] then
        State_Monad.return (case jsonStringArray parse_json rawArgs of
          Inl err \<Rightarrow> Inl (ErrWrap ''parse CURSOR_BRIDGE_ARGS_JSON: '' err [])
        | Inr args \<Rightarrow> Inr args)
      else
        let entry = env_or getenv ''CURSOR_BRIDGE_ENTRY''
              (osJoin os [''adapters'', ''cursor-bridge'', ''dist'', ''fixtureBridgeMain.js'']);
            entryPath = (if \<not> isAbs entry then osJoin os [workingDir, entry] else entry)
        in do {
          r \<leftarrow> State (osStat os entryPath);
          State_Monad.return (case r of
            Inl _ \<Rightarrow> Inl (ErrNew (''cursor bridge entry not found: '' @ entryPath @
              '' (run `npm --prefix adapters/cursor-bridge install` and `npm --prefix adapters/cursor-bridge run build`)''))
          | Inr _ \<Rightarrow> Inr [entry])
        })"

definition DefaultCursorBridgeProcessConfig :: "'w OS \<Rightarrow> (string \<Rightarrow> bool) \<Rightarrow> (string \<Rightarrow> string) \<Rightarrow> (string \<Rightarrow> json option) \<Rightarrow>
    (string \<Rightarrow> duration option) \<Rightarrow> ('w, CursorBridgeProcessConfig result) state" where
  "DefaultCursorBridgeProcessConfig os isAbs getenv parse_json parse_duration =
     try_bind (let dir = strings_TrimSpace (getenv ''CURSOR_BRIDGE_WORKDIR'')
         in if dir = [] then wrap_error ''get working directory: '' (State (osGetwd os)) else State_Monad.return (Inr dir)) (\<lambda>workingDir.
     try_bind (defaultCursorBridgeArgs os isAbs getenv parse_json workingDir) (\<lambda>args.
     try_bind (State_Monad.return (jsonStringArrayEnv getenv parse_json ''CURSOR_BRIDGE_ENV_JSON'')) (\<lambda>extraEnv.
       State_Monad.return (Inr
         \<lparr>bpCommand = env_or getenv ''CURSOR_BRIDGE_BIN'' ''node'', bpArgs = args, bpWorkingDir = workingDir, bpEnv = extraEnv,
          bpStartupTimeout = durationEnv getenv parse_duration ''CURSOR_BRIDGE_STARTUP_TIMEOUT'' (5 * Second),
          bpCallTimeout = durationEnv getenv parse_duration ''CURSOR_BRIDGE_CALL_TIMEOUT'' (10 * Second)\<rparr>))))"

definition DefaultCursorBridgeTCPConfig :: "(string \<Rightarrow> string) \<Rightarrow> (string \<Rightarrow> duration option) \<Rightarrow> CursorBridgeTCPConfig result" where
  "DefaultCursorBridgeTCPConfig getenv parse_duration =
     (let address = strings_TrimSpace (getenv ''CURSOR_BRIDGE_TCP_ADDR'') in
      if address = [] then Inl (ErrNew ''CURSOR_BRIDGE_TCP_ADDR is empty'')
      else Inr \<lparr>btAddress = address,
        btDialTimeout = durationEnv getenv parse_duration ''CURSOR_BRIDGE_TCP_DIAL_TIMEOUT'' (3 * Second),
        btStartupTimeout = durationEnv getenv parse_duration ''CURSOR_BRIDGE_STARTUP_TIMEOUT'' (5 * Second),
        btCallTimeout = durationEnv getenv parse_duration ''CURSOR_BRIDGE_CALL_TIMEOUT'' (10 * Second)\<rparr>)"

text \<open>\<open>NewWorkspaceAdapterFromEnv\<close>: \<open>tcp\<close> and \<open>process\<close> construct the bridge adapters.\<close>

datatype ('w, 'b) made_adapter = MadeCli "'w CursorAgentCLIAdapter" | MadeBridge 'b

definition NewWorkspaceAdapterFromEnv :: "'w OS \<Rightarrow> (string \<Rightarrow> bool) \<Rightarrow> (string \<Rightarrow> string) \<Rightarrow> (string \<Rightarrow> json option) \<Rightarrow> (string \<Rightarrow> duration option) \<Rightarrow>
    (string \<Rightarrow> string) \<Rightarrow> (CursorBridgeTCPConfig \<Rightarrow> ('w, 'b result) state) \<Rightarrow> (CursorBridgeProcessConfig \<Rightarrow> ('w, 'b result) state) \<Rightarrow>
    go_context \<Rightarrow> ('w, ('w, 'b) made_adapter result) state" where
  "NewWorkspaceAdapterFromEnv os isAbs getenv parse_json parse_duration quote tcp process ctx =
     (let mode = strings_TrimSpace (getenv ''WORKSPACE_ADAPTER_MODE'') in
      if mode = ''cursor_agent_cli'' then
        try_bind (DefaultCursorAgentCLIConfig os getenv parse_json parse_duration quote) (\<lambda>cfg.
        try_bind (State (NewCursorAgentCLIAdapter os quote ctx cfg)) (\<lambda>a. State_Monad.return (Inr (MadeCli a))))
      else if mode = [] \<or> mode = ''bridge'' then
        (if strings_TrimSpace (getenv ''CURSOR_BRIDGE_TCP_ADDR'') \<noteq> [] then
           try_bind (State_Monad.return (DefaultCursorBridgeTCPConfig getenv parse_duration)) (\<lambda>cfg.
           try_bind (tcp cfg) (\<lambda>a. State_Monad.return (Inr (MadeBridge a))))
         else
           try_bind (DefaultCursorBridgeProcessConfig os isAbs getenv parse_json parse_duration) (\<lambda>cfg.
           try_bind (process cfg) (\<lambda>a. State_Monad.return (Inr (MadeBridge a)))))
      else State_Monad.return (Inl (ErrNew (''unsupported WORKSPACE_ADAPTER_MODE '' @ quote (getenv ''WORKSPACE_ADAPTER_MODE'')))))"

end
