(* ===== verification/Bridge_Flow.thy ===== *)
theory Bridge_Flow
  imports Cursor_Bridge
begin

text \<open>
  The bridge adapter under every interleaving of its calls, the reader of the answers and the end
  of the connection: no panic, answers reach the call that asked, nobody waits for ever; and a
  bridge that serves another adapter is that adapter.
\<close>

section \<open>Definitions\<close>

abbreviation request_id :: "bridge_state \<Rightarrow> nat \<Rightarrow> string" where
  "request_id s ch \<equiv> cqID (bcRequest (brCalls s ! ch))"

abbreviation fresh_chan :: response_chan where
  "fresh_chan \<equiv> \<lparr>rcBuf = [], rcClosed = False\<rparr>"

text \<open>A channel that is still to be used: it exists, and nothing has been done to it.\<close>

definition unused :: "bridge_state \<Rightarrow> nat \<Rightarrow> bool" where
  "unused s ch \<longleftrightarrow> ch < length (cbChans (brAdapter s)) \<and> cbChans (brAdapter s) ! ch = fresh_chan"

definition sending :: "bridge_state \<Rightarrow> nat set" where
  "sending s = (case brReader s of Sending ch r e \<Rightarrow> {ch} | _ \<Rightarrow> {})"

text \<open>
  The invariant, for the set \<open>R\<close> of the responses that have been read: a channel waits in the table,
  is being sent on, or is about to be closed by \<open>finish\<close>, never two of these, and is unused then;
  a table entry and a response belong to the call whose request id they carry; what a call has
  returned is the result of a response that has been read and carries its id.
\<close>

definition table_ok :: "bridge_state \<Rightarrow> bool" where
  "table_ok s \<longleftrightarrow> wf_map (cbPending (brAdapter s)) \<and>
     (\<forall>rid ch. map_of (cbPending (brAdapter s)) rid = Some ch \<longrightarrow>
        unused s ch \<and> request_id s ch = rid \<and> ch \<notin> sending s \<and> ch \<notin> set (brClosing s))"

definition sending_ok :: "cursorBridgeResponse set \<Rightarrow> bridge_state \<Rightarrow> bool" where
  "sending_ok R s \<longleftrightarrow> (case brReader s of Sending ch r e \<Rightarrow> unused s ch \<and> cbrID r = request_id s ch \<and> r \<in> R \<and> ch \<notin> set (brClosing s) | _ \<Rightarrow> True)"

definition closing_ok :: "bridge_state \<Rightarrow> bool" where
  "closing_ok s \<longleftrightarrow> (\<not> brSwapped s \<longrightarrow> brClosing s = []) \<and> distinct (brClosing s) \<and> (\<forall>ch \<in> set (brClosing s). unused s ch)"

definition calls_ok :: "cursorBridgeResponse set \<Rightarrow> bridge_state \<Rightarrow> bool" where
  "calls_ok R s \<longleftrightarrow> length (brCalls s) = length (cbChans (brAdapter s)) \<and>
     (\<forall>i < length (brCalls s). bcChan (brCalls s ! i) = i \<and>
        (\<forall>r \<in> set (rcBuf (cbChans (brAdapter s) ! i)). r \<in> R \<and> cbrID r = request_id s i) \<and>
        length (rcBuf (cbChans (brAdapter s) ! i)) \<le> 1 \<and>
        (\<forall>x. bcPhase (brCalls s ! i) = Returned (Inr x) \<longrightarrow> (\<exists>r \<in> R. cbrID r = request_id s i \<and> cbrError r = None \<and> cbrResult r = x)))"

definition bridge_inv :: "cursorBridgeResponse set \<Rightarrow> bridge_state \<Rightarrow> bool" where
  "bridge_inv R s \<longleftrightarrow> table_ok s \<and> sending_ok R s \<and> closing_ok s \<and> calls_ok R s \<and> cbDone (brAdapter s) = cbFinished (brAdapter s)"

fun read_by :: "bridge_event \<Rightarrow> cursorBridgeResponse set" where
  "read_by (BRead line err) = (case decode_response line of Inr r \<Rightarrow> {r} | Inl _ \<Rightarrow> {})"
| "read_by _ = {}"

lemmas bridge_inv_defs = bridge_inv_def table_ok_def sending_ok_def closing_ok_def calls_ok_def

text \<open>
  The other end of the connection (\<open>adapters/cursor-bridge/src/bridgeRpc.ts\<close>): a request is parsed,
  dispatched to an adapter and answered under its id.
\<close>

definition js_field :: "string \<Rightarrow> (string \<times> json) list \<Rightarrow> json option" where
  "js_field k kvs = map_of (rev kvs) k"

definition nonempty_string :: "json option \<Rightarrow> string option" where
  "nonempty_string v = (case v of Some (JStr x) \<Rightarrow> if x = [] then None else Some x | _ \<Rightarrow> None)"

definition parseRequest :: "json \<Rightarrow> cursorBridgeRequest result" where
  "parseRequest j =
     (case j of
        JObj kvs \<Rightarrow>
          (case nonempty_string (js_field ''id'' kvs) of
             None \<Rightarrow> Inl (ErrNew ''bridge request id is required'')
           | Some i \<Rightarrow>
               (case nonempty_string (js_field ''method'' kvs) of
                  None \<Rightarrow> Inl (ErrNew ''bridge request method is required'')
                | Some m \<Rightarrow> Inr \<lparr>cqID = i, cqMethod = m, cqParams = js_field ''params'' kvs\<rparr>))
      | _ \<Rightarrow> Inl (ErrNew ''invalid bridge request''))"

definition readRequiredString :: "json option \<Rightarrow> string \<Rightarrow> string result" where
  "readRequiredString v label =
     (case nonempty_string v of None \<Rightarrow> Inl (ErrNew (''invalid '' @ label)) | Some x \<Rightarrow> Inr x)"

text \<open>
  The served adapter is one over the types of \<open>types.go\<close>, so its parameters are decoded into these
  types where the peer in TypeScript passes the parsed object on.
\<close>

definition with_params :: "string \<Rightarrow> (json \<Rightarrow> 'a result) \<Rightarrow> RawMessage \<Rightarrow> ('a \<Rightarrow> 's \<Rightarrow> RawMessage result \<times> 's) \<Rightarrow> 's \<Rightarrow> RawMessage result \<times> 's" where
  "with_params label dec params f s =
     (case params of
        Some (JObj kvs) \<Rightarrow> (case dec (JObj kvs) of Inl e \<Rightarrow> (Inl e, s) | Inr x \<Rightarrow> f x s)
      | _ \<Rightarrow> (Inl (ErrNew (''invalid '' @ label @ '' params'')), s))"

definition string_param :: "string \<Rightarrow> string \<Rightarrow> json \<Rightarrow> string result" where
  "string_param m k j = (case j of JObj kvs \<Rightarrow> readRequiredString (js_field k kvs) (m @ ''.'' @ k) | _ \<Rightarrow> Inl (ErrNew (''invalid '' @ m @ '' params'')))"

definition encode_result :: "('a \<Rightarrow> json) \<Rightarrow> 'a result \<times> 's \<Rightarrow> RawMessage result \<times> 's" where
  "encode_result enc rs = (map_result (\<lambda>x. Some (enc x)) (fst rs), snd rs)"

definition dispatch :: "'s WorkspaceAdapter \<Rightarrow> cursorBridgeRequest \<Rightarrow> 's \<Rightarrow> RawMessage result \<times> 's" where
  "dispatch A req s =
     (let m = cqMethod req; params = cqParams req in
      if m = ''name'' then (Inr (Some (enc_string (waName A))), s)
      else if m = ''capabilities'' then (Inr (Some (AdapterCapabilities_json (waCapabilities A))), s)
      else if m = ''getContext'' then with_params m ContextRequest_unjson params (\<lambda>x s. encode_result WorkspaceContext_json (waGetContext A x s)) s
      else if m = ''submitTask'' then with_params m SubmitTaskInput_unjson params (\<lambda>x s. encode_result TaskHandle_json (waSubmitTask A x s)) s
      else if m = ''getPatch'' then with_params m (string_param m ''taskId'') params
        (\<lambda>x s. encode_result (case_option JNull PatchReadyPayload_json) (waGetPatch A x s)) s
      else if m = ''applyPatch'' then with_params m ApplyPatchInput_unjson params (\<lambda>x s. encode_result ApplyPatchResult_json (waApplyPatch A x s)) s
      else if m = ''runProfile'' then with_params m RunProfileInput_unjson params (\<lambda>x s. encode_result RunHandle_json (waRunProfile A x s)) s
      else if m = ''getRunResult'' then with_params m (string_param m ''runId'') params
        (\<lambda>x s. encode_result (case_option JNull RunResult_json) (waGetRunResult A x s)) s
      else if m = ''openLocation'' then with_params m OpenLocationInput_unjson params
        (\<lambda>x s. case waOpenLocation A x s of (Some e, s) \<Rightarrow> (Inl e, s) | (None, s) \<Rightarrow> (Inr (Some JNull), s)) s
      else (Inl (ErrNew (''unsupported bridge method: '' @ m)), s))"

definition errorMessage :: "goerror \<Rightarrow> string" where
  "errorMessage e = (if Error e \<noteq> [] then Error e else ''unknown bridge error'')"

definition response_json :: "string \<Rightarrow> RawMessage result \<Rightarrow> json" where
  "response_json rid res = JObj ((''id'', enc_string rid) #
     (case res of
        Inl e \<Rightarrow> [(''error'', JObj [(''message'', enc_string (errorMessage e))])]
      | Inr None \<Rightarrow> []
      | Inr (Some j) \<Rightarrow> [(''result'', j)]))"

definition handleBridgeLine :: "'s WorkspaceAdapter \<Rightarrow> json \<Rightarrow> 's \<Rightarrow> json \<times> 's" where
  "handleBridgeLine A j s =
     (case parseRequest j of
        Inl e \<Rightarrow> (response_json ''unknown'' (Inl e), s)
      | Inr req \<Rightarrow> (case dispatch A req s of (res, s) \<Rightarrow> (response_json (cqID req) res, s)))"

text \<open>A call that nothing else interferes with, and that gives up when it has got no answer.\<close>

definition call_alone :: "(json \<Rightarrow> 's \<Rightarrow> json \<times> 's) \<Rightarrow> (bridge_state \<times> 's) bridge_caller" where
  "call_alone peer method params = (\<lambda>(b, s).
     (let i = length (brCalls b); req = bcRequest (fst (call_begin method params (brAdapter b))) in
      case peer (cursorBridgeRequest_json req) s of (j, s) \<Rightarrow>
        (case bridge_exec [BCall method params, BWrite i None, BRead (JsonLine j) None, BSend, BSelect i OnResponse,
            BSelect i (OnContext DeadlineExceeded)] b of
           None \<Rightarrow> (Inl DeadlineExceeded, (b, s))
         | Some t \<Rightarrow> (case bcPhase (brCalls t ! i) of Returned r \<Rightarrow> (r, (t, s)) | _ \<Rightarrow> (Inl DeadlineExceeded, (t, s))))))"

definition idle :: "bridge_state \<Rightarrow> bool" where
  "idle b \<longleftrightarrow> bridge_inv UNIV b \<and> brReader b = Reading"

text \<open>What crosses the wire: results as they are, of an error its message.\<close>

definition wire_error :: "goerror \<Rightarrow> goerror" where
  "wire_error e = ErrNew (toValidUTF8 (errorMessage e))"

definition over_wire :: "'a result \<Rightarrow> 'a result" where
  "over_wire r = (case r of Inl e \<Rightarrow> Inl (wire_error e) | Inr x \<Rightarrow> Inr x)"

definition bridged_as :: "'a result \<times> bridge_state \<times> 's \<Rightarrow> 'a result \<times> 's \<Rightarrow> bool" where
  "bridged_as r' r \<longleftrightarrow> fst r' = over_wire (fst r) \<and> snd (snd r') = snd r \<and> idle (fst (snd r'))"

text \<open>An adapter whose answers to encodable questions are encodable.\<close>

definition wire_ok :: "'s WorkspaceAdapter \<Rightarrow> bool" where
  "wire_ok A \<longleftrightarrow>
     (\<forall>x s r. ContextRequest_ok x \<and> fst (waGetContext A x s) = Inr r \<longrightarrow> WorkspaceContext_ok r) \<and>
     (\<forall>x s r. SubmitTaskInput_ok x \<and> fst (waSubmitTask A x s) = Inr r \<longrightarrow> TaskHandle_ok r) \<and>
     (\<forall>x s r. valid_utf8 x \<and> fst (waGetPatch A x s) = Inr (Some r) \<longrightarrow> PatchReadyPayload_ok r) \<and>
     (\<forall>x s r. ApplyPatchInput_ok x \<and> fst (waApplyPatch A x s) = Inr r \<longrightarrow> ApplyPatchResult_ok r) \<and>
     (\<forall>x s r. RunProfileInput_ok x \<and> fst (waRunProfile A x s) = Inr r \<longrightarrow> RunHandle_ok r) \<and>
     (\<forall>x s r. valid_utf8 x \<and> fst (waGetRunResult A x s) = Inr (Some r) \<longrightarrow> RunResult_ok r)"

section \<open>Every turn keeps the invariant\<close>

lemma bridge_inv_start: "bridge_inv R (bridge_start d tcp)"
  by (simp add: bridge_inv_defs bridge_start_def newCursorBridgeAdapter_def)

lemma bridge_inv_mono: "bridge_inv R s \<Longrightarrow> R \<subseteq> R' \<Longrightarrow> bridge_inv R' s"
proof -
  assume inv: "bridge_inv R s" and sub: "R \<subseteq> R'"
  have "sending_ok R' s" using inv sub unfolding bridge_inv_def sending_ok_def by (auto split: reader.splits)
  moreover have "calls_ok R' s" using inv sub unfolding bridge_inv_def calls_ok_def by (meson subsetD)
  ultimately show "bridge_inv R' s" using inv unfolding bridge_inv_def by simp
qed

lemma drop_inv: "bridge_inv R s \<Longrightarrow> bridge_inv R (s\<lparr>brAdapter := dropPending rid (brAdapter s)\<rparr>)"
  by (auto simp: bridge_inv_defs dropPending_def unused_def sending_def wf_map_delete go_map split: reader.splits)

lemma phase_inv:
  assumes "bridge_inv R s" "i < length (brCalls s)"
    and "\<forall>x. ph = Returned (Inr x) \<longrightarrow> (\<exists>r \<in> R. cbrID r = request_id s i \<and> cbrError r = None \<and> cbrResult r = x)"
  shows "bridge_inv R (s\<lparr>brCalls := (brCalls s)[i := (brCalls s ! i)\<lparr>bcPhase := ph\<rparr>]\<rparr>)"
proof -
  have id: "cqID (bcRequest ((brCalls s)[i := (brCalls s ! i)\<lparr>bcPhase := ph\<rparr>] ! k)) = request_id s k" for k
    using assms(2) by (cases "k = i"; cases "k < length (brCalls s)") simp_all
  show ?thesis
    using assms unfolding bridge_inv_defs
    by (auto simp: id unused_def sending_def nth_list_update split: reader.splits)
qed

text \<open>A channel that nobody waits for any more may change, as long as it holds an answer to its call.\<close>

lemma chan_inv:
  assumes "bridge_inv R s" "ch < length (cbChans (brAdapter s))"
    and "\<forall>rid. map_of (cbPending (brAdapter s)) rid \<noteq> Some ch" "ch \<notin> sending s" "ch \<notin> set (brClosing s)"
    and "\<forall>r \<in> set (rcBuf v). r \<in> R \<and> cbrID r = request_id s ch" "length (rcBuf v) \<le> 1"
  shows "bridge_inv R (s\<lparr>brAdapter := (brAdapter s)\<lparr>cbChans := (cbChans (brAdapter s))[ch := v]\<rparr>\<rparr>)"
proof -
  have other: "unused (s\<lparr>brAdapter := (brAdapter s)\<lparr>cbChans := (cbChans (brAdapter s))[ch := v]\<rparr>\<rparr>) k = unused s k" if "k \<noteq> ch" for k
    using that by (simp add: unused_def)
  have snd: "sending (s\<lparr>brAdapter := a\<rparr>) = sending s" for a by (simp add: sending_def)
  have "table_ok (s\<lparr>brAdapter := (brAdapter s)\<lparr>cbChans := (cbChans (brAdapter s))[ch := v]\<rparr>\<rparr>)"
    using assms(1,3) other snd unfolding bridge_inv_def table_ok_def by auto metis+
  moreover have "sending_ok R (s\<lparr>brAdapter := (brAdapter s)\<lparr>cbChans := (cbChans (brAdapter s))[ch := v]\<rparr>\<rparr>)"
    using assms(1,4) other unfolding bridge_inv_def sending_ok_def by (auto simp: sending_def split: reader.splits)
  moreover have "closing_ok (s\<lparr>brAdapter := (brAdapter s)\<lparr>cbChans := (cbChans (brAdapter s))[ch := v]\<rparr>\<rparr>)"
    using assms(1,5) other unfolding bridge_inv_def closing_ok_def by (auto; metis)
  moreover have "calls_ok R (s\<lparr>brAdapter := (brAdapter s)\<lparr>cbChans := (cbChans (brAdapter s))[ch := v]\<rparr>\<rparr>)"
    using assms unfolding bridge_inv_def calls_ok_def by (auto simp: nth_list_update)
  ultimately show ?thesis using assms(1) unfolding bridge_inv_def by simp
qed

lemma finish_inv:
  assumes "bridge_inv R s"
  shows "\<exists>a. finish_begin err (brAdapter s) = Some a \<and> bridge_inv R (s\<lparr>brAdapter := a\<rparr>)"
  using assms by (auto simp: finish_begin_def bridge_inv_defs unused_def sending_def split: reader.splits)

lemma reader_inv:
  assumes "bridge_inv R s" "\<forall>ch r e. rd \<noteq> Sending ch r e"
  shows "bridge_inv R (s\<lparr>brReader := rd\<rparr>)"
  using assms by (auto simp: bridge_inv_defs unused_def sending_def split: reader.splits)

lemma read_next_not_sending: "read_next err \<noteq> Sending ch r e"
  by (simp add: read_next_def split: option.split)

lemma call_begin_inv:
  assumes "bridge_inv R s" "call_begin method params (brAdapter s) = (c, a)"
  shows "bridge_inv R (s\<lparr>brAdapter := a, brCalls := brCalls s @ [c]\<rparr>)"
proof -
  let ?n = "length (cbChans (brAdapter s))" let ?t = "s\<lparr>brAdapter := a, brCalls := brCalls s @ [c]\<rparr>"
  have len: "length (brCalls s) = ?n" using assms(1) by (simp add: bridge_inv_defs)
  have a: "cbChans a = cbChans (brAdapter s) @ [fresh_chan]" "bcChan c = ?n" "bcPhase c = Writing" "cbDone a = cbDone (brAdapter s)"
    "cbFinished a = cbFinished (brAdapter s)" "cbPending a = AList.update (cqID (bcRequest c)) ?n (cbPending (brAdapter s))"
    using assms(2) by (auto simp: call_begin_def Let_def)
  have old: "k < ?n \<Longrightarrow> unused ?t k = unused s k" "k < ?n \<Longrightarrow> request_id ?t k = request_id s k" for k
    using len by (simp_all add: unused_def a nth_append)
  have new: "unused ?t ?n" "request_id ?t ?n = cqID (bcRequest c)" using len by (simp_all add: unused_def a nth_append)
  have lt: "unused s k \<Longrightarrow> k < ?n" for k by (simp add: unused_def)
  have snd: "sending ?t = sending s" by (simp add: sending_def)
  have "?n \<notin> sending s" using assms(1) lt by (auto simp: bridge_inv_def sending_ok_def sending_def split: reader.splits)
  moreover have "?n \<notin> set (brClosing s)" using assms(1) lt by (auto simp: bridge_inv_def closing_ok_def)
  ultimately have "table_ok ?t"
    using assms(1) old new lt snd unfolding bridge_inv_def table_ok_def by (auto simp: a go_map split: if_splits) 
  moreover have "sending_ok R ?t" "closing_ok ?t"
    using assms(1) old lt unfolding bridge_inv_def sending_ok_def closing_ok_def by (auto split: reader.splits)
  moreover have "calls_ok R ?t"
    using assms(1) len unfolding bridge_inv_def calls_ok_def by (auto simp: a nth_append less_Suc_eq)
  ultimately show ?thesis using assms(1) by (simp add: bridge_inv_def a)
qed

lemma upd_swap:
  "(s :: bridge_state)\<lparr>brReader := rd, brAdapter := a\<rparr> = s\<lparr>brAdapter := a, brReader := rd\<rparr>"
  "s\<lparr>brClosing := chs, brAdapter := a\<rparr> = s\<lparr>brAdapter := a, brClosing := chs\<rparr>"
  "s\<lparr>brCalls := cs, brAdapter := a\<rparr> = s\<lparr>brAdapter := a, brCalls := cs\<rparr>"
  by simp_all

text \<open>\<open>deliver\<close>: the channel leaves the table, gets the response and is closed.\<close>

lemma take_inv:
  assumes "bridge_inv R s" "brReader s = Reading" "deliver_take r (brAdapter s) = (Some ch, a)" "r \<in> R"
  shows "bridge_inv R (s\<lparr>brAdapter := a, brReader := Sending ch r err\<rparr>)"
proof -
  have p: "map_of (cbPending (brAdapter s)) (cbrID r) = Some ch" "a = (brAdapter s)\<lparr>cbPending := AList.delete (cbrID r) (cbPending (brAdapter s))\<rparr>"
    using assms(3) by (auto simp: deliver_take_def split: option.splits)
  then have ch: "unused s ch" "request_id s ch = cbrID r" "ch \<notin> set (brClosing s)"
    using assms(1) by (auto simp: bridge_inv_def table_ok_def)
  have uniq: "rid = cbrID r" if "map_of (cbPending (brAdapter s)) rid = Some ch" for rid
    using assms(1) that ch(2) by (auto simp: bridge_inv_def table_ok_def)
  show ?thesis
    using assms p(1) ch unfolding p(2) bridge_inv_defs
    by (auto simp: unused_def sending_def go_map dest: uniq split: if_splits)
qed

lemma take_none_inv:
  assumes "bridge_inv R s" "deliver_take r (brAdapter s) = (None, a)"
  shows "a = brAdapter s"
  using assms by (auto simp: deliver_take_def split: option.splits)

lemma send_inv:
  assumes "bridge_inv R s" "brReader s = Sending ch r err"
  shows "\<exists>a. deliver_send ch r (brAdapter s) = Some a \<and> bridge_inv R (s\<lparr>brAdapter := a, brReader := read_next err\<rparr>)"
proof -
  have ch: "unused s ch" "cbrID r = request_id s ch" "r \<in> R" "ch \<notin> set (brClosing s)"
    using assms by (auto simp: bridge_inv_def sending_ok_def)
  have "\<forall>rid. map_of (cbPending (brAdapter s)) rid \<noteq> Some ch"
    using assms by (auto simp: bridge_inv_def table_ok_def sending_def)
  then have "bridge_inv R ((s\<lparr>brReader := read_next err\<rparr>)\<lparr>brAdapter := (brAdapter (s\<lparr>brReader := read_next err\<rparr>))\<lparr>cbChans :=
      (cbChans (brAdapter (s\<lparr>brReader := read_next err\<rparr>)))[ch := \<lparr>rcBuf = [r], rcClosed = True\<rparr>]\<rparr>\<rparr>)"
    using ch reader_inv [OF assms(1), of "read_next err"] read_next_not_sending [of err]
    by (intro chan_inv) (auto simp: unused_def sending_def split: reader.split)
  moreover have "deliver_send ch r (brAdapter s) = Some ((brAdapter s)\<lparr>cbChans := (cbChans (brAdapter s))[ch := \<lparr>rcBuf = [r], rcClosed = True\<rparr>]\<rparr>)"
    using ch(1) by (simp add: deliver_send_def send_response_def close_response_def unused_def)
  ultimately show ?thesis by (simp add: upd_swap)
qed

lemma swap_inv:
  assumes "bridge_inv R s" "finish_swap (brAdapter s) = (chs, a)" "\<not> brSwapped s"
  shows "bridge_inv R (s\<lparr>brAdapter := a, brSwapped := True, brClosing := chs\<rparr>)"
proof -
  have eq: "chs = map snd (cbPending (brAdapter s))" "a = (brAdapter s)\<lparr>cbPending := []\<rparr>" using assms(2) by (auto simp: finish_swap_def)
  have t: "unused s ch \<and> request_id s ch = rid \<and> ch \<notin> sending s" if "(rid, ch) \<in> set (cbPending (brAdapter s))" for rid ch
    using assms(1) that by (auto simp: bridge_inv_def table_ok_def set_map_iff)
  have "distinct chs"
    unfolding eq distinct_map
  proof
    show "distinct (cbPending (brAdapter s))"
      using assms(1) by (auto simp: bridge_inv_def table_ok_def wf_map_def map_keys_def distinct_map)
    show "inj_on snd (set (cbPending (brAdapter s)))"
      by (rule inj_onI) (metis t prod.collapse)
  qed
  moreover have "unused (s\<lparr>brAdapter := a, brSwapped := True, brClosing := chs\<rparr>) ch = unused s ch" for ch by (simp add: unused_def eq)
  ultimately show ?thesis
    using assms(1,3) by (auto simp: bridge_inv_defs sending_def eq split: reader.splits dest: t)
qed

lemma set_without_nth:
  assumes "distinct xs" "k < length xs"
  shows "set (take k xs @ drop (Suc k) xs) = set xs - {xs ! k} \<and> distinct (take k xs @ drop (Suc k) xs)"
proof -
  have xs: "xs = take k xs @ xs ! k # drop (Suc k) xs" using assms(2) by (rule id_take_nth_drop)
  then have "distinct (take k xs @ xs ! k # drop (Suc k) xs)" using assms(1) by simp
  moreover have "set xs = insert (xs ! k) (set (take k xs) \<union> set (drop (Suc k) xs))" by (subst xs) auto
  ultimately show ?thesis by auto
qed

lemma close_inv:
  assumes "bridge_inv R s" "k < length (brClosing s)"
  shows "\<exists>a. close_response (brClosing s ! k) (brAdapter s) = Some a \<and>
    bridge_inv R (s\<lparr>brAdapter := a, brClosing := take k (brClosing s) @ drop (Suc k) (brClosing s)\<rparr>)"
proof -
  let ?ch = "brClosing s ! k" let ?rest = "take k (brClosing s) @ drop (Suc k) (brClosing s)" let ?s = "s\<lparr>brClosing := ?rest\<rparr>"
  have rest: "set ?rest = set (brClosing s) - {?ch}" "distinct ?rest"
    using assms set_without_nth [of "brClosing s" k] by (auto simp: bridge_inv_def closing_ok_def)
  have ch: "?ch \<in> set (brClosing s)" using assms(2) by simp
  then have u: "unused s ?ch" using assms(1) by (auto simp: bridge_inv_def closing_ok_def)
  have inv: "bridge_inv R ?s"
    using assms(1) rest by (auto simp: bridge_inv_defs unused_def sending_def split: reader.splits)
  have "bridge_inv R (?s\<lparr>brAdapter := (brAdapter ?s)\<lparr>cbChans := (cbChans (brAdapter ?s))[?ch := \<lparr>rcBuf = [], rcClosed = True\<rparr>]\<rparr>\<rparr>)"
  proof (rule chan_inv [OF inv])
    show "?ch \<notin> sending ?s" using assms(1) ch by (auto simp: bridge_inv_def sending_ok_def sending_def split: reader.splits)
    show "\<forall>rid. map_of (cbPending (brAdapter ?s)) rid \<noteq> Some ?ch" using assms(1) ch by (auto simp: bridge_inv_def table_ok_def)
  qed (use u rest in \<open>auto simp: unused_def\<close>)
  moreover have "close_response ?ch (brAdapter s) = Some ((brAdapter s)\<lparr>cbChans := (cbChans (brAdapter s))[?ch := \<lparr>rcBuf = [], rcClosed = True\<rparr>]\<rparr>)"
    using u by (simp add: close_response_def unused_def)
  ultimately show ?thesis by (simp add: upd_swap)
qed

lemma write_inv:
  assumes "bridge_inv R s"
  shows "bridge_inv R (call_turn Writing i (call_write err) s)"
proof (cases "i < length (brCalls s) \<and> bcPhase (brCalls s ! i) = Writing")
  case True
  then show ?thesis
    using phase_inv [OF assms, of i Selecting] phase_inv [OF drop_inv [OF assms, of "request_id s i"], of i "Returned (Inl e)" for e]
    by (auto simp: call_turn_def call_write_def split: option.splits)
qed (use assms in \<open>auto simp: call_turn_def\<close>)

lemma select_inv:
  assumes "bridge_inv R s"
  shows "bridge_inv R (call_turn Selecting i (call_select b) s)"
proof (cases "i < length (brCalls s) \<and> bcPhase (brCalls s ! i) = Selecting")
  case True
  have inl: "bridge_inv R (s\<lparr>brCalls := (brCalls s)[i := (brCalls s ! i)\<lparr>bcPhase := Returned (Inl e)\<rparr>]\<rparr>)"
    "bridge_inv R (s\<lparr>brAdapter := dropPending (request_id s i) (brAdapter s), brCalls := (brCalls s)[i := (brCalls s ! i)\<lparr>bcPhase := Returned (Inl e)\<rparr>]\<rparr>)" for e
    using phase_inv [OF assms, of i "Returned (Inl e)"] phase_inv [OF drop_inv [OF assms, of "request_id s i"], of i "Returned (Inl e)"] True by auto
  have ch: "bcChan (brCalls s ! i) = i" "i < length (cbChans (brAdapter s))" using assms True by (auto simp: bridge_inv_def calls_ok_def)
  show ?thesis
  proof (cases b)
    case OnResponse
    show ?thesis
    proof (cases "rcBuf (cbChans (brAdapter s) ! i)")
      case Nil
      with True OnResponse ch inl(1) assms show ?thesis by (auto simp: call_turn_def call_select_def)
    next
      case (Cons r rs)
      have r: "r \<in> R" "cbrID r = request_id s i" "rs = []"
        using assms True Cons by (auto simp: bridge_inv_def calls_ok_def)
      let ?s = "s\<lparr>brAdapter := (brAdapter s)\<lparr>cbChans := (cbChans (brAdapter s))[i := (cbChans (brAdapter s) ! i)\<lparr>rcBuf := rs\<rparr>]\<rparr>\<rparr>"
      have not_unused: "\<not> unused s i" using Cons by (auto simp: unused_def)
      have "bridge_inv R ?s"
      proof (rule chan_inv [OF assms ch(2)])
        show "\<forall>rid. map_of (cbPending (brAdapter s)) rid \<noteq> Some i" using assms not_unused by (auto simp: bridge_inv_def table_ok_def)
        show "i \<notin> sending s" using assms not_unused by (auto simp: bridge_inv_def sending_ok_def sending_def split: reader.splits)
        show "i \<notin> set (brClosing s)" using assms not_unused by (auto simp: bridge_inv_def closing_ok_def)
      qed (use r in auto)
      then have "bridge_inv R (?s\<lparr>brCalls := (brCalls ?s)[i := (brCalls ?s ! i)\<lparr>bcPhase := Returned (response_result r)\<rparr>]\<rparr>)"
        using True r by (intro phase_inv) (auto simp: response_result_def split: option.splits)
      with True OnResponse Cons ch show ?thesis by (simp add: call_turn_def call_select_def)
    qed
  next
    case (OnContext e)
    with True inl show ?thesis by (simp add: call_turn_def call_select_def)
  next
    case OnDone
    with True inl assms show ?thesis by (simp add: call_turn_def call_select_def)
  qed
next
  case False
  with assms show ?thesis by (auto simp: call_turn_def)
qed

lemma upd_same: "(s :: bridge_state)\<lparr>brAdapter := brAdapter s\<rparr> = s"
  by simp

lemma end_inv:
  assumes "bridge_inv R s"
  shows "\<exists>a. readStdout_end err (brAdapter s) = Some a \<and> bridge_inv R (s\<lparr>brAdapter := a\<rparr>)"
    "\<exists>a. waitForExit e (brAdapter s) = Some a \<and> bridge_inv R (s\<lparr>brAdapter := a\<rparr>)"
  using assms finish_inv [OF assms] by (auto simp: readStdout_end_def waitForExit_def split: option.split)

lemma read_inv:
  assumes "bridge_inv R s" "brReader s = Reading"
  shows "\<exists>rd a. readStdout_read line err (brAdapter s) = Some (rd, a) \<and>
    bridge_inv (R \<union> read_by (BRead line err)) (s\<lparr>brReader := rd, brAdapter := a\<rparr>)"
proof (cases "line = BlankLine")
  case True
  with assms(1) show ?thesis
    using reader_inv [OF assms(1), of "read_next err"] read_next_not_sending
    by (auto simp: readStdout_read_def decode_response_def)
next
  case False
  show ?thesis
  proof (cases "decode_response line")
    case (Inl e)
    obtain a where a: "finish_begin (Some (ErrWrap ''decode cursor bridge stdout: '' e [])) (brAdapter s) = Some a" "bridge_inv R (s\<lparr>brAdapter := a\<rparr>)"
      using finish_inv [OF assms(1)] by blast
    from reader_inv [OF a(2), of Stopped] False Inl a(1) show ?thesis
      by (simp add: readStdout_read_def upd_swap)
  next
    case (Inr r)
    have inv: "bridge_inv (insert r R) s" by (rule bridge_inv_mono [OF assms(1)]) blast
    obtain o1 a where t: "deliver_take r (brAdapter s) = (o1, a)" by fastforce
    show ?thesis
    proof (cases o1)
      case None
      with take_none_inv [OF inv] t have "a = brAdapter s" by simp
      with reader_inv [OF inv, of "read_next err"] read_next_not_sending False Inr t None show ?thesis
        by (simp add: readStdout_read_def)
    next
      case (Some ch)
      with take_inv [OF inv assms(2), of r ch a err] t False Inr show ?thesis
        by (simp add: readStdout_read_def upd_swap)
    qed
  qed
qed

lemma turn_inv:
  assumes "bridge_inv R s"
  shows "\<exists>t. bridge_turn ev s = Some t \<and> bridge_inv (R \<union> read_by ev) t"
proof (cases ev)
  case (BCall m p)
  then show ?thesis using call_begin_inv [OF assms] by (auto split: prod.split)
next
  case (BRead line err)
  with read_inv [OF assms, of line err] bridge_inv_mono [OF assms] show ?thesis
    by (auto split: reader.split)
next
  case BSend
  with send_inv [OF assms] assms show ?thesis by (auto split: reader.split)
next
  case BReadEnd
  show ?thesis
  proof (cases "brReader s")
    case (Ending err)
    obtain a where a: "readStdout_end err (brAdapter s) = Some a" "bridge_inv R (s\<lparr>brAdapter := a\<rparr>)"
      using end_inv(1) [OF assms] by blast
    with BReadEnd Ending reader_inv [OF a(2), of Stopped] show ?thesis by (simp add: upd_swap)
  qed (use BReadEnd assms in simp_all)
next
  case (BExit err)
  with end_inv(2) [OF assms, of err] assms show ?thesis by auto
next
  case BFinishSwap
  with swap_inv [OF assms] assms show ?thesis by (auto split: prod.split)
next
  case (BFinishClose k)
  with close_inv [OF assms, of k] assms show ?thesis by auto
next
  case (BStderr line)
  have "bridge_inv R (s\<lparr>brAdapter := appendStderr line (brAdapter s)\<rparr>)"
    using assms by (auto simp: bridge_inv_defs appendStderr_def unused_def sending_def Let_def split: reader.splits)
  with BStderr show ?thesis by simp
qed (use write_inv [OF assms] select_inv [OF assms] in simp_all)

lemma exec_inv:
  "bridge_inv R s \<Longrightarrow> \<exists>t. bridge_exec evs s = Some t \<and> bridge_inv (R \<union> \<Union> (set (map read_by evs))) t"
proof (induction evs arbitrary: s R)
  case (Cons ev evs)
  obtain t where t: "bridge_turn ev s = Some t" "bridge_inv (R \<union> read_by ev) t" using turn_inv [OF Cons.prems] by blast
  from Cons.IH [OF t(2)] t(1) show ?case by (auto simp: Un_assoc)
qed simp

text \<open>As a state machine: every reachable state satisfies the invariant.\<close>

definition bridge_init :: "bridge_state \<Rightarrow> bool" where
  "bridge_init s \<longleftrightarrow> (\<exists>d tcp. s = bridge_start d tcp)"

interpretation bridge_calls: inductive_invariant bridge_init bridge_moves "bridge_inv UNIV"
proof unfold_locales
  show "bridge_inv UNIV s" if "bridge_init s" for s
    using that bridge_inv_start by (auto simp: bridge_init_def)
  show "bridge_inv UNIV t" if inv: "bridge_inv UNIV s" and m: "bridge_moves s t" for s t
  proof -
    obtain ev where "bridge_turn ev s = Some t" using m by (auto elim: bridge_moves.cases)
    with turn_inv [OF inv, of ev] show ?thesis by simp
  qed
qed

section \<open>A call on its own\<close>

lemma request_parsed:
  assumes "valid_utf8 rid" "rid \<noteq> []" "valid_utf8 m" "m \<noteq> []"
  shows "parseRequest (cursorBridgeRequest_json \<lparr>cqID = rid, cqMethod = m, cqParams = p\<rparr>) = Inr \<lparr>cqID = rid, cqMethod = m, cqParams = p\<rparr>"
  using assms by (simp add: parseRequest_def js_field_def nonempty_string_def cursorBridgeRequest_json_def enc_string_def toValidUTF8_id split: option.split)

lemma response_decoded:
  assumes "valid_utf8 rid"
  shows "\<exists>r. cursorBridgeResponse_unjson (response_json rid res) = Inr r \<and> cbrID r = rid \<and> response_result r = over_wire res"
  using assms
  by (auto simp: response_json_def cursorBridgeResponse_unjson_def cursorBridgeResponse_put_def cursorBridgeError_put_def json_codec
      over_wire_def wire_error_def response_result_def enc_string_def decode_string_def toValidUTF8_id map_result_def bind_result_def
      split: sum.split option.split)

lemma Itoa_chars: "c \<in> set (Itoa i) \<Longrightarrow> byte c < 0x80"
proof -
  have d: "d < 10 \<Longrightarrow> byte (digit_char d) < 0x80" for d by (simp add: byte_def digit_char_def)
  have "c \<in> set (nat_digits n) \<Longrightarrow> byte c < 0x80" for n using nat_digits_set d by blast
  then show "c \<in> set (Itoa i) \<Longrightarrow> byte c < 0x80" by (auto simp: Itoa_def byte_def split: if_splits)
qed

lemma request_id_valid: "valid_utf8 (''bridge_'' @ Itoa n)"
  by (rule ascii_valid) (auto simp: list_all_iff byte_def [symmetric] Itoa_chars intro: Itoa_chars; simp add: byte_def)

text \<open>The exchange, for an answer that carries the id of the call.\<close>

lemma exchange:
  assumes "idle b" "call_begin method params (brAdapter b) = (c, a)"
    and "decode_response line = Inr r" "cbrID r = cqID (bcRequest c)"
  shows "\<exists>t. bridge_exec [BCall method params, BWrite (length (brCalls b)) None, BRead line None, BSend, BSelect (length (brCalls b)) OnResponse,
      BSelect (length (brCalls b)) (OnContext DeadlineExceeded)] b = Some t \<and>
    bcPhase (brCalls t ! length (brCalls b)) = Returned (response_result r) \<and> idle t"
proof -
  let ?i = "length (brCalls b)"
  let ?es = "[BCall method params, BWrite ?i None, BRead line None, BSend, BSelect ?i OnResponse, BSelect ?i (OnContext DeadlineExceeded)]"
  have inv: "bridge_inv UNIV b" and rd: "brReader b = Reading" using assms(1) by (auto simp: idle_def)
  have len: "length (cbChans (brAdapter b)) = ?i" using inv by (simp add: bridge_inv_def calls_ok_def)
  have a: "cbChans a = cbChans (brAdapter b) @ [fresh_chan]" "bcChan c = ?i" "bcPhase c = Writing"
    "map_of (cbPending a) (cqID (bcRequest c)) = Some ?i"
    using assms(2) len by (auto simp: call_begin_def Let_def go_map)
  have line: "line \<noteq> BlankLine" using assms(3) by (auto simp: decode_response_def)
  let ?a1 = "a\<lparr>cbPending := AList.delete (cqID (bcRequest c)) (cbPending a)\<rparr>"
  let ?a2 = "?a1\<lparr>cbChans := cbChans (brAdapter b) @ [\<lparr>rcBuf = [r], rcClosed = True\<rparr>]\<rparr>"
  have call: "bridge_turn (BCall method params) b = Some (b\<lparr>brAdapter := a, brCalls := brCalls b @ [c]\<rparr>)" using assms(2) by simp
  have wr: "bridge_turn (BWrite ?i None) (b\<lparr>brAdapter := a, brCalls := brCalls b @ [c]\<rparr>) =
      Some (b\<lparr>brAdapter := a, brCalls := brCalls b @ [c\<lparr>bcPhase := Selecting\<rparr>]\<rparr>)"
    using a(3) by (simp add: call_turn_def call_write_def)
  have rd1: "bridge_turn (BRead line None) (b\<lparr>brAdapter := a, brCalls := brCalls b @ [c\<lparr>bcPhase := Selecting\<rparr>]\<rparr>) =
      Some (b\<lparr>brAdapter := ?a1, brCalls := brCalls b @ [c\<lparr>bcPhase := Selecting\<rparr>], brReader := Sending ?i r None\<rparr>)"
    using rd line assms(3,4) a(4) by (simp add: readStdout_read_def deliver_take_def)
  have "deliver_send ?i r ?a1 = Some ?a2"
    using len by (simp add: deliver_send_def send_response_def close_response_def a(1) nth_append list_update_append)
  then have send: "bridge_turn BSend (b\<lparr>brAdapter := ?a1, brCalls := brCalls b @ [c\<lparr>bcPhase := Selecting\<rparr>], brReader := Sending ?i r None\<rparr>) =
      Some (b\<lparr>brAdapter := ?a2, brCalls := brCalls b @ [c\<lparr>bcPhase := Selecting\<rparr>], brReader := Reading\<rparr>)"
    by (simp add: read_next_def)
  let ?t = "b\<lparr>brAdapter := ?a2\<lparr>cbChans := cbChans (brAdapter b) @ [\<lparr>rcBuf = [], rcClosed = True\<rparr>]\<rparr>,
    brCalls := brCalls b @ [c\<lparr>bcPhase := Returned (response_result r)\<rparr>], brReader := Reading\<rparr>"
  have sel: "bridge_turn (BSelect ?i OnResponse) (b\<lparr>brAdapter := ?a2, brCalls := brCalls b @ [c\<lparr>bcPhase := Selecting\<rparr>], brReader := Reading\<rparr>) = Some ?t"
    using len by (simp add: call_turn_def call_select_def a(2) nth_append list_update_append)
  have last: "bridge_turn (BSelect ?i (OnContext DeadlineExceeded)) ?t = Some ?t" by (simp add: call_turn_def)
  have run: "bridge_exec ?es b = Some ?t" by (simp only: bridge_exec.simps call wr rd1 send sel last Option.bind.bind_lunit)
  with exec_inv [OF inv, of ?es] have "idle ?t" by (auto simp: idle_def)
  moreover have "bcPhase (brCalls ?t ! ?i) = Returned (response_result r)" by simp
  ultimately show ?thesis using run by blast
qed

lemma call_served:
  assumes "idle b" "valid_utf8 m" "m \<noteq> []"
    and "dispatch A \<lparr>cqID = ''bridge_'' @ Itoa (wrap64 (cbRequestSeq (brAdapter b) + 1)), cqMethod = m, cqParams = p\<rparr> s = (res, s')"
  shows "\<exists>t. call_alone (handleBridgeLine A) m p (b, s) = (over_wire res, (t, s')) \<and> idle t"
proof -
  let ?rid = "''bridge_'' @ Itoa (wrap64 (cbRequestSeq (brAdapter b) + 1))"
  obtain c a where c: "call_begin m p (brAdapter b) = (c, a)" by fastforce
  then have req: "bcRequest c = \<lparr>cqID = ?rid, cqMethod = m, cqParams = p\<rparr>" by (auto simp: call_begin_def Let_def)
  have peer: "handleBridgeLine A (cursorBridgeRequest_json (bcRequest c)) s = (response_json ?rid res, s')"
    using request_parsed [OF request_id_valid _ assms(2,3)] assms(4) by (simp add: handleBridgeLine_def req)
  obtain r where r: "decode_response (JsonLine (response_json ?rid res)) = Inr r" "cbrID r = ?rid" "response_result r = over_wire res"
    using response_decoded [OF request_id_valid] by (auto simp: decode_response_def)
  from exchange [OF assms(1) c r(1)] r(2,3) req obtain t where t:
    "bridge_exec [BCall m p, BWrite (length (brCalls b)) None, BRead (JsonLine (response_json ?rid res)) None, BSend, BSelect (length (brCalls b)) OnResponse,
      BSelect (length (brCalls b)) (OnContext DeadlineExceeded)] b = Some t"
    "bcPhase (brCalls t ! length (brCalls b)) = Returned (over_wire res)" "idle t" by auto
  then show ?thesis using peer c by (simp add: call_alone_def Let_def del: bridge_exec.simps)
qed

end
