(* ===== verification/Bridge_Laws.thy ===== *)
theory Bridge_Laws
  imports Bridge_Flow
begin

text \<open>
  What the bridge adapter promises: answers reach the call that asked and nothing panics, the end
  of the connection releases every call, the log of the process stays short, and a bridge that
  serves an adapter behaves as that adapter.
\<close>

section \<open>Concrete runs\<close>

definition ex_answered :: "bridge_event list" where
  "ex_answered = [BCall ''name'' None, BWrite 0 None,
     BRead (JsonLine (JObj [(''id'', JStr ''bridge_1''), (''result'', JStr ''cursor'')])) None, BSend, BSelect 0 OnResponse]"


section \<open>Helper lemmas\<close>




section \<open>The methods of a served adapter\<close>

lemma called_as:
  assumes "idle b" "valid_utf8 m" "m \<noteq> []"
    and "\<And>rid. dispatch A \<lparr>cqID = rid, cqMethod = m, cqParams = p\<rparr> s = encode_result enc r"
    and "\<And>x. fst r = Inr x \<Longrightarrow> decode_out dec out (Inr (Some (enc x))) = Inr x"
  shows "bridged_as (call_decoded (call_alone (handleBridgeLine A)) m p dec out (b, s)) r"
proof -
  obtain res s' where r: "r = (res, s')" by fastforce
  obtain t where t: "call_alone (handleBridgeLine A) m p (b, s) = (over_wire (map_result (\<lambda>x. Some (enc x)) res), (t, s'))" "idle t"
    using call_served [OF assms(1-3), of A p s "map_result (\<lambda>x. Some (enc x)) res" s'] assms(4) by (auto simp: encode_result_def r)
  show ?thesis
    using t assms(5) by (cases res) (auto simp: r call_decoded_def bridged_as_def over_wire_def decode_out_def map_result_def bind_result_def)
qed

lemma decode_object:
  assumes "dec (JObj kvs) = Inr x"
  shows "decode_out dec out (Inr (Some (JObj kvs))) = Inr x"
  using assms by (simp add: decode_out_def)

lemma method_names [simp]:
  "valid_utf8 ''name''" "valid_utf8 ''capabilities''" "valid_utf8 ''getContext''" "valid_utf8 ''submitTask''" "valid_utf8 ''getPatch''"
  "valid_utf8 ''applyPatch''" "valid_utf8 ''runProfile''" "valid_utf8 ''getRunResult''" "valid_utf8 ''openLocation''"
  by (auto simp: byte_def intro!: ascii_valid)

lemma with_params_ok: "dec (JObj kvs) = Inr x \<Longrightarrow> with_params m dec (Some (JObj kvs)) f s = f x s"
  by (simp add: with_params_def)

lemma string_param_ok: "valid_utf8 v \<Longrightarrow> v \<noteq> [] \<Longrightarrow> string_param m k (JObj [(k, enc_string v)]) = Inr v"
  by (simp add: string_param_def readRequiredString_def js_field_def nonempty_string_def enc_string_def toValidUTF8_id)

lemma served_GetContext:
  assumes "wire_ok A" "idle b" "ContextRequest_ok q"
  shows "bridged_as (bridge_GetContext (call_alone (handleBridgeLine A)) q (b, s)) (waGetContext A q s)"
  unfolding bridge_GetContext_def
proof (rule called_as [OF assms(2), where enc = WorkspaceContext_json])
  show "decode_out WorkspaceContext_unjson out (Inr (Some (WorkspaceContext_json x))) = Inr x" if "fst (waGetContext A q s) = Inr x" for out x
    using assms(1,3) that WorkspaceContext_dec_enc [of x] by (auto simp: wire_ok_def WorkspaceContext_json_def intro!: decode_object)
  show "dispatch A \<lparr>cqID = rid, cqMethod = ''getContext'', cqParams = Some (ContextRequest_json q)\<rparr> s = encode_result WorkspaceContext_json (waGetContext A q s)" for rid
    using ContextRequest_dec_enc [OF assms(3)] by (simp add: dispatch_def ContextRequest_json_def with_params_ok)
qed simp_all

lemma served_SubmitTask:
  assumes "wire_ok A" "idle b" "SubmitTaskInput_ok q"
  shows "bridged_as (bridge_SubmitTask (call_alone (handleBridgeLine A)) q (b, s)) (waSubmitTask A q s)"
  unfolding bridge_SubmitTask_def
proof (rule called_as [OF assms(2), where enc = TaskHandle_json])
  show "decode_out TaskHandle_unjson out (Inr (Some (TaskHandle_json x))) = Inr x" if "fst (waSubmitTask A q s) = Inr x" for out x
    using assms(1,3) that TaskHandle_dec_enc [of x] by (auto simp: wire_ok_def TaskHandle_json_def intro!: decode_object)
  show "dispatch A \<lparr>cqID = rid, cqMethod = ''submitTask'', cqParams = Some (SubmitTaskInput_json q)\<rparr> s = encode_result TaskHandle_json (waSubmitTask A q s)" for rid
    using SubmitTaskInput_dec_enc [OF assms(3)] by (simp add: dispatch_def SubmitTaskInput_json_def with_params_ok)
qed simp_all

lemma served_ApplyPatch:
  assumes "wire_ok A" "idle b" "ApplyPatchInput_ok q"
  shows "bridged_as (bridge_ApplyPatch (call_alone (handleBridgeLine A)) q (b, s)) (waApplyPatch A q s)"
  unfolding bridge_ApplyPatch_def
proof (rule called_as [OF assms(2), where enc = ApplyPatchResult_json])
  show "decode_out ApplyPatchResult_unjson out (Inr (Some (ApplyPatchResult_json x))) = Inr x" if "fst (waApplyPatch A q s) = Inr x" for out x
    using assms(1,3) that ApplyPatchResult_dec_enc [of x] by (auto simp: wire_ok_def ApplyPatchResult_json_def intro!: decode_object)
  show "dispatch A \<lparr>cqID = rid, cqMethod = ''applyPatch'', cqParams = Some (ApplyPatchInput_json q)\<rparr> s = encode_result ApplyPatchResult_json (waApplyPatch A q s)" for rid
    using ApplyPatchInput_dec_enc [OF assms(3)] by (simp add: dispatch_def ApplyPatchInput_json_def with_params_ok)
qed simp_all

lemma served_RunProfile:
  assumes "wire_ok A" "idle b" "RunProfileInput_ok q"
  shows "bridged_as (bridge_RunProfile (call_alone (handleBridgeLine A)) q (b, s)) (waRunProfile A q s)"
  unfolding bridge_RunProfile_def
proof (rule called_as [OF assms(2), where enc = RunHandle_json])
  show "decode_out RunHandle_unjson out (Inr (Some (RunHandle_json x))) = Inr x" if "fst (waRunProfile A q s) = Inr x" for out x
    using assms(1,3) that RunHandle_dec_enc [of x] by (auto simp: wire_ok_def RunHandle_json_def intro!: decode_object)
  show "dispatch A \<lparr>cqID = rid, cqMethod = ''runProfile'', cqParams = Some (RunProfileInput_json q)\<rparr> s = encode_result RunHandle_json (waRunProfile A q s)" for rid
    using RunProfileInput_dec_enc [OF assms(3)] by (simp add: dispatch_def RunProfileInput_json_def with_params_ok)
qed simp_all

lemma served_GetPatch:
  assumes "wire_ok A" "idle b" "valid_utf8 v" "v \<noteq> []"
  shows "bridged_as (bridge_GetPatch (call_alone (handleBridgeLine A)) v (b, s)) (waGetPatch A v s)"
  unfolding bridge_GetPatch_def
proof (rule called_as [OF assms(2), where enc = "case_option JNull PatchReadyPayload_json"])
  show "decode_out (\<lambda>j. map_result Some (PatchReadyPayload_unjson j)) None (Inr (Some (case_option JNull PatchReadyPayload_json x))) = Inr x"
    if "fst (waGetPatch A v s) = Inr x" for x
  proof (cases x)
    case (Some y)
    with assms(1,3) that have "PatchReadyPayload_ok y" by (auto simp: wire_ok_def)
    from PatchReadyPayload_dec_enc [OF this] Some show ?thesis by (simp add: PatchReadyPayload_json_def decode_out_def map_result_def bind_result_def)
  qed (simp add: decode_out_def)
  show "dispatch A \<lparr>cqID = rid, cqMethod = ''getPatch'', cqParams = Some (JObj [(''taskId'', enc_string v)])\<rparr> s =
      encode_result (case_option JNull PatchReadyPayload_json) (waGetPatch A v s)" for rid
    by (simp add: dispatch_def with_params_ok string_param_ok assms(3,4))
qed simp_all

lemma served_GetRunResult:
  assumes "wire_ok A" "idle b" "valid_utf8 v" "v \<noteq> []"
  shows "bridged_as (bridge_GetRunResult (call_alone (handleBridgeLine A)) v (b, s)) (waGetRunResult A v s)"
  unfolding bridge_GetRunResult_def
proof (rule called_as [OF assms(2), where enc = "case_option JNull RunResult_json"])
  show "decode_out (\<lambda>j. map_result Some (RunResult_unjson j)) None (Inr (Some (case_option JNull RunResult_json x))) = Inr x"
    if "fst (waGetRunResult A v s) = Inr x" for x
  proof (cases x)
    case (Some y)
    with assms(1,3) that have "RunResult_ok y" by (auto simp: wire_ok_def)
    from RunResult_dec_enc [OF this] Some show ?thesis by (simp add: RunResult_json_def decode_out_def map_result_def bind_result_def)
  qed (simp add: decode_out_def)
  show "dispatch A \<lparr>cqID = rid, cqMethod = ''getRunResult'', cqParams = Some (JObj [(''runId'', enc_string v)])\<rparr> s =
      encode_result (case_option JNull RunResult_json) (waGetRunResult A v s)" for rid
    by (simp add: dispatch_def with_params_ok string_param_ok assms(3,4))
qed simp_all

lemma served_OpenLocation:
  assumes "idle b" "OpenLocationInput_ok q"
  shows "fst (bridge_OpenLocation (call_alone (handleBridgeLine A)) q (b, s)) = map_option wire_error (fst (waOpenLocation A q s)) \<and>
    snd (snd (bridge_OpenLocation (call_alone (handleBridgeLine A)) q (b, s))) = snd (waOpenLocation A q s) \<and>
    idle (fst (snd (bridge_OpenLocation (call_alone (handleBridgeLine A)) q (b, s))))"
proof -
  obtain e s' where r: "waOpenLocation A q s = (e, s')" by fastforce
  let ?res = "case e of Some e \<Rightarrow> Inl e | None \<Rightarrow> Inr (Some JNull)"
  have "dispatch A \<lparr>cqID = rid, cqMethod = ''openLocation'', cqParams = Some (OpenLocationInput_json q)\<rparr> s = (?res, s')" for rid
    using OpenLocationInput_dec_enc [OF assms(2)] r
    by (simp add: dispatch_def OpenLocationInput_json_def with_params_ok split: option.split)
  from call_served [OF assms(1) method_names(9) _ this] obtain t
    where "call_alone (handleBridgeLine A) ''openLocation'' (Some (OpenLocationInput_json q)) (b, s) = (over_wire ?res, (t, s'))" "idle t" by auto
  then show ?thesis by (cases e) (simp_all add: r bridge_OpenLocation_def over_wire_def)
qed

lemma served_bootstrap:
  assumes "idle b" "valid_utf8 (waName A)"
  shows "\<exists>t. bridge_bootstrap (call_alone (handleBridgeLine A)) a (b, s) =
      (Inr (a\<lparr>cbName := waName A, cbCapabilities := waCapabilities A\<rparr>), (t, s)) \<and> idle t"
proof -
  have n: "dispatch A \<lparr>cqID = rid, cqMethod = ''name'', cqParams = None\<rparr> s = (Inr (Some (enc_string (waName A))), s)" for rid
    by (simp add: dispatch_def)
  have c: "dispatch A \<lparr>cqID = rid, cqMethod = ''capabilities'', cqParams = None\<rparr> s = (Inr (Some (AdapterCapabilities_json (waCapabilities A))), s)" for rid
    by (simp add: dispatch_def)
  obtain t where t: "call_alone (handleBridgeLine A) ''name'' None (b, s) = (Inr (Some (enc_string (waName A))), (t, s))" "idle t"
    using call_served [OF assms(1) method_names(1) _ n] by (auto simp: over_wire_def)
  obtain u where u: "call_alone (handleBridgeLine A) ''capabilities'' None (t, s) = (Inr (Some (AdapterCapabilities_json (waCapabilities A))), (u, s))" "idle u"
    using call_served [OF t(2) method_names(2) _ c] by (auto simp: over_wire_def)
  have d: "AdapterCapabilities_unjson (AdapterCapabilities_json (waCapabilities A)) = Inr (waCapabilities A)"
    by (rule AdapterCapabilities_dec_enc) (simp add: AdapterCapabilities_ok_def)
  have "decode_string (enc_string (waName A)) [] = Inr (waName A)" using assms(2) by (simp add: json_codec)
  then show ?thesis using t u d
    by (auto simp: bridge_bootstrap_def call_decoded_def decode_out_def enc_string_def AdapterCapabilities_json_def)
qed

lemma ascii_utf8_Itoa: "valid_utf8 (Itoa n)"
  by (rule ascii_valid) (auto simp: list_all_iff intro: Itoa_chars)

lemma mock_ids_valid: "valid_utf8 (''task_'' @ Itoa n)" "valid_utf8 v \<Longrightarrow> valid_utf8 (''run_'' @ v @ ''_'' @ Itoa n)"
  by (intro valid_utf8_append ascii_utf8_Itoa; simp add: ascii_valid byte_def)+

lemma wire_ok_mock: "wire_ok mock_adapter"
proof -
  have "TaskHandle_ok r" if "fst (mock_SubmitTask x s) = Inr r" for x s r
    using that mock_ids_valid(1) by (auto simp: mock_SubmitTask_def Let_def TaskHandle_ok_def)
  moreover have "RunHandle_ok r" if "RunProfileInput_ok x" "fst (mock_RunProfile x s) = Inr r" for x s r
    using that mock_ids_valid(2) by (auto simp: mock_RunProfile_def Let_def RunHandle_ok_def RunProfileInput_ok_def)
  moreover have "WorkspaceContext_ok r" if "fst (mock_GetContext x s) = Inr r" for x s r
    using that by (auto simp: mock_GetContext_def WorkspaceContext_ok_def byte_def intro!: ascii_valid)
  moreover have "ApplyPatchResult_ok r" if "fst (mock_ApplyPatch x s) = Inr r" for x s r
    using that by (auto simp: mock_ApplyPatch_def ApplyPatchResult_ok_def byte_def intro!: ascii_valid split: if_splits)
  moreover have "RunResult_ok r" if "valid_utf8 v" "fst (mock_GetRunResult v s) = Inr (Some r)" for v s r
    using that by (auto simp: mock_GetRunResult_def RunResult_ok_def ParsedError_ok_def minInt64_def maxInt64_def ascii_valid byte_def)
  moreover have "PatchReadyPayload_ok r" if "fst (mock_GetPatch v s) = Inr (Some r)" for v s r
    using mock.get_patch_ok [of v s r] that by (simp add: mock_adapter_def)
  ultimately show ?thesis unfolding wire_ok_def mock_adapter_def by (simp; blast)
qed

lemma keep_last:
  "drop (Suc (length (drop (length xs - n) xs)) - n) (drop (length xs - n) xs @ [y]) = drop (Suc (length xs) - n) (xs @ [y])"
  by (cases "n \<le> length xs") (simp_all add: Suc_diff_le)

lemma appendStderr_tail:
  "cbStderrTail (appendStderr l a) =
     (if strings_TrimSpace l = [] then cbStderrTail a
      else drop (Suc (length (cbStderrTail a)) - 20) (cbStderrTail a @ [strings_TrimSpace l]))"
  by (simp add: appendStderr_def Let_def)

lemma fold_appendStderr:
  "cbStderrTail (fold appendStderr ls (newCursorBridgeAdapter d)) =
     (let kept = filter (\<lambda>l. l \<noteq> []) (map strings_TrimSpace ls) in drop (length kept - 20) kept)"
proof (induction ls rule: rev_induct)
  case Nil
  show ?case by (simp add: newCursorBridgeAdapter_def)
next
  case (snoc l ls)
  then show ?case
    using keep_last [of "filter (\<lambda>l. l \<noteq> []) (map strings_TrimSpace ls)" 20 "strings_TrimSpace l"]
    by (simp add: appendStderr_tail Let_def)
qed

lemma idle_start: "idle (bridge_start d tcp)"
  using bridge_inv_start by (simp add: idle_def bridge_start_def)

section \<open>Properties\<close>

text \<open>
  C16: Whatever the interleaving of calls, answers, timeouts and the end of the connection, the adapter
  does not panic (no send on a closed channel, no channel closed twice), and a call that returns a
  result returns the one that the bridge has sent under the id of this very call.
\<close>

theorem bridge_calls_safe:
  "\<exists>s. bridge_exec evs (bridge_start d tcp) = Some s \<and>
     (\<forall>i x. i < length (brCalls s) \<longrightarrow> bcPhase (brCalls s ! i) = Returned (Inr x) \<longrightarrow>
        (\<exists>line err r. BRead line err \<in> set evs \<and> decode_response line = Inr r \<and>
           cbrID r = cqID (bcRequest (brCalls s ! i)) \<and> cbrError r = None \<and> cbrResult r = x))"
proof -
  obtain s where run: "bridge_exec evs (bridge_start d tcp) = Some s" and inv: "bridge_inv (\<Union> (set (map read_by evs))) s"
    using exec_inv [OF bridge_inv_start, where R = "{}"] by fastforce
  have "\<exists>line err r. BRead line err \<in> set evs \<and> decode_response line = Inr r \<and> cbrID r = request_id s i \<and> cbrError r = None \<and> cbrResult r = x"
    if "i < length (brCalls s)" "bcPhase (brCalls s ! i) = Returned (Inr x)" for i x
  proof -
    from inv that obtain r where r: "r \<in> \<Union> (set (map read_by evs))" "cbrID r = request_id s i" "cbrError r = None" "cbrResult r = x"
      unfolding bridge_inv_def calls_ok_def by blast
    from r(1) obtain ev where ev: "ev \<in> set evs" "r \<in> read_by ev" by auto
    from ev(2) obtain line err where "ev = BRead line err" "decode_response line = Inr r"
      by (cases ev) (auto split: sum.splits)
    with ev(1) r show ?thesis by blast
  qed
  with run show ?thesis by blast
qed

theorem bridge_calls_safe_witness:
  "\<exists>s line err r. bridge_exec ex_answered (bridge_start 0 True) = Some s \<and> BRead line err \<in> set ex_answered \<and>
     decode_response line = Inr r \<and> cbrID r = ''bridge_1'' \<and> bcPhase (brCalls s ! 0) = Returned (Inr (cbrResult r)) \<and>
     cbrResult r = Some (JStr ''cursor'')"
proof -
  have run: "map_option (\<lambda>s. map (\<lambda>c. (cqID (bcRequest c), bcPhase c)) (brCalls s)) (bridge_exec ex_answered (bridge_start 0 True)) =
      Some [(''bridge_1'', Returned (Inr (Some (JStr ''cursor''))))]" by code_simp
  obtain s where s: "bridge_exec ex_answered (bridge_start 0 True) = Some s"
    and safe: "\<And>i x. i < length (brCalls s) \<Longrightarrow> bcPhase (brCalls s ! i) = Returned (Inr x) \<Longrightarrow>
        (\<exists>line err r. BRead line err \<in> set ex_answered \<and> decode_response line = Inr r \<and>
           cbrID r = cqID (bcRequest (brCalls s ! i)) \<and> cbrError r = None \<and> cbrResult r = x)"
    using bridge_calls_safe [of ex_answered 0 True] by blast
  from run s have c: "brCalls s \<noteq> []" "cqID (bcRequest (brCalls s ! 0)) = ''bridge_1''"
    "bcPhase (brCalls s ! 0) = Returned (Inr (Some (JStr ''cursor'')))" by auto
  with s safe [of 0 "Some (JStr ''cursor'')"] show ?thesis by auto
qed



text \<open>
  C15: A bridge that serves an adapter is that adapter: after the handshake the bridge adapter has its
  name and capabilities, and every method gives what the adapter's method gives, changes its state
  in the same way and leaves the connection ready for the next call; of an error its message arrives.
\<close>

theorem bridge_transparent:
  assumes "wire_ok A" "valid_utf8 (waName A)" "idle b"
    and "ContextRequest_ok q" "SubmitTaskInput_ok ti" "valid_utf8 tid" "tid \<noteq> []" "ApplyPatchInput_ok pi"
    and "RunProfileInput_ok ri" "valid_utf8 rid" "rid \<noteq> []" "OpenLocationInput_ok oi"
  shows "\<exists>t B. bridge_bootstrap (call_alone (handleBridgeLine A)) a (b, s) = (Inr (a\<lparr>cbName := waName A, cbCapabilities := waCapabilities A\<rparr>), (t, s)) \<and> idle t \<and>
       B = cursor_bridge_adapter (call_alone (handleBridgeLine A)) (a\<lparr>cbName := waName A, cbCapabilities := waCapabilities A\<rparr>) \<and>
       waName B = waName A \<and> waCapabilities B = waCapabilities A \<and>
       bridged_as (waGetContext B q (b, s)) (waGetContext A q s) \<and>
       bridged_as (waSubmitTask B ti (b, s)) (waSubmitTask A ti s) \<and>
       bridged_as (waGetPatch B tid (b, s)) (waGetPatch A tid s) \<and>
       bridged_as (waApplyPatch B pi (b, s)) (waApplyPatch A pi s) \<and>
       bridged_as (waRunProfile B ri (b, s)) (waRunProfile A ri s) \<and>
       bridged_as (waGetRunResult B rid (b, s)) (waGetRunResult A rid s) \<and>
       fst (waOpenLocation B oi (b, s)) = map_option wire_error (fst (waOpenLocation A oi s)) \<and>
       snd (snd (waOpenLocation B oi (b, s))) = snd (waOpenLocation A oi s) \<and> idle (fst (snd (waOpenLocation B oi (b, s))))"
  using served_bootstrap [OF assms(3,2)]
  by (auto simp: cursor_bridge_adapter_def served_GetContext served_SubmitTask served_GetPatch served_ApplyPatch served_RunProfile
      served_GetRunResult served_OpenLocation assms)

theorem bridge_transparent_witness:
  "\<exists>t (B :: (bridge_state \<times> MockAdapter) WorkspaceAdapter). bridge_bootstrap (call_alone (handleBridgeLine mock_adapter)) (newCursorBridgeAdapter 0) (bridge_start 0 True, NewMockAdapter) =
       (Inr ((newCursorBridgeAdapter 0)\<lparr>cbName := waName mock_adapter, cbCapabilities := waCapabilities mock_adapter\<rparr>), (t, NewMockAdapter)) \<and>
     idle t \<and> waName B = waName mock_adapter \<and>
     bridged_as (waSubmitTask B zero_SubmitTaskInput (bridge_start 0 True, NewMockAdapter)) (waSubmitTask mock_adapter zero_SubmitTaskInput NewMockAdapter) \<and>
     bridged_as (waGetRunResult B ''run_1'' (bridge_start 0 True, NewMockAdapter)) (waGetRunResult mock_adapter ''run_1'' NewMockAdapter)"
proof -
  have ok: "valid_utf8 (waName mock_adapter)" "ContextRequest_ok zero_ContextRequest" "SubmitTaskInput_ok zero_SubmitTaskInput"
    "valid_utf8 ''task_1''" "ApplyPatchInput_ok zero_ApplyPatchInput" "RunProfileInput_ok zero_RunProfileInput" "valid_utf8 ''run_1''"
    "OpenLocationInput_ok zero_OpenLocationInput" "''task_1'' \<noteq> []" "''run_1'' \<noteq> []" by code_simp+
  note th = bridge_transparent [OF wire_ok_mock ok(1) idle_start [of 0 True] ok(2,3,4,9,5,6,7,10,8),
    where a = "newCursorBridgeAdapter 0" and s = NewMockAdapter]
  show ?thesis
    using th by blast
qed

text \<open>
  However much a bridge process writes to its standard error, the adapter keeps the last twenty
  lines of it that are not blank, trimmed and in order.
\<close>

theorem stderr_tail_bounded:
  "cbStderrTail (readStderr ls err (newCursorBridgeAdapter d)) =
     (let said = ls @ (case err of None \<Rightarrow> [] | Some e \<Rightarrow> [''stderr read failed: '' @ Error e]);
          kept = filter (\<lambda>l. l \<noteq> []) (map strings_TrimSpace said)
      in drop (length kept - 20) kept) \<and>
   length (cbStderrTail (readStderr ls err (newCursorBridgeAdapter d))) \<le> 20"
proof -
  have "readStderr ls err a = fold appendStderr (ls @ (case err of None \<Rightarrow> [] | Some e \<Rightarrow> [''stderr read failed: '' @ Error e])) a" for a
    by (simp add: readStderr_def Let_def split: option.split)
  then show ?thesis by (simp only: fold_appendStderr Let_def) simp
qed

end
