(* ===== verification/Go_Net.thy ===== *)
theory Go_Net
  imports Go_Http Cursor_Config
begin

text \<open>
  Hosts, ports and URLs: \<open>net.SplitHostPort\<close>, \<open>net.JoinHostPort\<close>, \<open>URL.Hostname\<close> and \<open>URL.Port\<close>
  are written out; the grammar of URLs (\<open>url.Parse\<close>, \<open>URL.String\<close>, the encoding of queries) and of
  IP addresses (\<open>net.ParseIP\<close>) is the record \<open>netlib\<close>, a parameter.
\<close>

section \<open>Hosts and ports\<close>

definition last_index :: "char \<Rightarrow> string \<Rightarrow> nat option" where
  "last_index c s = (if c \<in> set s then Some (length s - 1 - length (takeWhile (\<lambda>d. d \<noteq> c) (rev s))) else None)"

definition first_index :: "char \<Rightarrow> string \<Rightarrow> nat option" where
  "first_index c s = (if c \<in> set s then Some (length (takeWhile (\<lambda>d. d \<noteq> c) s)) else None)"

text \<open>\<open>net.SplitHostPort\<close>; \<open>None\<close> is any of its errors.\<close>

definition SplitHostPort :: "string \<Rightarrow> (string \<times> string) option" where
  "SplitHostPort hp =
     (case last_index CHR '':'' hp of
        None \<Rightarrow> None
      | Some i \<Rightarrow>
          if strings_HasPrefix hp ''['' then
            (case first_index CHR '']'' hp of
               None \<Rightarrow> None
             | Some e \<Rightarrow>
                 if e + 1 \<noteq> i \<or> CHR ''['' \<in> set (drop 1 hp) \<or> CHR '']'' \<in> set (drop (e + 1) hp) then None
                 else Some (drop 1 (take e hp), drop (i + 1) hp))
          else if CHR '':'' \<in> set (take i hp) \<or> CHR ''['' \<in> set hp \<or> CHR '']'' \<in> set hp then None
          else Some (take i hp, drop (i + 1) hp))"

definition JoinHostPort :: "string \<Rightarrow> string \<Rightarrow> string" where
  "JoinHostPort host port = (if CHR '':'' \<in> set host then ''['' @ host @ '']:'' @ port else host @ '':'' @ port)"

section \<open>URLs\<close>

record URL =
  uScheme :: string
  uHost :: string
  uPath :: string
  uRawQuery :: string
  uRest :: string

text \<open>The host of a URL without and with its port (\<open>splitHostPort\<close> of \<open>net/url\<close>).\<close>

definition validOptionalPort :: "string \<Rightarrow> bool" where
  "validOptionalPort p = (p = [] \<or> (hd p = CHR '':'' \<and> list_all is_digit (tl p)))"

definition url_splitHostPort :: "string \<Rightarrow> string \<times> string" where
  "url_splitHostPort hostPort =
     (let (host, port) =
        (case last_index CHR '':'' hostPort of
           None \<Rightarrow> (hostPort, [])
         | Some i \<Rightarrow> if validOptionalPort (drop i hostPort) then (take i hostPort, drop (i + 1) hostPort) else (hostPort, []))
      in (if strings_HasPrefix host ''['' \<and> strings_HasSuffix host '']'' then butlast (tl host) else host, port))"

definition URL_Hostname :: "URL \<Rightarrow> string" where "URL_Hostname u = fst (url_splitHostPort (uHost u))"
definition URL_Port :: "URL \<Rightarrow> string" where "URL_Port u = snd (url_splitHostPort (uHost u))"

record netlib =
  nlParse :: "string \<Rightarrow> URL result"
  nlString :: "URL \<Rightarrow> string"
  nlLoopbackIP :: "string \<Rightarrow> bool"
  nlParseQuery :: "string \<Rightarrow> (string, string list) gomap"
  nlEncode :: "(string, string list) gomap \<Rightarrow> string"

text \<open>\<open>strconv.Atoi\<close> with its error ignored: the value is 0 then, or the nearest 64-bit number.\<close>

definition Atoi_or_zero :: "string \<Rightarrow> int" where
  "Atoi_or_zero s =
     (let (neg, ds) = (case s of [] \<Rightarrow> (False, []) | c # cs \<Rightarrow>
            if c = CHR ''-'' then (True, cs) else if c = CHR ''+'' then (False, cs) else (False, s));
          n = (if neg then - digits_value 0 ds else digits_value 0 ds)
      in if ds = [] \<or> \<not> list_all is_digit ds then 0
         else if n < minInt64 then minInt64 else if n > maxInt64 then maxInt64 else n)"

fun strings_Contains :: "string \<Rightarrow> string \<Rightarrow> bool" where
  "strings_Contains s t = (strings_HasPrefix s t \<or> (case s of [] \<Rightarrow> False | c # cs \<Rightarrow> strings_Contains cs t))"

section \<open>Lemmas\<close>

lemma last_index_append:
  assumes "c \<notin> set t"
  shows "last_index c (s @ c # t) = Some (length s)"
proof -
  have "takeWhile (\<lambda>d. d \<noteq> c) (rev t @ c # rev s) = rev t"
    using assms by (subst takeWhile_append2) auto
  then show ?thesis by (simp add: last_index_def)
qed

lemma first_index_append:
  assumes "c \<notin> set s"
  shows "first_index c (s @ c # t) = Some (length s)"
  using assms by (subst first_index_def) (subst takeWhile_append2; auto)

text \<open>Joining and splitting.\<close>

lemma Split_JoinHostPort:
  assumes "CHR ''['' \<notin> set host" "CHR '']'' \<notin> set host" "CHR '':'' \<notin> set port" "CHR ''['' \<notin> set port" "CHR '']'' \<notin> set port"
  shows "SplitHostPort (JoinHostPort host port) = Some (host, port)"
proof (cases "CHR '':'' \<in> set host")
  case True
  let ?hp = "CHR ''['' # host @ CHR '']'' # CHR '':'' # port"
  have "last_index CHR '':'' ?hp = Some (length host + 2)"
    using last_index_append [OF assms(3), of "CHR ''['' # host @ [CHR '']'']"] by simp
  moreover have "first_index CHR '']'' ?hp = Some (Suc (length host))"
    using first_index_append [of "CHR '']''" "CHR ''['' # host" "CHR '':'' # port"] assms(2) by simp
  ultimately show ?thesis using True assms by (simp add: SplitHostPort_def JoinHostPort_def strings_HasPrefix_def)
next
  case False
  have "last_index CHR '':'' (host @ CHR '':'' # port) = Some (length host)" by (rule last_index_append [OF assms(3)])
  moreover have "\<not> strings_HasPrefix (host @ CHR '':'' # port) ''[''"
    using assms(1) by (cases host) (auto simp: strings_HasPrefix_def)
  ultimately show ?thesis using False assms by (simp add: SplitHostPort_def JoinHostPort_def)
qed

lemma url_split_JoinHostPort:
  assumes "CHR ''['' \<notin> set host" "list_all is_digit port"
  shows "url_splitHostPort (JoinHostPort host port) = (host, port)"
proof -
  have port: "CHR '':'' \<notin> set port" using assms(2) by (auto simp: list_all_iff is_digit_def byte_def)
  show ?thesis
  proof (cases "CHR '':'' \<in> set host")
    case True
    have "last_index CHR '':'' (CHR ''['' # host @ CHR '']'' # CHR '':'' # port) = Some (length host + 2)"
      using last_index_append [OF port, of "CHR ''['' # host @ [CHR '']'']"] by simp
    with True assms(2) show ?thesis
      by (simp add: url_splitHostPort_def JoinHostPort_def validOptionalPort_def strings_HasPrefix_def strings_HasSuffix_def butlast_append)
  next
    case False
    have "last_index CHR '':'' (host @ CHR '':'' # port) = Some (length host)" by (rule last_index_append [OF port])
    moreover have "\<not> strings_HasPrefix host ''[''" using assms(1) by (cases host) (auto simp: strings_HasPrefix_def)
    ultimately show ?thesis using False assms(2) by (simp add: url_splitHostPort_def JoinHostPort_def validOptionalPort_def)
  qed
qed

end
