(* ===== verification/Agent_Bootstrap.thy ===== *)
theory Agent_Bootstrap
  imports Go_Net P2P_Session
begin

text \<open>
  What a client needs to find its way to the agent (\<open>internal/agent/bootstrap.go\<close>) and how the agent
  answers a probe on the local network (\<open>internal/agent/lan_discovery.go\<close>). The library functions
  on URLs and addresses are \<open>N :: netlib\<close>, the network interfaces of the machine an argument.
\<close>

section \<open>Types\<close>

record HTTPServerConfig =
  hcPublicAgentBaseURL :: string
  hcPublicSignalingBaseURL :: string
  hcBootstrapRecentThreadLimit :: int

record BootstrapAdapterView =
  bavName :: string
  bavMode :: string
  bavProvider :: string
  bavReady :: bool

record BootstrapThreadView =
  btvID :: string
  btvTitle :: string
  btvUpdatedAt :: int
  btvCurrent :: bool

record BootstrapResponse =
  bsrAgentBaseURL :: string
  bsrSignalingBaseURL :: string
  bsrWorkspaceRoot :: string
  bsrAdapter :: BootstrapAdapterView
  bsrCurrentThreadID :: string
  bsrRecentThreads :: "BootstrapThreadView list"

definition BootstrapAdapterView_json :: "BootstrapAdapterView \<Rightarrow> json" where
  "BootstrapAdapterView_json v = JObj (omit_string ''name'' (bavName v) @ omit_string ''mode'' (bavMode v) @
     omit_string ''provider'' (bavProvider v) @ [(''ready'', JBool (bavReady v))])"

definition BootstrapThreadView_json :: "BootstrapThreadView \<Rightarrow> json" where
  "BootstrapThreadView_json v = JObj [(''id'', enc_string (btvID v)), (''title'', enc_string (btvTitle v)),
     (''updatedAt'', JInt (btvUpdatedAt v)), (''current'', JBool (btvCurrent v))]"

definition bootstrap_fields :: "BootstrapResponse \<Rightarrow> (string \<times> json) list" where
  "bootstrap_fields r =
     omit_string ''agentBaseUrl'' (bsrAgentBaseURL r) @ omit_string ''signalingBaseUrl'' (bsrSignalingBaseURL r) @
     omit_string ''workspaceRoot'' (bsrWorkspaceRoot r) @ [(''adapter'', BootstrapAdapterView_json (bsrAdapter r))] @
     omit_string ''currentThreadId'' (bsrCurrentThreadID r) @
     omit_list BootstrapThreadView_json ''recentThreads'' (bsrRecentThreads r)"

definition BootstrapResponse_json :: "BootstrapResponse \<Rightarrow> json" where
  "BootstrapResponse_json r = JObj (bootstrap_fields r)"

text \<open>What the handlers read of a request.\<close>

record http_request =
  rqMethod :: string
  rqPath :: string
  rqHost :: string
  rqForwardedProto :: string
  rqTLS :: bool
  rqBody :: "json option"

section \<open>Hosts\<close>

definition normalizeBaseURL :: "string \<Rightarrow> string" where
  "normalizeBaseURL s = strings_TrimRight (strings_TrimSpace s) ''/''"

definition normalizeHTTPServerConfig :: "HTTPServerConfig \<Rightarrow> HTTPServerConfig" where
  "normalizeHTTPServerConfig cfg =
     (let cfg = cfg\<lparr>hcPublicAgentBaseURL := normalizeBaseURL (hcPublicAgentBaseURL cfg),
                    hcPublicSignalingBaseURL := normalizeBaseURL (hcPublicSignalingBaseURL cfg)\<rparr>
      in if hcBootstrapRecentThreadLimit cfg \<le> 0 then cfg\<lparr>hcBootstrapRecentThreadLimit := 5\<rparr> else cfg)"

definition isLoopbackHost :: "netlib \<Rightarrow> string \<Rightarrow> bool" where
  "isLoopbackHost N host =
     (let host = strings_TrimSpace (strings_Trim host ''[]'') in
      if host = [] then False
      else if strings_EqualFold host ''localhost'' then True
      else nlLoopbackIP N host)"

definition isWildcardHost :: "string \<Rightarrow> bool" where
  "isWildcardHost host =
     (let host = strings_TrimSpace (strings_Trim host ''[]'') in strings_EqualFold host ''0.0.0.0'' \<or> strings_EqualFold host ''::'')"

definition splitHostPort :: "string \<Rightarrow> string \<times> int" where
  "splitHostPort s =
     (let s = strings_TrimSpace s in
      if s = [] then ([], 0)
      else case SplitHostPort s of
        Some (host, portText) \<Rightarrow> (strings_Trim host ''[]'', Atoi_or_zero portText)
      | None \<Rightarrow> (strings_Trim s ''[]'', 0))"

definition hostFromBaseURL :: "netlib \<Rightarrow> string \<Rightarrow> string" where
  "hostFromBaseURL N s =
     (case nlParse N (normalizeBaseURL s) of
        Inl err \<Rightarrow> []
      | Inr u \<Rightarrow> strings_TrimSpace (strings_Trim (URL_Hostname u) ''[]''))"

definition portFromBaseURL :: "netlib \<Rightarrow> string \<Rightarrow> int" where
  "portFromBaseURL N s =
     (case nlParse N (normalizeBaseURL s) of Inl err \<Rightarrow> 0 | Inr u \<Rightarrow> Atoi_or_zero (strings_TrimSpace (URL_Port u)))"

section \<open>The address of this machine\<close>

datatype address = IPNet "nat list" | IPAddr "nat list" | OtherAddr

record interface =
  ifUp :: bool
  ifLoopback :: bool
  ifAddrs :: "address list result"

definition To4 :: "nat list \<Rightarrow> nat list option" where
  "To4 ip =
     (if length ip = 4 then Some ip
      else if length ip = 16 \<and> take 12 ip = replicate 10 0 @ [255, 255] then Some (drop 12 ip)
      else None)"

definition IsLoopback4 :: "nat list \<Rightarrow> bool" where "IsLoopback4 ip = (ip ! 0 = 127)"

definition IP_String4 :: "nat list \<Rightarrow> string" where
  "IP_String4 ip = strings_Join (map (\<lambda>b. Itoa (int b)) ip) ''.''"

text \<open>The inner loop of \<open>pickBootstrapLANHost\<close>: what one address adds to the candidates.\<close>

definition address_candidate :: "address \<Rightarrow> string list" where
  "address_candidate a =
     (case (case a of IPNet ip \<Rightarrow> To4 ip | IPAddr ip \<Rightarrow> To4 ip | OtherAddr \<Rightarrow> None) of
        None \<Rightarrow> []
      | Some ip \<Rightarrow>
          if IsLoopback4 ip then []
          else let s = IP_String4 ip in if strings_HasPrefix s ''169.254.'' then [] else [s])"

definition interface_candidates :: "interface \<Rightarrow> string list" where
  "interface_candidates f =
     (if \<not> ifUp f \<or> ifLoopback f then []
      else case ifAddrs f of Inl err \<Rightarrow> [] | Inr as \<Rightarrow> concat (map address_candidate as))"

definition rankBootstrapLANHost :: "string \<Rightarrow> int" where
  "rankBootstrapLANHost host =
     (if strings_HasPrefix host ''192.168.'' then 0
      else if strings_HasPrefix host ''10.'' then 1
      else if strings_HasPrefix host ''172.'' then 2
      else 3)"

definition better_host :: "string \<Rightarrow> string \<Rightarrow> bool" where
  "better_host a b =
     (let left = rankBootstrapLANHost a; right = rankBootstrapLANHost b in if left = right then a < b else left < right)"

definition pickBootstrapLANHost :: "interface list result \<Rightarrow> string" where
  "pickBootstrapLANHost interfaces =
     (case interfaces of
        Inl err \<Rightarrow> []
      | Inr ifs \<Rightarrow>
          (case sort_by better_host (concat (map interface_candidates ifs)) of [] \<Rightarrow> [] | c # cs \<Rightarrow> c))"

definition resolveBootstrapHost :: "netlib \<Rightarrow> interface list result \<Rightarrow> string \<Rightarrow> string \<Rightarrow> string" where
  "resolveBootstrapHost N ifs configuredBaseURL listenAddr =
     (let host = hostFromBaseURL N configuredBaseURL in
      if host \<noteq> [] \<and> \<not> isLoopbackHost N host \<and> \<not> isWildcardHost host then host
      else let listenHost = fst (splitHostPort (strings_TrimSpace listenAddr)) in
      if listenHost \<noteq> [] \<and> \<not> isLoopbackHost N listenHost \<and> \<not> isWildcardHost listenHost then listenHost
      else pickBootstrapLANHost ifs)"

section \<open>Base URLs\<close>

definition forwardedScheme :: "http_request \<Rightarrow> string" where
  "forwardedScheme r =
     (let forwarded = strings_TrimSpace (rqForwardedProto r) in
      if forwarded \<noteq> [] then forwarded else if rqTLS r then ''https'' else ''http'')"

definition inferAgentBaseURL :: "http_request \<Rightarrow> string \<Rightarrow> string" where
  "inferAgentBaseURL r configured =
     (let configured = normalizeBaseURL configured in
      if configured \<noteq> [] then configured
      else let host = strings_TrimSpace (rqHost r) in
      if host = [] then [] else forwardedScheme r @ ''://'' @ host)"

definition resolvePublicBaseURL :: "netlib \<Rightarrow> string \<Rightarrow> string \<Rightarrow> string \<Rightarrow> int \<Rightarrow> string" where
  "resolvePublicBaseURL N configured fallbackScheme fallbackHost fallbackPort =
     (let configured = normalizeBaseURL configured in
      if configured = [] then
        (if fallbackHost = [] then []
         else if fallbackPort > 0 then fallbackScheme @ ''://'' @ JoinHostPort fallbackHost (Itoa fallbackPort)
         else fallbackScheme @ ''://'' @ fallbackHost)
      else case nlParse N configured of
        Inl err \<Rightarrow> configured
      | Inr u \<Rightarrow>
          let u = (if strings_TrimSpace (uScheme u) = [] then u\<lparr>uScheme := fallbackScheme\<rparr> else u);
              currentHost = strings_TrimSpace (URL_Hostname u);
              u = (if currentHost = [] \<or> isLoopbackHost N currentHost \<or> isWildcardHost currentHost then
                     let replacementHost = strings_TrimSpace fallbackHost in
                     if replacementHost \<noteq> [] then
                       let port = URL_Port u;
                           port = (if port = [] \<and> fallbackPort > 0 then Itoa fallbackPort else port)
                       in if port \<noteq> [] then u\<lparr>uHost := JoinHostPort replacementHost port\<rparr> else u\<lparr>uHost := replacementHost\<rparr>
                     else u
                   else u)
          in normalizeBaseURL (nlString N u))"

definition resolveDiscoveryAgentBaseURL :: "netlib \<Rightarrow> interface list result \<Rightarrow> string \<Rightarrow> string \<Rightarrow> string" where
  "resolveDiscoveryAgentBaseURL N ifs listenAddr publicOverride =
     (let host = resolveBootstrapHost N ifs publicOverride listenAddr;
          host = (if host = [] then ''127.0.0.1'' else host);
          port = snd (splitHostPort (strings_TrimSpace listenAddr))
      in resolvePublicBaseURL N publicOverride ''http'' host port)"

definition resolveDiscoverySignalingBaseURL :: "netlib \<Rightarrow> string \<Rightarrow> string \<Rightarrow> string \<Rightarrow> string" where
  "resolveDiscoverySignalingBaseURL N configured publicOverride fallbackHost =
     (let configured = normalizeBaseURL configured;
          publicOverride = normalizeBaseURL publicOverride;
          base = (if publicOverride = [] then configured else publicOverride)
      in if base = [] then []
         else resolvePublicBaseURL N base ''http'' fallbackHost (portFromBaseURL N base))"

definition resolveBootstrapSignalingBaseURL :: "netlib \<Rightarrow> http_request \<Rightarrow> string \<Rightarrow> string \<Rightarrow> string" where
  "resolveBootstrapSignalingBaseURL N r configured publicOverride =
     (let base = normalizeBaseURL publicOverride;
          base = (if base = [] then normalizeBaseURL configured else base)
      in if base = [] then []
         else case nlParse N base of
           Inl err \<Rightarrow> base
         | Inr u \<Rightarrow>
             let u = (if uScheme u = [] then u\<lparr>uScheme := forwardedScheme r\<rparr> else u);
                 requestHost = fst (splitHostPort (strings_TrimSpace (rqHost r)))
             in if requestHost = [] \<or> isLoopbackHost N requestHost \<or> \<not> isLoopbackHost N (URL_Hostname u) then nlString N u
                else let port = URL_Port u in
                  nlString N (u\<lparr>uHost := if port \<noteq> [] then JoinHostPort requestHost port else requestHost\<rparr>))"

definition configuredBootstrapSignalingBaseURL :: "instant \<Rightarrow> ('s, 'p) P2PSessionManager option \<Rightarrow> string \<times> ('s, 'p) P2PSessionManager option" where
  "configuredBootstrapSignalingBaseURL now p2pManager =
     (case p2pManager of
        None \<Rightarrow> ([], None)
      | Some m \<Rightarrow>
          (case P2P_Status now m of
             (status, m) \<Rightarrow>
               let baseURL = normalizeBaseURL (pssSignalingBaseURL status)
               in (if baseURL \<noteq> [] then baseURL else normalizeBaseURL (DefaultSignalingBaseURL m), Some m)))"

section \<open>The response\<close>

definition inferProviderName :: "AdapterRuntimeInfo \<Rightarrow> string" where
  "inferProviderName info =
     (let joined = strings_ToLower (strings_Join [ariMode info, ariName info] '' '') in
      if strings_Contains joined ''cursor'' then ''cursor''
      else if strings_Contains joined ''codex'' then ''codex''
      else if strings_Contains joined ''claude'' then ''claude_code''
      else if strings_Contains joined ''antigravity'' then ''antigravity''
      else ''unknown'')"

fun thread_views :: "bool \<Rightarrow> ThreadSummary list \<Rightarrow> BootstrapThreadView list" where
  "thread_views current [] = []"
| "thread_views current (t # ts) =
     \<lparr>btvID = tsmID t, btvTitle = tsmTitle t, btvUpdatedAt = tsmUpdatedAt t, btvCurrent = current\<rparr> # thread_views False ts"

definition buildBootstrapRecentThreads :: "string list \<Rightarrow> 's Orchestrator option \<Rightarrow> int \<Rightarrow> string \<times> BootstrapThreadView list" where
  "buildBootstrapRecentThreads order orchestrator limit =
     (let threads = (case orchestrator of None \<Rightarrow> [] | Some o1 \<Rightarrow> ThreadStore_List order (orcThreads o1));
          threads = (if limit > 0 \<and> int (length threads) > limit then take (nat limit) threads else threads)
      in (case threads of [] \<Rightarrow> [] | t # ts \<Rightarrow> tsmID t, thread_views True threads))"

text \<open>An adapter that provides its own runtime information (\<open>AdapterRuntimeInfoProvider\<close>), or not.\<close>

definition adapter_info :: "'s WorkspaceAdapter option \<Rightarrow> AdapterRuntimeInfo option \<Rightarrow> AdapterRuntimeInfo" where
  "adapter_info adapter provider = (case provider of Some info \<Rightarrow> info | None \<Rightarrow> BasicAdapterRuntimeInfo adapter)"

definition buildBootstrapResponse ::
    "string list \<Rightarrow> AdapterRuntimeInfo \<Rightarrow> 's Orchestrator option \<Rightarrow> HTTPServerConfig \<Rightarrow> string \<Rightarrow> string \<Rightarrow> BootstrapResponse" where
  "buildBootstrapResponse order adapterInfo orchestrator cfg agentBaseURL signalingBaseURL =
     (case buildBootstrapRecentThreads order orchestrator (hcBootstrapRecentThreadLimit cfg) of
        (currentThreadID, recentThreads) \<Rightarrow>
          \<lparr>bsrAgentBaseURL = agentBaseURL, bsrSignalingBaseURL = signalingBaseURL, bsrWorkspaceRoot = ariWorkspaceRoot adapterInfo,
           bsrAdapter = \<lparr>bavName = ariName adapterInfo, bavMode = ariMode adapterInfo,
             bavProvider = inferProviderName adapterInfo, bavReady = ariReady adapterInfo\<rparr>,
           bsrCurrentThreadID = currentThreadID, bsrRecentThreads = recentThreads\<rparr>)"

section \<open>LAN discovery\<close>

definition lanDiscoveryProbeType :: string where "lanDiscoveryProbeType = ''vibedeck_discover''"
definition lanDiscoveryResultType :: string where "lanDiscoveryResultType = ''vibedeck_discover_result''"
definition lanDiscoveryVersion :: int where "lanDiscoveryVersion = 1"

record lanDiscoveryProbe =
  ldpType :: string
  ldpVersion :: int

record LANDiscoveryResponse =
  ldrType :: string
  ldrVersion :: int
  ldrDisplayName :: string
  ldrRespondedAt :: int
  ldrBootstrap :: BootstrapResponse

definition lanDiscoveryProbe_put :: "string \<Rightarrow> json \<Rightarrow> lanDiscoveryProbe \<Rightarrow> lanDiscoveryProbe result" where
  "lanDiscoveryProbe_put f v p =
     (if f = ''type'' then map_result (\<lambda>x. p\<lparr>ldpType := x\<rparr>) (decode_string v (ldpType p))
      else map_result (\<lambda>x. p\<lparr>ldpVersion := x\<rparr>) (decode_int v (ldpVersion p)))"

definition lanDiscoveryProbe_unjson :: "json \<Rightarrow> lanDiscoveryProbe result" where
  "lanDiscoveryProbe_unjson j = decode_struct [''type'', ''version''] lanDiscoveryProbe_put j \<lparr>ldpType = [], ldpVersion = 0\<rparr>"

definition LANDiscoveryResponse_json :: "LANDiscoveryResponse \<Rightarrow> json" where
  "LANDiscoveryResponse_json r = JObj ([(''type'', enc_string (ldrType r)), (''version'', JInt (ldrVersion r))] @
     omit_string ''displayName'' (ldrDisplayName r) @ [(''respondedAt'', JInt (ldrRespondedAt r))] @ bootstrap_fields (ldrBootstrap r))"

text \<open>A datagram: \<open>None\<close> when its bytes are no JSON document.\<close>

definition acceptLANDiscoveryProbe :: "json option \<Rightarrow> bool" where
  "acceptLANDiscoveryProbe raw =
     (case (case raw of None \<Rightarrow> Inl json_error | Some j \<Rightarrow> lanDiscoveryProbe_unjson j) of
        Inl err \<Rightarrow> False
      | Inr probe \<Rightarrow> strings_EqualFold (strings_TrimSpace (ldpType probe)) lanDiscoveryProbeType \<and>
          (ldpVersion probe = 0 \<or> ldpVersion probe = lanDiscoveryVersion))"

end
