(* ===== verification/Bootstrap_Laws.thy ===== *)
theory Bootstrap_Laws
  imports Agent_Bootstrap
begin

text \<open>
  What the answers to a bootstrap request and to a discovery probe promise: the address of this
  machine that is offered is the best one it has, and the signalling URL that a client is given
  leads to the host that the client has just reached.
\<close>

section \<open>Definitions\<close>

text \<open>The IPv4 addresses that another machine can reach, over interfaces that are up.\<close>

definition ipv4 :: "address \<Rightarrow> nat list option" where
  "ipv4 a = (case a of IPNet ip \<Rightarrow> To4 ip | IPAddr ip \<Rightarrow> To4 ip | OtherAddr \<Rightarrow> None)"

definition lan_addresses :: "interface list \<Rightarrow> nat list list" where
  "lan_addresses ifs = filter (\<lambda>ip. hd ip \<noteq> 127 \<and> take 2 ip \<noteq> [169, 254])
     (concat (map (\<lambda>f. case ifAddrs f of Inl err \<Rightarrow> [] | Inr as \<Rightarrow> List.map_filter ipv4 as)
        (filter (\<lambda>f. ifUp f \<and> \<not> ifLoopback f) ifs)))"

text \<open>The private networks first, in this order.\<close>

definition lan_class :: "nat list \<Rightarrow> int" where
  "lan_class ip =
     (if take 2 ip = [192, 168] then 0 else if take 1 ip = [10] then 1 else if take 1 ip = [172] then 2 else 3)"

definition host_ok :: "string \<Rightarrow> bool" where
  "host_ok h \<longleftrightarrow> h \<noteq> [] \<and> list_all plain_byte h \<and> CHR ''['' \<notin> set h \<and> CHR '']'' \<notin> set h"

definition ex_interfaces :: "interface list" where
  "ex_interfaces =
     [\<lparr>ifUp = True, ifLoopback = True, ifAddrs = Inr [IPNet [127, 0, 0, 1]]\<rparr>,
      \<lparr>ifUp = True, ifLoopback = False, ifAddrs = Inr [IPNet [169, 254, 3, 4], IPNet [172, 17, 0, 1], OtherAddr]\<rparr>,
      \<lparr>ifUp = False, ifLoopback = False, ifAddrs = Inr [IPNet [192, 168, 9, 9]]\<rparr>,
      \<lparr>ifUp = True, ifLoopback = False, ifAddrs = Inr [IPAddr [10, 0, 0, 7], IPNet (replicate 10 0 @ [255, 255, 192, 168, 0, 5])]\<rparr>]"

definition ex_base :: netlib where
  "ex_base = \<lparr>nlParse = (\<lambda>s. Inr \<lparr>uScheme = ''http'', uHost = drop 7 s, uPath = [], uRawQuery = [], uRest = []\<rparr>),
     nlString = (\<lambda>u. uScheme u @ ''://'' @ uHost u), nlLoopbackIP = (\<lambda>h. strings_HasPrefix h ''127.''),
     nlParseQuery = (\<lambda>q. []), nlEncode = (\<lambda>q. [])\<rparr>"

definition ex_get :: "string \<Rightarrow> http_request" where
  "ex_get host = \<lparr>rqMethod = ''GET'', rqPath = ''/v1/agent/bootstrap'', rqHost = host, rqForwardedProto = [], rqTLS = False, rqBody = None\<rparr>"

section \<open>Dotted addresses\<close>

lemma dot_cut:
  assumes "c \<notin> set s" "c \<notin> set t"
  shows "s @ c # r = t @ c # q \<longleftrightarrow> s = t \<and> r = q"
  using assms
proof (induction s arbitrary: t)
  case Nil
  then show ?case by (cases t) auto
next
  case (Cons a s)
  then show ?case by (cases t) auto
qed

lemma Itoa_no_dot: "CHR ''.'' \<notin> set (Itoa (int n))"
proof
  assume "CHR ''.'' \<in> set (Itoa (int n))"
  then obtain d where "d < 10" "CHR ''.'' = digit_char d" using nat_digits_set by (auto simp: Itoa_def)
  moreover have "digit_char d \<noteq> CHR ''.''" if "d < 10" for d :: nat
  proof
    assume "digit_char d = CHR ''.''"
    then have "byte (digit_char d) = byte CHR ''.''" by simp
    with that show False by (simp add: byte_def digit_char_def)
  qed
  ultimately show False by metis
qed

lemma dotted_prefix:
  "strings_HasPrefix (Itoa (int a) @ CHR ''.'' # r) (Itoa (int x) @ CHR ''.'' # q) \<longleftrightarrow> a = x \<and> strings_HasPrefix r q"
  using dot_cut [OF Itoa_no_dot [of a] Itoa_no_dot [of x]] by (auto simp: HasPrefix_iff Itoa_inj)

lemma octets: "length ip = 4 \<Longrightarrow> \<exists>a b c d. ip = [a, b, c, d]"
  by (auto simp: length_Suc_conv eval_nat_numeral)

lemma prefix_of_octets:
  assumes "length ip = 4"
  shows "strings_HasPrefix (IP_String4 ip) ''169.254.'' \<longleftrightarrow> take 2 ip = [169, 254]"
    "strings_HasPrefix (IP_String4 ip) ''192.168.'' \<longleftrightarrow> take 2 ip = [192, 168]"
    "strings_HasPrefix (IP_String4 ip) ''10.'' \<longleftrightarrow> take 1 ip = [10]"
    "strings_HasPrefix (IP_String4 ip) ''172.'' \<longleftrightarrow> take 1 ip = [172]"
proof -
  obtain a b c d where ip: "ip = [a, b, c, d]" using octets [OF assms] by blast
  have s: "IP_String4 ip = Itoa (int a) @ CHR ''.'' # Itoa (int b) @ CHR ''.'' # Itoa (int c) @ CHR ''.'' # Itoa (int d)"
    by (simp add: IP_String4_def ip)
  have p: "''169.254.'' = Itoa (int 169) @ CHR ''.'' # Itoa (int 254) @ CHR ''.'' # []"
    "''192.168.'' = Itoa (int 192) @ CHR ''.'' # Itoa (int 168) @ CHR ''.'' # []"
    "''10.'' = Itoa (int 10) @ CHR ''.'' # []" "''172.'' = Itoa (int 172) @ CHR ''.'' # []"
    by code_simp+
  show "strings_HasPrefix (IP_String4 ip) ''169.254.'' \<longleftrightarrow> take 2 ip = [169, 254]"
    "strings_HasPrefix (IP_String4 ip) ''192.168.'' \<longleftrightarrow> take 2 ip = [192, 168]"
    "strings_HasPrefix (IP_String4 ip) ''10.'' \<longleftrightarrow> take 1 ip = [10]"
    "strings_HasPrefix (IP_String4 ip) ''172.'' \<longleftrightarrow> take 1 ip = [172]"
    unfolding s p dotted_prefix by (simp_all add: ip HasPrefix_iff)
qed

lemma To4_length: "To4 ip = Some v \<Longrightarrow> length v = 4"
  by (auto simp: To4_def split: if_splits)

lemma rank_class: "length ip = 4 \<Longrightarrow> rankBootstrapLANHost (IP_String4 ip) = lan_class ip"
  by (simp add: rankBootstrapLANHost_def lan_class_def prefix_of_octets)

text \<open>The candidates are the addresses, in the order of the interfaces.\<close>

lemma address_candidate_octets:
  "address_candidate a = (case ipv4 a of None \<Rightarrow> [] | Some ip \<Rightarrow>
     map IP_String4 (filter (\<lambda>ip. hd ip \<noteq> 127 \<and> take 2 ip \<noteq> [169, 254]) [ip]))"
proof (cases "ipv4 a")
  case (Some ip)
  have "length ip = 4" using Some To4_length by (cases a) (auto simp: ipv4_def)
  with Some prefix_of_octets(1) [OF this] octets [OF this] show ?thesis
    by (auto simp: address_candidate_def ipv4_def [symmetric] IsLoopback4_def Let_def)
qed (simp add: address_candidate_def ipv4_def [symmetric])

lemma address_candidates:
  "concat (map address_candidate as) =
     map IP_String4 (filter (\<lambda>ip. hd ip \<noteq> 127 \<and> take 2 ip \<noteq> [169, 254]) (List.map_filter ipv4 as))"
  by (induction as) (auto simp: address_candidate_octets List.map_filter_def split: option.split)

lemma candidates: "concat (map interface_candidates ifs) = map IP_String4 (lan_addresses ifs)"
  by (induction ifs) (auto simp: lan_addresses_def interface_candidates_def address_candidates split: sum.split)

lemma lan_address_length: "ip \<in> set (lan_addresses ifs) \<Longrightarrow> length ip = 4"
  using To4_length by (auto simp: lan_addresses_def List.map_filter_def ipv4_def split: sum.splits address.splits)

lemma hd_sort_by:
  assumes "\<And>x y z. lt x y \<Longrightarrow> lt y z \<Longrightarrow> lt x z" "\<And>x. \<not> lt x x" "\<And>x y. x \<noteq> y \<Longrightarrow> lt x y \<or> lt y x" "x \<in> set xs"
  shows "\<not> lt x (hd (sort_by lt xs))"
  using assms(4)
proof (induction xs arbitrary: x)
  case (Cons y ys)
  show ?case
  proof (cases "sort_by lt ys")
    case Nil
    then have "ys = []" by (metis length_0_conv length_sort_by)
    with Cons.prems assms(2) show ?thesis by simp
  next
    case (Cons z zs)
    have le: "\<not> lt w z" if "w \<in> set ys" for w using Cons.IH [OF that] Cons by simp
    show ?thesis
      using Cons.prems Cons le [of x] assms(1) [of x y z] assms(1) [of z y x] assms(2) [of y] assms(2) [of z] assms(1) [of y x z]
        assms(1) [of y z y] assms(3) [of x z] assms(3) [of y z] by (auto split: if_splits)
  qed
qed simp

lemma better_host_order:
  "better_host x y \<Longrightarrow> better_host y z \<Longrightarrow> better_host x z" "\<not> better_host x x" "x \<noteq> y \<Longrightarrow> better_host x y \<or> better_host y x"
  by (auto simp: better_host_def Let_def split: if_splits)


text \<open>The ports of URLs, and the host of a request.\<close>

lemma URL_Port_digits: "list_all is_digit (URL_Port u)"
proof (cases "last_index CHR '':'' (uHost u)")
  case (Some i)
  have "list_all is_digit (drop (i + 1) (uHost u))" if "validOptionalPort (drop i (uHost u))"
  proof (cases "drop i (uHost u)")
    case Nil
    then show ?thesis by simp
  next
    case (Cons c cs)
    then have "drop (i + 1) (uHost u) = cs" by (metis drop_Suc_Cons drop_drop drop0 plus_1_eq_Suc One_nat_def add.commute)
    with Cons that show ?thesis by (simp add: validOptionalPort_def)
  qed
  with Some show ?thesis by (auto simp: URL_Port_def url_splitHostPort_def split: prod.splits if_splits)
qed (simp add: URL_Port_def url_splitHostPort_def split: prod.splits)

lemma Trim_brackets: "CHR ''['' \<notin> set h \<Longrightarrow> CHR '']'' \<notin> set h \<Longrightarrow> strings_Trim h ''[]'' = h"
proof -
  assume "CHR ''['' \<notin> set h" "CHR '']'' \<notin> set h"
  then have "dropWhile (\<lambda>c. c \<in> set ''[]'') xs = xs" if "set xs = set h" for xs
    using that by (cases xs) auto
  then show ?thesis by (simp add: strings_Trim_def strings_TrimRight_def)
qed

lemma digit_plain: "is_digit c \<Longrightarrow> plain_byte c \<and> c \<noteq> CHR '':'' \<and> c \<noteq> CHR ''['' \<and> c \<noteq> CHR '']''"
  by (auto simp: is_digit_def plain_byte_def byte_def)

lemma request_host:
  assumes "host_ok h" "list_all is_digit p" "host = JoinHostPort h p \<or> host = h \<and> CHR '':'' \<notin> set h"
  shows "fst (splitHostPort (strings_TrimSpace host)) = h"
proof -
  have h: "h \<noteq> []" "\<forall>c \<in> set h. plain_byte c" "CHR ''['' \<notin> set h" "CHR '']'' \<notin> set h"
    using assms(1) by (auto simp: host_ok_def list_all_iff)
  have sep: "plain_byte CHR '':''" "plain_byte CHR ''[''" by code_simp+
  have p: "CHR '':'' \<notin> set p" "CHR ''['' \<notin> set p" "CHR '']'' \<notin> set p" "\<forall>c \<in> set p. plain_byte c"
    using assms(2) digit_plain by (auto simp: list_all_iff)
  from assms(3) show ?thesis
  proof
    assume host: "host = JoinHostPort h p"
    have "strings_TrimSpace host = host"
      by (rule TrimSpace_plain) (use h p sep in \<open>auto simp: host JoinHostPort_def last_append hd_append\<close>)
    moreover have "host \<noteq> []" by (simp add: host JoinHostPort_def)
    ultimately show ?thesis
      using Split_JoinHostPort [OF h(3,4) p(1-3)] Trim_brackets [OF h(3,4)]
      by (simp add: splitHostPort_def host Let_def)
  next
    assume host: "host = h \<and> CHR '':'' \<notin> set h"
    have "strings_TrimSpace h = h" by (rule TrimSpace_plain) (use h in auto)
    moreover have "SplitHostPort h = None" using host by (simp add: SplitHostPort_def last_index_def)
    ultimately show ?thesis using h Trim_brackets [OF h(3,4)] host by (simp add: splitHostPort_def Let_def)
  qed
qed

lemma url_split_plain:
  assumes "CHR '':'' \<notin> set h" "CHR ''['' \<notin> set h"
  shows "url_splitHostPort h = (h, [])"
proof -
  have "\<not> strings_HasPrefix h ''[''" using assms(2) by (cases h) (auto simp: strings_HasPrefix_def)
  then show ?thesis using assms(1) by (simp add: url_splitHostPort_def last_index_def)
qed

section \<open>Properties\<close>

text \<open>
  C39: The host that the agent offers on the local network is an IPv4 address of an interface that
  is up and is not the loopback, and is neither a loopback nor a link-local address; among all of
  those, it is in the most private network (192.168/16 before 10/8 before 172/8 before the rest),
  and there the first in the order of texts. Only when there is no such address is no host offered.
\<close>
theorem lan_host_best:
  shows "if lan_addresses ifs = [] then pickBootstrapLANHost (Inr ifs) = []
    else \<exists>ip \<in> set (lan_addresses ifs). pickBootstrapLANHost (Inr ifs) = IP_String4 ip \<and>
      (\<forall>ip' \<in> set (lan_addresses ifs). lan_class ip < lan_class ip' \<or>
         lan_class ip = lan_class ip' \<and> IP_String4 ip \<le> IP_String4 ip')"
proof (cases "lan_addresses ifs = []")
  case True
  then show ?thesis by (simp add: pickBootstrapLANHost_def candidates)
next
  case False
  let ?cs = "map IP_String4 (lan_addresses ifs)"
  let ?s = "sort_by better_host ?cs"
  have ne: "?s \<noteq> []" using False by (metis length_0_conv length_map length_sort_by)
  have pick: "pickBootstrapLANHost (Inr ifs) = hd ?s"
    using ne by (simp add: pickBootstrapLANHost_def candidates split: list.split)
  have "hd ?s \<in> set ?cs" using ne by (metis hd_in_set set_sort_by)
  then obtain ip where ip: "ip \<in> set (lan_addresses ifs)" "hd ?s = IP_String4 ip" by auto
  have "lan_class ip < lan_class ip' \<or> lan_class ip = lan_class ip' \<and> IP_String4 ip \<le> IP_String4 ip'"
    if "ip' \<in> set (lan_addresses ifs)" for ip'
  proof -
    have "\<not> better_host (IP_String4 ip') (hd ?s)"
      by (rule hd_sort_by [of better_host, OF better_host_order]) (use that in simp_all)
    then show ?thesis
      using that ip rank_class [OF lan_address_length] by (auto simp: better_host_def Let_def split: if_splits)
  qed
  with False pick ip show ?thesis by auto
qed

text \<open>
  C38: A client that reached the agent under some host and asks for the bootstrap data is given a
  signalling URL that it can reach: when the configured URL names the loopback and the client used
  another host, the host of the URL is the one that the client used, with the configured port (for
  an IPv6 host, given one); in every other case the configured host stays. Scheme, path and query
  stay, the scheme of the request standing in for a missing one.
\<close>
theorem bootstrap_signaling_reachable:
  assumes "host_ok h" "list_all is_digit p" "rqHost r = JoinHostPort h p \<or> rqHost r = h \<and> CHR '':'' \<notin> set h"
    and "base = (if normalizeBaseURL override \<noteq> [] then normalizeBaseURL override else normalizeBaseURL configured)"
    and "base \<noteq> []" "nlParse N base = Inr u"
  shows "\<exists>v. resolveBootstrapSignalingBaseURL N r configured override = nlString N v \<and>
    uScheme v = (if uScheme u = [] then forwardedScheme r else uScheme u) \<and> uPath v = uPath u \<and> uRawQuery v = uRawQuery u \<and>
    (if isLoopbackHost N (URL_Hostname u) \<and> \<not> isLoopbackHost N h
     then URL_Port u \<noteq> [] \<or> CHR '':'' \<notin> set h \<longrightarrow> URL_Hostname v = h \<and> URL_Port v = URL_Port u
     else uHost v = uHost u)"
proof -
  let ?u = "if uScheme u = [] then u\<lparr>uScheme := forwardedScheme r\<rparr> else u"
  let ?v = "?u\<lparr>uHost := if URL_Port u \<noteq> [] then JoinHostPort h (URL_Port u) else h\<rparr>"
  have h: "h \<noteq> []" "CHR ''['' \<notin> set h" using assms(1) by (auto simp: host_ok_def)
  have host: "fst (splitHostPort (strings_TrimSpace (rqHost r))) = h" by (rule request_host [OF assms(1-3)])
  have same: "URL_Hostname ?u = URL_Hostname u" "URL_Port ?u = URL_Port u" "uHost ?u = uHost u"
    by (simp_all add: URL_Hostname_def URL_Port_def)
  have base: "(let base = normalizeBaseURL override in if base = [] then normalizeBaseURL configured else base) = base"
    using assms(4) by simp
  have res: "resolveBootstrapSignalingBaseURL N r configured override =
      nlString N (if isLoopbackHost N (URL_Hostname u) \<and> \<not> isLoopbackHost N h then ?v else ?u)"
    using assms(4-6) host h(1) same unfolding resolveBootstrapSignalingBaseURL_def Let_def by auto
  have v: "URL_Hostname ?v = h" "URL_Port ?v = URL_Port u" if "URL_Port u \<noteq> [] \<or> CHR '':'' \<notin> set h"
    using that url_split_JoinHostPort [OF h(2) URL_Port_digits [of u]] url_split_plain [OF _ h(2)]
    by (auto simp: URL_Hostname_def URL_Port_def)
  show ?thesis unfolding res
    by (rule exI, rule conjI, rule refl) (use v same in auto)
qed

text \<open>A request over an IPv6 address, for a configured URL without a port: the host loses its brackets.\<close>

lemma ipv6_host_misread:
  "\<exists>v. resolveBootstrapSignalingBaseURL ex_base (ex_get ''[fd00::1]:8080'') ''http://127.0.0.1'' [] = nlString ex_base v \<and>
     URL_Hostname v = ''fd00:'' \<and> URL_Port v = ''1''"
  by (rule exI [of _ "\<lparr>uScheme = ''http'', uHost = ''fd00::1'', uPath = [], uRawQuery = [], uRest = []\<rparr>"]) code_simp

section \<open>Witnesses\<close>

lemma lan_host_best_witness: "pickBootstrapLANHost (Inr ex_interfaces) = ''192.168.0.5''"
proof -
  have l: "lan_addresses ex_interfaces = [[172, 17, 0, 1], [10, 0, 0, 7], [192, 168, 0, 5]]" by code_simp
  have "lan_class [172, 17, 0, 1] = 2" "lan_class [10, 0, 0, 7] = 1" "lan_class [192, 168, 0, 5] = 0" by code_simp+
  with lan_host_best [of ex_interfaces] have "pickBootstrapLANHost (Inr ex_interfaces) = IP_String4 [192, 168, 0, 5]"
    unfolding l by auto
  moreover have "IP_String4 [192, 168, 0, 5] = ''192.168.0.5''" by code_simp
  ultimately show ?thesis by simp
qed

lemma bootstrap_signaling_reachable_witness:
  "\<exists>v. resolveBootstrapSignalingBaseURL ex_base (ex_get ''192.168.0.5:8080'') ''http://127.0.0.1:8081'' [] = nlString ex_base v \<and>
     URL_Hostname v = ''192.168.0.5'' \<and> URL_Port v = ''8081''"
proof -
  let ?u = "\<lparr>uScheme = ''http'', uHost = ''127.0.0.1:8081'', uPath = [], uRawQuery = [], uRest = []\<rparr>"
  have f: "host_ok ''192.168.0.5''" "list_all is_digit ''8080''" "rqHost (ex_get ''192.168.0.5:8080'') = JoinHostPort ''192.168.0.5'' ''8080''"
    "''http://127.0.0.1:8081'' = (if normalizeBaseURL [] \<noteq> [] then normalizeBaseURL [] else normalizeBaseURL ''http://127.0.0.1:8081'')"
    "nlParse ex_base ''http://127.0.0.1:8081'' = Inr ?u" "URL_Port ?u = ''8081''"
    "isLoopbackHost ex_base (URL_Hostname ?u)" "\<not> isLoopbackHost ex_base ''192.168.0.5''" by code_simp+
  show ?thesis
    using bootstrap_signaling_reachable [OF f(1,2) disjI1 [OF f(3)] f(4) _ f(5)] f(6-8) by auto
qed

end
