(* ===== verification/Prometheus.thy ===== *)
theory Prometheus
  imports Control_Metrics State_Manager
begin

text \<open>
  The text exposition of the metrics (\<open>internal/agent/prometheus_metrics.go\<close>). \<open>quote\<close> is
  \<open>strconv.Quote\<close>, which the verb \<open>%q\<close> uses.
\<close>

section \<open>Rendering\<close>

definition allConnectionStates :: "ConnectionState list" where
  "allConnectionStates = [StatePairing, StateSignaling, StateP2PConnecting, StateP2PConnected, StateRelayConnected,
     StateReconnecting, StateClosed]"

definition sortedStringKeys :: "(string, 'v) gomap \<Rightarrow> string list" where
  "sortedStringKeys values = sort_Strings (map_keys values)"

definition appendControlPrometheusStats :: "(string \<Rightarrow> string) \<Rightarrow> string \<Rightarrow> string \<Rightarrow> ControlMetricStats \<Rightarrow> string" where
  "appendControlPrometheusStats quote messageType path stats =
     ''vibedeck_control_requests_total{type='' @ quote messageType @ '',path='' @ quote path @ '',result='' @ quote ''success'' @ ''} '' @ Itoa (cmsSuccesses stats) @ [LF] @
     ''vibedeck_control_requests_total{type='' @ quote messageType @ '',path='' @ quote path @ '',result='' @ quote ''error'' @ ''} '' @ Itoa (cmsFailures stats) @ [LF] @
     ''vibedeck_control_requests_total{type='' @ quote messageType @ '',path='' @ quote path @ '',result='' @ quote ''timeout'' @ ''} '' @ Itoa (cmsTimeouts stats) @ [LF]"

definition appendControlPrometheusLatency :: "(string \<Rightarrow> string) \<Rightarrow> string \<Rightarrow> string \<Rightarrow> ControlMetricStats \<Rightarrow> string" where
  "appendControlPrometheusLatency quote messageType path stats =
     ''vibedeck_control_latency_ms{type='' @ quote messageType @ '',path='' @ quote path @ '',stat='' @ quote ''last'' @ ''} '' @ Itoa (cmsLastLatencyMs stats) @ [LF] @
     ''vibedeck_control_latency_ms{type='' @ quote messageType @ '',path='' @ quote path @ '',stat='' @ quote ''avg'' @ ''} '' @ Itoa (cmsAvgLatencyMs stats) @ [LF] @
     ''vibedeck_control_latency_ms{type='' @ quote messageType @ '',path='' @ quote path @ '',stat='' @ quote ''max'' @ ''} '' @ Itoa (cmsMaxLatencyMs stats) @ [LF]"

text \<open>The loops over the tables of a snapshot, for either of the two functions above; \<open>map\_at\<close> is \<open>m[k]\<close>.\<close>

definition map_at :: "(string, 'v) gomap \<Rightarrow> 'v \<Rightarrow> string \<Rightarrow> 'v" where
  "map_at m zero k = (case map_of m k of Some v \<Rightarrow> v | None \<Rightarrow> zero)"

definition append_control :: "(string \<Rightarrow> string \<Rightarrow> ControlMetricStats \<Rightarrow> string) \<Rightarrow> ControlMetricsSnapshot \<Rightarrow> string" where
  "append_control app control =
     app ''all'' ''all'' (snapTotals control) @
     concat (map (\<lambda>path. app ''all'' path (map_at (snapByPath control) zero_stats path)) (sortedStringKeys (snapByPath control))) @
     concat (map (\<lambda>messageType. app messageType ''all'' (map_at (snapByType control) zero_stats messageType)) (sortedStringKeys (snapByType control))) @
     concat (map (\<lambda>messageType. concat (map (\<lambda>path.
         app messageType path (map_at (map_at (snapByTypePath control) [] messageType) zero_stats path))
         (sortedStringKeys (map_at (snapByTypePath control) [] messageType)))) (sortedStringKeys (snapByTypePath control)))"

definition renderPrometheusMetrics :: "(string \<Rightarrow> string) \<Rightarrow> ConnectionState \<Rightarrow> bool \<Rightarrow> AckMetrics \<Rightarrow> ControlMetricsSnapshot \<Rightarrow> string" where
  "renderPrometheusMetrics quote state p2pActive ack control =
     ''# HELP vibedeck_runtime_state Current runtime state of the agent.'' @ [LF] @
     ''# TYPE vibedeck_runtime_state gauge'' @ [LF] @
     concat (map (\<lambda>candidate. ''vibedeck_runtime_state{state='' @ quote candidate @ ''} '' @
        Itoa (if state = candidate then 1 else 0) @ [LF]) allConnectionStates) @
     ''# HELP vibedeck_p2p_active Whether the direct P2P session is active.'' @ [LF] @
     ''# TYPE vibedeck_p2p_active gauge'' @ [LF] @
     (if p2pActive then ''vibedeck_p2p_active 1'' @ [LF] else ''vibedeck_p2p_active 0'' @ [LF]) @
     ''# HELP vibedeck_ack_pending Current number of pending ACKs.'' @ [LF] @
     ''# TYPE vibedeck_ack_pending gauge'' @ [LF] @
     ''vibedeck_ack_pending '' @ Itoa (PendingCount ack) @ [LF] @
     ''# HELP vibedeck_ack_pending_max Maximum observed pending ACK queue depth.'' @ [LF] @
     ''# TYPE vibedeck_ack_pending_max gauge'' @ [LF] @
     ''vibedeck_ack_pending_max '' @ Itoa (MaxPendingCount ack) @ [LF] @
     ''# HELP vibedeck_ack_pending_by_transport Current pending ACKs split by transport.'' @ [LF] @
     ''# TYPE vibedeck_ack_pending_by_transport gauge'' @ [LF] @
     concat (map (\<lambda>transport. ''vibedeck_ack_pending_by_transport{transport='' @ quote transport @ ''} '' @
        Itoa (map_at (PendingByTransport ack) 0 transport) @ [LF]) (sortedStringKeys (PendingByTransport ack))) @
     ''# HELP vibedeck_ack_acked_total Total acknowledged control responses.'' @ [LF] @
     ''# TYPE vibedeck_ack_acked_total counter'' @ [LF] @
     ''vibedeck_ack_acked_total '' @ Itoa (AckedCount ack) @ [LF] @
     ''# HELP vibedeck_ack_retry_dispatch_total Total retried control responses dispatched over P2P.'' @ [LF] @
     ''# TYPE vibedeck_ack_retry_dispatch_total counter'' @ [LF] @
     ''vibedeck_ack_retry_dispatch_total '' @ Itoa (RetryDispatchCount ack) @ [LF] @
     ''# HELP vibedeck_ack_expired_total Total ACKs that expired.'' @ [LF] @
     ''# TYPE vibedeck_ack_expired_total counter'' @ [LF] @
     ''vibedeck_ack_expired_total '' @ Itoa (ExpiredCount ack) @ [LF] @
     ''# HELP vibedeck_ack_exhausted_total Total ACKs that exhausted retry attempts.'' @ [LF] @
     ''# TYPE vibedeck_ack_exhausted_total counter'' @ [LF] @
     ''vibedeck_ack_exhausted_total '' @ Itoa (ExhaustedCount ack) @ [LF] @
     ''# HELP vibedeck_ack_rtt_ms ACK round-trip time in milliseconds.'' @ [LF] @
     ''# TYPE vibedeck_ack_rtt_ms gauge'' @ [LF] @
     ''vibedeck_ack_rtt_ms{stat='' @ quote ''last'' @ ''} '' @ Itoa (LastAckRTTMs ack) @ [LF] @
     ''vibedeck_ack_rtt_ms{stat='' @ quote ''avg'' @ ''} '' @ Itoa (AvgAckRTTMs ack) @ [LF] @
     ''vibedeck_ack_rtt_ms{stat='' @ quote ''max'' @ ''} '' @ Itoa (MaxAckRTTMs ack) @ [LF] @
     ''# HELP vibedeck_control_requests_total Total control request outcomes.'' @ [LF] @
     ''# TYPE vibedeck_control_requests_total counter'' @ [LF] @
     append_control (appendControlPrometheusStats quote) control @
     ''# HELP vibedeck_control_latency_ms Control handler latency in milliseconds.'' @ [LF] @
     ''# TYPE vibedeck_control_latency_ms gauge'' @ [LF] @
     append_control (appendControlPrometheusLatency quote) control"

section \<open>Specification\<close>

text \<open>
  An exposition is a list of families, each with its samples: the labels of a series and its
  value. A series must not occur twice in an exposition.
\<close>

record family =
  famName :: string
  famHelp :: string
  famKind :: string
  famSamples :: "((string \<times> string) list \<times> int) list"

definition label_text :: "(string \<Rightarrow> string) \<Rightarrow> (string \<times> string) list \<Rightarrow> string" where
  "label_text quote ls =
     (if ls = [] then [] else ''{'' @ strings_Join (map (\<lambda>(k, v). k @ ''='' @ quote v) ls) '','' @ ''}'')"

definition family_text :: "(string \<Rightarrow> string) \<Rightarrow> family \<Rightarrow> string" where
  "family_text quote f =
     ''# HELP '' @ famName f @ '' '' @ famHelp f @ [LF] @ ''# TYPE '' @ famName f @ '' '' @ famKind f @ [LF] @
     concat (map (\<lambda>(ls, v). famName f @ label_text quote ls @ '' '' @ Itoa v @ [LF]) (famSamples f))"

definition control_cells :: "ControlMetricsSnapshot \<Rightarrow> ((string \<times> string) \<times> ControlMetricStats) list" where
  "control_cells c =
     ((''all'', ''all''), snapTotals c) #
     map (\<lambda>p. ((''all'', p), map_at (snapByPath c) zero_stats p)) (sortedStringKeys (snapByPath c)) @
     map (\<lambda>t. ((t, ''all''), map_at (snapByType c) zero_stats t)) (sortedStringKeys (snapByType c)) @
     concat (map (\<lambda>t. map (\<lambda>p. ((t, p), map_at (map_at (snapByTypePath c) [] t) zero_stats p))
       (sortedStringKeys (map_at (snapByTypePath c) [] t))) (sortedStringKeys (snapByTypePath c)))"

definition control_family :: "string \<Rightarrow> string \<Rightarrow> string \<Rightarrow> string \<Rightarrow> (ControlMetricStats \<Rightarrow> (string \<times> int) list) \<Rightarrow> ControlMetricsSnapshot \<Rightarrow> family" where
  "control_family name help kind key stats c =
     \<lparr>famName = name, famHelp = help, famKind = kind,
      famSamples = concat (map (\<lambda>((t, p), s). map (\<lambda>(r, v). ([(''type'', t), (''path'', p), (key, r)], v)) (stats s)) (control_cells c))\<rparr>"

definition single :: "string \<Rightarrow> string \<Rightarrow> string \<Rightarrow> int \<Rightarrow> family" where
  "single name help kind v = \<lparr>famName = name, famHelp = help, famKind = kind, famSamples = [([], v)]\<rparr>"

definition exposition :: "ConnectionState \<Rightarrow> bool \<Rightarrow> AckMetrics \<Rightarrow> ControlMetricsSnapshot \<Rightarrow> family list" where
  "exposition state active ack c =
     [\<lparr>famName = ''vibedeck_runtime_state'', famHelp = ''Current runtime state of the agent.'', famKind = ''gauge'',
        famSamples = map (\<lambda>s. ([(''state'', s)], if state = s then 1 else 0)) allConnectionStates\<rparr>,
      single ''vibedeck_p2p_active'' ''Whether the direct P2P session is active.'' ''gauge'' (if active then 1 else 0),
      single ''vibedeck_ack_pending'' ''Current number of pending ACKs.'' ''gauge'' (PendingCount ack),
      single ''vibedeck_ack_pending_max'' ''Maximum observed pending ACK queue depth.'' ''gauge'' (MaxPendingCount ack),
      \<lparr>famName = ''vibedeck_ack_pending_by_transport'', famHelp = ''Current pending ACKs split by transport.'', famKind = ''gauge'',
        famSamples = map (\<lambda>t. ([(''transport'', t)], map_at (PendingByTransport ack) 0 t)) (sortedStringKeys (PendingByTransport ack))\<rparr>,
      single ''vibedeck_ack_acked_total'' ''Total acknowledged control responses.'' ''counter'' (AckedCount ack),
      single ''vibedeck_ack_retry_dispatch_total'' ''Total retried control responses dispatched over P2P.'' ''counter'' (RetryDispatchCount ack),
      single ''vibedeck_ack_expired_total'' ''Total ACKs that expired.'' ''counter'' (ExpiredCount ack),
      single ''vibedeck_ack_exhausted_total'' ''Total ACKs that exhausted retry attempts.'' ''counter'' (ExhaustedCount ack),
      \<lparr>famName = ''vibedeck_ack_rtt_ms'', famHelp = ''ACK round-trip time in milliseconds.'', famKind = ''gauge'',
        famSamples = [([(''stat'', ''last'')], LastAckRTTMs ack), ([(''stat'', ''avg'')], AvgAckRTTMs ack), ([(''stat'', ''max'')], MaxAckRTTMs ack)]\<rparr>,
      control_family ''vibedeck_control_requests_total'' ''Total control request outcomes.'' ''counter'' ''result''
        (\<lambda>s. [(''success'', cmsSuccesses s), (''error'', cmsFailures s), (''timeout'', cmsTimeouts s)]) c,
      control_family ''vibedeck_control_latency_ms'' ''Control handler latency in milliseconds.'' ''gauge'' ''stat''
        (\<lambda>s. [(''last'', cmsLastLatencyMs s), (''avg'', cmsAvgLatencyMs s), (''max'', cmsMaxLatencyMs s)]) c]"

definition series :: "family list \<Rightarrow> (string \<times> (string \<times> string) list) list" where
  "series fs = concat (map (\<lambda>f. map (\<lambda>(ls, v). (famName f, ls)) (famSamples f)) fs)"

section \<open>Lemmas\<close>

lemma concat_map_nested: "concat (map f (concat xss)) = concat (map (\<lambda>xs. concat (map f xs)) xss)"
  by (induction xss) simp_all

lemma append_control_cells:
  "append_control app c = concat (map (\<lambda>x. app (fst (fst x)) (snd (fst x)) (snd x)) (control_cells c))"
  by (simp add: append_control_def control_cells_def o_def concat_map_nested)

lemma family_text_single:
  "family_text quote (single n h k v) = ''# HELP '' @ n @ '' '' @ h @ [LF] @ ''# TYPE '' @ n @ '' '' @ k @ [LF] @ n @ '' '' @ Itoa v @ [LF]"
  by (simp add: family_text_def single_def label_text_def)

lemma family_text_stats:
  "family_text quote (control_family ''vibedeck_control_requests_total'' ''Total control request outcomes.'' ''counter'' ''result''
     (\<lambda>s. [(''success'', cmsSuccesses s), (''error'', cmsFailures s), (''timeout'', cmsTimeouts s)]) c) =
   ''# HELP vibedeck_control_requests_total Total control request outcomes.'' @ [LF] @
   ''# TYPE vibedeck_control_requests_total counter'' @ [LF] @ append_control (appendControlPrometheusStats quote) c"
  by (simp add: family_text_def control_family_def append_control_cells concat_map_nested label_text_def
      appendControlPrometheusStats_def case_prod_beta o_def)

lemma family_text_latency:
  "family_text quote (control_family ''vibedeck_control_latency_ms'' ''Control handler latency in milliseconds.'' ''gauge'' ''stat''
     (\<lambda>s. [(''last'', cmsLastLatencyMs s), (''avg'', cmsAvgLatencyMs s), (''max'', cmsMaxLatencyMs s)]) c) =
   ''# HELP vibedeck_control_latency_ms Control handler latency in milliseconds.'' @ [LF] @
   ''# TYPE vibedeck_control_latency_ms gauge'' @ [LF] @ append_control (appendControlPrometheusLatency quote) c"
  by (simp add: family_text_def control_family_def append_control_cells concat_map_nested label_text_def
      appendControlPrometheusLatency_def case_prod_beta o_def)

lemma family_text_singles:
  "family_text quote (single ''vibedeck_p2p_active'' ''Whether the direct P2P session is active.'' ''gauge'' v) =
     ''# HELP vibedeck_p2p_active Whether the direct P2P session is active.'' @ [LF] @ ''# TYPE vibedeck_p2p_active gauge'' @ [LF] @ ''vibedeck_p2p_active '' @ Itoa v @ [LF]"
  "family_text quote (single ''vibedeck_ack_pending'' ''Current number of pending ACKs.'' ''gauge'' v) =
     ''# HELP vibedeck_ack_pending Current number of pending ACKs.'' @ [LF] @ ''# TYPE vibedeck_ack_pending gauge'' @ [LF] @ ''vibedeck_ack_pending '' @ Itoa v @ [LF]"
  "family_text quote (single ''vibedeck_ack_pending_max'' ''Maximum observed pending ACK queue depth.'' ''gauge'' v) =
     ''# HELP vibedeck_ack_pending_max Maximum observed pending ACK queue depth.'' @ [LF] @ ''# TYPE vibedeck_ack_pending_max gauge'' @ [LF] @ ''vibedeck_ack_pending_max '' @ Itoa v @ [LF]"
  "family_text quote (single ''vibedeck_ack_acked_total'' ''Total acknowledged control responses.'' ''counter'' v) =
     ''# HELP vibedeck_ack_acked_total Total acknowledged control responses.'' @ [LF] @ ''# TYPE vibedeck_ack_acked_total counter'' @ [LF] @ ''vibedeck_ack_acked_total '' @ Itoa v @ [LF]"
  "family_text quote (single ''vibedeck_ack_retry_dispatch_total'' ''Total retried control responses dispatched over P2P.'' ''counter'' v) =
     ''# HELP vibedeck_ack_retry_dispatch_total Total retried control responses dispatched over P2P.'' @ [LF] @ ''# TYPE vibedeck_ack_retry_dispatch_total counter'' @ [LF] @ ''vibedeck_ack_retry_dispatch_total '' @ Itoa v @ [LF]"
  "family_text quote (single ''vibedeck_ack_expired_total'' ''Total ACKs that expired.'' ''counter'' v) =
     ''# HELP vibedeck_ack_expired_total Total ACKs that expired.'' @ [LF] @ ''# TYPE vibedeck_ack_expired_total counter'' @ [LF] @ ''vibedeck_ack_expired_total '' @ Itoa v @ [LF]"
  "family_text quote (single ''vibedeck_ack_exhausted_total'' ''Total ACKs that exhausted retry attempts.'' ''counter'' v) =
     ''# HELP vibedeck_ack_exhausted_total Total ACKs that exhausted retry attempts.'' @ [LF] @ ''# TYPE vibedeck_ack_exhausted_total counter'' @ [LF] @ ''vibedeck_ack_exhausted_total '' @ Itoa v @ [LF]"
  by (simp_all add: family_text_single)

lemma family_text_labelled:
  "family_text quote \<lparr>famName = ''vibedeck_runtime_state'', famHelp = ''Current runtime state of the agent.'', famKind = ''gauge'',
     famSamples = map (\<lambda>s. ([(''state'', s)], if state = s then 1 else 0)) allConnectionStates\<rparr> =
   ''# HELP vibedeck_runtime_state Current runtime state of the agent.'' @ [LF] @ ''# TYPE vibedeck_runtime_state gauge'' @ [LF] @
   concat (map (\<lambda>candidate. ''vibedeck_runtime_state{state='' @ quote candidate @ ''} '' @ Itoa (if state = candidate then 1 else 0) @ [LF]) allConnectionStates)"
  "family_text quote \<lparr>famName = ''vibedeck_ack_pending_by_transport'', famHelp = ''Current pending ACKs split by transport.'', famKind = ''gauge'',
     famSamples = map (\<lambda>t. ([(''transport'', t)], map_at m 0 t)) ts\<rparr> =
   ''# HELP vibedeck_ack_pending_by_transport Current pending ACKs split by transport.'' @ [LF] @
   ''# TYPE vibedeck_ack_pending_by_transport gauge'' @ [LF] @
   concat (map (\<lambda>transport. ''vibedeck_ack_pending_by_transport{transport='' @ quote transport @ ''} '' @ Itoa (map_at m 0 transport) @ [LF]) ts)"
  "family_text quote \<lparr>famName = ''vibedeck_ack_rtt_ms'', famHelp = ''ACK round-trip time in milliseconds.'', famKind = ''gauge'',
     famSamples = [([(''stat'', ''last'')], v1), ([(''stat'', ''avg'')], v2), ([(''stat'', ''max'')], v3)]\<rparr> =
   ''# HELP vibedeck_ack_rtt_ms ACK round-trip time in milliseconds.'' @ [LF] @ ''# TYPE vibedeck_ack_rtt_ms gauge'' @ [LF] @
   ''vibedeck_ack_rtt_ms{stat='' @ quote ''last'' @ ''} '' @ Itoa v1 @ [LF] @
   ''vibedeck_ack_rtt_ms{stat='' @ quote ''avg'' @ ''} '' @ Itoa v2 @ [LF] @
   ''vibedeck_ack_rtt_ms{stat='' @ quote ''max'' @ ''} '' @ Itoa v3 @ [LF]"
  by (simp_all add: family_text_def label_text_def o_def)

lemma Itoa_bits: "Itoa 0 = ''0''" "Itoa 1 = ''1''"
  by code_simp+

lemma p2p_active_text:
  "(if b then ''vibedeck_p2p_active 1'' @ [LF] else ''vibedeck_p2p_active 0'' @ [LF]) = ''vibedeck_p2p_active '' @ Itoa (if b then 1 else 0) @ [LF]"
  by (simp add: Itoa_bits)

lemma render_exposition:
  "renderPrometheusMetrics quote state active ack c = concat (map (family_text quote) (exposition state active ack c))"
  by (simp only: exposition_def list.map concat.simps family_text_singles family_text_labelled family_text_stats family_text_latency
      renderPrometheusMetrics_def p2p_active_text append_assoc append_Nil2)

text \<open>No series twice.\<close>

lemma distinct_pairs:
  assumes "distinct ts" "\<And>t. t \<in> set ts \<Longrightarrow> distinct (f t)"
  shows "distinct (concat (map (\<lambda>t. map (Pair t) (f t)) ts))"
  using assms by (induction ts) (auto simp: distinct_map inj_on_def)

lemma distinct_sorted_keys: "wf_map m \<Longrightarrow> distinct (sortedStringKeys m)"
  by (simp add: sortedStringKeys_def sort_Strings_def wf_map_def)

lemma set_sorted_keys: "set (sortedStringKeys m) = set (map_keys m)"
  by (simp add: sortedStringKeys_def sort_Strings_def)

definition snapshot_wf :: "ControlMetricsSnapshot \<Rightarrow> bool" where
  "snapshot_wf c \<longleftrightarrow> wf_map (snapByPath c) \<and> wf_map (snapByType c) \<and> wf_map (snapByTypePath c) \<and>
     (\<forall>t b. map_of (snapByTypePath c) t = Some b \<longrightarrow> wf_map b \<and> ''all'' \<notin> set (map_keys b)) \<and>
     ''all'' \<notin> set (map_keys (snapByPath c))"

lemma cells_distinct:
  assumes "snapshot_wf c" "''all'' \<notin> set (map_keys (snapByType c))" "''all'' \<notin> set (map_keys (snapByTypePath c))"
  shows "distinct (map fst (control_cells c))"
proof -
  let ?ts = "sortedStringKeys (snapByTypePath c)" let ?f = "\<lambda>t. sortedStringKeys (map_at (snapByTypePath c) [] t)"
  have inner: "wf_map (map_at (snapByTypePath c) [] t) \<and> ''all'' \<notin> set (?f t)" for t
    using assms(1) by (cases "map_of (snapByTypePath c) t") (auto simp: snapshot_wf_def map_at_def set_sorted_keys map_keys_def)
  have "map fst (control_cells c) = (''all'', ''all'') # map (Pair ''all'') (sortedStringKeys (snapByPath c)) @
      map (\<lambda>t. (t, ''all'')) (sortedStringKeys (snapByType c)) @ concat (map (\<lambda>t. map (Pair t) (?f t)) ?ts)"
    by (simp add: control_cells_def o_def map_concat)
  moreover have "distinct (concat (map (\<lambda>t. map (Pair t) (?f t)) ?ts))"
    by (rule distinct_pairs) (use assms(1) inner in \<open>auto simp: snapshot_wf_def intro: distinct_sorted_keys\<close>)
  ultimately show ?thesis
    using assms inner by (auto simp: snapshot_wf_def distinct_map inj_on_def distinct_sorted_keys set_sorted_keys)
qed

lemma control_series_distinct:
  assumes "distinct (map fst (control_cells c))" "\<And>s. map fst (stats s) = rs" "distinct rs"
  shows "distinct (map fst (famSamples (control_family n h k key stats c)))"
proof -
  have "distinct (concat (map (\<lambda>x. map (\<lambda>r. [(''type'', fst (fst x)), (''path'', snd (fst x)), (key, r)]) rs) xs))"
    if "distinct (map fst xs)" for xs :: "((string \<times> string) \<times> ControlMetricStats) list"
    using that by (induction xs) (use assms(3) in \<open>force simp: distinct_map inj_on_def\<close>)+
  moreover have named: "map (\<lambda>y. [a, b, (key, fst y)]) (stats s) = map (\<lambda>r. [a, b, (key, r)]) rs" for a b s
    using assms(2) [of s, symmetric] by (simp add: o_def)
  moreover have "map fst (famSamples (control_family n h k key stats c)) =
      concat (map (\<lambda>x. map (\<lambda>r. [(''type'', fst (fst x)), (''path'', snd (fst x)), (key, r)]) rs) (control_cells c))"
    by (simp add: control_family_def map_concat o_def case_prod_beta named)
  ultimately show ?thesis using assms(1) by simp
qed

text \<open>What the tables of the running agent look like.\<close>

lemma put_all_keys: "set (map_keys (put_all f m acc)) = set (map_keys m) \<union> set (map_keys acc)"
  by (induction m arbitrary: acc) (auto simp: put_all_def map_keys_def dom_update case_prod_beta)

lemma put_all_wf: "wf_map acc \<Longrightarrow> wf_map (put_all f m acc)"
  by (induction m arbitrary: acc) (auto simp: put_all_def)

lemma observe_keys:
  "set (map_keys (cmByType (observe o1 m))) = insert (obs_type o1) (set (map_keys (cmByType m)))"
  "set (map_keys (cmByTypePath (observe o1 m))) = insert (obs_type o1) (set (map_keys (cmByTypePath m)))"
  "set (map_keys (cmByPath (observe o1 m))) = insert (obs_path o1) (set (map_keys (cmByPath m)))"
  by (auto simp: observe_def ControlMetrics_Observe_def Let_def obs_type_def obs_path_def map_keys_def dom_update split: prod.splits)

lemma observed_types:
  "set (map_keys (cmByType (fold observe os NewControlMetrics))) = obs_type ` set os \<and>
   set (map_keys (cmByTypePath (fold observe os NewControlMetrics))) = obs_type ` set os"
proof (induction os rule: rev_induct)
  case Nil
  show ?case by (simp add: NewControlMetrics_def map_keys_def)
next
  case (snoc o1 os)
  then show ?case by (simp add: observe_keys)
qed

lemma observed_paths:
  "set (map_keys (cmByPath (fold observe os NewControlMetrics))) \<subseteq> {ControlPathUnknown, ControlPathHTTP, ControlPathP2P}"
proof (induction os rule: rev_induct)
  case Nil
  show ?case by (simp add: NewControlMetrics_def map_keys_def)
next
  case (snoc o1 os)
  then show ?case using obs_path_cases [of o1] by (simp add: observe_keys)
qed

lemma empty_paths: "wf_map [(ControlPathUnknown, z), (ControlPathHTTP, z), (ControlPathP2P, z)]" "wf_map []"
  by (simp_all add: wf_map_def map_keys_def)

lemma snapshot_tables_wf: "snapshot_wf (ControlMetrics_Snapshot (fold observe os NewControlMetrics))"
proof -
  define m where "m = fold observe os NewControlMetrics"
  have tabs: "tables_of os m" using tables_all [OF tables_New, of os] by (simp add: m_def)
  have wf: "metrics_wf m" using tables_wf by (simp add: m_def)
  have all: "(''all'' :: string) \<notin> {ControlPathUnknown, ControlPathHTTP, ControlPathP2P}" by simp
  have inner: "wf_map b \<and> ''all'' \<notin> set (map_keys b)" if got: "map_of (snapByTypePath (ControlMetrics_Snapshot m)) t = Some b" for t b
  proof -
    obtain a where a: "map_of (cmByTypePath m) t = Some a" and b: "b = put_all snapshotAccumulator a []"
      using got wf map_of_rev_wf [of "cmByTypePath m"]
      by (auto simp: ControlMetrics_Snapshot_def map_of_put_all EmptyControlMetricsSnapshot_def metrics_wf_def split: option.splits)
    have "case map_of (cmByTypePath m) t of None \<Rightarrow> cell (\<lambda>o1. obs_type o1 = t) os = None
      | Some b \<Rightarrow> \<forall>p. map_of b p = cell (\<lambda>o1. obs_type o1 = t \<and> obs_path o1 = p) os"
      using tabs unfolding tables_of_def by blast
    with a have "map_of a ''all'' = cell (\<lambda>o1. obs_type o1 = t \<and> obs_path o1 = ''all'') os" by simp
    also have "\<dots> = None"
    proof -
      have "obs_path x \<noteq> ''all''" for x using obs_path_cases [of x] all by metis
      then show ?thesis by (simp add: cell_def filter_empty_conv)
    qed
    finally have "''all'' \<notin> set (map_keys a)" by (simp add: map_of_eq_None_iff map_keys_def)
    then show ?thesis by (simp add: b put_all_keys put_all_wf) (simp add: map_keys_def)
  qed
  have "''all'' \<notin> set (map_keys (snapByPath (ControlMetrics_Snapshot m)))"
    using observed_paths [of os] all
    unfolding ControlMetrics_Snapshot_def EmptyControlMetricsSnapshot_def Let_def m_def
    by (simp only: ControlMetricsSnapshot.simps put_all_keys) (auto simp: map_keys_def)
  moreover have "wf_map (snapByPath (ControlMetrics_Snapshot m)) \<and> wf_map (snapByType (ControlMetrics_Snapshot m)) \<and>
      wf_map (snapByTypePath (ControlMetrics_Snapshot m))"
    by (simp add: ControlMetrics_Snapshot_def EmptyControlMetricsSnapshot_def put_all_wf empty_paths)
  ultimately show ?thesis using inner unfolding snapshot_wf_def m_def by blast
qed

lemma snapshot_types:
  "set (map_keys (snapByType (ControlMetrics_Snapshot (fold observe os NewControlMetrics)))) = obs_type ` set os"
  "set (map_keys (snapByTypePath (ControlMetrics_Snapshot (fold observe os NewControlMetrics)))) = obs_type ` set os"
  using observed_types [of os]
  by (simp_all add: ControlMetrics_Snapshot_def EmptyControlMetricsSnapshot_def put_all_keys) (simp_all add: map_keys_def)

lemma distinct_label: "distinct (map (\<lambda>s. [(k, s)]) xs) = distinct xs"
  by (simp add: distinct_map inj_on_def)

lemma distinct_series:
  "distinct (map famName fs) \<Longrightarrow> (\<forall>f \<in> set fs. distinct (map fst (famSamples f))) \<Longrightarrow> distinct (series fs)"
proof (induction fs)
  case (Cons f fs)
  have "map (\<lambda>(ls, v). (famName f, ls)) (famSamples f) = map (Pair (famName f)) (map fst (famSamples f))"
    by (simp add: case_prod_beta)
  then have "distinct (map (\<lambda>(ls, v). (famName f, ls)) (famSamples f))"
    using Cons.prems(2) by (simp add: distinct_map inj_on_def del: map_map)
  moreover have "fst ` set (series fs) \<subseteq> set (map famName fs)" by (auto simp: series_def)
  ultimately show ?case using Cons by (fastforce simp: series_def)
qed (simp add: series_def)

section \<open>Properties\<close>

text \<open>
  C30: The metrics page is an exposition of the current state, the acknowledgement metrics and the
  control metrics: family by family, each sample with the value of the snapshot; exactly one
  connection state is shown as the current one; and no series occurs twice, as long as no client
  has sent a message of the type \<open>all\<close>.
\<close>

theorem prometheus_exposition:
  fixes os :: "observation list"
  defines "c \<equiv> ControlMetrics_Snapshot (fold observe os NewControlMetrics)"
  assumes "\<forall>o1 \<in> set os. obs_type o1 \<noteq> ''all''" "wf_map (PendingByTransport ack)" "state \<in> set allConnectionStates"
  shows "renderPrometheusMetrics quote state active ack c = concat (map (family_text quote) (exposition state active ack c)) \<and>
    distinct (series (exposition state active ack c)) \<and>
    filter (\<lambda>(ls, v). v \<noteq> 0) (famSamples (hd (exposition state active ack c))) = [([(''state'', state)], 1)]"
proof -
  have "''all'' \<notin> obs_type ` set os" using assms(2) by force
  then have cells: "distinct (map fst (control_cells c))"
    unfolding c_def by (intro cells_distinct snapshot_tables_wf) (simp_all add: snapshot_types)
  have "distinct (map famName (exposition state active ack c))"
    by (simp add: exposition_def single_def control_family_def)
  moreover have "\<forall>f \<in> set (exposition state active ack c). distinct (map fst (famSamples f))"
    unfolding exposition_def
    by (simp add: control_series_distinct [OF cells, where rs = "[''success'', ''error'', ''timeout'']"]
        control_series_distinct [OF cells, where rs = "[''last'', ''avg'', ''max'']"] single_def o_def distinct_label
        distinct_sorted_keys assms(3) allConnectionStates_def)
  ultimately have "distinct (series (exposition state active ack c))" by (rule distinct_series)
  moreover have "filter (\<lambda>(ls, v). v \<noteq> 0) (famSamples (hd (exposition state active ack c))) = [([(''state'', state)], 1)]"
    using assms(4) by (auto simp: exposition_def allConnectionStates_def)
  ultimately show ?thesis using render_exposition by blast
qed

definition ex_observed :: "observation list" where
  "ex_observed = [\<lparr>obsType = ''PROMPT_SUBMIT'', obsPath = ''http'', obsDuration = 3000000, obsError = None\<rparr>]"

theorem prometheus_exposition_witness:
  "distinct (series (exposition StateP2PConnected True EmptyAckMetrics
     (ControlMetrics_Snapshot (fold observe ex_observed NewControlMetrics)))) \<and>
   length (series (exposition StateP2PConnected True EmptyAckMetrics
     (ControlMetrics_Snapshot (fold observe ex_observed NewControlMetrics)))) = 56"
proof -
  have ok: "list_all (\<lambda>o1. obs_type o1 \<noteq> ''all'') ex_observed" "wf_map (PendingByTransport EmptyAckMetrics)"
    "StateP2PConnected \<in> set allConnectionStates"
    "length (series (exposition StateP2PConnected True EmptyAckMetrics
     (ControlMetrics_Snapshot (fold observe ex_observed NewControlMetrics)))) = 56" by code_simp+
  from prometheus_exposition [OF ok(1) [unfolded list_all_iff] ok(2,3), of "\<lambda>s. s" True] ok(4) show ?thesis by simp
qed

text \<open>A client that sends a message of type \<open>all\<close> makes series occur twice.\<close>

lemma type_all_duplicates_series:
  "\<not> distinct (series (exposition StatePairing False EmptyAckMetrics
     (ControlMetrics_Snapshot (observe \<lparr>obsType = ''all'', obsPath = ''http'', obsDuration = 0, obsError = None\<rparr> NewControlMetrics))))"
  by code_simp

end
