(* ===== verification/Agent_Http.thy ===== *)
theory Agent_Http
  imports Agent_Bootstrap Adapter_Json Prometheus
begin

text \<open>
  The HTTP server of the agent (\<open>internal/agent/http_server.go\<close>, \<open>http_server_bootstrap.go\<close>), with
  the answer to a discovery probe (\<open>lan_discovery.go\<close>). A handler is a function from a request and
  the server to a response and the server; \<open>None\<close> is the panic of a \<open>nil\<close> pointer, which \<open>net/http\<close>
  turns into a broken connection. The server and its peer-to-peer manager share the agent; the
  manager's is the one when there is a manager. What a handler reads of the world (clock, map
  orders, the library, the network) is the record \<open>http_env\<close>.
\<close>

section \<open>State\<close>

record ('s, 'p) HTTPServer =
  hsAdapter :: "'s WorkspaceAdapter option"
  hsRuntimeInfo :: "AdapterRuntimeInfo option"
  hsOrcAdapter :: "duration \<Rightarrow> 's WorkspaceAdapter"
  hsAgent :: "'s Agent"
  hsHasState :: bool
  hsP2P :: "('s, 'p) P2PSessionManager option"
  hsConfig :: HTTPServerConfig

record 'p http_env =
  heNow :: instant
  heEnd :: instant
  heAckOrder :: "string list"
  heThreadOrder :: "string list"
  heProfileOrder :: "string list"
  heTimeText :: "instant \<Rightarrow> string"
  heQuote :: "string \<Rightarrow> string"
  heNet :: netlib
  hePion :: "'p Pion"
  heStart :: "'p start_env"
  heHostname :: "string result"
  heInterfaces :: "interface list result"

datatype http_response = Json response | Plain int string

definition server_agent :: "('s, 'p) HTTPServer \<Rightarrow> 's Agent" where
  "server_agent s = (case hsP2P s of None \<Rightarrow> hsAgent s | Some m \<Rightarrow> pmAgent m)"

definition on_agent :: "('s Agent \<Rightarrow> 's Agent) \<Rightarrow> ('s, 'p) HTTPServer \<Rightarrow> ('s, 'p) HTTPServer" where
  "on_agent f s =
     (case hsP2P s of
        None \<Rightarrow> s\<lparr>hsAgent := f (hsAgent s)\<rparr>
      | Some m \<Rightarrow> s\<lparr>hsP2P := Some (m\<lparr>pmAgent := f (pmAgent m)\<rparr>)\<rparr>)"

definition NewHTTPServer ::
    "'s WorkspaceAdapter option \<Rightarrow> AdapterRuntimeInfo option \<Rightarrow> (duration \<Rightarrow> 's WorkspaceAdapter) \<Rightarrow> 's Agent \<Rightarrow> bool \<Rightarrow>
     ('s, 'p) P2PSessionManager option \<Rightarrow> HTTPServerConfig \<Rightarrow> ('s, 'p) HTTPServer" where
  "NewHTTPServer adapter info adapterOf agent hasState p2pManager config =
     \<lparr>hsAdapter = adapter, hsRuntimeInfo = info, hsOrcAdapter = adapterOf, hsAgent = agent, hsHasState = hasState,
      hsP2P = p2pManager, hsConfig = normalizeHTTPServerConfig config\<rparr>"

section \<open>Encodings\<close>

definition map_json :: "('v \<Rightarrow> json) \<Rightarrow> 'v \<Rightarrow> (string, 'v) gomap \<Rightarrow> json" where
  "map_json enc zero m = JObj (map (\<lambda>k. (toValidUTF8 k, enc (map_at m zero k))) (sortedStringKeys m))"

definition Transition_json :: "Transition \<Rightarrow> json" where
  "Transition_json t = JObj ([(''state'', enc_string (trState t)), (''at'', JInt (trAt t))] @ omit_string ''note'' (trNote t))"

definition PendingAck_json :: "(instant \<Rightarrow> string) \<Rightarrow> PendingAck \<Rightarrow> json" where
  "PendingAck_json time p = JObj
     [(''sid'', enc_string (ackSID p)), (''rid'', enc_string (ackRID p)), (''messageType'', enc_string (ackMessageType p)),
      (''transport'', enc_string (ackTransport p)), (''registeredAt'', JStr (time (RegisteredAt p))),
      (''lastSentAt'', JStr (time (LastSentAt p))), (''expiresAt'', JStr (time (ExpiresAt p))),
      (''retryEnabled'', JBool (RetryEnabled p)), (''retryCount'', JInt (RetryCount p)), (''maxRetries'', JInt (MaxRetries p))]"

definition AckMetrics_json :: "AckMetrics \<Rightarrow> json" where
  "AckMetrics_json m = JObj
     [(''pendingCount'', JInt (PendingCount m)), (''maxPendingCount'', JInt (MaxPendingCount m)),
      (''pendingByTransport'', map_json JInt 0 (PendingByTransport m)), (''ackedCount'', JInt (AckedCount m)),
      (''retryDispatchCount'', JInt (RetryDispatchCount m)), (''expiredCount'', JInt (ExpiredCount m)),
      (''exhaustedCount'', JInt (ExhaustedCount m)), (''lastAckRttMs'', JInt (LastAckRTTMs m)),
      (''avgAckRttMs'', JInt (AvgAckRTTMs m)), (''maxAckRttMs'', JInt (MaxAckRTTMs m))]"

definition ControlMetricStats_json :: "ControlMetricStats \<Rightarrow> json" where
  "ControlMetricStats_json s = JObj
     [(''requests'', JInt (cmsRequests s)), (''successes'', JInt (cmsSuccesses s)), (''failures'', JInt (cmsFailures s)),
      (''timeouts'', JInt (cmsTimeouts s)), (''lastLatencyMs'', JInt (cmsLastLatencyMs s)),
      (''avgLatencyMs'', JInt (cmsAvgLatencyMs s)), (''maxLatencyMs'', JInt (cmsMaxLatencyMs s))]"

definition ControlMetricsSnapshot_json :: "ControlMetricsSnapshot \<Rightarrow> json" where
  "ControlMetricsSnapshot_json s = JObj
     [(''totals'', ControlMetricStats_json (snapTotals s)), (''byPath'', map_json ControlMetricStats_json zero_stats (snapByPath s)),
      (''byType'', map_json ControlMetricStats_json zero_stats (snapByType s)),
      (''byTypePath'', map_json (map_json ControlMetricStats_json zero_stats) [] (snapByTypePath s))]"

definition P2PSessionStatus_json :: "P2PSessionStatus \<Rightarrow> json" where
  "P2PSessionStatus_json s = JObj ([(''active'', JBool (pssActive s))] @ omit_string ''sessionId'' (pssSessionID s) @
     omit_string ''pairingCode'' (pssPairingCode s) @ omit_int ''expiresAt'' (pssExpiresAt s) @
     omit_string ''signalingBaseUrl'' (pssSignalingBaseURL s) @ [(''state'', enc_string (pssState s))] @
     omit_string ''lastError'' (pssLastError s) @ [(''updatedAt'', JInt (pssUpdatedAt s))])"

definition AdapterRuntimeInfo_json :: "AdapterRuntimeInfo \<Rightarrow> json" where
  "AdapterRuntimeInfo_json i = JObj ([(''name'', enc_string (ariName i))] @ omit_string ''mode'' (ariMode i) @
     [(''ready'', JBool (ariReady i)), (''capabilities'', AdapterCapabilities_json (ariCapabilities i))] @
     omit_string ''workspaceRoot'' (ariWorkspaceRoot i) @ omit_string ''binary'' (ariBinary i) @
     omit_string ''binaryPath'' (ariBinaryPath i) @ omit_string ''bridgeAddress'' (ariBridgeAddress i) @
     omit_string ''tempRoot'' (ariTempRoot i) @ omit_string ''promptTimeout'' (ariPromptTimeout i) @
     omit_string ''runTimeout'' (ariRunTimeout i) @ omit_list enc_string ''notes'' (ariNotes i))"

definition RunProfileDescriptor_json :: "RunProfileDescriptor \<Rightarrow> json" where
  "RunProfileDescriptor_json d = JObj ([(''id'', enc_string (rpdID d)), (''label'', enc_string (rpdLabel d)),
     (''command'', enc_string (rpdCommand d)), (''scope'', enc_string (rpdScope d))] @ omit_bool ''optional'' (rpdOptional d))"

text \<open>The responses of the control router: a \<open>nil\<close> slice when there are none.\<close>

definition responses_json :: "Envelope list \<Rightarrow> json" where
  "responses_json rs = (if rs = [] then JNull else JArr (map Envelope_json rs))"

text \<open>The request of \<open>handleRuntimeState\<close>, and that of \<open>handleP2PStart\<close>, whose errors are ignored.\<close>

definition runtime_state_put :: "string \<Rightarrow> json \<Rightarrow> string \<times> string \<Rightarrow> (string \<times> string) result" where
  "runtime_state_put f v r =
     (if f = ''action'' then map_result (\<lambda>x. (x, snd r)) (decode_string v (fst r))
      else map_result (\<lambda>x. (fst r, x)) (decode_string v (snd r)))"

definition start_request_field :: "string \<times> json \<Rightarrow> StartP2PRequest \<Rightarrow> StartP2PRequest" where
  "start_request_field kv req =
     (case (json_field [''signalingBaseUrl''] (fst kv), snd kv) of
        (Some _, JStr x) \<Rightarrow> req\<lparr>sprSignalingBaseURL := x\<rparr>
      | _ \<Rightarrow> req)"

definition start_request :: "json option \<Rightarrow> StartP2PRequest" where
  "start_request body =
     (case body of Some (JObj kvs) \<Rightarrow> fold start_request_field kvs \<lparr>sprSignalingBaseURL = []\<rparr>
      | _ \<Rightarrow> \<lparr>sprSignalingBaseURL = []\<rparr>)"

section \<open>Handlers\<close>

text \<open>The members of a Go map are written in the order of their keys, those of a struct in the order of its fields.\<close>

abbreviation StatusNotImplemented :: int where "StatusNotImplemented \<equiv> 501"

definition method_not_allowed :: http_response where
  "method_not_allowed = Json (writeJSON StatusMethodNotAllowed (error_json ''method not allowed''))"

definition ok_json :: "(string \<times> json) list \<Rightarrow> http_response" where
  "ok_json kvs = Json (writeJSON StatusOK (JObj kvs))"

text \<open>\<open>p2pManager.Status()\<close>, where there is a manager; the call refreshes the manager's snapshot.\<close>

definition p2p_active :: "'p http_env \<Rightarrow> ('s, 'p) HTTPServer \<Rightarrow> bool \<times> ('s, 'p) HTTPServer" where
  "p2p_active E s =
     (case hsP2P s of
        None \<Rightarrow> (False, s)
      | Some m \<Rightarrow> (case P2P_Status (heNow E) m of (status, m) \<Rightarrow> (pssActive status, s\<lparr>hsP2P := Some m\<rparr>)))"

definition server_state :: "('s, 'p) HTTPServer \<Rightarrow> ConnectionState" where
  "server_state s = (if hsHasState s then StateManager_State (agConn (server_agent s)) else StatePairing)"

definition pending_count :: "('s, 'p) HTTPServer \<Rightarrow> int" where
  "pending_count s = (case agAcks (server_agent s) of None \<Rightarrow> 0 | Some t \<Rightarrow> AckTracker_PendingCount t)"

definition handleHealth :: "'p http_env \<Rightarrow> ('s, 'p) HTTPServer \<Rightarrow> http_response \<times> ('s, 'p) HTTPServer" where
  "handleHealth E s =
     (case p2p_active E s of
        (p2pActive, s) \<Rightarrow>
          (ok_json [(''p2pActive'', JBool p2pActive), (''pendingAcks'', JInt (pending_count s)),
             (''state'', enc_string (server_state s)), (''status'', enc_string ''ok'')], s))"

definition handleEnvelope :: "'p http_env \<Rightarrow> http_request \<Rightarrow> ('s, 'p) HTTPServer \<Rightarrow> http_response \<times> ('s, 'p) HTTPServer" where
  "handleEnvelope E r s =
     (if rqMethod r \<noteq> ''POST'' then (method_not_allowed, s)
      else case (case rqBody r of None \<Rightarrow> Inl json_error | Some j \<Rightarrow> Envelope_unjson j) of
        Inl err \<Rightarrow> (Json (writeJSON StatusBadRequest (error_json ''invalid envelope json'')), s)
      | Inr env \<Rightarrow>
          (case handle_observed (heNow E) (heEnd E) (hsOrcAdapter s) ControlPathHTTP env (server_agent s) of
             ((result, err), agent) \<Rightarrow>
               let s = on_agent (\<lambda>_. agent) s in
               if Type env = TypeCmdAck then
                 (case err of
                    Some err \<Rightarrow> (Json (writeJSON StatusBadRequest (error_json ''invalid CMD_ACK payload'')), s)
                  | None \<Rightarrow>
                      (ok_json [(''handled'', JBool (chrAckHandled result)), (''pendingAcks'', JInt (pending_count s)),
                         (''requestRid'', enc_string (chrAckRequestID result))], s))
               else
                 let s = on_agent (\<lambda>a. a\<lparr>agAcks := registerAckableResponses (heEnd E) (agAcks a) (chrResponses result) AckTransportHTTP False\<rparr>) s
                 in case err of
                      Some err \<Rightarrow> (Json (writeJSON StatusBadRequest (JObj
                        [(''error'', enc_string (Error err)), (''responses'', responses_json (chrResponses result))])), s)
                    | None \<Rightarrow> (ok_json [(''responses'', responses_json (chrResponses result))], s)))"

text \<open>The state and the history, as two handlers show them.\<close>

definition state_response :: "('s, 'p) HTTPServer \<Rightarrow> http_response" where
  "state_response s = ok_json [(''history'', JArr (map Transition_json (StateManager_History (agConn (server_agent s))))),
     (''state'', enc_string (StateManager_State (agConn (server_agent s))))]"

definition state_action :: "instant \<Rightarrow> string \<Rightarrow> string \<Rightarrow> (StateManager \<Rightarrow> StateManager) option" where
  "state_action now action note =
     (if action = ''begin_signaling'' then Some (BeginSignaling now)
      else if action = ''begin_p2p'' then Some (BeginP2P now)
      else if action = ''p2p_connected'' then Some (MarkP2PConnected now)
      else if action = ''relay_connected'' then Some (MarkRelayConnected now note)
      else if action = ''reconnecting'' then Some (BeginReconnect now)
      else if action = ''close'' then Some (StateManager_Close now)
      else None)"

definition handleRuntimeState :: "'p http_env \<Rightarrow> http_request \<Rightarrow> ('s, 'p) HTTPServer \<Rightarrow> (http_response \<times> ('s, 'p) HTTPServer) option" where
  "handleRuntimeState E r s =
     (if rqMethod r = ''GET'' then (if hsHasState s then Some (state_response s, s) else None)
      else if rqMethod r = ''POST'' then
        (case (case rqBody r of None \<Rightarrow> Inl json_error | Some j \<Rightarrow> decode_struct [''action'', ''note''] runtime_state_put j ([], [])) of
           Inl err \<Rightarrow> Some (Json (writeJSON StatusBadRequest (error_json ''invalid runtime state request'')), s)
         | Inr (action, note) \<Rightarrow>
             (case state_action (heNow E) (strings_ToLower (strings_TrimSpace action)) note of
                None \<Rightarrow> Some (Json (writeJSON StatusBadRequest (error_json ''unknown action'')), s)
              | Some f \<Rightarrow>
                  if \<not> hsHasState s then None
                  else let s = on_agent (\<lambda>a. a\<lparr>agConn := f (agConn a)\<rparr>) s in Some (state_response s, s)))
      else Some (method_not_allowed, s))"

definition server_ack_metrics :: "'p http_env \<Rightarrow> ('s, 'p) HTTPServer \<Rightarrow> AckMetrics" where
  "server_ack_metrics E s = (case agAcks (server_agent s) of None \<Rightarrow> EmptyAckMetrics | Some t \<Rightarrow> AckTracker_Metrics (heAckOrder E) t)"

definition server_control_metrics :: "('s, 'p) HTTPServer \<Rightarrow> ControlMetricsSnapshot" where
  "server_control_metrics s =
     (case agMetrics (server_agent s) of None \<Rightarrow> EmptyControlMetricsSnapshot | Some m \<Rightarrow> ControlMetrics_Snapshot m)"

definition handleRuntimeMetrics :: "'p http_env \<Rightarrow> http_request \<Rightarrow> ('s, 'p) HTTPServer \<Rightarrow> http_response \<times> ('s, 'p) HTTPServer" where
  "handleRuntimeMetrics E r s =
     (if rqMethod r \<noteq> ''GET'' then (method_not_allowed, s)
      else case p2p_active E s of
        (p2pActive, s) \<Rightarrow>
          (ok_json [(''ack'', AckMetrics_json (server_ack_metrics E s)),
             (''control'', ControlMetricsSnapshot_json (server_control_metrics s)), (''p2pActive'', JBool p2pActive),
             (''state'', enc_string (server_state s))], s))"

definition handlePrometheusMetrics :: "'p http_env \<Rightarrow> http_request \<Rightarrow> ('s, 'p) HTTPServer \<Rightarrow> http_response \<times> ('s, 'p) HTTPServer" where
  "handlePrometheusMetrics E r s =
     (if rqMethod r \<noteq> ''GET'' then (method_not_allowed, s)
      else case p2p_active E s of
        (p2pActive, s) \<Rightarrow>
          (Plain StatusOK (renderPrometheusMetrics (heQuote E) (server_state s) p2pActive
             (server_ack_metrics E s) (server_control_metrics s)), s))"

definition handleRuntimeAdapter :: "http_request \<Rightarrow> ('s, 'p) HTTPServer \<Rightarrow> http_response \<times> ('s, 'p) HTTPServer" where
  "handleRuntimeAdapter r s =
     (if rqMethod r \<noteq> ''GET'' then (method_not_allowed, s)
      else (Json (writeJSON StatusOK (AdapterRuntimeInfo_json (adapter_info (hsAdapter s) (hsRuntimeInfo s)))), s))"

definition handleRunProfiles :: "'p http_env \<Rightarrow> http_request \<Rightarrow> ('s, 'p) HTTPServer \<Rightarrow> http_response \<times> ('s, 'p) HTTPServer" where
  "handleRunProfiles E r s =
     (if rqMethod r \<noteq> ''GET'' then (method_not_allowed, s)
      else let profiles = (case agOrc (server_agent s) of None \<Rightarrow> [] | Some o1 \<Rightarrow> Orchestrator_RunProfiles (heProfileOrder E) o1)
        in (ok_json [(''profiles'', JArr (map RunProfileDescriptor_json profiles))], s))"

definition handleThreads :: "'p http_env \<Rightarrow> http_request \<Rightarrow> ('s, 'p) HTTPServer \<Rightarrow> http_response \<times> ('s, 'p) HTTPServer" where
  "handleThreads E r s =
     (if rqMethod r \<noteq> ''GET'' then (method_not_allowed, s)
      else let threads = (case agOrc (server_agent s) of None \<Rightarrow> [] | Some o1 \<Rightarrow> ThreadStore_List (heThreadOrder E) (orcThreads o1))
        in (ok_json [(''threads'', JArr (map ThreadSummary_json threads))], s))"

definition handleThreadDetail :: "http_request \<Rightarrow> ('s, 'p) HTTPServer \<Rightarrow> http_response \<times> ('s, 'p) HTTPServer" where
  "handleThreadDetail r s =
     (if rqMethod r \<noteq> ''GET'' then (method_not_allowed, s)
      else
        let prefix = ''/v1/agent/threads/'';
            threadID = (if strings_HasPrefix (rqPath r) prefix then drop (length prefix) (rqPath r) else rqPath r);
            threadID = strings_TrimSpace (strings_Trim threadID ''/'')
        in if threadID = [] then (Json (writeJSON StatusBadRequest (error_json ''thread id is required'')), s)
           else case agOrc (server_agent s) of
             None \<Rightarrow> (Json (writeJSON StatusNotFound (error_json ''thread not found'')), s)
           | Some o1 \<Rightarrow>
               (case ThreadStore_Get threadID (orcThreads o1) of
                  None \<Rightarrow> (Json (writeJSON StatusNotFound (error_json ''thread not found'')), s)
                | Some detail \<Rightarrow> (Json (writeJSON StatusOK (ThreadDetail_json detail)), s)))"

definition expired_response :: "'p http_env \<Rightarrow> PendingAck list \<Rightarrow> ('s, 'p) HTTPServer \<Rightarrow> http_response" where
  "expired_response E expired s = ok_json [(''expired'', JArr (map (PendingAck_json (heTimeText E)) expired)),
     (''state'', enc_string (StateManager_State (agConn (server_agent s))))]"

definition handleExpiredAcks :: "'p http_env \<Rightarrow> http_request \<Rightarrow> ('s, 'p) HTTPServer \<Rightarrow> (http_response \<times> ('s, 'p) HTTPServer) option" where
  "handleExpiredAcks E r s =
     (if rqMethod r \<noteq> ''GET'' then Some (method_not_allowed, s)
      else case agAcks (server_agent s) of
        None \<Rightarrow> if hsHasState s then Some (expired_response E [] s, s) else None
      | Some tracker \<Rightarrow>
          if \<not> hsHasState s then None
          else (case AckTracker_Expired (heNow E) (heAckOrder E) tracker of
            (tracker, expired) \<Rightarrow>
              let s = on_agent (\<lambda>a. a\<lparr>agAcks := Some tracker\<rparr>) s;
                  s = (if expired \<noteq> [] then on_agent (\<lambda>a. a\<lparr>agConn := BeginReconnect (heNow E) (agConn a)\<rparr>) s else s)
              in Some (expired_response E expired s, s)))"

definition handlePendingAcks :: "'p http_env \<Rightarrow> http_request \<Rightarrow> ('s, 'p) HTTPServer \<Rightarrow> http_response \<times> ('s, 'p) HTTPServer" where
  "handlePendingAcks E r s =
     (if rqMethod r \<noteq> ''GET'' then (method_not_allowed, s)
      else case agAcks (server_agent s) of
        None \<Rightarrow> (ok_json [(''count'', JInt 0), (''pending'', JArr [])], s)
      | Some tracker \<Rightarrow>
          (ok_json [(''count'', JInt (AckTracker_PendingCount tracker)),
             (''pending'', JArr (map (PendingAck_json (heTimeText E)) (AckTracker_Snapshot (heAckOrder E) tracker)))], s))"

definition p2p_not_configured :: http_response where
  "p2p_not_configured = Json (writeJSON StatusNotImplemented (error_json ''p2p manager is not configured''))"

definition p2p_result :: "P2PSessionStatus \<times> goerror option \<Rightarrow> http_response" where
  "p2p_result res =
     (case res of
        (status, Some err) \<Rightarrow> Json (writeJSON StatusBadRequest (JObj
          [(''error'', enc_string (Error err)), (''status'', P2PSessionStatus_json status)]))
      | (status, None) \<Rightarrow> Json (writeJSON StatusOK (P2PSessionStatus_json status)))"

definition handleP2PStart :: "'p http_env \<Rightarrow> http_request \<Rightarrow> ('s, 'p) HTTPServer \<Rightarrow> http_response \<times> ('s, 'p) HTTPServer" where
  "handleP2PStart E r s =
     (case hsP2P s of
        None \<Rightarrow> (p2p_not_configured, s)
      | Some m \<Rightarrow>
          if rqMethod r \<noteq> ''POST'' then (method_not_allowed, s)
          else case P2P_Start (heNow E) (hePion E) (heStart E) (start_request (rqBody r)) m of
            (res, m) \<Rightarrow> (p2p_result res, s\<lparr>hsP2P := Some m\<rparr>))"

definition handleP2PStatus :: "'p http_env \<Rightarrow> http_request \<Rightarrow> ('s, 'p) HTTPServer \<Rightarrow> http_response \<times> ('s, 'p) HTTPServer" where
  "handleP2PStatus E r s =
     (case hsP2P s of
        None \<Rightarrow> (p2p_not_configured, s)
      | Some m \<Rightarrow>
          if rqMethod r \<noteq> ''GET'' then (method_not_allowed, s)
          else case P2P_Status (heNow E) m of
            (status, m) \<Rightarrow> (Json (writeJSON StatusOK (P2PSessionStatus_json status)), s\<lparr>hsP2P := Some m\<rparr>))"

definition handleP2PStop :: "'p http_env \<Rightarrow> http_request \<Rightarrow> ('s, 'p) HTTPServer \<Rightarrow> http_response \<times> ('s, 'p) HTTPServer" where
  "handleP2PStop E r s =
     (case hsP2P s of
        None \<Rightarrow> (p2p_not_configured, s)
      | Some m \<Rightarrow>
          if rqMethod r \<noteq> ''POST'' then (method_not_allowed, s)
          else case P2P_Stop (heNow E) (hePion E) (heAckOrder E) m of
            (res, m) \<Rightarrow> (p2p_result res, s\<lparr>hsP2P := Some m\<rparr>))"

section \<open>Bootstrap and discovery\<close>

definition handleBootstrap :: "'p http_env \<Rightarrow> http_request \<Rightarrow> ('s, 'p) HTTPServer \<Rightarrow> http_response \<times> ('s, 'p) HTTPServer" where
  "handleBootstrap E r s =
     (if rqMethod r \<noteq> ''GET'' then (method_not_allowed, s)
      else case configuredBootstrapSignalingBaseURL (heNow E) (hsP2P s) of
        (configured, p2pManager) \<Rightarrow>
          let s = s\<lparr>hsP2P := p2pManager\<rparr>
          in (Json (writeJSON StatusOK (BootstrapResponse_json (buildBootstrapResponse (heThreadOrder E)
                (adapter_info (hsAdapter s) (hsRuntimeInfo s)) (agOrc (server_agent s)) (hsConfig s)
                (inferAgentBaseURL r (hcPublicAgentBaseURL (hsConfig s)))
                (resolveBootstrapSignalingBaseURL (heNet E) r configured (hcPublicSignalingBaseURL (hsConfig s)))))), s))"

definition lan_buildResponse :: "'p http_env \<Rightarrow> string \<Rightarrow> ('s, 'p) HTTPServer \<Rightarrow> LANDiscoveryResponse \<times> ('s, 'p) HTTPServer" where
  "lan_buildResponse E agentListenAddr s =
     (let displayName = (case heHostname E of Inl err \<Rightarrow> [] | Inr h \<Rightarrow> h);
          agentBaseURL = resolveDiscoveryAgentBaseURL (heNet E) (heInterfaces E) agentListenAddr (hcPublicAgentBaseURL (hsConfig s))
      in case configuredBootstrapSignalingBaseURL (heNow E) (hsP2P s) of
        (configured, p2pManager) \<Rightarrow>
          let s = s\<lparr>hsP2P := p2pManager\<rparr>;
              signalingBaseURL = resolveDiscoverySignalingBaseURL (heNet E) configured (hcPublicSignalingBaseURL (hsConfig s))
                (hostFromBaseURL (heNet E) agentBaseURL)
          in (\<lparr>ldrType = lanDiscoveryResultType, ldrVersion = lanDiscoveryVersion, ldrDisplayName = strings_TrimSpace displayName,
               ldrRespondedAt = UnixMilli (heNow E),
               ldrBootstrap = buildBootstrapResponse (heThreadOrder E) (adapter_info (hsAdapter s) (hsRuntimeInfo s))
                 (agOrc (server_agent s)) (hsConfig s) agentBaseURL signalingBaseURL\<rparr>, s))"

text \<open>
  One turn of \<open>serve\<close>: what \<open>ReadFrom\<close> gives (an error, or a datagram with its sender) and what is
  written back; \<open>False\<close> is the return of the loop. A failed write is only logged.
\<close>

definition ErrClosed :: goerror where "ErrClosed = ErrSentinel ''use of closed network connection''"

definition lan_serve_turn ::
    "'p http_env \<Rightarrow> string \<Rightarrow> (json option \<times> string) result \<Rightarrow> ('s, 'p) HTTPServer \<Rightarrow> bool \<times> (string \<times> json) option \<times> ('s, 'p) HTTPServer" where
  "lan_serve_turn E agentListenAddr got s =
     (case got of
        Inl err \<Rightarrow> if errors_Is err ErrClosed then (False, None, s) else (True, None, s)
      | Inr (raw, addr) \<Rightarrow>
          if \<not> acceptLANDiscoveryProbe raw then (True, None, s)
          else case lan_buildResponse E agentListenAddr s of
            (response, s) \<Rightarrow> (True, Some (addr, LANDiscoveryResponse_json response), s))"

text \<open>\<open>StartLANDiscoveryResponder\<close>: nothing, an error, or the address that the responder listens on.\<close>

definition StartLANDiscoveryResponder :: "(string \<Rightarrow> goerror option) \<Rightarrow> string \<Rightarrow> string \<Rightarrow> bool \<Rightarrow> (string \<times> string) option result" where
  "StartLANDiscoveryResponder listen addr agentListenAddr hasServer =
     (let addr = strings_TrimSpace addr in
      if addr = [] then Inr None
      else if \<not> hasServer then Inl (ErrNew ''lan discovery server is nil'')
      else case listen addr of Some err \<Rightarrow> Inl err | None \<Rightarrow> Inr (Some (addr, strings_TrimSpace agentListenAddr)))"

section \<open>Routing\<close>

text \<open>
  \<open>Handler\<close>, for a path in the canonical form to which \<open>ServeMux\<close> redirects the others; the last
  pattern ends in a slash and so matches a whole subtree.
\<close>

definition HTTPServer_Handler :: "'p http_env \<Rightarrow> http_request \<Rightarrow> ('s, 'p) HTTPServer \<Rightarrow> (http_response \<times> ('s, 'p) HTTPServer) option" where
  "HTTPServer_Handler E r s =
     (let p = rqPath r in
      if p = ''/healthz'' then Some (handleHealth E s)
      else if p = ''/metrics'' then Some (handlePrometheusMetrics E r s)
      else if p = ''/v1/agent/envelope'' then Some (handleEnvelope E r s)
      else if p = ''/v1/agent/runtime/state'' then handleRuntimeState E r s
      else if p = ''/v1/agent/runtime/metrics'' then Some (handleRuntimeMetrics E r s)
      else if p = ''/v1/agent/runtime/adapter'' then Some (handleRuntimeAdapter r s)
      else if p = ''/v1/agent/bootstrap'' then Some (handleBootstrap E r s)
      else if p = ''/v1/agent/runtime/acks/expired'' then handleExpiredAcks E r s
      else if p = ''/v1/agent/runtime/acks/pending'' then Some (handlePendingAcks E r s)
      else if p = ''/v1/agent/run-profiles'' then Some (handleRunProfiles E r s)
      else if p = ''/v1/agent/threads'' then Some (handleThreads E r s)
      else if p = ''/v1/agent/p2p/start'' then Some (handleP2PStart E r s)
      else if p = ''/v1/agent/p2p/status'' then Some (handleP2PStatus E r s)
      else if p = ''/v1/agent/p2p/stop'' then Some (handleP2PStop E r s)
      else if strings_HasPrefix p ''/v1/agent/threads/'' then Some (handleThreadDetail r s)
      else Some (Plain StatusNotFound (''404 page not found'' @ [LF]), s))"

end
