(* ===== verification/Agent_Main.thy ===== *)
theory Agent_Main
  imports Agent_Http Cursor_Bridge Relay Pairing_Store
begin

text \<open>
  The three programs (\<open>cmd/agent\<close>, \<open>cmd/relay\<close>, \<open>cmd/signaling\<close>) up to the point where they listen:
  the environment they read and the components they build. The URLs under which the agent calls
  the signalling server (\<open>internal/agent/p2p_session.go\<close>) are here too.
\<close>

section \<open>Environment\<close>

definition envOr :: "(string \<Rightarrow> string) \<Rightarrow> string \<Rightarrow> string \<Rightarrow> string" where
  "envOr getenv key fallback = (let v = getenv key in if v \<noteq> [] then v else fallback)"

definition envIntOr :: "(string \<Rightarrow> string) \<Rightarrow> string \<Rightarrow> int \<Rightarrow> int" where
  "envIntOr getenv key fallback =
     (let v = getenv key in
      if v = [] then fallback
      else case Atoi v of None \<Rightarrow> fallback | Some n \<Rightarrow> if n \<le> 0 then fallback else n)"

definition envDurationOr :: "(string \<Rightarrow> string) \<Rightarrow> (string \<Rightarrow> duration option) \<Rightarrow> string \<Rightarrow> duration \<Rightarrow> duration" where
  "envDurationOr getenv parse_duration key fallback =
     (let v = getenv key in
      if v = [] then fallback else case parse_duration v of None \<Rightarrow> fallback | Some d \<Rightarrow> d)"

text \<open>\<open>configDir\<close> is what \<open>os.UserConfigDir\<close> gives.\<close>

definition defaultThreadStorePath :: "(string list \<Rightarrow> string) \<Rightarrow> string result \<Rightarrow> string" where
  "defaultThreadStorePath join configDir =
     (case configDir of
        Inr dir \<Rightarrow> if strings_TrimSpace dir \<noteq> [] then join [dir, ''VibeDeck'', ''thread-store.json''] else join [''data'', ''thread-store.json'']
      | Inl err \<Rightarrow> join [''data'', ''thread-store.json''])"

section \<open>The agent\<close>

record agent_env =
  aeGetenv :: "string \<Rightarrow> string"
  aeConfigDir :: "string result"
  aeJoin :: "string list \<Rightarrow> string"
  aeProfileFile :: "string \<Rightarrow> profile_file"
  aeThreadFileError :: "goerror option"
  aeWorld :: World
  aeNow :: instant

text \<open>What \<open>NewWorkspaceAdapterFromEnv\<close> gives: the methods, the adapter's state, its runtime information.\<close>

record 's made =
  mdMethods :: "duration \<Rightarrow> 's WorkspaceAdapter"
  mdState :: 's
  mdInfo :: "AdapterRuntimeInfo option"

definition agent_main ::
    "agent_env \<Rightarrow> 's made result \<Rightarrow> (string \<times> string \<times> ('s, 'p) HTTPServer) result" where
  "agent_main E made =
     (let addr = envOr (aeGetenv E) ''AGENT_ADDR'' '':8080'';
          lanDiscoveryAddr = envOr (aeGetenv E) ''LAN_DISCOVERY_ADDR'' '':42777'';
          profilePath = envOr (aeGetenv E) ''RUN_PROFILE_FILE'' ''configs/run-profiles.json'';
          signalingBaseURL = envOr (aeGetenv E) ''SIGNALING_BASE_URL'' ''http://127.0.0.1:8081'';
          agentPublicBaseURL = envOr (aeGetenv E) ''AGENT_PUBLIC_BASE_URL'' [];
          signalingPublicBaseURL = envOr (aeGetenv E) ''SIGNALING_PUBLIC_BASE_URL'' [];
          threadStorePath = envOr (aeGetenv E) ''THREAD_STORE_FILE'' (defaultThreadStorePath (aeJoin E) (aeConfigDir E))
      in case LoadRunProfiles profilePath (aeProfileFile E profilePath) of
           Inl err \<Rightarrow> Inl (ErrWrap ''load run profiles: '' err [])
         | Inr profiles \<Rightarrow>
      (case made of
           Inl err \<Rightarrow> Inl (ErrWrap ''create workspace adapter: '' err [])
         | Inr ad \<Rightarrow>
      (case NewPersistentThreadStore threadStorePath (aeThreadFileError E) (aeWorld E) of
           Inl err \<Rightarrow> Inl (ErrWrap ''create thread store: '' err [])
         | Inr threadStore \<Rightarrow>
             let orchestrator = NewOrchestrator (mdState ad) (Some profiles) (Some threadStore) (aeWorld E);
                 stateManager = NewStateManager (aeNow E) DefaultManagerConfig;
                 ackTracker = NewAckTracker (2 * Second);
                 controlMetrics = NewControlMetrics;
                 agent = \<lparr>agOrc = Some orchestrator, agAcks = Some ackTracker, agMetrics = None, agConn = stateManager\<rparr>;
                 p2pManager = SetControlMetrics (Some controlMetrics) (NewP2PSessionManager (aeNow E) agent signalingBaseURL)
             in Inr (addr, lanDiscoveryAddr,
                  NewHTTPServer (Some (mdMethods ad 0)) (mdInfo ad) (mdMethods ad) (pmAgent p2pManager) True (Some p2pManager)
                    \<lparr>hcPublicAgentBaseURL = agentPublicBaseURL, hcPublicSignalingBaseURL = signalingPublicBaseURL,
                     hcBootstrapRecentThreadLimit = 0\<rparr>))))"

section \<open>The relay and the signalling server\<close>

definition relay_main :: "(string \<Rightarrow> string) \<Rightarrow> string \<times> Hub" where
  "relay_main getenv = (envOr getenv ''RELAY_ADDR'' '':8082'', NewHub (nat (envIntOr getenv ''RELAY_QUEUE_SIZE'' 128)))"

definition signaling_main :: "(string \<Rightarrow> string) \<Rightarrow> (string \<Rightarrow> duration option) \<Rightarrow> string \<times> Store" where
  "signaling_main getenv parse_duration =
     (envOr getenv ''SIGNALING_ADDR'' '':8081'', NewStore (envDurationOr getenv parse_duration ''PAIRING_TTL'' (2 * Minute)))"

section \<open>The URLs of the signalling server\<close>

definition buildPairingURL :: "netlib \<Rightarrow> string \<Rightarrow> string result" where
  "buildPairingURL N signalingBaseURL =
     (case nlParse N (strings_TrimSpace signalingBaseURL) of
        Inl err \<Rightarrow> Inl (ErrWrap ''parse signaling base url: '' err [])
      | Inr u \<Rightarrow>
          let u = (if uScheme u = [] then u\<lparr>uScheme := ''http''\<rparr> else u)
          in Inr (nlString N (u\<lparr>uPath := strings_TrimRight (uPath u) ''/'' @ ''/v1/pairings'', uRawQuery := []\<rparr>)))"

definition buildSessionWSURL :: "netlib \<Rightarrow> string \<Rightarrow> string \<Rightarrow> string \<Rightarrow> string \<Rightarrow> string result" where
  "buildSessionWSURL N signalingBaseURL sessionID deviceKey role =
     (case nlParse N (strings_TrimSpace signalingBaseURL) of
        Inl err \<Rightarrow> Inl (ErrWrap ''parse signaling base url: '' err [])
      | Inr u \<Rightarrow>
          (case (if uScheme u = ''http'' then Some ''ws'' else if uScheme u = ''https'' then Some ''wss''
                 else if uScheme u = ''ws'' \<or> uScheme u = ''wss'' then Some (uScheme u) else None) of
             None \<Rightarrow> Inl (ErrNew (''unsupported signaling base scheme: '' @ uScheme u))
           | Some scheme \<Rightarrow>
               let q = nlParseQuery N (uRawQuery u);
                   q = AList.update ''deviceKey'' [deviceKey] q;
                   q = (if role \<noteq> [] then AList.update ''role'' [role] q else q)
               in Inr (nlString N (u\<lparr>uScheme := scheme,
                    uPath := strings_TrimRight (uPath u) ''/'' @ ''/v1/sessions/'' @ sessionID @ ''/ws'',
                    uRawQuery := nlEncode N q\<rparr>))))"

text \<open>What \<open>Start\<close> calls, with these URLs.\<close>

definition agent_start_env ::
    "netlib \<Rightarrow> (string \<Rightarrow> http_reply) \<Rightarrow> (string \<Rightarrow> goerror option) \<Rightarrow> 'p result \<Rightarrow> 'p start_env" where
  "agent_start_env N post dial newPeerConnection =
     \<lparr>seBuildPairingURL = buildPairingURL N, sePost = post, seBuildSessionWSURL = buildSessionWSURL N,
      seDial = dial, seNewPeerConnection = newPeerConnection\<rparr>"

end
