(* ===== verification/Http_Flow.thy ===== *)
theory Http_Flow
  imports Agent_Main P2P_Flow Bootstrap_Laws
begin

text \<open>
  Runs of the whole agent program: what the three programs start with, the invariant that every
  request, discovery probe, turn of a session and timer keeps, and what the HTTP interface
  guarantees to a client.
\<close>

section \<open>Definitions\<close>

text \<open>The components that the transports share are there, and well formed.\<close>

definition holds_some :: "('a \<Rightarrow> bool) \<Rightarrow> 'a option \<Rightarrow> bool" where
  "holds_some P x \<longleftrightarrow> (case x of None \<Rightarrow> False | Some y \<Rightarrow> P y)"




text \<open>The methods that a path is served under; \<open>None\<close> for any method, or none.\<close>

definition route_methods :: "(string \<times> string list) list" where
  "route_methods = [(''/metrics'', [''GET'']), (''/v1/agent/envelope'', [''POST'']), (''/v1/agent/runtime/state'', [''GET'', ''POST'']),
     (''/v1/agent/runtime/metrics'', [''GET'']), (''/v1/agent/runtime/adapter'', [''GET'']), (''/v1/agent/bootstrap'', [''GET'']),
     (''/v1/agent/runtime/acks/expired'', [''GET'']), (''/v1/agent/runtime/acks/pending'', [''GET'']),
     (''/v1/agent/run-profiles'', [''GET'']), (''/v1/agent/threads'', [''GET'']), (''/v1/agent/p2p/start'', [''POST'']),
     (''/v1/agent/p2p/status'', [''GET'']), (''/v1/agent/p2p/stop'', [''POST''])]"

definition allowed_methods :: "string \<Rightarrow> string list option" where
  "allowed_methods p =
     (case map_of route_methods p of
        Some ms \<Rightarrow> Some ms
      | None \<Rightarrow> if strings_HasPrefix p ''/v1/agent/threads/'' then Some [''GET''] else None)"

definition p2p_paths :: "string list" where
  "p2p_paths = [''/v1/agent/p2p/start'', ''/v1/agent/p2p/status'', ''/v1/agent/p2p/stop'']"

text \<open>The server with the status of its session manager brought up to date, or as it was.\<close>

definition refreshed :: "instant \<Rightarrow> ('s, 'p) HTTPServer \<Rightarrow> ('s, 'p) HTTPServer" where
  "refreshed now s = s\<lparr>hsP2P := map_option (\<lambda>m. snd (P2P_Status now m)) (hsP2P s)\<rparr>"





definition ex_netlib :: netlib where
  "ex_netlib = \<lparr>nlParse = (\<lambda>s. Inr \<lparr>uScheme = ''http'', uHost = s, uPath = [], uRawQuery = [], uRest = []\<rparr>), nlString = uHost,
     nlLoopbackIP = (\<lambda>h. strings_HasPrefix h ''127.''), nlParseQuery = (\<lambda>q. []), nlEncode = (\<lambda>q. [])\<rparr>"

definition ex_http_env :: "string option http_env" where
  "ex_http_env = \<lparr>heNow = 0, heEnd = 0, heAckOrder = [], heThreadOrder = [], heProfileOrder = [], heTimeText = Itoa,
     heQuote = (\<lambda>s. s), heNet = ex_netlib, hePion = ex_pion, heStart = ex_start_env, heHostname = Inr ''pc'', heInterfaces = Inr []\<rparr>"

definition ex_http :: "(MockAdapter, string option) HTTPServer" where
  "ex_http = NewHTTPServer None None (\<lambda>d. mock_adapter) ex_agent True None
     \<lparr>hcPublicAgentBaseURL = [], hcPublicSignalingBaseURL = [], hcBootstrapRecentThreadLimit = 0\<rparr>"

definition ex_request :: "string \<Rightarrow> string \<Rightarrow> json option \<Rightarrow> http_request" where
  "ex_request m p body = \<lparr>rqMethod = m, rqPath = p, rqHost = ''pc:8080'', rqForwardedProto = [], rqTLS = False, rqBody = body\<rparr>"

section \<open>The agent under the turns of a session\<close>

lemma holds_some_simps [simp]:
  "holds_some P None = False" "holds_some P (Some y) = P y" "holds_some P (map_option f x) = holds_some (\<lambda>y. P (f y)) x"
  by (simp_all add: holds_some_def split: option.split)


lemma pmAgent_simps [simp]:
  "pmAgent (updateStateSnapshot now m) = pmAgent m"
  "pmAgent (conn_call now f m) = (pmAgent m)\<lparr>agConn := f (agConn (pmAgent m))\<rparr>"
  "pmAgent (fail_reconnect now msg m) = (pmAgent m)\<lparr>agConn := BeginReconnect now (agConn (pmAgent m))\<rparr>"
  "pmAgent (on_bridge i g m) = pmAgent m" "pmAgent (snd (P2P_Status now m)) = pmAgent m"
  by (simp_all add: updateStateSnapshot_def conn_call_def fail_reconnect_def on_bridge_def P2P_Status_def Let_def)

















section \<open>The server under requests and probes\<close>

lemma server_agent_simps [simp]:
  "server_agent (on_agent f s) = f (server_agent s)" "server_agent (refreshed now s) = server_agent s"
  "server_agent (s\<lparr>hsP2P := Some m\<rparr>) = pmAgent m"
  "hsP2P (on_agent f s) = map_option (\<lambda>m. m\<lparr>pmAgent := f (pmAgent m)\<rparr>) (hsP2P s)"
  "hsHasState (on_agent f s) = hsHasState s" "hsHasState (refreshed now s) = hsHasState s"
  "hsOrcAdapter (on_agent f s) = hsOrcAdapter s" "hsOrcAdapter (refreshed now s) = hsOrcAdapter s"
  by (auto simp: server_agent_def on_agent_def refreshed_def split: option.split)




lemma p2p_active_refreshed: "snd (p2p_active E s) = refreshed (heNow E) s"
  by (auto simp: p2p_active_def refreshed_def case_prod_beta split: option.split)

lemma configured_refreshed:
  "s\<lparr>hsP2P := snd (configuredBootstrapSignalingBaseURL now (hsP2P s))\<rparr> = refreshed now s"
  by (auto simp: configuredBootstrapSignalingBaseURL_def refreshed_def case_prod_beta Let_def split: option.split)





text \<open>The other handlers leave the server as it is but for the status.\<close>

lemma status_readers:
  "snd (handleHealth E s) = refreshed (heNow E) s"
  "snd (handleRuntimeMetrics E r s) = (if rqMethod r = ''GET'' then refreshed (heNow E) s else s)"
  "snd (handlePrometheusMetrics E r s) = (if rqMethod r = ''GET'' then refreshed (heNow E) s else s)"
  by (simp_all add: handleHealth_def handleRuntimeMetrics_def handlePrometheusMetrics_def
      p2p_active_refreshed [symmetric] case_prod_beta)

lemma bootstrap_readers:
  "snd (handleBootstrap E r s) = (if rqMethod r = ''GET'' then refreshed (heNow E) s else s)"
  "snd (lan_buildResponse E addr s) = refreshed (heNow E) s"
  by (simp_all add: handleBootstrap_def lan_buildResponse_def configured_refreshed [symmetric] case_prod_beta Let_def)

lemma readers:
  "snd (handleRuntimeAdapter r s) = s" "snd (handleRunProfiles E r s) = s" "snd (handleThreads E r s) = s"
  "snd (handleThreadDetail r s) = s" "snd (handlePendingAcks E r s) = s"
  by (simp_all add: Let_def handleRuntimeAdapter_def
      handleRunProfiles_def handleThreads_def handleThreadDetail_def handlePendingAcks_def split: option.split)

text \<open>The handlers of the paths.\<close>

lemma routed:
  "rqPath r = ''/healthz'' \<Longrightarrow> HTTPServer_Handler E r s = Some (handleHealth E s)"
  "rqPath r = ''/metrics'' \<Longrightarrow> HTTPServer_Handler E r s = Some (handlePrometheusMetrics E r s)"
  "rqPath r = ''/v1/agent/envelope'' \<Longrightarrow> HTTPServer_Handler E r s = Some (handleEnvelope E r s)"
  "rqPath r = ''/v1/agent/runtime/state'' \<Longrightarrow> HTTPServer_Handler E r s = handleRuntimeState E r s"
  "rqPath r = ''/v1/agent/runtime/metrics'' \<Longrightarrow> HTTPServer_Handler E r s = Some (handleRuntimeMetrics E r s)"
  "rqPath r = ''/v1/agent/runtime/adapter'' \<Longrightarrow> HTTPServer_Handler E r s = Some (handleRuntimeAdapter r s)"
  "rqPath r = ''/v1/agent/bootstrap'' \<Longrightarrow> HTTPServer_Handler E r s = Some (handleBootstrap E r s)"
  "rqPath r = ''/v1/agent/runtime/acks/expired'' \<Longrightarrow> HTTPServer_Handler E r s = handleExpiredAcks E r s"
  "rqPath r = ''/v1/agent/runtime/acks/pending'' \<Longrightarrow> HTTPServer_Handler E r s = Some (handlePendingAcks E r s)"
  "rqPath r = ''/v1/agent/run-profiles'' \<Longrightarrow> HTTPServer_Handler E r s = Some (handleRunProfiles E r s)"
  "rqPath r = ''/v1/agent/threads'' \<Longrightarrow> HTTPServer_Handler E r s = Some (handleThreads E r s)"
  "rqPath r = ''/v1/agent/p2p/start'' \<Longrightarrow> HTTPServer_Handler E r s = Some (handleP2PStart E r s)"
  "rqPath r = ''/v1/agent/p2p/status'' \<Longrightarrow> HTTPServer_Handler E r s = Some (handleP2PStatus E r s)"
  "rqPath r = ''/v1/agent/p2p/stop'' \<Longrightarrow> HTTPServer_Handler E r s = Some (handleP2PStop E r s)"
  by (simp_all add: HTTPServer_Handler_def)

lemma routed_other:
  assumes "rqPath r \<noteq> ''/healthz''" "map_of route_methods (rqPath r) = None"
  shows "HTTPServer_Handler E r s = Some (if strings_HasPrefix (rqPath r) ''/v1/agent/threads/'' then handleThreadDetail r s
    else (Plain StatusNotFound (''404 page not found'' @ [LF]), s))"
  using assms by (simp add: HTTPServer_Handler_def route_methods_def split: if_splits)

lemma refused:
  "rqMethod r \<noteq> ''GET'' \<Longrightarrow> handlePrometheusMetrics E r s = (method_not_allowed, s)"
  "rqMethod r \<noteq> ''GET'' \<Longrightarrow> handleRuntimeMetrics E r s = (method_not_allowed, s)"
  "rqMethod r \<noteq> ''GET'' \<Longrightarrow> handleRuntimeAdapter r s = (method_not_allowed, s)"
  "rqMethod r \<noteq> ''GET'' \<Longrightarrow> handleBootstrap E r s = (method_not_allowed, s)"
  "rqMethod r \<noteq> ''GET'' \<Longrightarrow> handleExpiredAcks E r s = Some (method_not_allowed, s)"
  "rqMethod r \<noteq> ''GET'' \<Longrightarrow> handlePendingAcks E r s = (method_not_allowed, s)"
  "rqMethod r \<noteq> ''GET'' \<Longrightarrow> handleRunProfiles E r s = (method_not_allowed, s)"
  "rqMethod r \<noteq> ''GET'' \<Longrightarrow> handleThreads E r s = (method_not_allowed, s)"
  "rqMethod r \<noteq> ''GET'' \<Longrightarrow> handleThreadDetail r s = (method_not_allowed, s)"
  "rqMethod r \<noteq> ''POST'' \<Longrightarrow> handleEnvelope E r s = (method_not_allowed, s)"
  "rqMethod r \<noteq> ''GET'' \<Longrightarrow> rqMethod r \<noteq> ''POST'' \<Longrightarrow> handleRuntimeState E r s = Some (method_not_allowed, s)"
  "rqMethod r \<noteq> ''POST'' \<Longrightarrow> handleP2PStart E r s = (if hsP2P s = None then p2p_not_configured else method_not_allowed, s)"
  "rqMethod r \<noteq> ''GET'' \<Longrightarrow> handleP2PStatus E r s = (if hsP2P s = None then p2p_not_configured else method_not_allowed, s)"
  "rqMethod r \<noteq> ''POST'' \<Longrightarrow> handleP2PStop E r s = (if hsP2P s = None then p2p_not_configured else method_not_allowed, s)"
  by (simp_all add: handlePrometheusMetrics_def handleEnvelope_def handleRuntimeState_def handleRuntimeMetrics_def
      handleRuntimeAdapter_def handleBootstrap_def handleExpiredAcks_def handlePendingAcks_def handleRunProfiles_def
      handleThreads_def handleThreadDetail_def handleP2PStart_def handleP2PStatus_def handleP2PStop_def split: option.split)

text \<open>What a request can do to the server, apart from the two handlers that may panic.\<close>

lemma route_cases:
  assumes "HTTPServer_Handler E r s = Some (resp, s')"
  shows "s' \<in> set [snd (handleEnvelope E r s), snd (handleP2PStart E r s), snd (handleP2PStop E r s),
      snd (handleP2PStatus E r s), refreshed (heNow E) s, s] \<or>
    handleRuntimeState E r s = Some (resp, s') \<or>
    rqPath r = ''/v1/agent/runtime/acks/expired'' \<and> handleExpiredAcks E r s = Some (resp, s')"
proof -
  have snd: "x = (resp, s') \<Longrightarrow> s' = snd x" for x by simp
  show ?thesis
    using assms unfolding HTTPServer_Handler_def Let_def
    by (simp only: split: if_splits) (auto simp: status_readers bootstrap_readers readers dest!: snd split: if_splits)
qed










section \<open>Properties\<close>



text \<open>
  C37: A request with a method that its path is not served under is answered with 405 and
  \<open>method not allowed\<close> (or, on the peer-to-peer paths of a server without a session manager, with
  501), and nothing of the server changes: in particular no GET submits a prompt, starts or stops
  a session.
\<close>
theorem wrong_method_refused:
  assumes "allowed_methods (rqPath r) = Some ms" "rqMethod r \<notin> set ms"
  shows "HTTPServer_Handler E r s = Some
    (if rqPath r \<in> set p2p_paths \<and> hsP2P s = None
     then Json (501, JObj [(''error'', JStr ''p2p manager is not configured'')])
     else Json (405, JObj [(''error'', JStr ''method not allowed'')]), s)"
proof -
  have e: "method_not_allowed = Json (405, JObj [(''error'', JStr ''method not allowed'')])"
    "p2p_not_configured = Json (501, JObj [(''error'', JStr ''p2p manager is not configured'')])" by code_simp+
  show ?thesis
  proof (cases "map_of route_methods (rqPath r)")
    case None
    with assms have "rqPath r \<noteq> ''/healthz''" "rqPath r \<notin> set p2p_paths"
      "strings_HasPrefix (rqPath r) ''/v1/agent/threads/''" "rqMethod r \<noteq> ''GET''"
      by (auto simp: allowed_methods_def p2p_paths_def route_methods_def strings_HasPrefix_def split: if_splits)
    with None show ?thesis by (simp add: routed_other refused e)
  next
    case (Some ms')
    with assms have "(rqPath r, ms) \<in> set route_methods" by (auto simp: allowed_methods_def dest: map_of_SomeD)
    then show ?thesis
      using assms(2) unfolding route_methods_def list.set insert_iff empty_iff prod.inject
      by (elim disjE conjE) (simp_all add: routed refused e p2p_paths_def)
  qed
qed

text \<open>
  C36: A GET request only reads: on every path, whatever it answers, the server is afterwards the
  same but for the time and state that the peer-to-peer status shows (brought up to date by
  \<open>Status\<close>). The one exception is \<open>/v1/agent/runtime/acks/expired\<close>, which removes exactly the
  answers that it reports and starts a reconnection if and only if it reports any.
\<close>
theorem get_reads_only:
  assumes "rqMethod r = ''GET''" "HTTPServer_Handler E r s = Some (resp, s')"
  shows "if rqPath r = ''/v1/agent/runtime/acks/expired'' \<and> agAcks (server_agent s) \<noteq> None
    then \<exists>t t' expired. agAcks (server_agent s) = Some t \<and> AckTracker_Expired (heNow E) (heAckOrder E) t = (t', expired) \<and>
      resp = Json (200, JObj [(''expired'', JArr (map (PendingAck_json (heTimeText E)) expired)),
        (''state'', enc_string (smState (agConn (server_agent s'))))]) \<and>
      s' = on_agent (\<lambda>a. a\<lparr>agAcks := Some t',
        agConn := if expired = [] then agConn a else BeginReconnect (heNow E) (agConn a)\<rparr>) s
    else s' = s \<or> s' = refreshed (heNow E) s"
proof (cases "rqPath r = ''/v1/agent/runtime/acks/expired''")
  case True
  then have h: "handleExpiredAcks E r s = Some (resp, s')" using assms(2) by (simp add: HTTPServer_Handler_def)
  have on2: "on_agent f (on_agent g s) = on_agent (\<lambda>a. f (g a)) s" for f g
    by (simp add: on_agent_def split: option.split)
  show ?thesis
  proof (cases "agAcks (server_agent s)")
    case (Some t)
    then show ?thesis
      using h assms(1) True
      by (auto simp: handleExpiredAcks_def expired_response_def ok_json_def writeJSON_def StateManager_State_def Let_def on2
          split: if_splits prod.splits)
  qed (use h assms(1) in \<open>auto simp: handleExpiredAcks_def split: if_splits\<close>)
next
  case False
  have "snd (handleEnvelope E r s) = s" "snd (handleP2PStart E r s) = s" "snd (handleP2PStop E r s) = s"
    using assms(1) by (simp_all add: refused)
  moreover have "snd (handleP2PStatus E r s) \<in> {s, refreshed (heNow E) s}"
    by (auto simp: handleP2PStatus_def refreshed_def case_prod_beta split: option.split)
  moreover have "handleRuntimeState E r s = Some (resp, s') \<Longrightarrow> s' = s"
    using assms(1) by (simp add: handleRuntimeState_def split: if_splits)
  ultimately show ?thesis using route_cases [OF assms(2)] False by auto
qed


text \<open>
  C8: A valid control message that is posted is handled once and answered in the response: with
  200 when it succeeded and 400 when not, its envelopes are those of the orchestrator, the
  acknowledgement first, and the tracker waits for each of the others. When the client then posts
  the acknowledgement of one of these, whatever the clock says, the server reports it as handled,
  and it is no longer waited for.
\<close>
theorem http_message_answered:
  assumes "rqMethod r = ''POST''" "rqPath r = ''/v1/agent/envelope''" "rqBody r = Some (Envelope_json env)"
    and "Envelope_ok env" "Type env \<noteq> TypeCmdAck"
    and "agOrc (server_agent s) = Some orc" "agAcks (server_agent s) = Some t" "clock_ok orc" "seq_room (orcSeq orc)"
    and "run_state (Orchestrator_HandleEnvelope (hsOrcAdapter s (controlEnvelopeTimeout (Type env))) env) orc = ((es, err), orc')"
    and "e \<in> set (tl es)" "Envelope_ok k" "Type k = TypeCmdAck" "DecodePayload k CmdAckPayload_unjson = Inr p" "caRequestRID p = RID e"
    and "r2 = r\<lparr>rqBody := Some (Envelope_json k)\<rparr>"
  shows "\<exists>s1 s2 n. HTTPServer_Handler E r s = Some (Json (case err of
        None \<Rightarrow> (200, JObj [(''responses'', JArr (map Envelope_json es))])
      | Some x \<Rightarrow> (400, JObj [(''error'', enc_string (Error x)), (''responses'', JArr (map Envelope_json es))])), s1) \<and>
    agOrc (server_agent s1) = Some orc' \<and> is_ack env (err = None) (hd es) \<and>
    (\<exists>t1. agAcks (server_agent s1) = Some t1 \<and> ack_waits t1 (RID e)) \<and>
    HTTPServer_Handler E2 r2 s1 = Some (Json (200, JObj [(''handled'', JBool True), (''pendingAcks'', JInt n),
      (''requestRid'', enc_string (RID e))]), s2) \<and>
    agOrc (server_agent s2) = Some orc' \<and> (\<exists>t2. agAcks (server_agent s2) = Some t2 \<and> \<not> ack_waits t2 (RID e))"
proof -
  let ?a = "(server_agent s)\<lparr>agOrc := Some orc', agMetrics := map_option (ControlMetrics_Observe (Type env) ''http''
    (time_Sub (heEnd E) (heNow E)) err) (agMetrics (server_agent s))\<rparr>"
  let ?a1 = "?a\<lparr>agAcks := registerAckableResponses (heEnd E) (Some t) es AckTransportHTTP False\<rparr>"
  define s1 where "s1 = on_agent (\<lambda>a. a\<lparr>agAcks := registerAckableResponses (heEnd E) (agAcks a) es AckTransportHTTP False\<rparr>)
    (on_agent (\<lambda>_. ?a) s)"
  have h: "handle_observed (heNow E) (heEnd E) (hsOrcAdapter s) ''http'' env (server_agent s) =
      ((zero_ControlHandleResult\<lparr>chrResponses := es\<rparr>, err), ?a)"
    using Router_orc [OF assms(5,6,10)] assms(5) by (simp add: handle_observed_def)
  have "reply_ok env (orcSeq orc) (es, err) (orcSeq orc')"
    using wp_run [OF HandleEnvelope_reply [OF assms(8,9)] assms(10)] .
  then obtain a bs where es: "es = a # bs" "is_ack env (err = None) a"
    "\<forall>e \<in> set bs. Type e \<in> {TypePromptAck, TypePatchReady, TypePatchResult, TypeRunResult}"
    by (auto simp: reply_ok_def)
  have env: "handleEnvelope E r s = (Json (case err of
        None \<Rightarrow> (200, JObj [(''responses'', JArr (map Envelope_json es))])
      | Some x \<Rightarrow> (400, JObj [(''error'', enc_string (Error x)), (''responses'', JArr (map Envelope_json es))])), s1)"
    using h assms(1,3,5) Envelope_dec_enc [OF assms(4)] es(1)
    by (simp add: handleEnvelope_def s1_def Let_def responses_json_def ok_json_def writeJSON_def split: option.split)
  obtain t1 where t1: "registerAckableResponses (heEnd E) (Some t) es AckTransportHTTP False = Some t1"
    by (simp add: registerAckable_fold)
  have ag: "server_agent s1 = ?a\<lparr>agAcks := Some t1\<rparr>" "hsOrcAdapter s1 = hsOrcAdapter s"
    using t1 assms(7) by (simp_all add: s1_def)
  have "Type e \<noteq> TypeCmdAck" using es assms(11) by auto
  then have w: "ack_waits t1 (RID e)" using registerAckable_waits [OF t1, of "RID e"] es(1) assms(11) by auto
  let ?t2 = "fst (ack_ack (heNow E2, RID e) t1)"
  have "\<not> ack_waits ?t2 (RID e)" using acks.ack_waits [of "(heNow E2, RID e)" t1 "RID e"] by simp
  moreover have "handleEnvelope E2 r2 s1 = (Json (200, JObj [(''handled'', JBool True), (''pendingAcks'', JInt (AckTracker_PendingCount ?t2)),
      (''requestRid'', enc_string (RID e))]), on_agent (\<lambda>_. (server_agent s1)\<lparr>agAcks := Some ?t2\<rparr>) s1)"
    using assms(1,13-16) Envelope_dec_enc [OF assms(12)] w
      Router_ack [OF assms(13) _ assms(14), of "server_agent s1" t1] ag
    by (simp add: handleEnvelope_def handle_observed_def Let_def ok_json_def writeJSON_def pending_count_def)
  ultimately show ?thesis
    using routed(3) [of r E s] routed(3) [of r2 E2 s1] assms(2,16) env es ag w by simp
qed


text \<open>
  C10: A probe on the local network, for an agent that listens on every interface and has no public
  URL configured: it is answered, once, to its sender, and nothing else of the server changes. The
  agent URL in the answer leads to the best address of this machine and the port that it listens
  on; the signalling URL, when the configured one names the loopback, leads to the same address and
  keeps its port; threads, workspace and adapter are those that the bootstrap request shows. A
  datagram that is no probe gets no answer.
\<close>
theorem probe_answered:
  assumes "acceptLANDiscoveryProbe raw" "hsP2P s = Some m" "hcPublicAgentBaseURL (hsConfig s) = []" "hcPublicSignalingBaseURL (hsConfig s) = []"
    and "splitHostPort (strings_TrimSpace listen) = (lh, port)" "lh = [] \<or> isWildcardHost lh" "port > 0"
    and "nlParse (heNet E) [] = Inr w0" "URL_Hostname w0 = []"
    and "h = pickBootstrapLANHost (heInterfaces E)" "h \<noteq> []" "agentURL = ''http://'' @ JoinHostPort h (Itoa port)"
    and "hostFromBaseURL (heNet E) agentURL = h" "strings_TrimSpace h = h"
    and "configuredBootstrapSignalingBaseURL (heNow E) (hsP2P s) = (base, m')" "base \<noteq> []" "normalizeBaseURL base = base"
    and "nlParse (heNet E) base = Inr u" "isLoopbackHost (heNet E) (strings_TrimSpace (URL_Hostname u))" "uScheme u = ''http''" "URL_Port u \<noteq> []"
  shows "\<exists>R. lan_serve_turn E listen (Inr (raw, addr)) s = (True, Some (addr, LANDiscoveryResponse_json R), refreshed (heNow E) s) \<and>
    ldrType R = ''vibedeck_discover_result'' \<and> ldrVersion R = 1 \<and>
    bsrAgentBaseURL (ldrBootstrap R) = agentURL \<and>
    bsrSignalingBaseURL (ldrBootstrap R) = normalizeBaseURL (nlString (heNet E) (u\<lparr>uHost := JoinHostPort h (URL_Port u)\<rparr>)) \<and>
    (\<forall>r. rqMethod r = ''GET'' \<longrightarrow> (\<exists>B s'. handleBootstrap E r s = (Json (200, BootstrapResponse_json B), s') \<and>
       ldrBootstrap R = B\<lparr>bsrAgentBaseURL := bsrAgentBaseURL (ldrBootstrap R), bsrSignalingBaseURL := bsrSignalingBaseURL (ldrBootstrap R)\<rparr>)) \<and>
    (\<forall>raw'. \<not> acceptLANDiscoveryProbe raw' \<longrightarrow> lan_serve_turn E listen (Inr (raw', addr)) s = (True, None, s))"
proof -
  let ?N = "heNet E"
  have nil: "normalizeBaseURL [] = []" by code_simp
  have host0: "hostFromBaseURL ?N [] = []" using assms(8,9) by (simp add: hostFromBaseURL_def nil strings_Trim_def strings_TrimRight_def)
  have "resolveBootstrapHost ?N (heInterfaces E) [] listen = h"
    using assms(5,6,10) host0 by (auto simp: resolveBootstrapHost_def Let_def)
  then have agent: "resolveDiscoveryAgentBaseURL ?N (heInterfaces E) listen [] = agentURL"
    using assms(5,7,11,12) by (simp add: resolveDiscoveryAgentBaseURL_def resolvePublicBaseURL_def nil Let_def)
  have "strings_TrimSpace ''http'' = ''http''" by code_simp
  then have sig: "resolveDiscoverySignalingBaseURL ?N base [] h = normalizeBaseURL (nlString ?N (u\<lparr>uHost := JoinHostPort h (URL_Port u)\<rparr>))"
    using assms(11,14-21) by (simp add: resolveDiscoverySignalingBaseURL_def resolvePublicBaseURL_def nil Let_def)
  define R where "R = fst (lan_buildResponse E listen s)"
  have ref: "refreshed (heNow E) s = s\<lparr>hsP2P := m'\<rparr>"
    using configured_refreshed [where s = s and now = "heNow E"] assms(15) by simp
  have R: "lan_buildResponse E listen s = (R, refreshed (heNow E) s)"
    using bootstrap_readers(2) [of E listen s] by (simp add: R_def prod_eq_iff)
  have "ldrType R = ''vibedeck_discover_result''" "ldrVersion R = 1" "bsrAgentBaseURL (ldrBootstrap R) = agentURL"
    "bsrSignalingBaseURL (ldrBootstrap R) = normalizeBaseURL (nlString ?N (u\<lparr>uHost := JoinHostPort h (URL_Port u)\<rparr>))"
    using assms(3,4,13,15) agent sig unfolding R_def
    by (simp_all add: lan_buildResponse_def lanDiscoveryResultType_def lanDiscoveryVersion_def buildBootstrapResponse_def
        Let_def case_prod_beta)
  moreover have "\<exists>B s'. handleBootstrap E r s = (Json (200, BootstrapResponse_json B), s') \<and>
      ldrBootstrap R = B\<lparr>bsrAgentBaseURL := bsrAgentBaseURL (ldrBootstrap R), bsrSignalingBaseURL := bsrSignalingBaseURL (ldrBootstrap R)\<rparr>"
    if "rqMethod r = ''GET''" for r
    using that assms(15) unfolding R_def
    by (simp add: handleBootstrap_def lan_buildResponse_def writeJSON_def buildBootstrapResponse_def Let_def case_prod_beta)
      (intro exI conjI, rule refl, simp)
  ultimately show ?thesis
    using assms(1) R by (intro exI [of _ R]) (simp add: lan_serve_turn_def)
qed

section \<open>Witnesses\<close>

definition ex_post :: "Envelope \<Rightarrow> http_request" where
  "ex_post env = ex_request ''POST'' ''/v1/agent/envelope'' (Some (Envelope_json env))"

lemma ex_request_simps [simp]:
  "rqMethod (ex_request m p b) = m" "rqPath (ex_request m p b) = p" "rqBody (ex_request m p b) = b"
  "rqMethod (ex_post env) = ''POST''" "rqPath (ex_post env) = ''/v1/agent/envelope''" "rqBody (ex_post env) = Some (Envelope_json env)"
  by (simp_all add: ex_request_def ex_post_def)

lemma ex_http_simps [simp]:
  "server_agent ex_http = ex_agent" "hsOrcAdapter ex_http = (\<lambda>d. mock_adapter)" "hsP2P ex_http = None"
  by (simp_all add: ex_http_def NewHTTPServer_def server_agent_def)



lemma wrong_method_refused_witness:
  "HTTPServer_Handler ex_http_env (ex_request ''DELETE'' ''/v1/agent/envelope'' None) ex_http =
     Some (Json (405, JObj [(''error'', JStr ''method not allowed'')]), ex_http)"
  by (subst wrong_method_refused [of _ "[''POST'']"]) (simp_all add: allowed_methods_def route_methods_def p2p_paths_def)

lemma get_reads_only_witness:
  "\<exists>resp. HTTPServer_Handler ex_http_env (ex_request ''GET'' ''/v1/agent/threads'' None) ex_http = Some (resp, ex_http)"
proof -
  obtain resp s' where h: "HTTPServer_Handler ex_http_env (ex_request ''GET'' ''/v1/agent/threads'' None) ex_http = Some (resp, s')"
    by (metis routed(11) ex_request_simps(2) prod.collapse)
  from get_reads_only [OF _ this] have "s' = ex_http" by (auto simp: refreshed_def)
  with h show ?thesis by blast
qed

lemma http_message_answered_witness:
  "\<exists>(e :: Envelope) (s1 :: (MockAdapter, string option) HTTPServer) n s2 resp. Type e = TypePromptAck \<and>
     HTTPServer_Handler ex_http_env (ex_post ex_prompt) ex_http = Some (resp, s1) \<and> HTTPServer_Handler ex_http_env (ex_post (ex_ack (RID e))) s1 =
     Some (Json (200, JObj [(''handled'', JBool True), (''pendingAcks'', JInt n), (''requestRid'', enc_string (RID e))]), s2)"
proof -
  let ?r = "run_state (Orchestrator_HandleEnvelope mock_adapter ex_prompt) ex_orc"
  obtain c e f where r: "fst ?r = ([c, e, f], None)" and e: "Type e = TypePromptAck" "Envelope_Validate e = None"
    using prompt_flow [OF orc.reach_inv [OF ex_reach] ex_clock(1) ex_room(1) ex_prompt_decodes ex_mock_serves
        prod.collapse [symmetric]] by (auto simp: job_started_def is_reply_def)
  have ok: "Envelope_ok ex_prompt" by code_simp
  have "valid_utf8 ''s1''" "valid_utf8 ''r9''" "valid_utf8 TypeCmdAck" by code_simp+
  then have k: "Envelope_ok (ex_ack (RID e))" "Type (ex_ack (RID e)) = TypeCmdAck"
    by (simp_all add: ex_ack_def Envelope_ok_def minInt64_def maxInt64_def)
  have run: "run_state (Orchestrator_HandleEnvelope (hsOrcAdapter ex_http (controlEnvelopeTimeout (Type ex_prompt))) ex_prompt) ex_orc =
      (([c, e, f], None), snd ?r)" using r by (simp add: prod_eq_iff)
  have r2: "ex_post (ex_ack (RID e)) = (ex_post ex_prompt)\<lparr>rqBody := Some (Envelope_json (ex_ack (RID e)))\<rparr>"
    by (simp add: ex_post_def ex_request_def)
  have ty: "Type ex_prompt \<noteq> TypeCmdAck" by (simp add: ex_prompt_decodes(2))
  have ag: "agOrc (server_agent ex_http) = Some ex_orc" "agAcks (server_agent ex_http) = Some (NewAckTracker 0)"
    "e \<in> set (tl [c, e, f])" "caRequestRID \<lparr>caRequestRID = RID e, caAccepted = True, caMessage = []\<rparr> = RID e"
    by (simp_all add: ex_agent_def)
  from http_message_answered [where r = "ex_post ex_prompt" and s = ex_http and E = ex_http_env and ?E2.0 = ex_http_env,
    OF ex_request_simps(4-6) ok ty ag(1,2) ex_clock(1) ex_room(1) run ag(3) k ex_ack_decodes ag(4) r2]
  obtain s1 :: "(MockAdapter, string option) HTTPServer" and n s2 resp where
    "HTTPServer_Handler ex_http_env (ex_post ex_prompt) ex_http = Some (resp, s1)" "HTTPServer_Handler ex_http_env (ex_post (ex_ack (RID e))) s1 =
      Some (Json (200, JObj [(''handled'', JBool True), (''pendingAcks'', JInt n), (''requestRid'', enc_string (RID e))]), s2)"
    by (elim exE conjE) (rule that)
  with e(1) show ?thesis by (intro exI [of _ e] exI [of _ s1] exI [of _ n] exI [of _ s2] exI [of _ resp] conjI)
qed


definition ex_lan :: "interface list" where
  "ex_lan = [\<lparr>ifUp = True, ifLoopback = False, ifAddrs = Inr [IPNet [192, 168, 0, 5]]\<rparr>]"

definition ex_lan_server :: "(MockAdapter, string option) HTTPServer" where
  "ex_lan_server = NewHTTPServer None None (\<lambda>d. mock_adapter) ex_agent True (Some (NewP2PSessionManager 0 ex_agent ''http://127.0.0.1:8081''))
     \<lparr>hcPublicAgentBaseURL = [], hcPublicSignalingBaseURL = [], hcBootstrapRecentThreadLimit = 0\<rparr>"

lemma probe_answered_witness:
  "\<exists>R. lan_serve_turn (ex_http_env\<lparr>heNet := ex_base, heInterfaces := Inr ex_lan\<rparr>) '':8080''
       (Inr (Some (JObj [(''type'', JStr ''vibedeck_discover''), (''version'', JInt 1)]), ''192.168.0.9'')) ex_lan_server =
       (True, Some (''192.168.0.9'', LANDiscoveryResponse_json R), refreshed 0 ex_lan_server) \<and>
     bsrAgentBaseURL (ldrBootstrap R) = ''http://192.168.0.5:8080'' \<and> bsrSignalingBaseURL (ldrBootstrap R) = ''http://192.168.0.5:8081''"
proof -
  let ?E = "ex_http_env\<lparr>heNet := ex_base, heInterfaces := Inr ex_lan\<rparr>"
  let ?m = "NewP2PSessionManager 0 ex_agent ''http://127.0.0.1:8081'' :: (MockAdapter, string option) P2PSessionManager"
  let ?u = "\<lparr>uScheme = ''http'', uHost = ''127.0.0.1:8081'', uPath = [], uRawQuery = [], uRest = []\<rparr>"
  have net: "heNet ?E = ex_base" "heInterfaces ?E = Inr ex_lan" "heNow ?E = 0" by (simp_all add: ex_http_env_def)
  have nil: "normalizeBaseURL [] = []" by code_simp
  have f1: "acceptLANDiscoveryProbe (Some (JObj [(''type'', JStr ''vibedeck_discover''), (''version'', JInt 1)]))" by code_simp
  have f2: "hsP2P ex_lan_server = Some ?m" by (simp add: ex_lan_server_def NewHTTPServer_def)
  have f3: "hcPublicAgentBaseURL (hsConfig ex_lan_server) = []" "hcPublicSignalingBaseURL (hsConfig ex_lan_server) = []"
    using nil by (simp_all add: ex_lan_server_def NewHTTPServer_def normalizeHTTPServerConfig_def Let_def)
  have f4: "splitHostPort (strings_TrimSpace '':8080'') = ([], 8080)" by code_simp
  have f5: "nlParse (heNet ?E) [] = Inr \<lparr>uScheme = ''http'', uHost = [], uPath = [], uRawQuery = [], uRest = []\<rparr>"
    "URL_Hostname \<lparr>uScheme = ''http'', uHost = [], uPath = [], uRawQuery = [], uRest = []\<rparr> = []" unfolding net by code_simp+
  have "lan_addresses ex_lan = [[192, 168, 0, 5]]" "IP_String4 [192, 168, 0, 5] = ''192.168.0.5''" by code_simp+
  then have f6: "''192.168.0.5'' = pickBootstrapLANHost (heInterfaces ?E)"
    unfolding net by (simp add: pickBootstrapLANHost_def candidates)
  have dig: "char_of (48 :: nat) = CHR ''0''" "char_of (56 :: nat) = CHR ''8''" by code_simp+
  have f7: "''http://192.168.0.5:8080'' = ''http://'' @ JoinHostPort ''192.168.0.5'' (Itoa 8080)"
    by (simp add: JoinHostPort_def Itoa_def nat_digits.simps [of 8080] nat_digits.simps [of 808] nat_digits.simps [of 80]
        nat_digits.simps [of 8] digit_char_def dig)
  have f8: "hostFromBaseURL (heNet ?E) ''http://192.168.0.5:8080'' = ''192.168.0.5''" "strings_TrimSpace ''192.168.0.5'' = ''192.168.0.5''"
    unfolding net by code_simp+
  obtain m' where f9: "configuredBootstrapSignalingBaseURL (heNow ?E) (hsP2P ex_lan_server) = (''http://127.0.0.1:8081'', m')"
  proof -
    have "normalizeBaseURL (strings_TrimSpace ''http://127.0.0.1:8081'') = ''http://127.0.0.1:8081''"
      "strings_TrimSpace ''http://127.0.0.1:8081'' \<noteq> []" by code_simp+
    then have "fst (configuredBootstrapSignalingBaseURL 0 (Some ?m)) = ''http://127.0.0.1:8081''"
      using nil by (simp add: configuredBootstrapSignalingBaseURL_def P2P_Status_def NewP2PSessionManager_def DefaultSignalingBaseURL_def)
    then show thesis using that unfolding f2 net by (metis prod.collapse)
  qed
  have f10: "normalizeBaseURL ''http://127.0.0.1:8081'' = ''http://127.0.0.1:8081''" by code_simp
  have f11: "nlParse (heNet ?E) ''http://127.0.0.1:8081'' = Inr ?u" "isLoopbackHost (heNet ?E) (strings_TrimSpace (URL_Hostname ?u))"
    "uScheme ?u = ''http''" "URL_Port ?u \<noteq> []" unfolding net by code_simp+
  have ne: "''192.168.0.5'' \<noteq> []" "''http://127.0.0.1:8081'' \<noteq> []" "(8080::int) > 0" "[] = [] \<or> isWildcardHost []" by simp_all
  have sig: "normalizeBaseURL (nlString (heNet ?E) (?u\<lparr>uHost := JoinHostPort ''192.168.0.5'' (URL_Port ?u)\<rparr>)) = ''http://192.168.0.5:8081''"
    unfolding net by code_simp
  show ?thesis
    using probe_answered [OF f1 f2 f3 f4 ne(4) ne(3) f5 f6 ne(1) f7 f8 f9 ne(2) f10 f11, of "''192.168.0.9''"] unfolding sig net(3) by blast
qed

end
