(* ===== verification/Connect_Flow.thy ===== *)
theory Connect_Flow
  imports Agent_Main P2P_Flow
begin

text \<open>
  The agent and the signalling server together: the URLs that the agent builds lead to the handlers
  of the server, which recognise the agent by the key that they have just given to it.
\<close>

section \<open>Definitions\<close>

text \<open>The two URLs, for a configured base \<open>u\<close> without a path.\<close>

definition pairing_url :: "URL \<Rightarrow> URL" where
  "pairing_url u = u\<lparr>uPath := ''/v1/pairings'', uRawQuery := []\<rparr>"

definition session_query :: "string \<Rightarrow> (string, string list) gomap" where
  "session_query key = [(''deviceKey'', [key]), (''role'', [''pc''])]"

definition session_url :: "netlib \<Rightarrow> URL \<Rightarrow> string \<Rightarrow> string \<Rightarrow> URL" where
  "session_url N u sid key = u\<lparr>uScheme := if uScheme u = ''https'' then ''wss'' else ''ws'',
     uPath := ''/v1/sessions/'' @ sid @ ''/ws'', uRawQuery := nlEncode N (session_query key)\<rparr>"

text \<open>What the agent relies on of \<open>net/url\<close>: these URLs and this query are read as they were written.\<close>

definition token :: "string \<Rightarrow> bool" where
  "token s \<longleftrightarrow> s \<noteq> [] \<and> list_all plain_byte s"

definition url_laws :: "netlib \<Rightarrow> URL \<Rightarrow> bool" where
  "url_laws N u \<longleftrightarrow> nlParseQuery N [] = [] \<and> nlParse N (nlString N (pairing_url u)) = Inr (pairing_url u) \<and>
     (\<forall>sid key. token sid \<longrightarrow> token key \<longrightarrow>
        nlParse N (nlString N (session_url N u sid key)) = Inr (session_url N u sid key) \<and>
        nlParseQuery N (nlEncode N (session_query key)) = session_query key)"

text \<open>The network: a URL is read by the server, its path and query given to the handler.\<close>

definition query_get :: "(string, string list) gomap \<Rightarrow> string \<Rightarrow> string" where
  "query_get q k = (case map_of q k of Some (v # vs) \<Rightarrow> v | _ \<Rightarrow> [])"

definition signaling_post :: "netlib \<Rightarrow> response \<Rightarrow> string \<Rightarrow> http_reply" where
  "signaling_post N reply s =
     (case nlParse N s of
        Inl err \<Rightarrow> NewRequestFailed err
      | Inr w \<Rightarrow> if uPath w = ''/v1/pairings'' then Reply (fst reply) (Some (snd reply)) else Reply StatusNotFound None)"

definition signaling_request :: "netlib \<Rightarrow> instant \<Rightarrow> Store \<Rightarrow> string \<Rightarrow> (goerror + response) + (string \<times> Role)" where
  "signaling_request N now s url =
     (case nlParse N url of
        Inl err \<Rightarrow> Inl (Inl err)
      | Inr w \<Rightarrow>
          (let q = nlParseQuery N (uRawQuery w)
           in case handleSessionWS_request (uPath w) (query_get q ''deviceKey'') (query_get q ''role'') now s of
                Inl r \<Rightarrow> Inl (Inr r) | Inr x \<Rightarrow> Inr x))"

definition signaling_dial :: "netlib \<Rightarrow> instant \<Rightarrow> Store \<Rightarrow> string \<Rightarrow> goerror option" where
  "signaling_dial N now s url =
     (case signaling_request N now s url of
        Inl (Inl err) \<Rightarrow> Some err | Inl (Inr r) \<Rightarrow> Some (ErrNew ''websocket: bad handshake'') | Inr x \<Rightarrow> None)"

section \<open>An example\<close>

definition ex_url :: URL where
  "ex_url = \<lparr>uScheme = ''http'', uHost = ''127.0.0.1:8081'', uPath = [], uRawQuery = [], uRest = []\<rparr>"

text \<open>A library that knows this base: the path and the query are separated by a zero byte.\<close>

definition ex_urls :: netlib where
  "ex_urls = \<lparr>nlParse = (\<lambda>s. if s = ''http://127.0.0.1:8081'' then Inr ex_url else
       (case s of [] \<Rightarrow> Inl ErrClosed | c # cs \<Rightarrow>
          Inr (ex_url\<lparr>uScheme := if c = CHR ''w'' then ''ws'' else ''http'', uPath := takeWhile (\<lambda>d. d \<noteq> CHR 0x00) cs,
            uRawQuery := tl (dropWhile (\<lambda>d. d \<noteq> CHR 0x00) cs)\<rparr>))),
     nlString = (\<lambda>u. (if uScheme u = ''ws'' then CHR ''w'' else CHR ''p'') # uPath u @ CHR 0x00 # uRawQuery u),
     nlLoopbackIP = (\<lambda>h. False),
     nlParseQuery = (\<lambda>q. case q of [] \<Rightarrow> [] | c # key \<Rightarrow> session_query key),
     nlEncode = (\<lambda>q. CHR ''k'' # query_get q ''deviceKey'')\<rparr>"

section \<open>Lemmas\<close>

lemma token_base32: "b \<noteq> [] \<Longrightarrow> token (strings_ToLower (base32_EncodeToString b))"
  using randomToken_nonempty [of b "strings_ToLower (base32_EncodeToString b)"] base32_upper [of b]
  by (auto simp: token_def list_all_iff randomToken_def intro: base32_lower_chars(1))

lemma pairing_url_built:
  assumes "nlParse N (strings_TrimSpace base) = Inr u" "uScheme u = ''http'' \<or> uScheme u = ''https''" "strings_TrimRight (uPath u) ''/'' = []"
  shows "buildPairingURL N base = Inr (nlString N (pairing_url u))"
  using assms by (auto simp: buildPairingURL_def pairing_url_def)

lemma session_url_built:
  assumes "nlParse N (strings_TrimSpace base) = Inr u" "uScheme u = ''http'' \<or> uScheme u = ''https''"
    and "strings_TrimRight (uPath u) ''/'' = []" "nlParseQuery N (uRawQuery u) = []"
  shows "buildSessionWSURL N base sid key ''pc'' = Inr (nlString N (session_url N u sid key))"
  using assms by (auto simp: buildSessionWSURL_def session_url_def session_query_def)

section \<open>Properties\<close>

text \<open>
  C9: Starting a session end to end, over the two URLs that the agent builds and the server reads:
  while no session is active, \<open>Start\<close> against a signalling server that creates the pairing succeeds;
  its status shows the code, the session and the expiry of the pairing that the server stored, in
  the state SIGNALING; and the websocket that it opened was accepted by the server as the PC of
  that session, by the key that only this agent has.
\<close>
theorem start_reaches_signaling:
  assumes "pmActive m = None" "nlParse N (strings_TrimSpace (start_base_url req m)) = Inr u" "uScheme u = ''http'' \<or> uScheme u = ''https''"
    and "strings_TrimRight (uPath u) ''/'' = []" "uRawQuery u = []" "url_laws N u"
    and "handlePairings ''POST'' now0 order (Inr b1) (Inr b2) (Inr b3) now s = ((status, body), s')" "b1 \<noteq> []" "b2 \<noteq> []" "b3 \<noteq> []"
    and "minInt64 \<le> UnixMilli (now + psTtl s)" "UnixMilli (now + psTtl s) \<le> maxInt64" "now' \<le> now + psTtl s"
    and "NewPeer L (webrtc_DefaultConfig SidePC) pc = Inr peer"
    and "E = agent_start_env N (signaling_post N (status, body)) (signaling_dial N now' s') pc"
  shows "\<exists>m' rt pairing. P2P_Start now1 L E req m = ((pmStatus m', None), m') \<and>
    pmActive m' = Some (length (pmRuntimes m)) \<and> pmRuntimes m' = pmRuntimes m @ [rt] \<and> pairing \<in> set (psHeap s') \<and>
    pssActive (pmStatus m') \<and> pssSessionID (pmStatus m') = pgSessionID pairing \<and> pssPairingCode (pmStatus m') = pgCode pairing \<and>
    pssExpiresAt (pmStatus m') = UnixMilli (pgExpiresAt pairing) \<and> pssState (pmStatus m') = StateSignaling \<and>
    signaling_request N now' s' (rtWsURL rt) = Inr (pgSessionID pairing, RolePC)"
proof -
  let ?base = "start_base_url req m"
  have post: "signaling_post N (status, body) (nlString N (pairing_url u)) = Reply status (Some body)"
    using assms(6) by (simp add: signaling_post_def url_laws_def) (simp add: pairing_url_def)
  obtain p pairing where p: "createPairing (buildPairingURL N) (signaling_post N (status, body)) ?base = Inr p"
    "pairing \<in> set (psHeap s')" "pcrCode p = pgCode pairing" "pcrSessionID p = pgSessionID pairing"
    "pcrExpiresAt p = UnixMilli (pgExpiresAt pairing)"
    "pcrSessionID p = strings_ToLower (base32_EncodeToString b2)" "pcrPCDeviceKey p = strings_ToLower (base32_EncodeToString b3)"
    "handleSessionWS_request (''/v1/sessions/'' @ pcrSessionID p @ ''/ws'') (pcrPCDeviceKey p) ''pc'' now' s' = Inr (pcrSessionID p, RolePC)"
    using pairing_handshake [where buildPairingURL = "buildPairingURL N" and url = ?base and post = "signaling_post N (status, body)",
      OF assms(7-10) pairing_url_built [OF assms(2-4)] post assms(11-13)] by blast
  let ?w = "session_url N u (pcrSessionID p) (pcrPCDeviceKey p)"
  have tok: "token (pcrSessionID p)" "token (pcrPCDeviceKey p)" using token_base32 assms(9,10) p(6,7) by simp_all
  have w: "buildSessionWSURL N ?base (pcrSessionID p) (pcrPCDeviceKey p) ''pc'' = Inr (nlString N ?w)"
    by (rule session_url_built [OF assms(2-4)]) (use assms(5,6) in \<open>simp add: url_laws_def\<close>)
  have "nlParse N (nlString N ?w) = Inr ?w" "nlParseQuery N (uRawQuery ?w) = session_query (pcrPCDeviceKey p)"
    using assms(6) tok by (simp_all add: url_laws_def) (simp add: session_url_def)
  then have req: "signaling_request N now' s' (nlString N ?w) = Inr (pcrSessionID p, RolePC)"
    using p(8) by (simp add: signaling_request_def query_get_def session_query_def) (simp add: session_url_def)
  then have dial: "signaling_dial N now' s' (nlString N ?w) = None" by (simp add: signaling_dial_def)
  have "pcrSessionID p \<noteq> []" using tok(1) by (simp add: token_def)
  then obtain br where br: "NewSignalBridge (pcrSessionID p) SidePC (Some peer) = Inr br"
    by (simp add: NewSignalBridge_def)
  let ?rt = "\<lparr>rtSessionID = pcrSessionID p, rtPairingCode = pcrCode p, rtExpiresAt = pcrExpiresAt p,
    rtWsURL = nlString N ?w, rtBridge = br, rtWsClosed = False, rtCancelled = False\<rparr>"
  have prep: "Start_prepare L E ?base = Inr ?rt"
    using p(1) w dial assms(14) br by (simp add: Start_prepare_def assms(15) agent_start_env_def)
  show ?thesis
    by (rule exI [of _ "snd (P2P_Status now1 (Start_install now1 ?base ?rt m))"], rule exI [of _ ?rt], rule exI [of _ pairing])
      (use prep p req assms(1) in \<open>simp add: P2P_Start_def Start_check_def Start_install_def P2P_Status_def conn_call_def
        updateStateSnapshot_def StateManager_State_def BeginSignaling_def setState_def pm_conn_def Let_def\<close>)
qed

section \<open>Witnesses\<close>

lemma ex_url_laws: "url_laws ex_urls ex_url"
proof -
  have cut: "takeWhile (\<lambda>d. d \<noteq> CHR 0x00) (p @ CHR 0x00 # q) = p" "dropWhile (\<lambda>d. d \<noteq> CHR 0x00) (p @ CHR 0x00 # q) = CHR 0x00 # q"
    if "list_all plain_byte p" for p q
  proof -
    have "\<not> plain_byte CHR 0x00" by code_simp
    with that have "\<forall>d \<in> set p. d \<noteq> CHR 0x00" by (auto simp: list_all_iff)
    then show "takeWhile (\<lambda>d. d \<noteq> CHR 0x00) (p @ CHR 0x00 # q) = p" "dropWhile (\<lambda>d. d \<noteq> CHR 0x00) (p @ CHR 0x00 # q) = CHR 0x00 # q"
      by (simp_all add: takeWhile_append2 dropWhile_append3)
  qed
  have parse: "nlParse ex_urls (nlString ex_urls v) = Inr v"
    if "v = ex_url\<lparr>uScheme := sc, uPath := p, uRawQuery := q\<rparr>" "sc = ''ws'' \<or> sc = ''http''" "list_all plain_byte p" for v sc p q
    using that cut [OF that(3), of q] by (auto simp: ex_urls_def)
  have "list_all plain_byte ''/v1/sessions/''" "list_all plain_byte ''/ws''" "list_all plain_byte ''/v1/pairings''" by code_simp+
  then have "nlParse ex_urls (nlString ex_urls (session_url ex_urls ex_url sid key)) = Inr (session_url ex_urls ex_url sid key)"
    if "token sid" for sid key
    using that by (intro parse [where sc = "''ws''" and p = "''/v1/sessions/'' @ sid @ ''/ws''" and q = "nlEncode ex_urls (session_query key)"])
      (simp_all add: session_url_def token_def ex_url_def)
  moreover have "nlParse ex_urls (nlString ex_urls (pairing_url ex_url)) = Inr (pairing_url ex_url)"
    by (rule parse [where sc = "''http''" and p = "''/v1/pairings''" and q = "[]"])
      (use \<open>list_all plain_byte ''/v1/pairings''\<close> in \<open>simp_all add: pairing_url_def ex_url_def\<close>)
  moreover have "nlParseQuery ex_urls (nlEncode ex_urls (session_query key)) = session_query key" "nlParseQuery ex_urls [] = []" for key
    by (simp_all add: ex_urls_def query_get_def session_query_def)
  ultimately show ?thesis by (simp add: url_laws_def)
qed

definition ex_main_manager :: "(MockAdapter, string option) P2PSessionManager" where
  "ex_main_manager = NewP2PSessionManager 0 ex_agent ''http://127.0.0.1:8081''"

lemma start_reaches_signaling_witness:
  "\<exists>E m' rt pairing (s' :: Store). P2P_Start 0 ex_pion E \<lparr>sprSignalingBaseURL = []\<rparr> ex_main_manager = ((pmStatus m', None), m') \<and>
     pmRuntimes m' = [rt] \<and> pairing \<in> set (psHeap s') \<and> pssState (pmStatus m') = StateSignaling \<and>
     signaling_request ex_urls 1 s' (rtWsURL rt) = Inr (pgSessionID pairing, RolePC)"
proof -
  let ?h = "handlePairings ''POST'' 0 [] (Inr ''a'') (Inr ''b'') (Inr ''c'') 0 (NewStore Minute)"
  have h: "?h = ((fst (fst ?h), snd (fst ?h)), snd ?h)" by simp
  have b: "minInt64 \<le> UnixMilli (0 + psTtl (NewStore Minute))" "UnixMilli (0 + psTtl (NewStore Minute)) \<le> maxInt64"
    "1 \<le> 0 + psTtl (NewStore Minute)"
    by (simp_all add: NewStore_def Minute_def Second_def Millisecond_def UnixMilli_def minInt64_def maxInt64_def)
  have m: "pmActive ex_main_manager = None" "pmRuntimes ex_main_manager = []" by code_simp+
  have base: "strings_TrimSpace (start_base_url \<lparr>sprSignalingBaseURL = []\<rparr> ex_main_manager) = ''http://127.0.0.1:8081''" by code_simp
  have u: "nlParse ex_urls (strings_TrimSpace (start_base_url \<lparr>sprSignalingBaseURL = []\<rparr> ex_main_manager)) = Inr ex_url"
    "uScheme ex_url = ''http'' \<or> uScheme ex_url = ''https''" "strings_TrimRight (uPath ex_url) ''/'' = []" "uRawQuery ex_url = []"
    unfolding base by (simp_all add: ex_urls_def ex_url_def strings_TrimRight_def)
  have peer: "NewPeer ex_pion (webrtc_DefaultConfig SidePC) (Inr None) = Inr (ex_peer SidePC)" by code_simp
  have ne: "''a'' \<noteq> []" "''b'' \<noteq> []" "''c'' \<noteq> []" by simp_all
  from start_reaches_signaling [OF m(1) u ex_url_laws h ne b peer refl, of 0] m(2) show ?thesis by fastforce
qed

end
